(* ===== verification/Prelude.thy ===== *)
theory Prelude
  imports Main "HOL-Library.Word"
begin

text \<open>
  Shared vocabulary of the development: the machine integer types of the C++ sources, the
  decimal and hexadecimal renderings that the \<open>fmt\<close> library produces for the integers the
  recompiler prints, the substitution of \<open>{}\<close> fields in a format string, and the bit-level
  lemmas on words that several components use.
\<close>

unbundle bit_operations_syntax

type_synonym u8 = "8 word"
type_synonym u16 = "16 word"
type_synonym u32 = "32 word"
type_synonym u64 = "64 word"

named_theorems emit_defs \<open>definitions of the helpers of the emitter\<close>
named_theorems cpp_eval \<open>evaluation rules of emitted C++ expressions and statements\<close>

subsection \<open>Rendering of integers\<close>

definition digit_char :: "nat \<Rightarrow> char" where
  "digit_char d = char_of (if d < 10 then 48 + d else 55 + d)"

fun radix_string :: "nat \<Rightarrow> nat \<Rightarrow> string" where
  "radix_string b n =
     (if n < b \<or> b < 2 then [digit_char n] else radix_string b (n div b) @ [digit_char (n mod b)])"

declare radix_string.simps [simp del]

definition dec_string :: "int \<Rightarrow> string" where
  "dec_string i = (if i < 0 then ''-'' @ radix_string 10 (nat (- i)) else radix_string 10 (nat i))"

definition hex_string :: "int \<Rightarrow> string" where
  "hex_string i = (if i < 0 then ''-'' @ radix_string 16 (nat (- i)) else radix_string 16 (nat i))"

text \<open>Reading decimal digits back.\<close>

definition digits_value :: "string \<Rightarrow> nat" where
  "digits_value s = foldl (\<lambda>a c. a * 10 + (of_char c - 48)) 0 s"

lemma digits_value_radix: "digits_value (radix_string 10 n) = n"
proof (induction "10 :: nat" n rule: radix_string.induct)
  case (1 n)
  have digit: "of_char (digit_char d) - 48 = d" if "d < 10" for d
    using that by (simp add: digit_char_def of_char_of)
  show ?case
    using 1 digit [of "n mod 10"] digit [of n]
    by (subst radix_string.simps) (auto simp: digits_value_def)
qed

subsection \<open>Format strings\<close>

text \<open>
  \<open>fmt_render f s\<close> replaces the replacement fields of the format string \<open>s\<close>:
  \<open>{}\<close> takes the next argument in decimal, \<open>{:X}\<close> the next one in hexadecimal, \<open>{d}\<close>
  the argument number \<open>d\<close>, and a doubled brace stands for one brace. \<open>f i hex\<close> is
  the text of the argument number \<open>i\<close>.
\<close>

fun fmt_render :: "(nat \<Rightarrow> bool \<Rightarrow> string) \<Rightarrow> nat \<Rightarrow> string \<Rightarrow> string" where
  "fmt_render f n [] = []"
| "fmt_render f n (c # cs) =
     (if c = CHR ''{'' then
        (case cs of
           [] \<Rightarrow> []
         | d # ds \<Rightarrow>
             if d = CHR ''{'' then CHR ''{'' # fmt_render f n ds
             else if d = CHR ''}'' then f n False @ fmt_render f (Suc n) ds
             else if d = CHR '':'' then f n True @ fmt_render f (Suc n) (drop 2 ds)
             else f (of_char d - 48) False @ fmt_render f n (drop 1 ds))
      else if c = CHR ''}'' then CHR ''}'' # fmt_render f n (drop 1 cs)
      else c # fmt_render f n cs)"

subsection \<open>Words\<close>

lemma word_and_mask_unat:
  "unat (x AND mask n :: 'a::len word) = unat x mod 2 ^ n"
proof -
  have "unat (x AND mask n) = take_bit n (unat x)"
    by (simp only: take_bit_eq_mask [symmetric] unsigned_take_bit_eq)
  then show ?thesis by (simp only: take_bit_eq_mod)
qed

lemma and_63_unat: "unat (x AND 63 :: 'a::len word) = unat x mod 64"
proof -
  have "(63 :: 'a word) = mask 6" by (simp add: mask_eq_exp_minus_1)
  then show ?thesis using word_and_mask_unat [of x 6] by simp
qed

end
