(* ===== verification/Cpp.thy ===== *)
theory Cpp
  imports Prelude
begin

text \<open>
  The fragment of C++ that the recompiler prints, as abstract syntax with a printer. An
  argument of \<open>println\<close> in \<open>recompiler.cpp\<close> that names a register is a variable here,
  an argument that is a number is a decimal or a hexadecimal literal, and the text of the
  format string around the arguments is the syntax tree. \<open>show_stmt\<close> gives back the
  line (or lines) of text that the \<open>println\<close> calls append to the output.
  Lines whose meaning is not modelled (vector and floating-point intrinsics) are kept as
  their format string and arguments (\<open>Txt\<close>).
\<close>

subsection \<open>Registers and their fields\<close>

text \<open>The objects a generated function can name; see \<open>PPCContext\<close> in \<open>ppc_context.h\<close>.\<close>

datatype regname =
    GPR nat | FPR nat | VREG nat | CRREG nat | CTR | XERREG | RESERVED
  | TEMP | VTEMP | ENV | EA

text \<open>A register lives in the context structure or is a local variable of the function.\<close>

datatype var = Ctx regname | Loc regname

text \<open>The members of the unions and structures of \<open>ppc_context.h\<close>.\<close>

datatype field =
    Fs8 | Fu8 | Fs16 | Fu16 | Fs32 | Fu32 | Fs64 | Fu64 | Ff32 | Ff64
  | Flt | Fgt | Feq | Fso | Fov | Fca

datatype cty = CTy (cwidth: nat) (csigned: bool)

abbreviation int8_t :: cty where "int8_t \<equiv> CTy 8 True"
abbreviation uint8_t :: cty where "uint8_t \<equiv> CTy 8 False"
abbreviation int16_t :: cty where "int16_t \<equiv> CTy 16 True"
abbreviation uint16_t :: cty where "uint16_t \<equiv> CTy 16 False"
abbreviation int32_t :: cty where "int32_t \<equiv> CTy 32 True"
abbreviation uint32_t :: cty where "uint32_t \<equiv> CTy 32 False"
abbreviation int64_t :: cty where "int64_t \<equiv> CTy 64 True"
abbreviation uint64_t :: cty where "uint64_t \<equiv> CTy 64 False"
abbreviation int128_t :: cty where "int128_t \<equiv> CTy 128 True"
abbreviation uint128_t :: cty where "uint128_t \<equiv> CTy 128 False"

subsection \<open>Expressions and statements\<close>

datatype binop =
    Add | Sub | Mul | Div | BAnd | BOr | BXor | Shl | Shr
  | Lt | Gt | Le | Ge | Eq | Ne | LAnd

datatype cfun =
    LoadU nat       \<comment> \<open>\<open>PPC_LOAD_U8(x)\<close> and its wider forms\<close>
  | RawU nat        \<comment> \<open>\<open>*(uint32_t*)(base + x)\<close>, no byte swap\<close>
  | Bswap nat       \<comment> \<open>\<open>__builtin_bswap16\<close> and its wider forms\<close>
  | Rotl nat        \<comment> \<open>\<open>__builtin_rotateleft32\<close> and \<open>64\<close>\<close>
  | Clz nat         \<comment> \<open>\<open>__builtin_clz\<close> and \<open>__builtin_clzll\<close>\<close>
  | Rdtsc           \<comment> \<open>\<open>__rdtsc()\<close>\<close>

datatype (plugins only: code size) cexp =
    Var var | Fld var field | Elem var field cexp | CtxLr | CtxMsr
  | Lit int | Hex int
  | Bin binop cexp cexp | Neg cexp | BNot cexp | LNot cexp | Ite cexp cexp cexp
  | Cast cty cexp | PCast cty cexp | Fn0 cfun | Fn1 cfun cexp | Fn2 cfun cexp cexp | Par cexp

datatype targ = TV var | TI int | TS string

datatype (plugins only: code size) cstmt =
    Asg cexp cexp
  | OrAsg cexp cexp
  | Decr cexp
  | Compare var cty cexp cexp var
  | Store bool nat cexp cexp
  | Zero cexp nat
  | Cas var nat cexp cexp cexp
  | IfAsg cexp cexp cexp
  | IfGoto cexp u32
  | IfRet cexp
  | IfCall cexp "cstmt list"
  | Goto u32
  | Return
  | CallSub string
  | CallInd cexp
  | Switch cexp "(bool \<times> u32) list"
  | Label u64
  | Flush bool bool
  | HookCall string "targ list"
  | HookIf string "targ list" "cstmt list" "cstmt list"
  | Txt nat string "targ list"

subsection \<open>The text\<close>

fun show_reg :: "regname \<Rightarrow> string" where
  "show_reg (GPR n) = ''r'' @ dec_string (int n)"
| "show_reg (FPR n) = ''f'' @ dec_string (int n)"
| "show_reg (VREG n) = ''v'' @ dec_string (int n)"
| "show_reg (CRREG n) = ''cr'' @ dec_string (int n)"
| "show_reg CTR = ''ctr''"
| "show_reg XERREG = ''xer''"
| "show_reg RESERVED = ''reserved''"
| "show_reg TEMP = ''temp''"
| "show_reg VTEMP = ''vTemp''"
| "show_reg ENV = ''env''"
| "show_reg EA = ''ea''"

fun show_var :: "var \<Rightarrow> string" where
  "show_var (Ctx r) = ''ctx.'' @ show_reg r"
| "show_var (Loc r) = show_reg r"

fun show_field :: "field \<Rightarrow> string" where
  "show_field Fs8 = ''s8''"
| "show_field Fu8 = ''u8''"
| "show_field Fs16 = ''s16''"
| "show_field Fu16 = ''u16''"
| "show_field Fs32 = ''s32''"
| "show_field Fu32 = ''u32''"
| "show_field Fs64 = ''s64''"
| "show_field Fu64 = ''u64''"
| "show_field Ff32 = ''f32''"
| "show_field Ff64 = ''f64''"
| "show_field Flt = ''lt''"
| "show_field Fgt = ''gt''"
| "show_field Feq = ''eq''"
| "show_field Fso = ''so''"
| "show_field Fov = ''ov''"
| "show_field Fca = ''ca''"

definition show_cty :: "cty \<Rightarrow> string" where
  "show_cty t =
     (if cwidth t = 128 then (if csigned t then ''__int128'' else ''unsigned __int128'')
      else (if csigned t then ''int'' else ''uint'') @ dec_string (int (cwidth t)) @ ''_t'')"

fun show_binop :: "binop \<Rightarrow> string" where
  "show_binop Add = '' + ''"
| "show_binop Sub = '' - ''"
| "show_binop Mul = '' * ''"
| "show_binop Div = '' / ''"
| "show_binop BAnd = '' & ''"
| "show_binop BOr = '' | ''"
| "show_binop BXor = '' ^ ''"
| "show_binop Shl = '' << ''"
| "show_binop Shr = '' >> ''"
| "show_binop Lt = '' < ''"
| "show_binop Gt = '' > ''"
| "show_binop Le = '' <= ''"
| "show_binop Ge = '' >= ''"
| "show_binop Eq = '' == ''"
| "show_binop Ne = '' != ''"
| "show_binop LAnd = '' && ''"

definition num_string :: "nat \<Rightarrow> string" where
  "num_string n = dec_string (int n)"

fun show_fun :: "cfun \<Rightarrow> string \<Rightarrow> string" where
  "show_fun (LoadU n) a = ''PPC_LOAD_U'' @ num_string n @ ''('' @ a @ '')''"
| "show_fun (RawU n) a = ''*(uint'' @ num_string n @ ''_t*)(base + '' @ a @ '')''"
| "show_fun (Bswap n) a = ''__builtin_bswap'' @ num_string n @ ''('' @ a @ '')''"
| "show_fun (Rotl n) a = ''__builtin_rotateleft'' @ num_string n @ ''('' @ a @ '')''"
| "show_fun (Clz n) a = (if n = 64 then ''__builtin_clzll('' else ''__builtin_clz('') @ a @ '')''"
| "show_fun Rdtsc a = ''__rdtsc()''"

primrec show_exp :: "cexp \<Rightarrow> string" where
  "show_exp (Var x) = show_var x"
| "show_exp (Fld x f) = show_var x @ ''.'' @ show_field f"
| "show_exp (Elem x f i) = show_var x @ ''.'' @ show_field f @ ''['' @ show_exp i @ '']''"
| "show_exp CtxLr = ''ctx.lr''"
| "show_exp CtxMsr = ''ctx.msr''"
| "show_exp (Lit i) = dec_string i"
| "show_exp (Hex i) = ''0x'' @ hex_string i"
| "show_exp (Bin b e1 e2) = show_exp e1 @ show_binop b @ show_exp e2"
| "show_exp (Neg e) = ''-'' @ show_exp e"
| "show_exp (BNot e) = ''~'' @ show_exp e"
| "show_exp (LNot e) = ''!'' @ show_exp e"
| "show_exp (Ite c e1 e2) = show_exp c @ '' ? '' @ show_exp e1 @ '' : '' @ show_exp e2"
| "show_exp (Cast t e) = show_cty t @ ''('' @ show_exp e @ '')''"
| "show_exp (PCast t e) = ''(('' @ show_cty t @ '')('' @ show_exp e @ ''))''"
| "show_exp (Fn0 f) = show_fun f []"
| "show_exp (Fn1 f e) = show_fun f (show_exp e)"
| "show_exp (Fn2 f e1 e2) = show_fun f (show_exp e1 @ '', '' @ show_exp e2)"
| "show_exp (Par e) = ''('' @ show_exp e @ '')''"

definition tab :: string where "tab = [CHR 0x09]"
definition nl :: string where "nl = [CHR 0x0A]"

definition show_targ :: "targ list \<Rightarrow> nat \<Rightarrow> bool \<Rightarrow> string" where
  "show_targ as i hex =
     (if i < length as then
        (case as ! i of TV x \<Rightarrow> show_var x
         | TI k \<Rightarrow> (if hex then hex_string k else dec_string k)
         | TS s \<Rightarrow> s)
      else [])"

definition show_case :: "nat \<Rightarrow> bool \<times> u32 \<Rightarrow> string" where
  "show_case i c =
     tab @ ''case '' @ num_string i @ '':'' @ nl
     @ (if fst c then tab @ tab @ ''goto loc_'' @ hex_string (uint (snd c)) @ '';'' @ nl
        else tab @ tab @ ''// ERROR: 0x'' @ hex_string (uint (snd c)) @ nl
             @ tab @ tab @ ''return;'' @ nl)"

fun show_cases :: "nat \<Rightarrow> (bool \<times> u32) list \<Rightarrow> string" where
  "show_cases i [] = []"
| "show_cases i (c # cs) = show_case i c @ show_cases (Suc i) cs"

definition mm_string :: "bool \<Rightarrow> string" where
  "mm_string mm = (if mm then ''PPC_MM_STORE_U'' else ''PPC_STORE_U'')"

fun show_stmt :: "cstmt \<Rightarrow> string" where
  "show_stmt (Asg l e) = tab @ show_exp l @ '' = '' @ show_exp e @ '';'' @ nl"
| "show_stmt (OrAsg l e) = tab @ show_exp l @ '' |= '' @ show_exp e @ '';'' @ nl"
| "show_stmt (Decr l) = tab @ ''--'' @ show_exp l @ '';'' @ nl"
| "show_stmt (Compare c t e1 e2 x) =
     tab @ show_var c @ ''.compare<'' @ show_cty t @ ''>('' @ show_exp e1 @ '', '' @ show_exp e2
     @ '', '' @ show_var x @ '');'' @ nl"
| "show_stmt (Store mm n a v) =
     tab @ mm_string mm @ num_string n @ ''('' @ show_exp a @ '', '' @ show_exp v @ '');'' @ nl"
| "show_stmt (Zero a n) =
     tab @ ''memset(base + ('' @ show_exp a @ ''), 0, '' @ num_string n @ '');'' @ nl"
| "show_stmt (Cas c n a old new) =
     tab @ show_var c @ ''.eq = __sync_bool_compare_and_swap(reinterpret_cast<uint'' @ num_string n
     @ ''_t*>(base + '' @ show_exp a @ ''), '' @ show_exp old @ '', '' @ show_exp new @ '');'' @ nl"
| "show_stmt (IfAsg c l e) =
     tab @ ''if ('' @ show_exp c @ '') '' @ show_exp l @ '' = '' @ show_exp e @ '';'' @ nl"
| "show_stmt (IfGoto c a) =
     tab @ ''if ('' @ show_exp c @ '') goto loc_'' @ hex_string (uint a) @ '';'' @ nl"
| "show_stmt (IfRet c) = tab @ ''if ('' @ show_exp c @ '') return;'' @ nl"
| "show_stmt (IfCall c ss) =
     tab @ ''if ('' @ show_exp c @ '') {'' @ nl @ tab @ concat (map show_stmt ss)
     @ tab @ tab @ ''return;'' @ nl @ tab @ ''}'' @ nl"
| "show_stmt (Goto a) = tab @ ''goto loc_'' @ hex_string (uint a) @ '';'' @ nl"
| "show_stmt Return = tab @ ''return;'' @ nl"
| "show_stmt (CallSub f) = tab @ f @ ''(ctx, base);'' @ nl"
| "show_stmt (CallInd e) = tab @ ''PPC_CALL_INDIRECT_FUNC('' @ show_exp e @ '');'' @ nl"
| "show_stmt (Switch e cs) =
     tab @ ''switch ('' @ show_exp e @ '') {'' @ nl @ show_cases 0 cs
     @ tab @ ''default:'' @ nl @ tab @ tab @ ''__builtin_unreachable();'' @ nl @ tab @ ''}'' @ nl"
| "show_stmt (Label a) = ''loc_'' @ hex_string (uint a) @ '':'' @ nl"
| "show_stmt (Flush en unc) =
     tab @ ''ctx.fpscr.'' @ (if en then ''enable'' else ''disable'') @ ''FlushMode''
     @ (if unc then ''Unconditional'' else []) @ ''();'' @ nl"
| "show_stmt (HookCall s as) = tab @ fmt_render (show_targ as) 0 s @ '';'' @ nl"
| "show_stmt (HookIf s as ss ts) =
     tab @ ''if ('' @ fmt_render (show_targ as) 0 s @ '') {'' @ nl
     @ concat (map (\<lambda>t. tab @ show_stmt t) ss) @ tab @ ''}'' @ nl
     @ tab @ ''else {'' @ nl @ concat (map (\<lambda>t. tab @ show_stmt t) ts) @ tab @ ''}'' @ nl"
| "show_stmt (Txt n s as) = replicate n (CHR 0x09) @ fmt_render (show_targ as) 0 s @ nl"

subsection \<open>The local variables a statement names\<close>

fun loc_of :: "var \<Rightarrow> regname set" where
  "loc_of (Ctx r) = {}"
| "loc_of (Loc r) = {r}"

primrec exp_locals :: "cexp \<Rightarrow> regname set" where
  "exp_locals (Var x) = loc_of x"
| "exp_locals (Fld x f) = loc_of x"
| "exp_locals (Elem x f i) = loc_of x \<union> exp_locals i"
| "exp_locals CtxLr = {}"
| "exp_locals CtxMsr = {}"
| "exp_locals (Lit i) = {}"
| "exp_locals (Hex i) = {}"
| "exp_locals (Bin b e1 e2) = exp_locals e1 \<union> exp_locals e2"
| "exp_locals (Neg e) = exp_locals e"
| "exp_locals (BNot e) = exp_locals e"
| "exp_locals (LNot e) = exp_locals e"
| "exp_locals (Ite c e1 e2) = exp_locals c \<union> exp_locals e1 \<union> exp_locals e2"
| "exp_locals (Cast t e) = exp_locals e"
| "exp_locals (PCast t e) = exp_locals e"
| "exp_locals (Fn0 f) = {}"
| "exp_locals (Fn1 f e) = exp_locals e"
| "exp_locals (Fn2 f e1 e2) = exp_locals e1 \<union> exp_locals e2"
| "exp_locals (Par e) = exp_locals e"

fun targ_locals :: "targ \<Rightarrow> regname set" where
  "targ_locals (TV x) = loc_of x"
| "targ_locals (TI i) = {}"
| "targ_locals (TS s) = {}"

fun stmt_locals :: "cstmt \<Rightarrow> regname set" where
  "stmt_locals (Asg l e) = exp_locals l \<union> exp_locals e"
| "stmt_locals (OrAsg l e) = exp_locals l \<union> exp_locals e"
| "stmt_locals (Decr l) = exp_locals l"
| "stmt_locals (Compare c t e1 e2 x) = loc_of c \<union> exp_locals e1 \<union> exp_locals e2 \<union> loc_of x"
| "stmt_locals (Store mm n a v) = exp_locals a \<union> exp_locals v"
| "stmt_locals (Zero a n) = exp_locals a"
| "stmt_locals (Cas c n a old new) = loc_of c \<union> exp_locals a \<union> exp_locals old \<union> exp_locals new"
| "stmt_locals (IfAsg c l e) = exp_locals c \<union> exp_locals l \<union> exp_locals e"
| "stmt_locals (IfGoto c a) = exp_locals c"
| "stmt_locals (IfRet c) = exp_locals c"
| "stmt_locals (IfCall c ss) = exp_locals c \<union> \<Union> (set (map stmt_locals ss))"
| "stmt_locals (Goto a) = {}"
| "stmt_locals Return = {}"
| "stmt_locals (CallSub f) = {}"
| "stmt_locals (CallInd e) = exp_locals e"
| "stmt_locals (Switch e cs) = exp_locals e"
| "stmt_locals (Label a) = {}"
| "stmt_locals (Flush en unc) = {}"
| "stmt_locals (HookCall s as) = \<Union> (set (map targ_locals as))"
| "stmt_locals (HookIf s as ss ts) =
     \<Union> (set (map targ_locals as)) \<union> \<Union> (set (map stmt_locals ss)) \<union> \<Union> (set (map stmt_locals ts))"
| "stmt_locals (Txt n s as) = \<Union> (set (map targ_locals as))"

definition block_locals :: "cstmt list \<Rightarrow> regname set" where
  "block_locals ss = \<Union> (set (map stmt_locals ss))"

subsection \<open>The labels a statement jumps to and the labels it defines\<close>

fun stmt_gotos :: "cstmt \<Rightarrow> u32 set" where
  "stmt_gotos (IfGoto c a) = {a}"
| "stmt_gotos (Goto a) = {a}"
| "stmt_gotos (IfCall c ss) = \<Union> (set (map stmt_gotos ss))"
| "stmt_gotos (Switch e cs) = snd ` {c \<in> set cs. fst c}"
| "stmt_gotos (HookIf s as ss ts) = \<Union> (set (map stmt_gotos ss)) \<union> \<Union> (set (map stmt_gotos ts))"
| "stmt_gotos _ = {}"

definition block_gotos :: "cstmt list \<Rightarrow> u32 set" where
  "block_gotos ss = \<Union> (set (map stmt_gotos ss))"

fun stmt_labels :: "cstmt \<Rightarrow> u64 set" where
  "stmt_labels (Label a) = {a}"
| "stmt_labels _ = {}"

definition block_labels :: "cstmt list \<Rightarrow> u64 set" where
  "block_labels ss = \<Union> (set (map stmt_labels ss))"

lemma block_gotos_simps [simp]:
  "block_gotos [] = {}"
  "block_gotos (s # ss) = stmt_gotos s \<union> block_gotos ss"
  "block_gotos (ss @ ts) = block_gotos ss \<union> block_gotos ts"
  by (auto simp: block_gotos_def)

lemma block_labels_simps [simp]:
  "block_labels [] = {}"
  "block_labels (s # ss) = stmt_labels s \<union> block_labels ss"
  "block_labels (ss @ ts) = block_labels ss \<union> block_labels ts"
  by (auto simp: block_labels_def)

lemma block_locals_simps [simp]:
  "block_locals [] = {}"
  "block_locals (s # ss) = stmt_locals s \<union> block_locals ss"
  "block_locals (ss @ ts) = block_locals ss \<union> block_locals ts"
  by (auto simp: block_locals_def)

end
