(* ===== verification/Mask.thy ===== *)
theory Mask
  imports Prelude
begin

text \<open>
  \<open>ComputeMask\<close> of \<open>XenonRecomp/recompiler.cpp\<close>: the 64-bit mask of the rotate-and-mask
  instructions. PowerPC numbers the bits of a register from the most significant one, and a
  mask whose start lies after its stop wraps around.
\<close>

unbundle bit_operations_syntax

definition ComputeMask :: "u32 \<Rightarrow> u32 \<Rightarrow> u64" where
  "ComputeMask mstart0 mstop0 =
     (let mstart = mstart0 AND 0x3F;
          mstop = mstop0 AND 0x3F;
          value = drop_bit (unat mstart) (- 1)
                    XOR (if mstop \<ge> 63 then 0 else drop_bit (unat (mstop + 1)) (- 1))
      in if mstart \<le> mstop then value else NOT value)"

text \<open>The PowerPC mask: bit \<open>p\<close> in big-endian numbering lies in the (wrapping) range.\<close>

definition ppc_in_mask :: "nat \<Rightarrow> nat \<Rightarrow> nat \<Rightarrow> bool" where
  "ppc_in_mask s e p = (if s \<le> e then s \<le> p \<and> p \<le> e else s \<le> p \<or> p \<le> e)"

lemma bit_stop_part:
  fixes m :: u32
  assumes "unat m < 64"
  shows "bit (if m \<ge> 63 then 0 else drop_bit (unat (m + 1)) (- 1) :: u64) n
           \<longleftrightarrow> n + unat m < 63"
proof (cases "m \<ge> 63")
  case True
  then have "63 \<le> unat m" by (simp add: word_le_nat_alt)
  with True show ?thesis by simp
next
  case False
  then have "unat m < 63" by (simp add: word_le_nat_alt)
  then have "unat (m + 1) = Suc (unat m)"
    by (simp add: unat_word_ariths)
  with False show ?thesis by (auto simp: bit_mask_iff)
qed

lemma bit_ComputeMask:
  "bit (ComputeMask a b) n \<longleftrightarrow>
     n < 64 \<and> ppc_in_mask (unat a mod 64) (unat b mod 64) (63 - n)"
proof -
  define s e where "s = unat (a AND 63)" and "e = unat (b AND 63)"
  have se: "s < 64" "e < 64" "s = unat a mod 64" "e = unat b mod 64"
    by (simp_all add: s_def e_def and_63_unat)
  have start: "bit (drop_bit s (- 1) :: u64) n \<longleftrightarrow> n + s < 64"
    by (auto simp: bit_mask_iff)
  have stop: "bit (if (b AND 63) \<ge> 63 then 0 else drop_bit (unat ((b AND 63) + 1)) (- 1) :: u64) n
                \<longleftrightarrow> n + e < 63"
    using bit_stop_part [of "b AND 63" n] se(2) by (simp only: e_def)
  have le: "(a AND 63) \<le> (b AND 63) \<longleftrightarrow> s \<le> e"
    by (simp add: s_def e_def word_le_nat_alt)
  have "bit (ComputeMask a b) n \<longleftrightarrow>
          (if s \<le> e then (n + s < 64) \<noteq> (n + e < 63)
           else n < 64 \<and> ((n + s < 64) = (n + e < 63)))"
    unfolding ComputeMask_def Let_def
    by (auto simp only: if_split bit_xor_iff bit_not_iff start [unfolded s_def] stop le
          possible_bit_word s_def [symmetric] split: if_split) (auto simp: bit_mask_iff)
  also have "\<dots> \<longleftrightarrow> n < 64 \<and> ppc_in_mask s e (63 - n)"
    using se(1,2) unfolding ppc_in_mask_def by (cases "s \<le> e") (auto split: if_splits)
  finally show ?thesis using se by simp
qed

end
