(* ===== verification/Symbols.thy ===== *)
theory Symbols
  imports Prelude
begin

text \<open>
  The symbol table (\<open>symbol.h\<close>, \<open>symbol_table.h\<close>) and the section map of an image
  (\<open>section.h\<close>, \<open>image.h\<close>, \<open>image.cpp\<close>). The table is a \<open>std::multiset\<close> ordered by
  address: here the list of its elements in iteration order. The sections are a
  \<open>std::set\<close> ordered by base address: an insertion with a base already present is dropped.
\<close>

subsection \<open>Symbols\<close>

datatype SymbolType = Symbol_None | Symbol_Section | Symbol_Function | Symbol_Comment

record Symbol =
  sym_name :: string
  sym_address :: u64
  sym_size :: u64
  sym_type :: SymbolType

type_synonym SymbolTable = "Symbol list"

text \<open>\<open>std::multiset::emplace\<close>: a new element goes after the equivalent ones.\<close>

fun emplace :: "Symbol \<Rightarrow> SymbolTable \<Rightarrow> SymbolTable" where
  "emplace s [] = [s]"
| "emplace s (t # ts) =
     (if sym_address s < sym_address t then s # t # ts else t # emplace s ts)"

definition equal_range :: "u64 \<Rightarrow> SymbolTable \<Rightarrow> SymbolTable" where
  "equal_range address tab = filter (\<lambda>s. sym_address s = address) tab"

text \<open>The loop of \<open>SymbolTable::find\<close>, with its \<open>closest\<close> and \<open>match\<close> variables.\<close>

fun find_loop :: "u64 \<Rightarrow> Symbol list \<Rightarrow> u64 \<Rightarrow> Symbol option \<Rightarrow> Symbol option" where
  "find_loop address [] closest mtch = mtch"
| "find_loop address (it # its) closest mtch =
     (if address < sym_address it \<or> address \<ge> sym_address it + sym_size it
      then find_loop address its closest mtch
      else let distance = address - sym_address it
           in if distance \<le> closest then find_loop address its distance (Some it)
              else find_loop address its closest mtch)"

definition find_symbol :: "u64 \<Rightarrow> SymbolTable \<Rightarrow> Symbol option" where
  "find_symbol address tab =
     (case equal_range address tab of
        [] \<Rightarrow> None
      | b # rest \<Rightarrow> find_loop address (b # rest) (address - sym_address b) None)"

definition table_sorted :: "SymbolTable \<Rightarrow> bool" where
  "table_sorted tab = sorted_wrt (\<lambda>a b. sym_address a \<le> sym_address b) tab"

text \<open>A symbol that covers its own first address (the range does not wrap to nothing).\<close>

definition covers_base :: "Symbol \<Rightarrow> bool" where
  "covers_base s = (sym_address s < sym_address s + sym_size s)"

lemma set_emplace [simp]: "set (emplace s tab) = insert s (set tab)"
  by (induction tab) auto

lemma emplace_sorted: "table_sorted tab \<Longrightarrow> table_sorted (emplace s tab)"
  unfolding table_sorted_def by (induction tab) (auto simp: order_less_imp_le intro: order_trans)

lemma equal_range_emplace:
  assumes "table_sorted tab"
  shows "equal_range a (emplace s tab) =
           (if sym_address s = a then equal_range a tab @ [s] else equal_range a tab)"
  using assms unfolding table_sorted_def equal_range_def
proof (induction tab)
  case Nil
  then show ?case by simp
next
  case (Cons t ts)
  have "filter (\<lambda>u. sym_address u = sym_address s) (t # ts) = []"
    if "sym_address s < sym_address t"
    using Cons.prems that by (auto simp: filter_empty_conv)
  then show ?case using Cons by auto
qed

lemma find_loop_equal:
  assumes "\<forall>t \<in> set ts. sym_address t = a"
  shows "find_loop a ts 0 m =
           (if filter covers_base ts = [] then m else Some (last (filter covers_base ts)))"
  using assms
proof (induction ts arbitrary: m)
  case Nil
  then show ?case by simp
next
  case (Cons t ts)
  then have a: "sym_address t = a" and ts: "\<forall>t \<in> set ts. sym_address t = a" by simp_all
  have skip: "(a + sym_size t \<le> a) = (\<not> covers_base t)"
    unfolding covers_base_def a by (simp only: not_less)
  show ?case
    by (simp only: find_loop.simps a skip less_irrefl simp_thms diff_self Let_def order_refl if_True Cons.IH [OF ts] filter.simps)
       simp
qed

lemma find_symbol_eq:
  "find_symbol a tab =
     (let cs = filter covers_base (equal_range a tab) in if cs = [] then None else Some (last cs))"
proof (cases "equal_range a tab")
  case Nil
  then show ?thesis by (simp add: find_symbol_def)
next
  case (Cons b rest)
  then have "\<forall>t \<in> set (b # rest). sym_address t = a"
    by (metis (mono_tags, lifting) equal_range_def mem_Collect_eq set_filter)
  then show ?thesis
    using find_loop_equal [of "b # rest" a None] Cons by (simp add: find_symbol_def Let_def)
qed

lemma find_symbol_SomeD:
  assumes "find_symbol a tab = Some s"
  shows "s \<in> set tab" and "sym_address s = a" and "covers_base s"
proof -
  have "s \<in> set (filter covers_base (equal_range a tab))"
    using assms last_in_set by (fastforce simp: find_symbol_eq Let_def split: if_splits)
  then show "s \<in> set tab" and "sym_address s = a" and "covers_base s"
    by (auto simp: equal_range_def)
qed

lemma find_emplace_same:
  assumes "table_sorted tab" "covers_base s"
  shows "find_symbol (sym_address s) (emplace s tab) = Some s"
  using assms by (simp add: find_symbol_eq equal_range_emplace)

lemma find_emplace_other:
  assumes "table_sorted tab" "sym_address s \<noteq> a"
  shows "find_symbol a (emplace s tab) = find_symbol a tab"
  using assms by (simp add: find_symbol_eq equal_range_emplace)

subsection \<open>The lookup interface\<close>

text \<open>
  What the recompiler relies on when it names functions: after an insertion a lookup at the
  symbol's own address gives that symbol, lookups elsewhere are unchanged, and the ordering
  invariant is kept. Clients insert many symbols, one after the other.
\<close>

locale symbol_map =
  fixes ins :: "'s \<Rightarrow> 't \<Rightarrow> 't"
    and look :: "'k \<Rightarrow> 't \<Rightarrow> 's option"
    and key :: "'s \<Rightarrow> 'k"
    and good :: "'s \<Rightarrow> bool"
    and inv :: "'t \<Rightarrow> bool"
  assumes inv_ins: "inv t \<Longrightarrow> inv (ins s t)"
    and look_same: "inv t \<Longrightarrow> good s \<Longrightarrow> look (key s) (ins s t) = Some s"
    and look_other: "inv t \<Longrightarrow> key s \<noteq> k \<Longrightarrow> look k (ins s t) = look k t"
begin

lemma inv_fold: "inv t \<Longrightarrow> inv (fold ins ss t)"
  by (induction ss arbitrary: t) (auto intro: inv_ins)

lemma look_fold_other:
  "inv t \<Longrightarrow> k \<notin> key ` set ss \<Longrightarrow> look k (fold ins ss t) = look k t"
  by (induction ss arbitrary: t) (auto simp: inv_ins look_other)

lemma look_fold:
  assumes "inv t" "\<forall>s \<in> set ss. good s" "distinct (map key ss)" "s \<in> set ss"
  shows "look (key s) (fold ins ss t) = Some s"
  using assms
proof (induction ss arbitrary: t)
  case Nil
  then show ?case by simp
next
  case (Cons x xs)
  show ?case
  proof (cases "s = x")
    case True
    with Cons.prems have "key s \<notin> key ` set xs" by auto
    with True Cons.prems show ?thesis
      by (simp add: look_fold_other inv_ins look_same)
  next
    case False
    with Cons.prems show ?thesis by (auto intro: Cons.IH inv_ins)
  qed
qed

end

interpretation symtab: symbol_map emplace find_symbol sym_address covers_base table_sorted
  by unfold_locales (auto simp: emplace_sorted find_emplace_same find_emplace_other)

subsection \<open>Sections\<close>

record Section =
  sec_name :: string
  sec_base :: u64
  sec_size :: u32
  sec_code :: bool          \<comment> \<open>\<open>flags & SectionFlags_Code\<close>\<close>
  sec_data :: "u8 list"     \<comment> \<open>the bytes from \<open>data\<close> on\<close>

text \<open>\<open>std::set::insert\<close> with \<open>SectionComparer\<close>.\<close>

fun insert_section :: "Section \<Rightarrow> Section list \<Rightarrow> Section list" where
  "insert_section s [] = [s]"
| "insert_section s (t # ts) =
     (if sec_base s < sec_base t then s # t # ts
      else if sec_base t < sec_base s then t # insert_section s ts
      else t # ts)"

record Image =
  img_base :: u64
  img_size :: u32
  img_entry_point :: u64
  img_sections :: "Section list"
  img_symbols :: SymbolTable

definition Image_Map :: "string \<Rightarrow> u64 \<Rightarrow> u32 \<Rightarrow> bool \<Rightarrow> u8 list \<Rightarrow> Image \<Rightarrow> Image" where
  "Image_Map name base sz code data img =
     img\<lparr>img_sections := insert_section
           \<lparr>sec_name = name, sec_base = img_base img + base, sec_size = sz,
            sec_code = code, sec_data = data\<rparr> (img_sections img)\<rparr>"

text \<open>
  \<open>Image::Find(address)\<close>: the section before \<open>upper_bound(address)\<close>, and the offset into
  its data. \<open>None\<close> is \<open>std::prev\<close> of the first section, which is undefined.
\<close>

definition Image_Find :: "u64 \<Rightarrow> Image \<Rightarrow> (Section \<times> u64) option" where
  "Image_Find address img =
     (case takeWhile (\<lambda>s. \<not> address < sec_base s) (img_sections img) of
        [] \<Rightarrow> None
      | s # ss \<Rightarrow> (let sec = last (s # ss) in Some (sec, address - sec_base sec)))"

definition Image_FindName :: "string \<Rightarrow> Image \<Rightarrow> Section option" where
  "Image_FindName name img = find (\<lambda>s. sec_name s = name) (img_sections img)"

definition sections_sorted :: "Section list \<Rightarrow> bool" where
  "sections_sorted ss = sorted_wrt (\<lambda>a b. sec_base a < sec_base b) ss"

lemma set_insert_section: "set (insert_section s ss) \<subseteq> insert s (set ss)"
  by (induction ss) auto

lemma insert_section_sorted: "sections_sorted ss \<Longrightarrow> sections_sorted (insert_section s ss)"
  unfolding sections_sorted_def
proof (induction ss)
  case Nil
  then show ?case by simp
next
  case (Cons t ts)
  then show ?case using set_insert_section [of s ts] by fastforce
qed

lemma Image_Map_sorted:
  "sections_sorted (img_sections img) \<Longrightarrow>
   sections_sorted (img_sections (Image_Map n b sz c d img))"
  by (simp add: Image_Map_def insert_section_sorted)

lemma Image_Find_Some:
  assumes "sections_sorted (img_sections img)" "Image_Find a img = Some (s, off)"
  shows "s \<in> set (img_sections img) \<and> sec_base s \<le> a \<and> off = a - sec_base s
         \<and> (\<forall>t \<in> set (img_sections img). sec_base t \<le> a \<longrightarrow> sec_base t \<le> sec_base s)"
proof -
  let ?S = "img_sections img" and ?p = "\<lambda>s. \<not> a < sec_base s"
  obtain pre: "takeWhile ?p ?S \<noteq> []" "s = last (takeWhile ?p ?S)" "off = a - sec_base s"
    using assms(2) by (auto simp: Image_Find_def Let_def split: list.splits)
  then have s: "s \<in> set (takeWhile ?p ?S)" by simp
  have split: "?S = takeWhile ?p ?S @ dropWhile ?p ?S" by simp
  have "sec_base t \<le> sec_base s" if t: "t \<in> set ?S" "sec_base t \<le> a" for t
  proof (cases "t \<in> set (takeWhile ?p ?S)")
    case True
    have "sorted_wrt (\<lambda>a b. sec_base a < sec_base b) (takeWhile ?p ?S)"
      using assms(1) split unfolding sections_sorted_def by (metis sorted_wrt_append)
    moreover obtain init where "takeWhile ?p ?S = init @ [s]"
      using pre by (metis append_butlast_last_id)
    ultimately show ?thesis using True by (auto simp: sorted_wrt_append)
  next
    case False
    then have "t \<in> set (dropWhile ?p ?S)" using t(1) split by (metis Un_iff set_append)
    then obtain h hs where h: "dropWhile ?p ?S = h # hs" by (cases "dropWhile ?p ?S") auto
    then have "a < sec_base h" using hd_dropWhile [of ?p ?S] by simp
    moreover have "sec_base h \<le> sec_base t"
      using \<open>t \<in> set (dropWhile ?p ?S)\<close> h assms(1) split unfolding sections_sorted_def
      by (metis list.set_intros(1) order_less_imp_le order_refl set_ConsD sorted_wrt.simps(2) sorted_wrt_append)
    ultimately show ?thesis using t(2) by simp
  qed
  moreover have "s \<in> set ?S" and "\<not> a < sec_base s" using set_takeWhileD [OF s] by simp_all
  ultimately show ?thesis using pre(3) by (simp add: not_less)
qed

end
