(* ===== verification/Emit.thy ===== *)
theory Emit
  imports Cpp Mask Symbols
begin

text \<open>
  The state and the helpers of \<open>Recompiler::Recompile(fn, base, insn, data, ...)\<close> in
  \<open>XenonRecomp/recompiler.cpp\<close>: the configuration (\<open>recompiler_config.h\<close>), the decoded
  instruction (\<open>ppc_insn\<close> of the disassembler), the naming lambdas, the output with the
  local-variable flags, the tracked flush mode, and the branch helpers.
\<close>

unbundle bit_operations_syntax

subsection \<open>Configuration\<close>

record RecompilerSwitchTable =
  st_r :: u32
  st_labels :: "u32 list"

record RecompilerMidAsmHook =
  mh_name :: string
  mh_registers :: "string list"
  mh_ret :: bool
  mh_returnOnTrue :: bool
  mh_returnOnFalse :: bool
  mh_jumpAddress :: u32
  mh_jumpAddressOnTrue :: u32
  mh_jumpAddressOnFalse :: u32
  mh_afterInstruction :: bool

record RecompilerConfig =
  directoryPath :: string
  filePath :: string
  patchFilePath :: string
  patchedFilePath :: string
  outDirectoryPath :: string
  switchTableFilePath :: string
  switchTables :: "u32 \<rightharpoonup> RecompilerSwitchTable"
  skipLr :: bool
  ctrAsLocalVariable :: bool
  xerAsLocalVariable :: bool
  reservedRegisterAsLocalVariable :: bool
  skipMsr :: bool
  crRegistersAsLocalVariables :: bool
  nonArgumentRegistersAsLocalVariables :: bool
  nonVolatileRegistersAsLocalVariables :: bool
  restGpr14Address :: u32
  saveGpr14Address :: u32
  restFpr14Address :: u32
  saveFpr14Address :: u32
  restVmx14Address :: u32
  saveVmx14Address :: u32
  restVmx64Address :: u32
  saveVmx64Address :: u32
  longJmpAddress :: u32
  setJmpAddress :: u32
  cfgFunctions :: "(u32 \<times> u32) list"
  invalidInstructions :: "u32 \<rightharpoonup> u32"
  midAsmHooks :: "u32 \<rightharpoonup> RecompilerMidAsmHook"

text \<open>The part of \<open>Function\<close> the emitter reads; see the theory of the analyser for the rest.\<close>

record FunctionRange =
  fn_base :: u64
  fn_size :: u64

datatype CSRState = CSR_Unknown | CSR_FPU | CSR_VMX

subsection \<open>Inputs and state\<close>

text \<open>
  What one call of the per-instruction \<open>Recompile\<close> reads: the recompiler's configuration
  and symbols, the function, the address, the decoded instruction (the opcode's name and
  the operand words) and the raw word after the instruction, as the little-endian host
  reads it (\<open>*(data + 1)\<close>).
\<close>

record rin =
  cfg :: RecompilerConfig
  symbols :: SymbolTable
  fnc :: FunctionRange
  pc :: u32
  opname :: string
  opnd :: "nat \<Rightarrow> u32"
  op_str :: string
  next_raw :: u32

text \<open>
  What it writes: the printed lines, the flags of \<open>RecompilerLocalVariables\<close>, the tracked
  flush mode, the pending switch table (an iterator; \<open>None\<close> is \<open>end()\<close>) and the
  diagnostics sent to the console.
\<close>

record estate =
  out :: "cstmt list"
  locs :: "regname set"
  csr :: CSRState
  pending :: "RecompilerSwitchTable option"
  diag :: "string list"

text \<open>
  One or more \<open>println\<close> calls. Each naming lambda sets the flag of a local register when it
  is evaluated for the line, so the flags set are those of the local variables of the lines.
\<close>

definition emit :: "cstmt list \<Rightarrow> estate \<Rightarrow> estate" where
  "emit ss st = st\<lparr>out := out st @ ss, locs := locs st \<union> block_locals ss\<rparr>"

definition report :: "string \<Rightarrow> estate \<Rightarrow> estate" where
  "report msg st = st\<lparr>diag := diag st @ [msg]\<rparr>"

subsection \<open>The naming lambdas\<close>

definition reg_r :: "rin \<Rightarrow> nat \<Rightarrow> var" where
  "reg_r x index =
     (if (nonArgumentRegistersAsLocalVariables (cfg x)
            \<and> (index = 0 \<or> index = 2 \<or> index = 11 \<or> index = 12))
         \<or> (nonVolatileRegistersAsLocalVariables (cfg x) \<and> index \<ge> 14)
      then Loc (GPR index) else Ctx (GPR index))"

definition reg_f :: "rin \<Rightarrow> nat \<Rightarrow> var" where
  "reg_f x index =
     (if (nonArgumentRegistersAsLocalVariables (cfg x) \<and> index = 0)
         \<or> (nonVolatileRegistersAsLocalVariables (cfg x) \<and> index \<ge> 14)
      then Loc (FPR index) else Ctx (FPR index))"

definition reg_v :: "rin \<Rightarrow> nat \<Rightarrow> var" where
  "reg_v x index =
     (if (nonArgumentRegistersAsLocalVariables (cfg x) \<and> index \<ge> 32 \<and> index \<le> 63)
         \<or> (nonVolatileRegistersAsLocalVariables (cfg x)
              \<and> (index \<ge> 14 \<and> index \<le> 31 \<or> index \<ge> 64 \<and> index \<le> 127))
      then Loc (VREG index) else Ctx (VREG index))"

definition reg_cr :: "rin \<Rightarrow> nat \<Rightarrow> var" where
  "reg_cr x index =
     (if crRegistersAsLocalVariables (cfg x) then Loc (CRREG index) else Ctx (CRREG index))"

definition cr_field :: "nat \<Rightarrow> field" where
  "cr_field i = [Flt, Fgt, Feq, Fso] ! (i mod 4)"

definition crb :: "rin \<Rightarrow> nat \<Rightarrow> cexp" where
  "crb x index = Fld (reg_cr x (index div 4)) (cr_field index)"

definition reg_ctr :: "rin \<Rightarrow> var" where
  "reg_ctr x = (if ctrAsLocalVariable (cfg x) then Loc CTR else Ctx CTR)"

definition reg_xer :: "rin \<Rightarrow> var" where
  "reg_xer x = (if xerAsLocalVariable (cfg x) then Loc XERREG else Ctx XERREG)"

definition reg_reserved :: "rin \<Rightarrow> var" where
  "reg_reserved x = (if reservedRegisterAsLocalVariable (cfg x) then Loc RESERVED else Ctx RESERVED)"

abbreviation v_temp :: var where "v_temp \<equiv> Loc TEMP"
abbreviation v_vTemp :: var where "v_vTemp \<equiv> Loc VTEMP"
abbreviation v_env :: var where "v_env \<equiv> Loc ENV"
abbreviation v_ea :: var where "v_ea \<equiv> Loc EA"

text \<open>\<open>r(insn.operands[n])\<close> and its kin, and the operand as the three kinds of number.\<close>

definition ro :: "rin \<Rightarrow> nat \<Rightarrow> var" where "ro x n = reg_r x (unat (opnd x n))"
definition fo :: "rin \<Rightarrow> nat \<Rightarrow> var" where "fo x n = reg_f x (unat (opnd x n))"
definition vo :: "rin \<Rightarrow> nat \<Rightarrow> var" where "vo x n = reg_v x (unat (opnd x n))"
definition cro :: "rin \<Rightarrow> nat \<Rightarrow> var" where "cro x n = reg_cr x (unat (opnd x n))"
definition crbo :: "rin \<Rightarrow> nat \<Rightarrow> cexp" where "crbo x n = crb x (unat (opnd x n))"

definition uop :: "rin \<Rightarrow> nat \<Rightarrow> int" where "uop x n = uint (opnd x n)"
definition sop :: "rin \<Rightarrow> nat \<Rightarrow> int" where "sop x n = sint (opnd x n)"

text \<open>Union members of a register.\<close>

abbreviation S8 :: "var \<Rightarrow> cexp" where "S8 a \<equiv> Fld a Fs8"
abbreviation U8 :: "var \<Rightarrow> cexp" where "U8 a \<equiv> Fld a Fu8"
abbreviation S16 :: "var \<Rightarrow> cexp" where "S16 a \<equiv> Fld a Fs16"
abbreviation U16 :: "var \<Rightarrow> cexp" where "U16 a \<equiv> Fld a Fu16"
abbreviation S32 :: "var \<Rightarrow> cexp" where "S32 a \<equiv> Fld a Fs32"
abbreviation U32 :: "var \<Rightarrow> cexp" where "U32 a \<equiv> Fld a Fu32"
abbreviation S64 :: "var \<Rightarrow> cexp" where "S64 a \<equiv> Fld a Fs64"
abbreviation U64 :: "var \<Rightarrow> cexp" where "U64 a \<equiv> Fld a Fu64"
abbreviation xer_ca :: "rin \<Rightarrow> cexp" where "xer_ca x \<equiv> Fld (reg_xer x) Fca"

text \<open>
  \<open>if (insn.operands[k] != 0) print("{}.u32 + ", ...)\<close> in the middle of a line: a summand
  that is printed only when the register operand is not register 0.
\<close>

definition opt_add :: "rin \<Rightarrow> nat \<Rightarrow> cexp \<Rightarrow> cexp \<Rightarrow> cexp" where
  "opt_add x k a e = (if opnd x k \<noteq> 0 then Bin Add a e else e)"

text \<open>\<open>if (strchr(insn.opcode->name, '.')) println("\t{}.compare<int32_t>({}.s32, 0, {});", ...)\<close>\<close>

definition has_dot :: "rin \<Rightarrow> bool" where
  "has_dot x = (CHR ''.'' \<in> set (opname x))"

definition rc :: "rin \<Rightarrow> cstmt list" where
  "rc x = (if has_dot x then [Compare (reg_cr x 0) int32_t (S32 (ro x 0)) (Lit 0) (reg_xer x)] else [])"

definition c_eieio :: u32 where "c_eieio = 0xAC06007C"

definition mmioStore :: "rin \<Rightarrow> bool" where
  "mmioStore x = (next_raw x = c_eieio)"

subsection \<open>Calls and branches\<close>

definition outside :: "rin \<Rightarrow> u32 \<Rightarrow> bool" where
  "outside x t = (ucast t < fn_base (fnc x) \<or> ucast t \<ge> fn_base (fnc x) + fn_size (fnc x))"

definition starts_with :: "string \<Rightarrow> string \<Rightarrow> bool" where
  "starts_with p s = (take (length p) s = p)"

text \<open>\<open>printFunctionCall\<close>.\<close>

definition call_lines :: "rin \<Rightarrow> u32 \<Rightarrow> cstmt list" where
  "call_lines x address =
     (if address = longJmpAddress (cfg x)
      then [Txt 1 ''longjmp(*reinterpret_cast<jmp_buf*>(base + {}.u32), {}.s32);'' [TV (reg_r x 3), TV (reg_r x 4)]]
      else if address = setJmpAddress (cfg x)
      then [Txt 1 ''{} = ctx;'' [TV v_env],
            Txt 1 ''{}.s64 = setjmp(*reinterpret_cast<jmp_buf*>(base + {}.u32));'' [TV v_temp, TV (reg_r x 3)],
            Txt 1 ''if ({}.s64 != 0) ctx = {};'' [TV v_temp, TV v_env],
            Txt 1 ''{} = {};'' [TV (reg_r x 3), TV v_temp]]
      else (case find_symbol (ucast address) (symbols x) of
              Some s \<Rightarrow>
                if sym_address s = ucast address \<and> sym_type s = Symbol_Function
                then if nonVolatileRegistersAsLocalVariables (cfg x)
                        \<and> (starts_with ''__rest'' (sym_name s) \<or> starts_with ''__save'' (sym_name s))
                     then []
                     else [CallSub (sym_name s)]
                else [Txt 1 ''// ERROR {:X}'' [TI (uint address)]]
            | None \<Rightarrow> [Txt 1 ''// ERROR {:X}'' [TI (uint address)]]))"

text \<open>\<open>printConditionalBranchTo\<close> and \<open>printConditionalBranch\<close>.\<close>

definition cond_branch_to :: "rin \<Rightarrow> u32 \<Rightarrow> cexp \<Rightarrow> cstmt list" where
  "cond_branch_to x target condition =
     (if outside x target then [IfCall condition (call_lines x target)]
      else [IfGoto condition target])"

definition cond_branch :: "rin \<Rightarrow> bool \<Rightarrow> field \<Rightarrow> cstmt list" where
  "cond_branch x neg cond =
     cond_branch_to x (opnd x 1)
       (if neg then LNot (Fld (cro x 0) cond) else Fld (cro x 0) cond)"

text \<open>\<open>printSetFlushMode\<close>.\<close>

definition set_flush_mode :: "bool \<Rightarrow> estate \<Rightarrow> estate" where
  "set_flush_mode enable st =
     (let newState = (if enable then CSR_VMX else CSR_FPU)
      in if csr st \<noteq> newState
         then (emit [Flush enable (csr st \<noteq> CSR_Unknown)] st)\<lparr>csr := newState\<rparr>
         else st)"

lemmas naming_defs = reg_r_def reg_f_def reg_v_def reg_cr_def reg_ctr_def reg_xer_def reg_reserved_def

lemma emit_simps [simp]:
  "out (emit ss st) = out st @ ss"
  "locs (emit ss st) = locs st \<union> block_locals ss"
  "csr (emit ss st) = csr st"
  "pending (emit ss st) = pending st"
  "diag (emit ss st) = diag st"
  by (simp_all add: emit_def)

lemma report_simps [simp]:
  "out (report m st) = out st" "locs (report m st) = locs st" "csr (report m st) = csr st"
  "pending (report m st) = pending st"
  by (simp_all add: report_def)

subsection \<open>Jumps: \<open>B\<close> to \<open>BDZF\<close>\<close>

datatype id_jump =
    PPC_INST_B | PPC_INST_BCTR | PPC_INST_BCTRL | PPC_INST_BDZ | PPC_INST_BDZLR
  | PPC_INST_BDNZ | PPC_INST_BDNZF | PPC_INST_BDNZT | PPC_INST_BDZF

text \<open>The case labels of a switch table: \<open>True\<close> for a target inside the function.\<close>

definition switch_cases :: "rin \<Rightarrow> RecompilerSwitchTable \<Rightarrow> (bool \<times> u32) list" where
  "switch_cases x tb = map (\<lambda>l. (\<not> outside x l, l)) (st_labels tb)"

definition switch_errors :: "rin \<Rightarrow> RecompilerSwitchTable \<Rightarrow> string list" where
  "switch_errors x tb =
     map (\<lambda>l. ''ERROR: Switch case at '' @ hex_string (uint (pc x))
              @ '' is trying to jump outside function: '' @ hex_string (uint l))
         (filter (outside x) (st_labels tb))"

definition cr4 :: "rin \<Rightarrow> cexp" where
  "cr4 x = Fld (reg_cr x (unat (opnd x 0) div 4)) Feq"

fun recomp_jump :: "rin \<Rightarrow> id_jump \<Rightarrow> estate \<Rightarrow> estate" where
  "recomp_jump x PPC_INST_B st =
     (if outside x (opnd x 0) then emit (call_lines x (opnd x 0) @ [Return]) st
      else emit [Goto (opnd x 0)] st)"
| "recomp_jump x PPC_INST_BCTR st =
     (case pending st of
        Some tb \<Rightarrow>
          (emit [Switch (U64 (reg_r x (unat (st_r tb)))) (switch_cases x tb)] st)
             \<lparr>pending := None, diag := diag st @ switch_errors x tb\<rparr>
      | None \<Rightarrow> emit [CallInd (U32 (reg_ctr x)), Return] st)"
| "recomp_jump x PPC_INST_BCTRL st =
     (emit ((if skipLr (cfg x) then [] else [Asg CtxLr (Hex (uint (pc x + 4)))])
            @ [CallInd (U32 (reg_ctr x))]) st)\<lparr>csr := CSR_Unknown\<rparr>"
| "recomp_jump x PPC_INST_BDZ st =
     emit (Decr (U64 (reg_ctr x)) # cond_branch_to x (opnd x 0) (Bin Eq (U32 (reg_ctr x)) (Lit 0))) st"
| "recomp_jump x PPC_INST_BDZLR st =
     emit [Decr (U64 (reg_ctr x)), IfRet (Bin Eq (U32 (reg_ctr x)) (Lit 0))] st"
| "recomp_jump x PPC_INST_BDNZ st =
     emit (Decr (U64 (reg_ctr x)) # cond_branch_to x (opnd x 0) (Bin Ne (U32 (reg_ctr x)) (Lit 0))) st"
| "recomp_jump x PPC_INST_BDNZF st =
     emit (Decr (U64 (reg_ctr x)) # cond_branch_to x (opnd x 1)
             (Bin LAnd (Bin Ne (U32 (reg_ctr x)) (Lit 0)) (LNot (cr4 x)))) st"
| "recomp_jump x PPC_INST_BDNZT st =
     emit (Decr (U64 (reg_ctr x)) # cond_branch_to x (opnd x 1)
             (Bin LAnd (Bin Ne (U32 (reg_ctr x)) (Lit 0)) (cr4 x))) st"
| "recomp_jump x PPC_INST_BDZF st =
     emit (Decr (U64 (reg_ctr x)) # cond_branch_to x (opnd x 1)
             (Bin LAnd (Bin Eq (U32 (reg_ctr x)) (Lit 0)) (LNot (cr4 x)))) st"

subsection \<open>Conditional branches and calls: \<open>BEQ\<close> to \<open>BNELR\<close>\<close>

datatype id_cond =
    PPC_INST_BEQ | PPC_INST_BEQLR | PPC_INST_BGE | PPC_INST_BGELR | PPC_INST_BGT
  | PPC_INST_BGTLR | PPC_INST_BL | PPC_INST_BLE | PPC_INST_BLELR | PPC_INST_BLR
  | PPC_INST_BLRL | PPC_INST_BLT | PPC_INST_BLTLR | PPC_INST_BNE | PPC_INST_BNECTR
  | PPC_INST_BNELR

fun recomp_cond :: "rin \<Rightarrow> id_cond \<Rightarrow> estate \<Rightarrow> estate" where
  "recomp_cond x PPC_INST_BEQ st = emit (cond_branch x False Feq) st"
| "recomp_cond x PPC_INST_BEQLR st = emit [IfRet (Fld (cro x 0) Feq)] st"
| "recomp_cond x PPC_INST_BGE st = emit (cond_branch x True Flt) st"
| "recomp_cond x PPC_INST_BGELR st = emit [IfRet (LNot (Fld (cro x 0) Flt))] st"
| "recomp_cond x PPC_INST_BGT st = emit (cond_branch x False Fgt) st"
| "recomp_cond x PPC_INST_BGTLR st = emit [IfRet (Fld (cro x 0) Fgt)] st"
| "recomp_cond x PPC_INST_BL st =
     (emit ((if skipLr (cfg x) then [] else [Asg CtxLr (Hex (uint (pc x + 4)))])
            @ call_lines x (opnd x 0)) st)\<lparr>csr := CSR_Unknown\<rparr>"
| "recomp_cond x PPC_INST_BLE st = emit (cond_branch x True Fgt) st"
| "recomp_cond x PPC_INST_BLELR st = emit [IfRet (LNot (Fld (cro x 0) Fgt))] st"
| "recomp_cond x PPC_INST_BLR st = emit [Return] st"
| "recomp_cond x PPC_INST_BLRL st = emit [Txt 0 ''__builtin_debugtrap();'' []] st"
| "recomp_cond x PPC_INST_BLT st = emit (cond_branch x False Flt) st"
| "recomp_cond x PPC_INST_BLTLR st = emit [IfRet (Fld (cro x 0) Flt)] st"
| "recomp_cond x PPC_INST_BNE st = emit (cond_branch x True Feq) st"
| "recomp_cond x PPC_INST_BNECTR st =
     emit [IfCall (LNot (Fld (cro x 0) Feq)) [CallInd (U32 (reg_ctr x))]] st"
| "recomp_cond x PPC_INST_BNELR st = emit [IfRet (LNot (Fld (cro x 0) Feq))] st"

end
