(* ===== verification/EmitInt.thy ===== *)
theory EmitInt
  imports Emit
begin

text \<open>
  The integer arithmetic, compare, move, logic, rotate and shift cases of the switch in
  \<open>Recompiler::Recompile(fn, base, insn, data, ...)\<close> of \<open>XenonRecomp/recompiler.cpp\<close>. One
  datatype and one function per run of consecutive case labels, in the order of the source;
  each equation is one case: the lines it prints, as the abstract syntax of theory \<open>Cpp\<close>, and
  the change of the tracked flush mode.
\<close>

unbundle bit_operations_syntax

subsection \<open>\<open>ADD\<close> to \<open>ATTN\<close>\<close>

datatype (plugins only: code) id_add =
     PPC_INST_ADD | PPC_INST_ADDC | PPC_INST_ADDE | PPC_INST_ADDI | PPC_INST_ADDIC |
         PPC_INST_ADDIS
    | PPC_INST_ADDZE | PPC_INST_ADDME | PPC_INST_AND | PPC_INST_ANDC | PPC_INST_ANDI
    | PPC_INST_ANDIS | PPC_INST_ATTN

primrec recomp_add :: "rin \<Rightarrow> id_add \<Rightarrow> estate \<Rightarrow> estate" where
  "recomp_add x PPC_INST_ADD st =
     emit ([Asg (U64 (ro x 0)) (Bin Add (U64 (ro x 1)) (U64 (ro x 2)))]
      @ rc x) st"
| "recomp_add x PPC_INST_ADDC st =
     emit ([Asg (xer_ca x) (Bin Lt (Bin Add (U32 (ro x 1)) (U32 (ro x 2))) (U32 (ro x 1))),
      Asg (U64 (ro x 0)) (Bin Add (U64 (ro x 1)) (U64 (ro x 2)))]
      @ rc x) st"
| "recomp_add x PPC_INST_ADDE st =
     emit ([Asg (U8 v_temp) (Bin BOr (Par (Bin Lt (Bin Add (U32 (ro x 1)) (U32 (ro x 2)))
         (U32 (ro x 1)))) (Par (Bin Lt (Bin Add (Bin Add (U32 (ro x 1)) (U32 (ro x 2)))
            (xer_ca x)) (xer_ca x)))),
      Asg (U64 (ro x 0)) (Bin Add (Bin Add (U64 (ro x 1)) (U64 (ro x 2))) (xer_ca x)),
      Asg (xer_ca x) (U8 v_temp)]
      @ rc x) st"
| "recomp_add x PPC_INST_ADDI st =
     emit [Asg (S64 (ro x 0)) (opt_add x 1 (S64 (ro x 1)) (Lit (sop x 2)))] st"
| "recomp_add x PPC_INST_ADDIC st =
     emit ([Asg (xer_ca x) (Bin Gt (U32 (ro x 1)) (Lit (uint (NOT (opnd x 2))))),
      Asg (S64 (ro x 0)) (Bin Add (S64 (ro x 1)) (Lit (sop x 2)))]
      @ rc x) st"
| "recomp_add x PPC_INST_ADDIS st =
     emit [Asg (S64 (ro x 0)) (opt_add x 1 (S64 (ro x 1)) (Lit (sint (push_bit 16 (opnd x 2)))))]
         st"
| "recomp_add x PPC_INST_ADDZE st =
     emit ([Asg (S64 v_temp) (Bin Add (S64 (ro x 1)) (xer_ca x)),
      Asg (xer_ca x) (Bin Lt (U32 v_temp) (U32 (ro x 1))),
      Asg (S64 (ro x 0)) (S64 v_temp)]
      @ rc x) st"
| "recomp_add x PPC_INST_ADDME st =
     emit ([Asg (S64 v_temp) (Bin Sub (Bin Add (S64 (ro x 1)) (xer_ca x)) (Lit 1)),
      Asg (xer_ca x) (Bin Lt (U32 v_temp) (U32 (ro x 1))),
      Asg (S64 (ro x 0)) (S64 v_temp)]
      @ rc x) st"
| "recomp_add x PPC_INST_AND st =
     emit ([Asg (U64 (ro x 0)) (Bin BAnd (U64 (ro x 1)) (U64 (ro x 2)))]
      @ rc x) st"
| "recomp_add x PPC_INST_ANDC st =
     emit ([Asg (U64 (ro x 0)) (Bin BAnd (U64 (ro x 1)) (BNot (U64 (ro x 2))))]
      @ rc x) st"
| "recomp_add x PPC_INST_ANDI st =
     emit [Asg (U64 (ro x 0)) (Bin BAnd (U64 (ro x 1)) (Lit (uop x 2))),
      Compare (reg_cr x 0) int32_t (S32 (ro x 0)) (Lit 0) (reg_xer x)] st"
| "recomp_add x PPC_INST_ANDIS st =
     emit [Asg (U64 (ro x 0)) (Bin BAnd (U64 (ro x 1)) (Lit (uint (push_bit 16 (opnd x 2))))),
      Compare (reg_cr x 0) int32_t (S32 (ro x 0)) (Lit 0) (reg_xer x)] st"
| "recomp_add x PPC_INST_ATTN st = st"

subsection \<open>\<open>CCTPL\<close> to \<open>EQV\<close>\<close>

datatype (plugins only: code) id_cmp =
     PPC_INST_CCTPL | PPC_INST_CCTPM | PPC_INST_CLRLDI | PPC_INST_CLRLWI | PPC_INST_CROR
    | PPC_INST_CRORC | PPC_INST_CMPD | PPC_INST_CMPDI | PPC_INST_CMPLD | PPC_INST_CMPLDI
    | PPC_INST_CMPLW | PPC_INST_CMPLWI | PPC_INST_CMPW | PPC_INST_CMPWI | PPC_INST_CNTLZD
    | PPC_INST_CNTLZW | PPC_INST_DB16CYC | PPC_INST_DCBF | PPC_INST_DCBT | PPC_INST_DCBTST
    | PPC_INST_DCBST | PPC_INST_DCBZ | PPC_INST_DCBZL | PPC_INST_DIVD | PPC_INST_DIVDU
    | PPC_INST_DIVW | PPC_INST_DIVWU | PPC_INST_EIEIO | PPC_INST_EXTSB | PPC_INST_EXTSH
    | PPC_INST_EXTSW | PPC_INST_EQV

primrec recomp_cmp :: "rin \<Rightarrow> id_cmp \<Rightarrow> estate \<Rightarrow> estate" where
  "recomp_cmp x PPC_INST_CCTPL st = st"
| "recomp_cmp x PPC_INST_CCTPM st = st"
| "recomp_cmp x PPC_INST_CLRLDI st =
     emit [Asg (U64 (ro x 0)) (Bin BAnd (U64 (ro x 1))
         (Hex (uint (push_bit (64 - unat (opnd x 2)) (1 :: u64) - 1))))] st"
| "recomp_cmp x PPC_INST_CLRLWI st =
     emit ([Asg (U64 (ro x 0)) (Bin BAnd (U32 (ro x 1))
         (Hex (uint (push_bit (32 - unat (opnd x 2)) (1 :: u64) - 1))))]
      @ rc x) st"
| "recomp_cmp x PPC_INST_CROR st =
     emit [Asg (crbo x 0) (Bin BOr (crbo x 1) (crbo x 2))] st"
| "recomp_cmp x PPC_INST_CRORC st =
     emit [Asg (crbo x 0) (Bin BOr (crbo x 1) (LNot (crbo x 2)))] st"
| "recomp_cmp x PPC_INST_CMPD st =
     emit [Compare (cro x 0) int64_t (S64 (ro x 1)) (S64 (ro x 2)) (reg_xer x)] st"
| "recomp_cmp x PPC_INST_CMPDI st =
     emit [Compare (cro x 0) int64_t (S64 (ro x 1)) (Lit (sop x 2)) (reg_xer x)] st"
| "recomp_cmp x PPC_INST_CMPLD st =
     emit [Compare (cro x 0) uint64_t (U64 (ro x 1)) (U64 (ro x 2)) (reg_xer x)] st"
| "recomp_cmp x PPC_INST_CMPLDI st =
     emit [Compare (cro x 0) uint64_t (U64 (ro x 1)) (Lit (uop x 2)) (reg_xer x)] st"
| "recomp_cmp x PPC_INST_CMPLW st =
     emit [Compare (cro x 0) uint32_t (U32 (ro x 1)) (U32 (ro x 2)) (reg_xer x)] st"
| "recomp_cmp x PPC_INST_CMPLWI st =
     emit [Compare (cro x 0) uint32_t (U32 (ro x 1)) (Lit (uop x 2)) (reg_xer x)] st"
| "recomp_cmp x PPC_INST_CMPW st =
     emit [Compare (cro x 0) int32_t (S32 (ro x 1)) (S32 (ro x 2)) (reg_xer x)] st"
| "recomp_cmp x PPC_INST_CMPWI st =
     emit [Compare (cro x 0) int32_t (S32 (ro x 1)) (Lit (sop x 2)) (reg_xer x)] st"
| "recomp_cmp x PPC_INST_CNTLZD st =
     emit [Asg (U64 (ro x 0)) (Ite (Bin Eq (U64 (ro x 1)) (Lit 0)) (Lit 64)
         (Fn1 (Clz 64) (U64 (ro x 1))))] st"
| "recomp_cmp x PPC_INST_CNTLZW st =
     emit [Asg (U64 (ro x 0)) (Ite (Bin Eq (U32 (ro x 1)) (Lit 0)) (Lit 32)
         (Fn1 (Clz 32) (U32 (ro x 1))))] st"
| "recomp_cmp x PPC_INST_DB16CYC st = st"
| "recomp_cmp x PPC_INST_DCBF st = st"
| "recomp_cmp x PPC_INST_DCBT st = st"
| "recomp_cmp x PPC_INST_DCBTST st = st"
| "recomp_cmp x PPC_INST_DCBST st = st"
| "recomp_cmp x PPC_INST_DCBZ st =
     emit [Zero (Bin BAnd (Par (opt_add x 0 (U32 (ro x 0)) (U32 (ro x 1)))) (BNot (Lit 31))) 32]
         st"
| "recomp_cmp x PPC_INST_DCBZL st =
     emit [Zero (Bin BAnd (Par (opt_add x 0 (U32 (ro x 0)) (U32 (ro x 1)))) (BNot (Lit 127))) 128]
         st"
| "recomp_cmp x PPC_INST_DIVD st =
     emit [Asg (S64 (ro x 0)) (Bin Div (S64 (ro x 1)) (S64 (ro x 2)))] st"
| "recomp_cmp x PPC_INST_DIVDU st =
     emit ([Asg (U64 (ro x 0)) (Bin Div (U64 (ro x 1)) (U64 (ro x 2)))]
      @ rc x) st"
| "recomp_cmp x PPC_INST_DIVW st =
     emit ([Asg (S32 (ro x 0)) (Bin Div (S32 (ro x 1)) (S32 (ro x 2)))]
      @ rc x) st"
| "recomp_cmp x PPC_INST_DIVWU st =
     emit ([Asg (U32 (ro x 0)) (Bin Div (U32 (ro x 1)) (U32 (ro x 2)))]
      @ rc x) st"
| "recomp_cmp x PPC_INST_EIEIO st = st"
| "recomp_cmp x PPC_INST_EXTSB st =
     emit ([Asg (S64 (ro x 0)) (S8 (ro x 1))]
      @ rc x) st"
| "recomp_cmp x PPC_INST_EXTSH st =
     emit ([Asg (S64 (ro x 0)) (S16 (ro x 1))]
      @ rc x) st"
| "recomp_cmp x PPC_INST_EXTSW st =
     emit ([Asg (S64 (ro x 0)) (S32 (ro x 1))]
      @ rc x) st"
| "recomp_cmp x PPC_INST_EQV st =
     emit ([Asg (U64 (ro x 0)) (BNot (Par (Bin BXor (U64 (ro x 1)) (U64 (ro x 2)))))]
      @ rc x) st"

subsection \<open>\<open>MFCR\<close> to \<open>MULLW\<close>\<close>

datatype (plugins only: code) id_move =
     PPC_INST_MFCR | PPC_INST_MFFS | PPC_INST_MFLR | PPC_INST_MFMSR | PPC_INST_MFOCRF
    | PPC_INST_MFTB | PPC_INST_MR | PPC_INST_MTCR | PPC_INST_MTCTR | PPC_INST_MTFSF |
        PPC_INST_MTLR
    | PPC_INST_MTMSRD | PPC_INST_MTXER | PPC_INST_MULHW | PPC_INST_MULHWU | PPC_INST_MULHD
    | PPC_INST_MULHDU | PPC_INST_MULLD | PPC_INST_MULLI | PPC_INST_MULLW

primrec recomp_move :: "rin \<Rightarrow> id_move \<Rightarrow> estate \<Rightarrow> estate" where
  "recomp_move x PPC_INST_MFCR st =
     emit (map (\<lambda>i. (if i = 0 then Asg else OrAsg) (U64 (ro x 0))
             (Ite (Fld (reg_cr x (i div 4)) (cr_field i)) (Hex (2 ^ (31 - i))) (Lit 0))) [0..<32])
            st"
| "recomp_move x PPC_INST_MFFS st =
     emit [Txt 1 ''{}.u64 = ctx.fpscr.loadFromHost();'' [TV (fo x 0)]] st"
| "recomp_move x PPC_INST_MFLR st =
     emit ((if skipLr (cfg x) then [] else [Asg (U64 (ro x 0)) CtxLr])) st"
| "recomp_move x PPC_INST_MFMSR st =
     emit ((if skipMsr (cfg x) then [] else [Asg (U64 (ro x 0)) CtxMsr])) st"
| "recomp_move x PPC_INST_MFOCRF st =
     emit [Asg (U64 (ro x 0)) (Bin BOr (Bin BOr
         (Bin BOr (Par (Bin Shl (Fld (reg_cr x 6) Flt) (Lit 7)))
            (Par (Bin Shl (Fld (reg_cr x 6) Fgt) (Lit 6))))
            (Par (Bin Shl (Fld (reg_cr x 6) Feq) (Lit 5))))
            (Par (Bin Shl (Fld (reg_cr x 6) Fso) (Lit 4))))] st"
| "recomp_move x PPC_INST_MFTB st =
     emit [Asg (U64 (ro x 0)) (Fn0 Rdtsc)] st"
| "recomp_move x PPC_INST_MR st =
     emit ([Asg (U64 (ro x 0)) (U64 (ro x 1))]
      @ rc x) st"
| "recomp_move x PPC_INST_MTCR st =
     emit (map (\<lambda>i. Asg (Fld (reg_cr x (i div 4)) (cr_field i))
             (Bin Ne (Par (Bin BAnd (U32 (ro x 0)) (Hex (2 ^ (31 - i))))) (Lit 0))) [0..<32]) st"
| "recomp_move x PPC_INST_MTCTR st =
     emit [Asg (U64 (reg_ctr x)) (U64 (ro x 0))] st"
| "recomp_move x PPC_INST_MTFSF st =
     emit [Txt 1 ''ctx.fpscr.storeFromGuest({}.u32);'' [TV (fo x 1)]] st"
| "recomp_move x PPC_INST_MTLR st =
     emit ((if skipLr (cfg x) then [] else [Asg CtxLr (U64 (ro x 0))])) st"
| "recomp_move x PPC_INST_MTMSRD st =
     emit ((if skipMsr (cfg x) then [] else [Asg CtxMsr
         (Bin BOr (Par (Bin BAnd (U32 (ro x 0)) (Hex 0x8020)))
            (Par (Bin BAnd CtxMsr (BNot (Hex 0x8020)))))])) st"
| "recomp_move x PPC_INST_MTXER st =
     emit [Asg (Fld (reg_xer x) Fso) (Bin Ne (Par (Bin BAnd (U64 (ro x 0)) (Hex 0x80000000)))
         (Lit 0)),
      Asg (Fld (reg_xer x) Fov) (Bin Ne (Par (Bin BAnd (U64 (ro x 0)) (Hex 0x40000000))) (Lit 0)),
      Asg (xer_ca x) (Bin Ne (Par (Bin BAnd (U64 (ro x 0)) (Hex 0x20000000))) (Lit 0))] st"
| "recomp_move x PPC_INST_MULHW st =
     emit [Asg (S64 (ro x 0)) (Bin Shr (Par (Bin Mul (Cast int64_t (S32 (ro x 1)))
         (Cast int64_t (S32 (ro x 2))))) (Lit 32))] st"
| "recomp_move x PPC_INST_MULHWU st =
     emit ([Asg (U64 (ro x 0)) (Bin Shr (Par (Bin Mul (Cast uint64_t (U32 (ro x 1)))
         (Cast uint64_t (U32 (ro x 2))))) (Lit 32))]
      @ rc x) st"
| "recomp_move x PPC_INST_MULHD st =
     emit [Asg (S64 (ro x 0)) (Cast int64_t (Bin Shr
         (Par (Bin Mul (Cast int128_t (S64 (ro x 1))) (Cast int128_t (S64 (ro x 2))))) (Lit 64)))]
            st"
| "recomp_move x PPC_INST_MULHDU st =
     emit [Asg (U64 (ro x 0)) (Cast uint64_t (Bin Shr
         (Par (Bin Mul (PCast uint128_t (U64 (ro x 1))) (PCast uint128_t (U64 (ro x 2)))))
            (Lit 64)))] st"
| "recomp_move x PPC_INST_MULLD st =
     emit [Asg (S64 (ro x 0)) (Bin Mul (S64 (ro x 1)) (S64 (ro x 2)))] st"
| "recomp_move x PPC_INST_MULLI st =
     emit [Asg (S64 (ro x 0)) (Bin Mul (S64 (ro x 1)) (Lit (sop x 2)))] st"
| "recomp_move x PPC_INST_MULLW st =
     emit ([Asg (S64 (ro x 0)) (Bin Mul (Cast int64_t (S32 (ro x 1)))
         (Cast int64_t (S32 (ro x 2))))]
      @ rc x) st"

subsection \<open>\<open>NAND\<close> to \<open>ROTLWI\<close>\<close>

datatype (plugins only: code) id_logic =
     PPC_INST_NAND | PPC_INST_NEG | PPC_INST_NOP | PPC_INST_NOR | PPC_INST_NOT | PPC_INST_OR
    | PPC_INST_ORC | PPC_INST_ORI | PPC_INST_ORIS | PPC_INST_RLDICL | PPC_INST_RLDICR
    | PPC_INST_RLDIMI | PPC_INST_RLWIMI | PPC_INST_RLWINM | PPC_INST_ROTLDI | PPC_INST_ROTLW
    | PPC_INST_ROTLWI

primrec recomp_logic :: "rin \<Rightarrow> id_logic \<Rightarrow> estate \<Rightarrow> estate"
    where
  "recomp_logic x PPC_INST_NAND st =
     emit [Asg (U64 (ro x 0)) (BNot (Par (Bin BAnd (U64 (ro x 1)) (U64 (ro x 2)))))] st"
| "recomp_logic x PPC_INST_NEG st =
     emit ([Asg (S64 (ro x 0)) (Neg (S64 (ro x 1)))]
      @ rc x) st"
| "recomp_logic x PPC_INST_NOP st = st"
| "recomp_logic x PPC_INST_NOR st =
     emit [Asg (U64 (ro x 0)) (BNot (Par (Bin BOr (U64 (ro x 1)) (U64 (ro x 2)))))] st"
| "recomp_logic x PPC_INST_NOT st =
     emit ([Asg (U64 (ro x 0)) (BNot (U64 (ro x 1)))]
      @ rc x) st"
| "recomp_logic x PPC_INST_OR st =
     emit ([Asg (U64 (ro x 0)) (Bin BOr (U64 (ro x 1)) (U64 (ro x 2)))]
      @ rc x) st"
| "recomp_logic x PPC_INST_ORC st =
     emit [Asg (U64 (ro x 0)) (Bin BOr (U64 (ro x 1)) (BNot (U64 (ro x 2))))] st"
| "recomp_logic x PPC_INST_ORI st =
     emit [Asg (U64 (ro x 0)) (Bin BOr (U64 (ro x 1)) (Lit (uop x 2)))] st"
| "recomp_logic x PPC_INST_ORIS st =
     emit [Asg (U64 (ro x 0)) (Bin BOr (U64 (ro x 1)) (Lit (uint (push_bit 16 (opnd x 2)))))] st"
| "recomp_logic x PPC_INST_RLDICL st =
     emit [Asg (U64 (ro x 0)) (Bin BAnd (Fn2 (Rotl 64) (U64 (ro x 1)) (Lit (uop x 2)))
         (Hex (uint (ComputeMask (opnd x 3) 63))))] st"
| "recomp_logic x PPC_INST_RLDICR st =
     emit [Asg (U64 (ro x 0)) (Bin BAnd (Fn2 (Rotl 64) (U64 (ro x 1)) (Lit (uop x 2)))
         (Hex (uint (ComputeMask 0 (opnd x 3)))))] st"
| "recomp_logic x PPC_INST_RLDIMI st =
     (let msk = ComputeMask (opnd x 3) (NOT (opnd x 2))
      in emit [Asg (U64 (ro x 0)) (Bin BOr (Par
          (Bin BAnd (Fn2 (Rotl 64) (U64 (ro x 1)) (Lit (uop x 2))) (Hex (uint msk))))
            (Par (Bin BAnd (U64 (ro x 0)) (Hex (uint (NOT msk))))))] st)"
| "recomp_logic x PPC_INST_RLWIMI st =
     (let msk = ComputeMask (opnd x 3 + 32) (opnd x 4 + 32)
      in emit [Asg (U64 (ro x 0)) (Bin BOr (Par
          (Bin BAnd (Fn2 (Rotl 32) (U32 (ro x 1)) (Lit (uop x 2))) (Hex (uint msk))))
            (Par (Bin BAnd (U64 (ro x 0)) (Hex (uint (NOT msk))))))] st)"
| "recomp_logic x PPC_INST_RLWINM st =
     emit ([Asg (U64 (ro x 0)) (Bin BAnd (Fn2 (Rotl 64)
         (Bin BOr (U32 (ro x 1)) (Par (Bin Shl (U64 (ro x 1)) (Lit 32)))) (Lit (uop x 2)))
            (Hex (uint (ComputeMask (opnd x 3 + 32) (opnd x 4 + 32)))))]
      @ rc x) st"
| "recomp_logic x PPC_INST_ROTLDI st =
     emit [Asg (U64 (ro x 0)) (Fn2 (Rotl 64) (U64 (ro x 1)) (Lit (uop x 2)))] st"
| "recomp_logic x PPC_INST_ROTLW st =
     emit [Asg (U64 (ro x 0)) (Fn2 (Rotl 32) (U32 (ro x 1)) (Bin BAnd (U8 (ro x 2)) (Hex 0x1F)))]
         st"
| "recomp_logic x PPC_INST_ROTLWI st =
     emit ([Asg (U64 (ro x 0)) (Fn2 (Rotl 32) (U32 (ro x 1)) (Lit (uop x 2)))]
      @ rc x) st"

subsection \<open>\<open>SLD\<close> to \<open>SRW\<close>\<close>

datatype (plugins only: code) id_shift =
     PPC_INST_SLD | PPC_INST_SLW | PPC_INST_SRAD | PPC_INST_SRADI | PPC_INST_SRAW | PPC_INST_SRAWI
    | PPC_INST_SRD | PPC_INST_SRW

primrec recomp_shift :: "rin \<Rightarrow> id_shift \<Rightarrow> estate \<Rightarrow> estate"
    where
  "recomp_shift x PPC_INST_SLD st =
     emit [Asg (U64 (ro x 0)) (Ite (Bin BAnd (U8 (ro x 2)) (Hex 0x40)) (Lit 0)
         (Par (Bin Shl (U64 (ro x 1)) (Par (Bin BAnd (U8 (ro x 2)) (Hex 0x7F))))))] st"
| "recomp_shift x PPC_INST_SLW st =
     emit ([Asg (U64 (ro x 0)) (Ite (Bin BAnd (U8 (ro x 2)) (Hex 0x20)) (Lit 0)
         (Par (Bin Shl (U32 (ro x 1)) (Par (Bin BAnd (U8 (ro x 2)) (Hex 0x3F))))))]
      @ rc x) st"
| "recomp_shift x PPC_INST_SRAD st =
     emit [Asg (U64 v_temp) (Bin BAnd (U64 (ro x 2)) (Hex 0x7F)),
      IfAsg (Bin Gt (U64 v_temp) (Hex 0x3F)) (U64 v_temp) (Hex 0x3F),
      Asg (xer_ca x) (Bin BAnd (Par (Bin Lt (S64 (ro x 1)) (Lit 0)))
          (Par (Bin Ne (Par (Bin Shl (Par (Bin Shr (S64 (ro x 1)) (U64 v_temp))) (U64 v_temp)))
            (S64 (ro x 1))))),
      Asg (S64 (ro x 0)) (Bin Shr (S64 (ro x 1)) (U64 v_temp))] st"
| "recomp_shift x PPC_INST_SRADI st =
     emit ((if opnd x 2 \<noteq> 0
      then [Asg (xer_ca x) (Bin BAnd (Par (Bin Lt (S64 (ro x 1)) (Lit 0)))
          (Par (Bin Ne (Par (Bin BAnd (U64 (ro x 1))
            (Hex (uint (ComputeMask (64 - opnd x 2) 63))))) (Lit 0)))),
      Asg (S64 (ro x 0)) (Bin Shr (S64 (ro x 1)) (Lit (uop x 2)))]
      else [Asg (xer_ca x) (Lit 0),
      Asg (S64 (ro x 0)) (S64 (ro x 1))])) st"
| "recomp_shift x PPC_INST_SRAW st =
     emit ([Asg (U32 v_temp) (Bin BAnd (U32 (ro x 2)) (Hex 0x3F)),
      IfAsg (Bin Gt (U32 v_temp) (Hex 0x1F)) (U32 v_temp) (Hex 0x1F),
      Asg (xer_ca x) (Bin BAnd (Par (Bin Lt (S32 (ro x 1)) (Lit 0)))
          (Par (Bin Ne (Par (Bin Shl (Par (Bin Shr (S32 (ro x 1)) (U32 v_temp))) (U32 v_temp)))
            (S32 (ro x 1))))),
      Asg (S64 (ro x 0)) (Bin Shr (S32 (ro x 1)) (U32 v_temp))]
      @ rc x) st"
| "recomp_shift x PPC_INST_SRAWI st =
     emit ((if opnd x 2 \<noteq> 0
      then [Asg (xer_ca x) (Bin BAnd (Par (Bin Lt (S32 (ro x 1)) (Lit 0)))
          (Par (Bin Ne (Par (Bin BAnd (U32 (ro x 1))
            (Hex (uint (ComputeMask (64 - opnd x 2) 63))))) (Lit 0)))),
      Asg (S64 (ro x 0)) (Bin Shr (S32 (ro x 1)) (Lit (uop x 2)))]
      else [Asg (xer_ca x) (Lit 0),
      Asg (S64 (ro x 0)) (S32 (ro x 1))])
      @ rc x) st"
| "recomp_shift x PPC_INST_SRD st =
     emit [Asg (U64 (ro x 0)) (Ite (Bin BAnd (U8 (ro x 2)) (Hex 0x40)) (Lit 0)
         (Par (Bin Shr (U64 (ro x 1)) (Par (Bin BAnd (U8 (ro x 2)) (Hex 0x7F))))))] st"
| "recomp_shift x PPC_INST_SRW st =
     emit ([Asg (U64 (ro x 0)) (Ite (Bin BAnd (U8 (ro x 2)) (Hex 0x20)) (Lit 0)
         (Par (Bin Shr (U32 (ro x 1)) (Par (Bin BAnd (U8 (ro x 2)) (Hex 0x3F))))))]
      @ rc x) st"

subsection \<open>\<open>SUBF\<close> to \<open>TWLLEI\<close>\<close>

datatype (plugins only: code) id_sub =
     PPC_INST_SUBF | PPC_INST_SUBFC | PPC_INST_SUBFE | PPC_INST_SUBFZE | PPC_INST_SUBFIC
    | PPC_INST_SYNC | PPC_INST_TDLGEI | PPC_INST_TDLLEI | PPC_INST_TWI | PPC_INST_TWLGEI
    | PPC_INST_TWLLEI

primrec recomp_sub :: "rin \<Rightarrow> id_sub \<Rightarrow> estate \<Rightarrow> estate" where
  "recomp_sub x PPC_INST_SUBF st =
     emit ([Asg (S64 (ro x 0)) (Bin Sub (S64 (ro x 2)) (S64 (ro x 1)))]
      @ rc x) st"
| "recomp_sub x PPC_INST_SUBFC st =
     emit ([Asg (xer_ca x) (Bin Ge (U32 (ro x 2)) (U32 (ro x 1))),
      Asg (S64 (ro x 0)) (Bin Sub (S64 (ro x 2)) (S64 (ro x 1)))]
      @ rc x) st"
| "recomp_sub x PPC_INST_SUBFE st =
     emit ([Asg (U8 v_temp) (Bin BOr (Par (Bin Lt (Bin Add (BNot (U32 (ro x 1))) (U32 (ro x 2)))
         (BNot (U32 (ro x 1))))) (Par (Bin Lt
            (Bin Add (Bin Add (BNot (U32 (ro x 1))) (U32 (ro x 2))) (xer_ca x)) (xer_ca x)))),
      Asg (U64 (ro x 0)) (Bin Add (Bin Add (BNot (U64 (ro x 1))) (U64 (ro x 2))) (xer_ca x)),
      Asg (xer_ca x) (U8 v_temp)]
      @ rc x) st"
| "recomp_sub x PPC_INST_SUBFZE st =
     emit ([Asg (U8 v_temp) (Bin Lt (Bin Add (BNot (U32 (ro x 1))) (xer_ca x))
         (BNot (U32 (ro x 1)))),
      Asg (U64 (ro x 0)) (Bin Add (BNot (U64 (ro x 1))) (xer_ca x)),
      Asg (xer_ca x) (U8 v_temp)]
      @ rc x) st"
| "recomp_sub x PPC_INST_SUBFIC st =
     emit [Asg (xer_ca x) (Bin Le (U32 (ro x 1)) (Lit (uop x 2))),
      Asg (S64 (ro x 0)) (Bin Sub (Lit (sop x 2)) (S64 (ro x 1)))] st"
| "recomp_sub x PPC_INST_SYNC st = st"
| "recomp_sub x PPC_INST_TDLGEI st = st"
| "recomp_sub x PPC_INST_TDLLEI st = st"
| "recomp_sub x PPC_INST_TWI st = st"
| "recomp_sub x PPC_INST_TWLGEI st = st"
| "recomp_sub x PPC_INST_TWLLEI st = st"

subsection \<open>\<open>XOR\<close> to \<open>XORIS\<close>\<close>

datatype (plugins only: code) id_xor =
     PPC_INST_XOR | PPC_INST_XORI | PPC_INST_XORIS

primrec recomp_xor :: "rin \<Rightarrow> id_xor \<Rightarrow> estate \<Rightarrow> estate" where
  "recomp_xor x PPC_INST_XOR st =
     emit ([Asg (U64 (ro x 0)) (Bin BXor (U64 (ro x 1)) (U64 (ro x 2)))]
      @ rc x) st"
| "recomp_xor x PPC_INST_XORI st =
     emit [Asg (U64 (ro x 0)) (Bin BXor (U64 (ro x 1)) (Lit (uop x 2)))] st"
| "recomp_xor x PPC_INST_XORIS st =
     emit [Asg (U64 (ro x 0)) (Bin BXor (U64 (ro x 1)) (Lit (uint (push_bit 16 (opnd x 2)))))] st"

end
