(* ===== verification/EmitMem.thy ===== *)
theory EmitMem
  imports Emit
begin

text \<open>
  The load and store cases of the switch in
  \<open>Recompiler::Recompile(fn, base, insn, data, ...)\<close> of \<open>XenonRecomp/recompiler.cpp\<close>. One
  datatype and one function per run of consecutive case labels, in the order of the source;
  each equation is one case: the lines it prints, as the abstract syntax of theory \<open>Cpp\<close>, and
  the change of the tracked flush mode.
\<close>

unbundle bit_operations_syntax

subsection \<open>\<open>LBZ\<close> to \<open>LFSX\<close>\<close>

datatype (plugins only: code) id_load =
     PPC_INST_LBZ | PPC_INST_LBZU | PPC_INST_LBZX | PPC_INST_LBZUX | PPC_INST_LD | PPC_INST_LDARX
    | PPC_INST_LDU | PPC_INST_LDUX | PPC_INST_LDX | PPC_INST_LFD | PPC_INST_LFDU | PPC_INST_LFDX
    | PPC_INST_LFS | PPC_INST_LFSU | PPC_INST_LFSUX | PPC_INST_LFSX

primrec recomp_load :: "rin \<Rightarrow> id_load \<Rightarrow> estate \<Rightarrow> estate" where
  "recomp_load x PPC_INST_LBZ st =
     emit [Asg (U64 (ro x 0)) (Fn1 (LoadU 8) (opt_add x 2 (U32 (ro x 2)) (Lit (sop x 1))))] st"
| "recomp_load x PPC_INST_LBZU st =
     emit [Asg (Var v_ea) (Bin Add (Lit (sop x 1)) (U32 (ro x 2))),
      Asg (U64 (ro x 0)) (Fn1 (LoadU 8) (Var v_ea)),
      Asg (U32 (ro x 2)) (Var v_ea)] st"
| "recomp_load x PPC_INST_LBZX st =
     emit [Asg (U64 (ro x 0)) (Fn1 (LoadU 8) (opt_add x 1 (U32 (ro x 1)) (U32 (ro x 2))))] st"
| "recomp_load x PPC_INST_LBZUX st =
     emit [Asg (Var v_ea) (Bin Add (U32 (ro x 1)) (U32 (ro x 2))),
      Asg (U64 (ro x 0)) (Fn1 (LoadU 8) (Var v_ea)),
      Asg (U32 (ro x 1)) (Var v_ea)] st"
| "recomp_load x PPC_INST_LD st =
     emit [Asg (U64 (ro x 0)) (Fn1 (LoadU 64) (opt_add x 2 (U32 (ro x 2)) (Lit (sop x 1))))] st"
| "recomp_load x PPC_INST_LDARX st =
     emit [Asg (U64 (reg_reserved x)) (Fn1 (RawU 64) (opt_add x 1 (U32 (ro x 1)) (U32 (ro x 2)))),
      Asg (U64 (ro x 0)) (Fn1 (Bswap 64) (U64 (reg_reserved x)))] st"
| "recomp_load x PPC_INST_LDU st =
     emit [Asg (Var v_ea) (Bin Add (Lit (sop x 1)) (U32 (ro x 2))),
      Asg (U64 (ro x 0)) (Fn1 (LoadU 64) (Var v_ea)),
      Asg (U32 (ro x 2)) (Var v_ea)] st"
| "recomp_load x PPC_INST_LDUX st =
     emit [Asg (Var v_ea) (Bin Add (U32 (ro x 1)) (U32 (ro x 2))),
      Asg (U64 (ro x 0)) (Fn1 (LoadU 64) (Var v_ea)),
      Asg (U32 (ro x 1)) (Var v_ea)] st"
| "recomp_load x PPC_INST_LDX st =
     emit [Asg (U64 (ro x 0)) (Fn1 (LoadU 64) (opt_add x 1 (U32 (ro x 1)) (U32 (ro x 2))))] st"
| "recomp_load x PPC_INST_LFD st =
     emit [Asg (U64 (fo x 0)) (Fn1 (LoadU 64) (opt_add x 2 (U32 (ro x 2)) (Lit (sop x 1))))]
         (set_flush_mode False st)"
| "recomp_load x PPC_INST_LFDU st =
     emit [Asg (Var v_ea) (Bin Add (Lit (sop x 1)) (U32 (ro x 2))),
      Asg (U64 (fo x 0)) (Fn1 (LoadU 64) (Var v_ea)),
      Asg (U32 (ro x 2)) (Var v_ea)] (set_flush_mode False st)"
| "recomp_load x PPC_INST_LFDX st =
     emit [Asg (U64 (fo x 0)) (Fn1 (LoadU 64) (opt_add x 1 (U32 (ro x 1)) (U32 (ro x 2))))]
         (set_flush_mode False st)"
| "recomp_load x PPC_INST_LFS st =
     emit [Asg (U32 v_temp) (Fn1 (LoadU 32) (opt_add x 2 (U32 (ro x 2)) (Lit (sop x 1)))),
      Txt 1 ''{}.f64 = double({}.f32);'' [TV (fo x 0), TV v_temp]] (set_flush_mode False st)"
| "recomp_load x PPC_INST_LFSU st =
     emit [Asg (Var v_ea) (Bin Add (Lit (sop x 1)) (U32 (ro x 2))),
      Asg (U32 v_temp) (Fn1 (LoadU 32) (Var v_ea)),
      Txt 1 ''{}.f64 = double({}.f32);'' [TV (fo x 0), TV v_temp],
      Asg (U32 (ro x 2)) (Var v_ea)] (set_flush_mode False st)"
| "recomp_load x PPC_INST_LFSUX st =
     emit [Asg (Var v_ea) (Bin Add (U32 (ro x 1)) (U32 (ro x 2))),
      Asg (U32 v_temp) (Fn1 (LoadU 32) (Var v_ea)),
      Txt 1 ''{}.f64 = double({}.f32);'' [TV (fo x 0), TV v_temp],
      Asg (U32 (ro x 1)) (Var v_ea)] (set_flush_mode False st)"
| "recomp_load x PPC_INST_LFSX st =
     emit [Asg (U32 v_temp) (Fn1 (LoadU 32) (opt_add x 1 (U32 (ro x 1)) (U32 (ro x 2)))),
      Txt 1 ''{}.f64 = double({}.f32);'' [TV (fo x 0), TV v_temp]] (set_flush_mode False st)"

subsection \<open>\<open>LHA\<close> to \<open>LVSR\<close>\<close>

datatype (plugins only: code) id_load2 =
     PPC_INST_LHA | PPC_INST_LHAU | PPC_INST_LHAX | PPC_INST_LHZ | PPC_INST_LHZU | PPC_INST_LHZUX
    | PPC_INST_LHZX | PPC_INST_LI | PPC_INST_LIS | PPC_INST_LVEWX | PPC_INST_LVEWX128
    | PPC_INST_LVX | PPC_INST_LVX128 | PPC_INST_LVEHX | PPC_INST_LVLX | PPC_INST_LVLX128
    | PPC_INST_LVRX | PPC_INST_LVRX128 | PPC_INST_LVSL | PPC_INST_LVSR

primrec recomp_load2 :: "rin \<Rightarrow> id_load2 \<Rightarrow> estate \<Rightarrow> estate"
    where
  "recomp_load2 x PPC_INST_LHA st =
     emit [Asg (S64 (ro x 0)) (Cast int16_t (Fn1 (LoadU 16)
         (opt_add x 2 (U32 (ro x 2)) (Lit (sop x 1)))))] st"
| "recomp_load2 x PPC_INST_LHAU st =
     emit [Asg (Var v_ea) (Bin Add (Lit (sop x 1)) (U32 (ro x 2))),
      Asg (S64 (ro x 0)) (Cast int16_t (Fn1 (LoadU 16) (Var v_ea))),
      Asg (U32 (ro x 2)) (Var v_ea)] st"
| "recomp_load2 x PPC_INST_LHAX st =
     emit [Asg (S64 (ro x 0)) (Cast int16_t (Fn1 (LoadU 16)
         (opt_add x 1 (U32 (ro x 1)) (U32 (ro x 2)))))] st"
| "recomp_load2 x PPC_INST_LHZ st =
     emit [Asg (U64 (ro x 0)) (Fn1 (LoadU 16) (opt_add x 2 (U32 (ro x 2)) (Lit (sop x 1))))] st"
| "recomp_load2 x PPC_INST_LHZU st =
     emit [Asg (Var v_ea) (Bin Add (Lit (sop x 1)) (U32 (ro x 2))),
      Asg (U64 (ro x 0)) (Fn1 (LoadU 16) (Var v_ea)),
      Asg (U32 (ro x 2)) (Var v_ea)] st"
| "recomp_load2 x PPC_INST_LHZUX st =
     emit [Asg (Var v_ea) (Bin Add (U32 (ro x 1)) (U32 (ro x 2))),
      Asg (U64 (ro x 0)) (Fn1 (LoadU 16) (Var v_ea)),
      Asg (U32 (ro x 1)) (Var v_ea)] st"
| "recomp_load2 x PPC_INST_LHZX st =
     emit [Asg (U64 (ro x 0)) (Fn1 (LoadU 16) (opt_add x 1 (U32 (ro x 1)) (U32 (ro x 2))))] st"
| "recomp_load2 x PPC_INST_LI st =
     emit [Asg (S64 (ro x 0)) (Lit (sop x 1))] st"
| "recomp_load2 x PPC_INST_LIS st =
     emit [Asg (S64 (ro x 0)) (Lit (sint (push_bit 16 (opnd x 1))))] st"
| "recomp_load2 x PPC_INST_LVEWX st =
     emit [(if opnd x 1 \<noteq> 0 then Txt 1
         ''simde_mm_store_si128((simde__m128i*){}.u8, simde_mm_shuffle_epi8(simde_mm_load_si128((simde__m128i*)(base + (({}.u32 + {}.u32) & ~0xF))), simde_mm_load_si128((simde__m128i*)VectorMaskL)));''
            [TV (vo x 0), TV (ro x 1), TV (ro x 2)]
      else Txt 1
          ''simde_mm_store_si128((simde__m128i*){}.u8, simde_mm_shuffle_epi8(simde_mm_load_si128((simde__m128i*)(base + (({}.u32) & ~0xF))), simde_mm_load_si128((simde__m128i*)VectorMaskL)));''
            [TV (vo x 0), TV (ro x 2)])] st"
| "recomp_load2 x PPC_INST_LVEWX128 st =
     emit [(if opnd x 1 \<noteq> 0 then Txt 1
         ''simde_mm_store_si128((simde__m128i*){}.u8, simde_mm_shuffle_epi8(simde_mm_load_si128((simde__m128i*)(base + (({}.u32 + {}.u32) & ~0xF))), simde_mm_load_si128((simde__m128i*)VectorMaskL)));''
            [TV (vo x 0), TV (ro x 1), TV (ro x 2)]
      else Txt 1
          ''simde_mm_store_si128((simde__m128i*){}.u8, simde_mm_shuffle_epi8(simde_mm_load_si128((simde__m128i*)(base + (({}.u32) & ~0xF))), simde_mm_load_si128((simde__m128i*)VectorMaskL)));''
            [TV (vo x 0), TV (ro x 2)])] st"
| "recomp_load2 x PPC_INST_LVX st =
     emit [(if opnd x 1 \<noteq> 0 then Txt 1
         ''simde_mm_store_si128((simde__m128i*){}.u8, simde_mm_shuffle_epi8(simde_mm_load_si128((simde__m128i*)(base + (({}.u32 + {}.u32) & ~0xF))), simde_mm_load_si128((simde__m128i*)VectorMaskL)));''
            [TV (vo x 0), TV (ro x 1), TV (ro x 2)]
      else Txt 1
          ''simde_mm_store_si128((simde__m128i*){}.u8, simde_mm_shuffle_epi8(simde_mm_load_si128((simde__m128i*)(base + (({}.u32) & ~0xF))), simde_mm_load_si128((simde__m128i*)VectorMaskL)));''
            [TV (vo x 0), TV (ro x 2)])] st"
| "recomp_load2 x PPC_INST_LVX128 st =
     emit [(if opnd x 1 \<noteq> 0 then Txt 1
         ''simde_mm_store_si128((simde__m128i*){}.u8, simde_mm_shuffle_epi8(simde_mm_load_si128((simde__m128i*)(base + (({}.u32 + {}.u32) & ~0xF))), simde_mm_load_si128((simde__m128i*)VectorMaskL)));''
            [TV (vo x 0), TV (ro x 1), TV (ro x 2)]
      else Txt 1
          ''simde_mm_store_si128((simde__m128i*){}.u8, simde_mm_shuffle_epi8(simde_mm_load_si128((simde__m128i*)(base + (({}.u32) & ~0xF))), simde_mm_load_si128((simde__m128i*)VectorMaskL)));''
            [TV (vo x 0), TV (ro x 2)])] st"
| "recomp_load2 x PPC_INST_LVEHX st =
     emit [Asg (Var v_ea) (Bin BAnd (Par (opt_add x 1 (U32 (ro x 1)) (U32 (ro x 2))))
         (BNot (Hex 0x1))),
      Asg (Elem (vo x 0) Fu16 (Bin Sub (Lit 7)
          (Par (Bin Shr (Par (Bin BAnd (Var v_ea) (Hex 0xF))) (Lit 1)))))
            (Fn1 (LoadU 16) (Var v_ea))] st"
| "recomp_load2 x PPC_INST_LVLX st =
     emit [Asg (U32 v_temp) (opt_add x 1 (U32 (ro x 1)) (U32 (ro x 2))),
      Txt 1
          ''simde_mm_store_si128((simde__m128i*){}.u8, simde_mm_shuffle_epi8(simde_mm_load_si128((simde__m128i*)(base + ({}.u32 & ~0xF))), simde_mm_load_si128((simde__m128i*)&VectorMaskL[({}.u32 & 0xF) * 16])));''
            [TV (vo x 0), TV v_temp, TV v_temp]] st"
| "recomp_load2 x PPC_INST_LVLX128 st =
     emit [Asg (U32 v_temp) (opt_add x 1 (U32 (ro x 1)) (U32 (ro x 2))),
      Txt 1
          ''simde_mm_store_si128((simde__m128i*){}.u8, simde_mm_shuffle_epi8(simde_mm_load_si128((simde__m128i*)(base + ({}.u32 & ~0xF))), simde_mm_load_si128((simde__m128i*)&VectorMaskL[({}.u32 & 0xF) * 16])));''
            [TV (vo x 0), TV v_temp, TV v_temp]] st"
| "recomp_load2 x PPC_INST_LVRX st =
     emit [Asg (U32 v_temp) (opt_add x 1 (U32 (ro x 1)) (U32 (ro x 2))),
      Txt 1
          ''simde_mm_store_si128((simde__m128i*){}.u8, {}.u32 & 0xF ? simde_mm_shuffle_epi8(simde_mm_load_si128((simde__m128i*)(base + ({}.u32 & ~0xF))), simde_mm_load_si128((simde__m128i*)&VectorMaskR[({}.u32 & 0xF) * 16])) : simde_mm_setzero_si128());''
            [TV (vo x 0), TV v_temp, TV v_temp, TV v_temp]] st"
| "recomp_load2 x PPC_INST_LVRX128 st =
     emit [Asg (U32 v_temp) (opt_add x 1 (U32 (ro x 1)) (U32 (ro x 2))),
      Txt 1
          ''simde_mm_store_si128((simde__m128i*){}.u8, {}.u32 & 0xF ? simde_mm_shuffle_epi8(simde_mm_load_si128((simde__m128i*)(base + ({}.u32 & ~0xF))), simde_mm_load_si128((simde__m128i*)&VectorMaskR[({}.u32 & 0xF) * 16])) : simde_mm_setzero_si128());''
            [TV (vo x 0), TV v_temp, TV v_temp, TV v_temp]] st"
| "recomp_load2 x PPC_INST_LVSL st =
     emit [Asg (U32 v_temp) (opt_add x 1 (U32 (ro x 1)) (U32 (ro x 2))),
      Txt 1
          ''simde_mm_store_si128((simde__m128i*){}.u8, simde_mm_load_si128((simde__m128i*)&VectorShiftTableL[({}.u32 & 0xF) * 16]));''
            [TV (vo x 0), TV v_temp]] st"
| "recomp_load2 x PPC_INST_LVSR st =
     emit [Asg (U32 v_temp) (opt_add x 1 (U32 (ro x 1)) (U32 (ro x 2))),
      Txt 1
          ''simde_mm_store_si128((simde__m128i*){}.u8, simde_mm_load_si128((simde__m128i*)&VectorShiftTableR[({}.u32 & 0xF) * 16]));''
            [TV (vo x 0), TV v_temp]] st"

subsection \<open>\<open>LWA\<close> to \<open>LWZX\<close>\<close>

datatype (plugins only: code) id_load3 =
     PPC_INST_LWA | PPC_INST_LWARX | PPC_INST_LWAX | PPC_INST_LWBRX | PPC_INST_LWSYNC
    | PPC_INST_LWZ | PPC_INST_LWZU | PPC_INST_LWZUX | PPC_INST_LWZX

primrec recomp_load3 :: "rin \<Rightarrow> id_load3 \<Rightarrow> estate \<Rightarrow> estate"
    where
  "recomp_load3 x PPC_INST_LWA st =
     emit [Asg (S64 (ro x 0)) (Cast int32_t (Fn1 (LoadU 32)
         (opt_add x 2 (U32 (ro x 2)) (Lit (sop x 1)))))] st"
| "recomp_load3 x PPC_INST_LWARX st =
     emit [Asg (U32 (reg_reserved x)) (Fn1 (RawU 32) (opt_add x 1 (U32 (ro x 1)) (U32 (ro x 2)))),
      Asg (U64 (ro x 0)) (Fn1 (Bswap 32) (U32 (reg_reserved x)))] st"
| "recomp_load3 x PPC_INST_LWAX st =
     emit [Asg (S64 (ro x 0)) (Cast int32_t (Fn1 (LoadU 32)
         (opt_add x 1 (U32 (ro x 1)) (U32 (ro x 2)))))] st"
| "recomp_load3 x PPC_INST_LWBRX st =
     emit [Asg (U64 (ro x 0)) (Fn1 (Bswap 32)
         (Fn1 (LoadU 32) (opt_add x 1 (U32 (ro x 1)) (U32 (ro x 2)))))] st"
| "recomp_load3 x PPC_INST_LWSYNC st = st"
| "recomp_load3 x PPC_INST_LWZ st =
     emit [Asg (U64 (ro x 0)) (Fn1 (LoadU 32) (opt_add x 2 (U32 (ro x 2)) (Lit (sop x 1))))] st"
| "recomp_load3 x PPC_INST_LWZU st =
     emit [Asg (Var v_ea) (Bin Add (Lit (sop x 1)) (U32 (ro x 2))),
      Asg (U64 (ro x 0)) (Fn1 (LoadU 32) (Var v_ea)),
      Asg (U32 (ro x 2)) (Var v_ea)] st"
| "recomp_load3 x PPC_INST_LWZUX st =
     emit [Asg (Var v_ea) (Bin Add (U32 (ro x 1)) (U32 (ro x 2))),
      Asg (U64 (ro x 0)) (Fn1 (LoadU 32) (Var v_ea)),
      Asg (U32 (ro x 1)) (Var v_ea)] st"
| "recomp_load3 x PPC_INST_LWZX st =
     emit [Asg (U64 (ro x 0)) (Fn1 (LoadU 32) (opt_add x 1 (U32 (ro x 1)) (U32 (ro x 2))))] st"

subsection \<open>\<open>STB\<close> to \<open>STFSX\<close>\<close>

datatype (plugins only: code) id_store =
     PPC_INST_STB | PPC_INST_STBU | PPC_INST_STBUX | PPC_INST_STBX | PPC_INST_STD | PPC_INST_STDCX
    | PPC_INST_STDU | PPC_INST_STDUX | PPC_INST_STDX | PPC_INST_STFD | PPC_INST_STFDU
    | PPC_INST_STFDX | PPC_INST_STFIWX | PPC_INST_STFS | PPC_INST_STFSU | PPC_INST_STFSUX
    | PPC_INST_STFSX

primrec recomp_store :: "rin \<Rightarrow> id_store \<Rightarrow> estate \<Rightarrow> estate"
    where
  "recomp_store x PPC_INST_STB st =
     emit [Store (mmioStore x) 8 (opt_add x 2 (U32 (ro x 2)) (Lit (sop x 1))) (U8 (ro x 0))] st"
| "recomp_store x PPC_INST_STBU st =
     emit [Asg (Var v_ea) (Bin Add (Lit (sop x 1)) (U32 (ro x 2))),
      Store False 8 (Var v_ea) (U8 (ro x 0)),
      Asg (U32 (ro x 2)) (Var v_ea)] st"
| "recomp_store x PPC_INST_STBUX st =
     emit [Asg (Var v_ea) (Bin Add (U32 (ro x 1)) (U32 (ro x 2))),
      Store False 8 (Var v_ea) (U8 (ro x 0)),
      Asg (U32 (ro x 1)) (Var v_ea)] st"
| "recomp_store x PPC_INST_STBX st =
     emit [Store (mmioStore x) 8 (opt_add x 1 (U32 (ro x 1)) (U32 (ro x 2))) (U8 (ro x 0))] st"
| "recomp_store x PPC_INST_STD st =
     emit [Store (mmioStore x) 64 (opt_add x 2 (U32 (ro x 2)) (Lit (sop x 1))) (U64 (ro x 0))] st"
| "recomp_store x PPC_INST_STDCX st =
     emit [Asg (Fld (reg_cr x 0) Flt) (Lit 0),
      Asg (Fld (reg_cr x 0) Fgt) (Lit 0),
      Cas (reg_cr x 0) 64 (opt_add x 1 (U32 (ro x 1)) (U32 (ro x 2))) (S64 (reg_reserved x))
          (Fn1 (Bswap 64) (S64 (ro x 0))),
      Asg (Fld (reg_cr x 0) Fso) (Fld (reg_xer x) Fso)] st"
| "recomp_store x PPC_INST_STDU st =
     emit [Asg (Var v_ea) (Bin Add (Lit (sop x 1)) (U32 (ro x 2))),
      Store False 64 (Var v_ea) (U64 (ro x 0)),
      Asg (U32 (ro x 2)) (Var v_ea)] st"
| "recomp_store x PPC_INST_STDUX st =
     emit [Asg (Var v_ea) (Bin Add (U32 (ro x 1)) (U32 (ro x 2))),
      Store False 64 (Var v_ea) (U64 (ro x 0)),
      Asg (U32 (ro x 1)) (Var v_ea)] st"
| "recomp_store x PPC_INST_STDX st =
     emit [Store (mmioStore x) 64 (opt_add x 1 (U32 (ro x 1)) (U32 (ro x 2))) (U64 (ro x 0))] st"
| "recomp_store x PPC_INST_STFD st =
     emit [Store (mmioStore x) 64 (opt_add x 2 (U32 (ro x 2)) (Lit (sop x 1))) (U64 (fo x 0))]
         (set_flush_mode False st)"
| "recomp_store x PPC_INST_STFDU st =
     emit [Asg (Var v_ea) (Bin Add (Lit (sop x 1)) (U32 (ro x 2))),
      Store False 64 (Var v_ea) (U64 (fo x 0)),
      Asg (U32 (ro x 2)) (Var v_ea)] (set_flush_mode False st)"
| "recomp_store x PPC_INST_STFDX st =
     emit [Store (mmioStore x) 64 (opt_add x 1 (U32 (ro x 1)) (U32 (ro x 2))) (U64 (fo x 0))]
         (set_flush_mode False st)"
| "recomp_store x PPC_INST_STFIWX st =
     emit [Store (mmioStore x) 32 (opt_add x 1 (U32 (ro x 1)) (U32 (ro x 2))) (U32 (fo x 0))]
         (set_flush_mode False st)"
| "recomp_store x PPC_INST_STFS st =
     emit [Txt 1 ''{}.f32 = float({}.f64);'' [TV v_temp, TV (fo x 0)],
      Store (mmioStore x) 32 (opt_add x 2 (U32 (ro x 2)) (Lit (sop x 1))) (U32 v_temp)]
          (set_flush_mode False st)"
| "recomp_store x PPC_INST_STFSU st =
     emit [Asg (Var v_ea) (Bin Add (Lit (sop x 1)) (U32 (ro x 2))),
      Txt 1 ''{}.f32 = float({}.f64);'' [TV v_temp, TV (fo x 0)],
      Store False 32 (Var v_ea) (U32 v_temp),
      Asg (U32 (ro x 2)) (Var v_ea)] (set_flush_mode False st)"
| "recomp_store x PPC_INST_STFSUX st =
     emit [Asg (Var v_ea) (Bin Add (U32 (ro x 1)) (U32 (ro x 2))),
      Txt 1 ''{}.f32 = float({}.f64);'' [TV v_temp, TV (fo x 0)],
      Store False 32 (Var v_ea) (U32 v_temp),
      Asg (U32 (ro x 1)) (Var v_ea)] (set_flush_mode False st)"
| "recomp_store x PPC_INST_STFSX st =
     emit [Txt 1 ''{}.f32 = float({}.f64);'' [TV v_temp, TV (fo x 0)],
      Store (mmioStore x) 32 (opt_add x 1 (U32 (ro x 1)) (U32 (ro x 2))) (U32 v_temp)]
          (set_flush_mode False st)"

subsection \<open>\<open>STH\<close> to \<open>STWX\<close>\<close>

datatype (plugins only: code) id_store2 =
     PPC_INST_STH | PPC_INST_STHU | PPC_INST_STHBRX | PPC_INST_STHUX | PPC_INST_STHX
    | PPC_INST_STVEHX | PPC_INST_STVEWX | PPC_INST_STVEWX128 | PPC_INST_STVLX | PPC_INST_STVLX128
    | PPC_INST_STVRX | PPC_INST_STVRX128 | PPC_INST_STVX | PPC_INST_STVX128 | PPC_INST_STW
    | PPC_INST_STWBRX | PPC_INST_STWCX | PPC_INST_STWU | PPC_INST_STWUX | PPC_INST_STWX

primrec recomp_store2 :: "rin \<Rightarrow> id_store2 \<Rightarrow> estate \<Rightarrow> estate"
    where
  "recomp_store2 x PPC_INST_STH st =
     emit [Store (mmioStore x) 16 (opt_add x 2 (U32 (ro x 2)) (Lit (sop x 1))) (U16 (ro x 0))] st"
| "recomp_store2 x PPC_INST_STHU st =
     emit [Asg (Var v_ea) (Bin Add (Lit (sop x 1)) (U32 (ro x 2))),
      Store False 16 (Var v_ea) (U16 (ro x 0)),
      Asg (U32 (ro x 2)) (Var v_ea)] st"
| "recomp_store2 x PPC_INST_STHBRX st =
     emit [Store (mmioStore x) 16 (opt_add x 1 (U32 (ro x 1)) (U32 (ro x 2)))
         (Fn1 (Bswap 16) (U16 (ro x 0)))] st"
| "recomp_store2 x PPC_INST_STHUX st =
     emit [Asg (Var v_ea) (Bin Add (U32 (ro x 1)) (U32 (ro x 2))),
      Store False 16 (Var v_ea) (U16 (ro x 0)),
      Asg (U32 (ro x 1)) (Var v_ea)] st"
| "recomp_store2 x PPC_INST_STHX st =
     emit [Store (mmioStore x) 16 (opt_add x 1 (U32 (ro x 1)) (U32 (ro x 2))) (U16 (ro x 0))] st"
| "recomp_store2 x PPC_INST_STVEHX st =
     emit [Asg (Var v_ea) (Bin BAnd (Par (opt_add x 1 (U32 (ro x 1)) (U32 (ro x 2))))
         (BNot (Hex 0x1))),
      Txt 1 ''PPC_STORE_U16(ea, {}.u16[7 - (({} & 0xF) >> 1)]);'' [TV (vo x 0), TV v_ea]] st"
| "recomp_store2 x PPC_INST_STVEWX st =
     emit [Asg (Var v_ea) (Bin BAnd (Par (opt_add x 1 (U32 (ro x 1)) (U32 (ro x 2))))
         (BNot (Hex 0x3))),
      Txt 1 ''PPC_STORE_U32(ea, {}.u32[3 - (({} & 0xF) >> 2)]);'' [TV (vo x 0), TV v_ea]] st"
| "recomp_store2 x PPC_INST_STVEWX128 st =
     emit [Asg (Var v_ea) (Bin BAnd (Par (opt_add x 1 (U32 (ro x 1)) (U32 (ro x 2))))
         (BNot (Hex 0x3))),
      Txt 1 ''PPC_STORE_U32(ea, {}.u32[3 - (({} & 0xF) >> 2)]);'' [TV (vo x 0), TV v_ea]] st"
| "recomp_store2 x PPC_INST_STVLX st =
     emit [Asg (Var v_ea) (opt_add x 1 (U32 (ro x 1)) (U32 (ro x 2))),
      Txt 1 ''for (size_t i = 0; i < (16 - ({} & 0xF)); i++)'' [TV v_ea],
      Txt 2 ''PPC_STORE_U8({} + i, {}.u8[15 - i]);'' [TV v_ea, TV (vo x 0)]] st"
| "recomp_store2 x PPC_INST_STVLX128 st =
     emit [Asg (Var v_ea) (opt_add x 1 (U32 (ro x 1)) (U32 (ro x 2))),
      Txt 1 ''for (size_t i = 0; i < (16 - ({} & 0xF)); i++)'' [TV v_ea],
      Txt 2 ''PPC_STORE_U8({} + i, {}.u8[15 - i]);'' [TV v_ea, TV (vo x 0)]] st"
| "recomp_store2 x PPC_INST_STVRX st =
     emit [Asg (Var v_ea) (opt_add x 1 (U32 (ro x 1)) (U32 (ro x 2))),
      Txt 1 ''for (size_t i = 0; i < ({} & 0xF); i++)'' [TV v_ea],
      Txt 2 ''PPC_STORE_U8({} - i - 1, {}.u8[i]);'' [TV v_ea, TV (vo x 0)]] st"
| "recomp_store2 x PPC_INST_STVRX128 st =
     emit [Asg (Var v_ea) (opt_add x 1 (U32 (ro x 1)) (U32 (ro x 2))),
      Txt 1 ''for (size_t i = 0; i < ({} & 0xF); i++)'' [TV v_ea],
      Txt 2 ''PPC_STORE_U8({} - i - 1, {}.u8[i]);'' [TV v_ea, TV (vo x 0)]] st"
| "recomp_store2 x PPC_INST_STVX st =
     emit [(if opnd x 1 \<noteq> 0 then Txt 1
         ''simde_mm_store_si128((simde__m128i*)(base + (({}.u32 + {}.u32) & ~0xF)), simde_mm_shuffle_epi8(simde_mm_load_si128((simde__m128i*){}.u8), simde_mm_load_si128((simde__m128i*)VectorMaskL)));''
            [TV (ro x 1), TV (ro x 2), TV (vo x 0)]
      else Txt 1
          ''simde_mm_store_si128((simde__m128i*)(base + (({}.u32) & ~0xF)), simde_mm_shuffle_epi8(simde_mm_load_si128((simde__m128i*){}.u8), simde_mm_load_si128((simde__m128i*)VectorMaskL)));''
            [TV (ro x 2), TV (vo x 0)])] st"
| "recomp_store2 x PPC_INST_STVX128 st =
     emit [(if opnd x 1 \<noteq> 0 then Txt 1
         ''simde_mm_store_si128((simde__m128i*)(base + (({}.u32 + {}.u32) & ~0xF)), simde_mm_shuffle_epi8(simde_mm_load_si128((simde__m128i*){}.u8), simde_mm_load_si128((simde__m128i*)VectorMaskL)));''
            [TV (ro x 1), TV (ro x 2), TV (vo x 0)]
      else Txt 1
          ''simde_mm_store_si128((simde__m128i*)(base + (({}.u32) & ~0xF)), simde_mm_shuffle_epi8(simde_mm_load_si128((simde__m128i*){}.u8), simde_mm_load_si128((simde__m128i*)VectorMaskL)));''
            [TV (ro x 2), TV (vo x 0)])] st"
| "recomp_store2 x PPC_INST_STW st =
     emit [Store (mmioStore x) 32 (opt_add x 2 (U32 (ro x 2)) (Lit (sop x 1))) (U32 (ro x 0))] st"
| "recomp_store2 x PPC_INST_STWBRX st =
     emit [Store (mmioStore x) 32 (opt_add x 1 (U32 (ro x 1)) (U32 (ro x 2)))
         (Fn1 (Bswap 32) (U32 (ro x 0)))] st"
| "recomp_store2 x PPC_INST_STWCX st =
     emit [Asg (Fld (reg_cr x 0) Flt) (Lit 0),
      Asg (Fld (reg_cr x 0) Fgt) (Lit 0),
      Cas (reg_cr x 0) 32 (opt_add x 1 (U32 (ro x 1)) (U32 (ro x 2))) (S32 (reg_reserved x))
          (Fn1 (Bswap 32) (S32 (ro x 0))),
      Asg (Fld (reg_cr x 0) Fso) (Fld (reg_xer x) Fso)] st"
| "recomp_store2 x PPC_INST_STWU st =
     emit [Asg (Var v_ea) (Bin Add (Lit (sop x 1)) (U32 (ro x 2))),
      Store False 32 (Var v_ea) (U32 (ro x 0)),
      Asg (U32 (ro x 2)) (Var v_ea)] st"
| "recomp_store2 x PPC_INST_STWUX st =
     emit [Asg (Var v_ea) (Bin Add (U32 (ro x 1)) (U32 (ro x 2))),
      Store False 32 (Var v_ea) (U32 (ro x 0)),
      Asg (U32 (ro x 1)) (Var v_ea)] st"
| "recomp_store2 x PPC_INST_STWX st =
     emit [Store (mmioStore x) 32 (opt_add x 1 (U32 (ro x 1)) (U32 (ro x 2))) (U32 (ro x 0))] st"

end
