(* ===== verification/EmitVec.thy ===== *)
theory EmitVec
  imports Emit
begin

text \<open>
  The floating-point and vector cases of the switch in
  \<open>Recompiler::Recompile(fn, base, insn, data, ...)\<close> of \<open>XenonRecomp/recompiler.cpp\<close>. One
  datatype and one function per run of consecutive case labels, in the order of the source;
  each equation is one case: the lines it prints, as the abstract syntax of theory \<open>Cpp\<close>, and
  the change of the tracked flush mode.
\<close>

unbundle bit_operations_syntax

text \<open>The float \<open>ldexp(1.0f, -n)\<close> as its bits, for the exponents of a normal number.\<close>

definition ldexp_bits :: "u32 \<Rightarrow> u32" where
  "ldexp_bits n = push_bit 23 (127 - n)"

text \<open>The table \<open>shuffles\<close> of \<open>VRLIMI128\<close>: the values of \<open>SIMDE_MM_SHUFFLE\<close> there.\<close>

definition shuffle_const :: "u32 \<Rightarrow> int" where
  "shuffle_const n = [0xE4, 0x93, 0x4E, 0x39] ! unat n"

subsection \<open>\<open>FABS\<close> to \<open>FSUBS\<close>\<close>

datatype (plugins only: code) id_float =
     PPC_INST_FABS | PPC_INST_FADD | PPC_INST_FADDS | PPC_INST_FCFID | PPC_INST_FCMPU
    | PPC_INST_FCTID | PPC_INST_FCTIDZ | PPC_INST_FCTIWZ | PPC_INST_FDIV | PPC_INST_FDIVS
    | PPC_INST_FMADD | PPC_INST_FMADDS | PPC_INST_FMR | PPC_INST_FMSUB | PPC_INST_FMSUBS
    | PPC_INST_FMUL | PPC_INST_FMULS | PPC_INST_FNABS | PPC_INST_FNEG | PPC_INST_FNMADDS
    | PPC_INST_FNMSUB | PPC_INST_FNMSUBS | PPC_INST_FRES | PPC_INST_FRSQRTE | PPC_INST_FRSP
    | PPC_INST_FSEL | PPC_INST_FSQRT | PPC_INST_FSQRTS | PPC_INST_FSUB | PPC_INST_FSUBS

primrec recomp_float :: "rin \<Rightarrow> id_float \<Rightarrow> estate \<Rightarrow> estate"
    where
  "recomp_float x PPC_INST_FABS st =
     emit [Asg (U64 (fo x 0)) (Bin BAnd (U64 (fo x 1)) (BNot (Hex 0x8000000000000000)))]
         (set_flush_mode False st)"
| "recomp_float x PPC_INST_FADD st =
     emit [Txt 1 ''{}.f64 = {}.f64 + {}.f64;'' [TV (fo x 0), TV (fo x 1), TV (fo x 2)]]
         (set_flush_mode False st)"
| "recomp_float x PPC_INST_FADDS st =
     emit [Txt 1 ''{}.f64 = double(float({}.f64 + {}.f64));''
         [TV (fo x 0), TV (fo x 1), TV (fo x 2)]] (set_flush_mode False st)"
| "recomp_float x PPC_INST_FCFID st =
     emit [Txt 1 ''{}.f64 = double({}.s64);'' [TV (fo x 0), TV (fo x 1)]]
         (set_flush_mode False st)"
| "recomp_float x PPC_INST_FCMPU st =
     emit [Txt 1 ''{}.compare({}.f64, {}.f64);'' [TV (cro x 0), TV (fo x 1), TV (fo x 2)]]
         (set_flush_mode False st)"
| "recomp_float x PPC_INST_FCTID st =
     emit [Txt 1
         ''{}.s64 = ({}.f64 > double(LLONG_MAX)) ? LLONG_MAX : simde_mm_cvtsd_si64(simde_mm_load_sd(&{}.f64));''
            [TV (fo x 0), TV (fo x 1), TV (fo x 1)]] (set_flush_mode False st)"
| "recomp_float x PPC_INST_FCTIDZ st =
     emit [Txt 1
         ''{}.s64 = ({}.f64 > double(LLONG_MAX)) ? LLONG_MAX : simde_mm_cvttsd_si64(simde_mm_load_sd(&{}.f64));''
            [TV (fo x 0), TV (fo x 1), TV (fo x 1)]] (set_flush_mode False st)"
| "recomp_float x PPC_INST_FCTIWZ st =
     emit [Txt 1
         ''{}.s64 = ({}.f64 > double(INT_MAX)) ? INT_MAX : simde_mm_cvttsd_si32(simde_mm_load_sd(&{}.f64));''
            [TV (fo x 0), TV (fo x 1), TV (fo x 1)]] (set_flush_mode False st)"
| "recomp_float x PPC_INST_FDIV st =
     emit [Txt 1 ''{}.f64 = {}.f64 / {}.f64;'' [TV (fo x 0), TV (fo x 1), TV (fo x 2)]]
         (set_flush_mode False st)"
| "recomp_float x PPC_INST_FDIVS st =
     emit [Txt 1 ''{}.f64 = double(float({}.f64 / {}.f64));''
         [TV (fo x 0), TV (fo x 1), TV (fo x 2)]] (set_flush_mode False st)"
| "recomp_float x PPC_INST_FMADD st =
     emit [Txt 1 ''{}.f64 = {}.f64 * {}.f64 + {}.f64;''
         [TV (fo x 0), TV (fo x 1), TV (fo x 2), TV (fo x 3)]] (set_flush_mode False st)"
| "recomp_float x PPC_INST_FMADDS st =
     emit [Txt 1 ''{}.f64 = double(float({}.f64 * {}.f64 + {}.f64));''
         [TV (fo x 0), TV (fo x 1), TV (fo x 2), TV (fo x 3)]] (set_flush_mode False st)"
| "recomp_float x PPC_INST_FMR st =
     emit [Txt 1 ''{}.f64 = {}.f64;'' [TV (fo x 0), TV (fo x 1)]] (set_flush_mode False st)"
| "recomp_float x PPC_INST_FMSUB st =
     emit [Txt 1 ''{}.f64 = {}.f64 * {}.f64 - {}.f64;''
         [TV (fo x 0), TV (fo x 1), TV (fo x 2), TV (fo x 3)]] (set_flush_mode False st)"
| "recomp_float x PPC_INST_FMSUBS st =
     emit [Txt 1 ''{}.f64 = double(float({}.f64 * {}.f64 - {}.f64));''
         [TV (fo x 0), TV (fo x 1), TV (fo x 2), TV (fo x 3)]] (set_flush_mode False st)"
| "recomp_float x PPC_INST_FMUL st =
     emit [Txt 1 ''{}.f64 = {}.f64 * {}.f64;'' [TV (fo x 0), TV (fo x 1), TV (fo x 2)]]
         (set_flush_mode False st)"
| "recomp_float x PPC_INST_FMULS st =
     emit [Txt 1 ''{}.f64 = double(float({}.f64 * {}.f64));''
         [TV (fo x 0), TV (fo x 1), TV (fo x 2)]] (set_flush_mode False st)"
| "recomp_float x PPC_INST_FNABS st =
     emit [Asg (U64 (fo x 0)) (Bin BOr (U64 (fo x 1)) (Hex 0x8000000000000000))]
         (set_flush_mode False st)"
| "recomp_float x PPC_INST_FNEG st =
     emit [Asg (U64 (fo x 0)) (Bin BXor (U64 (fo x 1)) (Hex 0x8000000000000000))]
         (set_flush_mode False st)"
| "recomp_float x PPC_INST_FNMADDS st =
     emit [Txt 1 ''{}.f64 = double(float(-({}.f64 * {}.f64 + {}.f64)));''
         [TV (fo x 0), TV (fo x 1), TV (fo x 2), TV (fo x 3)]] (set_flush_mode False st)"
| "recomp_float x PPC_INST_FNMSUB st =
     emit [Txt 1 ''{}.f64 = -({}.f64 * {}.f64 - {}.f64);''
         [TV (fo x 0), TV (fo x 1), TV (fo x 2), TV (fo x 3)]] (set_flush_mode False st)"
| "recomp_float x PPC_INST_FNMSUBS st =
     emit [Txt 1 ''{}.f64 = double(float(-({}.f64 * {}.f64 - {}.f64)));''
         [TV (fo x 0), TV (fo x 1), TV (fo x 2), TV (fo x 3)]] (set_flush_mode False st)"
| "recomp_float x PPC_INST_FRES st =
     emit [Txt 1 ''{}.f64 = float(1.0 / {}.f64);'' [TV (fo x 0), TV (fo x 1)]]
         (set_flush_mode False st)"
| "recomp_float x PPC_INST_FRSQRTE st =
     emit [Txt 1 ''{}.f64 = float(1.0 / sqrt({}.f64));'' [TV (fo x 0), TV (fo x 1)]]
         (set_flush_mode False st)"
| "recomp_float x PPC_INST_FRSP st =
     emit [Txt 1 ''{}.f64 = double(float({}.f64));'' [TV (fo x 0), TV (fo x 1)]]
         (set_flush_mode False st)"
| "recomp_float x PPC_INST_FSEL st =
     emit [Txt 1 ''{}.f64 = {}.f64 >= 0.0 ? {}.f64 : {}.f64;''
         [TV (fo x 0), TV (fo x 1), TV (fo x 2), TV (fo x 3)]] (set_flush_mode False st)"
| "recomp_float x PPC_INST_FSQRT st =
     emit [Txt 1 ''{}.f64 = sqrt({}.f64);'' [TV (fo x 0), TV (fo x 1)]] (set_flush_mode False st)"
| "recomp_float x PPC_INST_FSQRTS st =
     emit [Txt 1 ''{}.f64 = double(float(sqrt({}.f64)));'' [TV (fo x 0), TV (fo x 1)]]
         (set_flush_mode False st)"
| "recomp_float x PPC_INST_FSUB st =
     emit [Txt 1 ''{}.f64 = {}.f64 - {}.f64;'' [TV (fo x 0), TV (fo x 1), TV (fo x 2)]]
         (set_flush_mode False st)"
| "recomp_float x PPC_INST_FSUBS st =
     emit [Txt 1 ''{}.f64 = double(float({}.f64 - {}.f64));''
         [TV (fo x 0), TV (fo x 1), TV (fo x 2)]] (set_flush_mode False st)"

subsection \<open>\<open>VADDFP\<close> to \<open>VCFUX\<close>\<close>

datatype (plugins only: code) id_vadd =
     PPC_INST_VADDFP | PPC_INST_VADDFP128 | PPC_INST_VADDSHS | PPC_INST_VADDSBS | PPC_INST_VADDSWS
    | PPC_INST_VADDUBM | PPC_INST_VADDUBS | PPC_INST_VADDUHM | PPC_INST_VADDUHS | PPC_INST_VADDUWM
    | PPC_INST_VADDUWS | PPC_INST_VAND | PPC_INST_VAND128 | PPC_INST_VANDC128 | PPC_INST_VAVGSB
    | PPC_INST_VAVGSH | PPC_INST_VAVGUB | PPC_INST_VAVGUH | PPC_INST_VCTSXS | PPC_INST_VCFPSXWS128
    | PPC_INST_VCFSX | PPC_INST_VCSXWFP128 | PPC_INST_VCTUXS | PPC_INST_VCFPUXWS128
    | PPC_INST_VCFUX | PPC_INST_VCUXWFP128

primrec recomp_vadd :: "rin \<Rightarrow> id_vadd \<Rightarrow> estate \<Rightarrow> estate" where
  "recomp_vadd x PPC_INST_VADDFP st =
     emit [Txt 1
         ''simde_mm_store_ps({}.f32, simde_mm_add_ps(simde_mm_load_ps({}.f32), simde_mm_load_ps({}.f32)));''
            [TV (vo x 0), TV (vo x 1), TV (vo x 2)]] (set_flush_mode True st)"
| "recomp_vadd x PPC_INST_VADDFP128 st =
     emit [Txt 1
         ''simde_mm_store_ps({}.f32, simde_mm_add_ps(simde_mm_load_ps({}.f32), simde_mm_load_ps({}.f32)));''
            [TV (vo x 0), TV (vo x 1), TV (vo x 2)]] (set_flush_mode True st)"
| "recomp_vadd x PPC_INST_VADDSHS st =
     emit [Txt 1
         ''simde_mm_store_si128((simde__m128i*){}.s16, simde_mm_adds_epi16(simde_mm_load_si128((simde__m128i*){}.s16), simde_mm_load_si128((simde__m128i*){}.s16)));''
            [TV (vo x 0), TV (vo x 1), TV (vo x 2)]] st"
| "recomp_vadd x PPC_INST_VADDSBS st =
     emit [Txt 1
         ''simde_mm_store_si128((simde__m128i*){}.s8, simde_mm_adds_epi8(simde_mm_load_si128((simde__m128i*){}.s8), simde_mm_load_si128((simde__m128i*){}.s8)));''
            [TV (vo x 0), TV (vo x 1), TV (vo x 2)]] st"
| "recomp_vadd x PPC_INST_VADDSWS st =
     emit (concat (map (\<lambda>i. [Asg (S64 v_temp)
         (Bin Add (Cast int64_t (Elem (vo x 1) Fs32 (Lit (int i))))
            (Cast int64_t (Elem (vo x 2) Fs32 (Lit (int i))))),
      Txt 1 ''{}.s32[{}] = {}.s64 > INT_MAX ? INT_MAX : {}.s64 < INT_MIN ? INT_MIN : {}.s64;''
          [TV (vo x 0), TI (int i), TV v_temp, TV v_temp, TV v_temp]]) [0..<4])) st"
| "recomp_vadd x PPC_INST_VADDUBM st =
     emit [Txt 1
         ''simde_mm_store_si128((simde__m128i*){}.u8, simde_mm_add_epi8(simde_mm_load_si128((simde__m128i*){}.u8), simde_mm_load_si128((simde__m128i*){}.u8)));''
            [TV (vo x 0), TV (vo x 1), TV (vo x 2)]] st"
| "recomp_vadd x PPC_INST_VADDUBS st =
     emit [Txt 1
         ''simde_mm_store_si128((simde__m128i*){}.u8, simde_mm_adds_epu8(simde_mm_load_si128((simde__m128i*){}.u8), simde_mm_load_si128((simde__m128i*){}.u8)));''
            [TV (vo x 0), TV (vo x 1), TV (vo x 2)]] st"
| "recomp_vadd x PPC_INST_VADDUHM st =
     emit [Txt 1
         ''simde_mm_store_si128((simde__m128i*){}.u16, simde_mm_add_epi16(simde_mm_load_si128((simde__m128i*){}.u16), simde_mm_load_si128((simde__m128i*){}.u16)));''
            [TV (vo x 0), TV (vo x 1), TV (vo x 2)]] st"
| "recomp_vadd x PPC_INST_VADDUHS st =
     emit [Txt 1
         ''simde_mm_store_si128((simde__m128i*){}.u16, simde_mm_adds_epu16(simde_mm_load_si128((simde__m128i*){}.u16), simde_mm_load_si128((simde__m128i*){}.u16)));''
            [TV (vo x 0), TV (vo x 1), TV (vo x 2)]] st"
| "recomp_vadd x PPC_INST_VADDUWM st =
     emit [Txt 1
         ''simde_mm_store_si128((simde__m128i*){}.u32, simde_mm_add_epi32(simde_mm_load_si128((simde__m128i*){}.u32), simde_mm_load_si128((simde__m128i*){}.u32)));''
            [TV (vo x 0), TV (vo x 1), TV (vo x 2)]] st"
| "recomp_vadd x PPC_INST_VADDUWS st =
     emit [Txt 1
         ''simde_mm_store_si128((simde__m128i*){}.u32, simde_mm_adds_epu32(simde_mm_load_si128((simde__m128i*){}.u32), simde_mm_load_si128((simde__m128i*){}.u32)));''
            [TV (vo x 0), TV (vo x 1), TV (vo x 2)]] st"
| "recomp_vadd x PPC_INST_VAND st =
     emit [Txt 1
         ''simde_mm_store_si128((simde__m128i*){}.u8, simde_mm_and_si128(simde_mm_load_si128((simde__m128i*){}.u8), simde_mm_load_si128((simde__m128i*){}.u8)));''
            [TV (vo x 0), TV (vo x 1), TV (vo x 2)]] st"
| "recomp_vadd x PPC_INST_VAND128 st =
     emit [Txt 1
         ''simde_mm_store_si128((simde__m128i*){}.u8, simde_mm_and_si128(simde_mm_load_si128((simde__m128i*){}.u8), simde_mm_load_si128((simde__m128i*){}.u8)));''
            [TV (vo x 0), TV (vo x 1), TV (vo x 2)]] st"
| "recomp_vadd x PPC_INST_VANDC128 st =
     emit [Txt 1
         ''simde_mm_store_si128((simde__m128i*){}.u8, simde_mm_andnot_si128(simde_mm_load_si128((simde__m128i*){}.u8), simde_mm_load_si128((simde__m128i*){}.u8)));''
            [TV (vo x 0), TV (vo x 2), TV (vo x 1)]] st"
| "recomp_vadd x PPC_INST_VAVGSB st =
     emit [Txt 1
         ''simde_mm_store_si128((simde__m128i*){}.u8, simde_mm_avg_epi8(simde_mm_load_si128((simde__m128i*){}.u8), simde_mm_load_si128((simde__m128i*){}.u8)));''
            [TV (vo x 0), TV (vo x 1), TV (vo x 2)]] st"
| "recomp_vadd x PPC_INST_VAVGSH st =
     emit [Txt 1
         ''simde_mm_store_si128((simde__m128i*){}.u8, simde_mm_avg_epi16(simde_mm_load_si128((simde__m128i*){}.u8), simde_mm_load_si128((simde__m128i*){}.u8)));''
            [TV (vo x 0), TV (vo x 1), TV (vo x 2)]] st"
| "recomp_vadd x PPC_INST_VAVGUB st =
     emit [Txt 1
         ''simde_mm_store_si128((simde__m128i*){}.u8, simde_mm_avg_epu8(simde_mm_load_si128((simde__m128i*){}.u8), simde_mm_load_si128((simde__m128i*){}.u8)));''
            [TV (vo x 0), TV (vo x 1), TV (vo x 2)]] st"
| "recomp_vadd x PPC_INST_VAVGUH st =
     emit [Txt 1
         ''simde_mm_store_si128((simde__m128i*){}.u16, simde_mm_avg_epu16(simde_mm_load_si128((simde__m128i*){}.u16), simde_mm_load_si128((simde__m128i*){}.u16)));''
            [TV (vo x 0), TV (vo x 1), TV (vo x 2)]] st"
| "recomp_vadd x PPC_INST_VCTSXS st =
     emit ((if opnd x 2 \<noteq> 0
      then [Txt 1
          ''simde_mm_store_si128((simde__m128i*){}.s32, simde_mm_vctsxs(simde_mm_mul_ps(simde_mm_load_ps({}.f32), simde_mm_set1_ps({}))));''
            [TV (vo x 0), TV (vo x 1), TI (uint (push_bit (unat (opnd x 2)) (1 :: u32)))]]
      else [Txt 1
          ''simde_mm_store_si128((simde__m128i*){}.s32, simde_mm_vctsxs(simde_mm_load_ps({}.f32)));''
            [TV (vo x 0), TV (vo x 1)]])) (set_flush_mode True st)"
| "recomp_vadd x PPC_INST_VCFPSXWS128 st =
     emit ((if opnd x 2 \<noteq> 0
      then [Txt 1
          ''simde_mm_store_si128((simde__m128i*){}.s32, simde_mm_vctsxs(simde_mm_mul_ps(simde_mm_load_ps({}.f32), simde_mm_set1_ps({}))));''
            [TV (vo x 0), TV (vo x 1), TI (uint (push_bit (unat (opnd x 2)) (1 :: u32)))]]
      else [Txt 1
          ''simde_mm_store_si128((simde__m128i*){}.s32, simde_mm_vctsxs(simde_mm_load_ps({}.f32)));''
            [TV (vo x 0), TV (vo x 1)]])) (set_flush_mode True st)"
| "recomp_vadd x PPC_INST_VCFSX st =
     emit ((if opnd x 2 \<noteq> 0
      then [Txt 1
          ''simde_mm_store_ps({}.f32, simde_mm_mul_ps(simde_mm_cvtepi32_ps(simde_mm_load_si128((simde__m128i*){}.u32)), simde_mm_castsi128_ps(simde_mm_set1_epi32(int(0x{:X})))));''
            [TV (vo x 0), TV (vo x 1), TI (uint (ldexp_bits (opnd x 2)))]]
      else [Txt 1
          ''simde_mm_store_ps({}.f32, simde_mm_cvtepi32_ps(simde_mm_load_si128((simde__m128i*){}.u32)));''
            [TV (vo x 0), TV (vo x 1)]])) (set_flush_mode True st)"
| "recomp_vadd x PPC_INST_VCSXWFP128 st =
     emit ((if opnd x 2 \<noteq> 0
      then [Txt 1
          ''simde_mm_store_ps({}.f32, simde_mm_mul_ps(simde_mm_cvtepi32_ps(simde_mm_load_si128((simde__m128i*){}.u32)), simde_mm_castsi128_ps(simde_mm_set1_epi32(int(0x{:X})))));''
            [TV (vo x 0), TV (vo x 1), TI (uint (ldexp_bits (opnd x 2)))]]
      else [Txt 1
          ''simde_mm_store_ps({}.f32, simde_mm_cvtepi32_ps(simde_mm_load_si128((simde__m128i*){}.u32)));''
            [TV (vo x 0), TV (vo x 1)]])) (set_flush_mode True st)"
| "recomp_vadd x PPC_INST_VCTUXS st =
     emit ((if opnd x 2 \<noteq> 0
      then [Txt 1
          ''simde_mm_store_si128((simde__m128i*){}.u32, simde_mm_cvttps_epi32(simde_mm_mul_ps(simde_mm_load_ps({}.f32), simde_mm_set1_ps({}))));''
            [TV (vo x 0), TV (vo x 1), TI (uint (push_bit (unat (opnd x 2)) (1 :: u32)))]]
      else [Txt 1
          ''simde_mm_store_si128((simde__m128i*){}.u32, simde_mm_cvttps_epi32(simde_mm_load_ps({}.f32)));''
            [TV (vo x 0), TV (vo x 1)]])) (set_flush_mode True st)"
| "recomp_vadd x PPC_INST_VCFPUXWS128 st =
     emit ((if opnd x 2 \<noteq> 0
      then [Txt 1
          ''simde_mm_store_si128((simde__m128i*){}.u32, simde_mm_cvttps_epi32(simde_mm_mul_ps(simde_mm_load_ps({}.f32), simde_mm_set1_ps({}))));''
            [TV (vo x 0), TV (vo x 1), TI (uint (push_bit (unat (opnd x 2)) (1 :: u32)))]]
      else [Txt 1
          ''simde_mm_store_si128((simde__m128i*){}.u32, simde_mm_cvttps_epi32(simde_mm_load_ps({}.f32)));''
            [TV (vo x 0), TV (vo x 1)]])) (set_flush_mode True st)"
| "recomp_vadd x PPC_INST_VCFUX st =
     emit ((if opnd x 2 \<noteq> 0
      then [Txt 1
          ''simde_mm_store_ps({}.f32, simde_mm_mul_ps(simde_mm_cvtepu32_ps_(simde_mm_load_si128((simde__m128i*){}.u32)), simde_mm_castsi128_ps(simde_mm_set1_epi32(int(0x{:X})))));''
            [TV (vo x 0), TV (vo x 1), TI (uint (ldexp_bits (opnd x 2)))]]
      else [Txt 1
          ''simde_mm_store_ps({}.f32, simde_mm_cvtepu32_ps_(simde_mm_load_si128((simde__m128i*){}.u32)));''
            [TV (vo x 0), TV (vo x 1)]])) (set_flush_mode True st)"
| "recomp_vadd x PPC_INST_VCUXWFP128 st =
     emit ((if opnd x 2 \<noteq> 0
      then [Txt 1
          ''simde_mm_store_ps({}.f32, simde_mm_mul_ps(simde_mm_cvtepu32_ps_(simde_mm_load_si128((simde__m128i*){}.u32)), simde_mm_castsi128_ps(simde_mm_set1_epi32(int(0x{:X})))));''
            [TV (vo x 0), TV (vo x 1), TI (uint (ldexp_bits (opnd x 2)))]]
      else [Txt 1
          ''simde_mm_store_ps({}.f32, simde_mm_cvtepu32_ps_(simde_mm_load_si128((simde__m128i*){}.u32)));''
            [TV (vo x 0), TV (vo x 1)]])) (set_flush_mode True st)"

subsection \<open>\<open>VCMPBFP\<close> to \<open>VMADDCFP128\<close>\<close>

datatype (plugins only: code) id_vcmp =
     PPC_INST_VCMPBFP | PPC_INST_VCMPBFP128 | PPC_INST_VCMPEQFP | PPC_INST_VCMPEQFP128
    | PPC_INST_VCMPEQUB | PPC_INST_VCMPEQUH | PPC_INST_VCMPEQUW | PPC_INST_VCMPEQUW128
    | PPC_INST_VCMPGEFP | PPC_INST_VCMPGEFP128 | PPC_INST_VCMPGTFP | PPC_INST_VCMPGTFP128
    | PPC_INST_VCMPGTUB | PPC_INST_VCMPGTUH | PPC_INST_VCMPGTSH | PPC_INST_VCMPGTSW
    | PPC_INST_VEXPTEFP | PPC_INST_VEXPTEFP128 | PPC_INST_VLOGEFP | PPC_INST_VLOGEFP128
    | PPC_INST_VMADDCFP128 | PPC_INST_VMADDFP | PPC_INST_VMADDFP128

primrec recomp_vcmp :: "rin \<Rightarrow> id_vcmp \<Rightarrow> estate \<Rightarrow> estate" where
  "recomp_vcmp x PPC_INST_VCMPBFP st =
     emit (concat
         (map (\<lambda>i.
            [Txt 1
            ''{}.u32[{}] = ({}.f32[{}] <= {}.f32[{}] ? 0 : 0x80000000) | ({}.f32[{}] >= -{}.f32[{}] ? 0 : 0x40000000);''
            [TV (vo x 0), TI (int i), TV (vo x 1), TI (int i), TV (vo x 2), TI (int i), TV
            (vo x 1), TI (int i), TV (vo x 2), TI (int i)]]) [0..<4])
      @ (if has_dot x then [Asg (Fld (reg_cr x 6) Flt) (Lit 0),
      Asg (Fld (reg_cr x 6) Fgt) (Lit 0),
      Asg (Fld (reg_cr x 6) Feq) (Bin Eq (Par
          (Bin BOr (Bin BOr (Bin BOr (Elem (vo x 0) Fu32 (Lit 0)) (Elem (vo x 0) Fu32 (Lit 1)))
            (Elem (vo x 0) Fu32 (Lit 2))) (Elem (vo x 0) Fu32 (Lit 3)))) (Lit 0)),
      Asg (Fld (reg_cr x 6) Fso) (Lit 0)] else [])) (set_flush_mode True st)"
| "recomp_vcmp x PPC_INST_VCMPBFP128 st =
     emit (concat
         (map (\<lambda>i.
            [Txt 1
            ''{}.u32[{}] = ({}.f32[{}] <= {}.f32[{}] ? 0 : 0x80000000) | ({}.f32[{}] >= -{}.f32[{}] ? 0 : 0x40000000);''
            [TV (vo x 0), TI (int i), TV (vo x 1), TI (int i), TV (vo x 2), TI (int i), TV
            (vo x 1), TI (int i), TV (vo x 2), TI (int i)]]) [0..<4])
      @ (if has_dot x then [Asg (Fld (reg_cr x 6) Flt) (Lit 0),
      Asg (Fld (reg_cr x 6) Fgt) (Lit 0),
      Asg (Fld (reg_cr x 6) Feq) (Bin Eq (Par
          (Bin BOr (Bin BOr (Bin BOr (Elem (vo x 0) Fu32 (Lit 0)) (Elem (vo x 0) Fu32 (Lit 1)))
            (Elem (vo x 0) Fu32 (Lit 2))) (Elem (vo x 0) Fu32 (Lit 3)))) (Lit 0)),
      Asg (Fld (reg_cr x 6) Fso) (Lit 0)] else [])) (set_flush_mode True st)"
| "recomp_vcmp x PPC_INST_VCMPEQFP st =
     emit ([Txt 1
         ''simde_mm_store_ps({}.f32, simde_mm_cmpeq_ps(simde_mm_load_ps({}.f32), simde_mm_load_ps({}.f32)));''
            [TV (vo x 0), TV (vo x 1), TV (vo x 2)]]
      @ (if has_dot x then [Txt 1 ''{}.setFromMask(simde_mm_load_ps({}.f32), 0xF);''
          [TV (reg_cr x 6), TV (vo x 0)]] else [])) (set_flush_mode True st)"
| "recomp_vcmp x PPC_INST_VCMPEQFP128 st =
     emit ([Txt 1
         ''simde_mm_store_ps({}.f32, simde_mm_cmpeq_ps(simde_mm_load_ps({}.f32), simde_mm_load_ps({}.f32)));''
            [TV (vo x 0), TV (vo x 1), TV (vo x 2)]]
      @ (if has_dot x then [Txt 1 ''{}.setFromMask(simde_mm_load_ps({}.f32), 0xF);''
          [TV (reg_cr x 6), TV (vo x 0)]] else [])) (set_flush_mode True st)"
| "recomp_vcmp x PPC_INST_VCMPEQUB st =
     emit ([Txt 1
         ''simde_mm_store_si128((simde__m128i*){}.u8, simde_mm_cmpeq_epi8(simde_mm_load_si128((simde__m128i*){}.u8), simde_mm_load_si128((simde__m128i*){}.u8)));''
            [TV (vo x 0), TV (vo x 1), TV (vo x 2)]]
      @ (if has_dot x then
          [Txt 1 ''{}.setFromMask(simde_mm_load_si128((simde__m128i*){}.u8), 0xFFFF);''
            [TV (reg_cr x 6), TV (vo x 0)]] else [])) st"
| "recomp_vcmp x PPC_INST_VCMPEQUH st =
     emit ([Txt 1
         ''simde_mm_store_si128((simde__m128i*){}.u16, simde_mm_cmpeq_epi16(simde_mm_load_si128((simde__m128i*){}.u16), simde_mm_load_si128((simde__m128i*){}.u16)));''
            [TV (vo x 0), TV (vo x 1), TV (vo x 2)]]
      @ (if has_dot x then
          [Txt 1 ''{}.setFromMask(simde_mm_load_si128((simde__m128i*){}.u8), 0xFFFF);''
            [TV (reg_cr x 6), TV (vo x 0)]] else [])) st"
| "recomp_vcmp x PPC_INST_VCMPEQUW st =
     emit ([Txt 1
         ''simde_mm_store_si128((simde__m128i*){}.u8, simde_mm_cmpeq_epi32(simde_mm_load_si128((simde__m128i*){}.u32), simde_mm_load_si128((simde__m128i*){}.u32)));''
            [TV (vo x 0), TV (vo x 1), TV (vo x 2)]]
      @ (if has_dot x then [Txt 1 ''{}.setFromMask(simde_mm_load_ps({}.f32), 0xF);''
          [TV (reg_cr x 6), TV (vo x 0)]] else [])) st"
| "recomp_vcmp x PPC_INST_VCMPEQUW128 st =
     emit ([Txt 1
         ''simde_mm_store_si128((simde__m128i*){}.u8, simde_mm_cmpeq_epi32(simde_mm_load_si128((simde__m128i*){}.u32), simde_mm_load_si128((simde__m128i*){}.u32)));''
            [TV (vo x 0), TV (vo x 1), TV (vo x 2)]]
      @ (if has_dot x then [Txt 1 ''{}.setFromMask(simde_mm_load_ps({}.f32), 0xF);''
          [TV (reg_cr x 6), TV (vo x 0)]] else [])) st"
| "recomp_vcmp x PPC_INST_VCMPGEFP st =
     emit ([Txt 1
         ''simde_mm_store_ps({}.f32, simde_mm_cmpge_ps(simde_mm_load_ps({}.f32), simde_mm_load_ps({}.f32)));''
            [TV (vo x 0), TV (vo x 1), TV (vo x 2)]]
      @ (if has_dot x then [Txt 1 ''{}.setFromMask(simde_mm_load_ps({}.f32), 0xF);''
          [TV (reg_cr x 6), TV (vo x 0)]] else [])) (set_flush_mode True st)"
| "recomp_vcmp x PPC_INST_VCMPGEFP128 st =
     emit ([Txt 1
         ''simde_mm_store_ps({}.f32, simde_mm_cmpge_ps(simde_mm_load_ps({}.f32), simde_mm_load_ps({}.f32)));''
            [TV (vo x 0), TV (vo x 1), TV (vo x 2)]]
      @ (if has_dot x then [Txt 1 ''{}.setFromMask(simde_mm_load_ps({}.f32), 0xF);''
          [TV (reg_cr x 6), TV (vo x 0)]] else [])) (set_flush_mode True st)"
| "recomp_vcmp x PPC_INST_VCMPGTFP st =
     emit ([Txt 1
         ''simde_mm_store_ps({}.f32, simde_mm_cmpgt_ps(simde_mm_load_ps({}.f32), simde_mm_load_ps({}.f32)));''
            [TV (vo x 0), TV (vo x 1), TV (vo x 2)]]
      @ (if has_dot x then [Txt 1 ''{}.setFromMask(simde_mm_load_ps({}.f32), 0xF);''
          [TV (reg_cr x 6), TV (vo x 0)]] else [])) (set_flush_mode True st)"
| "recomp_vcmp x PPC_INST_VCMPGTFP128 st =
     emit ([Txt 1
         ''simde_mm_store_ps({}.f32, simde_mm_cmpgt_ps(simde_mm_load_ps({}.f32), simde_mm_load_ps({}.f32)));''
            [TV (vo x 0), TV (vo x 1), TV (vo x 2)]]
      @ (if has_dot x then [Txt 1 ''{}.setFromMask(simde_mm_load_ps({}.f32), 0xF);''
          [TV (reg_cr x 6), TV (vo x 0)]] else [])) (set_flush_mode True st)"
| "recomp_vcmp x PPC_INST_VCMPGTUB st =
     emit ([Txt 1
         ''simde_mm_store_si128((simde__m128i*){}.u8, simde_mm_cmpgt_epu8(simde_mm_load_si128((simde__m128i*){}.u8), simde_mm_load_si128((simde__m128i*){}.u8)));''
            [TV (vo x 0), TV (vo x 1), TV (vo x 2)]]
      @ (if has_dot x then
          [Txt 1 ''{}.setFromMask(simde_mm_load_si128((simde__m128i*){}.u8), 0xFFFF);''
            [TV (reg_cr x 6), TV (vo x 0)]] else [])) st"
| "recomp_vcmp x PPC_INST_VCMPGTUH st =
     emit ([Txt 1
         ''simde_mm_store_si128((simde__m128i*){}.u8, simde_mm_cmpgt_epu16(simde_mm_load_si128((simde__m128i*){}.u16), simde_mm_load_si128((simde__m128i*){}.u16)));''
            [TV (vo x 0), TV (vo x 1), TV (vo x 2)]]
      @ (if has_dot x then
          [Txt 1 ''{}.setFromMask(simde_mm_load_si128((simde__m128i*){}.u8), 0xFFFF);''
            [TV (reg_cr x 6), TV (vo x 0)]] else [])) st"
| "recomp_vcmp x PPC_INST_VCMPGTSH st =
     emit ([Txt 1
         ''simde_mm_store_si128((simde__m128i*){}.u8, simde_mm_cmpgt_epi16(simde_mm_load_si128((simde__m128i*){}.s16), simde_mm_load_si128((simde__m128i*){}.s16)));''
            [TV (vo x 0), TV (vo x 1), TV (vo x 2)]]
      @ (if has_dot x then
          [Txt 1 ''{}.setFromMask(simde_mm_load_si128((simde__m128i*){}.u8), 0xFFFF);''
            [TV (reg_cr x 6), TV (vo x 0)]] else [])) st"
| "recomp_vcmp x PPC_INST_VCMPGTSW st =
     emit ([Txt 1
         ''simde_mm_store_si128((simde__m128i*){}.u32, simde_mm_cmpgt_epi32(simde_mm_load_si128((simde__m128i*){}.s32), simde_mm_load_si128((simde__m128i*){}.s32)));''
            [TV (vo x 0), TV (vo x 1), TV (vo x 2)]]
      @ (if has_dot x then [Txt 1 ''{}.setFromMask(simde_mm_load_ps({}.f32), 0xF);''
          [TV (reg_cr x 6), TV (vo x 0)]] else [])) st"
| "recomp_vcmp x PPC_INST_VEXPTEFP st =
     emit (concat (map (\<lambda>i. [Txt 1 ''{}.f32[{}] = exp2f({}.f32[{}]);''
         [TV (vo x 0), TI (int i), TV (vo x 1), TI (int i)]]) [0..<4])) (set_flush_mode True st)"
| "recomp_vcmp x PPC_INST_VEXPTEFP128 st =
     emit (concat (map (\<lambda>i. [Txt 1 ''{}.f32[{}] = exp2f({}.f32[{}]);''
         [TV (vo x 0), TI (int i), TV (vo x 1), TI (int i)]]) [0..<4])) (set_flush_mode True st)"
| "recomp_vcmp x PPC_INST_VLOGEFP st =
     emit (concat (map (\<lambda>i. [Txt 1 ''{}.f32[{}] = log2f({}.f32[{}]);''
         [TV (vo x 0), TI (int i), TV (vo x 1), TI (int i)]]) [0..<4])) (set_flush_mode True st)"
| "recomp_vcmp x PPC_INST_VLOGEFP128 st =
     emit (concat (map (\<lambda>i. [Txt 1 ''{}.f32[{}] = log2f({}.f32[{}]);''
         [TV (vo x 0), TI (int i), TV (vo x 1), TI (int i)]]) [0..<4])) (set_flush_mode True st)"
| "recomp_vcmp x PPC_INST_VMADDCFP128 st =
     emit [Txt 1
         ''simde_mm_store_ps({}.f32, simde_mm_add_ps(simde_mm_mul_ps(simde_mm_load_ps({}.f32), simde_mm_load_ps({}.f32)), simde_mm_load_ps({}.f32)));''
            [TV (vo x 0), TV (vo x 1), TV (vo x 2), TV (vo x 3)]] (set_flush_mode True st)"
| "recomp_vcmp x PPC_INST_VMADDFP st =
     emit [Txt 1
         ''simde_mm_store_ps({}.f32, simde_mm_add_ps(simde_mm_mul_ps(simde_mm_load_ps({}.f32), simde_mm_load_ps({}.f32)), simde_mm_load_ps({}.f32)));''
            [TV (vo x 0), TV (vo x 1), TV (vo x 2), TV (vo x 3)]] (set_flush_mode True st)"
| "recomp_vcmp x PPC_INST_VMADDFP128 st =
     emit [Txt 1
         ''simde_mm_store_ps({}.f32, simde_mm_add_ps(simde_mm_mul_ps(simde_mm_load_ps({}.f32), simde_mm_load_ps({}.f32)), simde_mm_load_ps({}.f32)));''
            [TV (vo x 0), TV (vo x 1), TV (vo x 2), TV (vo x 3)]] (set_flush_mode True st)"

subsection \<open>\<open>VMAXFP\<close> to \<open>VPERMWI128\<close>\<close>

datatype (plugins only: code) id_vmax =
     PPC_INST_VMAXFP | PPC_INST_VMAXFP128 | PPC_INST_VMAXSW | PPC_INST_VMAXSH | PPC_INST_VMINFP
    | PPC_INST_VMINFP128 | PPC_INST_VMINSH | PPC_INST_VMRGHB | PPC_INST_VMRGHH | PPC_INST_VMRGHW
    | PPC_INST_VMRGHW128 | PPC_INST_VMRGLB | PPC_INST_VMRGLH | PPC_INST_VMRGLW |
        PPC_INST_VMRGLW128
    | PPC_INST_VMSUM3FP128 | PPC_INST_VMSUM4FP128 | PPC_INST_VMULFP128 | PPC_INST_VNMSUBFP
    | PPC_INST_VNMSUBFP128 | PPC_INST_VNOR | PPC_INST_VNOR128 | PPC_INST_VOR | PPC_INST_VOR128
    | PPC_INST_VPERM | PPC_INST_VPERM128 | PPC_INST_VPERMWI128

primrec recomp_vmax :: "rin \<Rightarrow> id_vmax \<Rightarrow> estate \<Rightarrow> estate" where
  "recomp_vmax x PPC_INST_VMAXFP st =
     emit [Txt 1
         ''simde_mm_store_ps({}.f32, simde_mm_max_ps(simde_mm_load_ps({}.f32), simde_mm_load_ps({}.f32)));''
            [TV (vo x 0), TV (vo x 1), TV (vo x 2)]] (set_flush_mode True st)"
| "recomp_vmax x PPC_INST_VMAXFP128 st =
     emit [Txt 1
         ''simde_mm_store_ps({}.f32, simde_mm_max_ps(simde_mm_load_ps({}.f32), simde_mm_load_ps({}.f32)));''
            [TV (vo x 0), TV (vo x 1), TV (vo x 2)]] (set_flush_mode True st)"
| "recomp_vmax x PPC_INST_VMAXSW st =
     emit [Txt 1
         ''simde_mm_store_si128((simde__m128i*){}.u32, simde_mm_max_epi32(simde_mm_load_si128((simde__m128i*){}.u32), simde_mm_load_si128((simde__m128i*){}.u32)));''
            [TV (vo x 0), TV (vo x 1), TV (vo x 2)]] st"
| "recomp_vmax x PPC_INST_VMAXSH st =
     emit [Txt 1
         ''simde_mm_store_si128((simde__m128i*){}.s16, simde_mm_max_epi16(simde_mm_load_si128((simde__m128i*){}.s16), simde_mm_load_si128((simde__m128i*){}.s16)));''
            [TV (vo x 0), TV (vo x 1), TV (vo x 2)]] st"
| "recomp_vmax x PPC_INST_VMINFP st =
     emit [Txt 1
         ''simde_mm_store_ps({}.f32, simde_mm_min_ps(simde_mm_load_ps({}.f32), simde_mm_load_ps({}.f32)));''
            [TV (vo x 0), TV (vo x 1), TV (vo x 2)]] (set_flush_mode True st)"
| "recomp_vmax x PPC_INST_VMINFP128 st =
     emit [Txt 1
         ''simde_mm_store_ps({}.f32, simde_mm_min_ps(simde_mm_load_ps({}.f32), simde_mm_load_ps({}.f32)));''
            [TV (vo x 0), TV (vo x 1), TV (vo x 2)]] (set_flush_mode True st)"
| "recomp_vmax x PPC_INST_VMINSH st =
     emit [Txt 1
         ''simde_mm_store_si128((simde__m128i*){}.s16, simde_mm_min_epi16(simde_mm_load_si128((simde__m128i*){}.s16), simde_mm_load_si128((simde__m128i*){}.s16)));''
            [TV (vo x 0), TV (vo x 1), TV (vo x 2)]] st"
| "recomp_vmax x PPC_INST_VMRGHB st =
     emit [Txt 1
         ''simde_mm_store_si128((simde__m128i*){}.u8, simde_mm_unpackhi_epi8(simde_mm_load_si128((simde__m128i*){}.u8), simde_mm_load_si128((simde__m128i*){}.u8)));''
            [TV (vo x 0), TV (vo x 2), TV (vo x 1)]] st"
| "recomp_vmax x PPC_INST_VMRGHH st =
     emit [Txt 1
         ''simde_mm_store_si128((simde__m128i*){}.u16, simde_mm_unpackhi_epi16(simde_mm_load_si128((simde__m128i*){}.u16), simde_mm_load_si128((simde__m128i*){}.u16)));''
            [TV (vo x 0), TV (vo x 2), TV (vo x 1)]] st"
| "recomp_vmax x PPC_INST_VMRGHW st =
     emit [Txt 1
         ''simde_mm_store_si128((simde__m128i*){}.u32, simde_mm_unpackhi_epi32(simde_mm_load_si128((simde__m128i*){}.u32), simde_mm_load_si128((simde__m128i*){}.u32)));''
            [TV (vo x 0), TV (vo x 2), TV (vo x 1)]] st"
| "recomp_vmax x PPC_INST_VMRGHW128 st =
     emit [Txt 1
         ''simde_mm_store_si128((simde__m128i*){}.u32, simde_mm_unpackhi_epi32(simde_mm_load_si128((simde__m128i*){}.u32), simde_mm_load_si128((simde__m128i*){}.u32)));''
            [TV (vo x 0), TV (vo x 2), TV (vo x 1)]] st"
| "recomp_vmax x PPC_INST_VMRGLB st =
     emit [Txt 1
         ''simde_mm_store_si128((simde__m128i*){}.u8, simde_mm_unpacklo_epi8(simde_mm_load_si128((simde__m128i*){}.u8), simde_mm_load_si128((simde__m128i*){}.u8)));''
            [TV (vo x 0), TV (vo x 2), TV (vo x 1)]] st"
| "recomp_vmax x PPC_INST_VMRGLH st =
     emit [Txt 1
         ''simde_mm_store_si128((simde__m128i*){}.u16, simde_mm_unpacklo_epi16(simde_mm_load_si128((simde__m128i*){}.u16), simde_mm_load_si128((simde__m128i*){}.u16)));''
            [TV (vo x 0), TV (vo x 2), TV (vo x 1)]] st"
| "recomp_vmax x PPC_INST_VMRGLW st =
     emit [Txt 1
         ''simde_mm_store_si128((simde__m128i*){}.u32, simde_mm_unpacklo_epi32(simde_mm_load_si128((simde__m128i*){}.u32), simde_mm_load_si128((simde__m128i*){}.u32)));''
            [TV (vo x 0), TV (vo x 2), TV (vo x 1)]] st"
| "recomp_vmax x PPC_INST_VMRGLW128 st =
     emit [Txt 1
         ''simde_mm_store_si128((simde__m128i*){}.u32, simde_mm_unpacklo_epi32(simde_mm_load_si128((simde__m128i*){}.u32), simde_mm_load_si128((simde__m128i*){}.u32)));''
            [TV (vo x 0), TV (vo x 2), TV (vo x 1)]] st"
| "recomp_vmax x PPC_INST_VMSUM3FP128 st =
     emit [Txt 1
         ''simde_mm_store_ps({}.f32, simde_mm_dp_ps(simde_mm_load_ps({}.f32), simde_mm_load_ps({}.f32), 0xEF));''
            [TV (vo x 0), TV (vo x 1), TV (vo x 2)]] (set_flush_mode True st)"
| "recomp_vmax x PPC_INST_VMSUM4FP128 st =
     emit [Txt 1
         ''simde_mm_store_ps({}.f32, simde_mm_dp_ps(simde_mm_load_ps({}.f32), simde_mm_load_ps({}.f32), 0xFF));''
            [TV (vo x 0), TV (vo x 1), TV (vo x 2)]] (set_flush_mode True st)"
| "recomp_vmax x PPC_INST_VMULFP128 st =
     emit [Txt 1
         ''simde_mm_store_ps({}.f32, simde_mm_mul_ps(simde_mm_load_ps({}.f32), simde_mm_load_ps({}.f32)));''
            [TV (vo x 0), TV (vo x 1), TV (vo x 2)]] (set_flush_mode True st)"
| "recomp_vmax x PPC_INST_VNMSUBFP st =
     emit [Txt 1
         ''simde_mm_store_ps({}.f32, simde_mm_xor_ps(simde_mm_sub_ps(simde_mm_mul_ps(simde_mm_load_ps({}.f32), simde_mm_load_ps({}.f32)), simde_mm_load_ps({}.f32)), simde_mm_castsi128_ps(simde_mm_set1_epi32(int(0x80000000)))));''
            [TV (vo x 0), TV (vo x 1), TV (vo x 2), TV (vo x 3)]] (set_flush_mode True st)"
| "recomp_vmax x PPC_INST_VNMSUBFP128 st =
     emit [Txt 1
         ''simde_mm_store_ps({}.f32, simde_mm_xor_ps(simde_mm_sub_ps(simde_mm_mul_ps(simde_mm_load_ps({}.f32), simde_mm_load_ps({}.f32)), simde_mm_load_ps({}.f32)), simde_mm_castsi128_ps(simde_mm_set1_epi32(int(0x80000000)))));''
            [TV (vo x 0), TV (vo x 1), TV (vo x 2), TV (vo x 3)]] (set_flush_mode True st)"
| "recomp_vmax x PPC_INST_VNOR st =
     emit [Txt 1
         ''simde_mm_store_si128((simde__m128i*){}.u8, simde_mm_andnot_si128(simde_mm_or_si128(simde_mm_load_si128((simde__m128i*){}.u8), simde_mm_load_si128((simde__m128i*){}.u8)), simde_mm_cmpeq_epi32(simde_mm_setzero_si128(), simde_mm_setzero_si128())));''
            [TV (vo x 0), TV (vo x 1), TV (vo x 2)]] st"
| "recomp_vmax x PPC_INST_VNOR128 st =
     emit [Txt 1
         ''simde_mm_store_si128((simde__m128i*){}.u8, simde_mm_andnot_si128(simde_mm_or_si128(simde_mm_load_si128((simde__m128i*){}.u8), simde_mm_load_si128((simde__m128i*){}.u8)), simde_mm_cmpeq_epi32(simde_mm_setzero_si128(), simde_mm_setzero_si128())));''
            [TV (vo x 0), TV (vo x 1), TV (vo x 2)]] st"
| "recomp_vmax x PPC_INST_VOR st =
     emit ((if opnd x 1 \<noteq> opnd x 2
      then [Txt 1
          ''simde_mm_store_si128((simde__m128i*){}.u8, simde_mm_or_si128(simde_mm_load_si128((simde__m128i*){}.u8), simde_mm_load_si128((simde__m128i*){}.u8)));''
            [TV (vo x 0), TV (vo x 1), TV (vo x 2)]]
      else [Txt 1
          ''simde_mm_store_si128((simde__m128i*){}.u8, simde_mm_load_si128((simde__m128i*){}.u8));''
            [TV (vo x 0), TV (vo x 1)]])) st"
| "recomp_vmax x PPC_INST_VOR128 st =
     emit ((if opnd x 1 \<noteq> opnd x 2
      then [Txt 1
          ''simde_mm_store_si128((simde__m128i*){}.u8, simde_mm_or_si128(simde_mm_load_si128((simde__m128i*){}.u8), simde_mm_load_si128((simde__m128i*){}.u8)));''
            [TV (vo x 0), TV (vo x 1), TV (vo x 2)]]
      else [Txt 1
          ''simde_mm_store_si128((simde__m128i*){}.u8, simde_mm_load_si128((simde__m128i*){}.u8));''
            [TV (vo x 0), TV (vo x 1)]])) st"
| "recomp_vmax x PPC_INST_VPERM st =
     emit [Txt 1
         ''simde_mm_store_si128((simde__m128i*){}.u8, simde_mm_perm_epi8_(simde_mm_load_si128((simde__m128i*){}.u8), simde_mm_load_si128((simde__m128i*){}.u8), simde_mm_load_si128((simde__m128i*){}.u8)));''
            [TV (vo x 0), TV (vo x 1), TV (vo x 2), TV (vo x 3)]] st"
| "recomp_vmax x PPC_INST_VPERM128 st =
     emit [Txt 1
         ''simde_mm_store_si128((simde__m128i*){}.u8, simde_mm_perm_epi8_(simde_mm_load_si128((simde__m128i*){}.u8), simde_mm_load_si128((simde__m128i*){}.u8), simde_mm_load_si128((simde__m128i*){}.u8)));''
            [TV (vo x 0), TV (vo x 1), TV (vo x 2), TV (vo x 3)]] st"
| "recomp_vmax x PPC_INST_VPERMWI128 st =
     (let x0 = 3 - (opnd x 2 AND 3);
          y0 = 3 - (drop_bit 2 (opnd x 2) AND 3);
          z0 = 3 - (drop_bit 4 (opnd x 2) AND 3);
          w0 = 3 - (drop_bit 6 (opnd x 2) AND 3);
          perm = x0 OR push_bit 2 y0 OR push_bit 4 z0 OR push_bit 6 w0
      in emit
          [Txt 1
            ''simde_mm_store_si128((simde__m128i*){}.u32, simde_mm_shuffle_epi32(simde_mm_load_si128((simde__m128i*){}.u32), 0x{:X}));''
            [TV (vo x 0), TV (vo x 1), TI (uint perm)]] st)"

subsection \<open>\<open>VPKD3D128\<close> to \<open>VPKSWUS\<close>\<close>

datatype (plugins only: code) id_vpk =
     PPC_INST_VPKD3D128 | PPC_INST_VPKSHUS | PPC_INST_VPKSHUS128 | PPC_INST_VPKSHSS
    | PPC_INST_VPKSHSS128 | PPC_INST_VPKUHUS128 | PPC_INST_VPKUWUM | PPC_INST_VPKSWSS
    | PPC_INST_VPKSWSS128 | PPC_INST_VPKSWUS | PPC_INST_VPKSWUS128

primrec recomp_vpk :: "rin \<Rightarrow> id_vpk \<Rightarrow> estate \<Rightarrow> estate" where
  "recomp_vpk x PPC_INST_VPKD3D128 st =
     (let st1 = set_flush_mode True st
      in if opnd x 2 = 0 then emit (map (\<lambda>i. (if i = 0 then Asg else OrAsg) (U32 v_temp)
          (Bin Shl (Cast uint32_t (Elem (vo x 1) Fu8 (Lit (int (i * 4)))))
            (Lit (int ([3, 0, 1, 2] ! i * 8))))) [0..<4]
               @ [Asg (Elem (vo x 0) Fu32 (Lit (uop x 4))) (U32 v_temp)])
          (if opnd x 3 \<noteq> 1 then report
            (''Unexpected D3D color pack instruction at '' @ hex_string (uint (pc x))) st1 else
            st1)
         else if opnd x 2 = 3 then emit (concat
            (map (\<lambda>i. [Asg (U32 v_temp) (Elem (vo x 1) Fu32 (Lit (int (3 - i)))),
      Asg (Elem v_vTemp Fu32 (Lit (int i))) (Ite
          (Par (Bin LAnd (Bin Eq (Par (Bin BAnd (U32 v_temp) (Hex 0x7F800000))) (Hex 0x7F800000))
            (Bin Ne (Par (Bin BAnd (U32 v_temp) (Hex 0x007FFFFF))) (Lit 0)))) (Hex 0x200)
            (Par (Ite (Bin Gt (S32 v_temp) (Hex 0x404001FF)) (Hex 0x1FF)
            (Par (Ite (Bin Lt (S32 v_temp) (Hex 0x403FFE01)) (Hex 0x201)
            (Bin BAnd (U32 v_temp) (Hex 0x3FF)))))))]) [0..<3])
      @ [Asg (U32 v_temp) (Elem (vo x 1) Fu32 (Lit 0)),
      Asg (Elem v_vTemp Fu32 (Lit 3)) (Ite (Par
          (Bin LAnd (Bin Eq (Par (Bin BAnd (U32 v_temp) (Hex 0x7F800000))) (Hex 0x7F800000))
            (Bin Ne (Par (Bin BAnd (U32 v_temp) (Hex 0x007FFFFF))) (Lit 0)))) (Lit 0)
            (Par (Ite (Bin Gt (S32 v_temp) (Hex 0x40400003)) (Lit 3)
            (Par (Ite (Bin Lt (S32 v_temp) (Hex 0x40400000)) (Lit 0)
            (Bin BAnd (U32 v_temp) (Lit 3))))))),
      Asg (Elem (vo x 0) Fu32 (Lit (uop x 4)))
          (Bin BOr (Bin BOr (Bin BOr (Elem v_vTemp Fu32 (Lit 0))
            (Par (Bin Shl (Elem v_vTemp Fu32 (Lit 1)) (Lit 10))))
            (Par (Bin Shl (Elem v_vTemp Fu32 (Lit 2)) (Lit 20))))
            (Par (Bin Shl (Elem v_vTemp Fu32 (Lit 3)) (Lit 30))))])
          (if opnd x 3 \<noteq> 1 then report
            (''Unexpected UINT_2101010 pack instruction at '' @ hex_string (uint (pc x))) st1 else
            st1)
         else if opnd x 2 = 5 then emit ([Asg (Var v_vTemp) (Var (vo x 1))]
      @ concat (map (\<lambda>i. [Asg (U32 v_temp)
          (Par (Bin BAnd (Elem v_vTemp Fu32 (Lit (int i))) (Hex 0x7FFFFFFF))),
      Txt 1
          ''{0}.u8[0] = ({1}.f32 != {1}.f32) || ({1}.f32 > 65504.0f) ? 0xFF : (({0}.u32[{2}]&0x7f800000)>>23);''
            [TV v_vTemp, TV v_temp, TI (int i)],
      Asg (U16 v_temp) (Ite (Bin Ne (Elem v_vTemp Fu8 (Lit 0)) (Hex 0xFF))
          (Par (Bin Shr (Par (Bin BAnd (Elem v_vTemp Fu32 (Lit (int i))) (Hex 0x7FE000)))
            (Lit 13))) (Hex 0x0)),
      Asg (Elem (vo x 0) Fu16 (Lit (int i + uint (2 * opnd x 4))))
          (Ite (Bin Ne (Elem v_vTemp Fu8 (Lit 0)) (Hex 0xFF))
            (Par (Ite (Bin Gt (Elem v_vTemp Fu8 (Lit 0)) (Hex 0x70))
            (Par (Bin Add (Par (Bin Shl (Par (Bin Sub (Elem v_vTemp Fu8 (Lit 0)) (Hex 0x70)))
            (Lit 10))) (U16 v_temp))) (Par (Ite
            (Bin Gt (Bin Sub (Hex 0x71) (Elem v_vTemp Fu8 (Lit 0))) (Lit 31)) (Hex 0x0)
            (Par (Bin Shr (Par (Bin Add (Hex 0x400) (U16 v_temp)))
            (Par (Bin Sub (Hex 0x71) (Elem v_vTemp Fu8 (Lit 0)))))))))) (Hex 0x7FFF)),
      OrAsg (Elem (vo x 0) Fu16 (Lit (int i + uint (2 * opnd x 4))))
          (Par (Bin Shr (Par (Bin BAnd (Elem v_vTemp Fu32 (Lit (int i))) (Hex 0x80000000)))
            (Lit 16)))]) [0..<4]))
          (if opnd x 3 \<noteq> 2 \<or> opnd x 4 > 2 then report
            (''Unexpected float16_4 pack instruction at '' @ hex_string (uint (pc x))) st1 else
            st1)
         else emit [Txt 1 ''__builtin_debugtrap();'' []] st1)"
| "recomp_vpk x PPC_INST_VPKSHUS st =
     emit [Txt 1
         ''simde_mm_store_si128((simde__m128i*){}.u8, simde_mm_packus_epi16(simde_mm_load_si128((simde__m128i*){}.s16), simde_mm_load_si128((simde__m128i*){}.s16)));''
            [TV (vo x 0), TV (vo x 2), TV (vo x 1)]] st"
| "recomp_vpk x PPC_INST_VPKSHUS128 st =
     emit [Txt 1
         ''simde_mm_store_si128((simde__m128i*){}.u8, simde_mm_packus_epi16(simde_mm_load_si128((simde__m128i*){}.s16), simde_mm_load_si128((simde__m128i*){}.s16)));''
            [TV (vo x 0), TV (vo x 2), TV (vo x 1)]] st"
| "recomp_vpk x PPC_INST_VPKSHSS st =
     emit (concat (map (\<lambda>i. [Asg (S32 v_temp)
         (Elem (vo x (if i < 8 then 1 else 2)) Fs16 (Lit (int (7 - i mod 8)))),
      Txt 1 ''{}.s8[{}] = {}.s32 > INT8_MAX ? INT8_MAX : {}.s32 < INT8_MIN ? INT8_MIN : {}.s32;''
          [TV (vo x 0), TI (int (15 - i)), TV v_temp, TV v_temp, TV v_temp]]) [0..<16])) st"
| "recomp_vpk x PPC_INST_VPKSHSS128 st =
     emit (concat (map (\<lambda>i. [Asg (S32 v_temp)
         (Elem (vo x (if i < 8 then 1 else 2)) Fs16 (Lit (int (7 - i mod 8)))),
      Txt 1 ''{}.s8[{}] = {}.s32 > INT8_MAX ? INT8_MAX : {}.s32 < INT8_MIN ? INT8_MIN : {}.s32;''
          [TV (vo x 0), TI (int (15 - i)), TV v_temp, TV v_temp, TV v_temp]]) [0..<16])) st"
| "recomp_vpk x PPC_INST_VPKUHUS128 st =
     emit (concat (map (\<lambda>i. [Asg (U32 v_temp)
         (Elem (vo x (if i < 8 then 1 else 2)) Fu16 (Lit (int (7 - i mod 8)))),
      Txt 1 ''{}.u8[{}] = {}.u32 > UINT8_MAX ? UINT8_MAX : {}.u32;''
          [TV (vo x 0), TI (int (15 - i)), TV v_temp, TV v_temp]]) [0..<16])) st"
| "recomp_vpk x PPC_INST_VPKUWUM st =
     emit (concat (map (\<lambda>i. [Asg (Elem (vo x 0) Fu16 (Lit (int (7 - i))))
         (Bin BAnd (Elem (vo x (if i < 4 then 1 else 2)) Fu32 (Lit (int (3 - i mod 4))))
            (Hex 0xFFFF))]) [0..<8])) st"
| "recomp_vpk x PPC_INST_VPKSWSS st =
     emit (concat (map (\<lambda>i. [Asg (S64 v_temp)
         (Elem (vo x (if i < 4 then 1 else 2)) Fs32 (Lit (int (3 - i mod 4)))),
      Txt 1
          ''{}.s16[{}] = {}.s64 > INT16_MAX ? INT16_MAX : {}.s64 < INT16_MIN ? INT16_MIN : {}.s64;''
            [TV (vo x 0), TI (int (7 - i)), TV v_temp, TV v_temp, TV v_temp]]) [0..<8])) st"
| "recomp_vpk x PPC_INST_VPKSWSS128 st =
     emit (concat (map (\<lambda>i. [Asg (S64 v_temp)
         (Elem (vo x (if i < 4 then 1 else 2)) Fs32 (Lit (int (3 - i mod 4)))),
      Txt 1
          ''{}.s16[{}] = {}.s64 > INT16_MAX ? INT16_MAX : {}.s64 < INT16_MIN ? INT16_MIN : {}.s64;''
            [TV (vo x 0), TI (int (7 - i)), TV v_temp, TV v_temp, TV v_temp]]) [0..<8])) st"
| "recomp_vpk x PPC_INST_VPKSWUS st =
     emit (concat (map (\<lambda>i. [Asg (S64 v_temp)
         (Elem (vo x (if i < 4 then 1 else 2)) Fs32 (Lit (int (3 - i mod 4)))),
      Txt 1 ''{}.u16[{}] = {}.s64 > UINT16_MAX ? UINT16_MAX : {}.s64 < 0 ? 0 : {}.s64;''
          [TV (vo x 0), TI (int (7 - i)), TV v_temp, TV v_temp, TV v_temp]]) [0..<8])) st"
| "recomp_vpk x PPC_INST_VPKSWUS128 st =
     emit (concat (map (\<lambda>i. [Asg (S64 v_temp)
         (Elem (vo x (if i < 4 then 1 else 2)) Fs32 (Lit (int (3 - i mod 4)))),
      Txt 1 ''{}.u16[{}] = {}.s64 > UINT16_MAX ? UINT16_MAX : {}.s64 < 0 ? 0 : {}.s64;''
          [TV (vo x 0), TI (int (7 - i)), TV v_temp, TV v_temp, TV v_temp]]) [0..<8])) st"

subsection \<open>\<open>VREFP\<close> to \<open>VRLH\<close>\<close>

datatype (plugins only: code) id_vround =
     PPC_INST_VREFP | PPC_INST_VREFP128 | PPC_INST_VRFIM | PPC_INST_VRFIM128 | PPC_INST_VRFIN
    | PPC_INST_VRFIN128 | PPC_INST_VRFIZ | PPC_INST_VRFIZ128 | PPC_INST_VRLIMI128
    | PPC_INST_VRSQRTEFP | PPC_INST_VRSQRTEFP128 | PPC_INST_VSEL | PPC_INST_VSEL128 |
        PPC_INST_VSLB
    | PPC_INST_VSLH | PPC_INST_VSL | PPC_INST_VSLDOI | PPC_INST_VSLDOI128 | PPC_INST_VSLW
    | PPC_INST_VSLW128 | PPC_INST_VRLH

primrec recomp_vround :: "rin \<Rightarrow> id_vround \<Rightarrow> estate \<Rightarrow> estate"
    where
  "recomp_vround x PPC_INST_VREFP st =
     emit [Txt 1
         ''simde_mm_store_ps({}.f32, simde_mm_div_ps(simde_mm_set1_ps(1), simde_mm_load_ps({}.f32)));''
            [TV (vo x 0), TV (vo x 1)]] (set_flush_mode True st)"
| "recomp_vround x PPC_INST_VREFP128 st =
     emit [Txt 1
         ''simde_mm_store_ps({}.f32, simde_mm_div_ps(simde_mm_set1_ps(1), simde_mm_load_ps({}.f32)));''
            [TV (vo x 0), TV (vo x 1)]] (set_flush_mode True st)"
| "recomp_vround x PPC_INST_VRFIM st =
     emit [Txt 1
         ''simde_mm_store_ps({}.f32, simde_mm_round_ps(simde_mm_load_ps({}.f32), SIMDE_MM_FROUND_TO_NEG_INF | SIMDE_MM_FROUND_NO_EXC));''
            [TV (vo x 0), TV (vo x 1)]] (set_flush_mode True st)"
| "recomp_vround x PPC_INST_VRFIM128 st =
     emit [Txt 1
         ''simde_mm_store_ps({}.f32, simde_mm_round_ps(simde_mm_load_ps({}.f32), SIMDE_MM_FROUND_TO_NEG_INF | SIMDE_MM_FROUND_NO_EXC));''
            [TV (vo x 0), TV (vo x 1)]] (set_flush_mode True st)"
| "recomp_vround x PPC_INST_VRFIN st =
     emit [Txt 1
         ''simde_mm_store_ps({}.f32, simde_mm_round_ps(simde_mm_load_ps({}.f32), SIMDE_MM_FROUND_TO_NEAREST_INT | SIMDE_MM_FROUND_NO_EXC));''
            [TV (vo x 0), TV (vo x 1)]] (set_flush_mode True st)"
| "recomp_vround x PPC_INST_VRFIN128 st =
     emit [Txt 1
         ''simde_mm_store_ps({}.f32, simde_mm_round_ps(simde_mm_load_ps({}.f32), SIMDE_MM_FROUND_TO_NEAREST_INT | SIMDE_MM_FROUND_NO_EXC));''
            [TV (vo x 0), TV (vo x 1)]] (set_flush_mode True st)"
| "recomp_vround x PPC_INST_VRFIZ st =
     emit [Txt 1
         ''simde_mm_store_ps({}.f32, simde_mm_round_ps(simde_mm_load_ps({}.f32), SIMDE_MM_FROUND_TO_ZERO | SIMDE_MM_FROUND_NO_EXC));''
            [TV (vo x 0), TV (vo x 1)]] (set_flush_mode True st)"
| "recomp_vround x PPC_INST_VRFIZ128 st =
     emit [Txt 1
         ''simde_mm_store_ps({}.f32, simde_mm_round_ps(simde_mm_load_ps({}.f32), SIMDE_MM_FROUND_TO_ZERO | SIMDE_MM_FROUND_NO_EXC));''
            [TV (vo x 0), TV (vo x 1)]] (set_flush_mode True st)"
| "recomp_vround x PPC_INST_VRLIMI128 st =
     emit [Txt 1
         ''simde_mm_store_ps({}.f32, simde_mm_blend_ps(simde_mm_load_ps({}.f32), simde_mm_permute_ps(simde_mm_load_ps({}.f32), {}), {}));''
            [TV (vo x 0), TV (vo x 0), TV (vo x 1), TI (shuffle_const (opnd x 3)), TI (uop x 2)]]
            st"
| "recomp_vround x PPC_INST_VRSQRTEFP st =
     emit [Txt 1
         ''simde_mm_store_ps({}.f32, simde_mm_div_ps(simde_mm_set1_ps(1), simde_mm_sqrt_ps(simde_mm_load_ps({}.f32))));''
            [TV (vo x 0), TV (vo x 1)]] (set_flush_mode True st)"
| "recomp_vround x PPC_INST_VRSQRTEFP128 st =
     emit [Txt 1
         ''simde_mm_store_ps({}.f32, simde_mm_div_ps(simde_mm_set1_ps(1), simde_mm_sqrt_ps(simde_mm_load_ps({}.f32))));''
            [TV (vo x 0), TV (vo x 1)]] (set_flush_mode True st)"
| "recomp_vround x PPC_INST_VSEL st =
     emit [Txt 1
         ''simde_mm_store_si128((simde__m128i*){}.u8, simde_mm_or_si128(simde_mm_andnot_si128(simde_mm_load_si128((simde__m128i*){}.u8), simde_mm_load_si128((simde__m128i*){}.u8)), simde_mm_and_si128(simde_mm_load_si128((simde__m128i*){}.u8), simde_mm_load_si128((simde__m128i*){}.u8))));''
            [TV (vo x 0), TV (vo x 3), TV (vo x 1), TV (vo x 3), TV (vo x 2)]] st"
| "recomp_vround x PPC_INST_VSEL128 st =
     emit [Txt 1
         ''simde_mm_store_si128((simde__m128i*){}.u8, simde_mm_or_si128(simde_mm_andnot_si128(simde_mm_load_si128((simde__m128i*){}.u8), simde_mm_load_si128((simde__m128i*){}.u8)), simde_mm_and_si128(simde_mm_load_si128((simde__m128i*){}.u8), simde_mm_load_si128((simde__m128i*){}.u8))));''
            [TV (vo x 0), TV (vo x 3), TV (vo x 1), TV (vo x 3), TV (vo x 2)]] st"
| "recomp_vround x PPC_INST_VSLB st =
     emit (concat (map (\<lambda>i. [Asg (Elem (vo x 0) Fu8 (Lit (int i)))
         (Bin Shl (Elem (vo x 1) Fu8 (Lit (int i)))
            (Par (Bin BAnd (Elem (vo x 2) Fu8 (Lit (int i))) (Hex 0x7))))]) [0..<16])) st"
| "recomp_vround x PPC_INST_VSLH st =
     emit (concat (map (\<lambda>i. [Asg (Elem (vo x 0) Fu16 (Lit (int i)))
         (Bin Shl (Elem (vo x 1) Fu16 (Lit (int i)))
            (Par (Bin BAnd (Elem (vo x 2) Fu8 (Lit (int (i * 2)))) (Hex 0xF))))]) [0..<8])) st"
| "recomp_vround x PPC_INST_VSL st =
     emit [Txt 1
         ''simde_mm_store_si128((simde__m128i*){}.u8, simde_mm_vsl(simde_mm_load_si128((simde__m128i*){}.u8), simde_mm_load_si128((simde__m128i*){}.u8)));''
            [TV (vo x 0), TV (vo x 1), TV (vo x 2)]] st"
| "recomp_vround x PPC_INST_VSLDOI st =
     emit [Txt 1
         ''simde_mm_store_si128((simde__m128i*){}.u8, simde_mm_alignr_epi8(simde_mm_load_si128((simde__m128i*){}.u8), simde_mm_load_si128((simde__m128i*){}.u8), {}));''
            [TV (vo x 0), TV (vo x 1), TV (vo x 2), TI (uint (16 - opnd x 3))]] st"
| "recomp_vround x PPC_INST_VSLDOI128 st =
     emit [Txt 1
         ''simde_mm_store_si128((simde__m128i*){}.u8, simde_mm_alignr_epi8(simde_mm_load_si128((simde__m128i*){}.u8), simde_mm_load_si128((simde__m128i*){}.u8), {}));''
            [TV (vo x 0), TV (vo x 1), TV (vo x 2), TI (uint (16 - opnd x 3))]] st"
| "recomp_vround x PPC_INST_VSLW st =
     emit (concat (map (\<lambda>i. [Asg (Elem (vo x 0) Fu32 (Lit (int i)))
         (Bin Shl (Elem (vo x 1) Fu32 (Lit (int i)))
            (Par (Bin BAnd (Elem (vo x 2) Fu8 (Lit (int (i * 4)))) (Hex 0x1F))))]) [0..<4])) st"
| "recomp_vround x PPC_INST_VSLW128 st =
     emit (concat (map (\<lambda>i. [Asg (Elem (vo x 0) Fu32 (Lit (int i)))
         (Bin Shl (Elem (vo x 1) Fu32 (Lit (int i)))
            (Par (Bin BAnd (Elem (vo x 2) Fu8 (Lit (int (i * 4)))) (Hex 0x1F))))]) [0..<4])) st"
| "recomp_vround x PPC_INST_VRLH st =
     emit (concat (map (\<lambda>i. [Asg (Elem (vo x 0) Fu16 (Lit (int i)))
         (Cast uint16_t (Bin BOr (Par (Bin Shl (Elem (vo x 1) Fu16 (Lit (int i)))
            (Par (Bin BAnd (Elem (vo x 2) Fu8 (Lit (int (i * 2)))) (Hex 0xF)))))
            (Par (Bin Shr (Elem (vo x 1) Fu16 (Lit (int i)))
            (Par (Bin BAnd (Par (Bin Sub (Lit 16)
            (Par (Bin BAnd (Elem (vo x 2) Fu8 (Lit (int (i * 2)))) (Hex 0xF))))) (Hex 0xF)))))))])
            [0..<8])) st"

subsection \<open>\<open>VSPLTB\<close> to \<open>VSUBUBM\<close>\<close>

datatype (plugins only: code) id_vsplt =
     PPC_INST_VSPLTB | PPC_INST_VSPLTH | PPC_INST_VSPLTISB | PPC_INST_VSPLTISH | PPC_INST_VSPLTISW
    | PPC_INST_VSPLTISW128 | PPC_INST_VSPLTW | PPC_INST_VSPLTW128 | PPC_INST_VSR | PPC_INST_VSRAW
    | PPC_INST_VSRAW128 | PPC_INST_VSRAB | PPC_INST_VSRAH | PPC_INST_VSRH | PPC_INST_VSRW
    | PPC_INST_VSRW128 | PPC_INST_VSUBFP | PPC_INST_VSUBFP128 | PPC_INST_VSUBSHS |
        PPC_INST_VSUBSWS
    | PPC_INST_VSUBUBS | PPC_INST_VSUBUHM | PPC_INST_VSUBUWM | PPC_INST_VSUBUWS | PPC_INST_VSUBUBM

primrec recomp_vsplt :: "rin \<Rightarrow> id_vsplt \<Rightarrow> estate \<Rightarrow> estate"
    where
  "recomp_vsplt x PPC_INST_VSPLTB st =
     (let perm = 15 - opnd x 2
      in emit
          [Txt 1
            ''simde_mm_store_si128((simde__m128i*){}.u8, simde_mm_shuffle_epi8(simde_mm_load_si128((simde__m128i*){}.u8), simde_mm_set1_epi8(char(0x{:X}))));''
            [TV (vo x 0), TV (vo x 1), TI (uint perm)]] st)"
| "recomp_vsplt x PPC_INST_VSPLTH st =
     (let p = 7 - opnd x 2;
          perm = (p * 2) OR push_bit 8 (p * 2 + 1)
      in emit
          [Txt 1
            ''simde_mm_store_si128((simde__m128i*){}.u16, simde_mm_shuffle_epi8(simde_mm_load_si128((simde__m128i*){}.u16), simde_mm_set1_epi16(short(0x{:X}))));''
            [TV (vo x 0), TV (vo x 1), TI (uint perm)]] st)"
| "recomp_vsplt x PPC_INST_VSPLTISB st =
     emit [Txt 1 ''simde_mm_store_si128((simde__m128i*){}.u8, simde_mm_set1_epi8(char(0x{:X})));''
         [TV (vo x 0), TI (uop x 1)]] st"
| "recomp_vsplt x PPC_INST_VSPLTISH st =
     emit [Txt 1
         ''simde_mm_store_si128((simde__m128i*){}.u16, simde_mm_set1_epi16(short(0x{:X})));''
            [TV (vo x 0), TI (uop x 1)]] st"
| "recomp_vsplt x PPC_INST_VSPLTISW st =
     emit [Txt 1
         ''simde_mm_store_si128((simde__m128i*){}.u32, simde_mm_set1_epi32(int(0x{:X})));''
            [TV (vo x 0), TI (uop x 1)]] st"
| "recomp_vsplt x PPC_INST_VSPLTISW128 st =
     emit [Txt 1
         ''simde_mm_store_si128((simde__m128i*){}.u32, simde_mm_set1_epi32(int(0x{:X})));''
            [TV (vo x 0), TI (uop x 1)]] st"
| "recomp_vsplt x PPC_INST_VSPLTW st =
     (let p = 3 - opnd x 2;
          perm = p OR (push_bit 2 p OR push_bit 4 p OR push_bit 6 p)
      in emit
          [Txt 1
            ''simde_mm_store_si128((simde__m128i*){}.u32, simde_mm_shuffle_epi32(simde_mm_load_si128((simde__m128i*){}.u32), 0x{:X}));''
            [TV (vo x 0), TV (vo x 1), TI (uint perm)]] st)"
| "recomp_vsplt x PPC_INST_VSPLTW128 st =
     (let p = 3 - opnd x 2;
          perm = p OR (push_bit 2 p OR push_bit 4 p OR push_bit 6 p)
      in emit
          [Txt 1
            ''simde_mm_store_si128((simde__m128i*){}.u32, simde_mm_shuffle_epi32(simde_mm_load_si128((simde__m128i*){}.u32), 0x{:X}));''
            [TV (vo x 0), TV (vo x 1), TI (uint perm)]] st)"
| "recomp_vsplt x PPC_INST_VSR st =
     emit [Txt 1
         ''simde_mm_store_si128((simde__m128i*){}.u8, simde_mm_vsr(simde_mm_load_si128((simde__m128i*){}.u8), simde_mm_load_si128((simde__m128i*){}.u8)));''
            [TV (vo x 0), TV (vo x 1), TV (vo x 2)]] st"
| "recomp_vsplt x PPC_INST_VSRAW st =
     emit (concat (map (\<lambda>i. [Asg (Elem (vo x 0) Fs32 (Lit (int i)))
         (Bin Shr (Elem (vo x 1) Fs32 (Lit (int i)))
            (Par (Bin BAnd (Elem (vo x 2) Fu8 (Lit (int (i * 4)))) (Hex 0x1F))))]) [0..<4])) st"
| "recomp_vsplt x PPC_INST_VSRAW128 st =
     emit (concat (map (\<lambda>i. [Asg (Elem (vo x 0) Fs32 (Lit (int i)))
         (Bin Shr (Elem (vo x 1) Fs32 (Lit (int i)))
            (Par (Bin BAnd (Elem (vo x 2) Fu8 (Lit (int (i * 4)))) (Hex 0x1F))))]) [0..<4])) st"
| "recomp_vsplt x PPC_INST_VSRAB st =
     emit (concat (map (\<lambda>i. [Asg (Elem (vo x 0) Fs8 (Lit (int i)))
         (Bin Shr (Elem (vo x 1) Fs8 (Lit (int i)))
            (Par (Bin BAnd (Elem (vo x 2) Fu8 (Lit (int i))) (Hex 0x7))))]) [0..<16])) st"
| "recomp_vsplt x PPC_INST_VSRAH st =
     emit (concat (map (\<lambda>i. [Asg (Elem (vo x 0) Fs16 (Lit (int i)))
         (Bin Shr (Elem (vo x 1) Fs16 (Lit (int i)))
            (Par (Bin BAnd (Elem (vo x 2) Fu8 (Lit (int (i * 2)))) (Hex 0xF))))]) [0..<8])) st"
| "recomp_vsplt x PPC_INST_VSRH st =
     emit (concat (map (\<lambda>i. [Asg (Elem (vo x 0) Fu16 (Lit (int i)))
         (Bin Shr (Elem (vo x 1) Fu16 (Lit (int i)))
            (Par (Bin BAnd (Elem (vo x 2) Fu8 (Lit (int (i * 2)))) (Hex 0xF))))]) [0..<8])) st"
| "recomp_vsplt x PPC_INST_VSRW st =
     emit (concat (map (\<lambda>i. [Asg (Elem (vo x 0) Fu32 (Lit (int i)))
         (Bin Shr (Elem (vo x 1) Fu32 (Lit (int i)))
            (Par (Bin BAnd (Elem (vo x 2) Fu8 (Lit (int (i * 4)))) (Hex 0x1F))))]) [0..<4])) st"
| "recomp_vsplt x PPC_INST_VSRW128 st =
     emit (concat (map (\<lambda>i. [Asg (Elem (vo x 0) Fu32 (Lit (int i)))
         (Bin Shr (Elem (vo x 1) Fu32 (Lit (int i)))
            (Par (Bin BAnd (Elem (vo x 2) Fu8 (Lit (int (i * 4)))) (Hex 0x1F))))]) [0..<4])) st"
| "recomp_vsplt x PPC_INST_VSUBFP st =
     emit [Txt 1
         ''simde_mm_store_ps({}.f32, simde_mm_sub_ps(simde_mm_load_ps({}.f32), simde_mm_load_ps({}.f32)));''
            [TV (vo x 0), TV (vo x 1), TV (vo x 2)]] (set_flush_mode True st)"
| "recomp_vsplt x PPC_INST_VSUBFP128 st =
     emit [Txt 1
         ''simde_mm_store_ps({}.f32, simde_mm_sub_ps(simde_mm_load_ps({}.f32), simde_mm_load_ps({}.f32)));''
            [TV (vo x 0), TV (vo x 1), TV (vo x 2)]] (set_flush_mode True st)"
| "recomp_vsplt x PPC_INST_VSUBSHS st =
     emit (concat (map (\<lambda>i. [Asg (S32 v_temp)
         (Bin Sub (Cast int32_t (Elem (vo x 1) Fs16 (Lit (int i))))
            (Cast int32_t (Elem (vo x 2) Fs16 (Lit (int i))))),
      Txt 1
          ''{}.s16[{}] = {}.s32 > INT16_MAX ? INT16_MAX : {}.s32 < INT16_MIN ? INT16_MIN : {}.s32;''
            [TV (vo x 0), TI (int i), TV v_temp, TV v_temp, TV v_temp]]) [0..<8])) st"
| "recomp_vsplt x PPC_INST_VSUBSWS st =
     emit (concat (map (\<lambda>i. [Asg (S64 v_temp)
         (Bin Sub (Cast int64_t (Elem (vo x 1) Fs32 (Lit (int i))))
            (Cast int64_t (Elem (vo x 2) Fs32 (Lit (int i))))),
      Txt 1 ''{}.s32[{}] = {}.s64 > INT_MAX ? INT_MAX : {}.s64 < INT_MIN ? INT_MIN : {}.s64;''
          [TV (vo x 0), TI (int i), TV v_temp, TV v_temp, TV v_temp]]) [0..<4])) st"
| "recomp_vsplt x PPC_INST_VSUBUBS st =
     emit [Txt 1
         ''simde_mm_store_si128((simde__m128i*){}.u8, simde_mm_subs_epu8(simde_mm_load_si128((simde__m128i*){}.u8), simde_mm_load_si128((simde__m128i*){}.u8)));''
            [TV (vo x 0), TV (vo x 1), TV (vo x 2)]] st"
| "recomp_vsplt x PPC_INST_VSUBUHM st =
     emit [Txt 1
         ''simde_mm_store_si128((simde__m128i*){}.u8, simde_mm_sub_epi16(simde_mm_load_si128((simde__m128i*){}.u8), simde_mm_load_si128((simde__m128i*){}.u8)));''
            [TV (vo x 0), TV (vo x 1), TV (vo x 2)]] st"
| "recomp_vsplt x PPC_INST_VSUBUWM st =
     emit [Txt 1
         ''simde_mm_store_si128((simde__m128i*){}.u32, simde_mm_sub_epi32(simde_mm_load_si128((simde__m128i*){}.u32), simde_mm_load_si128((simde__m128i*){}.u32)));''
            [TV (vo x 0), TV (vo x 1), TV (vo x 2)]] st"
| "recomp_vsplt x PPC_INST_VSUBUWS st =
     emit (concat (map (\<lambda>i. [Asg (Elem (vo x 0) Fu32 (Lit (int i)))
         (Ite (Bin Gt (Elem (vo x 1) Fu32 (Lit (int i))) (Elem (vo x 2) Fu32 (Lit (int i))))
            (Bin Sub (Elem (vo x 1) Fu32 (Lit (int i))) (Elem (vo x 2) Fu32 (Lit (int i))))
            (Lit 0))]) [0..<4])) st"
| "recomp_vsplt x PPC_INST_VSUBUBM st =
     emit [Txt 1
         ''simde_mm_store_si128((simde__m128i*){}.u8, simde_mm_sub_epi8(simde_mm_load_si128((simde__m128i*){}.u8), simde_mm_load_si128((simde__m128i*){}.u8)));''
            [TV (vo x 0), TV (vo x 1), TV (vo x 2)]] st"

subsection \<open>\<open>VUPKD3D128\<close> to \<open>VXOR\<close>\<close>

datatype (plugins only: code) id_vupk =
     PPC_INST_VUPKD3D128 | PPC_INST_VUPKHSB | PPC_INST_VUPKHSB128 | PPC_INST_VUPKHSH
    | PPC_INST_VUPKHSH128 | PPC_INST_VUPKLSB | PPC_INST_VUPKLSB128 | PPC_INST_VUPKLSH
    | PPC_INST_VUPKLSH128 | PPC_INST_VXOR | PPC_INST_VXOR128

primrec recomp_vupk :: "rin \<Rightarrow> id_vupk \<Rightarrow> estate \<Rightarrow> estate" where
  "recomp_vupk x PPC_INST_VUPKD3D128 st =
     emit (if drop_bit 2 (opnd x 2) = 0 then concat
         (map (\<lambda>i. [Asg (Elem v_vTemp Fu32 (Lit (int i)))
            (Bin BOr (Elem (vo x 1) Fu8 (Lit (int ([3, 0, 1, 2] ! i)))) (Hex 0x3F800000))])
            [0..<4])
      @ [Asg (Var (vo x 0)) (Var v_vTemp)]
      else if drop_bit 2 (opnd x 2) = 1 then concat
          (map (\<lambda>i. [Txt 1 ''{}.f32 = 3.0f;'' [TV v_temp],
      Txt 1 ''{}.s32 += {}.s16[{}] == INT16_MIN ? -INT16_MAX : {}.s16[{}];''
          [TV v_temp, TV (vo x 1), TI (int (1 - i)), TV (vo x 1), TI (int (1 - i))],
      Txt 1 ''{}.f32[{}] = {}.f32;'' [TV v_vTemp, TI (int (3 - i)), TV v_temp]]) [0..<2])
      @ [Txt 1 ''{}.f32[1] = 0.0f;'' [TV v_vTemp],
      Txt 1 ''{}.f32[0] = 1.0f;'' [TV v_vTemp],
      Asg (Var (vo x 0)) (Var v_vTemp)]
      else if drop_bit 2 (opnd x 2) = 3 then [Asg (U32 v_temp) (Elem (vo x 1) Fu32 (Lit 0))]
      @ concat (map (\<lambda>i. [Asg (Elem v_vTemp Fs32 (Lit (int (3 - i))))
          (Bin Shr (Cast int32_t (Bin Shl (U32 v_temp) (Lit (int (22 - i * 10))))) (Lit 22)),
      Txt 1 ''{}.u32[{}] = 0x40400000u + uint32_t({}.s32[{}] < -511 ? -511 : {}.s32[{}]);''
          [TV v_vTemp, TI (int (3 - i)), TV v_vTemp, TI (int (3 - i)), TV v_vTemp, TI
            (int (3 - i))]]) [0..<3])
      @ [Txt 1 ''{}.u32[0] = 0x40400000u + ({}.u32 >> 30);'' [TV v_vTemp, TV v_temp],
      Asg (Var (vo x 0)) (Var v_vTemp)]
      else [Txt 1 ''__builtin_debugtrap();'' []]) st"
| "recomp_vupk x PPC_INST_VUPKHSB st =
     emit [Txt 1
         ''simde_mm_store_si128((simde__m128i*){}.s16, simde_mm_cvtepi8_epi16(simde_mm_unpackhi_epi64(simde_mm_load_si128((simde__m128i*){}.s8), simde_mm_load_si128((simde__m128i*){}.s8))));''
            [TV (vo x 0), TV (vo x 1), TV (vo x 1)]] st"
| "recomp_vupk x PPC_INST_VUPKHSB128 st =
     emit [Txt 1
         ''simde_mm_store_si128((simde__m128i*){}.s16, simde_mm_cvtepi8_epi16(simde_mm_unpackhi_epi64(simde_mm_load_si128((simde__m128i*){}.s8), simde_mm_load_si128((simde__m128i*){}.s8))));''
            [TV (vo x 0), TV (vo x 1), TV (vo x 1)]] st"
| "recomp_vupk x PPC_INST_VUPKHSH st =
     emit [Txt 1
         ''simde_mm_store_si128((simde__m128i*){}.s32, simde_mm_cvtepi16_epi32(simde_mm_unpackhi_epi64(simde_mm_load_si128((simde__m128i*){}.s16), simde_mm_load_si128((simde__m128i*){}.s16))));''
            [TV (vo x 0), TV (vo x 1), TV (vo x 1)]] st"
| "recomp_vupk x PPC_INST_VUPKHSH128 st =
     emit [Txt 1
         ''simde_mm_store_si128((simde__m128i*){}.s32, simde_mm_cvtepi16_epi32(simde_mm_unpackhi_epi64(simde_mm_load_si128((simde__m128i*){}.s16), simde_mm_load_si128((simde__m128i*){}.s16))));''
            [TV (vo x 0), TV (vo x 1), TV (vo x 1)]] st"
| "recomp_vupk x PPC_INST_VUPKLSB st =
     emit [Txt 1
         ''simde_mm_store_si128((simde__m128i*){}.s32, simde_mm_cvtepi8_epi16(simde_mm_load_si128((simde__m128i*){}.s16)));''
            [TV (vo x 0), TV (vo x 1)]] st"
| "recomp_vupk x PPC_INST_VUPKLSB128 st =
     emit [Txt 1
         ''simde_mm_store_si128((simde__m128i*){}.s32, simde_mm_cvtepi8_epi16(simde_mm_load_si128((simde__m128i*){}.s16)));''
            [TV (vo x 0), TV (vo x 1)]] st"
| "recomp_vupk x PPC_INST_VUPKLSH st =
     emit [Txt 1
         ''simde_mm_store_si128((simde__m128i*){}.s32, simde_mm_cvtepi16_epi32(simde_mm_load_si128((simde__m128i*){}.s16)));''
            [TV (vo x 0), TV (vo x 1)]] st"
| "recomp_vupk x PPC_INST_VUPKLSH128 st =
     emit [Txt 1
         ''simde_mm_store_si128((simde__m128i*){}.s32, simde_mm_cvtepi16_epi32(simde_mm_load_si128((simde__m128i*){}.s16)));''
            [TV (vo x 0), TV (vo x 1)]] st"
| "recomp_vupk x PPC_INST_VXOR st =
     emit ((if opnd x 1 \<noteq> opnd x 2
      then [Txt 1
          ''simde_mm_store_si128((simde__m128i*){}.u8, simde_mm_xor_si128(simde_mm_load_si128((simde__m128i*){}.u8), simde_mm_load_si128((simde__m128i*){}.u8)));''
            [TV (vo x 0), TV (vo x 1), TV (vo x 2)]]
      else [Txt 1 ''simde_mm_store_si128((simde__m128i*){}.u8, simde_mm_setzero_si128());''
          [TV (vo x 0)]])) st"
| "recomp_vupk x PPC_INST_VXOR128 st =
     emit ((if opnd x 1 \<noteq> opnd x 2
      then [Txt 1
          ''simde_mm_store_si128((simde__m128i*){}.u8, simde_mm_xor_si128(simde_mm_load_si128((simde__m128i*){}.u8), simde_mm_load_si128((simde__m128i*){}.u8)));''
            [TV (vo x 0), TV (vo x 1), TV (vo x 2)]]
      else [Txt 1 ''simde_mm_store_si128((simde__m128i*){}.u8, simde_mm_setzero_si128());''
          [TV (vo x 0)]])) st"

end
