(* ===== verification/RecompInsn.thy ===== *)
theory RecompInsn
  imports EmitInt EmitMem EmitVec
begin

text \<open>
  The frame of \<open>Recompiler::Recompile(fn, base, insn, data, ...)\<close> in
  \<open>XenonRecomp/recompiler.cpp\<close>: the comment line, the mid-assembly hook before or after the
  instruction, the two re-mapped opcodes, the switch as a whole and the check that a
  recording form printed a comparison.
\<close>

unbundle bit_operations_syntax

subsection \<open>Opcodes and decoded instructions\<close>

text \<open>
  The opcode identifiers, by run of case labels; \<open>Inst_other\<close> stands for every identifier
  that falls into \<open>default\<close>.
\<close>

datatype ppc_inst =
    Inst_add id_add | Inst_jump id_jump | Inst_cond id_cond | Inst_cmp id_cmp
  | Inst_float id_float | Inst_load id_load | Inst_load2 id_load2 | Inst_load3 id_load3
  | Inst_move id_move | Inst_logic id_logic | Inst_shift id_shift | Inst_store id_store
  | Inst_store2 id_store2 | Inst_sub id_sub | Inst_vadd id_vadd | Inst_vcmp id_vcmp
  | Inst_vmax id_vmax | Inst_vpk id_vpk | Inst_vround id_vround | Inst_vsplt id_vsplt
  | Inst_vupk id_vupk | Inst_xor id_xor | Inst_other nat

record ppc_insn =
  pi_opcode :: "(string \<times> ppc_inst) option"
  pi_operands :: "nat \<Rightarrow> u32"
  pi_op_str :: string

fun recomp_switch :: "rin \<Rightarrow> ppc_inst \<Rightarrow> estate \<Rightarrow> estate option" where
  "recomp_switch x (Inst_add i) st = Some (recomp_add x i st)"
| "recomp_switch x (Inst_jump i) st = Some (recomp_jump x i st)"
| "recomp_switch x (Inst_cond i) st = Some (recomp_cond x i st)"
| "recomp_switch x (Inst_cmp i) st = Some (recomp_cmp x i st)"
| "recomp_switch x (Inst_float i) st = Some (recomp_float x i st)"
| "recomp_switch x (Inst_load i) st = Some (recomp_load x i st)"
| "recomp_switch x (Inst_load2 i) st = Some (recomp_load2 x i st)"
| "recomp_switch x (Inst_load3 i) st = Some (recomp_load3 x i st)"
| "recomp_switch x (Inst_move i) st = Some (recomp_move x i st)"
| "recomp_switch x (Inst_logic i) st = Some (recomp_logic x i st)"
| "recomp_switch x (Inst_shift i) st = Some (recomp_shift x i st)"
| "recomp_switch x (Inst_store i) st = Some (recomp_store x i st)"
| "recomp_switch x (Inst_store2 i) st = Some (recomp_store2 x i st)"
| "recomp_switch x (Inst_sub i) st = Some (recomp_sub x i st)"
| "recomp_switch x (Inst_vadd i) st = Some (recomp_vadd x i st)"
| "recomp_switch x (Inst_vcmp i) st = Some (recomp_vcmp x i st)"
| "recomp_switch x (Inst_vmax i) st = Some (recomp_vmax x i st)"
| "recomp_switch x (Inst_vpk i) st = Some (recomp_vpk x i st)"
| "recomp_switch x (Inst_vround i) st = Some (recomp_vround x i st)"
| "recomp_switch x (Inst_vsplt i) st = Some (recomp_vsplt x i st)"
| "recomp_switch x (Inst_vupk i) st = Some (recomp_vupk x i st)"
| "recomp_switch x (Inst_xor i) st = Some (recomp_xor x i st)"
| "recomp_switch x (Inst_other n) st = None"

text \<open>The identifiers that the disassembler confuses, corrected before the switch.\<close>

definition fix_id :: "rin \<Rightarrow> ppc_inst \<Rightarrow> ppc_inst" where
  "fix_id x i =
     (if i = Inst_vupk PPC_INST_VUPKHSB128 \<and> opnd x 2 = 0x60 then Inst_vupk PPC_INST_VUPKHSH128
      else if i = Inst_vupk PPC_INST_VUPKLSB128 \<and> opnd x 2 = 0x60 then Inst_vupk PPC_INST_VUPKLSH128
      else i)"

subsection \<open>Mid-assembly hooks\<close>

text \<open>\<open>std::atoi\<close> on the digits of a register name.\<close>

fun atoi_acc :: "nat \<Rightarrow> string \<Rightarrow> nat" where
  "atoi_acc n [] = n"
| "atoi_acc n (c # cs) =
     (if 48 \<le> (of_char c :: nat) \<and> (of_char c :: nat) \<le> 57 then atoi_acc (10 * n + (of_char c - 48)) cs else n)"

definition atoi :: "string \<Rightarrow> nat" where
  "atoi s = atoi_acc 0 s"

definition hook_reg :: "rin \<Rightarrow> string \<Rightarrow> targ option" where
  "hook_reg x reg =
     (case reg of
        [] \<Rightarrow> None
      | c # _ \<Rightarrow>
          if c = CHR ''c'' then
            Some (TV (if reg = ''ctr'' then reg_ctr x else reg_cr x (atoi (drop 2 reg))))
          else if c = CHR ''x'' then Some (TV (reg_xer x))
          else if c = CHR ''r'' then
            Some (TV (if reg = ''reserved'' then reg_reserved x else reg_r x (atoi (drop 1 reg))))
          else if c = CHR ''f'' then
            Some (if reg = ''fpscr'' then TS ''ctx.fpscr'' else TV (reg_f x (atoi (drop 1 reg))))
          else if c = CHR ''v'' then Some (TV (reg_v x (atoi (drop 1 reg))))
          else None)"

text \<open>The argument list; a comma precedes an argument once the text no longer ends in \<open>(\<close>.\<close>

fun hook_args :: "rin \<Rightarrow> bool \<Rightarrow> string list \<Rightarrow> string \<times> targ list" where
  "hook_args x started [] = ([], [])"
| "hook_args x started (reg # regs) =
     (case hook_reg x reg of
        Some a \<Rightarrow>
          (let r = hook_args x True regs
           in ((if started then '', '' else []) @ ''{}'' @ fst r, a # snd r))
      | None \<Rightarrow>
          (let r = hook_args x started regs
           in ((if started then '', '' else []) @ fst r, snd r)))"

definition returns_bool :: "RecompilerMidAsmHook \<Rightarrow> bool" where
  "returns_bool h =
     (mh_returnOnFalse h \<or> mh_returnOnTrue h \<or> mh_jumpAddressOnFalse h \<noteq> 0
      \<or> mh_jumpAddressOnTrue h \<noteq> 0)"

definition hook_exit :: "bool \<Rightarrow> u32 \<Rightarrow> cstmt list" where
  "hook_exit returns target =
     (if returns then [Return] else if target \<noteq> 0 then [Goto target] else [])"

text \<open>\<open>printMidAsmHook\<close>. The hook's name is the argument number 0 of the line.\<close>

definition print_hook :: "rin \<Rightarrow> RecompilerMidAsmHook \<Rightarrow> estate \<Rightarrow> estate" where
  "print_hook x h st =
     (let a = hook_args x False (mh_registers h);
          call = ''{}('' @ fst a @ '')'';
          args = TS (mh_name h) # snd a
      in emit (if returns_bool h
               then [HookIf call args
                       (hook_exit (mh_returnOnTrue h) (mh_jumpAddressOnTrue h))
                       (hook_exit (mh_returnOnFalse h) (mh_jumpAddressOnFalse h))]
               else HookCall call args # hook_exit (mh_ret h) (mh_jumpAddress h)) st)"

definition hook_at :: "rin \<Rightarrow> bool \<Rightarrow> estate \<Rightarrow> estate" where
  "hook_at x after st =
     (case midAsmHooks (cfg x) (pc x) of
        Some h \<Rightarrow> if mh_afterInstruction h = after then print_hook x h st else st
      | None \<Rightarrow> st)"

subsection \<open>The instruction as a whole\<close>

definition body_text :: "cstmt list \<Rightarrow> string" where
  "body_text ss = concat (map show_stmt ss)"

definition last_line :: "string \<Rightarrow> string" where
  "last_line s = rev (takeWhile (\<lambda>c. c \<noteq> CHR 0x0A) (tl (rev s)))"

fun occurs_in :: "string \<Rightarrow> string \<Rightarrow> bool" where
  "occurs_in p [] = (p = [])"
| "occurs_in p (c # cs) = (starts_with p (c # cs) \<or> occurs_in p cs)"

definition check_rc :: "rin \<Rightarrow> estate \<Rightarrow> estate" where
  "check_rc x st =
     (if has_dot x \<and> \<not> occurs_in ''cr0'' (last_line (body_text (out st)))
           \<and> \<not> occurs_in ''cr6'' (last_line (body_text (out st)))
      then report (opname x @ '' at '' @ hex_string (uint (pc x))
                   @ '' has RC bit enabled but no comparison was generated'') st
      else st)"

text \<open>The returned flag is the function's result; \<open>False\<close> is the \<open>default\<close> case.\<close>

definition recompile_insn :: "rin \<Rightarrow> ppc_inst \<Rightarrow> estate \<Rightarrow> bool \<times> estate" where
  "recompile_insn x i st =
     (let st1 = hook_at x False (emit [Txt 1 ''// {} {}'' [TS (opname x), TS (op_str x)]] st)
      in case recomp_switch x (fix_id x i) st1 of
           None \<Rightarrow> (False, st1)
         | Some st2 \<Rightarrow> (True, hook_at x True (check_rc x st2)))"

end
