(* ===== verification/Recomp.thy ===== *)
theory Recomp
  imports RecompInsn
begin

text \<open>
  \<open>Recompiler::Recompile(const Function&)\<close> of \<open>XenonRecomp/recompiler.cpp\<close>: the labels of a
  function, the declarations of its hooks, its instructions in order and the declarations of the
  local registers it turned out to name. The disassembler (vendored) and the memory of the image
  are parameters. The driver that calls it and writes the files is the theory Driver.
\<close>

unbundle bit_operations_syntax

subsection \<open>Fields of a branch instruction\<close>

text \<open>The macros of \<open>ppc.h\<close>; the displacements are sign-extended.\<close>

definition PPC_OP :: "u32 \<Rightarrow> u32" where "PPC_OP i = drop_bit 26 i AND 0x3F"
definition PPC_XOP :: "u32 \<Rightarrow> u32" where "PPC_XOP i = drop_bit 1 i AND 0x3FF"
definition PPC_BD :: "u32 \<Rightarrow> u32" where "PPC_BD i = ((i AND 0xFFFC) XOR 0x8000) - 0x8000"
definition PPC_BI :: "u32 \<Rightarrow> u32" where "PPC_BI i = ((i AND 0x3FFFFFC) XOR 0x2000000) - 0x2000000"
definition PPC_BL :: "u32 \<Rightarrow> bool" where "PPC_BL i = bit i 0"

definition PPC_OP_B :: u32 where "PPC_OP_B = 18"
definition PPC_OP_BC :: u32 where "PPC_OP_BC = 16"

text \<open>\<open>ByteSwap\<close> of \<open>byteswap.h\<close> on 32 bits.\<close>

definition ByteSwap32 :: "u32 \<Rightarrow> u32" where
  "ByteSwap32 w =
     push_bit 24 (w AND 0xFF) OR push_bit 8 (w AND 0xFF00)
     OR (drop_bit 8 w AND 0xFF00) OR drop_bit 24 w"

subsection \<open>The environment of a function\<close>

text \<open>
  \<open>re_mem a\<close> is the 32-bit word the host reads at the guest address \<open>a\<close>;
  \<open>re_dis w a\<close> is what \<open>ppc::Disassemble\<close> makes of the instruction word \<open>w\<close> at \<open>a\<close>;
  \<open>re_alias\<close> is the build option \<open>XENON_RECOMP_USE_ALIAS\<close>.
\<close>

record renv =
  re_cfg :: RecompilerConfig
  re_symbols :: SymbolTable
  re_mem :: "u64 \<Rightarrow> u32"
  re_dis :: "u32 \<Rightarrow> u64 \<Rightarrow> ppc_insn"
  re_alias :: bool

definition insn_at :: "renv \<Rightarrow> u64 \<Rightarrow> u32" where
  "insn_at e addr = ByteSwap32 (re_mem e addr)"

definition decoded_at :: "renv \<Rightarrow> u64 \<Rightarrow> ppc_insn" where
  "decoded_at e addr = re_dis e (insn_at e addr) addr"

text \<open>The addresses of \<open>for (addr = base; addr < end; addr += 4)\<close>.\<close>

definition insn_addrs :: "FunctionRange \<Rightarrow> u64 list" where
  "insn_addrs fn =
     (if fn_base fn \<le> fn_base fn + fn_size fn
      then map (\<lambda>i. fn_base fn + of_nat (4 * i)) [0..<(unat (fn_size fn) + 3) div 4]
      else [])"

subsection \<open>Labels\<close>

definition branch_labels :: "u32 \<Rightarrow> u64 \<Rightarrow> u64 list" where
  "branch_labels instruction addr =
     (if PPC_OP instruction = PPC_OP_B
      then (if \<not> PPC_BL instruction then [addr + scast (PPC_BI instruction)] else [])
      else if PPC_OP instruction = PPC_OP_BC then [addr + scast (PPC_BD instruction)]
      else [])"

definition switch_labels :: "RecompilerConfig \<Rightarrow> u64 \<Rightarrow> u64 list" where
  "switch_labels c addr =
     (case switchTables c (ucast addr) of
        Some tb \<Rightarrow> map ucast (st_labels tb)
      | None \<Rightarrow> [])"

definition hook_labels :: "RecompilerConfig \<Rightarrow> u64 \<Rightarrow> u64 list" where
  "hook_labels c addr =
     (case midAsmHooks c (ucast addr) of
        Some h \<Rightarrow> map ucast (filter (\<lambda>a. a \<noteq> 0)
                     [mh_jumpAddress h, mh_jumpAddressOnTrue h, mh_jumpAddressOnFalse h])
      | None \<Rightarrow> [])"

definition function_labels :: "renv \<Rightarrow> FunctionRange \<Rightarrow> u64 set" where
  "function_labels e fn =
     set (concat (map (\<lambda>addr. branch_labels (insn_at e addr) addr @ switch_labels (re_cfg e) addr
                              @ hook_labels (re_cfg e) addr) (insn_addrs fn)))"

subsection \<open>Declarations of the hooks\<close>

definition hook_param :: "string \<Rightarrow> string" where
  "hook_param reg =
     (case reg of
        [] \<Rightarrow> []
      | c # _ \<Rightarrow>
          if c = CHR ''c'' then
            (if reg = ''ctr'' then ''PPCRegister& ctr'' else ''PPCCRRegister& '' @ reg)
          else if c = CHR ''x'' then ''PPCXERRegister& xer''
          else if c = CHR ''r'' then ''PPCRegister& '' @ reg
          else if c = CHR ''f'' then
            (if reg = ''fpscr'' then ''PPCFPSCRRegister& fpscr'' else ''PPCRegister& '' @ reg)
          else if c = CHR ''v'' then ''PPCVRegister& '' @ reg
          else [])"

fun hook_params :: "string \<Rightarrow> string list \<Rightarrow> string" where
  "hook_params acc [] = acc"
| "hook_params acc (reg # regs) =
     hook_params ((if acc = [] \<or> last acc \<noteq> CHR ''('' then acc @ '', '' else acc) @ hook_param reg) regs"

definition hook_extern :: "RecompilerMidAsmHook \<Rightarrow> string" where
  "hook_extern h =
     (if returns_bool h then ''extern bool '' else ''extern void '')
     @ hook_params (mh_name h @ ''('') (mh_registers h) @ '');'' @ nl @ nl"

definition hook_externs :: "renv \<Rightarrow> FunctionRange \<Rightarrow> string" where
  "hook_externs e fn =
     concat (map (\<lambda>addr. case midAsmHooks (re_cfg e) (ucast addr) of
                            Some h \<Rightarrow> hook_extern h | None \<Rightarrow> []) (insn_addrs fn))"

subsection \<open>The instructions of a function\<close>

definition insn_input :: "renv \<Rightarrow> FunctionRange \<Rightarrow> u64 \<Rightarrow> string \<Rightarrow> rin" where
  "insn_input e fn addr name =
     \<lparr>cfg = re_cfg e, symbols = re_symbols e, fnc = fn, pc = ucast addr, opname = name,
      opnd = pi_operands (decoded_at e addr), op_str = pi_op_str (decoded_at e addr),
      next_raw = re_mem e (addr + 4)\<rparr>"

text \<open>A label forgets the tracked flush mode.\<close>

definition place_label :: "u64 set \<Rightarrow> u64 \<Rightarrow> estate \<Rightarrow> estate" where
  "place_label labels addr st =
     (if addr \<in> labels then (emit [Label addr] st)\<lparr>csr := CSR_Unknown\<rparr> else st)"

definition find_table :: "renv \<Rightarrow> u64 \<Rightarrow> estate \<Rightarrow> estate" where
  "find_table e addr st =
     (if pending st = None then st\<lparr>pending := switchTables (re_cfg e) (ucast addr)\<rparr> else st)"

definition missing_table :: "renv \<Rightarrow> u64 \<Rightarrow> ppc_inst \<Rightarrow> estate \<Rightarrow> estate" where
  "missing_table e addr i st =
     (if i = Inst_jump PPC_INST_BCTR
         \<and> (re_mem e (addr - 4) = 0x07008038 \<or> re_mem e (addr - 4) = 0x00000060)
         \<and> pending st = None
      then report (''Found a switch jump table at '' @ hex_string (uint addr)
                   @ '' with no switch table entry present'') st
      else st)"

definition recompile_at :: "renv \<Rightarrow> FunctionRange \<Rightarrow> u64 set \<Rightarrow> u64 \<Rightarrow> bool \<times> estate \<Rightarrow> bool \<times> estate" where
  "recompile_at e fn labels addr s =
     (let st1 = find_table e addr (place_label labels addr (snd s))
      in case pi_opcode (decoded_at e addr) of
           None \<Rightarrow>
             (let st2 = emit [Txt 1 ''// {}'' [TS (pi_op_str (decoded_at e addr))]] st1
              in (fst s,
                  if re_mem e addr \<noteq> 0
                  then report (''Unable to decode instruction '' @ hex_string (uint (re_mem e addr))
                               @ '' at '' @ hex_string (uint addr)) st2
                  else st2))
         | Some (name, i) \<Rightarrow>
             (let r = recompile_insn (insn_input e fn addr name) i (missing_table e addr i st1)
              in if fst r then (fst s, snd r)
                 else (False, report (''Unrecognized instruction at 0x'' @ hex_string (uint addr)
                                      @ '': '' @ name) (snd r))))"

definition estate0 :: estate where
  "estate0 = \<lparr>out = [], locs = {}, csr = CSR_Unknown, pending = None, diag = []\<rparr>"

definition recompile_body :: "renv \<Rightarrow> FunctionRange \<Rightarrow> bool \<times> estate" where
  "recompile_body e fn =
     fold (recompile_at e fn (function_labels e fn)) (insn_addrs fn) (True, estate0)"

subsection \<open>The text of a function\<close>

text \<open>The flags of \<open>RecompilerLocalVariables\<close>, in the order their declarations are printed.\<close>

definition local_order :: "regname list" where
  "local_order =
     [CTR, XERREG, RESERVED] @ map CRREG [0..<8] @ map GPR [0..<32] @ map FPR [0..<32]
     @ map VREG [0..<128] @ [ENV, TEMP, VTEMP, EA]"

fun local_type :: "regname \<Rightarrow> string" where
  "local_type (GPR n) = ''PPCRegister''"
| "local_type (FPR n) = ''PPCRegister''"
| "local_type (VREG n) = ''PPCVRegister''"
| "local_type (CRREG n) = ''PPCCRRegister''"
| "local_type CTR = ''PPCRegister''"
| "local_type XERREG = ''PPCXERRegister''"
| "local_type RESERVED = ''PPCRegister''"
| "local_type TEMP = ''PPCRegister''"
| "local_type VTEMP = ''PPCVRegister''"
| "local_type ENV = ''PPCContext''"
| "local_type EA = ''uint32_t''"

definition declared :: "regname set \<Rightarrow> regname list" where
  "declared ls = filter (\<lambda>v. v \<in> ls) local_order"

definition decl_text :: "regname list \<Rightarrow> string" where
  "decl_text vs = concat (map (\<lambda>v. tab @ local_type v @ '' '' @ show_reg v @ ''{};'' @ nl) vs)"

definition function_name :: "renv \<Rightarrow> FunctionRange \<Rightarrow> string" where
  "function_name e fn =
     (case find_symbol (fn_base fn) (re_symbols e) of
        Some s \<Rightarrow> sym_name s
      | None \<Rightarrow> ''sub_'' @ dec_string (uint (fn_base fn)))"

definition function_head :: "renv \<Rightarrow> string \<Rightarrow> string" where
  "function_head e name =
     (if re_alias e
      then ''__attribute__((alias('' @ [CHR 0x22] @ ''__imp__'' @ name @ [CHR 0x22]
           @ ''))) PPC_WEAK_FUNC('' @ name @ '');'' @ nl
      else [])
     @ ''PPC_FUNC_IMPL(__imp__'' @ name @ '') {'' @ nl @ tab @ ''PPC_FUNC_PROLOGUE();'' @ nl"

definition function_tail :: "renv \<Rightarrow> string \<Rightarrow> string" where
  "function_tail e name =
     ''}'' @ nl @ nl
     @ (if re_alias e then []
        else ''PPC_WEAK_FUNC('' @ name @ '') {'' @ nl @ tab @ ''__imp__'' @ name @ ''(ctx, base);'' @ nl
             @ ''}'' @ nl @ nl)"

text \<open>What \<open>Recompile(fn)\<close> appends to the output, and its result.\<close>

definition recompile_function :: "renv \<Rightarrow> FunctionRange \<Rightarrow> bool \<times> string" where
  "recompile_function e fn =
     (let s = recompile_body e fn; name = function_name e fn
      in (fst s,
          hook_externs e fn @ function_head e name @ decl_text (declared (locs (snd s)))
          @ body_text (out (snd s)) @ function_tail e name))"

end
