(* ===== verification/EmitShape.thy ===== *)
theory EmitShape
  imports Recomp
begin

text \<open>
  The shape of what the switch of \<open>Recompile(insn)\<close> appends: outside the branch cases, at most
  a change of the flush mode followed by plain lines, which neither jump, call, define a
  label nor touch the flush mode. The lemmas on labels, declarations and the flush mode
  rest on it.
\<close>

unbundle bit_operations_syntax

fun plain :: "cstmt \<Rightarrow> bool" where
  "plain (Asg l e) = True"
| "plain (OrAsg l e) = True"
| "plain (Decr l) = True"
| "plain (Compare c t a b x) = True"
| "plain (Store m n a v) = True"
| "plain (Zero a n) = True"
| "plain (Cas c n a b d) = True"
| "plain (IfAsg c l e) = True"
| "plain (Txt n s as) = True"
| "plain _ = False"

lemma plain_gotos: "list_all plain ss \<Longrightarrow> block_gotos ss = {}"
proof (induction ss)
  case Nil
  then show ?case by simp
next
  case (Cons s ss)
  then show ?case by (cases s) auto
qed

lemma plain_labels: "list_all plain ss \<Longrightarrow> block_labels ss = {}"
proof (induction ss)
  case Nil
  then show ?case by simp
next
  case (Cons s ss)
  then show ?case by (cases s) auto
qed

lemma plain_rc [simp]: "list_all plain (rc x)"
  by (simp add: rc_def)

lemma plain_concat_map [simp]:
  "list_all plain (concat (map f xs)) \<longleftrightarrow> (\<forall>i \<in> set xs. list_all plain (f i))"
  by (induction xs) auto

lemma plain_map [simp]:
  "list_all plain (map f xs) \<longleftrightarrow> (\<forall>i \<in> set xs. plain (f i))"
  by (induction xs) auto

text \<open>\<open>st1\<close> is \<open>st\<close> with plain lines appended (diagnostics apart).\<close>

definition plain_ext :: "estate \<Rightarrow> estate \<Rightarrow> bool" where
  "plain_ext st st1 \<longleftrightarrow>
     (\<exists>ss. list_all plain ss \<and> out st1 = out st @ ss \<and> locs st1 = locs st \<union> block_locals ss
          \<and> csr st1 = csr st \<and> pending st1 = pending st)"

lemma plain_ext_refl [simp]: "plain_ext st st"
  by (auto simp: plain_ext_def intro: exI [of _ "[]"])

lemma plain_ext_emit [simp]: "list_all plain ss \<Longrightarrow> plain_ext st (emit ss st)"
  by (auto simp: plain_ext_def)

lemma plain_ext_emit_report [simp]: "list_all plain ss \<Longrightarrow> plain_ext st (emit ss (report m st))"
  by (auto simp: plain_ext_def)

definition plain_step :: "estate \<Rightarrow> estate \<Rightarrow> bool" where
  "plain_step st st1 \<longleftrightarrow>
     plain_ext st st1 \<or> plain_ext (set_flush_mode True st) st1 \<or> plain_ext (set_flush_mode False st) st1"

lemma recomp_add_plain: "plain_step st (recomp_add x i st)"
  by (cases i) (simp_all add: plain_step_def)

lemma recomp_cmp_plain: "plain_step st (recomp_cmp x i st)"
  by (cases i) (simp_all add: plain_step_def)

lemma recomp_float_plain: "plain_step st (recomp_float x i st)"
  by (cases i) (simp_all add: plain_step_def)

lemma recomp_load_plain: "plain_step st (recomp_load x i st)"
  by (cases i) (simp_all add: plain_step_def)

lemma recomp_load2_plain: "plain_step st (recomp_load2 x i st)"
  by (cases i) (simp_all add: plain_step_def)

lemma recomp_load3_plain: "plain_step st (recomp_load3 x i st)"
  by (cases i) (simp_all add: plain_step_def)

lemma recomp_move_plain: "plain_step st (recomp_move x i st)"
  by (cases i) (simp_all add: plain_step_def)

lemma recomp_logic_plain: "plain_step st (recomp_logic x i st)"
  by (cases i) (simp_all add: plain_step_def Let_def)

lemma recomp_shift_plain: "plain_step st (recomp_shift x i st)"
  by (cases i) (simp_all add: plain_step_def)

lemma recomp_store_plain: "plain_step st (recomp_store x i st)"
  by (cases i) (simp_all add: plain_step_def)

lemma recomp_store2_plain: "plain_step st (recomp_store2 x i st)"
  by (cases i) (simp_all add: plain_step_def)

lemma recomp_sub_plain: "plain_step st (recomp_sub x i st)"
  by (cases i) (simp_all add: plain_step_def)

lemma recomp_vadd_plain: "plain_step st (recomp_vadd x i st)"
  by (cases i) (simp_all add: plain_step_def)

lemma recomp_vcmp_plain: "plain_step st (recomp_vcmp x i st)"
  by (cases i) (simp_all add: plain_step_def)

lemma recomp_vmax_plain: "plain_step st (recomp_vmax x i st)"
  by (cases i) (simp_all add: plain_step_def Let_def)

lemma recomp_vpk_plain: "plain_step st (recomp_vpk x i st)"
  by (cases i) (simp_all add: plain_step_def Let_def)

lemma recomp_vround_plain: "plain_step st (recomp_vround x i st)"
  by (cases i) (simp_all add: plain_step_def)

lemma recomp_vsplt_plain: "plain_step st (recomp_vsplt x i st)"
  by (cases i) (simp_all add: plain_step_def Let_def)

lemma recomp_vupk_plain: "plain_step st (recomp_vupk x i st)"
  by (cases i) (simp_all add: plain_step_def)

lemma recomp_xor_plain: "plain_step st (recomp_xor x i st)"
  by (cases i) (simp_all add: plain_step_def)

lemmas recomp_plain =
  recomp_add_plain recomp_cmp_plain recomp_float_plain recomp_load_plain recomp_load2_plain
  recomp_load3_plain recomp_move_plain recomp_logic_plain recomp_shift_plain recomp_store_plain
  recomp_store2_plain recomp_sub_plain recomp_vadd_plain recomp_vcmp_plain recomp_vmax_plain
  recomp_vpk_plain recomp_vround_plain recomp_vsplt_plain recomp_vupk_plain recomp_xor_plain

text \<open>Every case but the branches.\<close>

lemma recomp_switch_plain:
  assumes "recomp_switch x i st = Some st1" "\<forall>j. i \<noteq> Inst_jump j" "\<forall>j. i \<noteq> Inst_cond j"
  shows "plain_step st st1"
  using assms by (cases i) (auto simp: recomp_plain)

lemma plain_step_cases:
  assumes "plain_step st st1"
  obtains fs ss where "list_all plain ss" "out st1 = out st @ fs @ ss"
    "locs st1 = locs st \<union> block_locals ss" "pending st1 = pending st"
    "(fs = [] \<and> csr st1 = csr st) \<or>
     (\<exists>en. fs = [Flush en (csr st \<noteq> CSR_Unknown)] \<and> csr st1 = (if en then CSR_VMX else CSR_FPU))"
proof -
  consider (none) "plain_ext st st1" | (some) en where "plain_ext (set_flush_mode en st) st1"
    using assms by (auto simp: plain_step_def)
  then show thesis
  proof cases
    case none
    then show ?thesis using that [of _ "[]"] by (auto simp: plain_ext_def)
  next
    case some
    then obtain ss where ss: "list_all plain ss" "out st1 = out (set_flush_mode en st) @ ss"
      "locs st1 = locs (set_flush_mode en st) \<union> block_locals ss"
      "csr st1 = csr (set_flush_mode en st)" "pending st1 = pending (set_flush_mode en st)"
      by (auto simp: plain_ext_def)
    show ?thesis
    proof (cases "csr st = (if en then CSR_VMX else CSR_FPU)")
      case True
      then have "set_flush_mode en st = st" by (simp add: set_flush_mode_def)
      then show ?thesis using ss that [of ss "[]"] by simp
    next
      case False
      then have "set_flush_mode en st =
          (emit [Flush en (csr st \<noteq> CSR_Unknown)] st)\<lparr>csr := if en then CSR_VMX else CSR_FPU\<rparr>"
        by (simp add: set_flush_mode_def)
      then show ?thesis using ss that [of ss "[Flush en (csr st \<noteq> CSR_Unknown)]"] by auto
    qed
  qed
qed

end
