(* ===== verification/Labels.thy ===== *)
theory Labels
  imports EmitShape
begin

text \<open>
  Every \<open>goto\<close> of a generated function has its label. \<open>Recompile(fn)\<close> collects the labels
  from the raw instruction words in a first pass and prints the jumps from the decoded
  operands in a second one; the lemmas show that the two agree for every target inside the
  function, whatever its position, and that a label is printed before its instruction.
\<close>

unbundle bit_operations_syntax

subsection \<open>Branch displacements\<close>

lemma mask_push:
  fixes z :: u32
  assumes "z = push_bit 2 (take_bit n z')" "n + 2 < 32"
  shows "uint z < 2 ^ (n + 2) \<and> 4 dvd uint z"
proof -
  have u: "uint (take_bit n z') < 2 ^ n"
    by (simp add: unsigned_take_bit_eq)
  have "uint z = uint (take_bit n z') * 4"
  proof -
    have lt: "uint (take_bit n z') * 4 < 2 ^ 32"
    proof -
      have "uint (take_bit n z') * 4 < 2 ^ n * 4" using u by simp
      also have "\<dots> = 2 ^ (n + 2)" by (simp add: power_add)
      also have "\<dots> \<le> (2 :: int) ^ 32" using assms(2) by (intro power_increasing) auto
      finally show ?thesis .
    qed
    have "z = take_bit n z' * 4" using assms(1) by (simp add: push_bit_eq_mult)
    then have "uint z = (uint (take_bit n z') * 4) mod 2 ^ 32" by (simp add: uint_word_ariths)
    then show ?thesis using lt by simp
  qed
  then show ?thesis using u by (simp add: power_add)
qed

lemma Suc_Suc_diff2: "2 \<le> n \<Longrightarrow> Suc (Suc (n - 2)) = n"
  by simp

lemma BD_shape: "((i :: u32) AND 0xFFFC) XOR 0x8000 = push_bit 2 (take_bit 14 (drop_bit 2 ((i AND 0xFFFC) XOR 0x8000)))"
proof -
  have c: "(0xFFFC :: u32) = push_bit 2 (mask 14)" "(0x8000 :: u32) = push_bit 15 1"
    by (simp_all add: mask_eq_exp_minus_1)
  show ?thesis unfolding c
    by (rule bit_word_eqI) (auto simp: bit_simps Suc_Suc_diff2)
qed

lemma BI_shape: "((i :: u32) AND 0x3FFFFFC) XOR 0x2000000 = push_bit 2 (take_bit 24 (drop_bit 2 ((i AND 0x3FFFFFC) XOR 0x2000000)))"
proof -
  have c: "(0x3FFFFFC :: u32) = push_bit 2 (mask 24)" "(0x2000000 :: u32) = push_bit 25 1"
    by (simp_all add: mask_eq_exp_minus_1)
  show ?thesis unfolding c
    by (rule bit_word_eqI) (auto simp: bit_simps Suc_Suc_diff2)
qed

lemma sint_minus_small:
  fixes z k :: u32
  assumes "uint z < 2 ^ 26" "uint k \<le> 2 ^ 26"
  shows "sint (z - k) = uint z - uint k"
proof -
  have "sint (z - k) = signed_take_bit 31 (uint z - uint k)"
    using sint_sbintrunc' [of "uint z - uint k", where 'a = 32]
    by (simp add: word_of_int_minus)
  also have "\<dots> = uint z - uint k"
  proof (rule signed_take_bit_int_eq_self)
    have "uint z < 67108864" "uint k \<le> 67108864" using assms by simp_all
    moreover have "0 \<le> uint z" "0 \<le> uint k" by simp_all
    ultimately have "- 2147483648 \<le> uint z - uint k" "uint z - uint k < 2147483648" by linarith+
    then show "- (2 ^ 31) \<le> uint z - uint k" "uint z - uint k < 2 ^ 31" by simp_all
  qed
  finally show ?thesis .
qed
lemma sint_PPC_BD: "- (2 ^ 25) \<le> sint (PPC_BD i) \<and> sint (PPC_BD i) < 2 ^ 25 \<and> 4 dvd sint (PPC_BD i)"
proof -
  let ?z = "(i AND 0xFFFC) XOR 0x8000"
  have z: "uint ?z < 2 ^ 16" "4 dvd uint ?z" using mask_push [OF BD_shape [of i]] by simp_all
  have d: "sint (PPC_BD i) = uint ?z - 0x8000"
    unfolding PPC_BD_def using z(1) by (subst sint_minus_small) simp_all
  have "4 dvd uint ?z - 0x8000" using z(2) by (intro dvd_diff) simp_all
  moreover have "0 \<le> uint ?z" by simp
  moreover have "uint ?z < 65536" using z(1) by simp
  ultimately show ?thesis unfolding d by simp
qed

lemma sint_PPC_BI: "- (2 ^ 25) \<le> sint (PPC_BI i) \<and> sint (PPC_BI i) < 2 ^ 25 \<and> 4 dvd sint (PPC_BI i)"
proof -
  let ?z = "(i AND 0x3FFFFFC) XOR 0x2000000"
  have z: "uint ?z < 2 ^ 26" "4 dvd uint ?z" using mask_push [OF BI_shape [of i]] by simp_all
  have d: "sint (PPC_BI i) = uint ?z - 0x2000000"
    unfolding PPC_BI_def using z(1) by (subst sint_minus_small) simp_all
  have "4 dvd uint ?z - 0x2000000" using z(2) by (intro dvd_diff) simp_all
  moreover have "0 \<le> uint ?z" by simp
  moreover have "uint ?z < 67108864" using z(1) by simp
  ultimately show ?thesis unfolding d by simp
qed

text \<open>Inside a function, the 32-bit branch target and the 64-bit label address agree.\<close>

lemma branch_target_label:
  fixes addr base sz :: u64 and d t :: u32
  assumes fn: "unat base + unat sz \<le> 2 ^ 32" "unat sz \<le> 2 ^ 31"
    and addr: "base \<le> addr" "unat addr < unat base + unat sz"
    and d: "- (2 ^ 25) \<le> sint d" "sint d < 2 ^ 25"
    and t: "t = ucast addr + d" "unat base \<le> unat t" "unat t < unat base + unat sz"
  shows "(ucast t :: u64) = addr + scast d \<and> int (unat t) = int (unat addr) + sint d"
proof -
  define m where "m = uint addr + sint d"
  have b: "int (unat base) \<le> uint addr" "uint addr < int (unat base) + int (unat sz)"
    using addr unfolding uint_nat word_le_nat_alt by linarith+
  have t': "int (unat base) \<le> uint t" "uint t < int (unat base) + int (unat sz)"
    using t(2,3) unfolding uint_nat by linarith+
  have s: "int (unat base) + int (unat sz) \<le> 4294967296" "int (unat sz) \<le> 2147483648"
  proof -
    have "unat base + unat sz \<le> 4294967296" "unat sz \<le> 2147483648" using fn by simp_all
    then show "int (unat base) + int (unat sz) \<le> 4294967296" "int (unat sz) \<le> 2147483648" by linarith+
  qed
  have "t = word_of_int (uint addr) + word_of_int (sint d)"
    unfolding t(1) by (simp only: of_int_sint ucast_eq scast_id)
  then have "t = word_of_int m" by (simp only: m_def wi_hom_add)
  then have tm: "uint t = m mod 2 ^ 32" by (simp add: unsigned_of_int take_bit_eq_mod)
  have d': "- 33554432 \<le> sint d" "sint d < 33554432" using d by simp_all
  have a0: "0 \<le> uint addr" by simp
  have mr: "- 33554432 \<le> m" "m < 4328521728" using d' b s a0 unfolding m_def by linarith+
  consider "m < 0" | "0 \<le> m" "m < 4294967296" | "4294967296 \<le> m" by linarith
  then have "0 \<le> m \<and> m < 4294967296"
  proof cases
    case 1
    then have "(m + 4294967296) mod 4294967296 = m + 4294967296"
      using mr by (intro mod_pos_pos_trivial) linarith+
    then have "uint t = m + 4294967296" using tm by simp
    then show ?thesis using b t' s d' m_def by linarith
  next
    case 2
    then show ?thesis by simp
  next
    case 3
    then have "(m - 4294967296) mod 4294967296 = m - 4294967296"
      using mr by (intro mod_pos_pos_trivial) linarith+
    moreover have "(m - 4294967296) mod 4294967296 = m mod 4294967296" by simp
    ultimately have "uint t = m - 4294967296" using tm by simp
    then show ?thesis using b t' s d' m_def by linarith
  qed
  then have ut: "uint t = m" using tm by simp
  have "(ucast t :: u64) = word_of_int m" by (simp only: ut [symmetric] ucast_eq)
  also have "\<dots> = word_of_int (uint addr) + word_of_int (sint d)" by (simp only: m_def wi_hom_add)
  also have "\<dots> = addr + scast d" by (simp only: scast_eq word_of_int_uint)
  finally have "(ucast t :: u64) = addr + scast d" .
  moreover have "int (unat t) = int (unat addr) + sint d"
    using ut unfolding m_def uint_nat .
  ultimately show ?thesis by simp
qed

subsection \<open>The addresses of a function\<close>

lemma mem_insn_addrs:
  assumes "unat (fn_base fn) + unat (fn_size fn) \<le> 2 ^ 32"
  shows "a \<in> set (insn_addrs fn) \<longleftrightarrow>
           fn_base fn \<le> a \<and> unat a < unat (fn_base fn) + unat (fn_size fn)
           \<and> 4 dvd unat a - unat (fn_base fn)"
proof -
  let ?B = "unat (fn_base fn)" and ?S = "unat (fn_size fn)"
  have fit: "?B + ?S \<le> 4294967296" using assms by simp
  have le: "fn_base fn \<le> fn_base fn + fn_size fn"
    using fit by (simp add: word_le_nat_alt unat_word_ariths)
  have at: "unat (fn_base fn + of_nat (4 * i)) = ?B + 4 * i" if "i < (?S + 3) div 4" for i
  proof -
    have "?B + 4 * i < 4294967300" using that fit by linarith
    then show ?thesis by (simp add: unat_word_ariths unat_of_nat)
  qed
  show ?thesis
  proof
    assume "a \<in> set (insn_addrs fn)"
    then obtain i where i: "i < (?S + 3) div 4" "a = fn_base fn + of_nat (4 * i)"
      using le by (auto simp: insn_addrs_def)
    then have "unat a = ?B + 4 * i" using at by simp
    moreover have "4 * i < ?S" using i(1) by linarith
    ultimately show "fn_base fn \<le> a \<and> unat a < ?B + ?S \<and> 4 dvd unat a - ?B"
      by (simp add: word_le_nat_alt)
  next
    assume r: "fn_base fn \<le> a \<and> unat a < ?B + ?S \<and> 4 dvd unat a - ?B"
    then obtain i where i: "unat a - ?B = 4 * i" by (auto elim: dvdE)
    have "?B \<le> unat a" using r by (simp add: word_le_nat_alt)
    then have ua: "unat a = ?B + 4 * i" using i by linarith
    have "i < (?S + 3) div 4" using ua r by linarith
    moreover have "a = fn_base fn + of_nat (4 * i)"
      using ua at [OF \<open>i < (?S + 3) div 4\<close>] by (simp only: word_unat_eq_iff)
    ultimately show "a \<in> set (insn_addrs fn)"
      using le by (auto simp: insn_addrs_def)
  qed
qed

subsection \<open>The jumps an instruction prints\<close>

text \<open>
  The operand that holds the target of a branch instruction, and whether the branch is the
  unconditional form.
\<close>

fun branch_target :: "ppc_inst \<Rightarrow> (nat \<times> bool) option" where
  "branch_target (Inst_jump i) =
     (if i = PPC_INST_B then Some (0, True)
      else if i = PPC_INST_BDZ \<or> i = PPC_INST_BDNZ then Some (0, False)
      else if i = PPC_INST_BDNZF \<or> i = PPC_INST_BDNZT \<or> i = PPC_INST_BDZF then Some (1, False)
      else None)"
| "branch_target (Inst_cond i) =
     (if i \<in> {PPC_INST_BEQ, PPC_INST_BGE, PPC_INST_BGT, PPC_INST_BLE, PPC_INST_BLT, PPC_INST_BNE}
      then Some (1, False) else None)"
| "branch_target _ = None"

lemma call_lines_no_jump [simp]:
  "block_gotos (call_lines x a) = {}" "block_labels (call_lines x a) = {}"
  by (auto simp: call_lines_def split: option.splits)

lemma block_gotos_IfCall_call [simp]: "\<forall>s \<in> set (call_lines x a). stmt_gotos s = {}"
  using call_lines_no_jump(1) [of x a] by (simp add: block_gotos_def)

lemma cond_branch_to_gotos:
  "block_gotos (cond_branch_to x t c) = (if outside x t then {} else {t})"
  "block_labels (cond_branch_to x t c) = {}"
  by (auto simp: cond_branch_to_def)

lemma set_flush_mode_simps [simp]:
  "block_gotos (out (set_flush_mode b st)) = block_gotos (out st)"
  "block_labels (out (set_flush_mode b st)) = block_labels (out st)"
  "pending (set_flush_mode b st) = pending st"
  by (simp_all add: set_flush_mode_def)

lemma plain_step_gotos:
  assumes "plain_step st st1"
  shows "block_gotos (out st1) = block_gotos (out st) \<and> block_labels (out st1) = block_labels (out st)
         \<and> pending st1 = pending st"
  using assms by (rule plain_step_cases) (auto simp: plain_gotos plain_labels)

lemma recomp_jump_gotos:
  "t \<in> block_gotos (out (recomp_jump x i st)) \<Longrightarrow>
     t \<in> block_gotos (out st)
     \<or> (\<not> outside x t \<and> (\<exists>k u. branch_target (Inst_jump i) = Some (k, u) \<and> t = opnd x k))
     \<or> (\<not> outside x t \<and> (\<exists>tb. pending st = Some tb \<and> t \<in> set (st_labels tb)))"
  by (cases i) (auto simp: cond_branch_to_gotos switch_cases_def split: option.splits if_splits)

lemma recomp_jump_labels:
  "block_labels (out (recomp_jump x i st)) = block_labels (out st)"
  by (cases i) (auto simp: cond_branch_to_gotos split: option.splits)

lemma recomp_jump_pending:
  "pending (recomp_jump x i st) = pending st \<or> pending (recomp_jump x i st) = None"
  by (cases i) (auto split: option.splits)

lemma recomp_cond_gotos:
  "t \<in> block_gotos (out (recomp_cond x i st)) \<Longrightarrow>
     t \<in> block_gotos (out st)
     \<or> (\<not> outside x t \<and> (\<exists>k u. branch_target (Inst_cond i) = Some (k, u) \<and> t = opnd x k))"
  by (cases i) (auto simp: cond_branch_def cond_branch_to_gotos split: if_splits)

lemma recomp_cond_labels:
  "block_labels (out (recomp_cond x i st)) = block_labels (out st)"
  by (cases i) (auto simp: cond_branch_def cond_branch_to_gotos)

lemma recomp_cond_pending: "pending (recomp_cond x i st) = pending st"
  by (cases i) auto

lemma fix_id_branch: "branch_target (fix_id x i) = branch_target i"
  by (auto simp: fix_id_def)

lemma recomp_switch_gotos:
  assumes "recomp_switch x i st = Some st1" "t \<in> block_gotos (out st1)"
  shows "t \<in> block_gotos (out st)
     \<or> (\<not> outside x t \<and> (\<exists>k u. branch_target i = Some (k, u) \<and> t = opnd x k))
     \<or> (\<not> outside x t \<and> (\<exists>tb. pending st = Some tb \<and> t \<in> set (st_labels tb)))"
proof -
  consider (jump) j where "i = Inst_jump j" | (cond) j where "i = Inst_cond j"
    | (other) "\<forall>j. i \<noteq> Inst_jump j" "\<forall>j. i \<noteq> Inst_cond j" by blast
  then show ?thesis
  proof cases
    case jump
    then have "t \<in> block_gotos (out (recomp_jump x j st))" using assms by simp
    from recomp_jump_gotos [OF this] show ?thesis using jump by blast
  next
    case cond
    then have "t \<in> block_gotos (out (recomp_cond x j st))" using assms by simp
    from recomp_cond_gotos [OF this] show ?thesis using cond by blast
  next
    case other
    then show ?thesis using assms plain_step_gotos [OF recomp_switch_plain] by blast
  qed
qed

lemma recomp_switch_labels:
  assumes "recomp_switch x i st = Some st1"
  shows "block_labels (out st1) = block_labels (out st)
         \<and> (pending st1 = pending st \<or> pending st1 = None)"
proof -
  consider (jump) j where "i = Inst_jump j" | (cond) j where "i = Inst_cond j"
    | (other) "\<forall>j. i \<noteq> Inst_jump j" "\<forall>j. i \<noteq> Inst_cond j" by blast
  then show ?thesis
  proof cases
    case jump
    then show ?thesis using assms recomp_jump_labels [of x j st] recomp_jump_pending [of x j st] by auto
  next
    case cond
    then show ?thesis using assms recomp_cond_labels [of x j st] recomp_cond_pending [of x j st] by auto
  next
    case other
    then show ?thesis using assms plain_step_gotos [OF recomp_switch_plain] by blast
  qed
qed

text \<open>The targets of a hook.\<close>

definition hook_targets :: "rin \<Rightarrow> u32 set" where
  "hook_targets x =
     (case midAsmHooks (cfg x) (pc x) of
        Some h \<Rightarrow> {mh_jumpAddress h, mh_jumpAddressOnTrue h, mh_jumpAddressOnFalse h} - {0}
      | None \<Rightarrow> {})"

lemma hook_at_gotos:
  "block_gotos (out (hook_at x b st)) \<subseteq> block_gotos (out st) \<union> hook_targets x"
  by (auto simp: hook_at_def print_hook_def hook_targets_def hook_exit_def Let_def
        split: option.splits if_splits)

lemma hook_at_labels [simp]:
  "block_labels (out (hook_at x b st)) = block_labels (out st)"
  "pending (hook_at x b st) = pending st"
  by (auto simp: hook_at_def print_hook_def hook_exit_def Let_def split: option.splits)

lemma check_rc_simps [simp]:
  "out (check_rc x st) = out st" "locs (check_rc x st) = locs st" "csr (check_rc x st) = csr st"
  "pending (check_rc x st) = pending st"
  by (simp_all add: check_rc_def)

lemma recompile_insn_gotos:
  assumes "t \<in> block_gotos (out (snd (recompile_insn x i st)))"
  shows "t \<in> block_gotos (out st) \<or> t \<in> hook_targets x
     \<or> (\<not> outside x t \<and> (\<exists>k u. branch_target i = Some (k, u) \<and> t = opnd x k))
     \<or> (\<not> outside x t \<and> (\<exists>tb. pending st = Some tb \<and> t \<in> set (st_labels tb)))"
proof -
  let ?st0 = "emit [Txt 1 ''// {} {}'' [TS (opname x), TS (op_str x)]] st"
  let ?st1 = "hook_at x False ?st0"
  have h1: "block_gotos (out ?st1) \<subseteq> block_gotos (out st) \<union> hook_targets x"
    using hook_at_gotos [of x False ?st0] by simp
  show ?thesis
  proof (cases "recomp_switch x (fix_id x i) ?st1")
    case None
    then show ?thesis using assms h1 by (auto simp: recompile_insn_def Let_def)
  next
    case (Some st2)
    then have "t \<in> block_gotos (out st2) \<union> hook_targets x"
      using assms hook_at_gotos [of x True "check_rc x st2"] by (auto simp: recompile_insn_def Let_def)
    then show ?thesis
      using recomp_switch_gotos [OF Some, of t] h1 by (auto simp: fix_id_branch)
  qed
qed

lemma recompile_insn_labels:
  "block_labels (out (snd (recompile_insn x i st))) = block_labels (out st)
   \<and> (pending (snd (recompile_insn x i st)) = pending st
      \<or> pending (snd (recompile_insn x i st)) = None)"
proof -
  let ?st1 = "hook_at x False (emit [Txt 1 ''// {} {}'' [TS (opname x), TS (op_str x)]] st)"
  show ?thesis
    using recomp_switch_labels [of x "fix_id x i" ?st1]
    by (cases "recomp_switch x (fix_id x i) ?st1") (auto simp: recompile_insn_def Let_def)
qed

end
