(* ===== verification/FunctionProps.thy ===== *)
theory FunctionProps
  imports Labels
begin

text \<open>
  Properties of the text of one generated function: every jump has its label, every local
  register it names is declared, and the tracked flush mode is the mode of the host.
\<close>

unbundle bit_operations_syntax

lemma unat_ucast_32_64 [simp]: "unat (ucast (t :: u32) :: u64) = unat t"
proof -
  have "unat t < 2 ^ LENGTH(32)" by (rule unsigned_less)
  then show ?thesis by (simp add: unsigned_ucast_eq take_bit_nat_eq_self)
qed

subsection \<open>Every jump has its label\<close>

text \<open>
  What the label pass relies on in the disassembler: a decoded branch has the major opcode of
  its form, and its target operand is the address plus the sign-extended displacement of the
  instruction word. Absolute and linking forms have opcode identifiers of their own.
\<close>

definition branch_decoded :: "renv \<Rightarrow> u64 \<Rightarrow> bool" where
  "branch_decoded e addr =
     (case pi_opcode (decoded_at e addr) of
        None \<Rightarrow> True
      | Some (name, i) \<Rightarrow>
          (case branch_target i of
             None \<Rightarrow> True
           | Some (k, uncond) \<Rightarrow>
               if uncond
               then PPC_OP (insn_at e addr) = PPC_OP_B \<and> \<not> PPC_BL (insn_at e addr)
                    \<and> pi_operands (decoded_at e addr) k = ucast addr + PPC_BI (insn_at e addr)
               else PPC_OP (insn_at e addr) = PPC_OP_BC
                    \<and> pi_operands (decoded_at e addr) k = ucast addr + PPC_BD (insn_at e addr)))"

text \<open>
  What it relies on in the configuration: a hook jumps to instructions of its function, and so
  does a switch table wherever its target lies inside the function.
\<close>

definition targets_placed :: "renv \<Rightarrow> FunctionRange \<Rightarrow> u64 \<Rightarrow> bool" where
  "targets_placed e fn addr =
     ((\<forall>l \<in> set (switch_labels (re_cfg e) addr).
         fn_base fn \<le> l \<and> l < fn_base fn + fn_size fn \<longrightarrow> l \<in> set (insn_addrs fn))
      \<and> (\<forall>l \<in> set (hook_labels (re_cfg e) addr). l \<in> set (insn_addrs fn)))"

definition fits_32 :: "FunctionRange \<Rightarrow> bool" where
  "fits_32 fn = (unat (fn_base fn) + unat (fn_size fn) \<le> 2 ^ 32 \<and> unat (fn_size fn) \<le> 2 ^ 31)"

text \<open>The invariant of the loop over the instructions, after the addresses \<open>as\<close>.\<close>

definition labels_inv :: "renv \<Rightarrow> FunctionRange \<Rightarrow> u64 set \<Rightarrow> estate \<Rightarrow> bool" where
  "labels_inv e fn as st =
     ((\<forall>t \<in> block_gotos (out st). ucast t \<in> function_labels e fn \<inter> set (insn_addrs fn))
      \<and> function_labels e fn \<inter> as \<subseteq> block_labels (out st)
      \<and> (\<forall>tb. pending st = Some tb \<longrightarrow>
           (\<exists>a \<in> set (insn_addrs fn). switchTables (re_cfg e) (ucast a) = Some tb)))"

lemma fits_end:
  assumes "fits_32 fn"
  shows "unat (fn_base fn + fn_size fn) = unat (fn_base fn) + unat (fn_size fn)"
  using assms by (simp add: fits_32_def unat_word_ariths)

lemma outside_iff:
  assumes "fits_32 (fnc x)"
  shows "\<not> outside x t \<longleftrightarrow>
           unat (fn_base (fnc x)) \<le> unat t
           \<and> unat t < unat (fn_base (fnc x)) + unat (fn_size (fnc x))"
  unfolding outside_def
  by (simp add: word_le_nat_alt word_less_nat_alt fits_end [OF assms] not_less not_le)

lemma insn_addr_range:
  assumes "fits_32 fn" "a \<in> set (insn_addrs fn)"
  shows "fn_base fn \<le> a" "unat a < unat (fn_base fn) + unat (fn_size fn)"
    "4 dvd unat a - unat (fn_base fn)"
  using assms mem_insn_addrs [of fn a] by (simp_all add: fits_32_def)

text \<open>A branch target inside the function is an instruction address and a collected label.\<close>

lemma branch_target_placed:
  assumes fn: "fits_32 fn" and a: "a \<in> set (insn_addrs fn)" and dec: "branch_decoded e a"
    and op: "pi_opcode (decoded_at e a) = Some (name, i)"
    and tgt: "branch_target i = Some (k, u)" "t = pi_operands (decoded_at e a) k"
    and ins: "unat (fn_base fn) \<le> unat t" "unat t < unat (fn_base fn) + unat (fn_size fn)"
  shows "ucast t \<in> function_labels e fn \<inter> set (insn_addrs fn)"
proof -
  define d where "d = (if u then PPC_BI (insn_at e a) else PPC_BD (insn_at e a))"
  have t: "t = ucast a + d" and lab: "a + scast d \<in> set (branch_labels (insn_at e a) a)"
    using dec op tgt by (auto simp: branch_decoded_def d_def branch_labels_def PPC_OP_B_def PPC_OP_BC_def)
  have d: "- (2 ^ 25) \<le> sint d" "sint d < 2 ^ 25" "4 dvd sint d"
    using sint_PPC_BD [of "insn_at e a"] sint_PPC_BI [of "insn_at e a"] by (auto simp: d_def)
  note rng = insn_addr_range [OF fn a]
  have tl: "(ucast t :: u64) = a + scast d" "int (unat t) = int (unat a) + sint d"
    using branch_target_label [OF _ _ rng(1,2) d(1,2) t ins] fn by (simp_all add: fits_32_def)
  have "ucast t \<in> function_labels e fn"
    using a lab tl(1) by (auto simp: function_labels_def)
  moreover have "4 dvd unat t - unat (fn_base fn)"
  proof -
    have ge: "unat (fn_base fn) \<le> unat a" using rng(1) by (simp add: word_le_nat_alt)
    then have "int (unat t - unat (fn_base fn)) = int (unat a - unat (fn_base fn)) + sint d"
      using tl(2) ins(1) by linarith
    moreover have "4 dvd int (unat a - unat (fn_base fn))"
      using rng(3) int_dvd_int_iff [of 4] by simp
    ultimately have "4 dvd int (unat t - unat (fn_base fn))" using d(3) dvd_add by metis
    then show ?thesis using int_dvd_int_iff [of 4] by simp
  qed
  moreover have "fn_base fn \<le> ucast t" using ins(1) by (simp add: word_le_nat_alt)
  ultimately show ?thesis
    using ins fn mem_insn_addrs [of fn "ucast t"] by (simp add: fits_32_def)
qed

lemma hook_targets_placed:
  assumes "t \<in> hook_targets (insn_input e fn a name)" "targets_placed e fn a" "a \<in> set (insn_addrs fn)"
  shows "ucast t \<in> function_labels e fn \<inter> set (insn_addrs fn)"
proof -
  have "ucast t \<in> set (hook_labels (re_cfg e) a)"
    using assms(1) by (auto simp: hook_targets_def hook_labels_def insn_input_def split: option.splits)
  then show ?thesis using assms(2,3) by (auto simp: targets_placed_def function_labels_def)
qed

lemma switch_target_placed:
  assumes "fits_32 fn" "a \<in> set (insn_addrs fn)" "targets_placed e fn a"
    "switchTables (re_cfg e) (ucast a) = Some tb" "t \<in> set (st_labels tb)"
    "unat (fn_base fn) \<le> unat t" "unat t < unat (fn_base fn) + unat (fn_size fn)"
  shows "ucast t \<in> function_labels e fn \<inter> set (insn_addrs fn)"
proof -
  have l: "ucast t \<in> set (switch_labels (re_cfg e) a)"
    using assms(4,5) by (simp add: switch_labels_def)
  moreover have "fn_base fn \<le> ucast t" "ucast t < fn_base fn + fn_size fn"
    using assms(6,7) fits_end [OF assms(1)] by (simp_all add: word_le_nat_alt word_less_nat_alt)
  ultimately have "ucast t \<in> set (insn_addrs fn)" using assms(3) by (auto simp: targets_placed_def)
  then show ?thesis using l assms(2) by (auto simp: function_labels_def)
qed

lemma labels_inv_insn:
  assumes inv: "labels_inv e fn as st" and fn: "fits_32 fn" and a: "a \<in> set (insn_addrs fn)"
    and dec: "branch_decoded e a" and tp: "\<forall>b \<in> set (insn_addrs fn). targets_placed e fn b"
    and op: "pi_opcode (decoded_at e a) = Some (name, i)"
  shows "labels_inv e fn as (snd (recompile_insn (insn_input e fn a name) i st))"
proof -
  let ?x = "insn_input e fn a name"
  let ?st' = "snd (recompile_insn ?x i st)"
  have x: "fnc ?x = fn" "opnd ?x = pi_operands (decoded_at e a)" by (simp_all add: insn_input_def)
  have ins: "unat (fn_base fn) \<le> unat t \<and> unat t < unat (fn_base fn) + unat (fn_size fn)"
    if "\<not> outside ?x t" for t
    using that outside_iff [of ?x t] fn x(1) by simp
  have "ucast t \<in> function_labels e fn \<inter> set (insn_addrs fn)" if t: "t \<in> block_gotos (out ?st')" for t
    using recompile_insn_gotos [OF t]
  proof (elim disjE exE conjE)
    assume "t \<in> block_gotos (out st)"
    then show ?thesis using inv by (auto simp: labels_inv_def)
  next
    assume "t \<in> hook_targets ?x"
    then show ?thesis using hook_targets_placed tp a by blast
  next
    fix k u
    assume "\<not> outside ?x t" "branch_target i = Some (k, u)" "t = opnd ?x k"
    then show ?thesis using branch_target_placed [OF fn a dec op] ins x(2) by simp
  next
    fix tb
    assume o: "\<not> outside ?x t" and tb: "pending st = Some tb" "t \<in> set (st_labels tb)"
    then obtain b where "b \<in> set (insn_addrs fn)" "switchTables (re_cfg e) (ucast b) = Some tb"
      using inv by (auto simp: labels_inv_def)
    then show ?thesis using switch_target_placed [OF fn] tp tb(2) ins [OF o] by blast
  qed
  then show ?thesis
    using inv recompile_insn_labels [of ?x i st] by (auto simp: labels_inv_def)
qed

lemma labels_inv_find_table:
  assumes "labels_inv e fn as st" "a \<in> set (insn_addrs fn)"
  shows "labels_inv e fn as (find_table e a st)"
  using assms unfolding labels_inv_def find_table_def by auto

lemma labels_inv_place:
  assumes "labels_inv e fn as st"
  shows "labels_inv e fn (insert a as) (place_label (function_labels e fn) a st)"
  using assms by (auto simp: labels_inv_def place_label_def)

lemma labels_inv_report [simp]:
  "labels_inv e fn as (report m st) = labels_inv e fn as st"
  by (simp add: labels_inv_def)

lemma labels_inv_missing [simp]:
  "labels_inv e fn as (missing_table e a i st) = labels_inv e fn as st"
  by (simp add: missing_table_def)

lemma labels_inv_step:
  assumes inv: "labels_inv e fn as (snd s)" and fn: "fits_32 fn" and a: "a \<in> set (insn_addrs fn)"
    and dec: "branch_decoded e a" and tp: "\<forall>b \<in> set (insn_addrs fn). targets_placed e fn b"
  shows "labels_inv e fn (insert a as) (snd (recompile_at e fn (function_labels e fn) a s))"
proof -
  have i1: "labels_inv e fn (insert a as)
              (find_table e a (place_label (function_labels e fn) a (snd s)))"
    using labels_inv_find_table [OF labels_inv_place [OF inv]] a by simp
  show ?thesis
  proof (cases "pi_opcode (decoded_at e a)")
    case None
    then show ?thesis using i1 by (auto simp: recompile_at_def Let_def labels_inv_def)
  next
    case (Some ni)
    then show ?thesis
      using labels_inv_insn [OF _ fn a dec tp, of "insert a as"] i1
      by (cases ni) (auto simp: recompile_at_def Let_def)
  qed
qed

lemma labels_inv_fold:
  assumes "labels_inv e fn as (snd s)" "fits_32 fn" "set addrs \<subseteq> set (insn_addrs fn)"
    "\<forall>b \<in> set (insn_addrs fn). branch_decoded e b"
    "\<forall>b \<in> set (insn_addrs fn). targets_placed e fn b"
  shows "labels_inv e fn (as \<union> set addrs)
           (snd (fold (recompile_at e fn (function_labels e fn)) addrs s))"
  using assms
proof (induction addrs arbitrary: as s)
  case Nil
  then show ?case by simp
next
  case (Cons a addrs)
  have "labels_inv e fn (insert a as) (snd (recompile_at e fn (function_labels e fn) a s))"
    using Cons.prems by (intro labels_inv_step) auto
  from Cons.IH [OF this] Cons.prems show ?case by simp
qed

text \<open>
  C1. Every label that a generated function jumps to is defined in that function, for every
  function of at most 2 GB inside the 32-bit address space, given that the disassembler
  decodes branches as documented and the configured jump targets are instructions of the
  function.
\<close>

theorem recompile_body_labels_complete:
  assumes "fits_32 fn" "\<forall>a \<in> set (insn_addrs fn). branch_decoded e a"
    "\<forall>a \<in> set (insn_addrs fn). targets_placed e fn a"
    "t \<in> block_gotos (out (snd (recompile_body e fn)))"
  shows "ucast t \<in> block_labels (out (snd (recompile_body e fn)))"
proof -
  have "labels_inv e fn {} (snd (True, estate0))"
    by (simp add: labels_inv_def estate0_def)
  then have "labels_inv e fn (set (insn_addrs fn)) (snd (recompile_body e fn))"
    using labels_inv_fold [of e fn "{}" "(True, estate0)" "insn_addrs fn"] assms(1-3)
    by (simp add: recompile_body_def)
  then show ?thesis using assms(4) by (auto simp: labels_inv_def)
qed

subsection \<open>Every local register is declared\<close>

lemma emit_locals:
  "locs st = block_locals (out st) \<Longrightarrow> locs (emit ss st) = block_locals (out (emit ss st))"
  by simp

definition locals_ok :: "estate \<Rightarrow> bool" where
  "locals_ok st = (locs st = block_locals (out st))"

lemma locals_ok_emit [simp]: "locals_ok st \<Longrightarrow> locals_ok (emit ss st)"
  by (simp add: locals_ok_def)

lemma locals_ok_updates [simp]:
  "locals_ok (st\<lparr>csr := c\<rparr>) = locals_ok st"
  "locals_ok (st\<lparr>pending := p\<rparr>) = locals_ok st"
  "locals_ok (st\<lparr>pending := p, diag := d\<rparr>) = locals_ok st"
  "locals_ok (st\<lparr>diag := d\<rparr>) = locals_ok st"
  "locals_ok (report m st) = locals_ok st"
  "locals_ok (check_rc x st) = locals_ok st"
  by (simp_all add: locals_ok_def)

lemma locals_ok_plain_step:
  assumes "plain_step st st1" "locals_ok st" shows "locals_ok st1"
  using assms(1) by (rule plain_step_cases) (use assms(2) in \<open>auto simp: locals_ok_def\<close>)

lemma locals_ok_jump: "locals_ok st \<Longrightarrow> locals_ok (recomp_jump x i st)"
  by (cases i) (auto split: option.splits)

lemma locals_ok_cond: "locals_ok st \<Longrightarrow> locals_ok (recomp_cond x i st)"
  by (cases i) auto

lemma locals_ok_switch:
  assumes "recomp_switch x i st = Some st1" "locals_ok st"
  shows "locals_ok st1"
proof -
  consider (jump) j where "i = Inst_jump j" | (cond) j where "i = Inst_cond j"
    | (other) "\<forall>j. i \<noteq> Inst_jump j" "\<forall>j. i \<noteq> Inst_cond j" by blast
  then show ?thesis
    using assms locals_ok_jump locals_ok_cond locals_ok_plain_step [OF recomp_switch_plain]
    by cases auto
qed

lemma locals_ok_hook [simp]: "locals_ok st \<Longrightarrow> locals_ok (hook_at x b st)"
  by (simp add: hook_at_def print_hook_def Let_def split: option.splits)

lemma locals_ok_insn: "locals_ok st \<Longrightarrow> locals_ok (snd (recompile_insn x i st))"
  using locals_ok_switch by (auto simp: recompile_insn_def Let_def split: option.splits)

lemma locals_ok_at:
  assumes "locals_ok (snd s)"
  shows "locals_ok (snd (recompile_at e fn ls a s))"
proof -
  have "locals_ok (find_table e a (place_label ls a (snd s)))"
    using assms by (simp add: find_table_def place_label_def)
  then show ?thesis
    using locals_ok_insn
    by (auto simp: recompile_at_def missing_table_def Let_def split: option.splits)
qed

lemma locals_ok_fold:
  "locals_ok (snd s) \<Longrightarrow> locals_ok (snd (fold (recompile_at e fn ls) as s))"
  by (induction as arbitrary: s) (simp_all add: locals_ok_at)


subsection \<open>The tracked flush mode\<close>

text \<open>
  The effect of a line on the flush mode of the host (\<open>Some True\<close>: denormals are flushed;
  \<open>None\<close>: control does not get here). A label may be reached in any mode; a call and a hook
  may leave any mode; a conditional call ends in \<open>return\<close>, so what follows it is reached only
  when nothing was called.
\<close>

fun havoc :: "cstmt \<Rightarrow> bool" where
  "havoc (CallSub f) = True"
| "havoc (CallInd e) = True"
| "havoc (HookCall s as) = True"
| "havoc (HookIf s as ss ts) = True"
| "havoc _ = False"

fun leaves :: "cstmt \<Rightarrow> bool" where
  "leaves (Goto a) = True"
| "leaves Return = True"
| "leaves (Switch e cs) = True"
| "leaves _ = False"

fun mode_next :: "cstmt \<Rightarrow> bool option \<Rightarrow> bool option set" where
  "mode_next (Label a) m = {Some True, Some False}"
| "mode_next s None = {None}"
| "mode_next (Flush en u) (Some m) = {Some en}"
| "mode_next s (Some m) = (if havoc s then {Some True, Some False} else if leaves s then {None} else {Some m})"

inductive mode_run :: "bool option \<Rightarrow> cstmt list \<Rightarrow> bool option \<Rightarrow> bool" where
  mode_nil: "mode_run m [] m"
| mode_cons: "m1 \<in> mode_next s m \<Longrightarrow> mode_run m1 ss m' \<Longrightarrow> mode_run m (s # ss) m'"

inductive_simps mode_run_Nil [simp]: "mode_run m [] m'"
inductive_simps mode_run_Cons [simp]: "mode_run m (s # ss) m'"

lemma mode_run_append:
  "mode_run m (ss @ ts) m' \<longleftrightarrow> (\<exists>m1. mode_run m ss m1 \<and> mode_run m1 ts m')"
  by (induction ss arbitrary: m) auto

text \<open>The modes reached, computed.\<close>

fun mode_after :: "cstmt list \<Rightarrow> bool option \<Rightarrow> bool option set" where
  "mode_after [] m = {m}"
| "mode_after (s # ss) m = \<Union> (mode_after ss ` mode_next s m)"

lemma mode_run_exec [code]: "mode_run m ss m' \<longleftrightarrow> m' \<in> mode_after ss m"
  by (induction ss arbitrary: m) auto

text \<open>Lines that keep the mode.\<close>

definition keeps :: "cstmt \<Rightarrow> bool" where
  "keeps s = (\<forall>m. mode_next s m = {m})"

lemma mode_run_keep: "mode_run m ss m' \<Longrightarrow> \<forall>s \<in> set ss. keeps s \<Longrightarrow> m' = m"
  by (induction rule: mode_run.induct) (auto simp: keeps_def)

lemma keepsI: "(\<And>m. mode_next s (Some m) = {Some m}) \<Longrightarrow> mode_next s None = {None} \<Longrightarrow> keeps s"
  unfolding keeps_def using not_None_eq by metis

lemma plain_keep: "list_all plain ss \<Longrightarrow> \<forall>s \<in> set ss. keeps s"
proof
  fix s assume "list_all plain ss" "s \<in> set ss"
  then have "plain s" by (simp add: list_all_iff)
  then show "keeps s" by (cases s) (auto intro: keepsI)
qed

lemma branch_keep [simp]:
  "keeps (IfGoto c a)" "keeps (IfRet c)" "keeps (IfCall c ss)" "keeps (Decr e)" "keeps (Txt n s as)"
  by (auto intro: keepsI)

lemma cond_branch_to_keep [simp]: "s \<in> set (cond_branch_to x t c) \<Longrightarrow> keeps s"
  by (auto simp: cond_branch_to_def split: if_splits)

text \<open>The tracked state never claims a mode the host is not in.\<close>

definition csr_ok :: "CSRState \<Rightarrow> bool option \<Rightarrow> bool" where
  "csr_ok c m = ((c = CSR_VMX \<longrightarrow> m \<noteq> Some False) \<and> (c = CSR_FPU \<longrightarrow> m \<noteq> Some True))"

lemma csr_ok_simps [simp]: "csr_ok CSR_Unknown m" "csr_ok c None"
  by (simp_all add: csr_ok_def)

text \<open>\<open>mode_safe st\<close>: however the lines printed so far run, the tracked state is right.\<close>

definition mode_safe :: "estate \<Rightarrow> bool" where
  "mode_safe st = (\<forall>m m'. mode_run m (out st) m' \<longrightarrow> csr_ok (csr st) m')"

lemma mode_safe_unknown: "csr st = CSR_Unknown \<Longrightarrow> mode_safe st"
  by (simp add: mode_safe_def)

lemma mode_safe_emit:
  assumes "mode_safe st" "\<forall>s \<in> set ss. keeps s"
  shows "mode_safe (emit ss st)"
  unfolding mode_safe_def
proof (intro allI impI)
  fix m m' assume "mode_run m (out (emit ss st)) m'"
  then obtain m1 where "mode_run m (out st) m1" "mode_run m1 ss m'" by (auto simp: mode_run_append)
  then show "csr_ok (csr (emit ss st)) m'"
    using assms mode_run_keep [of m1 ss m'] by (simp add: mode_safe_def)
qed

lemma mode_next_leaves: "leaves s \<Longrightarrow> mode_next s m = {None}"
  by (cases m; cases s) auto

lemma mode_next_flush: "m1 \<in> mode_next (Flush en u) m \<Longrightarrow> m1 \<in> {None, Some en}"
  by (cases m) auto

lemma mode_run_leaves: "leaves s \<Longrightarrow> mode_run m (ss @ [s]) m' \<Longrightarrow> m' = None"
  by (auto simp: mode_run_append mode_next_leaves)

lemma mode_safe_leaves: "leaves s \<Longrightarrow> mode_safe (emit (ss @ [s]) st)"
  using mode_run_leaves [of s _ "out st @ ss"] by (fastforce simp: mode_safe_def)

lemma mode_safe_same:
  "mode_safe st \<Longrightarrow> out st1 = out st \<Longrightarrow> csr st1 = csr st \<Longrightarrow> mode_safe st1"
  by (simp add: mode_safe_def)

lemma mode_safe_simps [simp]:
  "mode_safe (report msg st) = mode_safe st" "mode_safe (check_rc x st) = mode_safe st"
  "mode_safe (missing_table e a i st) = mode_safe st" "mode_safe (find_table e a st) = mode_safe st"
  by (simp_all add: mode_safe_def missing_table_def find_table_def)

lemma mode_safe_plain_step:
  assumes "plain_step st st1" "mode_safe st" shows "mode_safe st1"
  using assms(1)
proof (rule plain_step_cases)
  fix fs ss
  assume ss: "list_all plain ss" "out st1 = out st @ fs @ ss"
    and f: "(fs = [] \<and> csr st1 = csr st) \<or>
     (\<exists>en. fs = [Flush en (csr st \<noteq> CSR_Unknown)] \<and> csr st1 = (if en then CSR_VMX else CSR_FPU))"
  note keep = mode_run_keep [OF _ plain_keep [OF ss(1)]]
  from f show ?thesis
  proof (elim disjE conjE exE)
    assume "fs = []" "csr st1 = csr st"
    then show ?thesis using assms(2) keep ss(2) by (auto simp: mode_safe_def mode_run_append)
  next
    fix en
    assume fs: "fs = [Flush en (csr st \<noteq> CSR_Unknown)]" "csr st1 = (if en then CSR_VMX else CSR_FPU)"
    have "m' \<in> {None, Some en}" if "mode_run m (out st1) m'" for m m'
      using that keep unfolding ss(2) fs(1) by (auto simp: mode_run_append dest!: mode_next_flush)
    then show ?thesis using fs(2) by (fastforce simp: mode_safe_def csr_ok_def)
  qed
qed

lemma mode_safe_jump:
  assumes "mode_safe st"
  shows "mode_safe (recomp_jump x i st)"
proof -
  have 1: "mode_safe (emit (call_lines x a @ [Return]) st)" "mode_safe (emit [Goto a] st)"
    "mode_safe (emit [CallInd e, Return] st)" for a e
    using mode_safe_leaves [of Return "call_lines x a" st] mode_safe_leaves [of "Goto a" "[]" st]
      mode_safe_leaves [of Return "[CallInd e]" st] by simp_all
  have 2: "mode_safe ((emit [Switch e cs] st)\<lparr>pending := None, diag := d\<rparr>)" for e cs d
    using mode_safe_leaves [of "Switch e cs" "[]" st] by (auto intro: mode_safe_same)
  show ?thesis
    using assms 1 2
    by (cases i) (auto intro!: mode_safe_emit simp: mode_safe_unknown split: option.splits)
qed

lemma mode_safe_cond:
  assumes "mode_safe st"
  shows "mode_safe (recomp_cond x i st)"
  using assms mode_safe_leaves [of Return "[]" st]
  by (cases i) (auto intro!: mode_safe_emit simp: mode_safe_unknown cond_branch_def)

text \<open>
  The instructions whose result depends on the flush mode: the scalar floating-point unit
  keeps denormals, the vector floating-point unit flushes them.
\<close>

fun wants_mode :: "ppc_inst \<Rightarrow> bool option" where
  "wants_mode (Inst_float i) = Some False"
| "wants_mode (Inst_load i) =
     (if i \<in> {PPC_INST_LFD, PPC_INST_LFDU, PPC_INST_LFDX, PPC_INST_LFS, PPC_INST_LFSU,
              PPC_INST_LFSUX, PPC_INST_LFSX} then Some False else None)"
| "wants_mode (Inst_store i) =
     (if i \<in> {PPC_INST_STFD, PPC_INST_STFDU, PPC_INST_STFDX, PPC_INST_STFIWX, PPC_INST_STFS,
              PPC_INST_STFSU, PPC_INST_STFSUX, PPC_INST_STFSX} then Some False else None)"
| "wants_mode (Inst_vadd i) =
     (if i \<in> {PPC_INST_VADDFP, PPC_INST_VADDFP128, PPC_INST_VCTSXS, PPC_INST_VCFPSXWS128,
              PPC_INST_VCFSX, PPC_INST_VCSXWFP128, PPC_INST_VCTUXS, PPC_INST_VCFPUXWS128,
              PPC_INST_VCFUX, PPC_INST_VCUXWFP128} then Some True else None)"
| "wants_mode (Inst_vcmp i) =
     (if i \<in> {PPC_INST_VCMPEQUB, PPC_INST_VCMPEQUH, PPC_INST_VCMPEQUW, PPC_INST_VCMPEQUW128,
              PPC_INST_VCMPGTUB, PPC_INST_VCMPGTUH, PPC_INST_VCMPGTSH, PPC_INST_VCMPGTSW}
      then None else Some True)"
| "wants_mode (Inst_vmax i) =
     (if i \<in> {PPC_INST_VMAXFP, PPC_INST_VMAXFP128, PPC_INST_VMINFP, PPC_INST_VMINFP128,
              PPC_INST_VMSUM3FP128, PPC_INST_VMSUM4FP128, PPC_INST_VMULFP128,
              PPC_INST_VNMSUBFP, PPC_INST_VNMSUBFP128} then Some True else None)"
| "wants_mode (Inst_vpk i) = (if i = PPC_INST_VPKD3D128 then Some True else None)"
| "wants_mode (Inst_vround i) =
     (if i \<in> {PPC_INST_VREFP, PPC_INST_VREFP128, PPC_INST_VRFIM, PPC_INST_VRFIM128,
              PPC_INST_VRFIN, PPC_INST_VRFIN128, PPC_INST_VRFIZ, PPC_INST_VRFIZ128,
              PPC_INST_VRSQRTEFP, PPC_INST_VRSQRTEFP128} then Some True else None)"
| "wants_mode (Inst_vsplt i) =
     (if i \<in> {PPC_INST_VSUBFP, PPC_INST_VSUBFP128} then Some True else None)"
| "wants_mode _ = None"

definition mode_state :: "bool \<Rightarrow> CSRState" where
  "mode_state b = (if b then CSR_VMX else CSR_FPU)"

lemma csr_set_flush_mode [simp]: "csr (set_flush_mode b st) = mode_state b"
  by (auto simp: set_flush_mode_def mode_state_def Let_def)

lemma recomp_float_csr: "csr (recomp_float x i st) = CSR_FPU"
  by (cases i) (simp_all add: mode_state_def)

lemma recomp_switch_csr:
  assumes "recomp_switch x i st = Some st1" "wants_mode i = Some b"
  shows "csr st1 = mode_state b"
proof (cases i)
  case (Inst_float j)
  then show ?thesis using assms recomp_float_csr by (auto simp: mode_state_def)
next
  case (Inst_load j)
  then show ?thesis using assms by (cases j) auto
next
  case (Inst_store j)
  then show ?thesis using assms by (cases j) auto
next
  case (Inst_vadd j)
  then show ?thesis using assms by (cases j) auto
next
  case (Inst_vcmp j)
  then show ?thesis using assms by (cases j) auto
next
  case (Inst_vmax j)
  then show ?thesis using assms by (cases j) auto
next
  case (Inst_vpk j)
  then show ?thesis using assms by (cases j) (auto simp: Let_def report_def)
next
  case (Inst_vround j)
  then show ?thesis using assms by (cases j) auto
next
  case (Inst_vsplt j)
  then show ?thesis using assms by (cases j) auto
qed (use assms in auto)

lemma mode_safe_switch:
  assumes "recomp_switch x i st = Some st1" "mode_safe st"
  shows "mode_safe st1"
proof -
  consider (jump) j where "i = Inst_jump j" | (cond) j where "i = Inst_cond j"
    | (other) "\<forall>j. i \<noteq> Inst_jump j" "\<forall>j. i \<noteq> Inst_cond j" by blast
  then show ?thesis
    using assms mode_safe_jump mode_safe_cond mode_safe_plain_step [OF recomp_switch_plain]
    by cases auto
qed

lemma mode_safe_insn:
  assumes "mode_safe st" "midAsmHooks (cfg x) (pc x) = None"
  shows "mode_safe (snd (recompile_insn x i st))"
proof -
  have "mode_safe (emit [Txt 1 ''// {} {}'' [TS (opname x), TS (op_str x)]] st)"
    using assms(1) by (intro mode_safe_emit) auto
  then show ?thesis
    using mode_safe_switch assms(2)
    by (auto simp: recompile_insn_def hook_at_def Let_def split: option.splits)
qed

lemma mode_safe_at:
  assumes "mode_safe (snd s)" "midAsmHooks (re_cfg e) (ucast a) = None"
  shows "mode_safe (snd (recompile_at e fn ls a s))"
proof -
  have "mode_safe (place_label ls a (snd s))"
    using assms(1) by (simp add: place_label_def mode_safe_unknown)
  then have 1: "mode_safe (find_table e a (place_label ls a (snd s)))"
    by simp
  show ?thesis
  proof (cases "pi_opcode (decoded_at e a)")
    case None
    then show ?thesis using 1
      by (auto simp: recompile_at_def Let_def intro!: mode_safe_emit)
  next
    case (Some ni)
    have 2: "mode_safe (missing_table e a (snd ni) (find_table e a (place_label ls a (snd s))))"
      using 1 by simp
    have "midAsmHooks (cfg (insn_input e fn a (fst ni))) (pc (insn_input e fn a (fst ni))) = None"
      using assms(2) by (simp add: insn_input_def)
    from mode_safe_insn [OF 2 this, of "snd ni"] show ?thesis using Some
      by (cases ni) (auto simp: recompile_at_def Let_def)
  qed
qed

lemma mode_safe_fold:
  "mode_safe (snd s) \<Longrightarrow> \<forall>a \<in> set as. midAsmHooks (re_cfg e) (ucast a) = None \<Longrightarrow>
   mode_safe (snd (fold (recompile_at e fn ls) as s))"
  by (induction as arbitrary: s) (simp_all add: mode_safe_at)

lemma wants_mode_fix [simp]: "wants_mode (fix_id x i) = wants_mode i"
  by (auto simp: fix_id_def)

lemma recompile_at_csr:
  assumes "pi_opcode (decoded_at e a) = Some (name, i)" "wants_mode i = Some b"
    "midAsmHooks (re_cfg e) (ucast a) = None"
  shows "csr (snd (recompile_at e fn ls a s)) = mode_state b"
proof -
  let ?x = "insn_input e fn a name"
  let ?st = "missing_table e a i (find_table e a (place_label ls a (snd s)))"
  let ?st1 = "emit [Txt 1 ''// {} {}'' [TS (opname ?x), TS (op_str ?x)]] ?st"
  have hook: "hook_at ?x c st = st" for c st
    using assms(3) by (simp add: hook_at_def insn_input_def)
  have "recomp_switch ?x (fix_id ?x i) ?st1 \<noteq> None"
    using assms(2) wants_mode_fix [of ?x i] by (cases "fix_id ?x i") auto
  then obtain st2 where st2: "recomp_switch ?x (fix_id ?x i) ?st1 = Some st2" by auto
  then have "csr st2 = mode_state b" using assms(2) by (intro recomp_switch_csr [OF st2]) simp
  then show ?thesis
    using assms(1) st2 by (simp add: recompile_at_def recompile_insn_def Let_def hook)
qed


end
