(* ===== verification/Examples.thy ===== *)
theory Examples
  imports FunctionProps
begin

text \<open>
  Concrete inputs: a configuration with every option off, and a three-instruction function
  (a conditional branch over a floating-point addition to a return) with a decoder for it.
\<close>

unbundle bit_operations_syntax

definition ex_cfg :: RecompilerConfig where
  "ex_cfg =
     \<lparr>directoryPath = [], filePath = [], patchFilePath = [], patchedFilePath = [],
      outDirectoryPath = [], switchTableFilePath = [], switchTables = (\<lambda>a. None),
      skipLr = False, ctrAsLocalVariable = False, xerAsLocalVariable = False,
      reservedRegisterAsLocalVariable = False, skipMsr = False,
      crRegistersAsLocalVariables = False, nonArgumentRegistersAsLocalVariables = False,
      nonVolatileRegistersAsLocalVariables = False,
      restGpr14Address = 0, saveGpr14Address = 0, restFpr14Address = 0, saveFpr14Address = 0,
      restVmx14Address = 0, saveVmx14Address = 0, restVmx64Address = 0, saveVmx64Address = 0,
      longJmpAddress = 0, setJmpAddress = 0, cfgFunctions = [],
      invalidInstructions = (\<lambda>a. None), midAsmHooks = (\<lambda>a. None)\<rparr>"

text \<open>\<open>beq cr0, +8\<close>, \<open>fadd f1, f2, f3\<close>, \<open>blr\<close>, as the host reads them.\<close>

definition ex_mem :: "u64 \<Rightarrow> u32" where
  "ex_mem a =
     (if a = 0x82000000 then 0x08008241
      else if a = 0x82000004 then 0x2A1822FC
      else if a = 0x82000008 then 0x2000804E else 0)"

definition ex_dis :: "u32 \<Rightarrow> u64 \<Rightarrow> ppc_insn" where
  "ex_dis w a =
     (if PPC_OP w = PPC_OP_BC
      then \<lparr>pi_opcode = Some (''beq'', Inst_cond PPC_INST_BEQ),
            pi_operands = (\<lambda>n. if n = 1 then ucast a + PPC_BD w else 0), pi_op_str = ''''\<rparr>
      else if w = 0x4E800020
      then \<lparr>pi_opcode = Some (''blr'', Inst_cond PPC_INST_BLR), pi_operands = (\<lambda>n. 0), pi_op_str = ''''\<rparr>
      else \<lparr>pi_opcode = Some (''fadd'', Inst_float PPC_INST_FADD), pi_operands = (\<lambda>n. of_nat (n + 1)),
            pi_op_str = ''''\<rparr>)"

definition ex_env :: renv where
  "ex_env = \<lparr>re_cfg = ex_cfg, re_symbols = [], re_mem = ex_mem, re_dis = ex_dis, re_alias = True\<rparr>"

definition ex_fn :: FunctionRange where
  "ex_fn = \<lparr>fn_base = 0x82000000, fn_size = 12\<rparr>"

lemma ex_addrs: "insn_addrs ex_fn = [0x82000000, 0x82000004, 0x82000008]"
  by (simp add: insn_addrs_def ex_fn_def upt_rec)

lemma ex_fits: "fits_32 ex_fn"
  by (simp add: fits_32_def ex_fn_def)

lemma ex_no_hooks: "midAsmHooks (re_cfg ex_env) a = None" "switchTables (re_cfg ex_env) a = None"
  by (simp_all add: ex_env_def ex_cfg_def)

lemma ex_decoded: "\<forall>a \<in> set (insn_addrs ex_fn). branch_decoded ex_env a"
  unfolding ex_addrs by code_simp

lemma ex_placed: "\<forall>a \<in> set (insn_addrs ex_fn). targets_placed ex_env ex_fn a"
  by (simp add: targets_placed_def switch_labels_def hook_labels_def ex_no_hooks)

lemma ex_goto: "0x82000008 \<in> block_gotos (out (snd (recompile_body ex_env ex_fn)))"
  by code_simp

text \<open>C1 at the branch of the example.\<close>

lemma recompile_body_labels_complete_witness:
  "(0x82000008 :: u64) \<in> block_labels (out (snd (recompile_body ex_env ex_fn)))"
  using recompile_body_labels_complete [OF ex_fits ex_decoded ex_placed ex_goto] by simp

lemma ex_mode_run:
  "mode_run (Some True) (out (snd (fold (recompile_at ex_env ex_fn (function_labels ex_env ex_fn))
     ([0x82000000] @ [0x82000004]) (True, estate0)))) (Some False)"
  by code_simp

lemma ex_fadd:
  "pi_opcode (decoded_at ex_env 0x82000004) = Some (''fadd'', Inst_float PPC_INST_FADD)"
  by code_simp


end
