(* ===== verification/CppSem.thy ===== *)
theory CppSem
  imports Cpp "HOL-Library.Signed_Division"
begin

text \<open>
  The meaning of the emitted C++ on the integer registers, the flags and the guest memory.
  Expressions are typed statically and evaluate to the mathematical value of that type
  after the integer promotions and the usual arithmetic conversions; \<open>None\<close> is undefined
  behaviour (signed overflow, division by zero, an oversized shift, an access outside
  the 4 GB of guest memory at \<open>base\<close>) or a construct without a meaning here. The types and
  the macros are those of \<open>ppc_context.h\<close>; the host is little-endian, \<open>int\<close> has 32 bits.
\<close>

unbundle bit_operations_syntax

subsection \<open>The state\<close>

text \<open>
  A general register is the 64 bits of the union \<open>PPCRegister\<close>, a vector register the 128 bits
  of \<open>PPCVRegister\<close>; the fields of \<open>PPCCRRegister\<close> and \<open>PPCXERRegister\<close> are bytes.
\<close>

record mstate =
  regs :: "var \<Rightarrow> u64"
  vregs :: "var \<Rightarrow> 128 word"
  flags :: "var \<Rightarrow> field \<Rightarrow> u8"
  lr :: u64
  msr :: u32
  mem :: "u32 \<Rightarrow> u8"
  tsc :: u64

subsection \<open>Types and conversions\<close>

definition wrap :: "cty \<Rightarrow> int \<Rightarrow> int" where
  "wrap t i = (if csigned t then signed_take_bit (cwidth t - 1) i else take_bit (cwidth t) i)"

definition in_range :: "cty \<Rightarrow> int \<Rightarrow> bool" where
  "in_range t i =
     (if csigned t then - (2 ^ (cwidth t - 1)) \<le> i \<and> i < 2 ^ (cwidth t - 1)
      else 0 \<le> i \<and> i < 2 ^ cwidth t)"

definition promote :: "cty \<Rightarrow> cty" where
  "promote t = (if cwidth t < 32 then int32_t else t)"

definition common :: "cty \<Rightarrow> cty \<Rightarrow> cty" where
  "common a b =
     (let a' = promote a; b' = promote b
      in if cwidth a' > cwidth b' then a'
         else if cwidth b' > cwidth a' then b'
         else CTy (cwidth a') (csigned a' \<and> csigned b'))"

fun field_ty :: "field \<Rightarrow> cty" where
  "field_ty Fs8 = int8_t"
| "field_ty Fu8 = uint8_t"
| "field_ty Fs16 = int16_t"
| "field_ty Fu16 = uint16_t"
| "field_ty Fs32 = int32_t"
| "field_ty Fu32 = uint32_t"
| "field_ty Fs64 = int64_t"
| "field_ty Fu64 = uint64_t"
| "field_ty Ff32 = uint32_t"
| "field_ty Ff64 = uint64_t"
| "field_ty _ = uint8_t"

definition lit_ty :: "int \<Rightarrow> cty" where
  "lit_ty i = (if \<bar>i\<bar> < 2 ^ 31 then int32_t else int64_t)"

definition hex_ty :: "int \<Rightarrow> cty" where
  "hex_ty i =
     (if i < 2 ^ 31 then int32_t else if i < 2 ^ 32 then uint32_t
      else if i < 2 ^ 63 then int64_t else uint64_t)"

fun fun_ty :: "cfun \<Rightarrow> cty" where
  "fun_ty (LoadU n) = CTy n False"
| "fun_ty (RawU n) = CTy n False"
| "fun_ty (Bswap n) = CTy n False"
| "fun_ty (Rotl n) = CTy n False"
| "fun_ty (Clz n) = int32_t"
| "fun_ty Rdtsc = uint64_t"

fun is_cmp :: "binop \<Rightarrow> bool" where
  "is_cmp Lt = True"
| "is_cmp Gt = True"
| "is_cmp Le = True"
| "is_cmp Ge = True"
| "is_cmp Eq = True"
| "is_cmp Ne = True"
| "is_cmp LAnd = True"
| "is_cmp _ = False"

text \<open>A comparison has type \<open>bool\<close>, which every use here promotes to \<open>int\<close>.\<close>

primrec ty :: "cexp \<Rightarrow> cty" where
  "ty (Var x) = uint32_t"
| "ty (Fld x f) = field_ty f"
| "ty (Elem x f i) = field_ty f"
| "ty CtxLr = uint64_t"
| "ty CtxMsr = uint32_t"
| "ty (Lit i) = lit_ty i"
| "ty (Hex i) = hex_ty i"
| "ty (Bin b e1 e2) =
     (if is_cmp b then int32_t
      else if b = Shl \<or> b = Shr then promote (ty e1)
      else common (ty e1) (ty e2))"
| "ty (Neg e) = promote (ty e)"
| "ty (BNot e) = promote (ty e)"
| "ty (LNot e) = int32_t"
| "ty (Ite c e1 e2) = common (ty e1) (ty e2)"
| "ty (Cast t e) = t"
| "ty (PCast t e) = t"
| "ty (Fn0 f) = fun_ty f"
| "ty (Fn1 f e) = fun_ty f"
| "ty (Fn2 f e1 e2) = fun_ty f"
| "ty (Par e) = ty e"

subsection \<open>Reading registers and memory\<close>

definition field_width :: "field \<Rightarrow> nat" where
  "field_width f = cwidth (field_ty f)"

definition flag_field :: "field \<Rightarrow> bool" where
  "flag_field f = (f \<in> {Flt, Fgt, Feq, Fso, Fov, Fca})"

definition read_field :: "mstate \<Rightarrow> var \<Rightarrow> field \<Rightarrow> int" where
  "read_field s x f =
     (if flag_field f then uint (flags s x f) else wrap (field_ty f) (uint (regs s x)))"

definition read_elem :: "mstate \<Rightarrow> var \<Rightarrow> field \<Rightarrow> nat \<Rightarrow> int" where
  "read_elem s x f i = wrap (field_ty f) (uint (drop_bit (i * field_width f) (vregs s x)))"

text \<open>
  The \<open>n\<close>-byte big-endian value at an offset from \<open>base\<close>, which must lie within the guest
  memory of \<open>PPC_MEMORY_SIZE\<close> bytes.
\<close>

definition in_memory :: "int \<Rightarrow> nat \<Rightarrow> bool" where
  "in_memory a n = (0 \<le> a \<and> a + int n \<le> 2 ^ 32)"

fun be_load :: "(u32 \<Rightarrow> u8) \<Rightarrow> u32 \<Rightarrow> nat \<Rightarrow> int \<Rightarrow> int" where
  "be_load m a 0 acc = acc"
| "be_load m a (Suc n) acc = be_load m (a + 1) n (acc * 256 + uint (m a))"

fun be_store :: "(u32 \<Rightarrow> u8) \<Rightarrow> u32 \<Rightarrow> nat \<Rightarrow> int \<Rightarrow> (u32 \<Rightarrow> u8)" where
  "be_store m a 0 i = m"
| "be_store m a (Suc n) i = (be_store m (a + 1) n i)(a := word_of_int (i div 256 ^ n))"

text \<open>The byte swap of an \<open>n\<close>-byte value.\<close>

fun bswap :: "nat \<Rightarrow> int \<Rightarrow> int" where
  "bswap 0 i = 0"
| "bswap (Suc n) i = (i mod 256) * 256 ^ n + bswap n (i div 256)"

definition load_be :: "mstate \<Rightarrow> int \<Rightarrow> nat \<Rightarrow> int option" where
  "load_be s a n =
     (if in_memory a n then Some (be_load (mem s) (word_of_int a) n 0) else None)"

definition load_raw :: "mstate \<Rightarrow> int \<Rightarrow> nat \<Rightarrow> int option" where
  "load_raw s a n = map_option (bswap n) (load_be s a n)"

definition store_be :: "mstate \<Rightarrow> int \<Rightarrow> nat \<Rightarrow> int \<Rightarrow> mstate option" where
  "store_be s a n i =
     (if in_memory a n then Some (s\<lparr>mem := be_store (mem s) (word_of_int a) n i\<rparr>) else None)"

subsection \<open>Expressions\<close>

text \<open>An arithmetic result: signed overflow is undefined, unsigned arithmetic wraps.\<close>

definition arith :: "cty \<Rightarrow> int \<Rightarrow> int option" where
  "arith t r = (if csigned t then (if in_range t r then Some r else None) else Some (wrap t r))"

definition of_bool_int :: "bool \<Rightarrow> int" where
  "of_bool_int b = (if b then 1 else 0)"

definition shift_ok :: "cty \<Rightarrow> int \<Rightarrow> bool" where
  "shift_ok t n = (0 \<le> n \<and> n < int (cwidth t))"

fun bin_val :: "binop \<Rightarrow> cty \<Rightarrow> cty \<Rightarrow> int \<Rightarrow> int \<Rightarrow> int option" where
  "bin_val Add t u a b = arith (common t u) (wrap (common t u) a + wrap (common t u) b)"
| "bin_val Sub t u a b = arith (common t u) (wrap (common t u) a - wrap (common t u) b)"
| "bin_val Mul t u a b = arith (common t u) (wrap (common t u) a * wrap (common t u) b)"
| "bin_val Div t u a b =
     (if wrap (common t u) b = 0 then None
      else arith (common t u) (wrap (common t u) a sdiv wrap (common t u) b))"
| "bin_val BAnd t u a b = Some (wrap (common t u) a AND wrap (common t u) b)"
| "bin_val BOr t u a b = Some (wrap (common t u) a OR wrap (common t u) b)"
| "bin_val BXor t u a b = Some (wrap (common t u) a XOR wrap (common t u) b)"
| "bin_val Shl t u a b = (if shift_ok (promote t) b then Some (wrap (promote t) (push_bit (nat b) a)) else None)"
| "bin_val Shr t u a b = (if shift_ok (promote t) b then Some (drop_bit (nat b) a) else None)"
| "bin_val Lt t u a b = Some (of_bool_int (wrap (common t u) a < wrap (common t u) b))"
| "bin_val Gt t u a b = Some (of_bool_int (wrap (common t u) a > wrap (common t u) b))"
| "bin_val Le t u a b = Some (of_bool_int (wrap (common t u) a \<le> wrap (common t u) b))"
| "bin_val Ge t u a b = Some (of_bool_int (wrap (common t u) a \<ge> wrap (common t u) b))"
| "bin_val Eq t u a b = Some (of_bool_int (wrap (common t u) a = wrap (common t u) b))"
| "bin_val Ne t u a b = Some (of_bool_int (wrap (common t u) a \<noteq> wrap (common t u) b))"
| "bin_val LAnd t u a b = Some (of_bool_int (a \<noteq> 0 \<and> b \<noteq> 0))"

text \<open>\<open>__builtin_rotateleft\<close> and \<open>__builtin_clz\<close> (undefined at zero) on an \<open>n\<close>-bit value.\<close>

definition rotl_val :: "nat \<Rightarrow> int \<Rightarrow> int \<Rightarrow> int" where
  "rotl_val n a b =
     (let k = nat b mod n
      in take_bit n (push_bit k a) OR drop_bit (n - k) (take_bit n a))"

fun clz_from :: "nat \<Rightarrow> int \<Rightarrow> int" where
  "clz_from 0 a = 0"
| "clz_from (Suc n) a = (if bit a n then 0 else 1 + clz_from n a)"

fun fun_val1 :: "mstate \<Rightarrow> cfun \<Rightarrow> int \<Rightarrow> int option" where
  "fun_val1 s (LoadU n) a = load_be s a (n div 8)"
| "fun_val1 s (RawU n) a = load_raw s a (n div 8)"
| "fun_val1 s (Bswap n) a = Some (bswap (n div 8) (take_bit n a))"
| "fun_val1 s (Clz n) a = (if take_bit n a = 0 then None else Some (clz_from n a))"
| "fun_val1 s _ a = None"

primrec eval :: "mstate \<Rightarrow> cexp \<Rightarrow> int option" where
  "eval s (Var x) = (if x = Loc EA then Some (wrap uint32_t (uint (regs s x))) else None)"
| "eval s (Fld x f) = Some (read_field s x f)"
| "eval s (Elem x f i) = map_option (\<lambda>k. read_elem s x f (nat k)) (eval s i)"
| "eval s CtxLr = Some (uint (lr s))"
| "eval s CtxMsr = Some (uint (msr s))"
| "eval s (Lit i) = Some i"
| "eval s (Hex i) = Some i"
| "eval s (Bin b e1 e2) =
     (case eval s e1 of None \<Rightarrow> None
      | Some a \<Rightarrow>
          if b = LAnd \<and> a = 0 then Some 0
          else (case eval s e2 of None \<Rightarrow> None | Some c \<Rightarrow> bin_val b (ty e1) (ty e2) a c))"
| "eval s (Neg e) =
     (case eval s e of None \<Rightarrow> None | Some a \<Rightarrow> arith (promote (ty e)) (- a))"
| "eval s (BNot e) =
     (case eval s e of None \<Rightarrow> None | Some a \<Rightarrow> Some (wrap (promote (ty e)) (NOT a)))"
| "eval s (LNot e) = (case eval s e of None \<Rightarrow> None | Some a \<Rightarrow> Some (of_bool_int (a = 0)))"
| "eval s (Ite c e1 e2) =
     (case eval s c of None \<Rightarrow> None
      | Some v \<Rightarrow> map_option (wrap (common (ty e1) (ty e2))) (if v \<noteq> 0 then eval s e1 else eval s e2))"
| "eval s (Cast t e) = map_option (wrap t) (eval s e)"
| "eval s (PCast t e) = map_option (wrap t) (eval s e)"
| "eval s (Fn0 f) = (if f = Rdtsc then Some (uint (tsc s)) else None)"
| "eval s (Fn1 f e) = (case eval s e of None \<Rightarrow> None | Some a \<Rightarrow> fun_val1 s f a)"
| "eval s (Fn2 f e1 e2) =
     (case eval s e1 of None \<Rightarrow> None
      | Some a \<Rightarrow>
          (case eval s e2 of None \<Rightarrow> None
           | Some b \<Rightarrow>
               (case f of Rotl n \<Rightarrow> Some (rotl_val n a b) | _ \<Rightarrow> None)))"
| "eval s (Par e) = eval s e"

subsection \<open>Statements\<close>

text \<open>
  Writing a union member changes its low bytes; the other bytes stay (the compilers used keep
  them, as every compiler that lets a union be read through another member does).
\<close>

definition write_field :: "var \<Rightarrow> field \<Rightarrow> int \<Rightarrow> mstate \<Rightarrow> mstate" where
  "write_field x f i s =
     (if flag_field f
      then s\<lparr>flags := (flags s)(x := (flags s x)(f := word_of_int i))\<rparr>
      else s\<lparr>regs := (regs s)(x := word_of_int i AND mask (field_width f)
                                  OR regs s x AND NOT (mask (field_width f)))\<rparr>)"

definition write_elem :: "var \<Rightarrow> field \<Rightarrow> nat \<Rightarrow> int \<Rightarrow> mstate \<Rightarrow> mstate" where
  "write_elem x f k i s =
     (let w = field_width f
      in s\<lparr>vregs := (vregs s)(x := push_bit (k * w) (take_bit w (word_of_int i))
                                   OR vregs s x AND NOT (push_bit (k * w) (mask w)))\<rparr>)"

fun assign :: "cexp \<Rightarrow> int \<Rightarrow> mstate \<Rightarrow> mstate option" where
  "assign (Fld x f) i s = Some (write_field x f i s)"
| "assign (Elem x f k) i s = map_option (\<lambda>n. write_elem x f (nat n) i s) (eval s k)"
| "assign CtxLr i s = Some (s\<lparr>lr := word_of_int i\<rparr>)"
| "assign CtxMsr i s = Some (s\<lparr>msr := word_of_int i\<rparr>)"
| "assign (Var x) i s =
     (if x = Loc EA then Some (s\<lparr>regs := (regs s)(x := word_of_int (take_bit 32 i))\<rparr>) else None)"
| "assign _ i s = None"

text \<open>How a line ends; \<open>Stuck\<close> is undefined behaviour or a line without a meaning here.\<close>

datatype outcome = Next mstate | Jump u32 mstate | Ret mstate | Stuck

definition compare_flags :: "var \<Rightarrow> int \<Rightarrow> int \<Rightarrow> var \<Rightarrow> mstate \<Rightarrow> mstate" where
  "compare_flags c a b x s =
     s\<lparr>flags := (flags s)(c := (flags s c)(Flt := (if a < b then 1 else 0),
                                          Fgt := (if a > b then 1 else 0),
                                          Feq := (if a = b then 1 else 0),
                                          Fso := flags s x Fso))\<rparr>"

definition next_of :: "mstate option \<Rightarrow> outcome" where
  "next_of r = (case r of None \<Rightarrow> Stuck | Some s \<Rightarrow> Next s)"

definition zero_bytes :: "mstate \<Rightarrow> int \<Rightarrow> nat \<Rightarrow> mstate option" where
  "zero_bytes s a n =
     (if in_memory a n
      then Some (s\<lparr>mem := (\<lambda>p. if a \<le> uint p \<and> uint p < a + int n then 0 else mem s p)\<rparr>)
      else None)"

text \<open>\<open>callee f s\<close> is what a call leaves; \<open>None\<close> if it does not return.\<close>

definition starts_comment :: "string \<Rightarrow> bool" where
  "starts_comment f = (take 2 f = ''//'')"

datatype target = Sub_name string | Sub_addr int

fun exec :: "(target \<Rightarrow> mstate \<Rightarrow> mstate option) \<Rightarrow> cstmt \<Rightarrow> mstate \<Rightarrow> outcome"
  and exec_list :: "(target \<Rightarrow> mstate \<Rightarrow> mstate option) \<Rightarrow> cstmt list \<Rightarrow> mstate \<Rightarrow> outcome" where
  "exec ce (Asg (Var x) (Var y)) s =
     (if x = Loc EA \<or> y = Loc EA then Stuck
      else Next (s\<lparr>regs := (regs s)(x := regs s y), vregs := (vregs s)(x := vregs s y)\<rparr>))"
| "exec ce (Asg l e) s =
     (case eval s e of None \<Rightarrow> Stuck | Some i \<Rightarrow> next_of (assign l i s))"
| "exec ce (OrAsg l e) s =
     (case eval s (Bin BOr l e) of None \<Rightarrow> Stuck | Some i \<Rightarrow> next_of (assign l i s))"
| "exec ce (Decr l) s =
     (case eval s (Bin Sub l (Lit 1)) of None \<Rightarrow> Stuck | Some i \<Rightarrow> next_of (assign l i s))"
| "exec ce (Compare c t e1 e2 x) s =
     (case (eval s e1, eval s e2) of
        (Some a, Some b) \<Rightarrow> Next (compare_flags c (wrap t a) (wrap t b) x s)
      | _ \<Rightarrow> Stuck)"
| "exec ce (Store mm n e1 e2) s =
     (case (eval s e1, eval s e2) of
        (Some a, Some i) \<Rightarrow> next_of (store_be s a (n div 8) (take_bit n i))
      | _ \<Rightarrow> Stuck)"
| "exec ce (Zero e n) s = (case eval s e of None \<Rightarrow> Stuck | Some a \<Rightarrow> next_of (zero_bytes s a n))"
| "exec ce (Cas c n e old new) s =
     (case (eval s e, eval s old, eval s new) of
        (Some a, Some b, Some d) \<Rightarrow>
          (case load_raw s a (n div 8) of
             None \<Rightarrow> Stuck
           | Some v \<Rightarrow>
               if v = take_bit n b
               then next_of (map_option (write_field c Feq 1)
                      (store_be s a (n div 8) (bswap (n div 8) (take_bit n d))))
               else Next (write_field c Feq 0 s))
      | _ \<Rightarrow> Stuck)"
| "exec ce (IfAsg c l e) s =
     (case eval s c of None \<Rightarrow> Stuck
      | Some v \<Rightarrow>
          if v = 0 then Next s
          else (case eval s e of None \<Rightarrow> Stuck | Some i \<Rightarrow> next_of (assign l i s)))"
| "exec ce (IfGoto c a) s =
     (case eval s c of None \<Rightarrow> Stuck | Some v \<Rightarrow> if v = 0 then Next s else Jump a s)"
| "exec ce (IfRet c) s =
     (case eval s c of None \<Rightarrow> Stuck | Some v \<Rightarrow> if v = 0 then Next s else Ret s)"
| "exec ce (IfCall c ss) s =
     (case eval s c of None \<Rightarrow> Stuck
      | Some v \<Rightarrow>
          if v = 0 then Next s
          else (case exec_list ce ss s of Next s1 \<Rightarrow> Ret s1 | r \<Rightarrow> r))"
| "exec ce (Goto a) s = Jump a s"
| "exec ce Return s = Ret s"
| "exec ce (CallSub f) s = next_of (ce (Sub_name f) s)"
| "exec ce (CallInd e) s =
     (case eval s e of None \<Rightarrow> Stuck | Some a \<Rightarrow> next_of (ce (Sub_addr a) s))"
| "exec ce (Switch e cs) s =
     (case eval s e of None \<Rightarrow> Stuck
      | Some v \<Rightarrow>
          if 0 \<le> v \<and> nat v < length cs
          then (if fst (cs ! nat v) then Jump (snd (cs ! nat v)) s else Ret s)
          else Stuck)"
| "exec ce (Label a) s = Next s"
| "exec ce (Flush en u) s = Next s"
| "exec ce (HookCall f as) s = Stuck"
| "exec ce (HookIf f as ss ts) s = Stuck"
| "exec ce (Txt n f as) s = (if starts_comment f then Next s else Stuck)"
| "exec_list ce [] s = Next s"
| "exec_list ce (t # ts) s = (case exec ce t s of Next s1 \<Rightarrow> exec_list ce ts s1 | r \<Rightarrow> r)"

declare exec.simps [simp del] exec_list.simps [simp del]

lemmas exec_simps = exec.simps exec_list.simps

end
