(* ===== verification/CppEval.thy ===== *)
theory CppEval
  imports CppSem
begin

text \<open>
  Evaluation rules for the emitted expressions: the union members as casts of the register,
  the conversions that do nothing because the value is in range, the wrapping of unsigned
  results as word arithmetic, and the big-endian memory operations with their laws.
\<close>

unbundle bit_operations_syntax

subsection \<open>Union members\<close>

lemma wrap_unsigned: "wrap (CTy n False) i = take_bit n i"
  by (simp add: wrap_def)

lemma wrap_signed: "wrap (CTy n True) i = signed_take_bit (n - 1) i"
  by (simp add: wrap_def)

lemma flag_field_simps [simp]:
  "flag_field Flt" "flag_field Fgt" "flag_field Feq" "flag_field Fso" "flag_field Fov" "flag_field Fca"
  "\<not> flag_field Fs8" "\<not> flag_field Fu8" "\<not> flag_field Fs16" "\<not> flag_field Fu16"
  "\<not> flag_field Fs32" "\<not> flag_field Fu32" "\<not> flag_field Fs64" "\<not> flag_field Fu64"
  "\<not> flag_field Ff32" "\<not> flag_field Ff64"
  by (simp_all add: flag_field_def)

lemma field_width_simps [simp]:
  "field_width Fs8 = 8" "field_width Fu8 = 8" "field_width Fs16 = 16" "field_width Fu16 = 16"
  "field_width Fs32 = 32" "field_width Fu32 = 32" "field_width Fs64 = 64" "field_width Fu64 = 64"
  by (simp_all add: field_width_def)

lemma take_bit_uint [simp]: "LENGTH('a) \<le> n \<Longrightarrow> take_bit n (uint (w :: 'a::len word)) = uint w"
proof -
  assume "LENGTH('a) \<le> n"
  then have "(2 :: int) ^ LENGTH('a) \<le> 2 ^ n" by simp
  moreover have "uint w < 2 ^ LENGTH('a)" by (rule unsigned_less)
  ultimately have "uint w < 2 ^ n" by linarith
  then show ?thesis by (simp add: take_bit_int_eq_self)
qed

lemma sint_ucast: "LENGTH('b) \<le> LENGTH('a) \<Longrightarrow>
    sint (ucast (w :: 'a::len word) :: 'b::len word) = signed_take_bit (LENGTH('b) - 1) (uint w)"
  by (cases "LENGTH('b)") (simp_all add: sint_uint unsigned_ucast_eq signed_take_bit_take_bit)

lemma read_field_simps [simp]:
  "read_field s x Fu64 = uint (regs s x)"
  "read_field s x Fs64 = sint (regs s x)"
  "read_field s x Fu32 = uint (ucast (regs s x) :: u32)"
  "read_field s x Fs32 = sint (ucast (regs s x) :: u32)"
  "read_field s x Fu16 = uint (ucast (regs s x) :: u16)"
  "read_field s x Fs16 = sint (ucast (regs s x) :: u16)"
  "read_field s x Fu8 = uint (ucast (regs s x) :: u8)"
  "read_field s x Fs8 = sint (ucast (regs s x) :: u8)"
  by (simp_all add: read_field_def wrap_unsigned wrap_signed unsigned_ucast_eq sint_ucast)
     (simp_all add: sint_uint)

lemma read_flag_simps [simp]:
  "flag_field f \<Longrightarrow> read_field s x f = uint (flags s x f)"
  by (simp add: read_field_def)

lemma write_flag_simps [simp]:
  "flag_field f \<Longrightarrow> write_field x f i s = s\<lparr>flags := (flags s)(x := (flags s x)(f := word_of_int i))\<rparr>"
  by (simp add: write_field_def)

text \<open>The low bytes of a register replaced.\<close>

definition set_low :: "nat \<Rightarrow> u64 \<Rightarrow> u64 \<Rightarrow> u64" where
  "set_low n new old = new AND mask n OR old AND NOT (mask n)"

lemma mask_all [simp]: "LENGTH('a) \<le> n \<Longrightarrow> (mask n :: 'a::len word) = - 1"
  by (rule bit_word_eqI) (simp add: bit_simps)

lemma write_field_simps [simp]:
  "write_field x Fu64 i s = s\<lparr>regs := (regs s)(x := word_of_int i)\<rparr>"
  "write_field x Fs64 i s = s\<lparr>regs := (regs s)(x := word_of_int i)\<rparr>"
  "write_field x Fu32 i s = s\<lparr>regs := (regs s)(x := set_low 32 (word_of_int i) (regs s x))\<rparr>"
  "write_field x Fs32 i s = s\<lparr>regs := (regs s)(x := set_low 32 (word_of_int i) (regs s x))\<rparr>"
  "write_field x Fu8 i s = s\<lparr>regs := (regs s)(x := set_low 8 (word_of_int i) (regs s x))\<rparr>"
  by (simp_all add: write_field_def set_low_def)

lemma ucast_set_low [simp]:
  "(ucast (set_low 32 a b) :: u32) = ucast a"
  "(ucast (set_low 8 a b) :: u8) = ucast a"
  by (rule bit_word_eqI; auto simp: set_low_def bit_simps)+

subsection \<open>Conversions\<close>

lemma common_simps [simp]:
  "common uint64_t uint64_t = uint64_t" "common uint64_t int64_t = uint64_t"
  "common int64_t uint64_t = uint64_t" "common int64_t int64_t = int64_t"
  "common uint64_t uint32_t = uint64_t" "common uint32_t uint64_t = uint64_t"
  "common uint64_t int32_t = uint64_t" "common int32_t uint64_t = uint64_t"
  "common uint64_t uint8_t = uint64_t" "common uint8_t uint64_t = uint64_t"
  "common int64_t uint32_t = int64_t" "common uint32_t int64_t = int64_t"
  "common int64_t int32_t = int64_t" "common int32_t int64_t = int64_t"
  "common int64_t uint8_t = int64_t" "common uint8_t int64_t = int64_t"
  "common uint32_t uint32_t = uint32_t" "common uint32_t int32_t = uint32_t"
  "common int32_t uint32_t = uint32_t" "common int32_t int32_t = int32_t"
  "common uint32_t uint8_t = uint32_t" "common uint8_t uint32_t = uint32_t"
  "common int32_t uint8_t = int32_t" "common uint8_t int32_t = int32_t"
  "common uint8_t uint8_t = int32_t"
  by (simp_all add: common_def promote_def)

lemma promote_simps [simp]:
  "promote uint64_t = uint64_t" "promote int64_t = int64_t" "promote uint32_t = uint32_t"
  "promote int32_t = int32_t" "promote uint8_t = int32_t" "promote int8_t = int32_t"
  "promote uint16_t = int32_t" "promote int16_t = int32_t"
  "promote int128_t = int128_t" "promote uint128_t = uint128_t"
  by (simp_all add: promote_def)

lemma wrap_in_range: "in_range t i \<Longrightarrow> 0 < cwidth t \<Longrightarrow> wrap t i = i"
  by (auto simp: wrap_def in_range_def take_bit_int_eq_self signed_take_bit_int_eq_self)

lemma wrap_u64_simps [simp]:
  "wrap uint64_t (uint (w :: u64)) = uint w"
  "wrap uint64_t (sint (w :: u64)) = uint w"
  "wrap uint64_t (uint (v :: u32)) = uint v"
  "wrap uint64_t (uint (b :: u8)) = uint b"
  "wrap uint32_t (uint (v :: u32)) = uint v"
  "wrap uint32_t (uint (b :: u8)) = uint b"
  by (simp_all add: wrap_unsigned sint_uint take_bit_signed_take_bit)

lemma word_of_wrap [simp]:
  "(word_of_int (wrap uint64_t i) :: u64) = word_of_int i"
  "(word_of_int (wrap int64_t i) :: u64) = word_of_int i"
  "(word_of_int (wrap uint32_t i) :: u32) = word_of_int i"
  "(word_of_int (wrap int32_t i) :: u32) = word_of_int i"
proof -
  have n: "63 \<le> n \<Longrightarrow> n < 64 \<Longrightarrow> n = 63" "31 \<le> n \<Longrightarrow> n < 32 \<Longrightarrow> n = 31" for n :: nat by simp_all
  show "(word_of_int (wrap uint64_t i) :: u64) = word_of_int i"
    "(word_of_int (wrap uint32_t i) :: u32) = word_of_int i"
    by (rule bit_word_eqI; auto simp: wrap_def bit_simps)+
  show "(word_of_int (wrap int64_t i) :: u64) = word_of_int i"
    by (rule bit_word_eqI) (auto simp: wrap_def bit_simps min_def dest: n(1))
  show "(word_of_int (wrap int32_t i) :: u32) = word_of_int i"
    by (rule bit_word_eqI) (auto simp: wrap_def bit_simps min_def dest: n(2))
qed

lemma wrap_signed_simps [simp]:
  "wrap int64_t (sint (w :: u64)) = sint w"
  "wrap int32_t (sint (v :: u32)) = sint v"
  "wrap int64_t (sint v) = sint v"
  by (simp_all add: wrap_signed sint_uint)

lemma wrap_small:
  "0 \<le> i \<Longrightarrow> i < 2 ^ 31 \<Longrightarrow> wrap int32_t i = i"
  "0 \<le> i \<Longrightarrow> i < 2 ^ 31 \<Longrightarrow> wrap uint32_t i = i"
  "0 \<le> i \<Longrightarrow> i < 2 ^ 31 \<Longrightarrow> wrap int64_t i = i"
  "0 \<le> i \<Longrightarrow> i < 2 ^ 31 \<Longrightarrow> wrap uint64_t i = i"
  by (simp_all add: wrap_in_range in_range_def)

text \<open>Unsigned arithmetic on 32 bits.\<close>

lemma wrap32_arith [simp]:
  "wrap uint32_t (uint (a :: u32) + uint (b :: u32)) = uint (a + b)"
  "wrap uint32_t (uint a - uint b) = uint (a - b)"
  "wrap uint32_t (NOT (uint a)) = uint (NOT a)"
  by (simp_all add: wrap_unsigned uint_word_ariths take_bit_eq_mod unsigned_not_eq)

text \<open>Bit operations and conversions of values that come from words.\<close>

lemma uint_bit_simps [simp]:
  "uint (a :: 'a::len word) AND uint b = uint (a AND b)"
  "uint a OR uint b = uint (a OR b)"
  "uint a XOR uint b = uint (a XOR b)"
  by (simp_all add: unsigned_and_eq unsigned_or_eq unsigned_xor_eq)

lemma uint_bit_mixed [simp]:
  "uint (w :: u64) AND uint (v :: u32) = uint (w AND ucast v)"
  "uint (w :: u64) OR uint (v :: u32) = uint (w OR ucast v)"
  "uint (w :: u64) XOR uint (v :: u32) = uint (w XOR ucast v)"
  by (simp_all add: unsigned_and_eq unsigned_or_eq unsigned_xor_eq unsigned_ucast_eq)

lemma wrap_zero [simp]: "wrap t 0 = 0"
  by (simp add: wrap_def)

lemma wrap_const [simp]:
  "in_range t 1 \<Longrightarrow> 0 < cwidth t \<Longrightarrow> wrap t 1 = 1"
  "in_range t (numeral n) \<Longrightarrow> 0 < cwidth t \<Longrightarrow> wrap t (numeral n) = numeral n"
  by (simp_all add: wrap_in_range)

lemma in_range_const [simp]: "in_range int32_t 1" "in_range uint32_t 1" "in_range int64_t 1" "in_range uint64_t 1"
  by (simp_all add: in_range_def)

lemma wrap_not_simps [simp]:
  "wrap uint64_t (NOT (uint (w :: u64))) = uint (NOT w)"
  by (simp add: wrap_unsigned unsigned_not_eq)

lemma wrap_uint64 [simp]:
  "wrap uint64_t (sint (v :: u32)) = uint (scast v :: u64)"
  "wrap uint64_t (wrap uint64_t i) = wrap uint64_t i"
proof -
  have "uint (word_of_int (sint v) :: u64) = take_bit 64 (sint v)" by (simp only: unsigned_of_int) simp
  then show "wrap uint64_t (sint (v :: u32)) = uint (scast v :: u64)"
    by (simp only: wrap_unsigned scast_eq)
qed (simp add: wrap_unsigned)

lemma uint_u32_u64: "uint (v :: u32) = uint (ucast v :: u64)"
  by (simp add: unsigned_ucast_eq)

lemma ucast_scast_32 [simp]: "(ucast (scast (v :: u32) :: u64) :: u32) = v"
proof (rule bit_word_eqI)
  fix n :: nat assume "n < LENGTH(32)"
  then consider "n = 31" | "n < 31" by (cases "n = 31") auto
  then show "bit (ucast (scast v :: u64) :: u32) n = bit v n"
    by cases (auto simp: bit_simps min_def)
qed

lemma u32_bound: "0 \<le> uint (a :: u32)" "uint a < 4294967296"
proof -
  have "uint a < 2 ^ LENGTH(32)" by (rule unsigned_less)
  then show "uint a < 4294967296" by simp
qed simp

lemma u8_bound: "0 \<le> uint (a :: u8)" "uint a < 256"
proof -
  have "uint a < 2 ^ LENGTH(8)" by (rule unsigned_less)
  then show "uint a < 256" by simp
qed simp

lemma wrap_int64_u32 [simp]: "wrap int64_t (uint (v :: u32)) = uint v"
proof (rule wrap_in_range)
  show "in_range int64_t (uint v)"
    using u32_bound(2) [of v] order_trans [OF _ u32_bound(1) [of v]] by (simp add: in_range_def)
qed simp

lemma wrap_common_lit [simp]:
  "wrap (common uint32_t (lit_ty i)) (uint (v :: u32)) = uint v"
  by (simp add: lit_ty_def)

text \<open>Truth values; they stay symbolic.\<close>

declare split_of_bool [split del] split_of_bool_asm [split del]

lemma ucast_of_bool [simp]: "ucast (of_bool b :: 'a::len word) = (of_bool b :: 'b::len word)"
  by (cases b) simp_all

lemma bool_int_cases: "of_bool_int b = (if b then 1 else 0)"
  by (simp add: of_bool_int_def)

lemma bool_int_simps [simp]:
  "of_bool_int a OR of_bool_int b = of_bool_int (a \<or> b)"
  "of_bool_int a AND of_bool_int b = of_bool_int (a \<and> b)"
  "of_bool_int a = 0 \<longleftrightarrow> \<not> a"
  "of_bool_int a = of_bool_int b \<longleftrightarrow> a = b"
  by (simp_all add: of_bool_int_def)

lemma wrap_bool_int [simp]:
  "wrap int32_t (of_bool_int b) = of_bool_int b" "wrap uint32_t (of_bool_int b) = of_bool_int b"
  "wrap int64_t (of_bool_int b) = of_bool_int b" "wrap uint64_t (of_bool_int b) = of_bool_int b"
  "wrap uint8_t (of_bool_int b) = of_bool_int b"
  by (cases b; simp add: wrap_in_range in_range_def of_bool_int_def)+

lemma wrap_add_bool [simp]:
  "wrap uint32_t (uint (w :: u32) + of_bool_int c) = uint (w + of_bool c)"
  "wrap uint64_t (uint (v :: u64) + of_bool_int c) = uint (v + of_bool c)"
proof -
  have 1: "take_bit 32 (uint w + 1) = uint (w + 1)"
    by (simp only: uint_word_ariths take_bit_eq_mod) simp
  have 2: "take_bit 64 (uint v + 1) = uint (v + 1)"
    by (simp only: uint_word_ariths take_bit_eq_mod) simp
  show "wrap uint32_t (uint w + of_bool_int c) = uint (w + of_bool c)"
    "wrap uint64_t (uint v + of_bool_int c) = uint (v + of_bool c)"
    using 1 2 by (cases c; simp add: wrap_unsigned of_bool_int_def)+
qed

lemma wrap_add64 [simp]:
  "wrap uint64_t (uint (a :: u64) + uint (b :: u64)) = uint (a + b)"
  by (simp add: wrap_unsigned uint_word_ariths take_bit_eq_mod)

lemma wrap_add_1 [simp]:
  "wrap uint32_t (uint (w :: u32) + 1) = uint (w + 1)"
  "wrap uint64_t (uint (v :: u64) + 1) = uint (v + 1)"
  using wrap_add_bool(1) [of w True] wrap_add_bool(2) [of v True] by (simp_all add: of_bool_int_def)

text \<open>The low word of a sum is the sum of the low words.\<close>

lemma ucast_add [simp]: "(ucast (a + b :: u64) :: u32) = ucast a + ucast b"
proof -
  have "uint (ucast (a + b) :: u32) = uint (ucast a + ucast b :: u32)"
    by (simp add: unsigned_ucast_eq uint_word_ariths take_bit_eq_mod mod_simps mod_mod_cancel)
  then show ?thesis by (simp only: word_uint_eq_iff)
qed

lemma ucast_sub [simp]: "(ucast (a - b :: u64) :: u32) = ucast a - ucast b"
proof -
  have "uint (ucast (a - b) :: u32) = uint (ucast a - ucast b :: u32)"
    by (simp add: unsigned_ucast_eq uint_word_ariths take_bit_eq_mod mod_simps mod_mod_cancel)
  then show ?thesis by (simp only: word_uint_eq_iff)
qed

lemma ucast_not [simp]: "(ucast (NOT a :: u64) :: u32) = NOT (ucast a)"
  by (rule bit_word_eqI) (simp add: bit_simps)

lemma common_lit_left [simp]:
  "common (lit_ty i) uint64_t = uint64_t" "common (lit_ty i) int64_t = int64_t"
  by (simp_all add: lit_ty_def)

lemma uint_bit_mixed_left [simp]:
  "uint (v :: u32) AND uint (w :: u64) = uint (ucast v AND w)"
  "uint (v :: u32) OR uint (w :: u64) = uint (ucast v OR w)"
  "uint (v :: u32) XOR uint (w :: u64) = uint (ucast v XOR w)"
  by (simp_all add: unsigned_and_eq unsigned_or_eq unsigned_xor_eq unsigned_ucast_eq)

lemma common_hex [simp]:
  "common uint64_t (hex_ty i) = uint64_t" "common (hex_ty i) uint64_t = uint64_t"
  by (simp_all add: hex_ty_def)

lemma wrap_push_bit [simp]: "wrap uint64_t (push_bit n (uint (w :: u64))) = uint (push_bit n w)"
  by (simp add: wrap_unsigned unsigned_push_bit_eq)

lemma word_of_uint_32 [simp]: "(word_of_int (uint (v :: u32)) :: u64) = ucast v"
  by (simp only: ucast_eq)

lemma wrap_u8 [simp]:
  "wrap int32_t (uint (b :: u8)) = uint b" "wrap int64_t (uint b) = uint b"
  using u8_bound [of b] order_trans [OF _ u8_bound(1) [of b]]
  by (simp_all add: wrap_in_range in_range_def)

lemma uint_and_mask: "uint (w :: 'a::len word) AND mask k = uint w mod 2 ^ k"
  by (simp add: take_bit_eq_mod flip: take_bit_eq_mask)

lemmas hex_ty_numeral [simp] = hex_ty_def [of "numeral n" for n]

lemma wrap_common_hex [simp]:
  "wrap (common uint32_t (hex_ty i)) (uint (v :: u32)) = uint v"
  "wrap (common uint32_t (hex_ty (uint m))) (uint (m :: u64)) = uint m"
proof -
  show "wrap (common uint32_t (hex_ty i)) (uint v) = uint v"
    by (simp add: hex_ty_def)
  have nn: "- 9223372036854775808 \<le> uint m" using order_trans [of _ 0 "uint m"] by simp
  show "wrap (common uint32_t (hex_ty (uint m))) (uint m) = uint m"
    using nn by (auto simp: hex_ty_def wrap_in_range in_range_def)
qed

lemma nat_u8_and_31 [simp]: "nat (uint (ucast (w :: u64) :: u8) AND 31) = unat w mod 32"
proof -
  have "(31 :: int) = mask 5" by (simp add: mask_eq_exp_minus_1)
  then have "uint (ucast w :: u8) AND 31 = uint (ucast w :: u8) mod 32"
    using uint_and_mask [of "ucast w :: u8" 5] by simp
  also have "\<dots> = uint w mod 32"
    by (simp add: unsigned_ucast_eq take_bit_eq_mod mod_mod_cancel)
  finally show ?thesis by (simp add: nat_mod_distrib)
qed

lemma wrap_31 [simp]: "wrap int32_t 31 = 31"
  by (simp add: wrap_small)

lemma common_hex_nested [simp]:
  "common (common uint32_t (hex_ty i)) uint64_t = uint64_t"
  "common uint64_t (common uint32_t (hex_ty i)) = uint64_t"
  by (simp_all add: hex_ty_def)

lemma sint64_bounds: "- 9223372036854775808 \<le> sint (w :: u64)" "sint (w :: u64) < 9223372036854775808"
  using sint_greater_eq [of w] sint_less [of w] by simp_all

lemma sint32_bounds: "- 2147483648 \<le> sint (w :: u32)" "sint (w :: u32) < 2147483648"
  using sint_greater_eq [of w] sint_less [of w] by simp_all

lemma neg_in_range: "- 9223372036854775808 \<le> - sint (w :: u64) \<and> - sint w < 9223372036854775808
    \<longleftrightarrow> sint w \<noteq> - 9223372036854775808"
  using sint64_bounds [of w] by auto

end
