(* ===== verification/Ppc.thy ===== *)
theory Ppc
  imports EmitInt CppEval
begin

text \<open>
  The reference: what the Power ISA says the integer instructions do, on an abstract state of
  guest registers, in the 32-bit mode the console runs in (the carry is the carry out of bit
  32, a record form compares the low 32 bits). \<open>abs_state\<close> reads that state off the state of
  the emitted C++, wherever the configuration put the registers.
\<close>

unbundle bit_operations_syntax

record pstate =
  gpr :: "nat \<Rightarrow> u64"
  crbit :: "nat \<Rightarrow> bool"
  xso :: bool
  xov :: bool
  xca :: bool
  pctr :: u64
  plr :: u64
  pmsr :: u32
  pmem :: "u32 \<Rightarrow> u8"

definition abs_state :: "rin \<Rightarrow> mstate \<Rightarrow> pstate" where
  "abs_state x s =
     \<lparr>gpr = (\<lambda>n. regs s (reg_r x n)),
      crbit = (\<lambda>i. flags s (reg_cr x (i div 4)) (cr_field i) \<noteq> 0),
      xso = (flags s (reg_xer x) Fso \<noteq> 0), xov = (flags s (reg_xer x) Fov \<noteq> 0),
      xca = (flags s (reg_xer x) Fca \<noteq> 0),
      pctr = regs s (reg_ctr x), plr = lr s, pmsr = msr s, pmem = mem s\<rparr>"

text \<open>Flags are zero or one.\<close>

definition wf_flags :: "mstate \<Rightarrow> bool" where
  "wf_flags s = (\<forall>v f. flags s v f = 0 \<or> flags s v f = 1)"

subsection \<open>Reading operands\<close>

definition op_n :: "rin \<Rightarrow> nat \<Rightarrow> nat" where "op_n x k = unat (opnd x k)"
definition gp :: "rin \<Rightarrow> nat \<Rightarrow> pstate \<Rightarrow> u64" where "gp x k p = gpr p (op_n x k)"
definition gp32 :: "rin \<Rightarrow> nat \<Rightarrow> pstate \<Rightarrow> u32" where "gp32 x k p = ucast (gp x k p)"
definition simm :: "rin \<Rightarrow> nat \<Rightarrow> u64" where "simm x k = scast (opnd x k)"
definition uimm :: "rin \<Rightarrow> nat \<Rightarrow> u64" where "uimm x k = ucast (opnd x k)"

definition set_gpr :: "nat \<Rightarrow> u64 \<Rightarrow> pstate \<Rightarrow> pstate" where
  "set_gpr n v p = p\<lparr>gpr := (gpr p)(n := v)\<rparr>"

definition set_cr :: "nat \<Rightarrow> bool \<Rightarrow> bool \<Rightarrow> bool \<Rightarrow> pstate \<Rightarrow> pstate" where
  "set_cr k l g e p =
     p\<lparr>crbit := (\<lambda>i. if i div 4 = k then [l, g, e, xso p] ! (i mod 4) else crbit p i)\<rparr>"

text \<open>A record form compares the low word of the result with zero into CR0.\<close>

definition cr0_record :: "rin \<Rightarrow> pstate \<Rightarrow> pstate" where
  "cr0_record x p = (let v = sint (gp32 x 0 p) in set_cr 0 (v < 0) (v > 0) (v = 0) p)"

definition record_form :: "rin \<Rightarrow> pstate \<Rightarrow> pstate" where
  "record_form x p = (if has_dot x then cr0_record x p else p)"

definition dest :: "rin \<Rightarrow> u64 \<Rightarrow> pstate \<Rightarrow> pstate" where
  "dest x v p = set_gpr (op_n x 0) v p"

text \<open>The carry out of the low 32 bits of \<open>a + b + c\<close>.\<close>

definition carry32 :: "u64 \<Rightarrow> u64 \<Rightarrow> bool \<Rightarrow> bool" where
  "carry32 a b c = (uint (ucast a :: u32) + uint (ucast b :: u32) + of_bool c \<ge> 2 ^ 32)"

text \<open>\<open>(RA|0)\<close>.\<close>

definition gp_or0 :: "rin \<Rightarrow> nat \<Rightarrow> pstate \<Rightarrow> u64" where
  "gp_or0 x k p = (if opnd x k = 0 then 0 else gp x k p)"

subsection \<open>Addition and logic with immediates\<close>

primrec ppc_add :: "rin \<Rightarrow> id_add \<Rightarrow> pstate \<Rightarrow> pstate" where
  "ppc_add x PPC_INST_ADD p = record_form x (dest x (gp x 1 p + gp x 2 p) p)"
| "ppc_add x PPC_INST_ADDC p =
     record_form x (dest x (gp x 1 p + gp x 2 p) (p\<lparr>xca := carry32 (gp x 1 p) (gp x 2 p) False\<rparr>))"
| "ppc_add x PPC_INST_ADDE p =
     record_form x (dest x (gp x 1 p + gp x 2 p + of_bool (xca p))
       (p\<lparr>xca := carry32 (gp x 1 p) (gp x 2 p) (xca p)\<rparr>))"
| "ppc_add x PPC_INST_ADDI p = dest x (gp_or0 x 1 p + simm x 2) p"
| "ppc_add x PPC_INST_ADDIC p =
     record_form x (dest x (gp x 1 p + simm x 2) (p\<lparr>xca := carry32 (gp x 1 p) (simm x 2) False\<rparr>))"
| "ppc_add x PPC_INST_ADDIS p = dest x (gp_or0 x 1 p + scast (push_bit 16 (opnd x 2))) p"
| "ppc_add x PPC_INST_ADDZE p =
     record_form x (dest x (gp x 1 p + of_bool (xca p)) (p\<lparr>xca := carry32 (gp x 1 p) 0 (xca p)\<rparr>))"
| "ppc_add x PPC_INST_ADDME p =
     record_form x (dest x (gp x 1 p + of_bool (xca p) - 1)
       (p\<lparr>xca := carry32 (gp x 1 p) (- 1) (xca p)\<rparr>))"
| "ppc_add x PPC_INST_AND p = record_form x (dest x (gp x 1 p AND gp x 2 p) p)"
| "ppc_add x PPC_INST_ANDC p = record_form x (dest x (gp x 1 p AND NOT (gp x 2 p)) p)"
| "ppc_add x PPC_INST_ANDI p =
     cr0_record x (dest x (gp x 1 p AND uimm x 2) p)"
| "ppc_add x PPC_INST_ANDIS p =
     cr0_record x (dest x (gp x 1 p AND ucast (push_bit 16 (opnd x 2))) p)"
| "ppc_add x PPC_INST_ATTN p = p"

text \<open>Where the emitted C++ is undefined: a signed 64-bit addition that overflows.\<close>

definition s64_ok :: "int \<Rightarrow> bool" where
  "s64_ok i = (- (2 ^ 63) \<le> i \<and> i < 2 ^ 63)"

primrec ub_add :: "rin \<Rightarrow> id_add \<Rightarrow> pstate \<Rightarrow> bool" where
  "ub_add x PPC_INST_ADD p = False"
| "ub_add x PPC_INST_ADDC p = False"
| "ub_add x PPC_INST_ADDE p = False"
| "ub_add x PPC_INST_ADDI p = (opnd x 1 \<noteq> 0 \<and> \<not> s64_ok (sint (gp x 1 p) + sop x 2))"
| "ub_add x PPC_INST_ADDIC p = (\<not> s64_ok (sint (gp x 1 p) + sop x 2))"
| "ub_add x PPC_INST_ADDIS p =
     (opnd x 1 \<noteq> 0 \<and> \<not> s64_ok (sint (gp x 1 p) + sint (push_bit 16 (opnd x 2))))"
| "ub_add x PPC_INST_ADDZE p = (\<not> s64_ok (sint (gp x 1 p) + of_bool (xca p)))"
| "ub_add x PPC_INST_ADDME p = (\<not> s64_ok (sint (gp x 1 p) + of_bool (xca p))
     \<or> \<not> s64_ok (sint (gp x 1 p) + of_bool (xca p) - 1))"
| "ub_add x PPC_INST_AND p = False"
| "ub_add x PPC_INST_ANDC p = False"
| "ub_add x PPC_INST_ANDI p = False"
| "ub_add x PPC_INST_ANDIS p = False"
| "ub_add x PPC_INST_ATTN p = False"

subsection \<open>Subtraction and exclusive or\<close>

primrec ppc_sub :: "rin \<Rightarrow> id_sub \<Rightarrow> pstate \<Rightarrow> pstate" where
  "ppc_sub x PPC_INST_SUBF p = record_form x (dest x (gp x 2 p - gp x 1 p) p)"
| "ppc_sub x PPC_INST_SUBFC p =
     record_form x (dest x (gp x 2 p - gp x 1 p) (p\<lparr>xca := carry32 (NOT (gp x 1 p)) (gp x 2 p) True\<rparr>))"
| "ppc_sub x PPC_INST_SUBFE p =
     record_form x (dest x (NOT (gp x 1 p) + gp x 2 p + of_bool (xca p))
       (p\<lparr>xca := carry32 (NOT (gp x 1 p)) (gp x 2 p) (xca p)\<rparr>))"
| "ppc_sub x PPC_INST_SUBFZE p =
     record_form x (dest x (NOT (gp x 1 p) + of_bool (xca p))
       (p\<lparr>xca := carry32 (NOT (gp x 1 p)) 0 (xca p)\<rparr>))"
| "ppc_sub x PPC_INST_SUBFIC p =
     dest x (simm x 2 - gp x 1 p) (p\<lparr>xca := carry32 (NOT (gp x 1 p)) (simm x 2) True\<rparr>)"
| "ppc_sub x PPC_INST_SYNC p = p"
| "ppc_sub x PPC_INST_TDLGEI p = p"
| "ppc_sub x PPC_INST_TDLLEI p = p"
| "ppc_sub x PPC_INST_TWI p = p"
| "ppc_sub x PPC_INST_TWLGEI p = p"
| "ppc_sub x PPC_INST_TWLLEI p = p"

primrec ub_sub :: "rin \<Rightarrow> id_sub \<Rightarrow> pstate \<Rightarrow> bool" where
  "ub_sub x PPC_INST_SUBF p = (\<not> s64_ok (sint (gp x 2 p) - sint (gp x 1 p)))"
| "ub_sub x PPC_INST_SUBFC p = (\<not> s64_ok (sint (gp x 2 p) - sint (gp x 1 p)))"
| "ub_sub x PPC_INST_SUBFE p = False"
| "ub_sub x PPC_INST_SUBFZE p = False"
| "ub_sub x PPC_INST_SUBFIC p = (\<not> s64_ok (sop x 2 - sint (gp x 1 p)))"
| "ub_sub x PPC_INST_SYNC p = False"
| "ub_sub x PPC_INST_TDLGEI p = False"
| "ub_sub x PPC_INST_TDLLEI p = False"
| "ub_sub x PPC_INST_TWI p = False"
| "ub_sub x PPC_INST_TWLGEI p = False"
| "ub_sub x PPC_INST_TWLLEI p = False"

primrec ppc_xor :: "rin \<Rightarrow> id_xor \<Rightarrow> pstate \<Rightarrow> pstate" where
  "ppc_xor x PPC_INST_XOR p = record_form x (dest x (gp x 1 p XOR gp x 2 p) p)"
| "ppc_xor x PPC_INST_XORI p = dest x (gp x 1 p XOR uimm x 2) p"
| "ppc_xor x PPC_INST_XORIS p = dest x (gp x 1 p XOR ucast (push_bit 16 (opnd x 2))) p"

subsection \<open>Logic, rotation and masks\<close>

text \<open>\<open>MASK(mb, me)\<close> of the ISA.\<close>

definition ppc_MASK :: "nat \<Rightarrow> nat \<Rightarrow> u64" where
  "ppc_MASK mb me = horner_sum of_bool 2 (map (\<lambda>n. ppc_in_mask mb me (63 - n)) [0..<64])"

text \<open>\<open>ROTL32\<close> of the ISA rotates two copies of the low word.\<close>

definition ROTL32 :: "u64 \<Rightarrow> nat \<Rightarrow> u64" where
  "ROTL32 a n = word_rotl n (ucast (ucast a :: u32) OR push_bit 32 a)"

primrec ppc_logic :: "rin \<Rightarrow> id_logic \<Rightarrow> pstate \<Rightarrow> pstate" where
  "ppc_logic x PPC_INST_NAND p = dest x (NOT (gp x 1 p AND gp x 2 p)) p"
| "ppc_logic x PPC_INST_NEG p = record_form x (dest x (- gp x 1 p) p)"
| "ppc_logic x PPC_INST_NOP p = p"
| "ppc_logic x PPC_INST_NOR p = dest x (NOT (gp x 1 p OR gp x 2 p)) p"
| "ppc_logic x PPC_INST_NOT p = record_form x (dest x (NOT (gp x 1 p)) p)"
| "ppc_logic x PPC_INST_OR p = record_form x (dest x (gp x 1 p OR gp x 2 p) p)"
| "ppc_logic x PPC_INST_ORC p = dest x (gp x 1 p OR NOT (gp x 2 p)) p"
| "ppc_logic x PPC_INST_ORI p = dest x (gp x 1 p OR uimm x 2) p"
| "ppc_logic x PPC_INST_ORIS p = dest x (gp x 1 p OR ucast (push_bit 16 (opnd x 2))) p"
| "ppc_logic x PPC_INST_RLDICL p =
     dest x (word_rotl (op_n x 2) (gp x 1 p) AND ppc_MASK (op_n x 3) 63) p"
| "ppc_logic x PPC_INST_RLDICR p =
     dest x (word_rotl (op_n x 2) (gp x 1 p) AND ppc_MASK 0 (op_n x 3)) p"
| "ppc_logic x PPC_INST_RLDIMI p =
     (let m = ppc_MASK (op_n x 3) (63 - op_n x 2)
      in dest x (word_rotl (op_n x 2) (gp x 1 p) AND m OR gp x 0 p AND NOT m) p)"
| "ppc_logic x PPC_INST_RLWIMI p =
     (let m = ppc_MASK (op_n x 3 + 32) (op_n x 4 + 32)
      in dest x (ROTL32 (gp x 1 p) (op_n x 2) AND m OR gp x 0 p AND NOT m) p)"
| "ppc_logic x PPC_INST_RLWINM p =
     record_form x (dest x (ROTL32 (gp x 1 p) (op_n x 2) AND ppc_MASK (op_n x 3 + 32) (op_n x 4 + 32)) p)"
| "ppc_logic x PPC_INST_ROTLDI p = dest x (word_rotl (op_n x 2) (gp x 1 p)) p"
| "ppc_logic x PPC_INST_ROTLW p =
     dest x (ROTL32 (gp x 1 p) (unat (gp x 2 p) mod 32) AND ppc_MASK 32 63) p"
| "ppc_logic x PPC_INST_ROTLWI p =
     record_form x (dest x (ROTL32 (gp x 1 p) (op_n x 2) AND ppc_MASK 32 63) p)"

definition ub_logic :: "rin \<Rightarrow> id_logic \<Rightarrow> pstate \<Rightarrow> bool" where
  "ub_logic x i p = (i = PPC_INST_NEG \<and> sint (gp x 1 p) = - (2 ^ 63))"

subsection \<open>Shifts\<close>

text \<open>
  An arithmetic shift rounds towards minus infinity; its carry says that a negative value
  lost a one bit. The doubleword shifts take seven bits of the amount, the word shifts six.
\<close>

definition shift_n :: "rin \<Rightarrow> nat \<Rightarrow> pstate \<Rightarrow> nat" where
  "shift_n x m p = unat (gp x 2 p) mod m"

definition sra_carry :: "int \<Rightarrow> nat \<Rightarrow> bool" where
  "sra_carry a n = (a < 0 \<and> a mod 2 ^ n \<noteq> 0)"

definition sra :: "rin \<Rightarrow> int \<Rightarrow> nat \<Rightarrow> pstate \<Rightarrow> pstate" where
  "sra x a n p = dest x (word_of_int (a div 2 ^ n)) (p\<lparr>xca := sra_carry a n\<rparr>)"

primrec ppc_shift :: "rin \<Rightarrow> id_shift \<Rightarrow> pstate \<Rightarrow> pstate" where
  "ppc_shift x PPC_INST_SLD p =
     dest x (if shift_n x 128 p \<ge> 64 then 0 else push_bit (shift_n x 128 p) (gp x 1 p)) p"
| "ppc_shift x PPC_INST_SLW p =
     record_form x (dest x
       (if shift_n x 64 p \<ge> 32 then 0 else ucast (push_bit (shift_n x 64 p) (gp32 x 1 p))) p)"
| "ppc_shift x PPC_INST_SRAD p = sra x (sint (gp x 1 p)) (shift_n x 128 p) p"
| "ppc_shift x PPC_INST_SRADI p = sra x (sint (gp x 1 p)) (op_n x 2) p"
| "ppc_shift x PPC_INST_SRAW p = record_form x (sra x (sint (gp32 x 1 p)) (shift_n x 64 p) p)"
| "ppc_shift x PPC_INST_SRAWI p = record_form x (sra x (sint (gp32 x 1 p)) (op_n x 2) p)"
| "ppc_shift x PPC_INST_SRD p =
     dest x (if shift_n x 128 p \<ge> 64 then 0 else drop_bit (shift_n x 128 p) (gp x 1 p)) p"
| "ppc_shift x PPC_INST_SRW p =
     record_form x (dest x
       (if shift_n x 64 p \<ge> 32 then 0 else ucast (drop_bit (shift_n x 64 p) (gp32 x 1 p))) p)"

subsection \<open>Comparison, division, extension, conditions\<close>

definition set_low32 :: "rin \<Rightarrow> u32 \<Rightarrow> pstate \<Rightarrow> pstate" where
  "set_low32 x v p = dest x (ucast v OR (gp x 0 p AND NOT (mask 32))) p"

definition leading_zeros :: "nat \<Rightarrow> int \<Rightarrow> nat" where
  "leading_zeros n a = length (takeWhile (\<lambda>k. \<not> bit a k) (rev [0..<n]))"

definition set_crbit :: "nat \<Rightarrow> bool \<Rightarrow> pstate \<Rightarrow> pstate" where
  "set_crbit i b p = p\<lparr>crbit := (crbit p)(i := b)\<rparr>"

definition cmp :: "rin \<Rightarrow> int \<Rightarrow> int \<Rightarrow> pstate \<Rightarrow> pstate" where
  "cmp x a b p = set_cr (op_n x 0) (a < b) (a > b) (a = b) p"

text \<open>\<open>dcbz\<close> clears the cache block that contains the effective address.\<close>

definition dcb_addr :: "rin \<Rightarrow> pstate \<Rightarrow> u32" where
  "dcb_addr x p = (if opnd x 0 = 0 then 0 else gp32 x 0 p) + gp32 x 1 p"

definition clear_block :: "u32 \<Rightarrow> nat \<Rightarrow> pstate \<Rightarrow> pstate" where
  "clear_block ea n p = p\<lparr>pmem := (\<lambda>a. if uint a div int n = uint ea div int n then 0 else pmem p a)\<rparr>"

primrec ppc_cmp :: "rin \<Rightarrow> id_cmp \<Rightarrow> pstate \<Rightarrow> pstate" where
  "ppc_cmp x PPC_INST_CCTPL p = p"
| "ppc_cmp x PPC_INST_CCTPM p = p"
| "ppc_cmp x PPC_INST_CLRLDI p = dest x (gp x 1 p AND ppc_MASK (op_n x 2) 63) p"
| "ppc_cmp x PPC_INST_CLRLWI p =
     record_form x (dest x (gp x 1 p AND ppc_MASK (op_n x 2 + 32) 63) p)"
| "ppc_cmp x PPC_INST_CROR p = set_crbit (op_n x 0) (crbit p (op_n x 1) \<or> crbit p (op_n x 2)) p"
| "ppc_cmp x PPC_INST_CRORC p = set_crbit (op_n x 0) (crbit p (op_n x 1) \<or> \<not> crbit p (op_n x 2)) p"
| "ppc_cmp x PPC_INST_CMPD p = cmp x (sint (gp x 1 p)) (sint (gp x 2 p)) p"
| "ppc_cmp x PPC_INST_CMPDI p = cmp x (sint (gp x 1 p)) (sop x 2) p"
| "ppc_cmp x PPC_INST_CMPLD p = cmp x (uint (gp x 1 p)) (uint (gp x 2 p)) p"
| "ppc_cmp x PPC_INST_CMPLDI p = cmp x (uint (gp x 1 p)) (uop x 2) p"
| "ppc_cmp x PPC_INST_CMPLW p = cmp x (uint (gp32 x 1 p)) (uint (gp32 x 2 p)) p"
| "ppc_cmp x PPC_INST_CMPLWI p = cmp x (uint (gp32 x 1 p)) (uop x 2) p"
| "ppc_cmp x PPC_INST_CMPW p = cmp x (sint (gp32 x 1 p)) (sint (gp32 x 2 p)) p"
| "ppc_cmp x PPC_INST_CMPWI p = cmp x (sint (gp32 x 1 p)) (sop x 2) p"
| "ppc_cmp x PPC_INST_CNTLZD p = dest x (of_nat (leading_zeros 64 (uint (gp x 1 p)))) p"
| "ppc_cmp x PPC_INST_CNTLZW p = dest x (of_nat (leading_zeros 32 (uint (gp32 x 1 p)))) p"
| "ppc_cmp x PPC_INST_DB16CYC p = p"
| "ppc_cmp x PPC_INST_DCBF p = p"
| "ppc_cmp x PPC_INST_DCBT p = p"
| "ppc_cmp x PPC_INST_DCBTST p = p"
| "ppc_cmp x PPC_INST_DCBST p = p"
| "ppc_cmp x PPC_INST_DCBZ p = clear_block (dcb_addr x p) 32 p"
| "ppc_cmp x PPC_INST_DCBZL p = clear_block (dcb_addr x p) 128 p"
| "ppc_cmp x PPC_INST_DIVD p = dest x (word_of_int (sint (gp x 1 p) sdiv sint (gp x 2 p))) p"
| "ppc_cmp x PPC_INST_DIVDU p = record_form x (dest x (gp x 1 p div gp x 2 p) p)"
| "ppc_cmp x PPC_INST_DIVW p =
     record_form x (set_low32 x (word_of_int (sint (gp32 x 1 p) sdiv sint (gp32 x 2 p))) p)"
| "ppc_cmp x PPC_INST_DIVWU p = record_form x (set_low32 x (gp32 x 1 p div gp32 x 2 p) p)"
| "ppc_cmp x PPC_INST_EIEIO p = p"
| "ppc_cmp x PPC_INST_EXTSB p = record_form x (dest x (scast (ucast (gp x 1 p) :: u8)) p)"
| "ppc_cmp x PPC_INST_EXTSH p = record_form x (dest x (scast (ucast (gp x 1 p) :: u16)) p)"
| "ppc_cmp x PPC_INST_EXTSW p = record_form x (dest x (scast (gp32 x 1 p)) p)"
| "ppc_cmp x PPC_INST_EQV p = record_form x (dest x (NOT (gp x 1 p XOR gp x 2 p)) p)"

text \<open>The divisions the ISA leaves undefined are the undefined ones of C++.\<close>

definition ub_cmp :: "rin \<Rightarrow> id_cmp \<Rightarrow> pstate \<Rightarrow> bool" where
  "ub_cmp x i p =
     (i = PPC_INST_DIVD \<and> (gp x 2 p = 0 \<or> sint (gp x 1 p) = - (2 ^ 63) \<and> sint (gp x 2 p) = - 1)
      \<or> i = PPC_INST_DIVDU \<and> gp x 2 p = 0
      \<or> i = PPC_INST_DIVW \<and> (gp32 x 2 p = 0 \<or> sint (gp32 x 1 p) = - (2 ^ 31) \<and> sint (gp32 x 2 p) = - 1)
      \<or> i = PPC_INST_DIVWU \<and> gp32 x 2 p = 0)"

subsection \<open>Agreement\<close>

text \<open>
  The lines do what the reference does, and stay defined, unless \<open>ub\<close>; then they are
  undefined.
\<close>

definition agrees :: "rin \<Rightarrow> bool \<Rightarrow> pstate \<Rightarrow> outcome \<Rightarrow> bool" where
  "agrees x ub p r =
     (if ub then r = Stuck else \<exists>s. r = Next s \<and> abs_state x s = p \<and> wf_flags s)"

text \<open>The lines an operation appended.\<close>

definition new_lines :: "estate \<Rightarrow> estate \<Rightarrow> cstmt list" where
  "new_lines st st1 = drop (length (out st)) (out st1)"

lemma new_lines_simps [simp]:
  "new_lines st (emit ss st) = ss" "new_lines st st = []"
  by (simp_all add: new_lines_def)

lemma reg_r_inj [simp]: "reg_r x m = reg_r x n \<longleftrightarrow> m = n"
  by (auto simp: reg_r_def)

lemma reg_cr_inj [simp]: "reg_cr x m = reg_cr x n \<longleftrightarrow> m = n"
  by (auto simp: reg_cr_def)

lemma reg_distinct [simp]:
  "reg_r x n \<noteq> v_temp" "v_temp \<noteq> reg_r x n" "reg_r x n \<noteq> v_ea" "v_ea \<noteq> reg_r x n"
  "reg_r x n \<noteq> reg_ctr x" "reg_ctr x \<noteq> reg_r x n" "reg_ctr x \<noteq> v_temp" "v_temp \<noteq> reg_ctr x"
  "reg_ctr x \<noteq> v_ea" "v_ea \<noteq> reg_ctr x" "v_temp \<noteq> v_ea" "v_ea \<noteq> v_temp"
  "reg_cr x n \<noteq> reg_xer x" "reg_xer x \<noteq> reg_cr x n"
  by (auto simp: naming_defs)

lemma cr_field_cases [simp]:
  "cr_field i = Flt \<longleftrightarrow> i mod 4 = 0" "cr_field i = Fgt \<longleftrightarrow> i mod 4 = 1"
  "cr_field i = Feq \<longleftrightarrow> i mod 4 = 2" "cr_field i = Fso \<longleftrightarrow> i mod 4 = 3"
proof -
  have "i mod 4 \<in> {0, 1, 2, 3}" by auto
  then show "cr_field i = Flt \<longleftrightarrow> i mod 4 = 0" "cr_field i = Fgt \<longleftrightarrow> i mod 4 = 1"
    "cr_field i = Feq \<longleftrightarrow> i mod 4 = 2" "cr_field i = Fso \<longleftrightarrow> i mod 4 = 3"
    by (auto simp: cr_field_def)
qed

end
