(* ===== verification/ExecRules.thy ===== *)
theory ExecRules
  imports Ppc
begin

text \<open>
  Rules that run emitted lines on the abstract guest state: what a write to a guest register,
  to the temporary or to a flag does to \<open>abs_state\<close>, and one rule per kind of line (result,
  carry, temporary, record form), so that the proof of an instruction is the evaluation of
  its expressions.
\<close>

unbundle bit_operations_syntax

lemma mod4_cases: "(i::nat) mod 4 = 0 \<or> i mod 4 = 1 \<or> i mod 4 = 2 \<or> i mod 4 = 3"
  by auto

lemma abs_compare:
  "abs_state x (compare_flags (reg_cr x k) a b (reg_xer x) s)
     = set_cr k (a < b) (a > b) (a = b) (abs_state x s)"
  using mod4_cases
  by (auto simp: abs_state_def compare_flags_def set_cr_def fun_eq_iff)

lemma wf_compare: "wf_flags s \<Longrightarrow> wf_flags (compare_flags c a b v s)"
  by (auto simp: wf_flags_def compare_flags_def)

lemma exec_append:
  "exec_list ce (ss @ ts) s = (case exec_list ce ss s of Next s1 \<Rightarrow> exec_list ce ts s1 | r \<Rightarrow> r)"
  by (induction ss arbitrary: s) (auto simp: exec_simps split: outcome.splits)

lemma agrees_cr0:
  assumes "agrees x ub p (exec_list ce ss s)"
  shows "agrees x ub (cr0_record x p)
           (exec_list ce (ss @ [Compare (reg_cr x 0) int32_t (S32 (ro x 0)) (Lit 0) (reg_xer x)]) s)"
proof (cases ub)
  case True
  then show ?thesis using assms by (simp add: agrees_def exec_append)
next
  case False
  then obtain s1 where s1: "exec_list ce ss s = Next s1" "abs_state x s1 = p" "wf_flags s1"
    using assms by (auto simp: agrees_def)
  have "sint (ucast (regs s1 (ro x 0)) :: u32) = sint (gp32 x 0 p)"
    using s1(2) by (auto simp: gp32_def gp_def op_n_def abs_state_def ro_def)
  then show ?thesis
    using s1 False
    by (auto simp: agrees_def exec_append exec_simps cr0_record_def Let_def abs_compare wf_compare)
qed

lemma agrees_record:
  assumes "agrees x ub p (exec_list ce ss s)"
  shows "agrees x ub (record_form x p) (exec_list ce (ss @ rc x) s)"
  using assms agrees_cr0 [OF assms] by (simp add: record_form_def rc_def)

lemma agrees_andi:
  assumes "agrees x ub p (exec_list ce [Asg l e] s)"
  shows "agrees x ub (cr0_record x p)
           (exec_list ce [Asg l e, Compare (reg_cr x 0) int32_t (S32 (ro x 0)) (Lit 0) (reg_xer x)] s)"
  using agrees_cr0 [OF assms] by simp

lemma abs_set_reg [simp]:
  "abs_state x (s\<lparr>regs := (regs s)(ro x k := v)\<rparr>) = set_gpr (op_n x k) v (abs_state x s)"
  by (auto simp: abs_state_def set_gpr_def ro_def op_n_def fun_eq_iff)

lemma abs_set_temp [simp]:
  "abs_state x (s\<lparr>regs := (regs s)(v_temp := v)\<rparr>) = abs_state x s"
  "abs_state x (s\<lparr>regs := (regs s)(v_ea := v)\<rparr>) = abs_state x s"
  by (auto simp: abs_state_def fun_eq_iff)

lemma abs_set_ca:
  "abs_state x (s\<lparr>flags := (flags s)(reg_xer x := (flags s (reg_xer x))(Fca := v))\<rparr>)
     = (abs_state x s)\<lparr>xca := (v \<noteq> 0)\<rparr>"
  by (auto simp: abs_state_def fun_eq_iff)

lemma wf_regs [simp]: "wf_flags (s\<lparr>regs := r\<rparr>) = wf_flags s"
  by (simp add: wf_flags_def)

lemma wf_set_flag [simp]:
  "wf_flags s \<Longrightarrow> wf_flags (s\<lparr>flags := (flags s)(v := (flags s v)(f := of_bool b))\<rparr>)"
  "wf_flags s \<Longrightarrow> wf_flags (s\<lparr>regs := r, flags := (flags s)(v := (flags s v)(f := of_bool b))\<rparr>)"
  "wf_flags s \<Longrightarrow> wf_flags (s\<lparr>flags := (flags s)(v := (flags s v)(f := 0))\<rparr>)"
  "wf_flags s \<Longrightarrow> wf_flags (s\<lparr>regs := r, flags := (flags s)(v := (flags s v)(f := 0))\<rparr>)"
  "wf_flags s \<Longrightarrow> wf_flags (s\<lparr>flags := (flags s)(v := (flags s v)(f := 1))\<rparr>)"
  "wf_flags s \<Longrightarrow> wf_flags (s\<lparr>regs := r, flags := (flags s)(v := (flags s v)(f := 1))\<rparr>)"
  by (cases b; simp add: wf_flags_def)+

lemma ro_distinct [simp]:
  "ro x k \<noteq> v_temp" "v_temp \<noteq> ro x k" "ro x k \<noteq> v_ea" "v_ea \<noteq> ro x k"
  by (simp_all add: ro_def)

text \<open>The rules that run a line: the registers it reads are those of the abstract state.\<close>

lemma regs_abs: "regs s (ro x k) = gp x k (abs_state x s)"
  by (simp add: gp_def op_n_def abs_state_def ro_def)

lemma ca_abs: "wf_flags s \<Longrightarrow> uint (flags s (reg_xer x) Fca) = of_bool_int (xca (abs_state x s))"
proof -
  assume "wf_flags s"
  then have "flags s (reg_xer x) Fca = 0 \<or> flags s (reg_xer x) Fca = 1" by (simp add: wf_flags_def)
  then show ?thesis by (auto simp: abs_state_def of_bool_int_def)
qed

lemma agrees_dest:
  assumes "wf_flags s" "p = abs_state x s" "\<forall>y. e \<noteq> Var y"
    "\<not> ub \<Longrightarrow> \<exists>i. eval s e = Some i \<and> word_of_int i = v" "ub \<Longrightarrow> eval s e = None"
  shows "agrees x ub (dest x v p) (exec_list ce [Asg (U64 (ro x 0)) e] s)"
    "agrees x ub (dest x v p) (exec_list ce [Asg (S64 (ro x 0)) e] s)"
  using assms by (cases ub; auto simp: agrees_def dest_def next_of_def exec_simps)+

lemma agrees_nil: "wf_flags s \<Longrightarrow> p = abs_state x s \<Longrightarrow> agrees x False p (exec_list ce [] s)"
  by (simp add: agrees_def exec_simps)

text \<open>A carry line, and a line that writes the temporary, before the rest.\<close>

lemma agrees_ca:
  assumes "eval s e = Some (of_bool_int b)" "wf_flags s" "\<forall>y. e \<noteq> Var y"
    and "\<And>s1. wf_flags s1 \<Longrightarrow> abs_state x s1 = (abs_state x s)\<lparr>xca := b\<rparr> \<Longrightarrow> regs s1 = regs s \<Longrightarrow>
           agrees x ub p (exec_list ce L s1)"
  shows "agrees x ub p (exec_list ce (Asg (xer_ca x) e # L) s)"
proof -
  let ?s1 = "s\<lparr>flags := (flags s)(reg_xer x := (flags s (reg_xer x))(Fca := of_bool b))\<rparr>"
  have "wf_flags ?s1" using assms(2) by (simp add: wf_flags_def)
  moreover have "abs_state x ?s1 = (abs_state x s)\<lparr>xca := b\<rparr>" by (simp add: abs_set_ca)
  ultimately have "agrees x ub p (exec_list ce L ?s1)" using assms(4) [of ?s1] by simp
  then show ?thesis using assms(1,3) by (auto simp: next_of_def exec_simps of_bool_int_def)
qed

lemma agrees_temp:
  assumes "eval s e = Some i" "wf_flags s" "\<forall>y. e \<noteq> Var y" "f \<in> {Fu64, Fs64, Fu32, Fs32, Fu8}"
    and "\<And>s1. wf_flags s1 \<Longrightarrow> abs_state x s1 = abs_state x s \<Longrightarrow> read_field s1 v_temp f = wrap (field_ty f) i \<Longrightarrow>
           agrees x ub p (exec_list ce L s1)"
  shows "agrees x ub p (exec_list ce (Asg (Fld v_temp f) e # L) s)"
proof -
  let ?s1 = "write_field v_temp f i s"
  have nf: "\<not> flag_field f" using assms(4) by auto
  then have "wf_flags ?s1" "abs_state x ?s1 = abs_state x s"
    using assms(2) by (auto simp: write_field_def)
  moreover have "read_field ?s1 v_temp f = wrap (field_ty f) i"
    using assms(4) by (auto simp: wrap_def unsigned_of_int signed_of_int signed_take_bit_take_bit)
  ultimately show ?thesis using assms(1,3,5) by (auto simp: next_of_def exec_simps)
qed

lemma agrees_dest_then:
  assumes "eval s e = Some i" "word_of_int i = v" "wf_flags s" "\<forall>y. e \<noteq> Var y"
    and "\<And>s1. wf_flags s1 \<Longrightarrow> abs_state x s1 = dest x v (abs_state x s) \<Longrightarrow>
           regs s1 v_temp = regs s v_temp \<Longrightarrow> agrees x ub p (exec_list ce L s1)"
  shows "agrees x ub p (exec_list ce (Asg (U64 (ro x 0)) e # L) s)"
    "agrees x ub p (exec_list ce (Asg (S64 (ro x 0)) e # L) s)"
proof -
  let ?s1 = "s\<lparr>regs := (regs s)(ro x 0 := v)\<rparr>"
  have "agrees x ub p (exec_list ce L ?s1)"
    using assms(3) by (intro assms(5)) (simp_all add: dest_def)
  then show "agrees x ub p (exec_list ce (Asg (U64 (ro x 0)) e # L) s)"
    "agrees x ub p (exec_list ce (Asg (S64 (ro x 0)) e # L) s)"
    using assms(1,2,4) by (auto simp: next_of_def exec_simps)
qed

lemma agrees_stuck:
  "eval s e = None \<Longrightarrow> \<forall>y. e \<noteq> Var y \<Longrightarrow> agrees x True p (exec_list ce (Asg l e # L) s)"
  by (cases l; cases e) (auto simp: agrees_def exec_simps)

subsection \<open>Carries\<close>

lemma carry_add: "uint ((a :: u32) + b) < uint a \<longleftrightarrow> uint a + uint b \<ge> 4294967296"
  using u32_bound [of a] u32_bound [of b] uint_plus_if' [of a b] by auto

lemma uint_add_u32: "uint ((a :: u32) + b) =
    (if uint a + uint b < 4294967296 then uint a + uint b else uint a + uint b - 4294967296)"
  using uint_plus_if' [of a b] by simp

text \<open>The two comparisons of the extended addition.\<close>

lemma carry_adde:
  assumes "c = 0 \<or> c = (1 :: u32)"
  shows "(uint ((a :: u32) + b) < uint a) \<or> (uint (a + b + c) < uint c)
           \<longleftrightarrow> uint a + uint b + uint c \<ge> 4294967296"
  using assms
proof
  assume "c = 0"
  then show ?thesis using carry_add [of a b] u32_bound [of "a + b"] by simp
next
  assume c: "c = 1"
  have s: "uint (a + b + 1) < 1 \<longleftrightarrow> uint (a + b) = 4294967295"
    using uint_add_u32 [of "a + b" 1] u32_bound [of "a + b"] by auto
  have one: "uint (1 :: u32) = 1" by simp
  show ?thesis
    unfolding c one s carry_add using uint_add_u32 [of a b] u32_bound [of a] u32_bound [of b]
    by (cases "uint a + uint b < 4294967296") auto
qed

lemma uint_not_u32: "uint (NOT a) = 4294967295 - uint (a :: u32)"
proof -
  have "uint (NOT a) = (- uint a - 1) mod 4294967296"
    by (simp add: unsigned_not_eq not_int_def take_bit_eq_mod)
  also have "\<dots> = ((- uint a - 1) + 4294967296) mod 4294967296" by (simp only: mod_add_self2)
  also have "\<dots> = - uint a - 1 + 4294967296"
    using u32_bound [of a] by (intro mod_pos_pos_trivial) linarith+
  also have "\<dots> = 4294967295 - uint a" by simp
  finally show ?thesis .
qed

lemma carry_not: "uint (NOT a) < uint (b :: u32) \<longleftrightarrow> uint b + uint (a :: u32) \<ge> 4294967296"
  by (auto simp: uint_not_u32)

lemma carry_sub: "uint (b :: u32) \<ge> uint (a :: u32) \<longleftrightarrow> uint (NOT a) + uint b + 1 \<ge> 4294967296"
  by (simp add: uint_not_u32)

lemma common_lit [simp]:
  "common uint64_t (lit_ty i) = uint64_t" "common int64_t (lit_ty i) = int64_t"
  by (simp_all add: lit_ty_def)

lemma dest_xca: "dest x v (p\<lparr>xca := c\<rparr>) = (dest x v p)\<lparr>xca := c\<rparr>"
  by (simp add: dest_def set_gpr_def)

lemma dest_keeps [simp]: "xca (dest x v p) = xca p" "xso (dest x v p) = xso p"
  by (simp_all add: dest_def set_gpr_def)

lemma gp_xca [simp]: "gp x k (p\<lparr>xca := c\<rparr>) = gp x k p"
  by (simp add: gp_def)

subsection \<open>Running a whole instruction\<close>

lemma gp_regs: "gp x k (abs_state x s) = regs s (ro x k)"
  by (simp add: gp_def op_n_def abs_state_def ro_def)

lemma xca_flags: "xca (abs_state x s) = (flags s (reg_xer x) Fca \<noteq> 0)"
  by (simp add: abs_state_def)

lemma flag_int: "wf_flags s \<Longrightarrow> uint (flags s v f) = of_bool_int (flags s v f \<noteq> 0)"
  unfolding wf_flags_def of_bool_int_def by (metis unsigned_0 unsigned_1)

lemma word_bool_int [simp]: "(word_of_int (of_bool_int b) :: 'a::len word) = of_bool b"
  by (simp add: of_bool_int_def)

lemma carry_adde_1:
  "(4294967296 \<le> uint (a :: u32) + uint b \<or> uint (a + b + 1) < 1)
           \<longleftrightarrow> uint a + uint b \<ge> 4294967295"
  using carry_adde [of 1 a b] by (simp add: carry_add)

lemma u32_not_ge [simp]: "\<not> 4294967296 \<le> uint (v :: u32)"
  using u32_bound(2) [of v] by simp

lemma carry_addze: "uint ((a :: u32) + 1) < uint a \<longleftrightarrow> 4294967295 \<le> uint a"
  using carry_add [of a 1] by simp

lemma carry_adde_dest:
  "uint ((a :: u32) + b + 1) < 1 \<Longrightarrow> 4294967295 \<le> uint a + uint b"
  "4294967295 \<le> uint a + uint b \<Longrightarrow> \<not> uint (a + b + 1) < 1 \<Longrightarrow> 4294967296 \<le> uint a + uint b"
  using carry_adde_1 [of a b] by blast+

lemma carry_subf: "4294967295 \<le> uint (NOT (a :: u32)) + uint (b :: u32) \<longleftrightarrow> uint a \<le> uint b"
  using carry_sub [of a b] by simp

lemma bool_int_consts [simp]: "of_bool_int True = 1" "of_bool_int False = 0"
  by (simp_all add: of_bool_int_def)

text \<open>
  The lines are run symbolically to a final state, whose abstraction and flags are then
  compared with the reference.
\<close>

lemma agrees_simps [simp]:
  "agrees x ub p (Next s1) \<longleftrightarrow> \<not> ub \<and> abs_state x s1 = p \<and> wf_flags s1"
  "agrees x ub p Stuck \<longleftrightarrow> ub"
  by (auto simp: agrees_def)

lemmas run = exec_simps next_of_def arith_def opt_add_def s64_ok_def in_range_def gp_or0_def simm_def
  sop_def uop_def uimm_def gp_regs xca_flags

lemmas compare_run = abs_state_def dest_def set_gpr_def fun_eq_iff ro_def op_n_def gp_def gp32_def
  gp_or0_def simm_def uimm_def carry32_def

end
