(* ===== verification/Rotate.thy ===== *)
theory Rotate
  imports ExecRules
begin

text \<open>
  Rotations and masks: the masks printed by the recompiler are those of the ISA, and the
  rotations of the emitted C++ are \<open>ROTL32\<close> and \<open>ROTL64\<close>.
\<close>

unbundle bit_operations_syntax

lemma bit_ppc_MASK: "bit (ppc_MASK mb me) n \<longleftrightarrow> n < 64 \<and> ppc_in_mask mb me (63 - n)"
  by (auto simp: ppc_MASK_def bit_horner_sum_bit_iff)

lemma ComputeMask_MASK:
  assumes "unat a mod 64 = mb" "unat b mod 64 = me"
  shows "ComputeMask a b = ppc_MASK mb me"
  by (rule bit_word_eqI) (simp add: bit_ComputeMask bit_ppc_MASK assms)

lemma unat_plus_32: "unat (a :: u32) < 32 \<Longrightarrow> unat (a + 32) mod 64 = unat a + 32"
  by (simp add: unat_word_ariths)

lemma unat_not_mod: "unat (a :: u32) < 64 \<Longrightarrow> unat (NOT a) mod 64 = 63 - unat a"
proof -
  assume a: "unat a < 64"
  have "int (unat (NOT a)) = 4294967295 - int (unat a)"
    using uint_not_u32 [of a] unfolding uint_nat .
  then have "unat (NOT a) = 4294967295 - unat a" using a by linarith
  then have "unat (NOT a) = (63 - unat a) + 64 * 67108863" using a by simp
  then have "unat (NOT a) mod 64 = (63 - unat a) mod 64" by (simp only: mod_mult_self2)
  then show ?thesis by simp
qed

text \<open>Rotation of an \<open>'a word\<close>, on its integer value.\<close>

lemma rotl_val_word:
  fixes w :: "'a::len word"
  shows "rotl_val LENGTH('a) (uint w) i = uint (word_rotl (nat i) w)"
proof -
  define N where "N = LENGTH('a)"
  define k where "k = nat i mod N"
  have k: "k < N" by (simp add: k_def N_def)
  let ?v = "take_bit N (push_bit k (uint w)) OR drop_bit (N - k) (take_bit N (uint w))"
  have "bit ?v n = bit (uint (word_rotl (nat i) w)) n" for n
  proof (cases "n < N")
    case n: True
    have r: "bit (uint (word_rotl (nat i) w)) n = bit w ((n + (N - k)) mod N)"
      using n by (simp add: bit_uint_iff bit_word_rotl_iff k_def N_def)
    show ?thesis
    proof (cases "k \<le> n")
      case True
      have "n + (N - k) = (n - k) + N" using True k by simp
      then have "(n + (N - k)) mod N = (n - k) mod N" by (simp only: mod_add_self2)
      then have "(n + (N - k)) mod N = n - k" using n by simp
      then show ?thesis
        unfolding r using True n k
        by (auto simp: bit_or_iff bit_take_bit_iff bit_push_bit_iff bit_drop_bit_eq bit_uint_iff N_def)
    next
      case False
      then have "(n + (N - k)) mod N = n + (N - k)" using n k by simp
      then show ?thesis
        unfolding r using False n k
        by (auto simp: bit_or_iff bit_take_bit_iff bit_push_bit_iff bit_drop_bit_eq bit_uint_iff N_def
             add.commute)
    qed
  next
    case False
    then show ?thesis using k
      by (auto simp: bit_or_iff bit_take_bit_iff bit_push_bit_iff bit_drop_bit_eq bit_uint_iff N_def)
  qed
  then have "?v = uint (word_rotl (nat i) w)" by (rule bit_eqI)
  then show ?thesis by (simp add: rotl_val_def Let_def N_def k_def)
qed

lemma rotl_vals:
  "rotl_val 64 (uint (w :: u64)) i = uint (word_rotl (nat i) w)"
  "rotl_val 32 (uint (v :: u32)) i = uint (word_rotl (nat i) v)"
  using rotl_val_word [of w i] rotl_val_word [of v i] by simp_all

text \<open>The bits of \<open>ROTL32\<close>.\<close>

lemma bit_ROTL32:
  assumes "n < 64"
  shows "bit (ROTL32 a k) n = bit a ((n mod 32 + (32 - k mod 32)) mod 32)"
proof -
  let ?c = "ucast (ucast a :: u32) OR push_bit 32 a :: u64"
  have c: "bit ?c j = bit a (j mod 32)" if "j < 64" for j
  proof (cases "j < 32")
    case True
    then show ?thesis by (simp add: bit_simps)
  next
    case False
    then have "j mod 32 = j - 32" using that by (simp add: mod_nat_eqI)
    then show ?thesis using False that by (simp add: bit_simps)
  qed
  have "((n + (64 - k mod 64)) mod 64) mod 32 = (n mod 32 + (32 - k mod 32)) mod 32"
  proof -
    have "(64 - k mod 64) mod 32 = (32 - k mod 32) mod 32"
    proof (cases "k mod 64 < 32")
      case True
      moreover have "k mod 32 = (k mod 64) mod 32" by (simp add: mod_mod_cancel)
      ultimately have "k mod 32 = k mod 64" by simp
      then show ?thesis using True by (cases "k mod 64 = 0") (simp_all add: mod_nat_eqI)
    next
      case False
      define r where "r = k mod 64"
      have r: "32 \<le> r" "r < 64" using False by (simp_all add: r_def)
      have "k mod 32 = r mod 32" by (simp add: r_def mod_mod_cancel)
      then have "k mod 32 = r - 32" using r by (simp add: mod_nat_eqI)
      then show ?thesis using r unfolding r_def [symmetric] by simp
    qed
    then have "(n + (64 - k mod 64)) mod 32 = (n + (32 - k mod 32)) mod 32"
      by (metis mod_add_right_eq)
    moreover have "(n + (32 - k mod 32)) mod 32 = (n mod 32 + (32 - k mod 32)) mod 32"
      by (simp only: mod_add_left_eq)
    ultimately show ?thesis by (simp add: mod_mod_cancel)
  qed
  then show ?thesis
    using assms c [of "(n + (64 - k mod 64)) mod 64"]
    by (simp add: ROTL32_def bit_word_rotl_iff)
qed

lemma word_rotl_32:
  "ROTL32 a k AND ppc_MASK 32 63 = ucast (word_rotl k (ucast a :: u32))"
proof (rule bit_word_eqI)
  fix n assume "n < LENGTH(64)"
  then show "bit (ROTL32 a k AND ppc_MASK 32 63) n = bit (ucast (word_rotl k (ucast a :: u32)) :: u64) n"
    using bit_ROTL32 [of n a k]
    by (auto simp: bit_and_iff bit_ppc_MASK ppc_in_mask_def bit_unsigned_iff bit_word_rotl_iff)
qed

text \<open>The insertion of a rotated word through a mask that does not wrap.\<close>

lemma rlwimi_word:
  assumes "mb \<le> me" "me < 32"
  shows "ROTL32 a k AND ppc_MASK (mb + 32) (me + 32)
           = ucast (word_rotl k (ucast a :: u32)) AND ppc_MASK (mb + 32) (me + 32)"
proof (rule bit_word_eqI)
  fix n assume "n < LENGTH(64)"
  then show "bit (ROTL32 a k AND ppc_MASK (mb + 32) (me + 32)) n
      = bit (ucast (word_rotl k (ucast a :: u32)) AND ppc_MASK (mb + 32) (me + 32)) n"
    using bit_ROTL32 [of n a k] assms
    by (auto simp: bit_and_iff bit_ppc_MASK ppc_in_mask_def bit_unsigned_iff bit_word_rotl_iff)
qed

end
