(* ===== verification/IntCorrect.thy ===== *)
theory IntCorrect
  imports Rotate
begin

text \<open>
  The emitted lines of the integer instructions do what the Power ISA says: one theorem per
  run of case labels of the switch, by symbolic execution of every case.
\<close>

unbundle bit_operations_syntax

lemmas add_unfold = ppc_add.simps recomp_add.simps ub_add.simps new_lines_simps
lemmas sub_unfold = ppc_sub.simps recomp_sub.simps ub_sub.simps new_lines_simps
lemmas xor_unfold = ppc_xor.simps recomp_xor.simps new_lines_simps
lemmas logic_unfold = ppc_logic.simps recomp_logic.simps new_lines_simps Let_def

lemma u32_zero: "(a :: u32) = 0 \<longleftrightarrow> uint a = 0"
  by (simp add: word_uint_eq_iff)

lemma carry_addme: "uint ((a :: u32) - 1) < uint a \<longleftrightarrow> a \<noteq> 0"
proof -
  have "uint (a - 1) = (uint a - 1) mod 4294967296" by (simp add: uint_word_ariths)
  then show ?thesis
    using u32_bound [of a] unfolding u32_zero
    by (cases "uint a = 0") (simp_all add: mod_pos_pos_trivial)
qed

lemma carry_ones: "4294967296 \<le> uint (a :: u32) + uint (ucast (- 1 :: u64) :: u32) \<longleftrightarrow> a \<noteq> 0"
proof -
  have "uint (ucast (- 1 :: u64) :: u32) = 4294967295" by code_simp
  then show ?thesis
    using u32_bound [of a] uint_ge_0 [of a] unfolding u32_zero by linarith
qed

lemma recomp_add_agrees:
  assumes "wf_flags s" "i = PPC_INST_ADDME \<Longrightarrow> \<not> xca (abs_state x s)"
  shows "agrees x (ub_add x i (abs_state x s)) (ppc_add x i (abs_state x s))
           (exec_list ce (new_lines st (recomp_add x i st)) s)"
  apply (insert assms)
  apply (cases "flags s (reg_xer x) Fca = 0"; cases i; simp only: add_unfold;
      (intro agrees_record agrees_andi)?)
  apply (simp_all add: run flag_int)
  apply (simp_all add: compare_run carry_adde_1 carry_addze carry_add carry_not)
  apply (auto dest: carry_adde_dest simp: carry_addme carry_ones)
  done

lemma recomp_sub_agrees:
  assumes "wf_flags s"
  shows "agrees x (ub_sub x i (abs_state x s)) (ppc_sub x i (abs_state x s))
           (exec_list ce (new_lines st (recomp_sub x i st)) s)"
  apply (insert assms)
  apply (cases "flags s (reg_xer x) Fca = 0"; cases i; simp only: sub_unfold;
      (intro agrees_record)?)
  apply (simp_all add: run flag_int)
  apply (simp_all add: compare_run carry_adde_1 carry_addze carry_add carry_not carry_subf [symmetric])
  apply (auto dest: carry_adde_dest)
  done

lemma recomp_xor_agrees:
  assumes "wf_flags s"
  shows "agrees x False (ppc_xor x i (abs_state x s))
           (exec_list ce (new_lines st (recomp_xor x i st)) s)"
  apply (insert assms)
  apply (cases i; simp only: xor_unfold; (intro agrees_record)?)
  apply (simp_all add: run flag_int)
  apply (simp_all add: compare_run)
  done

text \<open>The operands of the rotate instructions are in the range their fields allow.\<close>

definition logic_ops_ok :: "rin \<Rightarrow> id_logic \<Rightarrow> bool" where
  "logic_ops_ok x i =
     ((i \<in> {PPC_INST_RLDICL, PPC_INST_RLDICR, PPC_INST_RLDIMI} \<longrightarrow> op_n x 2 < 64 \<and> op_n x 3 < 64)
      \<and> (i \<in> {PPC_INST_RLWIMI, PPC_INST_RLWINM} \<longrightarrow> op_n x 3 < 32 \<and> op_n x 4 < 32))"

lemma masks:
  "op_n x 3 < 64 \<Longrightarrow> ComputeMask (opnd x 3) 63 = ppc_MASK (op_n x 3) 63"
  "op_n x 3 < 64 \<Longrightarrow> ComputeMask 0 (opnd x 3) = ppc_MASK 0 (op_n x 3)"
  "op_n x 3 < 64 \<Longrightarrow> op_n x 2 < 64 \<Longrightarrow>
     ComputeMask (opnd x 3) (NOT (opnd x 2)) = ppc_MASK (op_n x 3) (63 - op_n x 2)"
  "op_n x 3 < 32 \<Longrightarrow> op_n x 4 < 32 \<Longrightarrow>
     ComputeMask (opnd x 3 + 32) (opnd x 4 + 32) = ppc_MASK (op_n x 3 + 32) (op_n x 4 + 32)"
  by (rule ComputeMask_MASK; simp add: op_n_def unat_not_mod unat_plus_32)+

lemma nat_uop: "nat (uint (opnd x k)) = op_n x k"
  by (simp add: op_n_def)

lemma recomp_logic_agrees:
  assumes "wf_flags s" "logic_ops_ok x i" "i = PPC_INST_RLWIMI \<Longrightarrow> op_n x 3 \<le> op_n x 4"
  shows "agrees x (ub_logic x i (abs_state x s)) (ppc_logic x i (abs_state x s))
           (exec_list ce (new_lines st (recomp_logic x i st)) s)"
  apply (insert assms)
  apply (cases i; simp only: logic_unfold; (intro agrees_record)?)
  apply (simp_all add: run flag_int ub_logic_def logic_ops_ok_def rotl_vals masks nat_uop)
  apply (simp_all add: compare_run ROTL32_def [symmetric] shift_ok_def word_rotl_32 rlwimi_word)
  apply (use neg_in_range [of "regs s (reg_r x (unat (opnd x 1)))"] in auto)
  done

end
