(* ===== verification/CmpCorrect.thy ===== *)
theory CmpCorrect
  imports IntCorrect
begin

text \<open>
  The comparisons, divisions, sign extensions, counts of leading zeros, condition-register
  logic and cache-block instructions: their emitted lines do what the ISA says.
\<close>

unbundle bit_operations_syntax
lemmas cmp_unfold = ppc_cmp.simps recomp_cmp.simps new_lines_simps Let_def

lemma abs_compare_cro [simp]:
  "abs_state x (compare_flags (cro x k) a b (reg_xer x) s)
     = set_cr (op_n x k) (a < b) (a > b) (a = b) (abs_state x s)"
  by (simp add: cro_def op_n_def abs_compare)

text \<open>Condition bits.\<close>

lemma flag_cr_field [simp]: "flag_field (cr_field k)"
proof -
  have "k mod 4 \<in> {0, 1, 2, 3}" by auto
  then show ?thesis by (auto simp: cr_field_def)
qed

lemma ty_crbo [simp]: "ty (crbo x k) = uint8_t"
proof -
  have "unat (opnd x k) mod 4 \<in> {0, 1, 2, 3}" by auto
  then show ?thesis by (auto simp: crbo_def crb_def cr_field_def)
qed

lemma crbo_not_var [simp]: "crbo x k \<noteq> Var y"
  by (simp add: crbo_def crb_def)

lemma eval_crbo: "wf_flags s \<Longrightarrow> eval s (crbo x k) = Some (of_bool_int (crbit (abs_state x s) (op_n x k)))"
  by (simp add: crbo_def crb_def abs_state_def op_n_def flag_int)

lemma cr_field_eq: "cr_field i = cr_field j \<longleftrightarrow> i mod 4 = j mod 4"
proof -
  have "i mod 4 \<in> {0, 1, 2, 3}" "j mod 4 \<in> {0, 1, 2, 3}" by auto
  then show ?thesis by (auto simp: cr_field_def)
qed

lemma bit_index_eq: "(i :: nat) div 4 = j div 4 \<Longrightarrow> i mod 4 = j mod 4 \<Longrightarrow> i = j"
  by (metis div_mult_mod_eq)

lemma agrees_crbit:
  assumes "wf_flags s" "eval s e = Some (of_bool_int b)" "\<forall>y. e \<noteq> Var y"
  shows "agrees x False (set_crbit (op_n x k) b (abs_state x s)) (exec_list ce [Asg (crbo x k) e] s)"
proof -
  let ?v = "reg_cr x (unat (opnd x k) div 4)" and ?f = "cr_field (unat (opnd x k))"
  let ?s = "s\<lparr>flags := (flags s)(?v := (flags s ?v)(?f := of_bool b))\<rparr>"
  have "exec_list ce [Asg (crbo x k) e] s = Next ?s"
    using assms(2,3) by (auto simp: crbo_def crb_def next_of_def exec_simps of_bool_int_def)
  moreover have "wf_flags ?s" using assms(1) by simp
  moreover have "abs_state x ?s = set_crbit (op_n x k) b (abs_state x s)"
    by (auto simp: abs_state_def set_crbit_def op_n_def fun_eq_iff cr_field_eq dest: bit_index_eq)
  ultimately show ?thesis by (simp add: agrees_def)
qed

lemma cror_agrees:
  assumes "wf_flags s" "i \<in> {PPC_INST_CROR, PPC_INST_CRORC}"
  shows "agrees x False (ppc_cmp x i (abs_state x s)) (exec_list ce (new_lines st (recomp_cmp x i st)) s)"
  using assms by (auto simp: eval_crbo intro!: agrees_crbit)

text \<open>Masks, leading zeros, division and cache blocks.\<close>

lemma clear_left_64: "op_n x 2 < 64 \<Longrightarrow> 2 ^ (64 - op_n x 2) - 1 = ppc_MASK (op_n x 2) 63"
  by (rule bit_word_eqI) (auto simp: bit_ppc_MASK bit_mask_iff ppc_in_mask_def simp flip: mask_eq_decr_exp)

lemma clear_left_32: "op_n x 2 < 32 \<Longrightarrow>
    ucast (ucast (w :: u64) :: u32) AND (2 ^ (32 - op_n x 2) - 1) = w AND ppc_MASK (op_n x 2 + 32) 63"
  by (rule bit_word_eqI) (auto simp: bit_simps bit_ppc_MASK ppc_in_mask_def simp flip: mask_eq_decr_exp)

lemma clz_leading: "clz_from n a = int (leading_zeros n a)"
  by (induction n) (simp_all add: leading_zeros_def)

lemma leading_zero_0: "leading_zeros n 0 = n"
  by (induction n) (simp_all add: leading_zeros_def)

lemma leading_zeros_le: "leading_zeros n a \<le> n"
  by (induction n) (simp_all add: leading_zeros_def)

lemma wrap_leading [simp]:
  "n \<le> 64 \<Longrightarrow> wrap int32_t (int (leading_zeros n a)) = int (leading_zeros n a)"
  using leading_zeros_le [of n a] by (intro wrap_small) auto

lemma abs_sdiv_half: "b \<noteq> 1 \<Longrightarrow> b \<noteq> - 1 \<Longrightarrow> 2 * \<bar>a sdiv (b :: int)\<bar> \<le> \<bar>a\<bar>"
proof -
  assume b: "b \<noteq> 1" "b \<noteq> - 1"
  have "2 * (\<bar>a\<bar> div \<bar>b\<bar>) \<le> \<bar>a\<bar>"
  proof (cases "b = 0")
    case False
    then have "2 \<le> \<bar>b\<bar>" using b by auto
    then have "2 * (\<bar>a\<bar> div \<bar>b\<bar>) \<le> \<bar>b\<bar> * (\<bar>a\<bar> div \<bar>b\<bar>)"
      by (intro mult_right_mono) (simp_all add: div_int_pos_iff)
    also have "\<dots> \<le> \<bar>a\<bar>" using mult_div_mod_eq [of "\<bar>b\<bar>" "\<bar>a\<bar>"] False by (smt (verit) pos_mod_sign)
    finally show ?thesis .
  qed simp
  moreover have "0 \<le> \<bar>a\<bar> div \<bar>b\<bar>" by (simp add: div_int_pos_iff)
  ultimately show ?thesis by (simp add: signed_divide_int_def abs_mult)
qed

lemma sdiv_range:
  assumes "- N \<le> a" "a < N" "0 < N" "\<not> (a = - N \<and> b = - 1)"
  shows "- N \<le> a sdiv b \<and> a sdiv b < (N :: int)"
proof (cases "b = 1 \<or> b = - 1")
  case True
  then show ?thesis using assms by (auto simp: signed_divide_int_def sgn_mult_abs)
next
  case False
  then have "2 * \<bar>a sdiv b\<bar> \<le> \<bar>a\<bar>" by (intro abs_sdiv_half) auto
  then show ?thesis using assms by auto
qed

lemma uint_sdiv: "uint (a :: 'a::len word) sdiv uint b = uint (a div b)"
proof -
  have "0 \<le> uint a" "0 \<le> uint b" by simp_all
  then show ?thesis by (auto simp: signed_divide_int_def uint_div sgn_if order_less_le)
qed

lemma set_low_32:
  "set_low 32 (word_of_int k) a = ucast (word_of_int k :: u32) OR a AND NOT (mask 32)"
  "set_low 32 (ucast (v :: u32)) a = ucast v OR a AND NOT (mask 32)"
  by (rule bit_word_eqI; auto simp: set_low_def bit_simps dest: bit_imp_le_length)+

lemma word_zero_iff: "uint (w :: 'a::len word) = 0 \<longleftrightarrow> w = 0" "sint w = 0 \<longleftrightarrow> w = 0"
  by (simp_all add: unsigned_eq_0_iff signed_eq_0_iff)

lemma sdiv_in_range:
  "in_range int64_t (sint (a :: u64) sdiv sint (b :: u64)) \<longleftrightarrow>
     \<not> (sint a = - 9223372036854775808 \<and> sint b = - 1)"
  "in_range int32_t (sint (v :: u32) sdiv sint (w :: u32)) \<longleftrightarrow>
     \<not> (sint v = - 2147483648 \<and> sint w = - 1)"
  using sdiv_range [of "9223372036854775808" "sint a" "sint b"] sint64_bounds [of a]
    sdiv_range [of "2147483648" "sint v" "sint w"] sint32_bounds [of v]
  by (auto simp: in_range_def signed_divide_int_def)

lemmas run_div = exec_simps next_of_def arith_def gp_regs xca_flags sdiv_in_range ub_cmp_def flag_int gp32_def

lemma div_agrees:
  assumes "wf_flags s" "i \<in> {PPC_INST_DIVD, PPC_INST_DIVDU, PPC_INST_DIVW, PPC_INST_DIVWU}"
  shows "agrees x (ub_cmp x i (abs_state x s)) (ppc_cmp x i (abs_state x s))
           (exec_list ce (new_lines st (recomp_cmp x i st)) s)"
  apply (insert assms)
  apply (cases i; simp only: cmp_unfold; (intro agrees_record)?)
  apply (simp_all add: run_div)
  apply (simp_all add: uint_sdiv word_zero_iff set_low32_def set_low_32 in_range_def)
  apply (auto simp add: compare_run)
  done

text \<open>The operands of the two mask instructions are in the range their fields allow.\<close>

definition cmp_ops_ok :: "rin \<Rightarrow> id_cmp \<Rightarrow> bool" where
  "cmp_ops_ok x i =
     ((i = PPC_INST_CLRLDI \<longrightarrow> 0 < op_n x 2 \<and> op_n x 2 < 64)
      \<and> (i = PPC_INST_CLRLWI \<longrightarrow> op_n x 2 < 32))"

lemma block_base:
  "uint (a :: u32) AND 4294967264 = 32 * (uint a div 32)"
  "uint (a :: u32) AND 4294967168 = 128 * (uint a div 128)"
proof -
  have 1: "uint (4294967264 :: u32) = 4294967264" "uint (4294967168 :: u32) = 4294967168" by simp_all
  have 2: "a AND 4294967264 = a AND NOT (mask 5)" "a AND 4294967168 = a AND NOT (mask 7)"
  proof -
    have n: "NOT (mask 5) = (4294967264 :: u32)" "NOT (mask 7) = (4294967168 :: u32)" by code_simp+
    show "a AND 4294967264 = a AND NOT (mask 5)" "a AND 4294967168 = a AND NOT (mask 7)"
      unfolding n by (rule refl)+
  qed
  have 3: "uint (a AND NOT (mask k)) = 2 ^ k * (uint a div 2 ^ k)" for k
  proof -
    have "a AND NOT (mask k) = push_bit k (drop_bit k a)"
      by (rule bit_word_eqI) (auto simp: bit_simps)
    moreover have "push_bit k (drop_bit k (uint a)) \<le> uint a"
      by (simp add: push_bit_eq_mult drop_bit_eq_div minus_mod_eq_div_mult [symmetric])
    ultimately have "uint (a AND NOT (mask k)) = push_bit k (drop_bit k (uint a))"
      using u32_bound [of a]
      by (simp add: unsigned_push_bit_eq unsigned_drop_bit_eq take_bit_int_eq_self)
    then show ?thesis by (simp add: push_bit_eq_mult drop_bit_eq_div)
  qed
  show "uint a AND 4294967264 = 32 * (uint a div 32)"
    using uint_bit_simps(1) [of a 4294967264] 3 [of 5] unfolding 1 2 by simp
  show "uint a AND 4294967168 = 128 * (uint a div 128)"
    using uint_bit_simps(1) [of a 4294967168] 3 [of 7] unfolding 1 2 by simp
qed

lemma in_block_gen:
  assumes "0 < (d :: int)"
  shows "d * (a div d) \<le> b \<and> b < d * (a div d) + d \<longleftrightarrow> b div d = a div d"
proof
  assume "d * (a div d) \<le> b \<and> b < d * (a div d) + d"
  then show "b div d = a div d"
    by (intro int_div_pos_eq [of _ _ _ "b - d * (a div d)"]) auto
next
  assume e: "b div d = a div d"
  have "d * (b div d) + b mod d = b" "0 \<le> b mod d" "b mod d < d" using assms by simp_all
  then show "d * (a div d) \<le> b \<and> b < d * (a div d) + d" unfolding e by linarith
qed

lemmas in_block = in_block_gen [of 32, simplified] in_block_gen [of 128, simplified]

lemma block_in_memory_gen:
  assumes "0 < d" "(2 :: int) ^ 32 = int d * k"
  shows "in_memory (int d * (uint (a :: u32) div int d)) d"
proof -
  have "uint a < int d * k" using u32_bound [of a] assms(2) by simp
  moreover have "uint a = int d * (uint a div int d) + uint a mod int d" by simp
  moreover have "0 \<le> uint a mod int d" using assms(1) by simp
  ultimately have "int d * (uint a div int d) < int d * k" by linarith
  then have "uint a div int d + 1 \<le> k" using assms(1) by (simp add: mult_less_cancel_left)
  then have "int d * (uint a div int d + 1) \<le> int d * k" by (intro mult_left_mono) simp_all
  then show ?thesis using assms by (simp add: in_memory_def algebra_simps pos_imp_zdiv_nonneg_iff)
qed

lemma block_in_memory:
  "in_memory (32 * (uint (a :: u32) div 32)) 32" "in_memory (128 * (uint (a :: u32) div 128)) 128"
  using block_in_memory_gen [of 32 134217728 a] block_in_memory_gen [of 128 33554432 a] by simp_all

lemma wrap_not_block:
  "wrap uint32_t (wrap int32_t (- 32)) = 4294967264" "wrap uint32_t (wrap int32_t (- 128)) = 4294967168"
  by code_simp+

lemma dcb_addr_eval: "eval s (opt_add x 0 (U32 (ro x 0)) (U32 (ro x 1))) = Some (uint (dcb_addr x (abs_state x s)))"
  "ty (opt_add x 0 (U32 (ro x 0)) (U32 (ro x 1))) = uint32_t"
  by (simp_all add: opt_add_def arith_def dcb_addr_def gp32_def gp_regs)

lemma lit_small: "\<bar>i\<bar> < 2 ^ 31 \<Longrightarrow> lit_ty i = int32_t"
  by (simp add: lit_ty_def)

lemma dcb_block_eval:
  assumes "n = 31 \<or> n = 127"
  shows "eval s (Bin BAnd (Par (opt_add x 0 (U32 (ro x 0)) (U32 (ro x 1)))) (BNot (Lit n)))
           = Some ((n + 1) * (uint (dcb_addr x (abs_state x s)) div (n + 1)))"
  using assms wrap_not_block
  by (auto simp: dcb_addr_eval lit_small block_base simp del: One_nat_def)

lemma clear_block_run:
  "in_memory (int n * (uint ea div int n)) n \<Longrightarrow> n = 32 \<or> n = 128 \<Longrightarrow>
     map_option (abs_state x) (zero_bytes s (int n * (uint ea div int n)) n)
       = Some (clear_block ea n (abs_state x s))"
  by (auto simp: zero_bytes_def clear_block_def abs_state_def in_block)

lemma dcbz_agrees:
  assumes "wf_flags s" "i \<in> {PPC_INST_DCBZ, PPC_INST_DCBZL}"
  shows "agrees x False (ppc_cmp x i (abs_state x s)) (exec_list ce (new_lines st (recomp_cmp x i st)) s)"
  using assms block_in_memory [of "dcb_addr x (abs_state x s)"]
    clear_block_run [of 32 "dcb_addr x (abs_state x s)" x s]
    clear_block_run [of 128 "dcb_addr x (abs_state x s)" x s]
  by (auto simp: exec_simps next_of_def dcb_block_eval zero_bytes_def wf_flags_def simp del: eval.simps One_nat_def)

text \<open>The cases with a proof of their own.\<close>

definition cmp_special :: "id_cmp set" where
  "cmp_special =
     {PPC_INST_DCBZ, PPC_INST_DCBZL, PPC_INST_CROR, PPC_INST_CRORC, PPC_INST_DIVD, PPC_INST_DIVDU, PPC_INST_DIVW, PPC_INST_DIVWU}"

lemma recomp_cmp_rest:
  assumes "wf_flags s"  "i \<notin> cmp_special" "cmp_ops_ok x i"
  shows "agrees x (ub_cmp x i (abs_state x s)) (ppc_cmp x i (abs_state x s))
           (exec_list ce (new_lines st (recomp_cmp x i st)) s)"
  apply (insert assms)
  apply (cases i; simp only: cmp_unfold; (intro agrees_record)?)
  apply (simp_all add: run flag_int ub_cmp_def cmp_def wf_compare cmp_special_def gp32_def)
  apply (simp_all add: cmp_ops_ok_def clz_leading leading_zero_0 word_zero_iff lit_ty_def wrap_small)
  apply (simp_all add: clear_left_64 clear_left_32 nat_uop flip: op_n_def)
  apply (simp_all add: compare_run)
  done

lemma recomp_cmp_agrees:
  assumes "wf_flags s" "cmp_ops_ok x i"
  shows "agrees x (ub_cmp x i (abs_state x s)) (ppc_cmp x i (abs_state x s))
           (exec_list ce (new_lines st (recomp_cmp x i st)) s)"
proof (cases "i \<in> cmp_special")
  case True
  then consider "i \<in> {PPC_INST_DCBZ, PPC_INST_DCBZL, PPC_INST_CROR, PPC_INST_CRORC}"
    | "i \<in> {PPC_INST_DIVD, PPC_INST_DIVDU, PPC_INST_DIVW, PPC_INST_DIVWU}"
    by (auto simp: cmp_special_def)
  then show ?thesis
  proof cases
    case 1
    then have "\<not> ub_cmp x i (abs_state x s)" by (auto simp: ub_cmp_def)
    with 1 show ?thesis
      using dcbz_agrees [OF assms(1), of i x ce st] cror_agrees [OF assms(1), of i x ce st] by (simp only: simp_thms insert_iff) blast
  next
    case 2
    then show ?thesis by (rule div_agrees [OF assms(1)])
  qed
next
  case False
  then show ?thesis by (rule recomp_cmp_rest [OF assms(1) _ assms(2)])
qed

end
