(* ===== verification/ShiftCorrect.thy ===== *)
theory ShiftCorrect
  imports CmpCorrect
begin

text \<open>
  The shift instructions. The arithmetic shifts clamp the amount to the width less one; the
  carry they leave is that of the ISA except for the most negative value shifted by its whole
  width or more.
\<close>

unbundle bit_operations_syntax
lemmas shift_unfold = ppc_shift.simps recomp_shift.simps new_lines_simps Let_def

lemma and_low: "uint (ucast (w :: u64) :: u8) AND 127 = int (unat w mod 128)"
  "uint (ucast (w :: u64) :: u8) AND 63 = int (unat w mod 64)"
  "uint w AND 127 = int (unat w mod 128)"
  "uint (ucast w :: u32) AND 63 = int (unat w mod 64)"
proof -
  have m: "(127 :: int) = mask 7" "(63 :: int) = mask 6" by (simp_all add: mask_eq_exp_minus_1)
  show "uint (ucast (w :: u64) :: u8) AND 127 = int (unat w mod 128)"
    "uint (ucast (w :: u64) :: u8) AND 63 = int (unat w mod 64)"
    "uint w AND 127 = int (unat w mod 128)"
    "uint (ucast w :: u32) AND 63 = int (unat w mod 64)"
    unfolding m uint_and_mask
    by (simp_all add: unsigned_ucast_eq take_bit_eq_mod mod_mod_cancel zmod_int)
qed

lemma top_bit_clear:
  assumes "0 < d"
  shows "m mod (d * 2) < d \<longleftrightarrow> even (m div d :: nat)"
proof -
  have "m mod (d * 2) = d * (m div d mod 2) + m mod d" by (rule mod_mult2_eq)
  moreover have "m mod d < d" using assms by simp
  ultimately show ?thesis by (cases "even (m div d)") (auto simp: even_iff_mod_2_eq_zero odd_iff_mod_2_eq_one)
qed

lemma and_bit: "uint (ucast (w :: u64) :: u8) AND 64 = 0 \<longleftrightarrow> unat w mod 128 < 64"
  "uint (ucast (w :: u64) :: u8) AND 32 = 0 \<longleftrightarrow> unat w mod 64 < 32"
proof -
  have b: "i AND 2 ^ k = 0 \<longleftrightarrow> \<not> bit i k" for i :: int and k
    by (metis and_exp_eq_0_iff_not_bit)
  have u: "n < 64 \<Longrightarrow> bit (unat w) n = bit w n" for n by (simp add: bit_unsigned_iff)
  have "unat w mod 128 < 64 \<longleftrightarrow> even (unat w div 64)" "unat w mod 64 < 32 \<longleftrightarrow> even (unat w div 32)"
    using top_bit_clear [of 64 "unat w"] top_bit_clear [of 32 "unat w"] by simp_all
  then have "unat w mod 128 < 64 \<longleftrightarrow> \<not> bit w 6" "unat w mod 64 < 32 \<longleftrightarrow> \<not> bit w 5"
    using u [of 6] u [of 5] by (auto simp: bit_iff_odd [of "unat w"])
  then show "uint (ucast (w :: u64) :: u8) AND 64 = 0 \<longleftrightarrow> unat w mod 128 < 64"
    "uint (ucast (w :: u64) :: u8) AND 32 = 0 \<longleftrightarrow> unat w mod 64 < 32"
    using b [of "uint (ucast w :: u8)" 6] b [of "uint (ucast w :: u8)" 5]
    by (simp_all add: bit_simps)
qed

lemma word_shift:
  "(word_of_int (drop_bit n (uint (w :: u64))) :: u64) = drop_bit n w"
  "(word_of_int (wrap uint32_t (drop_bit n (uint (v :: u32)))) :: u64) = ucast (drop_bit n v)"
  "(word_of_int (wrap uint32_t (wrap uint32_t (push_bit n (uint (v :: u32))))) :: u64) = ucast (push_bit n v)"
proof -
  have 1: "drop_bit n (uint w) = uint (drop_bit n w)" "drop_bit n (uint v) = uint (drop_bit n v)"
    by (rule bit_eqI; auto simp: bit_simps dest: bit_imp_le_length)+
  have 2: "take_bit 32 (push_bit n (uint v)) = uint (push_bit n v)"
    by (simp add: unsigned_push_bit_eq)
  show "(word_of_int (drop_bit n (uint w)) :: u64) = drop_bit n w"
    "(word_of_int (wrap uint32_t (drop_bit n (uint v))) :: u64) = ucast (drop_bit n v)"
    "(word_of_int (wrap uint32_t (wrap uint32_t (push_bit n (uint v)))) :: u64) = ucast (push_bit n v)"
    unfolding wrap_unsigned 1 2 by simp_all
qed

lemma recomp_shift_logical:
  assumes "wf_flags s"  "i \<in> {PPC_INST_SLD, PPC_INST_SLW, PPC_INST_SRD, PPC_INST_SRW}"
  shows "agrees x False (ppc_shift x i (abs_state x s))
           (exec_list ce (new_lines st (recomp_shift x i st)) s)"
  apply (insert assms)
  apply (cases i; simp only: shift_unfold; (intro agrees_record)?)
  apply (simp_all add: run flag_int wrap_small lit_ty_def)
  apply (simp_all add: compare_run and_low and_bit shift_ok_def shift_n_def)
  apply (auto simp: word_shift)
  done

text \<open>An amount past the width behaves like one less than the width.\<close>

lemma sra_clamp:
  assumes "- (2 ^ N) \<le> a" "a < (2 ^ N :: int)" "N \<le> n"
  shows "a div 2 ^ n = a div 2 ^ N"
    "a \<noteq> - (2 ^ N) \<or> n = N \<Longrightarrow> sra_carry a n = sra_carry a N"
proof -
  have le: "(2 :: int) ^ N \<le> 2 ^ n" using assms(3) by simp
  show "a div 2 ^ n = a div 2 ^ N"
  proof (cases "0 \<le> a")
    case True
    moreover have "a < 2 ^ n" using assms(2) le by linarith
    ultimately show ?thesis using assms by (simp add: div_pos_pos_trivial)
  next
    case False
    then have "a < 0" "- (2 ^ n) \<le> a" using assms(1) le by linarith+
    moreover have "k < 0 \<Longrightarrow> - (2 ^ m) \<le> k \<Longrightarrow> k div 2 ^ m = - 1" for k :: int and m
      using div_pos_pos_trivial [of "k + 2 ^ m" "2 ^ m"] div_add_self2 [of "2 ^ m" k] by simp
    ultimately show ?thesis using assms(1) by simp
  qed
  show "sra_carry a n = sra_carry a N" if "a \<noteq> - (2 ^ N) \<or> n = N"
  proof (cases "a < 0")
    case True
    show ?thesis
    proof (cases "n = N")
      case False
      then have a: "- (2 ^ N) < a" "- (2 ^ n) < a" using that assms(1) le by linarith+
      have nz: "k mod 2 ^ m \<noteq> 0" if k: "k < 0" "- (2 ^ m) < k" for k :: int and m
      proof -
        have "(k + 2 ^ m) mod 2 ^ m = k + 2 ^ m"
          using k by (intro mod_pos_pos_trivial) linarith+
        then have "k mod 2 ^ m = k + 2 ^ m" by (simp only: mod_add_self2)
        then show ?thesis using k by linarith
      qed
      show ?thesis
        using nz [OF True a(1)] nz [OF True a(2)] by (simp only: sra_carry_def simp_thms)
    qed simp
  qed (simp add: sra_carry_def)
qed

lemma shift_back: "push_bit n (drop_bit n a) \<noteq> a \<longleftrightarrow> a mod 2 ^ n \<noteq> (0 :: int)"
  by (simp add: push_bit_eq_mult drop_bit_eq_div minus_mod_eq_div_mult [symmetric])

lemma shift_back_range:
  assumes "- (2 ^ N) \<le> a" "a < (2 ^ N :: int)" "n \<le> N"
  shows "- (2 ^ N) \<le> push_bit n (drop_bit n a) \<and> push_bit n (drop_bit n a) < 2 ^ N"
proof -
  have "0 \<le> a mod 2 ^ n" by simp
  moreover have "- (2 ^ N) \<le> a div 2 ^ n * 2 ^ n"
  proof -
    have e: "- (2 ^ N) = (- (2 ^ (N - n)) :: int) * 2 ^ n"
      using assms(3) by (simp flip: power_add)
    then have "- (2 ^ (N - n)) \<le> a div 2 ^ n"
      using assms(1) by (metis div_mult_self_is_m neg_le_iff_le zdiv_mono1 zero_less_power zero_less_numeral
          nonzero_mult_div_cancel_right power_not_zero zero_neq_numeral)
    then show ?thesis unfolding e by (intro mult_right_mono) simp_all
  qed
  moreover have "a div 2 ^ n * 2 ^ n = a - a mod 2 ^ n" by (rule minus_mod_eq_div_mult [symmetric])
  ultimately show ?thesis
    using assms(2) unfolding push_bit_eq_mult drop_bit_eq_div by linarith
qed

lemma wrap_shift_back:
  "n < 64 \<Longrightarrow> wrap int64_t (push_bit n (drop_bit n (sint (w :: u64)))) = push_bit n (drop_bit n (sint w))"
  "n < 32 \<Longrightarrow> wrap int32_t (push_bit n (drop_bit n (sint (v :: u32)))) = push_bit n (drop_bit n (sint v))"
  using shift_back_range [of 63 "sint w" n] shift_back_range [of 31 "sint v" n]
    sint64_bounds [of w] sint32_bounds [of v]
  by (intro wrap_in_range; simp add: in_range_def)+

text \<open>The two lines that put the clamped amount into the temporary.\<close>

lemma set_low_twice [simp]: "set_low n a (set_low n b c) = set_low n a c"
  by (rule bit_word_eqI) (auto simp: set_low_def bit_simps)

lemma amount_uint [simp]:
  "uint (ucast (word_of_nat (m mod 64) :: u64) :: u32) = int (m mod 64)"
  "uint (word_of_nat (m mod 128) :: u64) = int (m mod 128)"
proof -
  have "m mod 64 < 64" "m mod 128 < 128" by simp_all
  then show "uint (ucast (word_of_nat (m mod 64) :: u64) :: u32) = int (m mod 64)"
    "uint (word_of_nat (m mod 128) :: u64) = int (m mod 128)"
    by (simp_all add: unsigned_ucast_eq unsigned_of_nat take_bit_nat_eq_self take_bit_int_eq_self)
qed

lemma clamp_lines:
  "exec_list ce (Asg (U64 v_temp) (Bin BAnd (U64 (ro x 2)) (Hex 0x7F))
      # IfAsg (Bin Gt (U64 v_temp) (Hex 0x3F)) (U64 v_temp) (Hex 0x3F) # L) s
     = exec_list ce L (s\<lparr>regs := (regs s)(v_temp := of_nat (min (shift_n x 128 (abs_state x s)) 63))\<rparr>)"
  "exec_list ce (Asg (U32 v_temp) (Bin BAnd (U32 (ro x 2)) (Hex 0x3F))
      # IfAsg (Bin Gt (U32 v_temp) (Hex 0x1F)) (U32 v_temp) (Hex 0x1F) # L) s
     = exec_list ce L (s\<lparr>regs := (regs s)(v_temp :=
         set_low 32 (of_nat (min (shift_n x 64 (abs_state x s)) 31)) (regs s v_temp))\<rparr>)"
  apply (simp_all add: exec_simps next_of_def and_low shift_n_def gp_regs wrap_small min_def)
  done

lemma clamped_uint [simp]:
  "uint (ucast (word_of_nat (min m 31) :: u64) :: u32) = int (min m 31)"
  "uint (word_of_nat (min m 63) :: u64) = int (min m 63)"
proof -
  have "min m 31 < 64" "min m 63 < 128" by simp_all
  then show "uint (ucast (word_of_nat (min m 31) :: u64) :: u32) = int (min m 31)"
    "uint (word_of_nat (min m 63) :: u64) = int (min m 63)"
    by (simp_all add: unsigned_ucast_eq unsigned_of_nat take_bit_nat_eq_self take_bit_int_eq_self)
qed

lemma clamped_unat [simp]:
  "unat (ucast (word_of_nat (min m 31) :: u64) :: u32) = min m 31"
  "unat (word_of_nat (min m 63) :: u64) = min m 63"
  by (simp_all add: unat_eq_nat_uint)

lemma clamped_ok [simp]:
  "shift_ok int64_t (int (min m 63))" "shift_ok int32_t (int (min m 31))"
  by (simp_all add: shift_ok_def)

lemma carry_fold: "a < 0 \<and> push_bit n (drop_bit n a) \<noteq> a \<longleftrightarrow> sra_carry a n"
  unfolding shift_back sra_carry_def ..

lemma sra_sint:
  "n = min m 63 \<Longrightarrow> \<not> (64 \<le> m \<and> sint (w :: u64) = - 9223372036854775808) \<Longrightarrow>
     sra x (sint w) m p = dest x (word_of_int (drop_bit n (sint w))) (p\<lparr>xca := sra_carry (sint w) n\<rparr>)"
  "n = min m 31 \<Longrightarrow> \<not> (32 \<le> m \<and> sint (v :: u32) = - 2147483648) \<Longrightarrow>
     sra x (sint v) m p = dest x (word_of_int (drop_bit n (sint v))) (p\<lparr>xca := sra_carry (sint v) n\<rparr>)"
  using sra_clamp [of 63 "sint w" m] sint64_bounds [of w] sra_clamp [of 31 "sint v" m] sint32_bounds [of v]
  by (cases "m \<le> 63"; cases "m \<le> 31"; simp add: sra_def drop_bit_eq_div)+

lemma sra_agrees:
  assumes "wf_flags s" "i \<in> {PPC_INST_SRAD, PPC_INST_SRAW}"
    "i = PPC_INST_SRAD \<Longrightarrow> \<not> (64 \<le> shift_n x 128 (abs_state x s) \<and> sint (gp x 1 (abs_state x s)) = - (2 ^ 63))"
    "i = PPC_INST_SRAW \<Longrightarrow> \<not> (32 \<le> shift_n x 64 (abs_state x s) \<and> sint (gp32 x 1 (abs_state x s)) = - (2 ^ 31))"
  shows "agrees x False (ppc_shift x i (abs_state x s))
           (exec_list ce (new_lines st (recomp_shift x i st)) s)"
  apply (insert assms)
  apply (cases i; simp only: shift_unfold; (intro agrees_record)?; (simp only: clamp_lines)?)
  apply (simp_all add: run flag_int wrap_small lit_ty_def wrap_shift_back carry_fold)
  apply (simp_all add: sra_sint gp32_def gp_regs)
  apply (simp_all add: compare_run)
  done

text \<open>The immediate forms test the bits shifted out with a mask.\<close>

lemma low_mask:
  "opnd x 2 \<noteq> 0 \<Longrightarrow> unat (opnd x 2) < 64 \<Longrightarrow> ComputeMask (64 - opnd x 2) 63 = mask (unat (opnd x 2))"
proof -
  assume n: "opnd x 2 \<noteq> 0" "unat (opnd x 2) < 64"
  have p: "0 < unat (opnd x 2)" using n(1) by (simp add: unat_gt_0)
  have "unat (64 - opnd x 2) = 64 - unat (opnd x 2)"
    using n(2) by (simp add: unat_sub word_le_nat_alt)
  then have "ComputeMask (64 - opnd x 2) 63 = ppc_MASK (64 - unat (opnd x 2)) 63"
    using n p by (intro ComputeMask_MASK) simp_all
  also have "\<dots> = mask (unat (opnd x 2))"
    using n p by (intro bit_word_eqI) (auto simp: bit_ppc_MASK bit_mask_iff ppc_in_mask_def)
  finally show ?thesis .
qed

lemma sint_mod: "n \<le> LENGTH('a) \<Longrightarrow> sint (w :: 'a::len word) mod 2 ^ n = uint w mod 2 ^ n"
proof -
  assume "n \<le> LENGTH('a)"
  then have "take_bit n (sint w) = take_bit n (uint w)"
    by (intro bit_eqI) (auto simp: bit_take_bit_iff bit_sint_iff bit_uint_iff)
  then show ?thesis by (simp only: take_bit_eq_mod)
qed

lemma uint_mask: "n \<le> 64 \<Longrightarrow> uint (mask n :: u64) = mask n"
  by (rule bit_eqI) (auto simp: bit_uint_iff bit_mask_iff)

lemma mask_below: "n < 32 \<Longrightarrow> (mask n :: int) < 2 ^ 31"
proof -
  assume "n < 32"
  then have "(2 :: int) ^ n \<le> 2 ^ 31" by (intro power_increasing) simp_all
  then show ?thesis by (simp add: mask_eq_exp_minus_1)
qed

lemma mod_below: "uint (v :: u32) mod 2 ^ n \<le> uint v"
  by (rule zmod_le_nonneg_dividend) simp

lemma lost_bits_eval:
  assumes "opnd x 2 \<noteq> 0"
  shows "unat (opnd x 2) < 64 \<Longrightarrow>
      eval s (Bin Ne (Par (Bin BAnd (U64 v) (Hex (uint (ComputeMask (64 - opnd x 2) 63))))) (Lit 0))
        = Some (of_bool_int (sint (regs s v) mod 2 ^ unat (opnd x 2) \<noteq> 0))"
    "unat (opnd x 2) < 32 \<Longrightarrow>
      eval s (Bin Ne (Par (Bin BAnd (U32 v) (Hex (uint (ComputeMask (64 - opnd x 2) 63))))) (Lit 0))
        = Some (of_bool_int (sint (ucast (regs s v) :: u32) mod 2 ^ unat (opnd x 2) \<noteq> 0))"
proof -
  let ?n = "unat (opnd x 2)"
  have 1: "uint (regs s v) AND mask ?n = uint (regs s v AND mask ?n)" if "?n < 64"
    using that by (simp add: uint_mask unsigned_and_eq)
  have 2: "uint (regs s v AND mask ?n) = uint (regs s v) mod 2 ^ ?n" if "?n < 64"
    unfolding uint_and_mask [symmetric] using 1 that by simp
  have 5: "wrap uint64_t (uint (regs s v) mod 2 ^ ?n) = uint (regs s v) mod 2 ^ ?n" if "?n < 64"
    using 2 [OF that] wrap_u64_simps(1) [of "regs s v AND mask ?n"] by (simp del: wrap_u64_simps)
  show "unat (opnd x 2) < 64 \<Longrightarrow>
      eval s (Bin Ne (Par (Bin BAnd (U64 v) (Hex (uint (ComputeMask (64 - opnd x 2) 63))))) (Lit 0))
        = Some (of_bool_int (sint (regs s v) mod 2 ^ unat (opnd x 2) \<noteq> 0))"
    using assms 2 5 by (simp add: low_mask lit_ty_def sint_mod)
  assume n: "?n < 32"
  have 3: "wrap uint32_t (mask ?n) = mask ?n" "hex_ty (mask ?n) = int32_t"
    using mask_below [OF n] by (simp_all add: wrap_small hex_ty_def)
  have 4: "wrap uint32_t (uint (ucast (regs s v) :: u32) mod 2 ^ ?n) = uint (ucast (regs s v) :: u32) mod 2 ^ ?n"
    using mod_below [of "ucast (regs s v)" ?n] u32_bound [of "ucast (regs s v)"]
    by (intro wrap_in_range) (simp_all add: in_range_def)
  show "eval s (Bin Ne (Par (Bin BAnd (U32 v) (Hex (uint (ComputeMask (64 - opnd x 2) 63))))) (Lit 0))
        = Some (of_bool_int (sint (ucast (regs s v) :: u32) mod 2 ^ unat (opnd x 2) \<noteq> 0))"
    using assms n 3 4 by (simp add: low_mask lit_ty_def sint_mod uint_mask uint_and_mask)
qed

lemma asg_flag:
  "eval s e = Some (of_bool_int b) \<Longrightarrow>
     exec_list ce (Asg (xer_ca x) e # L) s
       = exec_list ce L (s\<lparr>flags := (flags s)(reg_xer x := (flags s (reg_xer x))(Fca := of_bool b))\<rparr>)"
  by (simp add: exec_simps next_of_def)

lemma eval_carry:
  assumes "eval s b = Some (of_bool_int (i mod 2 ^ k \<noteq> 0))" "ty b = int32_t" "eval s a = Some i"
    "wrap (common (ty a) int32_t) i = i"
  shows "eval s (Bin BAnd (Par (Bin Lt a (Lit 0))) (Par b)) = Some (of_bool_int (sra_carry i k))"
  using assms by (simp add: lit_ty_def sra_carry_def)

lemma carry_line:
  assumes "opnd x 2 \<noteq> 0"
  shows "unat (opnd x 2) < 64 \<Longrightarrow>
    exec_list ce (Asg (xer_ca x) (Bin BAnd (Par (Bin Lt (S64 v) (Lit 0)))
        (Par (Bin Ne (Par (Bin BAnd (U64 v) (Hex (uint (ComputeMask (64 - opnd x 2) 63))))) (Lit 0)))) # L) s
      = exec_list ce L (s\<lparr>flags := (flags s)(reg_xer x := (flags s (reg_xer x))
          (Fca := of_bool (sra_carry (sint (regs s v)) (unat (opnd x 2)))))\<rparr>)"
    "unat (opnd x 2) < 32 \<Longrightarrow>
    exec_list ce (Asg (xer_ca x) (Bin BAnd (Par (Bin Lt (S32 v) (Lit 0)))
        (Par (Bin Ne (Par (Bin BAnd (U32 v) (Hex (uint (ComputeMask (64 - opnd x 2) 63))))) (Lit 0)))) # L) s
      = exec_list ce L (s\<lparr>flags := (flags s)(reg_xer x := (flags s (reg_xer x))
          (Fca := of_bool (sra_carry (sint (ucast (regs s v) :: u32)) (unat (opnd x 2)))))\<rparr>)"
  subgoal
    apply (rule asg_flag)
    apply (rule eval_carry)
    apply (rule lost_bits_eval(1) [OF assms])
    apply assumption
    apply (simp only: ty.simps is_cmp.simps if_True)
    apply simp
    apply simp
    done
  subgoal
    apply (rule asg_flag)
    apply (rule eval_carry)
    apply (rule lost_bits_eval(2) [OF assms])
    apply assumption
    apply (simp only: ty.simps is_cmp.simps if_True)
    apply simp
    apply simp
    done
  done

lemma uint_less_unat: "uint (w :: u32) < numeral k \<longleftrightarrow> unat w < numeral k"
  unfolding uint_nat by (rule of_nat_less_numeral_iff)

lemma srai_agrees:
  assumes "wf_flags s" "i = PPC_INST_SRADI \<and> op_n x 2 < 64 \<or> i = PPC_INST_SRAWI \<and> op_n x 2 < 32"
  shows "agrees x False (ppc_shift x i (abs_state x s))
           (exec_list ce (new_lines st (recomp_shift x i st)) s)"
proof (cases "opnd x 2 = 0")
  case True
  then show ?thesis
    using assms by (cases i; simp only: shift_unfold if_True; (intro agrees_record)?)
      (simp_all add: run compare_run sra_def sra_carry_def lit_ty_def)
next
  case False
  note line = carry_line [OF False]
  from assms(2) show ?thesis
  proof (elim disjE conjE)
    assume i: "i = PPC_INST_SRADI" "op_n x 2 < 64"
    then have n: "unat (opnd x 2) < 64" by (simp add: op_n_def)
    show ?thesis
      unfolding i(1) shift_unfold if_P [OF False] line(1) [OF n]
      using n assms(1) by (simp add: run compare_run sra_def shift_ok_def drop_bit_eq_div uint_less_unat)
  next
    assume i: "i = PPC_INST_SRAWI" "op_n x 2 < 32"
    then have n: "unat (opnd x 2) < 32" by (simp add: op_n_def)
    show ?thesis
      unfolding i(1) shift_unfold if_P [OF False]
      apply (rule agrees_record)
      unfolding line(2) [OF n]
      using n assms(1) by (simp add: run compare_run sra_def shift_ok_def drop_bit_eq_div uint_less_unat)
  qed
qed

definition shift_ops_ok :: "rin \<Rightarrow> id_shift \<Rightarrow> pstate \<Rightarrow> bool" where
  "shift_ops_ok x i p =
     ((i = PPC_INST_SRADI \<longrightarrow> op_n x 2 < 64) \<and> (i = PPC_INST_SRAWI \<longrightarrow> op_n x 2 < 32)
      \<and> (i = PPC_INST_SRAD \<longrightarrow> \<not> (64 \<le> shift_n x 128 p \<and> sint (gp x 1 p) = - (2 ^ 63)))
      \<and> (i = PPC_INST_SRAW \<longrightarrow> \<not> (32 \<le> shift_n x 64 p \<and> sint (gp32 x 1 p) = - (2 ^ 31))))"

lemma recomp_shift_agrees:
  assumes "wf_flags s" "shift_ops_ok x i (abs_state x s)"
  shows "agrees x False (ppc_shift x i (abs_state x s))
           (exec_list ce (new_lines st (recomp_shift x i st)) s)"
proof -
  consider "i \<in> {PPC_INST_SLD, PPC_INST_SLW, PPC_INST_SRD, PPC_INST_SRW}"
    | "i \<in> {PPC_INST_SRAD, PPC_INST_SRAW}" | "i = PPC_INST_SRADI" | "i = PPC_INST_SRAWI"
    by (cases i) auto
  then show ?thesis
  proof cases
    case 1
    then show ?thesis by (rule recomp_shift_logical [OF assms(1)])
  next
    case 2
    then show ?thesis
      using assms(2) by (intro sra_agrees [OF assms(1)]) (auto simp: shift_ops_ok_def)
  next
    case 3
    then show ?thesis using assms(2) by (intro srai_agrees [OF assms(1)]) (auto simp: shift_ops_ok_def)
  next
    case 4
    then show ?thesis using assms(2) by (intro srai_agrees [OF assms(1)]) (auto simp: shift_ops_ok_def)
  qed
qed

end
