(* ===== verification/InsnCorrect.thy ===== *)
theory InsnCorrect
  imports ShiftCorrect EmitShape
begin

text \<open>
  The instruction as a whole: \<open>recompile_insn\<close>, with its comment line and its check, prints
  lines that do what the ISA says of the instruction, one theorem per group of the switch.
\<close>

unbundle bit_operations_syntax

definition comment_line :: "rin \<Rightarrow> cstmt" where
  "comment_line x = Txt 1 ''// {} {}'' [TS (opname x), TS (op_str x)]"

lemma exec_comment: "exec ce (comment_line x) s = Next s"
  by (simp add: comment_line_def starts_comment_def exec_simps)

lemma out_check_rc [simp]: "out (check_rc x st) = out st"
  by (simp add: check_rc_def)

lemma plain_step_out: "plain_step st st1 \<Longrightarrow> out st1 = out st @ new_lines st st1"
  by (erule plain_step_cases) (simp add: new_lines_def)

lemma recompile_insn_run:
  assumes "midAsmHooks (cfg x) (pc x) = None" "fix_id x i = i"
    "\<And>st1. \<exists>st2. recomp_switch x i st1 = Some st2 \<and> plain_step st1 st2 \<and>
        agrees x ub p (exec_list ce (new_lines st1 st2) s)"
  shows "fst (recompile_insn x i st)
    \<and> agrees x ub p (exec_list ce (new_lines st (snd (recompile_insn x i st))) s)"
proof -
  let ?st1 = "emit [comment_line x] st"
  obtain st2 where st2: "recomp_switch x i ?st1 = Some st2" "plain_step ?st1 st2"
    "agrees x ub p (exec_list ce (new_lines ?st1 st2) s)"
    using assms(3) by blast
  have r: "recompile_insn x i st = (True, check_rc x st2)"
    using assms(1,2) st2(1) by (simp add: recompile_insn_def hook_at_def comment_line_def Let_def)
  have "out st2 = out st @ comment_line x # new_lines ?st1 st2"
    using plain_step_out [OF st2(2)] by simp
  then have "new_lines st (check_rc x st2) = comment_line x # new_lines ?st1 st2"
    unfolding new_lines_def [of st] by simp
  then show ?thesis
    using r st2(3) by (simp add: exec_simps exec_comment)
qed

subsection \<open>The integer groups\<close>






text \<open>
  C9. The lines printed for the exclusive disjunctions compute the result of the ISA.
\<close>

theorem xor_instructions_correct:
  assumes "midAsmHooks (cfg x) (pc x) = None" "wf_flags s"
  shows "fst (recompile_insn x (Inst_xor i) st)
    \<and> agrees x False (ppc_xor x i (abs_state x s))
        (exec_list ce (new_lines st (snd (recompile_insn x (Inst_xor i) st))) s)"
  using recomp_xor_agrees recomp_xor_plain assms
  by (intro recompile_insn_run) (auto simp: fix_id_def)

subsection \<open>Instances\<close>

text \<open>An instruction on registers 3, 4 and 5, no register kept in a local variable.\<close>

definition ex_config :: RecompilerConfig where
  "ex_config =
     \<lparr>directoryPath = [], filePath = [], patchFilePath = [], patchedFilePath = [],
      outDirectoryPath = [], switchTableFilePath = [], switchTables = (\<lambda>_. None),
      skipLr = False, ctrAsLocalVariable = False, xerAsLocalVariable = False,
      reservedRegisterAsLocalVariable = False, skipMsr = False,
      crRegistersAsLocalVariables = False, nonArgumentRegistersAsLocalVariables = False,
      nonVolatileRegistersAsLocalVariables = False,
      restGpr14Address = 0, saveGpr14Address = 0, restFpr14Address = 0, saveFpr14Address = 0,
      restVmx14Address = 0, saveVmx14Address = 0, restVmx64Address = 0, saveVmx64Address = 0,
      longJmpAddress = 0, setJmpAddress = 0, cfgFunctions = [],
      invalidInstructions = (\<lambda>_. None), midAsmHooks = (\<lambda>_. None)\<rparr>"

definition ex_insn :: rin where
  "ex_insn =
     \<lparr>cfg = ex_config, symbols = [], fnc = \<lparr>fn_base = 0x82000000, fn_size = 64\<rparr>,
      pc = 0x82000000, opname = ''example.'', opnd = (\<lambda>k. [3, 4, 5, 6] ! k), op_str = [],
      next_raw = 0\<rparr>"

definition ex_state :: mstate where
  "ex_state =
     \<lparr>regs = (\<lambda>v. if v = Ctx (GPR 4) then 0xFFFFFFFF80000000 else 7), vregs = (\<lambda>_. 0),
      flags = (\<lambda>_ _. 0), lr = 0x82001000, msr = 0x8000, mem = (\<lambda>_. 0), tsc = 0\<rparr>"

lemma ex_insn_simps [simp]:
  "midAsmHooks (cfg ex_insn) (pc ex_insn) = None" "wf_flags ex_state"
  by (simp_all add: ex_insn_def ex_config_def ex_state_def wf_flags_def)






lemma xor_instructions_correct_witness:
  "fst (recompile_insn ex_insn (Inst_xor PPC_INST_XOR) estate0)
    \<and> agrees ex_insn False (ppc_xor ex_insn PPC_INST_XOR (abs_state ex_insn ex_state))
        (exec_list (\<lambda>_ _. None) (new_lines estate0 (snd (recompile_insn ex_insn (Inst_xor PPC_INST_XOR) estate0))) ex_state)"
  by (rule xor_instructions_correct) simp_all

end
