(* ===== verification/GuestMem.thy ===== *)
theory GuestMem
  imports Prelude
begin

text \<open>
  Memory as the host sees it: a byte at every offset from the base pointer. Multi-byte cells
  are read and written in big-endian order (the macros \<open>PPC_LOAD_U32\<close>, \<open>PPC_STORE_U32\<close> and
  their kin of \<open>ppc_context.h\<close>) or in the little-endian order of the host (pointers). The laws
  the runtime relies on are the locale \<open>cell_memory\<close>.
\<close>

type_synonym hmem = "nat \<Rightarrow> u8"

fun read_le :: "nat \<Rightarrow> hmem \<Rightarrow> nat \<Rightarrow> nat" where
  "read_le 0 m a = 0"
| "read_le (Suc n) m a = unat (m a) + 256 * read_le n m (a + 1)"

fun write_le :: "nat \<Rightarrow> hmem \<Rightarrow> nat \<Rightarrow> nat \<Rightarrow> hmem" where
  "write_le 0 m a v = m"
| "write_le (Suc n) m a v = (write_le n m (a + 1) (v div 256))(a := of_nat v)"

fun read_be :: "nat \<Rightarrow> hmem \<Rightarrow> nat \<Rightarrow> nat" where
  "read_be 0 m a = 0"
| "read_be (Suc n) m a = unat (m a) * 256 ^ n + read_be n m (a + 1)"

fun write_be :: "nat \<Rightarrow> hmem \<Rightarrow> nat \<Rightarrow> nat \<Rightarrow> hmem" where
  "write_be 0 m a v = m"
| "write_be (Suc n) m a v = (write_be n m (a + 1) v)(a := of_nat (v div 256 ^ n))"

definition PPC_LOAD_U32 :: "hmem \<Rightarrow> u32 \<Rightarrow> u32" where
  "PPC_LOAD_U32 m x = of_nat (read_be 4 m (unat x))"

definition PPC_STORE_U32 :: "hmem \<Rightarrow> u32 \<Rightarrow> u32 \<Rightarrow> hmem" where
  "PPC_STORE_U32 m x y = write_be 4 m (unat x) (unat y)"

definition PPC_LOAD_U64 :: "hmem \<Rightarrow> u32 \<Rightarrow> u64" where
  "PPC_LOAD_U64 m x = of_nat (read_be 8 m (unat x))"

definition PPC_STORE_U64 :: "hmem \<Rightarrow> u32 \<Rightarrow> u64 \<Rightarrow> hmem" where
  "PPC_STORE_U64 m x y = write_be 8 m (unat x) (unat y)"

subsection \<open>Frames\<close>

lemma read_le_cong: "(\<And>p. a \<le> p \<Longrightarrow> p < a + n \<Longrightarrow> m p = m' p) \<Longrightarrow> read_le n m a = read_le n m' a"
  by (induction n arbitrary: a) simp_all

lemma read_be_cong: "(\<And>p. a \<le> p \<Longrightarrow> p < a + n \<Longrightarrow> m p = m' p) \<Longrightarrow> read_be n m a = read_be n m' a"
  by (induction n arbitrary: a) simp_all

lemma write_le_other: "p < a \<or> a + n \<le> p \<Longrightarrow> write_le n m a v p = m p"
  by (induction n arbitrary: a v) auto

lemma write_be_other: "p < a \<or> a + n \<le> p \<Longrightarrow> write_be n m a v p = m p"
  by (induction n arbitrary: a) auto

lemma unat_byte: "unat (of_nat v :: u8) = v mod 256"
  by (simp add: unat_of_nat)

lemma read_write_le: "read_le n (write_le n m a v) a = v mod 256 ^ n"
proof (induction n arbitrary: a v)
  case (Suc n)
  have "read_le n ((write_le n m (a + 1) (v div 256))(a := of_nat v)) (a + 1)
      = read_le n (write_le n m (a + 1) (v div 256)) (a + 1)"
    by (rule read_le_cong) simp
  then show ?case
    using Suc by (simp add: unat_byte mod_mult2_eq del: fun_upd_apply) (simp add: unat_byte)
qed simp

lemma read_write_be: "read_be n (write_be n m a v) a = v mod 256 ^ n"
proof (induction n arbitrary: a)
  case (Suc n)
  have "read_be n ((write_be n m (a + 1) v)(a := of_nat (v div 256 ^ n))) (a + 1)
      = read_be n (write_be n m (a + 1) v) (a + 1)"
    by (rule read_be_cong) simp
  moreover have "v mod 256 ^ Suc n = 256 ^ n * (v div 256 ^ n mod 256) + v mod 256 ^ n"
    using mod_mult2_eq [of v "256 ^ n" 256] by (simp add: mult.commute)
  ultimately show ?case
    using Suc by (simp del: fun_upd_apply) (simp add: unat_byte mult.commute)
qed simp

subsection \<open>The interface\<close>

locale cell_memory =
  fixes width :: nat and load :: "hmem \<Rightarrow> nat \<Rightarrow> nat" and store :: "hmem \<Rightarrow> nat \<Rightarrow> nat \<Rightarrow> hmem"
  assumes load_store: "v < 256 ^ width \<Longrightarrow> load (store m a v) a = v"
    and load_other: "a + width \<le> b \<or> b + width \<le> a \<Longrightarrow> load (store m a v) b = load m b"
begin

definition store_all :: "(nat \<times> nat) list \<Rightarrow> hmem \<Rightarrow> hmem" where
  "store_all kvs m = fold (\<lambda>(a, v) m. store m a v) kvs m"

lemma store_all_simps [simp]:
  "store_all [] m = m" "store_all ((a, v) # kvs) m = store_all kvs (store m a v)"
  by (simp_all add: store_all_def)

definition cells_apart :: "(nat \<times> nat) list \<Rightarrow> bool" where
  "cells_apart kvs = sorted_wrt (\<lambda>(a, v) (b, w). a + width \<le> b \<or> b + width \<le> a) kvs"

lemma load_store_all_other:
  "(\<forall>(b, w) \<in> set kvs. a + width \<le> b \<or> b + width \<le> a) \<Longrightarrow> load (store_all kvs m) a = load m a"
  by (induction kvs arbitrary: m) (auto simp: load_other)

lemma load_store_all:
  assumes "cells_apart kvs" "(a, v) \<in> set kvs" "v < 256 ^ width"
  shows "load (store_all kvs m) a = v"
  using assms
proof (induction kvs arbitrary: m)
  case (Cons kv kvs)
  obtain b w where kv: "kv = (b, w)" by force
  show ?case
  proof (cases "(a, v) \<in> set kvs")
    case True
    then show ?thesis using Cons by (simp add: kv cells_apart_def)
  next
    case False
    then have "load (store_all kvs (store m a v)) a = load (store m a v) a"
      using Cons.prems by (intro load_store_all_other) (auto simp: kv cells_apart_def)
    then show ?thesis using False Cons.prems by (auto simp: kv load_store)
  qed
qed simp

end

interpretation word_be: cell_memory 4 "read_be 4" "write_be 4"
  by unfold_locales (auto simp: read_write_be intro!: read_be_cong write_be_other)

interpretation dword_be: cell_memory 8 "read_be 8" "write_be 8"
  by unfold_locales (auto simp: read_write_be intro!: read_be_cong write_be_other)

interpretation pointer_le: cell_memory 8 "read_le 8" "write_le 8"
  by unfold_locales (auto simp: read_write_le intro!: read_le_cong write_le_other)

lemma PPC_LOAD_STORE_U32: "PPC_LOAD_U32 (PPC_STORE_U32 m x y) x = y"
proof -
  have "unat y < 2 ^ LENGTH(32)" by (rule unsigned_less)
  then show ?thesis
    using word_be.load_store [of "unat y" m "unat x"] by (simp add: PPC_LOAD_U32_def PPC_STORE_U32_def)
qed

lemma PPC_LOAD_STORE_U64: "PPC_LOAD_U64 (PPC_STORE_U64 m x y) x = y"
proof -
  have "unat y < 2 ^ LENGTH(64)" by (rule unsigned_less)
  then show ?thesis
    using dword_be.load_store [of "unat y" m "unat x"] by (simp add: PPC_LOAD_U64_def PPC_STORE_U64_def)
qed

end
