(* ===== verification/Alloc.thy ===== *)
theory Alloc
  imports Prelude
begin

text \<open>
  The two guest memory allocators of the native runtime: the pool
  (\<open>src/native/imports/pool.cpp\<close>) and the dynamic pages of \<open>NtAllocateVirtualMemory\<close>
  (\<open>src/native/imports/virtual_memory.cpp\<close>). Both take their addresses from an atomic
  cursor that only moves forward; \<open>VirtualAlloc\<close> of the host is a parameter, its success an
  argument of the operation. What the two share is the locale \<open>bump_allocator\<close>.
\<close>

unbundle bit_operations_syntax

subsection \<open>Constants\<close>

definition kPageSize :: u32 where "kPageSize = 0x1000"
definition kPoolBase :: u32 where "kPoolBase = 0x10000000"
definition kPoolLimit :: u32 where "kPoolLimit = 0x70000000"
definition kDynamicBase :: u32 where "kDynamicBase = 0x20000000"
definition kDynamicLimit :: u32 where "kDynamicLimit = 0x50000000"
definition kStatusNoMemory :: u32 where "kStatusNoMemory = 0xC0000017"

definition AlignToPage :: "u32 \<Rightarrow> u32" where
  "AlignToPage sz = (sz + kPageSize - 1) AND NOT (kPageSize - 1)"

definition AlignUp :: "u32 \<Rightarrow> u32" where
  "AlignUp v = (v + kPageSize - 1) AND NOT (kPageSize - 1)"

subsection \<open>The pool\<close>

text \<open>
  \<open>gNextPoolAddress\<close> and \<open>gPoolAllocations\<close>, whose keys \<open>base + guest\<close> are written as the
  guest address. The result is the value left in \<open>r3\<close>.
\<close>

record pool =
  gNextPoolAddress :: u32
  gPoolAllocations :: "u32 \<rightharpoonup> u32"

definition pool0 :: pool where
  "pool0 = \<lparr>gNextPoolAddress = kPoolBase, gPoolAllocations = (\<lambda>_. None)\<rparr>"

definition ExAllocatePoolTypeWithTag :: "u32 \<Rightarrow> bool \<Rightarrow> pool \<Rightarrow> u32 \<times> pool" where
  "ExAllocatePoolTypeWithTag r4 ok p =
     (let committedSize = AlignToPage (if r4 = 0 then 1 else r4);
          guestAddress = gNextPoolAddress p;
          p1 = p\<lparr>gNextPoolAddress := gNextPoolAddress p + committedSize\<rparr>
      in if guestAddress > kPoolLimit \<or> committedSize > kPoolLimit - guestAddress then (0, p1)
         else if \<not> ok then (0, p1)
         else (guestAddress,
               p1\<lparr>gPoolAllocations := (gPoolAllocations p1)(guestAddress \<mapsto> committedSize)\<rparr>))"

text \<open>The pages that \<open>VirtualFree\<close> decommits, if any.\<close>

definition ExFreePool :: "u32 \<Rightarrow> pool \<Rightarrow> (u32 \<times> u32) option \<times> pool" where
  "ExFreePool r3 p =
     (case gPoolAllocations p r3 of
        None \<Rightarrow> (None, p)
      | Some committedSize \<Rightarrow>
          (Some (r3, committedSize), p\<lparr>gPoolAllocations := (gPoolAllocations p)(r3 := None)\<rparr>))"

subsection \<open>Dynamic pages\<close>

text \<open>
  \<open>NtAllocateVirtualMemory\<close> on the two words its arguments point to: the status left in
  \<open>r3\<close>, and the words written back on success.
\<close>

definition NtAllocateVirtualMemory ::
  "u32 \<Rightarrow> u32 \<Rightarrow> bool \<Rightarrow> u32 \<Rightarrow> (u32 \<times> (u32 \<times> u32) option) \<times> u32" where
  "NtAllocateVirtualMemory requestedAddress requestedSize ok gNextVirtualAddress =
     (if requestedSize = 0 then ((kStatusNoMemory, None), gNextVirtualAddress)
      else
        let pageOffset = requestedAddress AND (kPageSize - 1);
            committedSize = AlignUp (requestedSize + pageOffset);
            fresh = (requestedAddress = 0);
            guestAddress = (if fresh then gNextVirtualAddress
                            else requestedAddress AND NOT (kPageSize - 1));
            next1 = (if fresh then gNextVirtualAddress + committedSize else gNextVirtualAddress)
        in if fresh \<and> (guestAddress \<ge> kDynamicLimit \<or> committedSize > kDynamicLimit - guestAddress)
           then ((kStatusNoMemory, None), next1)
           else if \<not> ok then ((kStatusNoMemory, None), next1)
           else ((0, Some (guestAddress, committedSize)), next1))"

subsection \<open>Page arithmetic\<close>

lemma and_not_mask_unat: "unat (w AND NOT (mask k) :: u32) = unat w div 2 ^ k * 2 ^ k"
proof -
  have "w AND NOT (mask k) = push_bit k (drop_bit k w)"
    by (rule bit_word_eqI) (auto simp: bit_simps)
  moreover have "push_bit k (drop_bit k (unat w)) \<le> unat w"
    by (simp add: push_bit_eq_mult drop_bit_eq_div)
  moreover have "unat w < 2 ^ 32" using unsigned_less [of w] by simp
  ultimately have "unat (w AND NOT (mask k)) = push_bit k (drop_bit k (unat w))"
    by (simp add: unsigned_push_bit_eq unsigned_drop_bit_eq take_bit_nat_eq_self)
  then show ?thesis by (simp add: push_bit_eq_mult drop_bit_eq_div)
qed

lemma page_mask: "kPageSize - 1 = mask 12"
  by (simp add: kPageSize_def mask_eq_exp_minus_1)

lemma AlignUp_eq: "AlignUp = AlignToPage"
  by (simp add: fun_eq_iff AlignUp_def AlignToPage_def)

lemma AlignToPage_unat:
  "unat (AlignToPage n) = (unat n + 4095) mod 4294967296 div 4096 * 4096"
proof -
  have e: "n + kPageSize - 1 = n + 4095" by (simp add: kPageSize_def)
  have "unat (n + 4095) = (unat n + 4095) mod 4294967296"
    by (simp add: unat_word_ariths)
  then show ?thesis
    unfolding AlignToPage_def e page_mask and_not_mask_unat by simp
qed

lemma AlignToPage_aligned: "unat (AlignToPage n) mod 4096 = 0"
  unfolding AlignToPage_unat by simp

lemma AlignToPage_enough:
  "unat n + 4095 < 4294967296 \<Longrightarrow> unat n \<le> unat (AlignToPage n) \<and> unat (AlignToPage n) < unat n + 4096"
  unfolding AlignToPage_unat using div_mult_mod_eq [of "unat n + 4095" 4096] mod_less_divisor [of 4096 "unat n + 4095"]
  by (simp add: mod_less del: mod_less_divisor) linarith
subsection \<open>What a bump allocator promises\<close>

text \<open>
  A request either fails or takes the block at the cursor, and always moves the cursor by
  the size of the block. As long as the cursor does not wrap around, the blocks handed out
  by any sequence of requests are in order and do not overlap.
\<close>

locale bump_allocator =
  fixes cursor :: "'s \<Rightarrow> u32" and lo :: u32 and hi :: u32 and need :: "'r \<Rightarrow> u32"
    and alloc :: "'r \<Rightarrow> bool \<Rightarrow> 's \<Rightarrow> u32 option \<times> 's"
  assumes cursor_step: "cursor (snd (alloc r ok s)) = cursor s + need r"
    and alloc_at: "fst (alloc r ok s) = Some a \<Longrightarrow> a = cursor s \<and> unat a + unat (need r) \<le> unat hi"
    and alloc_works: "lo \<le> cursor s \<Longrightarrow> ok \<Longrightarrow> 0 < need r \<Longrightarrow> unat (cursor s) + unat (need r) \<le> unat hi \<Longrightarrow>
        fst (alloc r ok s) = Some (cursor s)"
begin

fun blocks :: "('r \<times> bool) list \<Rightarrow> 's \<Rightarrow> (u32 \<times> u32) list" where
  "blocks [] s = []"
| "blocks ((r, ok) # rs) s =
     (case fst (alloc r ok s) of None \<Rightarrow> [] | Some a \<Rightarrow> [(a, need r)]) @ blocks rs (snd (alloc r ok s))"

definition total :: "('r \<times> bool) list \<Rightarrow> nat" where
  "total rs = sum_list (map (unat \<circ> need \<circ> fst) rs)"

lemma cursor_advance:
  "unat (cursor s) + unat (need r) < 2 ^ 32 \<Longrightarrow>
     unat (cursor (snd (alloc r ok s))) = unat (cursor s) + unat (need r)"
  by (simp add: cursor_step unat_word_ariths)

lemma blocks_from:
  "unat (cursor s) + total rs < 2 ^ 32 \<Longrightarrow> (a, n) \<in> set (blocks rs s) \<Longrightarrow>
     unat (cursor s) \<le> unat a \<and> unat a + unat n \<le> unat hi"
proof (induction rs arbitrary: s)
  case (Cons q rs)
  obtain r ok where q: "q = (r, ok)" by force
  have "unat (cursor s) + unat (need r) < 2 ^ 32" using Cons.prems q by (simp add: total_def)
  then have c: "unat (cursor (snd (alloc r ok s))) = unat (cursor s) + unat (need r)"
    by (rule cursor_advance)
  show ?case
    using Cons.IH [of "snd (alloc r ok s)"] Cons.prems c alloc_at [of r ok s]
    by (cases "fst (alloc r ok s)") (auto simp: q total_def)
qed simp

lemma blocks_in_order:
  "unat (cursor s) + total rs < 2 ^ 32 \<Longrightarrow>
     sorted_wrt (\<lambda>(a, n) (b, m). unat a + unat n \<le> unat b) (blocks rs s)"
proof (induction rs arbitrary: s)
  case (Cons q rs)
  obtain r ok where q: "q = (r, ok)" by force
  have n: "unat (cursor s) + unat (need r) < 2 ^ 32" using Cons.prems q by (simp add: total_def)
  then have c: "unat (cursor (snd (alloc r ok s))) = unat (cursor s) + unat (need r)"
    by (rule cursor_advance)
  then have t: "unat (cursor (snd (alloc r ok s))) + total rs < 2 ^ 32"
    using Cons.prems q by (simp add: total_def)
  show ?case
    using Cons.IH [OF t] blocks_from [OF t] alloc_at [of r ok s] c
    by (cases "fst (alloc r ok s)") (auto simp: q)
qed simp

end

text \<open>An allocator of whole pages.\<close>

locale page_allocator = bump_allocator +
  assumes need_aligned: "unat (need r) mod 4096 = 0"
begin

lemma blocks_aligned:
  "unat (cursor s) + total rs < 2 ^ 32 \<Longrightarrow> unat (cursor s) mod 4096 = 0 \<Longrightarrow> (a, n) \<in> set (blocks rs s) \<Longrightarrow>
     unat a mod 4096 = 0 \<and> unat n mod 4096 = 0"
proof (induction rs arbitrary: s)
  case (Cons q rs)
  obtain r ok where q: "q = (r, ok)" by force
  have n: "unat (cursor s) + unat (need r) < 2 ^ 32" using Cons.prems q by (simp add: total_def)
  then have c: "unat (cursor (snd (alloc r ok s))) = unat (cursor s) + unat (need r)"
    by (rule cursor_advance)
  have m: "unat (cursor (snd (alloc r ok s))) mod 4096 = 0"
    using Cons.prems(2) need_aligned [of r] unfolding c by (simp add: mod_add_eq [symmetric])
  show ?case
    using Cons.IH [OF _ m] Cons.prems c alloc_at [of r ok s] need_aligned [of r]
    by (cases "fst (alloc r ok s)") (auto simp: q total_def)
qed simp

end

subsection \<open>The two providers\<close>

definition pool_need :: "u32 \<Rightarrow> u32" where
  "pool_need r4 = AlignToPage (if r4 = 0 then 1 else r4)"

definition pool_alloc :: "u32 \<Rightarrow> bool \<Rightarrow> pool \<Rightarrow> u32 option \<times> pool" where
  "pool_alloc r4 ok p =
     (let q = ExAllocatePoolTypeWithTag r4 ok p in (if fst q = 0 then None else Some (fst q), snd q))"

definition dynamic_alloc :: "u32 \<Rightarrow> bool \<Rightarrow> u32 \<Rightarrow> u32 option \<times> u32" where
  "dynamic_alloc sz ok next1 =
     (let q = NtAllocateVirtualMemory 0 (if sz = 0 then 1 else sz) ok next1
      in (map_option fst (snd (fst q)), snd q))"

lemma below_limit:
  "\<not> h < a \<Longrightarrow> \<not> h - (a :: u32) < c \<Longrightarrow> unat a + unat c \<le> unat h"
  "\<not> h \<le> a \<Longrightarrow> \<not> h - (a :: u32) < c \<Longrightarrow> unat a + unat c \<le> unat h"
  by (auto simp: not_less not_le word_le_nat_alt word_less_nat_alt unat_sub)

lemma within_limit:
  "unat a + unat c \<le> unat h \<Longrightarrow> \<not> (a > h \<or> c > h - (a :: u32))"
  by (auto simp: not_less word_le_nat_alt unat_sub)

lemma dynamic_end_zero: "pageOffset = (0 :: u32) AND (kPageSize - 1) \<Longrightarrow> pageOffset = 0"
  by simp

interpretation pages: page_allocator gNextPoolAddress kPoolBase kPoolLimit pool_need pool_alloc
proof unfold_locales
  fix r ok and s :: pool and a
  show "gNextPoolAddress (snd (pool_alloc r ok s)) = gNextPoolAddress s + pool_need r"
    by (simp add: pool_alloc_def ExAllocatePoolTypeWithTag_def pool_need_def Let_def)
  assume "fst (pool_alloc r ok s) = Some a"
  then show "a = gNextPoolAddress s \<and> unat a + unat (pool_need r) \<le> unat kPoolLimit"
    by (auto intro!: below_limit(1) simp: pool_alloc_def ExAllocatePoolTypeWithTag_def pool_need_def Let_def split: if_splits)
next
  fix r ok and s :: pool
  assume "kPoolBase \<le> gNextPoolAddress s" ok "0 < pool_need r"
    "unat (gNextPoolAddress s) + unat (pool_need r) \<le> unat kPoolLimit"
  moreover from this(1) have "gNextPoolAddress s \<noteq> 0" by (auto simp: kPoolBase_def)
  ultimately show "fst (pool_alloc r ok s) = Some (gNextPoolAddress s)"
    using within_limit [of "gNextPoolAddress s" "pool_need r" kPoolLimit]
    by (simp add: pool_alloc_def ExAllocatePoolTypeWithTag_def pool_need_def [symmetric] Let_def)
next
  fix r show "unat (pool_need r) mod 4096 = 0" unfolding pool_need_def by (rule AlignToPage_aligned)
qed

interpretation dynamic: page_allocator "\<lambda>next1. next1" kDynamicBase kDynamicLimit pool_need dynamic_alloc
proof unfold_locales
  fix r ok s and a :: u32
  show "snd (dynamic_alloc r ok s) = s + pool_need r"
    by (simp add: dynamic_alloc_def NtAllocateVirtualMemory_def pool_need_def AlignUp_eq Let_def)
  assume "fst (dynamic_alloc r ok s) = Some a"
  then show "a = s \<and> unat a + unat (pool_need r) \<le> unat kDynamicLimit"
    by (auto intro!: below_limit(2) simp: dynamic_alloc_def NtAllocateVirtualMemory_def pool_need_def AlignUp_eq Let_def
        split: if_splits)
next
  fix r ok s
  assume "kDynamicBase \<le> s" ok "0 < pool_need r" "unat s + unat (pool_need r) \<le> unat kDynamicLimit"
  moreover from this(3,4) have "\<not> s \<ge> kDynamicLimit" by (simp add: word_less_nat_alt word_le_nat_alt)
  ultimately show "fst (dynamic_alloc r ok s) = Some s"
    using within_limit [of s "pool_need r" kDynamicLimit]
    by (simp add: dynamic_alloc_def NtAllocateVirtualMemory_def pool_need_def AlignUp_eq Let_def)
next
  fix r show "unat (pool_need r) mod 4096 = 0" unfolding pool_need_def by (rule AlignToPage_aligned)
qed

subsection \<open>The pool over time\<close>

text \<open>
  The pools that allocations (whatever the host answers) and frees can reach while the cursor
  does not wrap around.
\<close>

inductive pool_reachable :: "pool \<Rightarrow> bool" where
  pool_start: "pool_reachable pool0"
| pool_allocate: "pool_reachable p \<Longrightarrow> unat (gNextPoolAddress p) + unat (pool_need r4) < 2 ^ 32 \<Longrightarrow>
    pool_reachable (snd (ExAllocatePoolTypeWithTag r4 ok p))"
| pool_free: "pool_reachable p \<Longrightarrow> pool_reachable (snd (ExFreePool r3 p))"

text \<open>Every live block lies in the pool, below the cursor, on page boundaries.\<close>

definition live_ok :: "pool \<Rightarrow> u32 \<Rightarrow> u32 \<Rightarrow> bool" where
  "live_ok p a n =
     (unat kPoolBase \<le> unat a \<and> unat a + unat n \<le> unat (gNextPoolAddress p)
      \<and> unat a + unat n \<le> unat kPoolLimit \<and> unat a mod 4096 = 0 \<and> unat n mod 4096 = 0)"

definition apart :: "u32 \<Rightarrow> u32 \<Rightarrow> u32 \<Rightarrow> u32 \<Rightarrow> bool" where
  "apart a n b m = (unat a + unat n \<le> unat b \<or> unat b + unat m \<le> unat a)"

definition pool_inv :: "pool \<Rightarrow> bool" where
  "pool_inv p =
     (unat kPoolBase \<le> unat (gNextPoolAddress p) \<and> unat (gNextPoolAddress p) mod 4096 = 0
      \<and> (\<forall>a n. gPoolAllocations p a = Some n \<longrightarrow> live_ok p a n)
      \<and> (\<forall>a n b m. gPoolAllocations p a = Some n \<longrightarrow> gPoolAllocations p b = Some m \<longrightarrow> a \<noteq> b \<longrightarrow> apart a n b m))"

lemma pool_need_aligned: "unat (pool_need r) mod 4096 = 0"
  unfolding pool_need_def by (rule AlignToPage_aligned)

lemma pool_inv_allocate:
  assumes "pool_inv p" "unat (gNextPoolAddress p) + unat (pool_need r4) < 2 ^ 32"
  shows "pool_inv (snd (ExAllocatePoolTypeWithTag r4 ok p))"
proof -
  let ?g = "gNextPoolAddress p" and ?n = "pool_need r4"
  let ?p = "p\<lparr>gNextPoolAddress := ?g + ?n\<rparr>"
  have c: "unat (?g + ?n) = unat ?g + unat ?n" using assms(2) by (simp add: unat_word_ariths)
  have al: "unat ?g mod 4096 = 0" using assms(1) by (simp add: pool_inv_def)
  have m: "unat (?g + ?n) mod 4096 = 0"
    unfolding c using al pool_need_aligned [of r4] by (simp add: mod_add_eq [symmetric])
  have grown: "pool_inv ?p"
    using assms(1) m c by (fastforce simp: pool_inv_def live_ok_def)
  have added: "pool_inv (?p\<lparr>gPoolAllocations := (gPoolAllocations ?p)(?g \<mapsto> ?n)\<rparr>)"
    if "unat ?g + unat ?n \<le> unat kPoolLimit"
  proof -
    have new: "live_ok ?p ?g ?n"
      using assms(1) that al pool_need_aligned [of r4] c by (auto simp: live_ok_def pool_inv_def)
    have old: "live_ok p a k" "live_ok ?p a k" if "gPoolAllocations p a = Some k" for a k
      using assms(1) grown that by (auto simp: pool_inv_def)
    have "apart a k ?g ?n" "apart ?g ?n a k" if "gPoolAllocations p a = Some k" for a k
      using old(1) [OF that] by (auto simp: live_ok_def apart_def)
    then show ?thesis
      using grown new old by (auto simp: pool_inv_def live_ok_def)
  qed
  show ?thesis
    using grown added below_limit(1) [of kPoolLimit ?g ?n]
    by (auto simp: ExAllocatePoolTypeWithTag_def pool_need_def [symmetric] Let_def)
qed

lemma pool_inv_free: "pool_inv p \<Longrightarrow> pool_inv (snd (ExFreePool r3 p))"
  by (auto simp: pool_inv_def live_ok_def ExFreePool_def split: option.splits)

lemma pool_reachable_inv: "pool_reachable p \<Longrightarrow> pool_inv p"
proof (induction rule: pool_reachable.induct)
  case pool_start
  show ?case by (simp add: pool_inv_def pool0_def kPoolBase_def)
next
  case pool_allocate
  then show ?case by (intro pool_inv_allocate)
next
  case pool_free
  then show ?case by (intro pool_inv_free)
qed

subsection \<open>Properties\<close>

text \<open>
  C10. Whatever sequence of allocations and frees has run, and whatever the host answered, the
  live blocks of the pool lie between the pool's limits on page boundaries and do not overlap,
  as long as the cursor has not wrapped around.
\<close>

theorem pool_blocks_disjoint:
  assumes "pool_reachable p" "gPoolAllocations p a = Some n" "gPoolAllocations p b = Some m" "a \<noteq> b"
  shows "apart a n b m \<and> unat kPoolBase \<le> unat a \<and> unat a + unat n \<le> unat kPoolLimit
    \<and> unat a mod 4096 = 0"
proof -
  have "pool_inv p" by (rule pool_reachable_inv [OF assms(1)])
  then have "live_ok p a n" "apart a n b m" using assms(2-4) by (simp_all add: pool_inv_def)
  then show ?thesis by (simp add: live_ok_def)
qed

definition ex_pool :: pool where
  "ex_pool = snd (ExAllocatePoolTypeWithTag 5 True (snd (ExAllocatePoolTypeWithTag 0x1800 True pool0)))"

lemma ex_pool_reachable: "pool_reachable ex_pool"
proof -
  have "gNextPoolAddress (snd (ExAllocatePoolTypeWithTag 0x1800 True pool0)) = 0x10002000" by code_simp
  moreover have "pool_reachable (snd (ExAllocatePoolTypeWithTag 0x1800 True pool0))"
    by (rule pool_allocate [OF pool_start])
      (simp add: pool0_def kPoolBase_def pool_need_def AlignToPage_unat)
  ultimately show ?thesis
    unfolding ex_pool_def by - (rule pool_allocate; simp add: pool_need_def AlignToPage_unat)
qed

lemma pool_blocks_disjoint_witness: "apart 0x10000000 0x2000 0x10002000 0x1000"
proof -
  have "gPoolAllocations ex_pool 0x10000000 = Some 0x2000" "gPoolAllocations ex_pool 0x10002000 = Some 0x1000"
    by code_simp+
  then show ?thesis using pool_blocks_disjoint [OF ex_pool_reachable] by simp
qed

text \<open>
  A pool allocation and the free of the block it returned leave the table of allocations as
  it was, and the free decommits exactly the pages that the allocation committed.
\<close>

lemma pool_allocate_free:
  assumes "fst (ExAllocatePoolTypeWithTag r4 ok p) = a" "a \<noteq> 0" "gPoolAllocations p a = None"
  shows "fst (ExFreePool a (snd (ExAllocatePoolTypeWithTag r4 ok p))) = Some (a, pool_need r4)
    \<and> gPoolAllocations (snd (ExFreePool a (snd (ExAllocatePoolTypeWithTag r4 ok p)))) = gPoolAllocations p"
  using assms
  by (auto simp: ExAllocatePoolTypeWithTag_def ExFreePool_def pool_need_def Let_def fun_eq_iff split: if_splits)

lemma pool_allocate_free_witness:
  "fst (ExFreePool 0x10000000 (snd (ExAllocatePoolTypeWithTag 0x1800 True pool0))) = Some (0x10000000, 0x2000)"
proof -
  have 1: "fst (ExAllocatePoolTypeWithTag 0x1800 True pool0) = 0x10000000" by code_simp
  have 2: "pool_need 0x1800 = 0x2000" by code_simp
  show ?thesis using pool_allocate_free [OF 1] 2 by (simp add: pool0_def)
qed

text \<open>
  The blocks that a sequence of \<open>NtAllocateVirtualMemory\<close> requests for fresh memory returns
  are in ascending order without overlap, inside the dynamic range and on page boundaries, as
  long as the cursor does not wrap around.
\<close>

lemma dynamic_blocks_disjoint:
  assumes "unat kDynamicBase + dynamic.total rs < 2 ^ 32"
  shows "sorted_wrt (\<lambda>(a, n) (b, m). unat a + unat n \<le> unat b) (dynamic.blocks rs kDynamicBase)
    \<and> (\<forall>(a, n) \<in> set (dynamic.blocks rs kDynamicBase).
          unat kDynamicBase \<le> unat a \<and> unat a + unat n \<le> unat kDynamicLimit
          \<and> unat a mod 4096 = 0 \<and> unat n mod 4096 = 0)"
proof -
  have al: "unat kDynamicBase mod 4096 = 0" by (simp add: kDynamicBase_def)
  have "unat kDynamicBase \<le> unat a \<and> unat a + unat n \<le> unat kDynamicLimit
      \<and> unat a mod 4096 = 0 \<and> unat n mod 4096 = 0"
    if "(a, n) \<in> set (dynamic.blocks rs kDynamicBase)" for a n
    using dynamic.blocks_from [OF assms that] dynamic.blocks_aligned [OF assms al that] by simp
  then show ?thesis using dynamic.blocks_in_order [OF assms] by blast
qed

lemma dynamic_blocks_disjoint_witness:
  "sorted_wrt (\<lambda>(a, n) (b, m). unat a + unat n \<le> unat b)
     (dynamic.blocks [(5, True), (0x1001, True)] kDynamicBase)"
  using dynamic_blocks_disjoint [of "[(5, True), (0x1001, True)]"]
  by (simp add: dynamic.total_def kDynamicBase_def pool_need_def AlignToPage_unat)

subsection \<open>Where the pool goes wrong\<close>

text \<open>
  The cursor moves by the size of a request even when the request fails: one failing request
  of nearly 4 GB rewinds it, and the next block is one that is still live.
\<close>

lemma pool_cursor_wraps:
  "let p1 = snd (ExAllocatePoolTypeWithTag 0x1000 True pool0);
       r2 = ExAllocatePoolTypeWithTag 0xFFFFF000 True p1;
       r3 = ExAllocatePoolTypeWithTag 0x1000 True (snd r2)
   in gPoolAllocations p1 0x10000000 = Some 0x1000 \<and> fst r2 = 0 \<and> fst r3 = 0x10000000"
  by code_simp

text \<open>The ranges of the two allocators overlap, so both hand out the same addresses.\<close>

lemma pool_overlaps_dynamic:
  "fst (ExAllocatePoolTypeWithTag 0x1000 True
      (snd (ExAllocatePoolTypeWithTag 0x10000000 True pool0))) = kDynamicBase
   \<and> fst (NtAllocateVirtualMemory 0 0x1000 True kDynamicBase) = (0, Some (kDynamicBase, 0x1000))"
  by code_simp

end
