(* ===== verification/Runtime.thy ===== *)
theory Runtime
  imports GuestMem Alloc
begin

text \<open>
  The native runtime of the recompiled program (\<open>src/native\<close>): the address space and its
  function table (\<open>memory.cpp\<close>), the memory handler of \<open>virtual_memory.cpp\<close> on guest memory,
  critical sections (\<open>imports/sync.cpp\<close>), the reporting of unimplemented imports
  (\<open>imports/fallback.cpp\<close>), the small kernel imports and the start of the program
  (\<open>main.cpp\<close>). What the host system answers is an argument.
\<close>

unbundle bit_operations_syntax

subsection \<open>The address space\<close>

text \<open>The constants of the generated \<open>ppc_config.h\<close>.\<close>

record image_config =
  PPC_IMAGE_BASE :: nat
  PPC_IMAGE_SIZE :: nat
  PPC_CODE_BASE :: nat
  PPC_CODE_SIZE :: nat
  PPC_ENTRY_POINT :: nat

definition kAddressSpaceSize :: nat where "kAddressSpaceSize = 2 ^ 32"
definition kStackBase :: u32 where "kStackBase = 0x70000000"
definition kStackSize :: nat where "kStackSize = 1024 * 1024"
definition kStackReserve :: u32 where "kStackReserve = 0x100"
definition kKernelDataBase :: u32 where "kKernelDataBase = 0x60000000"
definition kKernelDataSize :: nat where "kKernelDataSize = 0x1000"
definition kXexExecutableModuleImport :: u32 where "kXexExecutableModuleImport = 0x820007A0"
definition kXexExecutableModuleDescriptor :: u32 where "kXexExecutableModuleDescriptor = 0x93010100"

definition kFunctionTableSize :: "image_config \<Rightarrow> nat" where
  "kFunctionTableSize c = PPC_CODE_SIZE c * 2"

text \<open>
  The regions the constructor commits, in order; \<open>commit\<close> is \<open>VirtualAlloc\<close> with
  \<open>MEM_COMMIT\<close> at an offset of the reservation, \<open>None\<close> the null base pointer.
\<close>

definition memory_regions :: "image_config \<Rightarrow> (nat \<times> nat) list" where
  "memory_regions c =
     [(PPC_IMAGE_BASE c, PPC_IMAGE_SIZE c),
      (PPC_IMAGE_BASE c + PPC_IMAGE_SIZE c, kFunctionTableSize c),
      (unat kStackBase, kStackSize),
      (unat kKernelDataBase, kKernelDataSize)]"

definition NativeMemory :: "bool \<Rightarrow> (nat \<times> nat \<Rightarrow> bool) \<Rightarrow> image_config \<Rightarrow> (nat \<times> nat) list option" where
  "NativeMemory reserve commit c =
     (if reserve \<and> list_all commit (memory_regions c) then Some (memory_regions c) else None)"

definition stackTop :: u32 where
  "stackTop = kStackBase + of_nat kStackSize - kStackReserve"

text \<open>
  \<open>loadImage\<close>: the whole file must have the size of the image; its bytes replace the image.
  The file is \<open>None\<close> when it cannot be opened.
\<close>

definition loadImage :: "image_config \<Rightarrow> u8 list option \<Rightarrow> hmem \<Rightarrow> bool \<times> hmem" where
  "loadImage c stream m =
     (case stream of
        None \<Rightarrow> (False, m)
      | Some bs \<Rightarrow>
          if length bs \<noteq> PPC_IMAGE_SIZE c then (False, m)
          else (True, \<lambda>p. if PPC_IMAGE_BASE c \<le> p \<and> p < PPC_IMAGE_BASE c + length bs
                          then bs ! (p - PPC_IMAGE_BASE c) else m p))"

definition initializeDataImports :: "hmem \<Rightarrow> bool \<times> hmem" where
  "initializeDataImports m =
     (if PPC_LOAD_U32 m kXexExecutableModuleImport \<noteq> kXexExecutableModuleDescriptor then (False, m)
      else (True, PPC_STORE_U32 m kXexExecutableModuleImport kKernelDataBase))"

subsection \<open>The function table\<close>

text \<open>
  A mapping has the guest address and the host pointer; a null pointer ends the array. A lookup outside the code reads
  memory that is no part of the table: \<open>None\<close>.
\<close>

definition slot :: "image_config \<Rightarrow> nat \<Rightarrow> nat" where
  "slot c guest = PPC_IMAGE_BASE c + PPC_IMAGE_SIZE c + (guest - PPC_CODE_BASE c) * 2"

fun initializeFunctionTable :: "image_config \<Rightarrow> (u64 \<times> u64) list \<Rightarrow> nat \<Rightarrow> hmem \<Rightarrow> nat \<times> hmem" where
  "initializeFunctionTable c [] count m = (count, m)"
| "initializeFunctionTable c ((guest64, host) # mappings) count m =
     (if host = 0 then (count, m)
      else
        let guest = unat (ucast guest64 :: u32)
        in if guest < PPC_CODE_BASE c \<or> guest \<ge> PPC_CODE_BASE c + PPC_CODE_SIZE c
           then initializeFunctionTable c mappings (count + 1) m
           else initializeFunctionTable c mappings (count + 1) (write_le 8 m (slot c guest) (unat host)))"

definition PPC_LOOKUP_FUNC :: "image_config \<Rightarrow> hmem \<Rightarrow> u32 \<Rightarrow> u64 option" where
  "PPC_LOOKUP_FUNC c m y =
     (if PPC_CODE_BASE c \<le> unat y \<and> unat y < PPC_CODE_BASE c + PPC_CODE_SIZE c
      then Some (of_nat (read_le 8 m (slot c (unat y)))) else None)"

text \<open>The slots that the loop writes, in order.\<close>

definition table_writes :: "image_config \<Rightarrow> (u64 \<times> u64) list \<Rightarrow> (nat \<times> nat) list" where
  "table_writes c mappings =
     map (\<lambda>(g, h). (slot c (unat (ucast g :: u32)), unat h))
       (filter (\<lambda>(g, h). PPC_CODE_BASE c \<le> unat (ucast g :: u32)
                        \<and> unat (ucast g :: u32) < PPC_CODE_BASE c + PPC_CODE_SIZE c)
          (takeWhile (\<lambda>(g, h). h \<noteq> 0) mappings))"

lemma table_is_store_all:
  "snd (initializeFunctionTable c mappings n m) = pointer_le.store_all (table_writes c mappings) m"
  by (induction c mappings n m rule: initializeFunctionTable.induct)
    (auto simp: table_writes_def Let_def not_le)

lemma table_count:
  "fst (initializeFunctionTable c mappings n m) = n + length (takeWhile (\<lambda>(g, h). h \<noteq> 0) mappings)"
  by (induction c mappings n m rule: initializeFunctionTable.induct) (auto simp: Let_def)

text \<open>Guest functions are words: their addresses are distinct and four bytes apart.\<close>

definition functions_apart :: "(u64 \<times> u64) list \<Rightarrow> bool" where
  "functions_apart mappings =
     sorted_wrt (\<lambda>(g, h) (g', h'). (ucast g :: u32) \<noteq> ucast g'
         \<and> unat (ucast g :: u32) mod 4 = 0 \<and> unat (ucast g' :: u32) mod 4 = 0) mappings"

lemma word_addresses_apart:
  "a mod 4 = 0 \<Longrightarrow> b mod 4 = 0 \<Longrightarrow> (a :: nat) \<noteq> b \<Longrightarrow> a + 4 \<le> b \<or> b + 4 \<le> a"
  by presburger

lemma slots_apart:
  assumes "PPC_CODE_BASE c \<le> a" "PPC_CODE_BASE c \<le> b" "a + 4 \<le> b \<or> b + 4 \<le> a"
  shows "slot c a + 8 \<le> slot c b \<or> slot c b + 8 \<le> slot c a"
  using assms by (auto simp: slot_def)

lemma sorted_wrt_takeWhile: "sorted_wrt P xs \<Longrightarrow> sorted_wrt P (takeWhile q xs)"
  by (metis sorted_wrt_append takeWhile_dropWhile_id)

lemma sorted_wrt_filter_imp: "sorted_wrt P xs \<Longrightarrow> sorted_wrt P (filter q xs)"
  by (induction xs) auto

lemma table_cells_apart:
  assumes "functions_apart mappings"
  shows "pointer_le.cells_apart (table_writes c mappings)"
proof -
  let ?q = "\<lambda>(g, h). PPC_CODE_BASE c \<le> unat (ucast g :: u32)
      \<and> unat (ucast g :: u32) < PPC_CODE_BASE c + PPC_CODE_SIZE c"
  let ?l = "filter ?q (takeWhile (\<lambda>(g, h). h \<noteq> 0) mappings)"
  have "functions_apart ?l"
    using assms unfolding functions_apart_def by (intro sorted_wrt_filter_imp sorted_wrt_takeWhile)
  moreover have "\<forall>x \<in> set ?l. ?q x" by simp
  ultimately have "sorted_wrt (\<lambda>(g, h) (g', h').
      slot c (unat (ucast g :: u32)) + 8 \<le> slot c (unat (ucast g' :: u32))
      \<or> slot c (unat (ucast g' :: u32)) + 8 \<le> slot c (unat (ucast g :: u32))) ?l"
    unfolding functions_apart_def
  proof (elim sorted_wrt_mono_rel [rotated])
    fix x y assume "\<forall>x \<in> set ?l. ?q x" "x \<in> set ?l" "y \<in> set ?l"
    then have "?q x" "?q y" by blast+
    moreover assume "(case x of (g, h) \<Rightarrow> \<lambda>(g', h'). (ucast g :: u32) \<noteq> ucast g'
        \<and> unat (ucast g :: u32) mod 4 = 0 \<and> unat (ucast g' :: u32) mod 4 = 0) y"
    ultimately show "(case x of (g, h) \<Rightarrow> \<lambda>(g', h').
        slot c (unat (ucast g :: u32)) + 8 \<le> slot c (unat (ucast g' :: u32))
        \<or> slot c (unat (ucast g' :: u32)) + 8 \<le> slot c (unat (ucast g :: u32))) y"
      by (cases x; cases y) (simp only: split_beta fst_conv snd_conv, intro slots_apart word_addresses_apart,
          auto simp: word_unat_eq_iff)
  qed
  then show ?thesis
    unfolding pointer_le.cells_apart_def table_writes_def sorted_wrt_map
    by (elim sorted_wrt_mono_rel [rotated]) (auto simp: split_beta)
qed

subsection \<open>Allocation on guest memory\<close>

text \<open>
  \<open>NtAllocateVirtualMemory\<close> with its two argument pointers: the request is read from guest
  memory, and written back on success, the address before the size.
\<close>

definition imp_NtAllocateVirtualMemory ::
  "u32 \<Rightarrow> u32 \<Rightarrow> bool \<Rightarrow> hmem \<times> u32 \<Rightarrow> u32 \<times> hmem \<times> u32" where
  "imp_NtAllocateVirtualMemory addressPointer sizePointer ok st =
     (case NtAllocateVirtualMemory (PPC_LOAD_U32 (fst st) addressPointer)
             (PPC_LOAD_U32 (fst st) sizePointer) ok (snd st) of
        ((status, None), next1) \<Rightarrow> (status, fst st, next1)
      | ((status, Some (guestAddress, committedSize)), next1) \<Rightarrow>
          (status,
           PPC_STORE_U32 (PPC_STORE_U32 (fst st) addressPointer guestAddress) sizePointer committedSize,
           next1))"

subsection \<open>Critical sections\<close>

text \<open>
  A critical section is a recursive mutex, created on first use: its owner and the depth of
  the nesting, or free. \<open>lock\<close> waits while another thread owns the mutex, \<open>try_lock\<close> may
  fail at any time, and \<open>unlock\<close> by a thread that does not own the mutex is undefined.
\<close>

type_synonym mutex = "(nat \<times> nat) option"
type_synonym sections = "u32 \<rightharpoonup> mutex"

definition GetCriticalSection :: "u32 \<Rightarrow> sections \<Rightarrow> sections" where
  "GetCriticalSection a ss = (case ss a of None \<Rightarrow> ss(a \<mapsto> None) | Some m \<Rightarrow> ss)"

definition mutex_at :: "sections \<Rightarrow> u32 \<Rightarrow> mutex" where
  "mutex_at ss a = (case ss a of None \<Rightarrow> None | Some m \<Rightarrow> m)"

fun mutex_lock :: "nat \<Rightarrow> mutex \<Rightarrow> mutex option" where
  "mutex_lock t None = Some (Some (t, 1))"
| "mutex_lock t (Some (u, d)) = (if u = t then Some (Some (t, d + 1)) else None)"

fun mutex_unlock :: "nat \<Rightarrow> mutex \<Rightarrow> mutex option" where
  "mutex_unlock t None = None"
| "mutex_unlock t (Some (u, d)) =
     (if u = t then Some (if d \<le> 1 then None else Some (t, d - 1)) else None)"

datatype cs_event =
    RtlInitializeCriticalSection nat u32
  | RtlEnterCriticalSection nat u32
  | RtlTryEnterCriticalSection nat u32 bool
  | RtlLeaveCriticalSection nat u32

inductive cs_step :: "cs_event \<Rightarrow> sections \<Rightarrow> sections \<Rightarrow> bool" where
  cs_init: "cs_step (RtlInitializeCriticalSection t a) ss (GetCriticalSection a ss)"
| cs_enter: "mutex_lock t (mutex_at ss a) = Some m \<Longrightarrow>
    cs_step (RtlEnterCriticalSection t a) ss ((GetCriticalSection a ss)(a \<mapsto> m))"
| cs_try: "mutex_lock t (mutex_at ss a) = Some m \<Longrightarrow>
    cs_step (RtlTryEnterCriticalSection t a True) ss ((GetCriticalSection a ss)(a \<mapsto> m))"
| cs_busy: "cs_step (RtlTryEnterCriticalSection t a False) ss (GetCriticalSection a ss)"
| cs_leave: "mutex_unlock t (mutex_at ss a) = Some m \<Longrightarrow>
    cs_step (RtlLeaveCriticalSection t a) ss ((GetCriticalSection a ss)(a \<mapsto> m))"

inductive_cases cs_stepE: "cs_step e ss ss'"

inductive cs_run :: "cs_event list \<Rightarrow> sections \<Rightarrow> bool" where
  cs_run_nil: "cs_run [] (\<lambda>_. None)"
| cs_run_snoc: "cs_run tr ss \<Longrightarrow> cs_step e ss ss' \<Longrightarrow> cs_run (tr @ [e]) ss'"

text \<open>How often a thread has entered a section more than it has left it.\<close>

fun enters :: "nat \<Rightarrow> u32 \<Rightarrow> cs_event \<Rightarrow> int" where
  "enters t a (RtlInitializeCriticalSection u b) = 0"
| "enters t a (RtlEnterCriticalSection u b) = (if u = t \<and> b = a then 1 else 0)"
| "enters t a (RtlTryEnterCriticalSection u b r) = (if u = t \<and> b = a \<and> r then 1 else 0)"
| "enters t a (RtlLeaveCriticalSection u b) = (if u = t \<and> b = a then - 1 else 0)"

definition depth :: "nat \<Rightarrow> u32 \<Rightarrow> cs_event list \<Rightarrow> int" where
  "depth t a tr = sum_list (map (enters t a) tr)"

fun mutex_depth :: "nat \<Rightarrow> mutex \<Rightarrow> int" where
  "mutex_depth t None = 0"
| "mutex_depth t (Some (u, d)) = (if u = t then int d else 0)"

definition mutex_ok :: "mutex \<Rightarrow> bool" where
  "mutex_ok m = (case m of None \<Rightarrow> True | Some (u, d) \<Rightarrow> 0 < d)"

lemma mutex_at_get [simp]: "mutex_at (GetCriticalSection b ss) a = mutex_at ss a"
  by (simp add: mutex_at_def GetCriticalSection_def split: option.splits)

lemma mutex_at_set [simp]: "mutex_at (ss(b \<mapsto> m)) a = (if a = b then m else mutex_at ss a)"
  by (simp add: mutex_at_def)

lemma lock_depth:
  "mutex_lock u m = Some m' \<Longrightarrow> mutex_ok m \<Longrightarrow>
     mutex_ok m' \<and> mutex_depth t m' = mutex_depth t m + (if u = t then 1 else 0)"
  by (cases m; auto simp: mutex_ok_def split: if_splits)

lemma unlock_depth:
  "mutex_unlock u m = Some m' \<Longrightarrow> mutex_ok m \<Longrightarrow>
     mutex_ok m' \<and> mutex_depth t m' = mutex_depth t m - (if u = t then 1 else 0)"
  by (cases m; auto simp: mutex_ok_def split: if_splits)

lemma cs_step_depth:
  assumes "cs_step e ss ss'" "mutex_ok (mutex_at ss a)"
  shows "mutex_ok (mutex_at ss' a) \<and> mutex_depth t (mutex_at ss' a) = mutex_depth t (mutex_at ss a) + enters t a e"
  using assms(1)
proof cases
  case (cs_enter u b m)
  then show ?thesis using lock_depth [of u "mutex_at ss a" m t] assms(2) by (cases "a = b") simp_all
next
  case (cs_try u b m)
  then show ?thesis using lock_depth [of u "mutex_at ss a" m t] assms(2) by (cases "a = b") simp_all
next
  case (cs_leave u b m)
  then show ?thesis using unlock_depth [of u "mutex_at ss a" m t] assms(2) by (cases "a = b") simp_all
qed (use assms(2) in simp_all)

lemma cs_run_depth:
  "cs_run tr ss \<Longrightarrow> mutex_ok (mutex_at ss a) \<and> depth t a tr = mutex_depth t (mutex_at ss a)"
proof (induction rule: cs_run.induct)
  case cs_run_nil
  show ?case by (simp add: depth_def mutex_at_def mutex_ok_def)
next
  case (cs_run_snoc tr ss e ss')
  then show ?case
    using cs_step_depth [OF cs_run_snoc.hyps(2), of a t] by (simp add: depth_def)
qed

text \<open>
  C11. Mutual exclusion: in any interleaving of the critical-section calls of any threads, at
  most one thread is inside a section, and the mutex holds exactly that thread with its depth
  of nesting.
\<close>

theorem critical_section_exclusion:
  assumes "cs_run tr ss" "0 < depth t a tr"
  shows "mutex_at ss a = Some (t, nat (depth t a tr)) \<and> (0 < depth u a tr \<longrightarrow> u = t)"
proof -
  obtain v d where m: "mutex_at ss a = Some (v, d)"
    using cs_run_depth [OF assms(1), of a t] assms(2) by (cases "mutex_at ss a") auto
  then show ?thesis
    using cs_run_depth [OF assms(1), of a t] cs_run_depth [OF assms(1), of a u] assms(2)
    by (auto split: if_splits)
qed

lemma ex_cs_run:
  "cs_run ([] @ [RtlEnterCriticalSection 1 16] @ [RtlEnterCriticalSection 1 16])
     ((GetCriticalSection 16 ((GetCriticalSection 16 (\<lambda>_. None))(16 \<mapsto> Some (1, 1))))(16 \<mapsto> Some (1, 2)))"
proof -
  have 1: "cs_run ([] @ [RtlEnterCriticalSection 1 16]) ((GetCriticalSection 16 (\<lambda>_. None))(16 \<mapsto> Some (1, 1)))"
    by (rule cs_run_snoc [OF cs_run_nil]) (rule cs_enter, simp add: mutex_at_def)
  show ?thesis
    using cs_run_snoc [OF 1, OF cs_enter [of 1 _ 16 "Some (1, 2)"]] by simp
qed

lemma critical_section_exclusion_witness:
  "\<not> 0 < depth 2 16 [RtlEnterCriticalSection 1 16, RtlEnterCriticalSection 1 16]"
  using critical_section_exclusion [OF ex_cs_run, of 1 16 2] by (simp add: depth_def)

subsection \<open>Unimplemented imports\<close>

text \<open>
  \<open>NativeImportFallback\<close>: the names already reported, the lines on the console, and the
  status left in \<open>r3\<close>.
\<close>

definition kNotImplemented :: u64 where "kNotImplemented = 0xC0000002"

definition NativeImportFallback :: "string \<Rightarrow> string set \<times> string list \<Rightarrow> u64 \<times> string set \<times> string list" where
  "NativeImportFallback name st =
     (kNotImplemented,
      if name \<in> fst st then st
      else (insert name (fst st), snd st @ [''Native import fallback: '' @ name]))"

definition fallback_calls :: "string list \<Rightarrow> string set \<times> string list" where
  "fallback_calls names = fold (\<lambda>name st. snd (NativeImportFallback name st)) names ({}, [])"

lemma fallback_fold:
  "fold (\<lambda>name st. snd (NativeImportFallback name st)) names (set seen, map (append ''Native import fallback: '') (rev (remdups seen)))
     = (set names \<union> set seen, map (append ''Native import fallback: '') (rev (remdups (rev names @ seen))))"
proof (induction names arbitrary: seen)
  case (Cons n names)
  then show ?case
    using Cons.IH [of "n # seen"] by (cases "n \<in> set seen") (simp_all add: NativeImportFallback_def insert_absorb)
qed simp

text \<open>
  Whatever imports are called, in whatever order and however often, each missing import is
  reported exactly once, in the order of the first calls, and every call returns the status
  for "not implemented".
\<close>

lemma fallback_reports_once:
  "snd (fallback_calls names) = map (append ''Native import fallback: '') (rev (remdups (rev names)))
   \<and> distinct (snd (fallback_calls names)) \<and> fst (fallback_calls names) = set names
   \<and> fst (NativeImportFallback name st) = kNotImplemented"
  using fallback_fold [of names "[]"]
  by (simp add: fallback_calls_def NativeImportFallback_def distinct_map inj_on_def)

subsection \<open>Small imports\<close>

text \<open>
  \<open>KeQuerySystemTime\<close> stores the 64-bit tick count of the host, given as its two halves, at
  the address in \<open>r3\<close>.
\<close>

definition KeQuerySystemTime :: "u32 \<Rightarrow> u32 \<Rightarrow> u32 \<Rightarrow> hmem \<Rightarrow> hmem" where
  "KeQuerySystemTime dwHigh dwLow r3 m =
     PPC_STORE_U64 m r3 (push_bit 32 (ucast dwHigh) OR ucast dwLow)"

definition KeGetCurrentProcessType :: u64 where "KeGetCurrentProcessType = 1"
definition kSystemVersion :: u32 where "kSystemVersion = 0x200A0000"
definition kLanguageEnglish :: u32 where "kLanguageEnglish = 1"
definition XamGetSystemVersion :: u64 where "XamGetSystemVersion = ucast kSystemVersion"
definition XGetLanguage :: u64 where "XGetLanguage = ucast kLanguageEnglish"

text \<open>
  \<open>DbgPrint\<close> on the bytes from the string on to the end of the committed region the host
  reports (\<open>None\<close> when the memory is not committed): the status and the text printed.
\<close>

fun dbg_length :: "nat \<Rightarrow> u8 list \<Rightarrow> nat" where
  "dbg_length n [] = n"
| "dbg_length n (b # bs) = (if n < 4096 \<and> b \<noteq> 0 then dbg_length (n + 1) bs else n)"

definition DbgPrint :: "u8 list option \<Rightarrow> u64 \<times> u8 list" where
  "DbgPrint region =
     (case region of
        None \<Rightarrow> (0xC0000005, [])
      | Some text \<Rightarrow>
          (let length = dbg_length 0 text; str = take length text
           in (of_nat length,
               map (of_nat \<circ> of_char) ''[UFC3] '' @ str
               @ (if length = 0 \<or> last str \<noteq> 10 then [10] else []))))"

lemma dbg_length_eq: "dbg_length n bs = n + length (takeWhile (\<lambda>b. b \<noteq> 0) (take (4096 - n) bs))"
proof (induction n bs rule: dbg_length.induct)
  case (2 n b bs)
  then show ?case by (cases "n < 4096") (auto simp: take_Cons')
qed simp

text \<open>
  \<open>DbgPrint\<close> prints the bytes up to the first zero, at most 4096 of them and never past
  the committed region, returns their number, and always ends the line.
\<close>

lemma DbgPrint_bounded:
  "let t = takeWhile (\<lambda>b. b \<noteq> 0) (take 4096 bs); printed = snd (DbgPrint (Some bs))
   in fst (DbgPrint (Some bs)) = of_nat (length t) \<and> length t \<le> 4096 \<and> last printed = 10
      \<and> take (length t) (drop 7 printed) = t \<and> length printed \<le> 7 + length t + 1"
proof -
  let ?t = "takeWhile (\<lambda>b. b \<noteq> 0) (take 4096 bs)"
  have le: "length ?t \<le> 4096"
    using length_takeWhile_le [of "\<lambda>b. b \<noteq> 0" "take 4096 bs"] by simp
  then have "take (length ?t) bs = take (length ?t) (take 4096 bs)" by (simp add: min_def)
  also have "\<dots> = ?t" by (rule takeWhile_eq_take [symmetric])
  finally have "take (dbg_length 0 bs) bs = ?t" by (simp add: dbg_length_eq)
  moreover note le
  ultimately show ?thesis
    by (auto simp: DbgPrint_def dbg_length_eq Let_def)
qed

subsection \<open>Start of the program\<close>

text \<open>
  \<open>main\<close>: the exit code, and when the entry function is run its address, the registers that are
  not zero in the context it gets and guest memory. \<open>reserve\<close> and \<open>commit\<close> are the host's
  answers to the constructor, \<open>files\<close> the host's file system, \<open>xstart\<close> the address of
  \<open>_xstart\<close>, \<open>time\<close> the two halves of the host's tick count, \<open>tls_freed\<close> its answer to
  \<open>TlsFree\<close>. The calls of the imports that answer in \<open>r3\<close> only feed the report on
  standard output, except the last one.
\<close>

record entry_context =
  entry_r1 :: u64
  entry_r3 :: u64
  entry_r4 :: u64

lemma word_of_nat_down: "ucast (of_nat n :: u64) = (of_nat n :: u32)"
  by transfer simp

lemma load_store_u64: "PPC_LOAD_U64 (PPC_STORE_U64 m x v) x = v"
proof -
  have "unat v mod 256 ^ 8 = unat v" using unsigned_less [of v, where ?'a = nat] by simp
  then show ?thesis by (simp add: PPC_LOAD_U64_def PPC_STORE_U64_def read_write_be)
qed

definition native_main ::
  "string list \<Rightarrow> bool \<Rightarrow> (nat \<times> nat \<Rightarrow> bool) \<Rightarrow> (string \<Rightarrow> u8 list option) \<Rightarrow> image_config
     \<Rightarrow> (u64 \<times> u64) list \<Rightarrow> u64 \<Rightarrow> u32 \<times> u32 \<Rightarrow> bool
     \<Rightarrow> nat \<times> (u64 \<times> entry_context \<times> hmem) option" where
  "native_main args reserve commit files c mappings xstart time tls_freed =
     (if NativeMemory reserve commit c = None then (1, None)
      else
        let runEntry = (args \<noteq> [] \<and> hd args = ''--run-entry'');
            imagePath = (if \<not> runEntry \<and> args \<noteq> [] then hd args else ''ppc_output/ppc_image.bin'');
            loaded = loadImage c (files imagePath) (\<lambda>_. 0)
        in if \<not> fst loaded then (2, None)
           else
             let imports = initializeDataImports (snd loaded)
             in if \<not> fst imports then (3, None)
                else
                  let m = snd (initializeFunctionTable c mappings 0 (snd imports));
                      entryFunction = PPC_LOOKUP_FUNC c m (of_nat (PPC_ENTRY_POINT c));
                      r3 = of_nat (PPC_IMAGE_BASE c + PPC_IMAGE_SIZE c - 8) :: u64;
                      m' = KeQuerySystemTime (fst time) (snd time) (ucast r3) m;
                      context = \<lparr>entry_r1 = ucast stackTop, entry_r3 = of_bool tls_freed, entry_r4 = 0x1234\<rparr>
                  in if entryFunction \<noteq> Some xstart then (3, None)
                     else (0, if runEntry then Some (xstart, context, m') else None))"

subsection \<open>Properties\<close>

text \<open>
  Once the table is initialised, the indirect call of every mapped function address in the
  code finds the host function of that address, whatever the order of the mappings.
\<close>

lemma function_table_lookup:
  assumes "functions_apart mappings" "(g, h) \<in> set (takeWhile (\<lambda>(g, h). h \<noteq> 0) mappings)"
    "PPC_CODE_BASE c \<le> unat (ucast g :: u32)" "unat (ucast g :: u32) < PPC_CODE_BASE c + PPC_CODE_SIZE c"
  shows "PPC_LOOKUP_FUNC c (snd (initializeFunctionTable c mappings 0 m)) (ucast g) = Some h"
proof -
  have "(slot c (unat (ucast g :: u32)), unat h) \<in> set (table_writes c mappings)"
    using assms(2-4) by (force simp: table_writes_def)
  moreover have "unat h < 2 ^ LENGTH(64)" by (rule unsigned_less)
  ultimately have "read_le 8 (snd (initializeFunctionTable c mappings 0 m)) (slot c (unat (ucast g :: u32))) = unat h"
    unfolding table_is_store_all
    by (intro pointer_le.load_store_all table_cells_apart [OF assms(1)]) simp_all
  then show ?thesis using assms(3,4) by (simp add: PPC_LOOKUP_FUNC_def)
qed

definition ex_image :: image_config where
  "ex_image = \<lparr>PPC_IMAGE_BASE = 0x82000000, PPC_IMAGE_SIZE = 0x20000, PPC_CODE_BASE = 0x82010000,
     PPC_CODE_SIZE = 0x1000, PPC_ENTRY_POINT = 0x82010000\<rparr>"

lemma function_table_lookup_witness:
  "PPC_LOOKUP_FUNC ex_image (snd (initializeFunctionTable ex_image
     [(0x82010000, 0x1000), (0x82010004, 0x2000), (0, 0)] 0 (\<lambda>_. 0))) 0x82010004 = Some 0x2000"
  using function_table_lookup [where mappings = "[(0x82010000, 0x1000), (0x82010004, 0x2000), (0, 0)]"
      and g = "0x82010004" and h = "0x2000" and c = ex_image and m = "\<lambda>_. 0"]
  by (simp add: functions_apart_def ex_image_def)

text \<open>
  For an image above the stack whose function table fits below 4 GB, the regions that the
  constructor commits lie inside the reservation and are pairwise disjoint, the initial stack
  pointer lies inside the stack, and the slot of every code address lies inside the region of
  the function table.
\<close>

lemma memory_layout:
  assumes "unat kStackBase + kStackSize \<le> PPC_IMAGE_BASE c"
    "PPC_IMAGE_BASE c + PPC_IMAGE_SIZE c + kFunctionTableSize c \<le> kAddressSpaceSize"
  shows "(\<forall>(a, n) \<in> set (memory_regions c). a + n \<le> kAddressSpaceSize)
    \<and> sorted_wrt (\<lambda>(a, n) (b, m). a + n \<le> b \<or> b + m \<le> a) (memory_regions c)
    \<and> unat kStackBase \<le> unat stackTop \<and> unat stackTop + unat kStackReserve = unat kStackBase + kStackSize
    \<and> (PPC_CODE_BASE c \<le> y \<and> y < PPC_CODE_BASE c + PPC_CODE_SIZE c \<longrightarrow>
        PPC_IMAGE_BASE c + PPC_IMAGE_SIZE c \<le> slot c y
        \<and> slot c y + 2 \<le> PPC_IMAGE_BASE c + PPC_IMAGE_SIZE c + kFunctionTableSize c)"
  using assms
  by (auto simp: memory_regions_def kStackBase_def kStackSize_def kStackReserve_def kKernelDataBase_def
      kKernelDataSize_def kAddressSpaceSize_def stackTop_def slot_def kFunctionTableSize_def)

lemma memory_layout_witness:
  "sorted_wrt (\<lambda>(a, n) (b, m). a + n \<le> b \<or> b + m \<le> a) (memory_regions ex_image)"
  using memory_layout [of ex_image 0]
  by (simp add: kStackBase_def kStackSize_def kAddressSpaceSize_def kFunctionTableSize_def ex_image_def)

text \<open>
  A successful \<open>NtAllocateVirtualMemory\<close> leaves in guest memory the page-aligned address
  that covers the request and the size of the committed pages, which reach past the last
  requested byte; a failing one leaves the memory alone.
\<close>

lemma NtAllocateVirtualMemory_memory:
  assumes "imp_NtAllocateVirtualMemory ap sp ok (m, nxt) = (status, m1, nxt1)"
    "unat ap + 4 \<le> unat sp \<or> unat sp + 4 \<le> unat ap"
    "unat (PPC_LOAD_U32 m sp) + unat (PPC_LOAD_U32 m ap) mod 4096 + 4095 < 2 ^ 32"
  shows "(status = kStatusNoMemory \<and> m1 = m) \<or>
    (status = 0 \<and> unat (PPC_LOAD_U32 m1 ap) = (if PPC_LOAD_U32 m ap = 0 then unat nxt
                                                else unat (PPC_LOAD_U32 m ap) div 4096 * 4096)
     \<and> unat (PPC_LOAD_U32 m sp) + unat (PPC_LOAD_U32 m ap) mod 4096 \<le> unat (PPC_LOAD_U32 m1 sp)
     \<and> unat (PPC_LOAD_U32 m1 sp) mod 4096 = 0)"
proof -
  let ?a = "PPC_LOAD_U32 m ap" and ?n = "PPC_LOAD_U32 m sp"
  have fr: "PPC_LOAD_U32 (PPC_STORE_U32 m' sp v) ap = PPC_LOAD_U32 m' ap" for m' v
    unfolding PPC_LOAD_U32_def PPC_STORE_U32_def using assms(2) word_be.load_other by metis
  have off: "unat (?a AND (kPageSize - 1)) = unat ?a mod 4096"
    unfolding page_mask by (simp add: word_and_mask_unat)
  have sz: "unat (?n + (?a AND (kPageSize - 1))) = unat ?n + unat ?a mod 4096"
    using assms(3) off by (simp add: unat_word_ariths)
  have pg: "unat (?a AND NOT (kPageSize - 1)) = unat ?a div 4096 * 4096"
    unfolding page_mask by (simp add: and_not_mask_unat)
  have al: "unat ?n + unat ?a mod 4096 \<le> unat (AlignToPage (?n + (?a AND (kPageSize - 1))))"
    using AlignToPage_enough [of "?n + (?a AND (kPageSize - 1))"] assms(3) sz by simp
  show ?thesis
    using assms(1) al pg AlignToPage_aligned [of "?n + (?a AND (kPageSize - 1))"]
    by (auto simp: imp_NtAllocateVirtualMemory_def NtAllocateVirtualMemory_def Let_def AlignUp_eq
        PPC_LOAD_STORE_U32 fr split: if_splits)
qed

lemma read_be_zero: "read_be n (\<lambda>_. 0) a = 0"
  by (induction n arbitrary: a) simp_all

lemma NtAllocateVirtualMemory_memory_witness:
  "let r = imp_NtAllocateVirtualMemory 0x1000 0x1004 True (PPC_STORE_U32 (\<lambda>_. 0) 0x1004 0x1800, kDynamicBase)
   in fst r = kStatusNoMemory \<or> (fst r = 0 \<and> unat (PPC_LOAD_U32 (fst (snd r)) 0x1004) mod 4096 = 0)"
proof -
  let ?m = "PPC_STORE_U32 (\<lambda>_. 0) 0x1004 0x1800"
  let ?r = "imp_NtAllocateVirtualMemory 0x1000 0x1004 True (?m, kDynamicBase)"
  have r: "?r = (fst ?r, fst (snd ?r), snd (snd ?r))" by simp
  have "PPC_LOAD_U32 ?m 0x1004 = 0x1800" by (rule PPC_LOAD_STORE_U32)
  moreover have "PPC_LOAD_U32 ?m 0x1000 = 0"
    unfolding PPC_LOAD_U32_def PPC_STORE_U32_def by (subst word_be.load_other) (simp_all add: read_be_zero)
  ultimately show ?thesis
    using NtAllocateVirtualMemory_memory [OF r] by (auto simp: Let_def)
qed


text \<open>
  The test of \<open>KeQuerySystemTime\<close> overwrites the last eight bytes of the image that was just
  loaded: the program starts with a time stamp there, not with the contents of the file.
\<close>

lemma main_overwrites_image:
  assumes "native_main args reserve commit files c mappings xstart time tls_freed = (code, Some (f, x, m))"
  shows "PPC_LOAD_U64 m (of_nat (PPC_IMAGE_BASE c + PPC_IMAGE_SIZE c - 8))
           = push_bit 32 (ucast (fst time)) OR ucast (snd time)"
  using assms
  by (auto simp: native_main_def Let_def KeQuerySystemTime_def load_store_u64 word_of_nat_down split: if_splits)

lemma read_be_4: "read_be 4 m a =
    unat (m a) * 16777216 + unat (m (a + 1)) * 65536 + unat (m (a + 2)) * 256 + unat (m (a + 3))"
proof -
  have four: "(4 :: nat) = Suc (Suc (Suc (Suc 0)))" and three: "a + 3 = Suc (Suc (Suc a))" for a
    by simp_all
  show ?thesis unfolding four three by simp
qed

definition ex_start :: image_config where
  "ex_start = \<lparr>PPC_IMAGE_BASE = 0x820007A0, PPC_IMAGE_SIZE = 8, PPC_CODE_BASE = 0x820007A0,
     PPC_CODE_SIZE = 8, PPC_ENTRY_POINT = 0x820007A4\<rparr>"

definition ex_start_bytes :: "u8 list" where "ex_start_bytes = [0x93, 1, 1, 0, 0, 0, 0, 0]"

definition ex_start_memory :: hmem where
  "ex_start_memory = write_be 8 (write_le 8 (snd (initializeDataImports
      (snd (loadImage ex_start (Some ex_start_bytes) (\<lambda>_. 0))))) 0x820007B0 0x77) 0x820007A0 7"

lemma ex_start_loaded:
  "fst (loadImage ex_start (Some ex_start_bytes) (\<lambda>_. 0))"
  "fst (initializeDataImports (snd (loadImage ex_start (Some ex_start_bytes) (\<lambda>_. 0))))"
  by (simp_all add: loadImage_def ex_start_def ex_start_bytes_def initializeDataImports_def PPC_LOAD_U32_def
      kXexExecutableModuleImport_def kXexExecutableModuleDescriptor_def read_be_4)

lemma ex_start_main:
  "native_main [''--run-entry''] True (\<lambda>_. True) (\<lambda>_. Some ex_start_bytes) ex_start [(0x820007A4, 0x77)] 0x77
     (0, 7) True
   = (0, Some (0x77, \<lparr>entry_r1 = 0x700FFF00, entry_r3 = 1, entry_r4 = 0x1234\<rparr>, ex_start_memory))"
  using ex_start_loaded
  by (simp add: native_main_def NativeMemory_def memory_regions_def Let_def PPC_LOOKUP_FUNC_def
      ex_start_def slot_def ex_start_memory_def read_write_le KeQuerySystemTime_def PPC_STORE_U64_def
      stackTop_def kStackBase_def kStackSize_def kStackReserve_def)


end
