(* ===== verification/FunctionAnalysis.thy ===== *)
theory FunctionAnalysis
  imports Recomp "HOL-Library.Multiset"
begin

text \<open>
  The function analyser (\<open>XenonAnalyse/function.h\<close>, \<open>function.cpp\<close>): \<open>Function::SearchBlock\<close>
  and the loop of \<open>Function::Analyze\<close>, which follows the branches of a function to find its
  extent. Sizes and addresses are \<open>size_t\<close>, 64 bits wide, with the source's wrap-around;
  pointers are addresses. The loop takes fuel, and \<open>None\<close> says that the fuel ran out.
\<close>

unbundle bit_operations_syntax

subsection \<open>Blocks\<close>

record Block =
  blk_base :: u64
  blk_size :: u64
  projectedSize :: u64

abbreviation no_projection :: u64 where "no_projection \<equiv> - 1"

text \<open>\<open>None\<close> is the result \<open>-1\<close>.\<close>

definition block_hit :: "u64 \<Rightarrow> u64 \<Rightarrow> Block \<Rightarrow> bool" where
  "block_hit base address b =
     (let begin1 = base + blk_base b; end1 = begin1 + blk_size b
      in if begin1 \<noteq> end1 then begin1 \<le> address \<and> address < end1 else address = begin1)"

fun search_blocks :: "u64 \<Rightarrow> u64 \<Rightarrow> nat \<Rightarrow> Block list \<Rightarrow> nat option" where
  "search_blocks base address i [] = None"
| "search_blocks base address i (b # bs) =
     (if block_hit base address b then Some i else search_blocks base address (i + 1) bs)"

definition SearchBlock :: "u64 \<Rightarrow> Block list \<Rightarrow> u64 \<Rightarrow> nat option" where
  "SearchBlock base blocks address =
     (if address < base then None else search_blocks base address 0 blocks)"

subsection \<open>The loop\<close>

text \<open>
  What the analysis reads: \<open>an_code\<close> is the pointer \<open>code\<close>, \<open>an_word\<close> the 32-bit word the host
  reads at a pointer, \<open>an_opcode\<close> whether the disassembler knows the word at an address.
  The head of \<open>blockStack\<close> is the back of the vector.
\<close>

record analysis_input =
  an_code :: u64
  an_size :: u64
  an_base :: u64
  an_word :: "u64 \<Rightarrow> u32"
  an_opcode :: "u32 \<Rightarrow> u64 \<Rightarrow> bool"

record analysis =
  blocks :: "Block list"
  blockStack :: "nat list"
  data :: u64

definition PPC_OP_CTR :: u32 where "PPC_OP_CTR = 19"
definition PPC_BO :: "u32 \<Rightarrow> u32" where "PPC_BO i = drop_bit 21 i AND 0x1F"

definition RESTORE_DATA :: "analysis_input \<Rightarrow> analysis \<Rightarrow> analysis" where
  "RESTORE_DATA a st =
     (case blockStack st of
        [] \<Rightarrow> st
      | i # _ \<Rightarrow> (let b = blocks st ! i
                 in st\<lparr>data := an_code a + (blk_base b + blk_size b) div 4 * 4 - 4\<rparr>))"

definition pop_block :: "analysis \<Rightarrow> analysis" where
  "pop_block st = st\<lparr>blockStack := tl (blockStack st)\<rparr>"

definition push_block :: "Block \<Rightarrow> analysis \<Rightarrow> analysis" where
  "push_block b st = st\<lparr>blocks := blocks st @ [b], blockStack := length (blocks st) # blockStack st\<rparr>"

definition map_block :: "nat \<Rightarrow> (Block \<Rightarrow> Block) \<Rightarrow> analysis \<Rightarrow> analysis" where
  "map_block i f st = st\<lparr>blocks := (blocks st)[i := f (blocks st ! i)]\<rparr>"

text \<open>The cases of a conditional branch, of a branch or return, and of any other instruction.\<close>

definition conditional_case :: "analysis_input \<Rightarrow> nat \<Rightarrow> u64 \<Rightarrow> u32 \<Rightarrow> analysis \<Rightarrow> analysis" where
  "conditional_case a cur addr instruction st =
     (if PPC_BL instruction then st
      else
        let base = an_base a;
            st = pop_block (map_block cur (projectedSize_update (\<lambda>_. no_projection)) st);
            branchDest = addr + scast (PPC_BD instruction);
            lBase = (addr - base) + 4;
            rBase = (addr + scast (PPC_BD instruction)) - base;
            st = (if SearchBlock base (blocks st) (base + lBase) = None
                  then push_block \<lparr>blk_base = lBase, blk_size = 0, projectedSize = rBase - lBase\<rparr> st else st);
            st = (if SearchBlock base (blocks st) (base + rBase) = None
                  then push_block \<lparr>blk_base = branchDest - base, blk_size = 0, projectedSize = no_projection\<rparr> st
                  else st)
        in RESTORE_DATA a st)"

definition jump_case :: "analysis_input \<Rightarrow> Block \<Rightarrow> u64 \<Rightarrow> u32 \<Rightarrow> analysis \<Rightarrow> analysis" where
  "jump_case a curBlock addr instruction st =
     (let base = an_base a;
          branchDest = addr + scast (PPC_BI instruction);
          branchBase = branchDest - base;
          branchBlock = SearchBlock base (blocks st) branchDest
      in if branchDest < base then RESTORE_DATA a st
         else
           let isContinuous = (branchBase = blk_base curBlock + blk_size curBlock);
               sizeProjection = (if projectedSize curBlock \<noteq> no_projection \<and> isContinuous
                                 then projectedSize curBlock - blk_size curBlock else no_projection)
           in if branchBlock = None
              then RESTORE_DATA a (push_block
                     \<lparr>blk_base = branchBase, blk_size = 0, projectedSize = sizeProjection\<rparr> st)
              else RESTORE_DATA a st)"

definition return_case :: "analysis_input \<Rightarrow> u64 \<Rightarrow> u32 \<Rightarrow> analysis \<Rightarrow> analysis" where
  "return_case a addr instruction st =
     (let base = an_base a; lBase = (addr - base) + 4
      in if PPC_BO instruction AND 0x10 = 0 \<and> SearchBlock base (blocks st) lBase = None
         then RESTORE_DATA a (push_block
                \<lparr>blk_base = lBase, blk_size = 0, projectedSize = no_projection\<rparr> st)
         else RESTORE_DATA a st)"

text \<open>The body of the loop, for a stack that is not empty; the step of the loop adds 4 to \<open>data\<close>.\<close>

definition analyze_block :: "analysis_input \<Rightarrow> analysis \<Rightarrow> analysis" where
  "analyze_block a st =
     (let addr = an_base a + (data st - an_code a);
          cur = hd (blockStack st);
          curBlock = blocks st ! cur;
          instruction = ByteSwap32 (an_word a (data st));
          op = PPC_OP instruction;
          xop = PPC_XOP instruction
      in if projectedSize curBlock \<noteq> no_projection \<and> blk_size curBlock \<ge> projectedSize curBlock
         then RESTORE_DATA a (pop_block st)
         else
           let st = map_block cur (blk_size_update (\<lambda>n. n + 4)) st;
               curBlock = blocks st ! cur
           in if op = PPC_OP_BC then conditional_case a cur addr instruction st
              else if op = PPC_OP_B \<or> instruction = 0 \<or> op = PPC_OP_CTR \<and> (xop = 16 \<or> xop = 528) then
                (if PPC_BL instruction then st
                 else
                   let st = pop_block st
                   in if op = PPC_OP_B then jump_case a curBlock addr instruction st
                      else if op = PPC_OP_CTR then return_case a addr instruction st
                      else RESTORE_DATA a st)
              else if \<not> an_opcode a instruction addr then RESTORE_DATA a (pop_block st)
              else st)"

fun analyze_loop :: "nat \<Rightarrow> analysis_input \<Rightarrow> analysis \<Rightarrow> analysis option" where
  "analyze_loop fuel a st =
     (if data st \<le> an_code a + an_size a \<and> blockStack st \<noteq> [] then
        (case fuel of
           0 \<Rightarrow> None
         | Suc n \<Rightarrow> (let st' = analyze_block a st in analyze_loop n a (st'\<lparr>data := data st' + 4\<rparr>)))
      else Some st)"

declare analyze_loop.simps [simp del]

subsection \<open>The result\<close>

text \<open>
  After the loop the blocks are sorted by base and the ones after the first gap dropped.
  \<open>std::sort\<close> does not say in which order it leaves blocks of the same base: it is an argument.
\<close>

fun drop_discontinuous :: "Block list \<Rightarrow> Block list" where
  "drop_discontinuous (b # c # bs) =
     (if blk_base b + blk_size b \<ge> blk_base c then b # drop_discontinuous (c # bs) else [b])"
| "drop_discontinuous bs = bs"

definition extent :: "Block list \<Rightarrow> u64" where
  "extent bs = fold (\<lambda>b n. max n (blk_base b + blk_size b)) bs 0"

definition start_analysis :: "analysis_input \<Rightarrow> analysis" where
  "start_analysis a =
     \<lparr>blocks = [\<lparr>blk_base = 0, blk_size = 0, projectedSize = no_projection\<rparr>], blockStack = [0], data = an_code a\<rparr>"

text \<open>The size and the blocks of the function.\<close>

definition Analyze :: "nat \<Rightarrow> (Block list \<Rightarrow> Block list) \<Rightarrow> analysis_input \<Rightarrow> (u64 \<times> Block list) option" where
  "Analyze fuel sort_blocks a =
     (if an_word a (an_code a + 4) = 0x04000048 then Some (8, [])
      else
        case analyze_loop fuel a (start_analysis a) of
          None \<Rightarrow> None
        | Some st \<Rightarrow>
            (let bs = (if length (blocks st) > 1 then drop_discontinuous (sort_blocks (blocks st)) else blocks st)
             in Some (extent bs, bs)))"


subsection \<open>Displacements\<close>

lemma word_masked: "unat (z AND m :: u32) \<le> unat m"
  by (simp add: word_and_le1 flip: word_le_nat_alt)

lemma word_masked_dvd: "m AND 3 = 0 \<Longrightarrow> 4 dvd unat (z AND m :: u32)"
proof -
  assume "m AND 3 = 0"
  then have "take_bit 2 (z AND m) = 0"
    by (simp add: take_bit_eq_mask mask_eq_exp_minus_1 and.assoc)
  then have "take_bit 2 (unat (z AND m)) = 0"
    by (metis unsigned_take_bit_eq unsigned_0)
  then show ?thesis unfolding take_bit_eq_mod by (simp add: mod_eq_0_iff_dvd)
qed

lemma sint_word_of_int: "sint (word_of_int k :: u32) = signed_take_bit 31 k"
  by (simp add: signed_of_int)

lemma sint_centred:
  assumes "unat (y :: u32) < 2 * c" "c < 1073741824"
  shows "sint (y - of_nat c) = int (unat y) - int c"
proof -
  have "y - of_nat c = word_of_int (int (unat y) - int c)" by simp
  then have "sint (y - of_nat c) = signed_take_bit 31 (int (unat y) - int c)"
    by (simp only: sint_word_of_int)
  also have "\<dots> = int (unat y) - int c"
  proof (rule signed_take_bit_int_eq_self)
    have "- 2147483648 \<le> int (unat y) - int c" "int (unat y) - int c < 2147483648"
      using assms by linarith+
    then show "- (2 ^ 31) \<le> int (unat y) - int c" "int (unat y) - int c < 2 ^ 31" by simp_all
  qed
  finally show ?thesis .
qed

lemma PPC_BD_sint: "- 0x2000000 \<le> sint (PPC_BD i)" "sint (PPC_BD i) < 0x2000000" "4 dvd sint (PPC_BD i)"
proof -
  let ?y = "(i XOR 0x8000) AND 0xFFFC"
  have y: "PPC_BD i = ?y - of_nat 0x8000" by (simp add: PPC_BD_def bit.conj_xor_distrib2)
  have "unat ?y \<le> 0xFFFC" using word_masked [of "i XOR 0x8000" "0xFFFC"] by simp
  then have lt: "unat ?y < 2 * 0x8000" by linarith
  have s: "sint (PPC_BD i) = int (unat ?y) - 0x8000"
    unfolding y using sint_centred [OF lt] by simp
  have le: "int (unat ?y) < 2 * 0x8000" using lt by linarith
  have "4 dvd unat ?y" by (rule word_masked_dvd) simp
  then show "4 dvd sint (PPC_BD i)" unfolding s by presburger
  show "- 0x2000000 \<le> sint (PPC_BD i)" "sint (PPC_BD i) < 0x2000000" unfolding s using le by simp_all
qed

lemma PPC_BI_sint: "- 0x2000000 \<le> sint (PPC_BI i)" "sint (PPC_BI i) < 0x2000000" "4 dvd sint (PPC_BI i)"
proof -
  let ?y = "(i XOR 0x2000000) AND 0x3FFFFFC"
  have y: "PPC_BI i = ?y - of_nat 0x2000000" by (simp add: PPC_BI_def bit.conj_xor_distrib2)
  have "unat ?y \<le> 0x3FFFFFC" using word_masked [of "i XOR 0x2000000" "0x3FFFFFC"] by simp
  then have lt: "unat ?y < 2 * 0x2000000" by linarith
  have s: "sint (PPC_BI i) = int (unat ?y) - 0x2000000"
    unfolding y using sint_centred [OF lt] by simp
  have le: "int (unat ?y) < 2 * 0x2000000" using lt by linarith
  have "4 dvd unat ?y" by (rule word_masked_dvd) simp
  then show "4 dvd sint (PPC_BI i)" unfolding s by presburger
  show "- 0x2000000 \<le> sint (PPC_BI i)" "sint (PPC_BI i) < 0x2000000" unfolding s using le by simp_all
qed

lemma int_unat_word_of_int: "0 \<le> k \<Longrightarrow> k < 0x10000000000000000 \<Longrightarrow> int (unat (word_of_int k :: u64)) = k"
  by (simp add: unsigned_of_int take_bit_int_eq_self)

text \<open>A branch from inside the section that does not go before the function stays near it.\<close>

lemma near_target:
  fixes base off :: u64 and d :: u32
  assumes "- 0x2000000 \<le> sint d" "sint d < 0x2000000" "4 dvd sint d" "4 dvd unat off"
    and "0x4000000 \<le> unat base" "unat base + unat off + 0x4000000 < 0x10000000000000000"
    and "base \<le> base + (off + scast d)"
  shows "unat (off + scast d) < unat off + 0x2000000" "4 dvd unat (off + scast d)"
proof -
  let ?r = "off + scast d" and ?s = "int (unat off) + sint d"
  have r: "?r = word_of_int ?s" by simp
  have pos: "0 \<le> ?s"
  proof (rule ccontr)
    assume "\<not> 0 \<le> ?s"
    then have neg: "?s < 0" by simp
    have "base + ?r = word_of_int (int (unat base) + ?s)" by simp
    moreover have "0 \<le> int (unat base) + ?s" "int (unat base) + ?s < 0x10000000000000000"
      using assms neg by linarith+
    ultimately have "int (unat (base + ?r)) = int (unat base) + ?s"
      by (simp only: int_unat_word_of_int)
    then have "unat (base + ?r) < unat base" using neg by linarith
    then show False using assms(7) by (simp add: word_le_nat_alt)
  qed
  then have n: "int (unat ?r) = ?s"
    unfolding r by (rule int_unat_word_of_int) (use assms pos in linarith)+
  show "unat ?r < unat off + 0x2000000" using n assms(2) by linarith
  have "4 dvd int (unat off)" using assms(4) by presburger
  then have "4 dvd ?s" using assms(3) by simp
  then show "4 dvd unat ?r" unfolding n [symmetric] by presburger
qed

subsection \<open>What the loop keeps\<close>

text \<open>
  \<open>placed\<close>: the section lies inside the address space with room for a branch displacement on
  both sides. \<open>no_early_branch\<close>: no conditional branch of the section goes before the function.
\<close>

definition placed :: "analysis_input \<Rightarrow> bool" where
  "placed a = (0x4000000 \<le> unat (an_base a)
     \<and> unat (an_base a) + unat (an_size a) + 0x4000000 < 0x10000000000000000
     \<and> unat (an_code a) + unat (an_size a) + 0x4000000 < 0x10000000000000000)"

definition instr_at :: "analysis_input \<Rightarrow> u64 \<Rightarrow> u32" where
  "instr_at a off = ByteSwap32 (an_word a (an_code a + off))"

definition no_early_branch :: "analysis_input \<Rightarrow> bool" where
  "no_early_branch a = (\<forall>off. off \<le> an_size a \<longrightarrow> PPC_OP (instr_at a off) = PPC_OP_BC
     \<longrightarrow> \<not> PPC_BL (instr_at a off) \<longrightarrow> an_base a \<le> an_base a + (off + scast (PPC_BD (instr_at a off))))"

definition block_end :: "Block \<Rightarrow> nat" where
  "block_end b = unat (blk_base b) + unat (blk_size b)"

definition block_ok :: "analysis_input \<Rightarrow> Block \<Rightarrow> bool" where
  "block_ok a b = (4 dvd unat (blk_base b) \<and> 4 dvd unat (blk_size b)
     \<and> (blk_size b = 0 \<and> unat (blk_base b) < unat (an_size a) + 0x2000008 \<or> block_end b \<le> unat (an_size a) + 4))"

definition blocks_ok :: "analysis_input \<Rightarrow> analysis \<Rightarrow> bool" where
  "blocks_ok a st = ((\<forall>b \<in> set (blocks st). block_ok a b) \<and> (\<forall>i \<in> set (blockStack st). i < length (blocks st)))"

text \<open>While a block is open, \<open>data\<close> points to its end (the assertion in the loop).\<close>

definition in_step :: "analysis_input \<Rightarrow> analysis \<Rightarrow> bool" where
  "in_step a st = (case blockStack st of [] \<Rightarrow> True
     | i # _ \<Rightarrow> data st = an_code a + (blk_base (blocks st ! i) + blk_size (blocks st ! i)))"

text \<open>
  What is left to do: the bytes the open blocks can still grow by, and the addresses that no
  block starts at yet.
\<close>

definition room :: "analysis_input \<Rightarrow> Block \<Rightarrow> nat" where
  "room a b = unat (an_size a) + 5 - block_end b"

definition starts :: "Block list \<Rightarrow> nat set" where
  "starts bs = (\<lambda>b. unat (blk_base b)) ` set bs"

definition work :: "analysis_input \<Rightarrow> analysis \<Rightarrow> nat" where
  "work a st = (\<Sum>i\<leftarrow>blockStack st. room a (blocks st ! i))
     + (unat (an_size a) + 6) * card ({..unat (an_size a) + 4} - starts (blocks st))"

lemmas analysis_defs = pop_block_def push_block_def map_block_def

lemma block_end_bound: "block_ok a b \<Longrightarrow> block_end b < unat (an_size a) + 0x2000008"
  by (auto simp: block_ok_def block_end_def)

lemma block_word_end:
  assumes "placed a" "block_ok a b"
  shows "unat (blk_base b + blk_size b) = block_end b"
  using assms block_end_bound [OF assms(2)]
  by (simp add: placed_def block_end_def unat_word_ariths)

lemma dvd_div_mult_word: "4 dvd unat (x :: u64) \<Longrightarrow> x div 4 * 4 = x"
  using unsigned_less [of x, where ?'a = nat]
  by (intro unsigned_word_eqI [where ?'a = nat]) (simp add: unat_div unat_word_ariths)

lemma blocks_ok_RESTORE [simp]: "blocks_ok a (RESTORE_DATA c st) = blocks_ok a st"
  by (simp add: RESTORE_DATA_def blocks_ok_def Let_def split: list.split)

lemma work_RESTORE [simp]: "work a (RESTORE_DATA c st) = work a st"
  by (simp add: RESTORE_DATA_def work_def Let_def split: list.split)

lemma in_step_RESTORE:
  assumes "placed a" "blocks_ok a st"
  shows "in_step a ((RESTORE_DATA a st)\<lparr>data := data (RESTORE_DATA a st) + 4\<rparr>)"
proof (cases "blockStack st")
  case (Cons i s)
  let ?b = "blocks st ! i"
  have ok: "block_ok a ?b" using assms(2) Cons by (auto simp: blocks_ok_def)
  have "4 dvd unat (blk_base ?b + blk_size ?b)"
    unfolding block_word_end [OF assms(1) ok] using ok by (simp add: block_ok_def block_end_def)
  then show ?thesis
    using Cons by (simp add: RESTORE_DATA_def in_step_def Let_def dvd_div_mult_word)
qed (simp add: RESTORE_DATA_def in_step_def)

lemma blocks_ok_pop: "blocks_ok a st \<Longrightarrow> blocks_ok a (pop_block st)"
  by (cases "blockStack st") (auto simp: blocks_ok_def pop_block_def)

lemma blocks_ok_push: "blocks_ok a st \<Longrightarrow> block_ok a b \<Longrightarrow> blocks_ok a (push_block b st)"
  by (auto simp: blocks_ok_def push_block_def less_Suc_eq)

lemma blocks_ok_map:
  "blocks_ok a st \<Longrightarrow> i < length (blocks st) \<Longrightarrow> block_ok a (f (blocks st ! i)) \<Longrightarrow> blocks_ok a (map_block i f st)"
  by (auto simp: blocks_ok_def map_block_def dest!: set_update_subset_insert [THEN subsetD])

lemma work_pop: "blockStack st = i # s \<Longrightarrow> work a (pop_block st) + room a (blocks st ! i) = work a st"
  by (simp add: work_def pop_block_def)

lemma work_push:
  assumes "blocks_ok a st"
  shows "work a (push_block b st) = room a b + (\<Sum>i\<leftarrow>blockStack st. room a (blocks st ! i))
     + (unat (an_size a) + 6) * card ({..unat (an_size a) + 4} - insert (unat (blk_base b)) (starts (blocks st)))"
proof -
  have "(\<Sum>i\<leftarrow>blockStack st. room a ((blocks st @ [b]) ! i)) = (\<Sum>i\<leftarrow>blockStack st. room a (blocks st ! i))"
    using assms by (intro arg_cong [where f = sum_list] map_cong) (auto simp: blocks_ok_def nth_append)
  then show ?thesis by (simp add: work_def push_block_def starts_def)
qed

lemma work_push_le: "blocks_ok a st \<Longrightarrow> work a (push_block b st) \<le> work a st + room a b"
  by (simp add: work_push) (simp add: work_def card_mono Diff_mono subset_insertI)

text \<open>A block at a new address pays for itself.\<close>

lemma work_push_new:
  assumes "blocks_ok a st" "unat (blk_base b) \<notin> starts (blocks st)"
  shows "work a (push_block b st) \<le> work a st"
proof (cases "unat (blk_base b) \<le> unat (an_size a) + 4")
  case True
  let ?U = "{..unat (an_size a) + 4} - starts (blocks st)"
  have "unat (blk_base b) \<in> ?U" using True assms(2) by simp
  then have "card ?U = Suc (card (?U - {unat (blk_base b)}))"
    by (simp add: card_Suc_Diff1 del: card_Diff_insert)
  moreover have "?U - {unat (blk_base b)} = {..unat (an_size a) + 4} - insert (unat (blk_base b)) (starts (blocks st))"
    by blast
  moreover have "room a b \<le> unat (an_size a) + 6" by (simp add: room_def)
  ultimately show ?thesis using assms(1) by (simp add: work_push) (simp add: work_def)
next
  case False
  then have "room a b = 0" by (simp add: room_def block_end_def)
  then show ?thesis using work_push_le [OF assms(1), of b] by simp
qed

lemma starts_update: "i < length bs \<Longrightarrow> blk_base b = blk_base (bs ! i) \<Longrightarrow> starts (bs[i := b]) = starts bs"
proof -
  assume i: "i < length bs" and b: "blk_base b = blk_base (bs ! i)"
  have "map (\<lambda>b. unat (blk_base b)) (bs[i := b]) = map (\<lambda>b. unat (blk_base b)) bs"
    using i b by (simp add: map_update) (metis list_update_id nth_map)
  then show ?thesis unfolding starts_def by (metis list.set_map)
qed

lemma work_map_le:
  assumes "i < length (blocks st)" "blk_base (f (blocks st ! i)) = blk_base (blocks st ! i)"
    and "unat (blk_size (blocks st ! i)) \<le> unat (blk_size (f (blocks st ! i)))"
  shows "work a (map_block i f st) \<le> work a st"
proof -
  have "(\<Sum>j\<leftarrow>blockStack st. room a ((blocks st)[i := f (blocks st ! i)] ! j)) \<le> (\<Sum>j\<leftarrow>blockStack st. room a (blocks st ! j))"
    using assms by (intro sum_list_mono) (auto simp: nth_list_update room_def block_end_def)
  then show ?thesis using assms by (simp add: work_def map_block_def starts_update)
qed

subsection \<open>One turn of the loop\<close>

lemma search_blocks_None: "search_blocks base address i bs = None \<longleftrightarrow> (\<forall>b \<in> set bs. \<not> block_hit base address b)"
  by (induction bs arbitrary: i) auto

lemma block_hit_base:
  assumes "placed a" "block_ok a b"
  shows "block_hit (an_base a) (an_base a + blk_base b) b"
proof (cases "blk_size b = 0")
  case False
  have "unat (an_base a) + block_end b < 0x10000000000000000"
    using assms block_end_bound [OF assms(2)] by (simp add: placed_def)
  moreover have "0 < unat (blk_size b)" using False by (simp add: unat_gt_0)
  ultimately have "an_base a + blk_base b < an_base a + blk_base b + blk_size b"
    by (simp add: word_less_nat_alt unat_word_ariths block_end_def)
  then show ?thesis by (simp add: block_hit_def Let_def)
qed (simp add: block_hit_def)

lemma not_started:
  assumes "placed a" "\<forall>b \<in> set bs. block_ok a b" "an_base a \<le> an_base a + x"
    and "SearchBlock (an_base a) bs (an_base a + x) = None"
  shows "unat x \<notin> starts bs"
proof
  assume "unat x \<in> starts bs"
  then obtain b where b: "b \<in> set bs" "blk_base b = x"
    by (auto simp: starts_def dest: unsigned_word_eqI)
  then show False
    using assms block_hit_base [OF assms(1), of b] by (auto simp: SearchBlock_def search_blocks_None split: if_splits)
qed

definition push_if_new :: "analysis_input \<Rightarrow> Block \<Rightarrow> analysis \<Rightarrow> analysis" where
  "push_if_new a b st =
     (if SearchBlock (an_base a) (blocks st) (an_base a + blk_base b) = None then push_block b st else st)"

lemma push_if_new:
  assumes "placed a" "blocks_ok a st" "block_ok a b" "an_base a \<le> an_base a + blk_base b"
  shows "blocks_ok a (push_if_new a b st)" "work a (push_if_new a b st) \<le> work a st"
  using assms not_started [OF assms(1) _ assms(4), of "blocks st"]
  by (auto simp: push_if_new_def work_push_new blocks_ok_push blocks_ok_def [of a st])

lemma conditional_case_push:
  "\<not> PPC_BL ins \<Longrightarrow> conditional_case a i (an_base a + off) ins st =
     RESTORE_DATA a
       (push_if_new a \<lparr>blk_base = off + scast (PPC_BD ins), blk_size = 0, projectedSize = no_projection\<rparr>
         (push_if_new a \<lparr>blk_base = off + 4, blk_size = 0, projectedSize = off + scast (PPC_BD ins) - (off + 4)\<rparr>
           (pop_block (map_block i (projectedSize_update (\<lambda>_. no_projection)) st))))"
proof -
  let ?d = "scast (PPC_BD ins) :: u64"
  have eq: "an_base a + off - an_base a = off" "an_base a + off + ?d - an_base a = off + ?d"
    by (simp_all add: add.assoc)
  assume "\<not> PPC_BL ins"
  then show ?thesis
    unfolding conditional_case_def push_if_new_def Let_def eq by simp
qed

lemma jump_case_push:
  "\<exists>p. jump_case a b (an_base a + off) ins st =
     RESTORE_DATA a
       (if an_base a + (off + scast (PPC_BI ins)) < an_base a then st
        else push_if_new a \<lparr>blk_base = off + scast (PPC_BI ins), blk_size = 0, projectedSize = p\<rparr> st)"
  by (auto simp: jump_case_def push_if_new_def Let_def add.assoc)

lemma block_ok_target:
  fixes off :: u64 and d :: u32
  assumes "placed a" "- 0x2000000 \<le> sint d" "sint d < 0x2000000" "4 dvd sint d" "4 dvd unat off"
    and "unat off \<le> unat (an_size a)" "an_base a \<le> an_base a + (off + scast d)"
  shows "block_ok a \<lparr>blk_base = off + scast d, blk_size = 0, projectedSize = p\<rparr>"
proof -
  have "0x4000000 \<le> unat (an_base a)" "unat (an_base a) + unat off + 0x4000000 < 0x10000000000000000"
    using assms(1,6) by (auto simp: placed_def)
  note near_target [OF assms(2-5) this assms(7)]
  then show ?thesis using assms(6) by (simp add: block_ok_def)
qed

lemma block_ok_next:
  assumes "placed a" "4 dvd unat off" "unat off \<le> unat (an_size a)"
  shows "block_ok a \<lparr>blk_base = off + 4, blk_size = 0, projectedSize = p\<rparr>"
    and "an_base a \<le> an_base a + (off + 4)" and "unat (off + 4) = unat off + 4"
proof -
  show n: "unat (off + 4) = unat off + 4" using assms by (simp add: placed_def unat_word_ariths)
  then show "block_ok a \<lparr>blk_base = off + 4, blk_size = 0, projectedSize = p\<rparr>"
    using assms by (simp add: block_ok_def)
  have "unat (an_base a + (off + 4)) = unat (an_base a) + unat (off + 4)"
    unfolding unat_word_ariths(1) [of "an_base a"] using assms n by (intro mod_less) (simp add: placed_def)
  then show "an_base a \<le> an_base a + (off + 4)" by (simp add: word_le_nat_alt)
qed

lemma pop_map: "pop_block (map_block i f st) = map_block i f (pop_block st)"
  by (simp add: pop_block_def map_block_def)

text \<open>
  The first thing a turn does, when the block is not at its projected end, is to add the
  instruction to the open block. The other cases then push blocks at new addresses.
\<close>

definition open_block :: "analysis \<Rightarrow> Block" where
  "open_block st = blocks st ! hd (blockStack st)"

definition grow :: "analysis \<Rightarrow> analysis" where
  "grow st = map_block (hd (blockStack st)) (blk_size_update (\<lambda>n. n + 4)) st"

definition open_offset :: "analysis \<Rightarrow> u64" where
  "open_offset st = blk_base (open_block st) + blk_size (open_block st)"

lemma open_facts:
  assumes "placed a" "blocks_ok a st" "in_step a st" "blockStack st \<noteq> []" "data st \<le> an_code a + an_size a"
  shows "block_ok a (open_block st)" "data st = an_code a + open_offset st"
    and "unat (open_offset st) = block_end (open_block st)" "4 dvd unat (open_offset st)"
    and "unat (open_offset st) \<le> unat (an_size a)"
proof -
  show ok: "block_ok a (open_block st)"
    using assms(2,4) by (auto simp: blocks_ok_def open_block_def neq_Nil_conv)
  show d: "data st = an_code a + open_offset st"
    using assms(3,4) by (auto simp: in_step_def open_block_def open_offset_def neq_Nil_conv)
  show e: "unat (open_offset st) = block_end (open_block st)"
    unfolding open_offset_def by (rule block_word_end [OF assms(1) ok])
  show "4 dvd unat (open_offset st)" unfolding e using ok by (simp add: block_ok_def block_end_def)
  have "unat (an_code a + open_offset st) = unat (an_code a) + unat (open_offset st)"
    unfolding unat_word_ariths(1)
    using assms(1) block_end_bound [OF ok] e by (intro mod_less) (simp add: placed_def)
  moreover have "unat (an_code a + an_size a) = unat (an_code a) + unat (an_size a)"
    unfolding unat_word_ariths(1) using assms(1) by (intro mod_less) (simp add: placed_def)
  ultimately show "unat (open_offset st) \<le> unat (an_size a)"
    using assms(5) by (simp add: d word_le_nat_alt)
qed

lemma grow_facts:
  assumes "placed a" "blocks_ok a st" "in_step a st" "blockStack st \<noteq> []" "data st \<le> an_code a + an_size a"
  shows "blocks_ok a (grow st)" "work a (grow st) < work a st"
    and "work a (pop_block (grow st)) + (unat (an_size a) + 1 - unat (open_offset st)) = work a (grow st)"
    and "in_step a ((grow st)\<lparr>data := data (grow st) + 4\<rparr>)"
proof -
  note o = open_facts [OF assms]
  obtain i s where s: "blockStack st = i # s" using assms(4) by (cases "blockStack st") auto
  then have i: "i < length (blocks st)" using assms(2) by (auto simp: blocks_ok_def)
  let ?b = "blocks st ! i"
  have b: "open_block st = ?b" by (simp add: open_block_def s)
  have le: "block_end ?b \<le> unat (an_size a)" using o(3,5) b by simp
  have sz: "unat (blk_size ?b + 4) = unat (blk_size ?b) + 4"
    using le assms(1) by (simp add: placed_def block_end_def unat_word_ariths)
  have g: "grow st = map_block i (blk_size_update (\<lambda>n. n + 4)) st" by (simp add: grow_def s)
  show "blocks_ok a (grow st)"
    unfolding g using o(1) le by (intro blocks_ok_map [OF assms(2) i]) (simp add: b block_ok_def block_end_def sz)
  have r: "room a (blocks (grow st) ! i) = unat (an_size a) + 1 - unat (open_offset st)"
    using i le o(3) b by (simp add: g map_block_def room_def block_end_def sz)
  have bs: "blockStack (grow st) = i # s" by (simp add: g map_block_def s)
  show p: "work a (pop_block (grow st)) + (unat (an_size a) + 1 - unat (open_offset st)) = work a (grow st)"
    using work_pop [OF bs, of a] r by simp
  have "work a (pop_block (grow st)) \<le> work a (pop_block st)"
    unfolding g pop_map using i by (intro work_map_le) (simp_all add: pop_block_def sz)
  moreover have "work a (pop_block st) + room a ?b = work a st" by (rule work_pop [OF s])
  moreover have "room a ?b = unat (an_size a) + 5 - unat (open_offset st)" using o(3) b by (simp add: room_def)
  ultimately show "work a (grow st) < work a st" using p o(5) by linarith
  have d: "data st = an_code a + (blk_base ?b + blk_size ?b)" using o(2) b by (simp add: open_offset_def)
  show "in_step a ((grow st)\<lparr>data := data (grow st) + 4\<rparr>)"
    using i d by (simp add: in_step_def g map_block_def s add.assoc)
qed

lemma return_case_push:
  "return_case a (an_base a + off) ins st =
     RESTORE_DATA a
       (if PPC_BO ins AND 0x10 = 0 \<and> SearchBlock (an_base a) (blocks st) (off + 4) = None
        then push_block \<lparr>blk_base = off + 4, blk_size = 0, projectedSize = no_projection\<rparr> st else st)"
  by (simp add: return_case_def Let_def)

text \<open>What a turn does to the blocks, before the step of \<open>data\<close>.\<close>

definition good_turn :: "analysis_input \<Rightarrow> analysis \<Rightarrow> analysis \<Rightarrow> bool" where
  "good_turn a st st' = (blocks_ok a st' \<and> work a st' < work a st \<and> in_step a (st'\<lparr>data := data st' + 4\<rparr>))"

lemma good_turn_RESTORE:
  "placed a \<Longrightarrow> blocks_ok a st' \<Longrightarrow> work a st' < work a st \<Longrightarrow> good_turn a st (RESTORE_DATA a st')"
  by (simp add: good_turn_def in_step_RESTORE)

lemma conditional_turn:
  assumes "placed a" "blocks_ok a st" "in_step a st" "blockStack st \<noteq> []" "data st \<le> an_code a + an_size a"
    and "\<not> PPC_BL ins" "an_base a \<le> an_base a + (open_offset st + scast (PPC_BD ins))"
  shows "good_turn a st (conditional_case a (hd (blockStack st)) (an_base a + open_offset st) ins (grow st))"
proof -
  note o = open_facts [OF assms(1-5)] and g = grow_facts [OF assms(1-5)]
  let ?i = "hd (blockStack st)"
  let ?p = "map_block ?i (projectedSize_update (\<lambda>_. no_projection)) (pop_block (grow st))"
  have i: "?i < length (blocks (pop_block (grow st)))"
    using g(1) assms(4) by (simp add: blocks_ok_def pop_block_def grow_def map_block_def)
  have "blocks (pop_block (grow st)) ! ?i \<in> set (blocks (grow st))" using i by (simp add: pop_block_def)
  then have ok: "blocks_ok a ?p"
    using g(1) i by (intro blocks_ok_map blocks_ok_pop) (auto simp: blocks_ok_def block_ok_def block_end_def)
  have w: "work a ?p < work a st" using work_map_le [OF i, of "projectedSize_update (\<lambda>_. no_projection)" a] g by simp
  note next1 = block_ok_next [OF assms(1) o(4,5)]
  note target = block_ok_target [OF assms(1) PPC_BD_sint o(4,5) assms(7)]
  note l = push_if_new [OF assms(1) ok, of "\<lparr>blk_base = open_offset st + 4, blk_size = 0,
        projectedSize = open_offset st + scast (PPC_BD ins) - (open_offset st + 4)\<rparr>"]
  note r = push_if_new [OF assms(1) l(1), of "\<lparr>blk_base = open_offset st + scast (PPC_BD ins), blk_size = 0,
        projectedSize = no_projection\<rparr>"]
  show ?thesis
    unfolding conditional_case_push [OF assms(6)] pop_map
    using l r next1 target assms(7) w by (intro good_turn_RESTORE [OF assms(1)]) (simp_all del: One_nat_def)
qed

lemma jump_turn:
  assumes "placed a" "blocks_ok a st" "in_step a st" "blockStack st \<noteq> []" "data st \<le> an_code a + an_size a"
  shows "good_turn a st (jump_case a b (an_base a + open_offset st) ins (pop_block (grow st)))"
proof -
  note o = open_facts [OF assms] and g = grow_facts [OF assms]
  have ok: "blocks_ok a (pop_block (grow st))" by (rule blocks_ok_pop [OF g(1)])
  have w: "work a (pop_block (grow st)) < work a st" using g by simp
  obtain p where p: "jump_case a b (an_base a + open_offset st) ins (pop_block (grow st)) =
      RESTORE_DATA a
       (if an_base a + (open_offset st + scast (PPC_BI ins)) < an_base a then pop_block (grow st)
        else push_if_new a \<lparr>blk_base = open_offset st + scast (PPC_BI ins), blk_size = 0, projectedSize = p\<rparr>
               (pop_block (grow st)))"
    using jump_case_push by blast
  show ?thesis
  proof (cases "an_base a + (open_offset st + scast (PPC_BI ins)) < an_base a")
    case True
    then show ?thesis unfolding p using ok w by (simp add: good_turn_RESTORE [OF assms(1)])
  next
    case False
    then have le: "an_base a \<le> an_base a + (open_offset st + scast (PPC_BI ins))" by simp
    note target = block_ok_target [OF assms(1) PPC_BI_sint o(4,5) le]
    note r = push_if_new [OF assms(1) ok, of "\<lparr>blk_base = open_offset st + scast (PPC_BI ins), blk_size = 0,
        projectedSize = p\<rparr>"]
    show ?thesis
      unfolding p using False r target le w by (intro good_turn_RESTORE [OF assms(1)]) simp_all
  qed
qed

lemma return_turn:
  assumes "placed a" "blocks_ok a st" "in_step a st" "blockStack st \<noteq> []" "data st \<le> an_code a + an_size a"
  shows "good_turn a st (return_case a (an_base a + open_offset st) ins (pop_block (grow st)))"
proof -
  note o = open_facts [OF assms] and g = grow_facts [OF assms]
  let ?b = "\<lparr>blk_base = open_offset st + 4, blk_size = 0, projectedSize = no_projection\<rparr>"
  have ok: "blocks_ok a (pop_block (grow st))" by (rule blocks_ok_pop [OF g(1)])
  note next1 = block_ok_next [OF assms(1) o(4,5)]
  have r: "room a ?b = unat (an_size a) + 1 - unat (open_offset st)" using next1(3) by (simp add: room_def block_end_def)
  have "work a (push_block ?b (pop_block (grow st))) \<le> work a (grow st)"
    using work_push_le [OF ok, of ?b] g(3) r by simp
  then have w: "work a (push_block ?b (pop_block (grow st))) < work a st" "work a (pop_block (grow st)) < work a st"
    using g(2,3) by simp_all
  have "blocks_ok a (push_block ?b (pop_block (grow st)))" by (rule blocks_ok_push [OF ok next1(1)])
  with w ok show ?thesis
    unfolding return_case_push by (intro good_turn_RESTORE [OF assms(1)]) (simp_all split: if_split)
qed

lemma goal_if: "(b \<Longrightarrow> P x) \<Longrightarrow> (\<not> b \<Longrightarrow> P y) \<Longrightarrow> P (if b then x else y)"
  by simp

lemma analyze_block_turn:
  assumes "placed a" "blocks_ok a st" "in_step a st" "blockStack st \<noteq> []" "data st \<le> an_code a + an_size a"
    and "no_early_branch a"
  shows "good_turn a st (analyze_block a st)"
proof -
  note o = open_facts [OF assms(1-5)] and g = grow_facts [OF assms(1-5)]
  let ?ins = "instr_at a (open_offset st)" and ?addr = "an_base a + open_offset st"
  have early: "PPC_OP ?ins = PPC_OP_BC \<Longrightarrow> \<not> PPC_BL ?ins \<Longrightarrow>
      an_base a \<le> an_base a + (open_offset st + scast (PPC_BD ?ins))"
    using assms(6) o(5) unfolding no_early_branch_def word_le_nat_alt by blast
  obtain i s where s: "blockStack st = i # s" using assms(4) by (cases "blockStack st") auto
  have eq: "an_code a + open_offset st - an_code a = open_offset st" by simp
  have b: "analyze_block a st =
     (if projectedSize (open_block st) \<noteq> no_projection \<and> blk_size (open_block st) \<ge> projectedSize (open_block st)
      then RESTORE_DATA a (pop_block st)
      else if PPC_OP ?ins = PPC_OP_BC then conditional_case a (hd (blockStack st)) ?addr ?ins (grow st)
      else if PPC_OP ?ins = PPC_OP_B \<or> ?ins = 0 \<or> PPC_OP ?ins = PPC_OP_CTR \<and> (PPC_XOP ?ins = 16 \<or> PPC_XOP ?ins = 528)
      then (if PPC_BL ?ins then grow st
            else if PPC_OP ?ins = PPC_OP_B
            then jump_case a (blocks (grow st) ! hd (blockStack st)) ?addr ?ins (pop_block (grow st))
            else if PPC_OP ?ins = PPC_OP_CTR then return_case a ?addr ?ins (pop_block (grow st))
            else RESTORE_DATA a (pop_block (grow st)))
      else if \<not> an_opcode a ?ins ?addr then RESTORE_DATA a (pop_block (grow st))
      else grow st)"
    unfolding analyze_block_def Let_def eq instr_at_def grow_def open_block_def o(2) by (rule refl)
  have stay: "good_turn a st (grow st)" using g by (simp add: good_turn_def)
  have pop: "good_turn a st (RESTORE_DATA a (pop_block (grow st)))"
    using g by (intro good_turn_RESTORE [OF assms(1)] blocks_ok_pop) simp_all
  have cond: "good_turn a st (conditional_case a (hd (blockStack st)) ?addr ?ins (grow st))"
    if "PPC_OP ?ins = PPC_OP_BC"
  proof (cases "PPC_BL ?ins")
    case True
    then show ?thesis using stay by (simp add: conditional_case_def)
  next
    case False
    then show ?thesis using conditional_turn [OF assms(1-5) False early] that by simp
  qed
  have "0 < room a (blocks st ! i)" using o(3,5) s by (simp add: room_def open_block_def)
  then have "work a (pop_block st) < work a st" using work_pop [OF s, of a] by simp
  then have over: "good_turn a st (RESTORE_DATA a (pop_block st))"
    using assms(2) by (intro good_turn_RESTORE [OF assms(1)] blocks_ok_pop)
  show ?thesis
    unfolding b by (intro goal_if [where P = "good_turn a st"] stay pop over cond jump_turn [OF assms(1-5)] return_turn [OF assms(1-5)])
qed

subsection \<open>The loop ends\<close>

lemma analyze_loop_ends:
  assumes "placed a" "no_early_branch a"
  shows "blocks_ok a st \<Longrightarrow> in_step a st \<Longrightarrow> work a st \<le> fuel \<Longrightarrow>
     \<exists>st'. analyze_loop fuel a st = Some st' \<and> blocks_ok a st'"
proof (induction fuel arbitrary: st)
  case 0
  show ?case
  proof (cases "data st \<le> an_code a + an_size a \<and> blockStack st \<noteq> []")
    case True
    then have "good_turn a st (analyze_block a st)" using analyze_block_turn [OF assms(1) 0(1,2)] assms(2) by simp
    then show ?thesis using 0(3) by (simp add: good_turn_def)
  next
    case False
    then show ?thesis using 0(1) by (simp add: analyze_loop.simps)
  qed
next
  case (Suc n)
  show ?case
  proof (cases "data st \<le> an_code a + an_size a \<and> blockStack st \<noteq> []")
    case True
    let ?t = "(analyze_block a st)\<lparr>data := data (analyze_block a st) + 4\<rparr>"
    have g: "good_turn a st (analyze_block a st)" using True analyze_block_turn [OF assms(1) Suc(2,3)] assms(2) by simp
    then have "\<exists>st'. analyze_loop n a ?t = Some st' \<and> blocks_ok a st'"
      using Suc(4) by (intro Suc.IH) (simp_all add: good_turn_def work_def blocks_ok_def)
    then show ?thesis using True by (simp add: analyze_loop.simps [of "Suc n"] Let_def)
  next
    case False
    then show ?thesis using Suc(2) by (subst analyze_loop.simps) auto
  qed
qed

lemma start_facts:
  assumes "placed a"
  shows "blocks_ok a (start_analysis a)" "in_step a (start_analysis a)"
    "work a (start_analysis a) \<le> (unat (an_size a) + 6)\<^sup>2"
proof -
  show "blocks_ok a (start_analysis a)" "in_step a (start_analysis a)"
    by (simp_all add: start_analysis_def blocks_ok_def block_ok_def in_step_def)
  have "card ({..unat (an_size a) + 4} - {0}) = unat (an_size a) + 4" by simp
  then show "work a (start_analysis a) \<le> (unat (an_size a) + 6)\<^sup>2"
    by (simp add: start_analysis_def work_def starts_def room_def block_end_def power2_eq_square algebra_simps)
qed

subsection \<open>The entry block\<close>

text \<open>A turn keeps the blocks there are: their bases, and never makes one empty.\<close>

definition extends :: "analysis \<Rightarrow> analysis \<Rightarrow> bool" where
  "extends st st' = (length (blocks st) \<le> length (blocks st') \<and>
     (\<forall>j < length (blocks st). blk_base (blocks st' ! j) = blk_base (blocks st ! j)
        \<and> unat (blk_size (blocks st ! j)) \<le> unat (blk_size (blocks st' ! j))))"

lemma extends_refl [simp]: "extends st st"
  by (simp add: extends_def)

lemma extends_trans:
  assumes "extends st st'" "extends st' st''"
  shows "extends st st''"
  unfolding extends_def
proof (intro conjI allI impI)
  show "length (blocks st) \<le> length (blocks st'')" using assms by (simp add: extends_def)
  fix j assume "j < length (blocks st)"
  moreover from this have "j < length (blocks st')" using assms(1) by (simp add: extends_def)
  ultimately show "blk_base (blocks st'' ! j) = blk_base (blocks st ! j)"
    "unat (blk_size (blocks st ! j)) \<le> unat (blk_size (blocks st'' ! j))"
    using assms by (auto simp: extends_def intro: order_trans)
qed

lemma extends_pop [simp]: "extends st (pop_block st') = extends st st'"
  by (simp add: extends_def pop_block_def)

lemma extends_RESTORE [simp]: "extends st (RESTORE_DATA a st') = extends st st'"
  by (simp add: extends_def RESTORE_DATA_def Let_def split: list.split)

lemma extends_data [simp]: "extends st (st'\<lparr>data := d\<rparr>) = extends st st'"
  by (simp add: extends_def)

lemma extends_push [simp]: "extends st st' \<Longrightarrow> extends st (push_block b st')"
  by (simp add: extends_def push_block_def nth_append)

lemma extends_project [simp]: "extends st (map_block i (projectedSize_update f) st') = extends st st'"
proof -
  have "blk_base (bs[i := projectedSize_update f (bs ! i)] ! j) = blk_base (bs ! j)
      \<and> blk_size (bs[i := projectedSize_update f (bs ! i)] ! j) = blk_size (bs ! j)" for bs :: "Block list" and j
    by (cases "i < length bs") (simp_all add: nth_list_update not_less list_update_beyond)
  then show ?thesis by (simp add: extends_def map_block_def)
qed

lemma extends_cases:
  "extends st st' \<Longrightarrow> extends st (conditional_case a i addr ins st')"
  "extends st st' \<Longrightarrow> extends st (jump_case a b addr ins st')"
  "extends st st' \<Longrightarrow> extends st (return_case a addr ins st')"
  by (simp_all add: conditional_case_def jump_case_def return_case_def Let_def)

lemma extends_turn_grow:
  "extends st (grow st) \<Longrightarrow> extends st (analyze_block a st)"
  "projectedSize (open_block st) = no_projection \<Longrightarrow> extends (grow st) (analyze_block a st)"
  by (simp_all add: analyze_block_def Let_def extends_cases grow_def open_block_def)

lemma extends_grow:
  assumes "placed a" "blocks_ok a st" "in_step a st" "blockStack st \<noteq> []" "data st \<le> an_code a + an_size a"
  shows "extends st (grow st)"
proof -
  note o = open_facts [OF assms]
  have "unat (blk_size (open_block st)) \<le> unat (blk_size (open_block st) + 4)"
    using o(3,5) assms(1) by (simp add: placed_def block_end_def unat_word_ariths)
  moreover have "hd (blockStack st) < length (blocks st)" using assms(2,4) by (simp add: blocks_ok_def)
  ultimately show ?thesis by (simp add: extends_def grow_def map_block_def open_block_def nth_list_update)
qed

subsection \<open>The extent of the function\<close>

lemma analyze_loop_keeps:
  assumes "placed a" "no_early_branch a"
  shows "analyze_loop fuel a st = Some st' \<Longrightarrow> blocks_ok a st \<Longrightarrow> in_step a st
     \<Longrightarrow> blocks_ok a st' \<and> extends st st'"
proof (induction fuel arbitrary: st)
  case 0
  then show ?case by (simp add: analyze_loop.simps split: if_splits)
next
  case (Suc n)
  show ?case
  proof (cases "data st \<le> an_code a + an_size a \<and> blockStack st \<noteq> []")
    case True
    let ?t = "(analyze_block a st)\<lparr>data := data (analyze_block a st) + 4\<rparr>"
    have g: "good_turn a st (analyze_block a st)" using True analyze_block_turn [OF assms(1) Suc(3,4)] assms(2) by simp
    have e: "extends st ?t" using extends_turn_grow(1) extends_grow [OF assms(1) Suc(3,4)] True by simp
    have "analyze_loop n a ?t = Some st'" using Suc(2) True by (simp add: analyze_loop.simps [of "Suc n"] Let_def)
    then have "blocks_ok a st' \<and> extends ?t st'"
      using g by (intro Suc.IH) (simp_all add: good_turn_def blocks_ok_def)
    then show ?thesis using e extends_trans by blast
  next
    case False
    then have "st' = st" using Suc(2) by (subst (asm) analyze_loop.simps) (auto split: if_splits)
    then show ?thesis using Suc(3) by simp
  qed
qed

lemma analyze_loop_entry:
  assumes "placed a" "no_early_branch a" "analyze_loop fuel a (start_analysis a) = Some st"
  shows "blocks_ok a st" "blocks st \<noteq> []" "blk_base (blocks st ! 0) = 0" "4 \<le> unat (blk_size (blocks st ! 0))"
proof -
  let ?s = "start_analysis a" and ?t = "(analyze_block a (start_analysis a))\<lparr>data := data (analyze_block a (start_analysis a)) + 4\<rparr>"
  note s = start_facts [OF assms(1)]
  have "an_code a \<le> an_code a + an_size a"
    using assms(1) by (simp add: placed_def word_le_nat_alt unat_word_ariths)
  then have go: "data ?s \<le> an_code a + an_size a \<and> blockStack ?s \<noteq> []" by (simp add: start_analysis_def)
  then obtain n where n: "analyze_loop n a ?t = Some st"
    using assms(3) by (cases fuel) (simp_all add: analyze_loop.simps [of _ a ?s] Let_def)
  have g: "good_turn a ?s (analyze_block a ?s)" using go analyze_block_turn [OF assms(1) s(1,2)] assms(2) by simp
  then have k: "blocks_ok a st \<and> extends ?t st"
    using n by (intro analyze_loop_keeps [OF assms(1,2)]) (simp_all add: good_turn_def blocks_ok_def)
  have "extends (grow ?s) (analyze_block a ?s)"
    by (rule extends_turn_grow) (simp add: open_block_def start_analysis_def)
  then have e: "extends (grow ?s) st" using k extends_trans [of "grow ?s" ?t st] by simp
  have "blocks (grow ?s) = [\<lparr>blk_base = 0, blk_size = 4, projectedSize = no_projection\<rparr>]"
    by (simp add: grow_def map_block_def start_analysis_def)
  then show "blocks_ok a st" "blocks st \<noteq> []" "blk_base (blocks st ! 0) = 0" "4 \<le> unat (blk_size (blocks st ! 0))"
    using k e by (auto simp: extends_def)
qed

abbreviation word_end :: "Block \<Rightarrow> u64" where
  "word_end b \<equiv> blk_base b + blk_size b"

lemma less_extent: "off < extent bs \<longleftrightarrow> (\<exists>b \<in> set bs. off < word_end b)"
proof -
  have "off < fold (\<lambda>b n. max n (word_end b)) bs m \<longleftrightarrow> off < m \<or> (\<exists>b \<in> set bs. off < word_end b)" for m
    by (induction bs arbitrary: m) (auto simp: less_max_iff_disj)
  then show ?thesis by (simp add: extent_def)
qed

lemma extent_member: "bs \<noteq> [] \<Longrightarrow> \<exists>b \<in> set bs. extent bs = word_end b"
proof -
  have "fold (\<lambda>b n. max n (word_end b)) bs m \<in> insert m (word_end ` set bs)" for m
    by (induction bs arbitrary: m) (auto simp: max_def split: if_splits)
  from this [of 0] have "extent bs \<in> insert 0 (word_end ` set bs)" by (simp add: extent_def)
  moreover assume "bs \<noteq> []"
  moreover have "extent bs = 0 \<Longrightarrow> b \<in> set bs \<Longrightarrow> word_end b = 0" for b
    using less_extent [of 0 bs] by (auto simp: not_less)
  ultimately show ?thesis by (auto simp: neq_Nil_conv)
qed

lemma drop_subset: "set (drop_discontinuous bs) \<subseteq> set bs"
  by (induction bs rule: drop_discontinuous.induct) auto

lemma drop_covers:
  "b \<in> set (drop_discontinuous (c # bs)) \<Longrightarrow> blk_base c \<le> off \<Longrightarrow> off < word_end b
     \<Longrightarrow> \<exists>d \<in> set (drop_discontinuous (c # bs)). blk_base d \<le> off \<and> off < word_end d"
proof (induction bs arbitrary: c)
  case (Cons d bs)
  show ?case
  proof (cases "off < word_end c")
    case False
    with Cons show ?thesis by (auto split: if_splits)
  qed (use Cons.prems in \<open>auto split: if_splits\<close>)
qed auto

lemma drop_bounded:
  assumes "placed a" "\<forall>b \<in> set (c # bs). block_ok a b" "block_end c \<le> unat (an_size a) + 4"
  shows "\<forall>b \<in> set (drop_discontinuous (c # bs)). block_end b \<le> unat (an_size a) + 4"
  using assms(2,3)
proof (induction bs arbitrary: c)
  case (Cons d bs)
  show ?case
  proof (cases "blk_base d \<le> word_end c")
    case True
    then have "unat (blk_base d) \<le> block_end c"
      using block_word_end [OF assms(1)] Cons.prems(1) by (simp add: word_le_nat_alt)
    moreover have "block_ok a d" using Cons.prems(1) by simp
    ultimately have "block_end d \<le> unat (an_size a) + 4"
      using Cons.prems(2) by (auto simp: block_ok_def block_end_def)
    then have "\<forall>b \<in> set (drop_discontinuous (d # bs)). block_end b \<le> unat (an_size a) + 4"
      using Cons.prems(1) by (intro Cons.IH) simp_all
    then show ?thesis using True Cons.prems(2) by simp
  qed (use Cons.prems in simp)
qed simp

lemma drop_keeps_entry:
  "sorted (map blk_base bs) \<Longrightarrow> b \<in> set bs \<Longrightarrow> blk_base b = 0 \<Longrightarrow> b \<in> set (drop_discontinuous bs)"
  by (induction bs rule: drop_discontinuous.induct) auto

lemma extent_facts:
  assumes "placed a" "no_early_branch a"
    and "\<And>bs. mset (sort_blocks bs) = mset bs" "\<And>bs. sorted (map blk_base (sort_blocks bs))"
    and "an_word a (an_code a + 4) \<noteq> 0x04000048" "Analyze fuel sort_blocks a = Some (n, bs)"
  shows "4 \<le> n \<and> unat n \<le> unat (an_size a) + 4
     \<and> (\<forall>off. off < n \<longleftrightarrow> (\<exists>b \<in> set bs. blk_base b \<le> off \<and> off < blk_base b + blk_size b))"
proof -
  obtain st where st: "analyze_loop fuel a (start_analysis a) = Some st"
    and bs: "bs = (if length (blocks st) > 1 then drop_discontinuous (sort_blocks (blocks st)) else blocks st)"
    and n: "n = extent bs"
    using assms(5,6) by (auto simp: Analyze_def Let_def split: option.splits)
  note e = analyze_loop_entry [OF assms(1,2) st]
  let ?s = "sort_blocks (blocks st)"
  define b0 where "b0 = blocks st ! 0"
  have b0: "b0 \<in> set (blocks st)" "block_ok a b0" using e(1,2) by (auto simp: b0_def blocks_ok_def)
  have end0: "block_end b0 = unat (blk_size b0)" "4 \<le> block_end b0" "block_end b0 \<le> unat (an_size a) + 4"
    using e(3,4) b0(2) by (auto simp: b0_def block_end_def block_ok_def)
  have mem: "set ?s = set (blocks st)" using assms(3) by (metis set_mset_mset)
  have bs0: "b0 \<in> set bs"
    unfolding bs using b0 mem assms(4) e(3) by (auto simp: b0_def intro: drop_keeps_entry)
  have sub: "set bs \<subseteq> set (blocks st)" unfolding bs using drop_subset [of ?s] mem by auto
  obtain c cs where c: "?s = c # cs" using mem b0(1) by (cases ?s) auto
  have c0: "blk_base c = 0"
    using mem b0(1) assms(4) [of "blocks st"] e(3) by (fastforce simp: c b0_def)
  have bounded: "\<forall>b \<in> set bs. block_end b \<le> unat (an_size a) + 4"
  proof (cases "length (blocks st) > 1")
    case True
    have "c \<in> set (blocks st)" using mem c by auto
    then have "block_end c \<le> unat (an_size a) + 4"
      using c0 e(1) by (auto simp: blocks_ok_def block_ok_def block_end_def)
    then show ?thesis
      using drop_bounded [OF assms(1), of c cs] e(1) mem True unfolding bs c by (auto simp: blocks_ok_def c)
  next
    case False
    then have "blocks st = [b0]" using e(2) by (cases "blocks st") (auto simp: b0_def)
    then show ?thesis using end0 by (simp add: bs)
  qed
  obtain b where "b \<in> set bs" "n = word_end b" using extent_member [of bs] bs0 unfolding n by force
  then have "unat n \<le> unat (an_size a) + 4"
    using bounded sub e(1) block_word_end [OF assms(1)] by (auto simp: blocks_ok_def)
  moreover have "4 \<le> n"
  proof -
    have "unat (word_end b0) = block_end b0" by (rule block_word_end [OF assms(1) b0(2)])
    then have "4 \<le> word_end b0" using end0 by (simp add: word_le_nat_alt)
    moreover have "word_end b0 \<le> n" unfolding n using less_extent [of n bs] bs0 by (auto simp: n not_less)
    ultimately show ?thesis by simp
  qed
  moreover have "off < n \<longleftrightarrow> (\<exists>b \<in> set bs. blk_base b \<le> off \<and> off < word_end b)" for off
  proof
    assume "off < n"
    then obtain b where b: "b \<in> set bs" "off < word_end b" unfolding n less_extent by blast
    show "\<exists>b \<in> set bs. blk_base b \<le> off \<and> off < word_end b"
    proof (cases "length (blocks st) > 1")
      case True
      then show ?thesis using drop_covers [of b c cs off] b c0 unfolding bs c by simp
    next
      case False
      then have "blocks st = [b0]" using e(2) by (cases "blocks st") (auto simp: b0_def)
      moreover have "blk_base b0 = 0" using e(3) by (simp add: b0_def)
      ultimately show ?thesis using b by (simp add: bs)
    qed
  next
    assume "\<exists>b \<in> set bs. blk_base b \<le> off \<and> off < word_end b"
    then show "off < n" unfolding n less_extent by blast
  qed
  ultimately show ?thesis by blast
qed

subsection \<open>Properties\<close>

text \<open>
  C13. The analysis of a function always ends: a number of turns that is the square of the size
  of the code is enough, whatever the code is, provided no conditional branch of the section
  goes before the function.
\<close>

theorem Analyze_terminates:
  assumes "placed a" "no_early_branch a" "(unat (an_size a) + 6)\<^sup>2 \<le> fuel"
  shows "\<exists>n bs. Analyze fuel sort_blocks a = Some (n, bs)"
proof -
  have "work a (start_analysis a) \<le> fuel" using start_facts(3) [OF assms(1)] assms(3) by simp
  then obtain st where "analyze_loop fuel a (start_analysis a) = Some st"
    using analyze_loop_ends [OF assms(1,2) start_facts(1,2) [OF assms(1)]] by blast
  then show ?thesis by (simp add: Analyze_def Let_def)
qed

text \<open>
  C14. The size that the analysis gives a function is the extent of its blocks: an offset is below
  it exactly if one of the blocks holds it, so there is no gap. It is at least one instruction
  and at most one instruction longer than the code (the loop admits the word past the end).
\<close>

theorem Analyze_extent:
  assumes "placed a" "no_early_branch a"
    and "\<And>bs. mset (sort_blocks bs) = mset bs" "\<And>bs. sorted (map blk_base (sort_blocks bs))"
    and "an_word a (an_code a + 4) \<noteq> 0x04000048" "Analyze fuel sort_blocks a = Some (n, bs)"
  shows "4 \<le> n \<and> unat n \<le> unat (an_size a) + 4
     \<and> (\<forall>off. off < n \<longleftrightarrow> (\<exists>b \<in> set bs. blk_base b \<le> off \<and> off < blk_base b + blk_size b))"
  using assms by (rule extent_facts)

subsection \<open>Examples\<close>

text \<open>A conditional branch over one instruction, and returns.\<close>

definition ex_analysis :: analysis_input where
  "ex_analysis = \<lparr>an_code = 0x10000, an_size = 12, an_base = 0x82001000,
     an_word = (\<lambda>p. if p = 0x10000 then 0x08008241 else 0x2000804E), an_opcode = (\<lambda>_ _. True)\<rparr>"

lemma ex_analysis_placed: "placed ex_analysis"
  by (simp add: placed_def ex_analysis_def)

lemma ex_analysis_forward: "no_early_branch ex_analysis"
  by (simp add: no_early_branch_def ex_analysis_def instr_at_def ByteSwap32_def PPC_OP_def PPC_OP_BC_def PPC_BD_def)

lemma ex_analysis_result:
  "Analyze 400 (sort_key blk_base) ex_analysis =
     Some (12, [\<lparr>blk_base = 0, blk_size = 4, projectedSize = - 1\<rparr>,
                \<lparr>blk_base = 4, blk_size = 4, projectedSize = 4\<rparr>,
                \<lparr>blk_base = 8, blk_size = 4, projectedSize = - 1\<rparr>])"
  by code_simp

lemma Analyze_terminates_witness: "\<exists>n bs. Analyze 400 rev ex_analysis = Some (n, bs)"
  using Analyze_terminates [OF ex_analysis_placed ex_analysis_forward, of 400 rev] by (simp add: ex_analysis_def)

lemma Analyze_extent_witness: "(4 :: u64) \<le> 12 \<and> unat (12 :: u64) \<le> unat (an_size ex_analysis) + 4"
proof -
  have "an_word ex_analysis (an_code ex_analysis + 4) \<noteq> 0x04000048" by (simp add: ex_analysis_def)
  note e = Analyze_extent [OF ex_analysis_placed ex_analysis_forward _ _ this ex_analysis_result]
  show ?thesis using e by (simp only: mset_sort sorted_sort_key)
qed

text \<open>
  Without the hypothesis the loop may not end. Here the entry branches to the instruction before
  the function, which branches to itself: \<open>SearchBlock\<close> never finds a block below the base, so
  every turn pushes another block for the same instruction.
\<close>

definition stuck_analysis :: analysis_input where
  "stuck_analysis = \<lparr>an_code = 0x10000, an_size = 12, an_base = 0x82001000,
     an_word = (\<lambda>p. if p = 0x10000 then 0xFCFF8241 else if p = 0xFFFC then 0x00008241 else 0x2000804E),
     an_opcode = (\<lambda>_ _. True)\<rparr>"

definition stuck_state :: "analysis \<Rightarrow> bool" where
  "stuck_state st = (data st = 0xFFFC \<and> blocks st \<noteq> []
     \<and> blocks st ! 0 = \<lparr>blk_base = 0, blk_size = 4, projectedSize = - 1\<rparr>
     \<and> blockStack st \<noteq> [] \<and> 0 < hd (blockStack st) \<and> hd (blockStack st) < length (blocks st)
     \<and> open_block st = \<lparr>blk_base = - 4, blk_size = 0, projectedSize = - 1\<rparr>)"

lemma stuck_found:
  assumes "bs \<noteq> []" "bs ! 0 = \<lparr>blk_base = 0, blk_size = 4, projectedSize = - 1\<rparr>"
  shows "SearchBlock 0x82001000 bs 0x82001000 \<noteq> None"
proof -
  have "block_hit 0x82001000 0x82001000 (bs ! 0)" by (simp add: assms(2) block_hit_def)
  then show ?thesis using assms(1) by (auto simp: SearchBlock_def search_blocks_None)
qed

lemma stuck_turn:
  assumes "stuck_state st"
  shows "stuck_state ((analyze_block stuck_analysis st)\<lparr>data := data (analyze_block stuck_analysis st) + 4\<rparr>)"
proof -
  obtain bl i s where st: "st = \<lparr>blocks = bl, blockStack = i # s, data = 0xFFFC\<rparr>"
    using assms by (cases st) (auto simp: stuck_state_def neq_Nil_conv)
  have i: "0 < i" "i < length bl" and b: "bl ! i = \<lparr>blk_base = - 4, blk_size = 0, projectedSize = - 1\<rparr>"
    and b0: "bl \<noteq> []" "bl ! 0 = \<lparr>blk_base = 0, blk_size = 4, projectedSize = - 1\<rparr>"
    using assms by (simp_all add: stuck_state_def st open_block_def)
  define bs where "bs = bl[i := \<lparr>blk_base = - 4, blk_size = 4, projectedSize = - 1\<rparr>]"
  have bs: "bs \<noteq> []" "bs ! 0 = \<lparr>blk_base = 0, blk_size = 4, projectedSize = - 1\<rparr>"
    using b0 i by (simp_all add: bs_def)
  have same: "bs[i := (bs ! i)\<lparr>projectedSize := - 1\<rparr>] = bs" using i by (simp add: bs_def)
  have found: "\<exists>y. SearchBlock 0x82001000 bs 0x82001000 = Some y" using stuck_found [OF bs] by blast
  have no: "SearchBlock 0x82001000 bs 0x82000FFC = None" by (simp add: SearchBlock_def)
  have "analyze_block stuck_analysis st = \<lparr>blocks = bs @ [\<lparr>blk_base = - 4, blk_size = 0, projectedSize = - 1\<rparr>],
      blockStack = length bs # s, data = 0xFFF8\<rparr>"
    using found no i b same
    by (simp add: analyze_block_def st Let_def stuck_analysis_def ByteSwap32_def
        PPC_OP_def PPC_OP_BC_def conditional_case_def PPC_BL_def PPC_BD_def analysis_defs RESTORE_DATA_def
        flip: bs_def)
  then show ?thesis
    using bs by (simp add: stuck_state_def open_block_def nth_append)
qed

lemma stuck_loop: "stuck_state st \<Longrightarrow> analyze_loop fuel stuck_analysis st = None"
proof (induction fuel arbitrary: st)
  case 0
  then show ?case by (simp add: analyze_loop.simps stuck_state_def stuck_analysis_def)
next
  case (Suc n)
  have "data st \<le> an_code stuck_analysis + an_size stuck_analysis \<and> blockStack st \<noteq> []"
    using Suc.prems by (simp add: stuck_state_def stuck_analysis_def)
  then show ?case using Suc.IH [OF stuck_turn [OF Suc.prems]] by (simp add: analyze_loop.simps [of "Suc n"] Let_def)
qed

lemma Analyze_stuck: "Analyze fuel sort_blocks stuck_analysis = None"
proof -
  let ?t = "(analyze_block stuck_analysis (start_analysis stuck_analysis))
      \<lparr>data := data (analyze_block stuck_analysis (start_analysis stuck_analysis)) + 4\<rparr>"
  have "?t = \<lparr>blocks = [\<lparr>blk_base = 0, blk_size = 4, projectedSize = - 1\<rparr>,
      \<lparr>blk_base = 4, blk_size = 0, projectedSize = - 8\<rparr>, \<lparr>blk_base = - 4, blk_size = 0, projectedSize = - 1\<rparr>],
      blockStack = [2, 1], data = 0xFFFC\<rparr>" by code_simp
  then have "stuck_state ?t" by (simp add: stuck_state_def open_block_def)
  then have "analyze_loop n stuck_analysis ?t = None" for n by (rule stuck_loop)
  moreover have "data (start_analysis stuck_analysis) \<le> an_code stuck_analysis + an_size stuck_analysis
      \<and> blockStack (start_analysis stuck_analysis) \<noteq> []"
    by (simp add: start_analysis_def stuck_analysis_def)
  ultimately have "analyze_loop fuel stuck_analysis (start_analysis stuck_analysis) = None"
    by (cases fuel) (simp_all add: analyze_loop.simps [of _ _ "start_analysis stuck_analysis"] Let_def)
  then show ?thesis by (simp add: Analyze_def stuck_analysis_def)
qed

text \<open>
  The bound of the extent is reached: for one instruction that is no branch, at the end of the
  section, the loop reads the word after the section and counts it.
\<close>

lemma Analyze_past_end:
  "Analyze 20 (sort_key blk_base)
     \<lparr>an_code = 0x10000, an_size = 4, an_base = 0x82001000, an_word = (\<lambda>_. 0x60), an_opcode = (\<lambda>_ _. True)\<rparr>
   = Some (8, [\<lparr>blk_base = 0, blk_size = 8, projectedSize = - 1\<rparr>])"
  by code_simp

end
