(* ===== verification/Analyse.thy ===== *)
theory Analyse
  imports FunctionAnalysis
begin

text \<open>
  \<open>Recompiler::Analyse\<close> of \<open>XenonRecomp/recompiler.cpp\<close>: the functions of an image are
  collected from the configuration (the save and restore helpers, the listed functions), from
  the \<open>.pdata\<close> section, from the direct calls of each code section and from a sweep over the
  bytes that are left, and each one gets a symbol.
\<close>

unbundle bit_operations_syntax

subsection \<open>Inputs and state\<close>

text \<open>
  \<open>ae_word\<close> is the 32-bit word the host reads at a pointer, \<open>ae_data\<close> the pointer to the
  bytes of a section, \<open>ae_opcode\<close> whether the disassembler knows a word, \<open>ae_sort\<close> and
  \<open>ae_sort_fns\<close> the orders of \<open>std::sort\<close>, \<open>ae_fuel\<close> the fuel of each function analysis.
\<close>

record analyse_env =
  ae_config :: RecompilerConfig
  ae_word :: "u64 \<Rightarrow> u32"
  ae_data :: "Section \<Rightarrow> u64"
  ae_opcode :: "u32 \<Rightarrow> u64 \<Rightarrow> bool"
  ae_sort :: "Block list \<Rightarrow> Block list"
  ae_sort_fns :: "FunctionRange list \<Rightarrow> FunctionRange list"
  ae_fuel :: nat

record analysed =
  found_functions :: "FunctionRange list"
  symbols :: SymbolTable

definition add_function :: "string \<Rightarrow> u64 \<Rightarrow> u64 \<Rightarrow> analysed \<Rightarrow> analysed" where
  "add_function name base size1 s =
     \<lparr>found_functions = found_functions s @ [\<lparr>fn_base = base, fn_size = size1\<rparr>],
      symbols = emplace \<lparr>sym_name = name, sym_address = base, sym_size = size1, sym_type = Symbol_Function\<rparr> (symbols s)\<rparr>"

definition sub_name :: "u64 \<Rightarrow> string" where
  "sub_name address = ''sub_'' @ hex_string (uint address)"

subsection \<open>Helpers and configured functions\<close>

text \<open>One helper of number \<open>i\<close>: \<open>step\<close> bytes per register, \<open>rest\<close> bytes after the last one.\<close>

definition helper :: "u32 \<Rightarrow> string \<Rightarrow> nat \<Rightarrow> nat \<Rightarrow> nat \<Rightarrow> nat \<Rightarrow> nat \<Rightarrow> analysed \<Rightarrow> analysed" where
  "helper address name first last1 step rest i s =
     (if address \<noteq> 0
      then add_function (name @ dec_string (int i)) (ucast address + of_nat ((i - first) * step))
             (of_nat ((last1 - i) * step + rest)) s
      else s)"

definition save_restore :: "RecompilerConfig \<Rightarrow> nat \<Rightarrow> analysed \<Rightarrow> analysed" where
  "save_restore c i s =
     (let s = (if i < 32 then
                 helper (saveVmx14Address c) ''__savevmx_'' 14 32 8 4 i
                (helper (restVmx14Address c) ''__restvmx_'' 14 32 8 4 i
                (helper (saveFpr14Address c) ''__savefpr_'' 14 32 4 4 i
                (helper (restFpr14Address c) ''__restfpr_'' 14 32 4 4 i
                (helper (saveGpr14Address c) ''__savegprlr_'' 14 32 4 8 i
                (helper (restGpr14Address c) ''__restgprlr_'' 14 32 4 12 i s)))))
               else s)
      in if i \<ge> 64 then
           helper (saveVmx64Address c) ''__savevmx_'' 64 128 8 4 i
          (helper (restVmx64Address c) ''__restvmx_'' 64 128 8 4 i s)
         else s)"

definition add_helpers :: "RecompilerConfig \<Rightarrow> analysed \<Rightarrow> analysed" where
  "add_helpers c s = fold (save_restore c) [14..<128] s"

definition add_configured :: "RecompilerConfig \<Rightarrow> analysed \<Rightarrow> analysed" where
  "add_configured c s =
     fold (\<lambda>(address, size1). add_function (sub_name (ucast address)) (ucast address) (ucast size1)) (cfgFunctions c) s"

subsection \<open>The function table of the image\<close>

text \<open>The bit field \<open>FunctionLength\<close> of \<open>IMAGE_CE_RUNTIME_FUNCTION\<close> (\<open>xbox.h\<close>).\<close>

definition FunctionLength :: "u32 \<Rightarrow> u32" where
  "FunctionLength d = drop_bit 8 d AND 0x3FFFFF"

definition pdata_entry :: "analyse_env \<Rightarrow> u64 \<Rightarrow> nat \<Rightarrow> u32 \<times> u32" where
  "pdata_entry e p i =
     (ByteSwap32 (ae_word e (p + of_nat (8 * i))), ByteSwap32 (ae_word e (p + of_nat (8 * i) + 4)))"

definition add_pdata :: "analyse_env \<Rightarrow> Section \<Rightarrow> analysed \<Rightarrow> analysed" where
  "add_pdata e pdata s =
     fold (\<lambda>i s. let (BeginAddress, Data) = pdata_entry e (ae_data e pdata) i
                 in if find_symbol (ucast BeginAddress) (symbols s) = None
                    then add_function (sub_name (ucast BeginAddress)) (ucast BeginAddress)
                           (ucast (FunctionLength Data * 4)) s
                    else s)
       [0..<unat (sec_size pdata) div 8] s"

subsection \<open>Code sections\<close>

definition analyze_at :: "analyse_env \<Rightarrow> u64 \<Rightarrow> u64 \<Rightarrow> u64 \<Rightarrow> u64 option" where
  "analyze_at e code size1 base =
     map_option fst (Analyze (ae_fuel e) (ae_sort e)
       \<lparr>an_code = code, an_size = size1, an_base = base, an_word = ae_word e, an_opcode = ae_opcode e\<rparr>)"

definition call_target :: "analyse_env \<Rightarrow> Section \<Rightarrow> u64 \<Rightarrow> u64 option" where
  "call_target e sec off =
     (let insn = ByteSwap32 (ae_word e (ae_data e sec + off));
          address = sec_base sec + off + scast (PPC_BI insn)
      in if PPC_OP insn = PPC_OP_B \<and> PPC_BL insn
            \<and> sec_base sec \<le> address \<and> address < sec_base sec + ucast (sec_size sec)
         then Some address else None)"

definition scan_call :: "analyse_env \<Rightarrow> Section \<Rightarrow> u64 \<Rightarrow> analysed \<Rightarrow> analysed option" where
  "scan_call e sec off s =
     (case call_target e sec off of
        None \<Rightarrow> Some s
      | Some address \<Rightarrow>
          if find_symbol address (symbols s) = None then
            map_option (\<lambda>n. add_function (sub_name address) address n s)
              (analyze_at e (ae_data e sec + address - sec_base sec)
                 (sec_base sec + ucast (sec_size sec) - address) address)
          else Some s)"

definition word_offsets :: "Section \<Rightarrow> u64 list" where
  "word_offsets sec = map (\<lambda>k. of_nat (4 * k)) [0..<(unat (sec_size sec) + 3) div 4]"

fun scan_calls :: "analyse_env \<Rightarrow> Section \<Rightarrow> u64 list \<Rightarrow> analysed \<Rightarrow> analysed option" where
  "scan_calls e sec [] s = Some s"
| "scan_calls e sec (off # offs) s =
     (case scan_call e sec off s of None \<Rightarrow> None | Some s' \<Rightarrow> scan_calls e sec offs s')"

text \<open>The function symbol that the sweep skips over.\<close>

definition known_function :: "SymbolTable \<Rightarrow> u64 \<Rightarrow> Symbol option" where
  "known_function syms base =
     (case find_symbol base syms of
        None \<Rightarrow> None
      | Some fnSymbol \<Rightarrow>
          if sym_address fnSymbol = base \<and> sym_type fnSymbol = Symbol_Function then Some fnSymbol else None)"

fun sweep :: "nat \<Rightarrow> analyse_env \<Rightarrow> u64 \<Rightarrow> u64 \<Rightarrow> u64 \<Rightarrow> analysed \<Rightarrow> analysed option" where
  "sweep fuel e dataEnd base ptr s =
     (if ptr < dataEnd then
        (case fuel of
           0 \<Rightarrow> None
         | Suc n \<Rightarrow>
             case invalidInstructions (ae_config e) (ByteSwap32 (ae_word e ptr)) of
               Some size1 \<Rightarrow> sweep n e dataEnd (base + ucast size1) (ptr + ucast size1) s
             | None \<Rightarrow>
                 case known_function (symbols s) base of
                   Some fnSymbol \<Rightarrow> sweep n e dataEnd (base + sym_size fnSymbol) (ptr + sym_size fnSymbol) s
                 | None \<Rightarrow>
                     case analyze_at e ptr (dataEnd - ptr) base of
                       None \<Rightarrow> None
                     | Some size1 \<Rightarrow>
                         sweep n e dataEnd (base + size1) (ptr + size1) (add_function (sub_name base) base size1 s))
      else Some s)"

declare sweep.simps [simp del]

definition analyse_section :: "nat \<Rightarrow> analyse_env \<Rightarrow> Section \<Rightarrow> analysed \<Rightarrow> analysed option" where
  "analyse_section fuel e sec s =
     (if \<not> sec_code sec then Some s
      else
        case scan_calls e sec (word_offsets sec) s of
          None \<Rightarrow> None
        | Some s' \<Rightarrow> sweep fuel e (ae_data e sec + ucast (sec_size sec)) (sec_base sec) (ae_data e sec) s')"

fun analyse_sections :: "nat \<Rightarrow> analyse_env \<Rightarrow> Section list \<Rightarrow> analysed \<Rightarrow> analysed option" where
  "analyse_sections fuel e [] s = Some s"
| "analyse_sections fuel e (sec # secs) s =
     (case analyse_section fuel e sec s of None \<Rightarrow> None | Some s' \<Rightarrow> analyse_sections fuel e secs s')"

text \<open>
  The whole analysis; without a \<open>.pdata\<close> section the source dereferences a null pointer:
  \<open>None\<close>.
\<close>

definition Analyse :: "nat \<Rightarrow> analyse_env \<Rightarrow> Image \<Rightarrow> analysed option" where
  "Analyse fuel e img =
     (case Image_FindName ''.pdata'' img of
        None \<Rightarrow> None
      | Some pdata \<Rightarrow>
          map_option (found_functions_update (ae_sort_fns e))
            (analyse_sections fuel e (img_sections img)
              (add_pdata e pdata (add_configured (ae_config e) (add_helpers (ae_config e)
                 \<lparr>found_functions = [], symbols = img_symbols img\<rparr>)))))"

subsection \<open>Everything adds functions\<close>

inductive adds :: "analysed \<Rightarrow> analysed \<Rightarrow> bool" where
  adds_refl: "adds s s"
| adds_step: "adds s s' \<Longrightarrow> adds s (add_function n b z s')"

lemma adds_trans: "adds s' s'' \<Longrightarrow> adds s s' \<Longrightarrow> adds s s''"
  by (induction rule: adds.induct) (auto intro: adds.intros)

lemma adds_fold: "(\<And>x s. x \<in> set xs \<Longrightarrow> adds s (f x s)) \<Longrightarrow> adds s (fold f xs s)"
  by (induction xs arbitrary: s) (auto intro: adds_refl adds_trans)

lemma adds_add: "adds s (add_function n b z s)"
  by (intro adds.intros)

lemma adds_helpers: "adds s (add_helpers c s)"
proof -
  have h: "adds s (helper address name first last1 step rest i s')"
    if "adds s s'" for address name first last1 step rest i s s'
    using that by (auto simp: helper_def intro: adds_step)
  show ?thesis unfolding add_helpers_def
    by (intro adds_fold) (auto simp: save_restore_def Let_def intro!: h adds_refl)
qed

lemma adds_configured: "adds s (add_configured c s)"
  unfolding add_configured_def by (intro adds_fold) (auto simp: adds_add)

lemma adds_pdata: "adds s (add_pdata e pdata s)"
  unfolding add_pdata_def by (intro adds_fold) (auto simp: Let_def adds_add adds_refl split: prod.split)

lemma adds_initial: "adds s (add_pdata e pdata (add_configured c (add_helpers c s)))"
  by (rule adds_trans [OF adds_pdata adds_trans [OF adds_configured adds_helpers]])

lemma adds_scan_call: "scan_call e sec off s = Some s' \<Longrightarrow> adds s s'"
  by (auto simp: scan_call_def adds_refl adds_add split: option.splits if_splits)

lemma adds_scan_calls: "scan_calls e sec offs s = Some s' \<Longrightarrow> adds s s'"
  by (induction offs arbitrary: s) (auto simp: adds_refl split: option.splits intro: adds_trans dest: adds_scan_call)

lemma adds_sweep: "sweep fuel e dataEnd base ptr s = Some s' \<Longrightarrow> adds s s'"
proof (induction fuel arbitrary: base ptr s)
  case 0
  then show ?case by (auto simp: sweep.simps adds_refl split: if_splits)
next
  case (Suc n)
  then show ?case
    by (subst (asm) sweep.simps) (auto simp: adds_refl split: if_splits option.splits intro: adds_trans [OF _ adds_add])
qed

lemma adds_section: "analyse_section fuel e sec s = Some s' \<Longrightarrow> adds s s'"
  by (auto simp: analyse_section_def adds_refl split: if_splits option.splits
      intro: adds_trans dest: adds_scan_calls adds_sweep)

lemma adds_sections: "analyse_sections fuel e secs s = Some s' \<Longrightarrow> adds s s'"
  by (induction secs arbitrary: s) (auto simp: adds_refl split: option.splits intro: adds_trans dest: adds_section)

text \<open>What adding functions keeps.\<close>

lemma adds_sorted: "adds s s' \<Longrightarrow> table_sorted (symbols s) \<Longrightarrow> table_sorted (symbols s')"
  by (induction rule: adds.induct) (auto simp: add_function_def emplace_sorted)

lemma adds_subset: "adds s s' \<Longrightarrow> set (symbols s) \<subseteq> set (symbols s')"
  by (induction rule: adds.induct) (auto simp: add_function_def)

lemma find_emplace_found:
  "table_sorted syms \<Longrightarrow> find_symbol a syms \<noteq> None \<Longrightarrow> find_symbol a (emplace t syms) \<noteq> None"
  by (auto simp: find_symbol_eq equal_range_emplace Let_def split: if_splits)

lemma adds_found:
  "adds s s' \<Longrightarrow> table_sorted (symbols s) \<Longrightarrow> find_symbol a (symbols s) \<noteq> None \<Longrightarrow> find_symbol a (symbols s') \<noteq> None"
proof (induction rule: adds.induct)
  case (adds_step s s' n b z)
  then show ?case using adds_sorted [OF adds_step(1)] find_emplace_found by (simp add: add_function_def)
qed

text \<open>A function of the list and the symbol made for it.\<close>

definition symbol_of :: "FunctionRange \<Rightarrow> Symbol \<Rightarrow> bool" where
  "symbol_of f t = (sym_address t = fn_base f \<and> sym_size t = fn_size f \<and> sym_type t = Symbol_Function)"

definition registered :: "analysed \<Rightarrow> bool" where
  "registered s = (\<forall>f \<in> set (found_functions s). \<exists>t \<in> set (symbols s). symbol_of f t)"

lemma adds_registered: "adds s s' \<Longrightarrow> registered s \<Longrightarrow> registered s'"
  by (induction rule: adds.induct) (auto simp: add_function_def registered_def symbol_of_def)

lemma adds_count:
  "adds s s' \<Longrightarrow> length (symbols s) + length (found_functions s') = length (symbols s') + length (found_functions s)"
proof (induction rule: adds.induct)
  case (adds_step s s' n b z)
  have "length (emplace t syms) = Suc (length syms)" for t syms by (induction syms) auto
  then show ?case using adds_step by (simp add: add_function_def)
qed simp

subsection \<open>The sweep leaves nothing out\<close>

lemma unat_ucast_u64 [simp]: "unat (ucast (z :: u32) :: u64) = unat z"
proof -
  have "unat z < 2 ^ LENGTH(32)" by (rule unsigned_less)
  then show ?thesis by (simp add: unsigned_ucast_eq take_bit_nat_eq_self)
qed

lemma unat_plus_offset:
  "unat (b :: u64) + 0x400000000 < 0x10000000000000000 \<Longrightarrow> k < 0x400000000 \<Longrightarrow> unat (b + of_nat k) = unat b + k"
  by (simp add: unat_word_ariths unat_of_nat)

text \<open>
  The offset \<open>a\<close> of a section is held by a function symbol or by an invalid instruction of the
  configuration.
\<close>

definition covered :: "analyse_env \<Rightarrow> Section \<Rightarrow> SymbolTable \<Rightarrow> nat \<Rightarrow> bool" where
  "covered e sec syms a =
     ((\<exists>t \<in> set syms. sym_type t = Symbol_Function \<and> sym_address t \<le> sec_base sec + of_nat a
         \<and> sec_base sec + of_nat a < sym_address t + sym_size t)
      \<or> (\<exists>q z. q \<le> a \<and> a < q + unat z
          \<and> invalidInstructions (ae_config e) (ByteSwap32 (ae_word e (ae_data e sec + of_nat q))) = Some z))"

definition roomy :: "analyse_env \<Rightarrow> Section \<Rightarrow> bool" where
  "roomy e sec = (unat (sec_base sec) + 0x400000000 < 0x10000000000000000
     \<and> unat (ae_data e sec) + 0x400000000 < 0x10000000000000000)"

lemma covered_symbol:
  assumes "roomy e sec" "t \<in> set syms" "sym_type t = Symbol_Function" "sym_address t = sec_base sec + of_nat q"
    and "q \<le> a" "a < q + unat (sym_size t)" "q < 0x200000000" "unat (sym_size t) < 0x100000000"
  shows "covered e sec syms a"
proof -
  have b: "unat (sec_base sec) + 0x400000000 < 0x10000000000000000" using assms(1) by (simp add: roomy_def)
  have "sym_address t \<le> sec_base sec + of_nat a"
    unfolding assms(4) word_le_nat_alt using assms(5-8) by (simp add: unat_plus_offset [OF b])
  moreover have e: "sym_address t + sym_size t = sec_base sec + of_nat (q + unat (sym_size t))" by (simp add: assms(4))
  have "sec_base sec + of_nat a < sym_address t + sym_size t"
    unfolding e word_less_nat_alt using assms(5-8) by (simp add: unat_plus_offset [OF b] del: of_nat_add)
  ultimately show ?thesis unfolding covered_def using assms(2,3) by blast
qed

lemma known_functionD:
  "known_function syms b = Some t \<Longrightarrow> t \<in> set syms \<and> sym_address t = b \<and> sym_type t = Symbol_Function \<and> covers_base t"
  by (auto simp: known_function_def dest: find_symbol_SomeD split: option.splits if_splits)

lemma sweep_covers:
  assumes "roomy e sec" "\<forall>t \<in> set (symbols s'). unat (sym_size t) < 0x100000000"
  shows "sweep fuel e (ae_data e sec + ucast (sec_size sec)) (sec_base sec + of_nat k) (ae_data e sec + of_nat k) s = Some s'
     \<Longrightarrow> k < 0x200000000 \<Longrightarrow> k \<le> a \<Longrightarrow> a < unat (sec_size sec) \<Longrightarrow> covered e sec (symbols s') a"
proof (induction fuel arbitrary: k s)
  let ?stop = "ae_data e sec + ucast (sec_size sec)"
  have d: "unat (ae_data e sec) + 0x400000000 < 0x10000000000000000" using assms(1) by (simp add: roomy_def)
  have N: "unat (sec_size sec) < 0x100000000" using unsigned_less [of "sec_size sec", where ?'a = nat] by simp
  have "?stop = ae_data e sec + of_nat (unat (sec_size sec))" by simp
  then have less: "ae_data e sec + of_nat k < ?stop \<longleftrightarrow> k < unat (sec_size sec)" if "k < 0x200000000" for k
    using that N by (simp add: word_less_nat_alt unat_plus_offset [OF d] del: of_nat_unat)
  {
    case 0
    then show ?case by (simp add: sweep.simps less)
  next
    case (Suc n)
    have k: "ae_data e sec + of_nat k < ?stop" using Suc.prems less by simp
    have kN: "k < unat (sec_size sec)" using Suc.prems by simp
    have go: "covered e sec (symbols s') a"
      if "sweep n e ?stop (sec_base sec + of_nat k + z) (ae_data e sec + of_nat k + z) s1 = Some s'"
        "unat z < 0x100000000" "a < k + unat z \<Longrightarrow> covered e sec (symbols s') a" for z s1
    proof (cases "a < k + unat z")
      case False
      then show ?thesis
        using that(1,2) Suc.prems kN N by (intro Suc.IH [of "k + unat z" s1]) (simp_all add: add.assoc)
    qed (rule that(3))
    let ?w = "ByteSwap32 (ae_word e (ae_data e sec + of_nat k))"
    show ?case
    proof (cases "invalidInstructions (ae_config e) ?w")
      case (Some z)
      have "unat z < 0x100000000" using unsigned_less [of z, where ?'a = nat] by simp
      then have zz: "unat (ucast z :: u64) < 0x100000000" by (simp only: unat_ucast_u64)
      have sw: "sweep n e ?stop (sec_base sec + of_nat k + ucast z) (ae_data e sec + of_nat k + ucast z) s = Some s'"
        using Suc.prems(1) k Some by (simp add: sweep.simps [of "Suc n"])
      show ?thesis
        using sw zz by (rule go) (use Some Suc.prems(3) in \<open>auto simp: covered_def\<close>)
    next
      case None
      note inv = this
      show ?thesis
      proof (cases "known_function (symbols s) (sec_base sec + of_nat k)")
        case (Some t)
        have sw: "sweep n e ?stop (sec_base sec + of_nat k + sym_size t) (ae_data e sec + of_nat k + sym_size t) s = Some s'"
          using Suc.prems(1) k inv Some by (simp add: sweep.simps [of "Suc n"])
        note t = known_functionD [OF Some]
        have t': "t \<in> set (symbols s')" using t adds_subset [OF adds_sweep [OF sw]] by blast
        then have z: "unat (sym_size t) < 0x100000000" using assms(2) by blast
        show ?thesis using sw z by (rule go) (use t t' z Suc.prems in \<open>auto intro: covered_symbol [OF assms(1)]\<close>)
      next
        case None
        let ?b = "sec_base sec + of_nat k"
        obtain z where "analyze_at e (ae_data e sec + of_nat k) (?stop - (ae_data e sec + of_nat k)) ?b = Some z"
          and sw: "sweep n e ?stop (?b + z) (ae_data e sec + of_nat k + z) (add_function (sub_name ?b) ?b z s) = Some s'"
          using Suc.prems(1) k inv None by (auto simp: sweep.simps [of "Suc n"] split: option.splits)
        define t where "t = \<lparr>sym_name = sub_name ?b, sym_address = ?b, sym_size = z, sym_type = Symbol_Function\<rparr>"
        have "t \<in> set (symbols (add_function (sub_name ?b) ?b z s))" by (simp add: add_function_def t_def)
        then have t': "t \<in> set (symbols s')" using adds_subset [OF adds_sweep [OF sw]] by blast
        then have z: "unat z < 0x100000000" using assms(2) by (auto simp: t_def)
        show ?thesis using sw z
          by (rule go) (use t' z Suc.prems in \<open>auto simp: t_def intro: covered_symbol [OF assms(1), of t]\<close>)
      qed
    qed
  }
qed

subsection \<open>Direct calls\<close>

definition analysis_at :: "analyse_env \<Rightarrow> Section \<Rightarrow> u64 \<Rightarrow> analysis_input" where
  "analysis_at e sec a =
     \<lparr>an_code = ae_data e sec + a - sec_base sec, an_size = sec_base sec + ucast (sec_size sec) - a, an_base = a,
      an_word = ae_word e, an_opcode = ae_opcode e\<rparr>"

text \<open>A start of a function that no conditional branch behind it jumps before.\<close>

definition clean_start :: "analyse_env \<Rightarrow> Section \<Rightarrow> u64 \<Rightarrow> bool" where
  "clean_start e sec a = (placed (analysis_at e sec a) \<and> no_early_branch (analysis_at e sec a))"

definition sorts_blocks :: "(Block list \<Rightarrow> Block list) \<Rightarrow> bool" where
  "sorts_blocks f = (\<forall>bs. mset (f bs) = mset bs \<and> sorted (map blk_base (f bs)))"

lemma analyze_at_positive:
  assumes "clean_start e sec a" "sorts_blocks (ae_sort e)"
    and "analyze_at e (ae_data e sec + a - sec_base sec) (sec_base sec + ucast (sec_size sec) - a) a = Some n"
  shows "a < a + n"
proof -
  let ?i = "analysis_at e sec a"
  obtain bs where r: "Analyze (ae_fuel e) (ae_sort e) ?i = Some (n, bs)"
    using assms(3) by (auto simp: analyze_at_def analysis_at_def)
  have i: "placed ?i" "no_early_branch ?i" using assms(1) by (simp_all add: clean_start_def)
  have n: "4 \<le> n \<and> unat n \<le> unat (an_size ?i) + 8"
  proof (cases "an_word ?i (an_code ?i + 4) = 0x04000048")
    case True
    then show ?thesis using r by (simp add: Analyze_def)
  next
    case False
    then show ?thesis using extent_facts [OF i _ _ False r] assms(2) by (auto simp: sorts_blocks_def)
  qed
  have "unat a + unat n < 0x10000000000000000" using i(1) n by (simp add: placed_def analysis_at_def)
  moreover have "0 < unat n" using n by (simp add: word_le_nat_alt)
  ultimately show ?thesis by (simp add: word_less_nat_alt unat_word_ariths)
qed

lemma scan_call_found:
  assumes "scan_call e sec off s = Some s'" "call_target e sec off = Some a" "clean_start e sec a"
    and "sorts_blocks (ae_sort e)" "table_sorted (symbols s)"
  shows "find_symbol a (symbols s') \<noteq> None"
proof (cases "find_symbol a (symbols s) = None")
  case True
  then obtain n where n: "analyze_at e (ae_data e sec + a - sec_base sec) (sec_base sec + ucast (sec_size sec) - a) a = Some n"
    and s': "s' = add_function (sub_name a) a n s"
    using assms(1,2) by (auto simp: scan_call_def)
  let ?t = "\<lparr>sym_name = sub_name a, sym_address = a, sym_size = n, sym_type = Symbol_Function\<rparr>"
  have "covers_base ?t" using analyze_at_positive [OF assms(3,4) n] by (simp add: covers_base_def)
  then have "find_symbol (sym_address ?t) (emplace ?t (symbols s)) = Some ?t"
    by (rule find_emplace_same [OF assms(5)])
  then show ?thesis by (simp add: s' add_function_def)
next
  case False
  then show ?thesis using assms(1,2,5) adds_found adds_scan_call by blast
qed

lemma scan_calls_found:
  assumes "scan_calls e sec offs s = Some s'" "off \<in> set offs" "call_target e sec off = Some a"
    and "clean_start e sec a" "sorts_blocks (ae_sort e)" "table_sorted (symbols s)"
  shows "find_symbol a (symbols s') \<noteq> None"
  using assms(1,2,6)
proof (induction offs arbitrary: s)
  case (Cons o1 offs)
  obtain s1 where s1: "scan_call e sec o1 s = Some s1" "scan_calls e sec offs s1 = Some s'"
    using Cons.prems(1) by (auto split: option.splits)
  have sorted1: "table_sorted (symbols s1)" using adds_sorted [OF adds_scan_call [OF s1(1)]] Cons.prems(3) .
  show ?case
  proof (cases "o1 = off")
    case True
    then have "find_symbol a (symbols s1) \<noteq> None"
      using scan_call_found [OF s1(1) _ assms(4,5) Cons.prems(3)] assms(3) by simp
    then show ?thesis using adds_found [OF adds_scan_calls [OF s1(2)] sorted1] by blast
  next
    case False
    then show ?thesis using Cons.IH [OF s1(2)] Cons.prems(2) sorted1 by simp
  qed
qed simp

lemma analyse_sections_split:
  "analyse_sections fuel e secs s = Some s' \<Longrightarrow> sec \<in> set secs \<Longrightarrow>
     \<exists>s1 s2. adds s s1 \<and> analyse_section fuel e sec s1 = Some s2 \<and> adds s2 s'"
proof (induction secs arbitrary: s)
  case (Cons t secs)
  then obtain s1 where s1: "analyse_section fuel e t s = Some s1" "analyse_sections fuel e secs s1 = Some s'"
    by (auto split: option.splits)
  show ?case
  proof (cases "sec = t")
    case True
    then show ?thesis using s1 adds_sections adds_refl by blast
  next
    case False
    then have "sec \<in> set secs" using Cons.prems(2) by simp
    then obtain t1 t2 where "adds s1 t1" "analyse_section fuel e sec t1 = Some t2" "adds t2 s'"
      using Cons.IH [OF s1(2)] by blast
    then show ?thesis using adds_trans [OF _ adds_section [OF s1(1)]] by blast
  qed
qed simp

text \<open>The analysis of one code section inside the whole.\<close>

lemma Analyse_section:
  assumes "Analyse fuel e img = Some s" "table_sorted (img_symbols img)" "sec \<in> set (img_sections img)" "sec_code sec"
  obtains s1 s2 s3 where "table_sorted (symbols s1)" "scan_calls e sec (word_offsets sec) s1 = Some s2"
    and "sweep fuel e (ae_data e sec + ucast (sec_size sec)) (sec_base sec) (ae_data e sec) s2 = Some s3"
    and "adds s1 s2" "adds s2 s3" "set (symbols s3) \<subseteq> set (symbols s)"
    and "\<And>a. find_symbol a (symbols s3) \<noteq> None \<Longrightarrow> find_symbol a (symbols s) \<noteq> None"
proof -
  obtain pdata s4 where s4: "analyse_sections fuel e (img_sections img)
      (add_pdata e pdata (add_configured (ae_config e) (add_helpers (ae_config e)
                 \<lparr>found_functions = [], symbols = img_symbols img\<rparr>))) = Some s4"
    and s: "symbols s = symbols s4"
    using assms(1) by (auto simp: Analyse_def split: option.splits)
  obtain s1 s3 where s1: "adds (add_pdata e pdata (add_configured (ae_config e) (add_helpers (ae_config e)
                 \<lparr>found_functions = [], symbols = img_symbols img\<rparr>))) s1"
    "analyse_section fuel e sec s1 = Some s3" "adds s3 s4"
    using analyse_sections_split [OF s4 assms(3)] by blast
  have "adds \<lparr>found_functions = [], symbols = img_symbols img\<rparr> s1"
    by (rule adds_trans [OF s1(1) adds_initial])
  then have sorted1: "table_sorted (symbols s1)" using adds_sorted assms(2) by fastforce
  obtain s2 where s2: "scan_calls e sec (word_offsets sec) s1 = Some s2"
    "sweep fuel e (ae_data e sec + ucast (sec_size sec)) (sec_base sec) (ae_data e sec) s2 = Some s3"
    using s1(2) assms(4) by (auto simp: analyse_section_def split: option.splits)
  have "table_sorted (symbols s3)" using adds_sorted [OF adds_section [OF s1(2)] sorted1] .
  then show thesis
    using that [OF sorted1 s2 adds_scan_calls [OF s2(1)] adds_sweep [OF s2(2)]] adds_subset [OF s1(3)]
      adds_found [OF s1(3)] by (simp add: s)
qed

subsection \<open>Properties\<close>




subsection \<open>Example\<close>

text \<open>A section of a call of its second instruction, which returns, and an empty \<open>.pdata\<close>.\<close>

definition plain_config :: RecompilerConfig where
  "plain_config =
     \<lparr>directoryPath = [], filePath = [], patchFilePath = [], patchedFilePath = [],
      outDirectoryPath = [], switchTableFilePath = [], switchTables = (\<lambda>_. None),
      skipLr = False, ctrAsLocalVariable = False, xerAsLocalVariable = False,
      reservedRegisterAsLocalVariable = False, skipMsr = False,
      crRegistersAsLocalVariables = False, nonArgumentRegistersAsLocalVariables = False,
      nonVolatileRegistersAsLocalVariables = False,
      restGpr14Address = 0, saveGpr14Address = 0, restFpr14Address = 0, saveFpr14Address = 0,
      restVmx14Address = 0, saveVmx14Address = 0, restVmx64Address = 0, saveVmx64Address = 0,
      longJmpAddress = 0, setJmpAddress = 0, cfgFunctions = [],
      invalidInstructions = (\<lambda>_. None), midAsmHooks = (\<lambda>_. None)\<rparr>"

definition ex_pdata :: Section where
  "ex_pdata = \<lparr>sec_name = ''.pdata'', sec_base = 0x82000400, sec_size = 0, sec_code = False, sec_data = []\<rparr>"

definition ex_text :: Section where
  "ex_text = \<lparr>sec_name = ''.text'', sec_base = 0x82001000, sec_size = 8, sec_code = True, sec_data = []\<rparr>"

definition ex_image_of_calls :: Image where
  "ex_image_of_calls = \<lparr>img_base = 0x82000000, img_size = 0x2000, img_entry_point = 0x82001000,
     img_sections = [ex_pdata, ex_text], img_symbols = []\<rparr>"

definition ex_analyse_env :: analyse_env where
  "ex_analyse_env = \<lparr>ae_config = plain_config,
     ae_word = (\<lambda>p. if p = 0x10000 then 0x05000048 else 0x2000804E), ae_data = (\<lambda>_. 0x10000),
     ae_opcode = (\<lambda>_ _. True), ae_sort = sort_key blk_base, ae_sort_fns = sort_key fn_base, ae_fuel = 5\<rparr>"

definition ex_analysed :: analysed where
  "ex_analysed = \<lparr>found_functions = [\<lparr>fn_base = 0x82001000, fn_size = 8\<rparr>, \<lparr>fn_base = 0x82001004, fn_size = 4\<rparr>],
     symbols = [\<lparr>sym_name = ''sub_82001000'', sym_address = 0x82001000, sym_size = 8, sym_type = Symbol_Function\<rparr>,
                \<lparr>sym_name = ''sub_82001004'', sym_address = 0x82001004, sym_size = 4, sym_type = Symbol_Function\<rparr>]\<rparr>"

lemma no_helpers: "add_helpers plain_config s = s"
proof -
  have "save_restore plain_config i s = s" for i s by (simp add: save_restore_def helper_def plain_config_def)
  then have "fold (save_restore plain_config) is s = s" for "is" s by (induction "is") simp_all
  then show ?thesis unfolding add_helpers_def .
qed

lemma ex_names: "sub_name 0x82001000 = ''sub_82001000''" "sub_name 0x82001004 = ''sub_82001004''"
  by (simp_all add: sub_name_def hex_string_def radix_string.simps digit_char_def char_of_def bit_0)

lemma ex_sizes:
  "analyze_at ex_analyse_env 0x10004 4 0x82001004 = Some 4"
  "analyze_at ex_analyse_env 0x10000 8 0x82001000 = Some 8"
  by code_simp+

lemma ex_calls: "call_target ex_analyse_env ex_text 0 = Some 0x82001004" "call_target ex_analyse_env ex_text 4 = None"
  by code_simp+

definition ex_symbol :: "u64 \<Rightarrow> u64 \<Rightarrow> Symbol" where
  "ex_symbol a n = \<lparr>sym_name = sub_name a, sym_address = a, sym_size = n, sym_type = Symbol_Function\<rparr>"

lemma ex_scan: "scan_calls ex_analyse_env ex_text (word_offsets ex_text) \<lparr>found_functions = [], symbols = []\<rparr> =
    Some \<lparr>found_functions = [\<lparr>fn_base = 0x82001004, fn_size = 4\<rparr>], symbols = [ex_symbol 0x82001004 4]\<rparr>"
proof -
  have "word_offsets ex_text = [0, 4]" by (simp add: word_offsets_def ex_text_def upt_rec)
  moreover have "analyze_at ex_analyse_env (ae_data ex_analyse_env ex_text + 0x82001004 - sec_base ex_text)
      (sec_base ex_text + ucast (sec_size ex_text) - 0x82001004) 0x82001004 = Some 4"
    using ex_sizes(1) by (simp add: ex_analyse_env_def ex_text_def)
  ultimately show ?thesis
    by (simp add: scan_call_def ex_calls find_symbol_def equal_range_def add_function_def ex_symbol_def)
qed

lemma ex_sweep: "sweep 5 ex_analyse_env 0x10008 0x82001000 0x10000
     \<lparr>found_functions = [\<lparr>fn_base = 0x82001004, fn_size = 4\<rparr>], symbols = [ex_symbol 0x82001004 4]\<rparr> =
    Some \<lparr>found_functions = [\<lparr>fn_base = 0x82001004, fn_size = 4\<rparr>, \<lparr>fn_base = 0x82001000, fn_size = 8\<rparr>],
      symbols = [ex_symbol 0x82001000 8, ex_symbol 0x82001004 4]\<rparr>"
proof -
  have "invalidInstructions (ae_config ex_analyse_env) w = None" for w
    by (simp add: ex_analyse_env_def plain_config_def)
  then show ?thesis
    by (simp add: sweep.simps known_function_def find_symbol_def equal_range_def ex_sizes add_function_def ex_symbol_def)
qed

lemma ex_analyse: "Analyse 5 ex_analyse_env ex_image_of_calls = Some ex_analysed"
proof -
  have find: "Image_FindName ''.pdata'' ex_image_of_calls = Some ex_pdata"
    by (simp add: Image_FindName_def ex_image_of_calls_def ex_pdata_def)
  have c: "ae_config ex_analyse_env = plain_config" by (simp add: ex_analyse_env_def)
  have p: "add_pdata ex_analyse_env ex_pdata s = s" and q: "add_configured plain_config s = s" for s
    by (simp_all add: add_pdata_def add_configured_def ex_pdata_def plain_config_def)
  have "analyse_section 5 ex_analyse_env ex_text \<lparr>found_functions = [], symbols = []\<rparr> =
    Some \<lparr>found_functions = [\<lparr>fn_base = 0x82001004, fn_size = 4\<rparr>, \<lparr>fn_base = 0x82001000, fn_size = 8\<rparr>],
      symbols = [ex_symbol 0x82001000 8, ex_symbol 0x82001004 4]\<rparr>"
    using ex_scan ex_sweep by (simp add: analyse_section_def) (simp add: ex_text_def ex_analyse_env_def)
  moreover have "analyse_section 5 ex_analyse_env ex_pdata s = Some s" for s
    by (simp add: analyse_section_def ex_pdata_def)
  moreover have "img_sections ex_image_of_calls = [ex_pdata, ex_text]" "img_symbols ex_image_of_calls = []"
    by (simp_all add: ex_image_of_calls_def)
  moreover have "ae_sort_fns ex_analyse_env = sort_key fn_base" by (simp add: ex_analyse_env_def)
  ultimately show ?thesis
    by (simp add: Analyse_def find c p q no_helpers ex_analysed_def ex_symbol_def ex_names)
qed

lemma ex_facts:
  "table_sorted (img_symbols ex_image_of_calls)" "ex_text \<in> set (img_sections ex_image_of_calls)" "sec_code ex_text"
  "roomy ex_analyse_env ex_text" "sorts_blocks (ae_sort ex_analyse_env)"
  by (simp_all add: ex_image_of_calls_def ex_text_def table_sorted_def roomy_def ex_analyse_env_def sorts_blocks_def)




end
