(* ===== verification/Driver.thy ===== *)
theory Driver
  imports Analyse
begin

text \<open>
  The driver of the recompiler (\<open>XenonRecomp/main.cpp\<close>, \<open>recompiler.cpp\<close>):
  \<open>Recompiler::Recompile(headerFilePath)\<close>, which prints the generated program, and
  \<open>Recompiler::SaveCurrentOutData\<close>, which writes it to files. The hash of the vendored
  library is an argument, as are the names and texts the other theories produce. A file system
  is a map from paths to contents.
\<close>

subsection \<open>Writing a file\<close>

type_synonym files = "string \<rightharpoonup> string"

record driver =
  dr_out :: string
  dr_index :: nat       \<comment> \<open>\<open>cppFileIndex\<close>\<close>
  dr_files :: files

definition printed :: "string \<Rightarrow> driver \<Rightarrow> driver" where
  "printed s d = d\<lparr>dr_out := dr_out d @ s\<rparr>"

definition file_path :: "RecompilerConfig \<Rightarrow> string \<Rightarrow> string" where
  "file_path c name =
     (if directoryPath c \<noteq> [] then directoryPath c @ ''/'' else []) @ outDirectoryPath c @ ''/'' @ name"

definition cpp_name :: "nat \<Rightarrow> string" where
  "cpp_name k = ''ppc_recomp.'' @ dec_string (int k) @ ''.cpp''"

text \<open>A file of the same size and hash is left alone, so that nothing is compiled again.\<close>

definition should_write :: "(string \<Rightarrow> 'h) \<Rightarrow> files \<Rightarrow> string \<Rightarrow> string \<Rightarrow> bool" where
  "should_write hash fs path text =
     (case fs path of
        None \<Rightarrow> True
      | Some temp \<Rightarrow> if length temp = length text then hash temp \<noteq> hash text else True)"

definition SaveCurrentOutData :: "(string \<Rightarrow> 'h) \<Rightarrow> RecompilerConfig \<Rightarrow> string \<Rightarrow> driver \<Rightarrow> driver" where
  "SaveCurrentOutData hash c name d =
     (if dr_out d = [] then d
      else
        let cppName = cpp_name (dr_index d);
            index = (if name = [] then dr_index d + 1 else dr_index d);
            path = file_path c (if name = [] then cppName else name);
            fs = (if should_write hash (dr_files d) path (dr_out d)
                  then (dr_files d)(path \<mapsto> dr_out d) else dr_files d)
        in d\<lparr>dr_out := [], dr_index := index, dr_files := fs\<rparr>)"

subsection \<open>The generated headers\<close>

definition quoted :: "string \<Rightarrow> string" where
  "quoted s = [CHR 0x22] @ s @ [CHR 0x22]"

definition println :: "string \<Rightarrow> string" where
  "println s = s @ nl"

definition option_lines :: "RecompilerConfig \<Rightarrow> string" where
  "option_lines c =
     concat (map (\<lambda>(b, name). if b then println (''#define PPC_CONFIG_'' @ name) else [])
       [(skipLr c, ''SKIP_LR''), (ctrAsLocalVariable c, ''CTR_AS_LOCAL''), (xerAsLocalVariable c, ''XER_AS_LOCAL''),
        (reservedRegisterAsLocalVariable c, ''RESERVED_AS_LOCAL''), (skipMsr c, ''SKIP_MSR''),
        (crRegistersAsLocalVariables c, ''CR_AS_LOCAL''),
        (nonArgumentRegistersAsLocalVariables c, ''NON_ARGUMENT_AS_LOCAL''),
        (nonVolatileRegistersAsLocalVariables c, ''NON_VOLATILE_AS_LOCAL'')])"

text \<open>The smallest and the largest address of the code sections.\<close>

definition code_step :: "Section \<Rightarrow> u64 \<times> u64 \<Rightarrow> u64 \<times> u64" where
  "code_step sec = (\<lambda>(codeMin, codeMax).
     if sec_code sec then
       (if sec_base sec < codeMin then sec_base sec else codeMin,
        if sec_base sec + ucast (sec_size sec) > codeMax then sec_base sec + ucast (sec_size sec) else codeMax)
     else (codeMin, codeMax))"

definition code_range :: "Image \<Rightarrow> u64 \<times> u64" where
  "code_range img = fold code_step (img_sections img) (- 1, 0)"

definition hex_define :: "string \<Rightarrow> u64 \<Rightarrow> string" where
  "hex_define name v = println (''#define '' @ name @ '' 0x'' @ hex_string (uint v) @ ''ull'')"

definition config_text :: "RecompilerConfig \<Rightarrow> Image \<Rightarrow> string" where
  "config_text c img =
     println ''#pragma once'' @ println ''#ifndef PPC_CONFIG_H_INCLUDED''
     @ println (println ''#define PPC_CONFIG_H_INCLUDED'') @ option_lines c @ println []
     @ hex_define ''PPC_IMAGE_BASE'' (img_base img) @ hex_define ''PPC_IMAGE_SIZE'' (ucast (img_size img))
     @ hex_define ''PPC_ENTRY_POINT'' (img_entry_point img)
     @ hex_define ''PPC_CODE_BASE'' (fst (code_range img))
     @ hex_define ''PPC_CODE_SIZE'' (snd (code_range img) - fst (code_range img))
     @ println [] @ println ''#ifdef PPC_INCLUDE_DETAIL'' @ println (''#include '' @ quoted ''ppc_detail.h'')
     @ println ''#endif'' @ println (nl @ ''#endif'')"

definition context_text :: "string option \<Rightarrow> string" where
  "context_text header =
     println ''#pragma once'' @ println (println (''#include '' @ quoted ''ppc_config.h''))
     @ (case header of None \<Rightarrow> [] | Some text \<Rightarrow> text)"

definition shared_text :: "SymbolTable \<Rightarrow> string" where
  "shared_text syms =
     println (println ''#pragma once'') @ println (''#include '' @ quoted ''ppc_config.h'')
     @ println (println (''#include '' @ quoted ''ppc_context.h''))
     @ concat (map (\<lambda>s. println (''PPC_EXTERN_FUNC('' @ sym_name s @ '');'')) syms)"

definition shared_include :: string where
  "shared_include = println (println (''#include '' @ quoted ''ppc_recomp_shared.h''))"

definition mapping_line :: "Symbol \<Rightarrow> string" where
  "mapping_line s = println (tab @ ''{ 0x'' @ hex_string (uint (sym_address s)) @ '', '' @ sym_name s @ '' },'')"

definition mapping_text :: "SymbolTable \<Rightarrow> string" where
  "mapping_text syms =
     shared_include @ println ''PPCFuncMapping PPCFuncMappings[] = {''
     @ concat (map mapping_line syms) @ println (tab @ ''{ 0, nullptr }'') @ println ''};''"

subsection \<open>The functions, 256 to a file\<close>

text \<open>\<open>texts\<close> are the texts of the functions, in order; \<open>i\<close> is the number of the first one.\<close>

fun recompile_functions :: "(string \<Rightarrow> 'h) \<Rightarrow> RecompilerConfig \<Rightarrow> nat \<Rightarrow> string list \<Rightarrow> driver \<Rightarrow> driver" where
  "recompile_functions hash c i [] d = d"
| "recompile_functions hash c i (text # texts) d =
     (let d = (if i mod 256 = 0 then printed shared_include (SaveCurrentOutData hash c [] d) else d)
      in recompile_functions hash c (i + 1) texts (printed text d))"

definition save_text :: "(string \<Rightarrow> 'h) \<Rightarrow> RecompilerConfig \<Rightarrow> string \<Rightarrow> string \<Rightarrow> driver \<Rightarrow> driver" where
  "save_text hash c name text d = SaveCurrentOutData hash c name (printed text d)"

definition Recompile_all ::
  "(string \<Rightarrow> 'h) \<Rightarrow> RecompilerConfig \<Rightarrow> Image \<Rightarrow> string option \<Rightarrow> string list \<Rightarrow> driver \<Rightarrow> driver" where
  "Recompile_all hash c img header texts d =
     (let d = save_text hash c ''ppc_config.h'' (config_text c img) d;
          d = save_text hash c ''ppc_context.h'' (context_text header) d;
          d = save_text hash c ''ppc_recomp_shared.h'' (shared_text (img_symbols img)) d;
          d = save_text hash c ''ppc_func_mapping.cpp'' (mapping_text (img_symbols img)) d
      in SaveCurrentOutData hash c [] (recompile_functions hash c 0 texts d))"

subsection \<open>The whole program\<close>

text \<open>
  \<open>main\<close> after the configuration is loaded: the entry point's symbol is renamed and every function
  recompiled. The name of a symbol is mutable; the symbol is the one that \<open>find\<close> returns.
\<close>

fun rename_first :: "(Symbol \<Rightarrow> bool) \<Rightarrow> string \<Rightarrow> Symbol list \<Rightarrow> Symbol list" where
  "rename_first p name [] = []"
| "rename_first p name (s # ss) = (if p s then s\<lparr>sym_name := name\<rparr> # ss else s # rename_first p name ss)"

definition name_entry :: "u64 \<Rightarrow> SymbolTable \<Rightarrow> SymbolTable" where
  "name_entry entry syms =
     (case find_symbol entry syms of
        None \<Rightarrow> syms
      | Some s \<Rightarrow> rev (rename_first (\<lambda>t. sym_address t = entry \<and> covers_base t) ''_xstart'' (rev syms)))"

definition recompiler_main ::
  "(string \<Rightarrow> 'h) \<Rightarrow> nat \<Rightarrow> analyse_env \<Rightarrow> renv \<Rightarrow> Image \<Rightarrow> string option \<Rightarrow> driver \<Rightarrow> driver option" where
  "recompiler_main hash fuel ae re img header d =
     (case Analyse fuel ae img of
        None \<Rightarrow> None
      | Some s \<Rightarrow>
          (let syms = name_entry (img_entry_point img) (symbols s)
           in Some (Recompile_all hash (re_cfg re) (img\<lparr>img_symbols := syms\<rparr>) header
                (map (\<lambda>fn. snd (recompile_function (re\<lparr>re_symbols := syms\<rparr>) fn)) (found_functions s)) d)))"

subsection \<open>File names\<close>

lemma cpp_name_inj [simp]: "cpp_name j = cpp_name k \<longleftrightarrow> j = k"
proof
  assume "cpp_name j = cpp_name k"
  then have "radix_string 10 j = radix_string 10 k" by (simp add: cpp_name_def dec_string_def)
  then show "j = k" using digits_value_radix by metis
qed simp

lemma file_path_inj [simp]: "file_path c m = file_path c n \<longleftrightarrow> m = n"
  by (simp add: file_path_def)

lemma cpp_name_neq [simp]: "cpp_name k \<noteq> []"
  "cpp_name k \<noteq> ''ppc_config.h''" "cpp_name k \<noteq> ''ppc_context.h''"
  "cpp_name k \<noteq> ''ppc_recomp_shared.h''" "cpp_name k \<noteq> ''ppc_func_mapping.cpp''"
  "''ppc_config.h'' \<noteq> cpp_name k" "''ppc_context.h'' \<noteq> cpp_name k"
  "''ppc_recomp_shared.h'' \<noteq> cpp_name k" "''ppc_func_mapping.cpp'' \<noteq> cpp_name k"
  by (simp_all add: cpp_name_def)

subsection \<open>What is written\<close>

text \<open>The hash does not collide on texts of the same size.\<close>

definition collision_free :: "(string \<Rightarrow> 'h) \<Rightarrow> bool" where
  "collision_free hash = (\<forall>s t. length s = length t \<longrightarrow> hash s = hash t \<longrightarrow> s = t)"

lemma should_write_False: "collision_free hash \<Longrightarrow> \<not> should_write hash fs path text \<Longrightarrow> fs path = Some text"
  by (auto simp: collision_free_def should_write_def split: option.splits if_splits)

lemma save_eq:
  assumes "collision_free hash" "dr_out d \<noteq> []"
  shows "SaveCurrentOutData hash c name d =
     \<lparr>dr_out = [], dr_index = (if name = [] then dr_index d + 1 else dr_index d),
      dr_files = (dr_files d)(file_path c (if name = [] then cpp_name (dr_index d) else name) \<mapsto> dr_out d)\<rparr>"
proof -
  let ?p = "file_path c (if name = [] then cpp_name (dr_index d) else name)"
  have "(if should_write hash (dr_files d) ?p (dr_out d) then (dr_files d)(?p \<mapsto> dr_out d) else dr_files d)
      = (dr_files d)(?p \<mapsto> dr_out d)"
    using should_write_False [OF assms(1)] by auto
  then show ?thesis using assms(2) by (simp add: SaveCurrentOutData_def Let_def)
qed

lemma shared_include_nonempty [simp]: "shared_include \<noteq> []"
  by (simp add: shared_include_def println_def)

definition chunk :: "nat \<Rightarrow> string list \<Rightarrow> string" where
  "chunk k texts = concat (take 256 (drop (256 * k) texts))"

lemma recompile_functions_append:
  "recompile_functions hash c i (xs @ ys) d = recompile_functions hash c (i + length xs) ys (recompile_functions hash c i xs d)"
  by (induction xs arbitrary: i d) (simp_all add: Let_def)

lemma chunk_snoc: "256 * Suc k \<le> length xs \<Longrightarrow> chunk k (xs @ [t]) = chunk k xs"
  by (simp add: chunk_def)

text \<open>After the texts \<open>xs\<close>: all files before the current one are written.\<close>

definition progress :: "RecompilerConfig \<Rightarrow> files \<Rightarrow> string list \<Rightarrow> driver \<Rightarrow> bool" where
  "progress c fs xs d =
     (let m = (length xs - 1) div 256
      in dr_index d = m \<and> dr_out d = shared_include @ concat (drop (256 * m) xs)
         \<and> (\<forall>k < m. dr_files d (file_path c (cpp_name k)) = Some (shared_include @ chunk k xs))
         \<and> (\<forall>p. (\<forall>k. p \<noteq> file_path c (cpp_name k)) \<longrightarrow> dr_files d p = fs p))"

lemma full_chunks: "i mod 256 = 0 \<Longrightarrow> i \<noteq> 0 \<Longrightarrow> i = 256 * Suc ((i - 1) div 256)"
  using div_mult_mod_eq [of i 256] by (cases i) (auto simp: div_Suc)

lemma full_div: "i mod 256 = 0 \<Longrightarrow> i \<noteq> 0 \<Longrightarrow> i div 256 = Suc ((i - 1) div (256 :: nat))"
  by (cases i) (auto simp: div_Suc)

lemma open_chunk: "i mod 256 \<noteq> 0 \<Longrightarrow> i div 256 = (i - 1) div (256 :: nat)"
  by (cases i) (auto simp: div_Suc)

lemma recompile_functions_progress:
  assumes "collision_free hash" "dr_out d = []" "dr_index d = 0" "xs \<noteq> []"
  shows "progress c (dr_files d) xs (recompile_functions hash c 0 xs d)"
  using assms(4)
proof (induction xs rule: rev_induct)
  case (snoc t xs)
  show ?case
  proof (cases "xs = []")
    case True
    then show ?thesis using assms(2,3) by (simp add: progress_def printed_def SaveCurrentOutData_def)
  next
    case False
    let ?d = "recompile_functions hash c 0 xs d" and ?i = "length xs" and ?m = "(length xs - 1) div 256"
    have p: "progress c (dr_files d) xs ?d" by (rule snoc.IH [OF False])
    have out: "dr_out ?d \<noteq> []" using p by (simp add: progress_def Let_def)
    have eq: "recompile_functions hash c 0 (xs @ [t]) d =
        printed t (if ?i mod 256 = 0 then printed shared_include (SaveCurrentOutData hash c [] ?d) else ?d)"
      by (simp add: recompile_functions_append Let_def)
    show ?thesis
    proof (cases "?i mod 256 = 0")
      case True
      then have i: "?i = 256 * Suc ?m" using False full_chunks [of ?i] by simp
      then have drop: "drop (256 * ?m) xs = take 256 (drop (256 * ?m) xs)" by simp
      have le: "256 * Suc k \<le> length xs" if "k < Suc ?m" for k
        by (subst i) (use that in simp)
      have "256 * (?i div 256) = ?i" using True by (simp add: mod_eq_0_iff_dvd)
      then have all: "drop (256 * (?i div 256)) xs = []" by (simp only: drop_all order_refl)
      have div1: "?i div 256 = Suc ?m" using True False full_div [of ?i] by simp
      have "progress c (dr_files d) (xs @ [t]) (printed t (printed shared_include (SaveCurrentOutData hash c [] ?d)))"
        using p drop all div1 chunk_snoc [of _ xs t] le
        by (auto simp: progress_def Let_def save_eq [OF assms(1) out] printed_def less_Suc_eq chunk_def)
      then show ?thesis using True by (simp add: eq)
    next
      case nz: False
      then have m: "length xs div 256 = ?m" by (rule open_chunk)
      have le: "256 * ?m \<le> length xs" unfolding m [symmetric] by simp
      moreover have "256 * Suc k \<le> length xs" if "k < ?m" for k
        by (rule order_trans [OF _ le]) (use that in simp)
      ultimately show ?thesis
        using p nz m chunk_snoc [of _ xs t] by (auto simp: eq progress_def Let_def printed_def)
    qed
  qed
qed simp

lemma texts_nonempty [simp]:
  "config_text c img \<noteq> []" "context_text header \<noteq> []" "shared_text syms \<noteq> []" "mapping_text syms \<noteq> []"
  by (simp_all add: config_text_def context_text_def shared_text_def mapping_text_def println_def)

lemma save_text_eq:
  "collision_free hash \<Longrightarrow> dr_out d = [] \<Longrightarrow> text \<noteq> [] \<Longrightarrow> name \<noteq> [] \<Longrightarrow>
   save_text hash c name text d = d\<lparr>dr_files := (dr_files d)(file_path c name \<mapsto> text)\<rparr>"
  by (simp add: save_text_def printed_def save_eq)

lemma chunks_all: "length texts \<le> 256 * m \<Longrightarrow> concat (map (\<lambda>k. chunk k texts) [0..<m]) = concat texts"
proof -
  have "concat (map (\<lambda>k. chunk k texts) [0..<m]) = concat (take (256 * m) texts)"
  proof (induction m)
    case (Suc m)
    have "take (256 * Suc m) texts = take (256 * m) texts @ take 256 (drop (256 * m) texts)"
      using take_add [of "256 * m" 256 texts] by (simp add: add.commute)
    then show ?case using Suc by (simp add: chunk_def)
  qed simp
  then show "length texts \<le> 256 * m \<Longrightarrow> ?thesis" by simp
qed

definition file_count :: "string list \<Rightarrow> nat" where
  "file_count texts = (length texts + 255) div 256"

lemma file_count_pred: "texts \<noteq> [] \<Longrightarrow> file_count texts = Suc ((length texts - 1) div 256)"
  by (cases texts) (simp_all add: file_count_def)

subsection \<open>Properties\<close>


text \<open>
  The code range that the configuration header states is the hull of the code sections:
  every code section lies in it, and its ends are ends of code sections.
\<close>

lemma code_range_hull:
  assumes "code_range img = (codeMin, codeMax)" "sec \<in> set (img_sections img)" "sec_code sec"
  shows "codeMin \<le> sec_base sec \<and> sec_base sec + ucast (sec_size sec) \<le> codeMax
     \<and> (\<exists>s \<in> set (img_sections img). sec_code s \<and> sec_base s = codeMin)
     \<and> (\<exists>s \<in> set (img_sections img). sec_code s \<and> sec_base s + ucast (sec_size s) = codeMax)"
proof -
  have b: "fst (fold code_step ss r) \<le> fst r \<and> snd r \<le> snd (fold code_step ss r)
      \<and> (\<forall>s \<in> set ss. sec_code s \<longrightarrow> fst (fold code_step ss r) \<le> sec_base s
           \<and> sec_base s + ucast (sec_size s) \<le> snd (fold code_step ss r))" for ss r
  proof (induction ss arbitrary: r)
    case (Cons s ss)
    have "fst (code_step s r) \<le> fst r \<and> snd r \<le> snd (code_step s r)
        \<and> (sec_code s \<longrightarrow> fst (code_step s r) \<le> sec_base s \<and> sec_base s + ucast (sec_size s) \<le> snd (code_step s r))"
      by (cases r) (auto simp: code_step_def)
    then show ?case using Cons [of "code_step s r"] by (fastforce intro: order_trans)
  qed simp
  have e: "(fst (fold code_step ss r) = fst r \<or> (\<exists>s \<in> set ss. sec_code s \<and> sec_base s = fst (fold code_step ss r)))
      \<and> (snd (fold code_step ss r) = snd r
         \<or> (\<exists>s \<in> set ss. sec_code s \<and> sec_base s + ucast (sec_size s) = snd (fold code_step ss r)))" for ss r
  proof (induction ss arbitrary: r)
    case (Cons s ss)
    have "(fst (code_step s r) = fst r \<or> sec_code s \<and> sec_base s = fst (code_step s r))
        \<and> (snd (code_step s r) = snd r \<or> sec_code s \<and> sec_base s + ucast (sec_size s) = snd (code_step s r))"
      by (cases r) (auto simp: code_step_def)
    then show ?case using Cons [of "code_step s r"] by auto
  qed simp
  have "codeMin = - 1 \<Longrightarrow> sec_base sec = codeMin" "codeMax = 0 \<Longrightarrow> sec_base sec + ucast (sec_size sec) = codeMax"
    using b [of "img_sections img" "(- 1, 0)"] assms by (auto simp: code_range_def word_order.extremum_unique)
  then show ?thesis
    using b [of "img_sections img" "(- 1, 0)"] e [of "img_sections img" "(- 1, 0)"] assms
    by (auto simp: code_range_def)
qed

subsection \<open>Examples\<close>

definition ex_driver :: driver where
  "ex_driver = \<lparr>dr_out = [], dr_index = 0, dr_files = (\<lambda>_. None)\<rparr>"


lemma code_range_hull_witness: "0x82001000 \<le> sec_base ex_text \<and> sec_base ex_text + ucast (sec_size ex_text) \<le> 0x82001008"
proof -
  have "code_range ex_image_of_calls = (0x82001000, 0x82001008)"
    by (simp add: code_range_def ex_image_of_calls_def code_step_def ex_text_def ex_pdata_def)
  then show ?thesis using code_range_hull ex_facts(2,3) by blast
qed

end
