(* ===== verification/XexFormat.thy ===== *)
theory XexFormat
  imports Symbols "HOL-Library.Monad_Syntax"
begin

text \<open>
  The container format of the executables (\<open>XenonUtils/xex.h\<close>) and the two ways the sources
  expand a compressed image: \<open>Xex2LoadImage\<close> into a fresh buffer (\<open>xex.cpp\<close>) and
  \<open>XexPatcher::apply\<close> in place, from the end (\<open>xex_patcher.cpp\<close>). A file or buffer is the list of
  its bytes, a pointer into it an offset; \<open>None\<close> is an access outside of it, which is undefined.
  The hash is an argument.
\<close>

unbundle bit_operations_syntax

type_synonym bytes = "u8 list"

subsection \<open>Reading and writing\<close>

definition bytes_at :: "bytes \<Rightarrow> nat \<Rightarrow> nat \<Rightarrow> bytes option" where
  "bytes_at bs off n = (if off + n \<le> length bs then Some (take n (drop off bs)) else None)"

definition be_value :: "bytes \<Rightarrow> nat" where
  "be_value bs = foldl (\<lambda>a b. a * 256 + unat b) 0 bs"

definition be16 :: "bytes \<Rightarrow> nat \<Rightarrow> u16 option" where
  "be16 bs off = map_option (\<lambda>v. of_nat (be_value v)) (bytes_at bs off 2)"

definition be32 :: "bytes \<Rightarrow> nat \<Rightarrow> u32 option" where
  "be32 bs off = map_option (\<lambda>v. of_nat (be_value v)) (bytes_at bs off 4)"

definition le16 :: "bytes \<Rightarrow> nat \<Rightarrow> u16 option" where
  "le16 bs off = map_option (\<lambda>v. of_nat (be_value (rev v))) (bytes_at bs off 2)"

definition le32 :: "bytes \<Rightarrow> nat \<Rightarrow> u32 option" where
  "le32 bs off = map_option (\<lambda>v. of_nat (be_value (rev v))) (bytes_at bs off 4)"

text \<open>\<open>memcpy\<close> or \<open>memset\<close> into a buffer.\<close>

definition copy_to :: "nat \<Rightarrow> bytes \<Rightarrow> bytes \<Rightarrow> bytes option" where
  "copy_to off new buf =
     (if off + length new \<le> length buf then Some (take off buf @ new @ drop (off + length new) buf) else None)"

text \<open>\<open>std::vector::resize\<close>.\<close>

definition resize :: "nat \<Rightarrow> bytes \<Rightarrow> bytes" where
  "resize n bs = take n bs @ replicate (n - length bs) 0"

subsection \<open>Headers\<close>

definition XEX_HEADER_FILE_FORMAT_INFO :: u32 where "XEX_HEADER_FILE_FORMAT_INFO = 0x000003FF"
definition XEX_HEADER_DELTA_PATCH_DESCRIPTOR :: u32 where "XEX_HEADER_DELTA_PATCH_DESCRIPTOR = 0x000005FF"
definition XEX_HEADER_ENTRY_POINT :: u32 where "XEX_HEADER_ENTRY_POINT = 0x00010100"
definition XEX_HEADER_IMAGE_BASE_ADDRESS :: u32 where "XEX_HEADER_IMAGE_BASE_ADDRESS = 0x00010201"
definition XEX_HEADER_IMPORT_LIBRARIES :: u32 where "XEX_HEADER_IMPORT_LIBRARIES = 0x000103FF"

definition XEX_ENCRYPTION_NONE :: u16 where "XEX_ENCRYPTION_NONE = 0"
definition XEX_ENCRYPTION_NORMAL :: u16 where "XEX_ENCRYPTION_NORMAL = 1"
definition XEX_COMPRESSION_NONE :: u16 where "XEX_COMPRESSION_NONE = 0"
definition XEX_COMPRESSION_BASIC :: u16 where "XEX_COMPRESSION_BASIC = 1"
definition XEX_COMPRESSION_NORMAL :: u16 where "XEX_COMPRESSION_NORMAL = 2"
definition XEX_COMPRESSION_DELTA :: u16 where "XEX_COMPRESSION_DELTA = 3"

record Xex2Header =
  xh_moduleFlags :: u32
  xh_headerSize :: u32
  xh_securityOffset :: u32
  xh_headerCount :: u32

definition read_header :: "bytes \<Rightarrow> Xex2Header option" where
  "read_header bs = do {
     moduleFlags \<leftarrow> be32 bs 4; headerSize \<leftarrow> be32 bs 8; securityOffset \<leftarrow> be32 bs 16; headerCount \<leftarrow> be32 bs 20;
     Some \<lparr>xh_moduleFlags = moduleFlags, xh_headerSize = headerSize, xh_securityOffset = securityOffset,
           xh_headerCount = headerCount\<rparr> }"

record Xex2SecurityInfo =
  xs_imageSize :: u32
  xs_loadAddress :: u32
  xs_aesKey :: bytes

definition read_security :: "bytes \<Rightarrow> nat \<Rightarrow> Xex2SecurityInfo option" where
  "read_security bs off = do {
     imageSize \<leftarrow> be32 bs (off + 4); loadAddress \<leftarrow> be32 bs (off + 0x110); aesKey \<leftarrow> bytes_at bs (off + 0x150) 16;
     Some \<lparr>xs_imageSize = imageSize, xs_loadAddress = loadAddress, xs_aesKey = aesKey\<rparr> }"

record Xex2OptFileFormatInfo =
  ff_infoSize :: u32
  ff_encryptionType :: u16
  ff_compressionType :: u16

definition read_format :: "bytes \<Rightarrow> nat \<Rightarrow> Xex2OptFileFormatInfo option" where
  "read_format bs off = do {
     infoSize \<leftarrow> be32 bs off; encryptionType \<leftarrow> be16 bs (off + 4); compressionType \<leftarrow> be16 bs (off + 6);
     Some \<lparr>ff_infoSize = infoSize, ff_encryptionType = encryptionType, ff_compressionType = compressionType\<rparr> }"

text \<open>
  \<open>getOptHeaderPtr\<close>: the outer option is a read outside the file, the inner one a null pointer.
  \<open>n\<close> headers are left from number \<open>i\<close> on.
\<close>

fun opt_header :: "bytes \<Rightarrow> u32 \<Rightarrow> nat \<Rightarrow> nat \<Rightarrow> nat option option" where
  "opt_header bs headerKey i 0 = Some None"
| "opt_header bs headerKey i (Suc n) =
     do { key \<leftarrow> be32 bs (24 + 8 * i);
          if key = headerKey then
            (if headerKey AND 0xFF = 0 \<or> headerKey AND 0xFF = 1 then Some (Some (24 + 8 * i + 4))
             else do { offset \<leftarrow> be32 bs (24 + 8 * i + 4); Some (Some (unat offset)) })
          else opt_header bs headerKey (i + 1) n }"

definition getOptHeaderPtr :: "bytes \<Rightarrow> u32 \<Rightarrow> nat option option" where
  "getOptHeaderPtr bs headerKey = do { h \<leftarrow> read_header bs; opt_header bs headerKey 0 (unat (xh_headerCount h)) }"

subsection \<open>Basic compression\<close>

text \<open>A block is a run of data and a run of zeros that is not stored.\<close>

record basic_block =
  bb_dataSize :: u32
  bb_zeroSize :: u32

fun read_blocks :: "bytes \<Rightarrow> nat \<Rightarrow> nat \<Rightarrow> basic_block list option" where
  "read_blocks bs off 0 = Some []"
| "read_blocks bs off (Suc n) =
     do { d \<leftarrow> be32 bs off; z \<leftarrow> be32 bs (off + 4); blocks \<leftarrow> read_blocks bs (off + 8) n;
          Some (\<lparr>bb_dataSize = d, bb_zeroSize = z\<rparr> # blocks) }"

text \<open>\<open>infoSize / sizeof(block) - 1\<close> in \<open>size_t\<close>.\<close>

definition numBlocks :: "Xex2OptFileFormatInfo \<Rightarrow> u64" where
  "numBlocks info = ucast (ff_infoSize info) div 8 - 1"

text \<open>
  \<open>Xex2LoadImage\<close>: the size of the buffer is the sum of the 32-bit sums of each block, which
  may wrap; the loop then writes \<open>dest\<close> and reads \<open>src\<close> from front to back.
\<close>

definition basic_size :: "basic_block list \<Rightarrow> nat" where
  "basic_size blocks = (\<Sum>b\<leftarrow>blocks. unat (bb_dataSize b + bb_zeroSize b))"

fun expand_loop :: "basic_block list \<Rightarrow> bytes \<Rightarrow> nat \<Rightarrow> nat \<Rightarrow> bytes \<Rightarrow> bytes option" where
  "expand_loop [] src s d dest = Some dest"
| "expand_loop (b # blocks) src s d dest =
     do { run \<leftarrow> bytes_at src s (unat (bb_dataSize b));
          dest \<leftarrow> copy_to d run dest;
          dest \<leftarrow> copy_to (d + unat (bb_dataSize b)) (replicate (unat (bb_zeroSize b)) 0) dest;
          expand_loop blocks src (s + unat (bb_dataSize b)) (d + unat (bb_dataSize b) + unat (bb_zeroSize b)) dest }"

definition expand_basic :: "basic_block list \<Rightarrow> bytes \<Rightarrow> bytes option" where
  "expand_basic blocks src = expand_loop blocks src 0 0 (replicate (basic_size blocks) 0)"

text \<open>
  \<open>XexPatcher::apply\<close>: the same in place and from back to front, in the buffer \<open>out\<close>, with the
  cursors behind the data still to be moved. \<open>memmove\<close> reads its source before it writes.
\<close>

fun shrink_loop :: "basic_block list \<Rightarrow> nat \<Rightarrow> nat \<Rightarrow> bytes \<Rightarrow> bytes option" where
  "shrink_loop [] s d out = Some out"
| "shrink_loop (b # blocks) s d out =
     (if d < unat (bb_zeroSize b) + unat (bb_dataSize b) \<or> s < unat (bb_dataSize b) then None
      else
        do { out \<leftarrow> copy_to (d - unat (bb_zeroSize b)) (replicate (unat (bb_zeroSize b)) 0) out;
             run \<leftarrow> bytes_at out (s - unat (bb_dataSize b)) (unat (bb_dataSize b));
             out \<leftarrow> copy_to (d - unat (bb_zeroSize b) - unat (bb_dataSize b)) run out;
             shrink_loop blocks (s - unat (bb_dataSize b)) (d - unat (bb_zeroSize b) - unat (bb_dataSize b)) out })"

text \<open>
  The sums of the patcher are 32-bit and signed: \<open>baseCompressedSize\<close> and \<open>baseImageSize\<close>. A
  cursor before the buffer is undefined. \<open>Some None\<close> is \<open>XexFileInvalid\<close>: the buffer is too small.
\<close>

definition compressed_sum :: "basic_block list \<Rightarrow> u32" where
  "compressed_sum blocks = (\<Sum>b\<leftarrow>blocks. bb_dataSize b)"

definition image_sum :: "basic_block list \<Rightarrow> u32" where
  "image_sum blocks = (\<Sum>b\<leftarrow>blocks. bb_dataSize b + bb_zeroSize b)"

definition cursor :: "nat \<Rightarrow> u32 \<Rightarrow> nat option" where
  "cursor target n = (if int target + sint n < 0 then None else Some (nat (int target + sint n)))"

definition expand_in_place :: "basic_block list \<Rightarrow> nat \<Rightarrow> bytes \<Rightarrow> bytes option option" where
  "expand_in_place blocks target out =
     (if length out < unat (of_nat target + image_sum blocks) then Some None
      else do { s \<leftarrow> cursor target (compressed_sum blocks); d \<leftarrow> cursor target (image_sum blocks);
                out \<leftarrow> shrink_loop (rev blocks) s d out; Some (Some out) })"

subsection \<open>The two expansions agree\<close>

text \<open>The reference: every run of data followed by its zeros.\<close>

fun expanded :: "basic_block list \<Rightarrow> bytes \<Rightarrow> bytes" where
  "expanded [] src = []"
| "expanded (b # blocks) src =
     take (unat (bb_dataSize b)) src @ replicate (unat (bb_zeroSize b)) 0
     @ expanded blocks (drop (unat (bb_dataSize b)) src)"

definition data_size :: "basic_block list \<Rightarrow> nat" where
  "data_size blocks = (\<Sum>b\<leftarrow>blocks. unat (bb_dataSize b))"

definition full_size :: "basic_block list \<Rightarrow> nat" where
  "full_size blocks = (\<Sum>b\<leftarrow>blocks. unat (bb_dataSize b) + unat (bb_zeroSize b))"

lemma sizes_simps [simp]:
  "data_size [] = 0" "full_size [] = 0"
  "data_size (b # blocks) = unat (bb_dataSize b) + data_size blocks"
  "full_size (b # blocks) = unat (bb_dataSize b) + unat (bb_zeroSize b) + full_size blocks"
  "data_size (blocks @ [b]) = data_size blocks + unat (bb_dataSize b)"
  "full_size (blocks @ [b]) = full_size blocks + (unat (bb_dataSize b) + unat (bb_zeroSize b))"
  by (simp_all add: data_size_def full_size_def)

lemma data_le_full: "data_size blocks \<le> full_size blocks"
  by (induction blocks) simp_all

lemma length_expanded [simp]: "data_size blocks \<le> length src \<Longrightarrow> length (expanded blocks src) = full_size blocks"
  by (induction blocks arbitrary: src) simp_all

lemma expanded_snoc:
  "data_size blocks \<le> length src \<Longrightarrow> expanded (blocks @ [b]) src =
     expanded blocks src @ take (unat (bb_dataSize b)) (drop (data_size blocks) src) @ replicate (unat (bb_zeroSize b)) 0"
  by (induction blocks arbitrary: src) (simp_all add: add.commute)

lemma expanded_take: "data_size blocks \<le> n \<Longrightarrow> expanded blocks (take n src) = expanded blocks src"
  by (induction blocks arbitrary: n src) (simp_all add: drop_take min_absorb1)

lemma expand_loop_eq:
  "s + data_size blocks \<le> length src \<Longrightarrow> d + full_size blocks \<le> length dest \<Longrightarrow>
   expand_loop blocks src s d dest =
     Some (take d dest @ expanded blocks (drop s src) @ drop (d + full_size blocks) dest)"
proof (induction blocks arbitrary: s d dest)
  case (Cons b blocks)
  then show ?case
    by (simp add: bytes_at_def copy_to_def min_absorb1 min_absorb2 ac_simps)
qed simp

lemma shrink_loop_eq:
  "t + full_size blocks \<le> length out \<Longrightarrow>
   shrink_loop (rev blocks) (t + data_size blocks) (t + full_size blocks) out =
     Some (take t out @ expanded blocks (take (data_size blocks) (drop t out)) @ drop (t + full_size blocks) out)"
proof (induction blocks arbitrary: out rule: rev_induct)
  case (snoc b blocks)
  let ?d = "unat (bb_dataSize b)" and ?z = "unat (bb_zeroSize b)"
  let ?C = "data_size blocks" and ?S = "full_size blocks"
  have le: "?C \<le> ?S" by (rule data_le_full)
  define out1 where "out1 = take (t + ?S + ?d) out @ replicate ?z 0 @ drop (t + ?S + ?d + ?z) out"
  define run where "run = take ?d (drop (t + ?C) out)"
  define out2 where "out2 = take (t + ?S) out1 @ run @ drop (t + ?S + ?d) out1"
  have len: "length out1 = length out" "length run = ?d" "length out2 = length out"
    using snoc.prems le by (simp_all add: out1_def run_def out2_def)
  let ?D = "t + full_size (blocks @ [b])"
  have "copy_to (?D - ?z) (replicate ?z 0) out = Some out1"
    using snoc.prems by (simp add: copy_to_def out1_def add.assoc)
  moreover have "bytes_at out1 (t + ?C) ?d = Some run"
    using snoc.prems le by (simp add: bytes_at_def out1_def run_def drop_take min_absorb1)
  moreover have "copy_to (?D - ?z - ?d) run out1 = Some out2"
    using snoc.prems len by (simp add: copy_to_def out2_def)
  ultimately have step: "shrink_loop (rev (blocks @ [b])) (t + data_size (blocks @ [b])) ?D out =
      shrink_loop (rev blocks) (t + ?C) (t + ?S) out2"
    by simp
  have "take ?C (drop t out2) = take ?C (drop t out)" "take t out2 = take t out"
    using snoc.prems le by (simp_all add: out2_def out1_def drop_take min_absorb1)
  moreover have "drop (t + ?S) out2 = run @ replicate ?z 0 @ drop (t + full_size (blocks @ [b])) out"
    using snoc.prems le by (simp add: out2_def out1_def run_def add.assoc)
  ultimately have "shrink_loop (rev blocks) (t + ?C) (t + ?S) out2 =
      Some (take t out @ expanded blocks (take ?C (drop t out)) @ run @ replicate ?z 0 @ drop (t + full_size (blocks @ [b])) out)"
    using snoc.IH [of out2] snoc.prems len by simp
  moreover have "expanded (blocks @ [b]) (take (data_size (blocks @ [b])) (drop t out)) =
      expanded blocks (take ?C (drop t out)) @ run @ replicate ?z 0"
    using snoc.prems le by (simp add: expanded_snoc expanded_take run_def drop_take add.commute)
  ultimately show ?case using step by simp
qed simp

text \<open>No sum of the sizes overflows a signed 32-bit integer.\<close>

definition sizes_fit :: "basic_block list \<Rightarrow> bool" where
  "sizes_fit blocks = (full_size blocks < 2 ^ 31)"

lemma sum_words: "full_size blocks < 2 ^ 31 \<Longrightarrow>
  unat (image_sum blocks) = full_size blocks \<and> unat (compressed_sum blocks) = data_size blocks
  \<and> basic_size blocks = full_size blocks"
proof (induction blocks)
  case (Cons b blocks)
  have b: "unat (bb_dataSize b) + unat (bb_zeroSize b) + full_size blocks < 2147483648"
    "data_size blocks \<le> full_size blocks" using Cons.prems data_le_full by simp_all
  then have s: "unat (bb_dataSize b + bb_zeroSize b) = unat (bb_dataSize b) + unat (bb_zeroSize b)"
    by (simp add: unat_word_ariths)
  have IH: "unat (image_sum blocks) = full_size blocks" "unat (compressed_sum blocks) = data_size blocks"
    "basic_size blocks = full_size blocks" using Cons by simp_all
  have "image_sum (b # blocks) = (bb_dataSize b + bb_zeroSize b) + image_sum blocks"
    "compressed_sum (b # blocks) = bb_dataSize b + compressed_sum blocks"
    "basic_size (b # blocks) = unat (bb_dataSize b + bb_zeroSize b) + basic_size blocks"
    by (simp_all add: image_sum_def compressed_sum_def basic_size_def)
  then show ?case
    using b s IH by (simp add: unat_word_ariths(1) [of "bb_dataSize b + bb_zeroSize b"]
        unat_word_ariths(1) [of "bb_dataSize b" "compressed_sum blocks"])
qed (simp add: image_sum_def compressed_sum_def basic_size_def)

lemma cursor_small: "unat w < 2 ^ 31 \<Longrightarrow> cursor t w = Some (t + unat w)"
proof -
  assume "unat w < 2 ^ 31"
  then have "unat w < 2147483648" by simp
  then have "int (unat w) < 2147483648" by linarith
  then have "uint w < 2147483648" unfolding uint_nat .
  then have "signed_take_bit 31 (uint w) = uint w"
    by (intro signed_take_bit_int_eq_self) (simp_all add: order_trans [OF _ unsigned_greater_eq])
  then have "sint w = int (unat w)" by (simp add: sint_uint)
  then show ?thesis unfolding cursor_def by (simp add: not_less nat_add_distrib del: of_nat_unat)
qed

lemma expand_basic_eq:
  "sizes_fit blocks \<Longrightarrow> data_size blocks \<le> length src \<Longrightarrow> expand_basic blocks src = Some (expanded blocks src)"
  using sum_words [of blocks] by (simp add: sizes_fit_def expand_basic_def expand_loop_eq)

lemma expand_in_place_eq:
  assumes "sizes_fit blocks" "target + full_size blocks \<le> length out" "target + full_size blocks < 2 ^ 32"
  shows "expand_in_place blocks target out = Some (Some
     (take target out @ expanded blocks (take (data_size blocks) (drop target out)) @ drop (target + full_size blocks) out))"
proof -
  note w = sum_words [of blocks]
  have f: "full_size blocks < 2 ^ 31" "data_size blocks < 2 ^ 31"
    using assms(1) data_le_full [of blocks] by (simp_all add: sizes_fit_def)
  have "unat (of_nat target + image_sum blocks) = target + full_size blocks"
    using w f assms(3) by (simp add: unat_word_ariths unat_of_nat)
  moreover have "cursor target (image_sum blocks) = Some (target + full_size blocks)"
    "cursor target (compressed_sum blocks) = Some (target + data_size blocks)"
    using w f cursor_small [of "image_sum blocks"] cursor_small [of "compressed_sum blocks"] by simp_all
  ultimately show ?thesis using assms(2) shrink_loop_eq [of target blocks out] by (simp add: expand_in_place_def)
qed

text \<open>
  C19. Expanding a basic-compressed image in place from the end, as the patcher does, gives the
  same image as expanding it front to back into a fresh buffer, as the loader does: moving the
  runs never overwrites data that is still to be moved, and nothing outside the image changes.
\<close>

theorem basic_expansions_agree:
  assumes "sizes_fit blocks" "target + full_size blocks \<le> length out" "target + full_size blocks < 2 ^ 32"
  shows "\<exists>image. expand_basic blocks (take (data_size blocks) (drop target out)) = Some image
     \<and> length image = full_size blocks
     \<and> expand_in_place blocks target out = Some (Some (take target out @ image @ drop (target + length image) out))"
  using assms data_le_full [of blocks]
  by (simp add: expand_basic_eq expand_in_place_eq)

lemma basic_expansions_agree_witness:
  "\<exists>image. length image = 4 \<and>
     expand_in_place [\<lparr>bb_dataSize = 1, bb_zeroSize = 2\<rparr>, \<lparr>bb_dataSize = 1, bb_zeroSize = 0\<rparr>] 1 [9, 5, 6, 7, 8, 3]
     = Some (Some ([9] @ image @ [3]))"
proof -
  let ?b = "[\<lparr>bb_dataSize = 1, bb_zeroSize = 2\<rparr>, \<lparr>bb_dataSize = 1, bb_zeroSize = 0\<rparr>]"
  have f: "full_size ?b = 4" by simp
  show ?thesis using basic_expansions_agree [of ?b 1 "[9, 5, 6, 7, 8, 3]"] by (auto simp: sizes_fit_def f)
qed

end
