(* ===== verification/XexBlocks.thy ===== *)
theory XexBlocks
  imports XexFormat
begin

text \<open>
  Normal compression of a container (\<open>xex.cpp\<close>, \<open>xex_patcher.cpp\<close>): a chain of blocks, each with
  the size and the digest of the next one in front, that holds chunks of the compressed stream.
  Both sources walk the chain with the same loop. The digest function is an argument, as is the
  decompressor that gets the stream.
\<close>

subsection \<open>The chunks of a block\<close>

text \<open>
  Two bytes of size, then the chunk; a size of zero ends the block. \<open>acc\<close> is the stream so far,
  in a buffer of \<open>room\<close> bytes. The result is the stream and the pointer behind the last size.
\<close>

function chunks :: "bytes \<Rightarrow> nat \<Rightarrow> nat \<Rightarrow> bytes \<Rightarrow> (bytes \<times> nat) option" where
  "chunks src p room acc =
     (case be16 src p of
        None \<Rightarrow> None
      | Some chunkSize \<Rightarrow>
          if chunkSize = 0 then Some (acc, p + 2)
          else
            case bytes_at src (p + 2) (unat chunkSize) of
              None \<Rightarrow> None
            | Some chunk \<Rightarrow>
                if length acc + length chunk \<le> room
                then chunks src (p + 2 + unat chunkSize) room (acc @ chunk)
                else None)"
  by pat_completeness auto

lemma bytes_at_bound: "bytes_at bs off n = Some v \<Longrightarrow> off + n \<le> length bs \<and> length v = n"
  by (auto simp: bytes_at_def split: if_splits)

lemma be16_bound: "be16 bs off = Some v \<Longrightarrow> off + 2 \<le> length bs"
  by (auto simp: be16_def dest: bytes_at_bound)

termination chunks
  by (relation "measure (\<lambda>(src, p, room, acc). length src - p)") (auto dest!: be16_bound)

declare chunks.simps [simp del]

subsection \<open>The chain of blocks\<close>

lemma advance: "x \<noteq> 0 \<Longrightarrow> p + unat (x :: u32) \<le> n \<Longrightarrow> n - (p + unat x) < n - p"
proof -
  assume "x \<noteq> 0" "p + unat x \<le> n"
  moreover from this have "unat x \<noteq> 0" by (simp add: unat_eq_0)
  ultimately show ?thesis by linarith
qed

text \<open>
  \<open>blockSize\<close> and \<open>hash\<close> are what the previous header holds; \<open>Some None\<close> is a digest that does
  not match. The next header is read from the front of the block before the block is hashed, its
  digest only when it is used.
\<close>

function block_loop ::
  "(bytes \<Rightarrow> bytes) \<Rightarrow> bytes \<Rightarrow> nat \<Rightarrow> nat \<Rightarrow> u32 \<Rightarrow> bytes option \<Rightarrow> bytes \<Rightarrow> bytes option option" where
  "block_loop sha1 src room p blockSize hash acc =
     (if blockSize = 0 then Some (Some acc)
      else
        case bytes_at src p (unat blockSize) of
          None \<Rightarrow> None
        | Some block \<Rightarrow>
            case hash of
              None \<Rightarrow> None
            | Some blockHash \<Rightarrow>
                if sha1 block \<noteq> blockHash then Some None
                else
                  case chunks src (p + 24) room acc of
                    None \<Rightarrow> None
                  | Some (acc', _) \<Rightarrow>
                      case be32 src p of
                        None \<Rightarrow> None
                      | Some nextSize \<Rightarrow>
                          block_loop sha1 src room (p + unat blockSize) nextSize (bytes_at src (p + 4) 20) acc')"
  by pat_completeness auto

termination block_loop
  by (relation "measure (\<lambda>(sha1, src, room, p, blockSize, hash, acc). length src - p)")
     (auto dest!: bytes_at_bound intro!: advance)

declare block_loop.simps [simp del]

text \<open>The compressed stream of a container; \<open>info\<close> is the offset of the normal-compression header.\<close>

definition compressed_stream :: "(bytes \<Rightarrow> bytes) \<Rightarrow> bytes \<Rightarrow> nat \<Rightarrow> bytes \<Rightarrow> nat \<Rightarrow> bytes option option" where
  "compressed_stream sha1 file info src room =
     (case be32 file (info + 4) of
        None \<Rightarrow> None
      | Some blockSize \<Rightarrow> block_loop sha1 src room 0 blockSize (bytes_at file (info + 8) 20) [])"

subsection \<open>The digest of the header authenticates the stream\<close>

text \<open>
  The chunks of every block end inside the block. The loop does not check this: \<open>chunks\<close> only
  stops at a size of zero.
\<close>

function bounded_chain :: "bytes \<Rightarrow> nat \<Rightarrow> nat \<Rightarrow> u32 \<Rightarrow> bytes \<Rightarrow> bool" where
  "bounded_chain src room p blockSize acc =
     (if blockSize = 0 then True
      else
        case bytes_at src p (unat blockSize) of
          None \<Rightarrow> True
        | Some _ \<Rightarrow>
            case chunks src (p + 24) room acc of
              None \<Rightarrow> True
            | Some (acc', q) \<Rightarrow>
                q \<le> p + unat blockSize \<and>
                (case be32 src p of
                   None \<Rightarrow> True
                 | Some nextSize \<Rightarrow> bounded_chain src room (p + unat blockSize) nextSize acc'))"
  by pat_completeness auto

termination bounded_chain
  by (relation "measure (\<lambda>(src, room, p, blockSize, acc). length src - p)")
     (auto dest!: bytes_at_bound intro!: advance)

declare bounded_chain.simps [simp del]

text \<open>Two buffers agree on a range.\<close>

definition agree :: "bytes \<Rightarrow> bytes \<Rightarrow> nat \<Rightarrow> nat \<Rightarrow> bool" where
  "agree src src' p q = (p \<le> q \<and> q \<le> length src \<and> q \<le> length src' \<and> take (q - p) (drop p src) = take (q - p) (drop p src'))"

lemma agree_bytes_at:
  assumes "agree src src' p q" "p \<le> off" "off + n \<le> q"
  shows "bytes_at src off n = bytes_at src' off n"
proof -
  have "take n (drop (off - p) (take (q - p) (drop p src))) = take n (drop off src)"
    "take n (drop (off - p) (take (q - p) (drop p src'))) = take n (drop off src')"
    using assms(2,3) by (simp_all add: drop_take min_absorb1)
  then show ?thesis using assms by (auto simp: agree_def bytes_at_def)
qed

lemma agree_sub: "agree src src' p q \<Longrightarrow> p \<le> p' \<Longrightarrow> p' \<le> q \<Longrightarrow> agree src src' p' q"
proof -
  assume a: "agree src src' p q" "p \<le> p'" "p' \<le> q"
  have "drop (p' - p) (take (q - p) (drop p s)) = take (q - p') (drop p' s)" for s :: bytes
    using a by (simp add: drop_take)
  then have "take (q - p') (drop p' src) = take (q - p') (drop p' src')"
    using a(1) by (metis agree_def)
  then show ?thesis using a by (simp add: agree_def)
qed

lemma agree_read:
  "agree src src' p q \<Longrightarrow> p \<le> off \<Longrightarrow> off + 2 \<le> q \<Longrightarrow> be16 src off = be16 src' off"
  "agree src src' p q \<Longrightarrow> p \<le> off \<Longrightarrow> off + 4 \<le> q \<Longrightarrow> be32 src off = be32 src' off"
  by (simp_all add: be16_def be32_def agree_bytes_at)

text \<open>One turn of the chunk loop, seen from its result.\<close>

lemma chunks_cases:
  assumes "chunks src p room acc = Some (r, q)"
  obtains "be16 src p = Some 0" "r = acc" "q = p + 2"
  | c chunk where "be16 src p = Some c" "c \<noteq> 0" "bytes_at src (p + 2) (unat c) = Some chunk"
      "length acc + length chunk \<le> room" "chunks src (p + 2 + unat c) room (acc @ chunk) = Some (r, q)"
proof (cases "be16 src p")
  case (Some c)
  show thesis
  proof (cases "c = 0")
    case True
    then show thesis using assms Some that(1) by (simp add: chunks.simps [of _ p])
  next
    case False
    then show thesis using assms Some that(2) by (simp add: chunks.simps [of _ p] split: option.splits if_splits)
  qed
qed (use assms in \<open>simp add: chunks.simps [of _ p]\<close>)

lemma chunks_end: "chunks src p room acc = Some (r, q) \<Longrightarrow> p + 2 \<le> q \<and> q \<le> length src"
proof (induction src p room acc rule: chunks.induct)
  case (1 src p room acc)
  from 1(2) show ?case
  proof (cases rule: chunks_cases)
    case 1
    then show ?thesis by (auto dest: be16_bound)
  next
    case (2 c chunk)
    then show ?thesis using 1(1) by fastforce
  qed
qed

lemma chunks_local:
  "chunks src p room acc = Some (r, q) \<Longrightarrow> agree src src' p q \<Longrightarrow> chunks src' p room acc = Some (r, q)"
proof (induction src p room acc rule: chunks.induct)
  case (1 src p room acc)
  have q: "p + 2 \<le> q" using chunks_end [OF 1(2)] by simp
  then have b: "be16 src' p = be16 src p" using agree_read(1) [OF 1(3)] by simp
  from 1(2) show ?case
  proof (cases rule: chunks_cases)
    case 1
    then show ?thesis using b by (simp add: chunks.simps [of src' p])
  next
    case (2 c chunk)
    have "p + 2 + unat c \<le> q" using chunks_end [OF 2(5)] by simp
    then have "agree src src' (p + 2 + unat c) q" "bytes_at src' (p + 2) (unat c) = Some chunk"
      using agree_sub [OF 1(3)] agree_bytes_at [OF 1(3), of "p + 2"] 2(3) by simp_all
    then show ?thesis using 1(1) [OF 2(1,2,3,4,5)] b 2 by (simp add: chunks.simps [of src' p])
  qed
qed

text \<open>One accepted turn of the block loop.\<close>

lemma block_loop_cases:
  assumes "block_loop sha1 src room p blockSize hash acc = Some (Some r)"
  obtains "blockSize = 0" "r = acc"
  | block blockHash acc' q nextSize where "blockSize \<noteq> 0" "bytes_at src p (unat blockSize) = Some block"
      "hash = Some blockHash" "sha1 block = blockHash" "chunks src (p + 24) room acc = Some (acc', q)"
      "be32 src p = Some nextSize"
      "block_loop sha1 src room (p + unat blockSize) nextSize (bytes_at src (p + 4) 20) acc' = Some (Some r)"
proof (cases "blockSize = 0")
  case True
  then show thesis using assms that(1) by (simp add: block_loop.simps [of _ _ _ p])
next
  case False
  then show thesis
    using assms that(2) by (simp add: block_loop.simps [of _ _ _ p] split: option.splits if_splits prod.splits)
qed

lemma block_loop_authentic:
  "block_loop sha1 src room p n hash acc = Some (Some r) \<Longrightarrow> block_loop sha1 src' room p n hash acc = Some (Some r') \<Longrightarrow>
   bounded_chain src room p n acc \<Longrightarrow>
   r = r' \<or> (\<exists>x y. x \<noteq> y \<and> length x = length y \<and> sha1 x = sha1 y)"
proof (induction sha1 src room p n hash acc rule: block_loop.induct)
  case (1 sha1 src room p n hash acc)
  from 1(2) show ?case
  proof (cases rule: block_loop_cases)
    case 1
    then show ?thesis using "1.prems"(2) by (simp add: block_loop.simps [of _ src' _ p])
  next
    case (2 block bh acc' q next1)
    note outer = 2
    obtain block' acc'' q' next' where 3: "bytes_at src' p (unat n) = Some block'" "sha1 block' = bh"
      "chunks src' (p + 24) room acc = Some (acc'', q')" "be32 src' p = Some next'"
      "block_loop sha1 src' room (p + unat n) next' (bytes_at src' (p + 4) 20) acc'' = Some (Some r')"
      using "1.prems"(2)
    proof (cases rule: block_loop_cases)
      case 1
      then show thesis using outer(1) by simp
    next
      case (2 block' blockHash' acc'' q' next')
      have "blockHash' = bh" using outer(3) 2(3) by simp
      then show thesis using that [OF 2(2) _ 2(5,6,7)] 2(4) by simp
    qed
    show ?thesis
    proof (cases "block = block'")
      case False
      moreover have "length block = length block'"
        using bytes_at_bound [OF 2(2)] bytes_at_bound [OF 3(1)] by simp
      ultimately show ?thesis using 2(4) 3(2) by (intro disjI2 exI [of _ block] exI [of _ block']) simp
    next
      case True
      have len: "p + unat n \<le> length src" "p + unat n \<le> length src'" using bytes_at_bound [OF 2(2)] bytes_at_bound [OF 3(1)] by simp_all
      have q: "p + 26 \<le> q" using chunks_end [OF 2(5)] by simp
      have b: "q \<le> p + unat n" "bounded_chain src room (p + unat n) next1 acc'"
        using "1.prems"(3) 2(1,2,5,6) by (simp_all add: bounded_chain.simps [of _ _ p])
      have a: "agree src src' p (p + unat n)"
        using 2(2) 3(1) True len by (simp add: agree_def bytes_at_def)
      have "agree src src' p q" using a b(1) q len agree_bytes_at [OF a, of p "q - p"]
        by (simp add: agree_def bytes_at_def)
      then have "agree src src' (p + 24) q" using agree_sub q by simp
      then have "chunks src' (p + 24) room acc = Some (acc', q)" by (rule chunks_local [OF 2(5)])
      then have "acc'' = acc'" using 3(3) by simp
      moreover have "next' = next1" using agree_read(2) [OF a, of p] q b(1) 2(6) 3(4) by simp
      moreover have "bytes_at src' (p + 4) 20 = bytes_at src (p + 4) 20"
        using agree_bytes_at [OF a, of "p + 4" 20] q b(1) by simp
      ultimately show ?thesis using 3(5) "1.IH" [OF 2(1,2,3) _ 2(5) _ 2(6,7)] 2(4) b(2) by simp
    qed
  qed
qed


lemma be_value_zeros [simp]: "be_value (replicate n 0) = 0"
  by (induction n) (simp_all add: be_value_def)

lemma be_value_pair [simp]: "be_value [a, b] = unat a * 256 + unat b"
  by (simp add: be_value_def)

lemma be_value_word [simp]: "be_value [a, b, c, d] = ((unat a * 256 + unat b) * 256 + unat c) * 256 + unat d"
  by (simp add: be_value_def)

definition ex_payload :: bytes where
  "ex_payload = replicate 24 0 @ [0, 1, 7, 0, 0]"

definition ex_block_header :: bytes where
  "ex_block_header = [0, 0, 0, 0, 0, 0, 0, 29] @ replicate 20 0"

lemma ex_chunks: "chunks ex_payload 24 29 [] = Some ([7], 29)"
proof -
  have "be16 ex_payload 24 = Some 1" "be16 ex_payload 27 = Some 0" "bytes_at ex_payload 26 1 = Some [7]"
    by (simp_all add: be16_def bytes_at_def ex_payload_def)
  then show ?thesis by (simp add: chunks.simps)
qed


text \<open>
  Without the bound the stream takes bytes that no digest covers. Here the only block is 26 bytes
  long and its first chunk lies behind it: two payloads with the same digested block give
  different streams.
\<close>

lemma stream_not_authentic:
  assumes "be32 file (info + 4) = Some 26" "bytes_at file (info + 8) 20 = Some (sha1 (replicate 25 0 @ [1]))"
  shows "compressed_stream sha1 file info (replicate 25 0 @ [1, x, 0, 0]) 29 = Some (Some [x])"
proof -
  let ?s = "replicate 25 0 @ [1, x, 0, 0]"
  have r: "be16 ?s 24 = Some 1" "be16 ?s 27 = Some 0" "bytes_at ?s 26 1 = Some [x]" "be32 ?s 0 = Some 0"
    "bytes_at ?s 0 26 = Some (replicate 25 0 @ [1])"
    by (simp_all add: be16_def be32_def bytes_at_def)
  have "chunks ?s 24 29 [] = Some ([x], 29)" using r by (simp add: chunks.simps)
  then show ?thesis using assms r by (simp add: compressed_stream_def block_loop.simps)
qed

end
