(* ===== verification/Lzx.thy ===== *)
theory Lzx
  imports XexFormat
begin

text \<open>
  The wrapper of the LZX decompressor and the delta patches (\<open>XenonUtils/xex_patcher.cpp\<close>). The
  decompressor itself is a library outside of the repository and an argument: whether it accepts
  its parameters, and its result code with the chunks it writes. It reads and writes through the
  memory files of the source.
\<close>

subsection \<open>Memory files\<close>

record mspack_memory_file =
  mf_buffer :: bytes
  mf_offset :: nat

definition mspack_memory_open :: "bytes \<Rightarrow> mspack_memory_file option" where
  "mspack_memory_open buffer =
     (if length buffer \<ge> 2147483647 then None else Some \<lparr>mf_buffer = buffer, mf_offset = 0\<rparr>)"

text \<open>The bytes one call moves: \<open>chars\<close> is an \<open>int\<close> that is converted to \<open>size_t\<close>.\<close>

definition transfer_size :: "mspack_memory_file \<Rightarrow> int \<Rightarrow> nat" where
  "transfer_size mf chars = min (nat (chars mod 2 ^ 64)) (length (mf_buffer mf) - mf_offset mf)"

definition mspack_memory_read :: "mspack_memory_file \<Rightarrow> int \<Rightarrow> bytes \<times> mspack_memory_file" where
  "mspack_memory_read mf chars =
     (take (transfer_size mf chars) (drop (mf_offset mf) (mf_buffer mf)),
      mf\<lparr>mf_offset := mf_offset mf + transfer_size mf chars\<rparr>)"

definition mspack_memory_write :: "bytes \<Rightarrow> mspack_memory_file \<Rightarrow> mspack_memory_file" where
  "mspack_memory_write new mf =
     (let total = transfer_size mf (int (length new))
      in mf\<lparr>mf_buffer := take (mf_offset mf) (mf_buffer mf) @ take total new
                @ drop (mf_offset mf + total) (mf_buffer mf),
              mf_offset := mf_offset mf + total\<rparr>)"

definition file_ok :: "mspack_memory_file \<Rightarrow> bool" where
  "file_ok mf = (mf_offset mf \<le> length (mf_buffer mf) \<and> length (mf_buffer mf) < 2147483647)"

lemma transfer_size_write:
  "length new < 18446744073709551616 \<Longrightarrow>
   transfer_size mf (int (length new)) = min (length new) (length (mf_buffer mf) - mf_offset mf)"
  by (simp add: transfer_size_def nat_mod_distrib)

lemma transfer_size_le: "transfer_size mf chars \<le> length (mf_buffer mf) - mf_offset mf"
  by (simp add: transfer_size_def)

lemma write_ok:
  assumes "file_ok mf"
  shows "file_ok (mspack_memory_write new mf)"
    and "length (mf_buffer (mspack_memory_write new mf)) = length (mf_buffer mf)"
proof -
  have "transfer_size mf (int (length new)) \<le> length new"
    by (simp add: transfer_size_def min.coboundedI1 nat_mod_distrib)
  then show "length (mf_buffer (mspack_memory_write new mf)) = length (mf_buffer mf)"
    using assms transfer_size_le [of mf "int (length new)"]
    by (simp add: mspack_memory_write_def Let_def file_ok_def) arith
  then show "file_ok (mspack_memory_write new mf)"
    using assms transfer_size_le [of mf "int (length new)"]
    by (simp add: mspack_memory_write_def Let_def file_ok_def)
qed

lemma writes_ok:
  "file_ok mf \<Longrightarrow> file_ok (fold mspack_memory_write news mf)
     \<and> length (mf_buffer (fold mspack_memory_write news mf)) = length (mf_buffer mf)"
  by (induction news arbitrary: mf) (simp_all add: write_ok)

text \<open>Chunks that fit are laid one after the other.\<close>

lemma writes_fit:
  assumes "file_ok mf" "mf_offset mf + length (concat news) \<le> length (mf_buffer mf)"
  shows "mf_buffer (fold mspack_memory_write news mf) =
     take (mf_offset mf) (mf_buffer mf) @ concat news @ drop (mf_offset mf + length (concat news)) (mf_buffer mf)"
  using assms
proof (induction news arbitrary: mf)
  case Nil
  then show ?case by simp
next
  case (Cons new news)
  have t: "transfer_size mf (int (length new)) = length new"
    using Cons.prems by (simp add: transfer_size_write file_ok_def)
  let ?mf = "mspack_memory_write new mf"
  have w: "mf_buffer ?mf = take (mf_offset mf) (mf_buffer mf) @ new @ drop (mf_offset mf + length new) (mf_buffer mf)"
    "mf_offset ?mf = mf_offset mf + length new"
    by (simp_all add: mspack_memory_write_def Let_def t)
  show ?case
    using Cons.IH [of ?mf] write_ok [OF Cons.prems(1), of new] Cons.prems
    by (simp add: w file_ok_def ac_simps)
qed

subsection \<open>The decompressor\<close>

text \<open>
  \<open>lx_init windowBits length\<close>: \<open>lzxd_init\<close> gives a stream; \<open>lx_decompress windowBits length reference
  input\<close>: the result code of \<open>lzxd_decompress\<close> and what it writes, in order.
\<close>

record lzx_library =
  lx_init :: "nat \<Rightarrow> nat \<Rightarrow> bool"
  lx_decompress :: "nat \<Rightarrow> nat \<Rightarrow> bytes option \<Rightarrow> bytes \<Rightarrow> int \<times> bytes list"

definition bitScanForward :: "u32 \<Rightarrow> nat option" where
  "bitScanForward v = (if v = 0 then None else Some (length (takeWhile (\<lambda>i. \<not> bit v i) [0..<32])))"

text \<open>
  The reference data are copied to the end of the window, behind zeros; they have to fit, and the
  window has \<open>2 ^ windowBits\<close> bytes.
\<close>

definition window_reference :: "u32 \<Rightarrow> nat \<Rightarrow> bytes \<Rightarrow> bytes option" where
  "window_reference windowSize windowBits windowData =
     (if length windowData \<le> unat windowSize \<and> unat windowSize \<le> 2 ^ windowBits
      then Some (replicate (unat windowSize - length windowData) 0 @ windowData)
      else None)"

text \<open>The result code and the destination afterwards; \<open>None\<close> is undefined behaviour.\<close>

definition lzxDecompress :: "lzx_library \<Rightarrow> bytes \<Rightarrow> bytes \<Rightarrow> u32 \<Rightarrow> bytes option \<Rightarrow> (int \<times> bytes) option" where
  "lzxDecompress lzx lzxData dst windowSize windowData =
     (case bitScanForward windowSize of
        None \<Rightarrow> Some (1, dst)
      | Some windowBits \<Rightarrow>
          if \<not> lx_init lzx windowBits (length dst) then Some (1, dst)
          else
            do { reference \<leftarrow> (case windowData of
                                 None \<Rightarrow> Some None
                               | Some w \<Rightarrow> map_option Some (window_reference windowSize windowBits w));
                 lzxSrc \<leftarrow> mspack_memory_open lzxData;
                 lzxDst \<leftarrow> mspack_memory_open dst;
                 let (resultCode, chunks) = lx_decompress lzx windowBits (length dst) reference (mf_buffer lzxSrc)
                 in Some (resultCode, mf_buffer (fold mspack_memory_write chunks lzxDst)) })"

lemma open_ok: "mspack_memory_open bs = Some mf \<Longrightarrow> file_ok mf \<and> mf_buffer mf = bs \<and> mf_offset mf = 0"
  by (auto simp: mspack_memory_open_def file_ok_def split: if_splits)

lemma lzxDecompress_length:
  "lzxDecompress lzx lzxData dst windowSize windowData = Some (code, dst') \<Longrightarrow> length dst' = length dst"
  by (auto simp: lzxDecompress_def Let_def writes_ok dest!: open_ok split: option.splits if_splits prod.splits bind_splits)

subsection \<open>Delta patches\<close>

record Xex2DeltaPatch =
  dp_oldAddress :: u32
  dp_newAddress :: u32
  dp_uncompressedLength :: u16
  dp_compressedLength :: u16

definition read_delta :: "bytes \<Rightarrow> nat \<Rightarrow> Xex2DeltaPatch option" where
  "read_delta bs off = do {
     oldAddress \<leftarrow> be32 bs off; newAddress \<leftarrow> be32 bs (off + 4);
     uncompressedLength \<leftarrow> be16 bs (off + 8); compressedLength \<leftarrow> be16 bs (off + 10);
     Some \<lparr>dp_oldAddress = oldAddress, dp_newAddress = newAddress, dp_uncompressedLength = uncompressedLength,
           dp_compressedLength = compressedLength\<rparr> }"

definition end_of_patch :: "Xex2DeltaPatch \<Rightarrow> bool" where
  "end_of_patch h = (dp_compressedLength h = 0 \<and> dp_uncompressedLength h = 0 \<and> dp_newAddress h = 0 \<and> dp_oldAddress h = 0)"

text \<open>\<open>memcpy\<close> inside one buffer: overlapping ranges are undefined.\<close>

definition memcpy_within :: "nat \<Rightarrow> nat \<Rightarrow> nat \<Rightarrow> bytes \<Rightarrow> bytes option" where
  "memcpy_within dest source n buf =
     (if n = 0 \<or> dest + n \<le> source \<or> source + n \<le> dest
      then do { run \<leftarrow> bytes_at buf source n; copy_to dest run buf }
      else None)"

text \<open>The three kinds of patches; \<open>patch_data h\<close> is the number of bytes that follow the header.\<close>

definition apply_delta :: "lzx_library \<Rightarrow> u32 \<Rightarrow> Xex2DeltaPatch \<Rightarrow> bytes \<Rightarrow> bytes \<Rightarrow> (int \<times> bytes) option" where
  "apply_delta lzx windowSize h patchData dst =
     (let new = unat (dp_newAddress h); old = unat (dp_oldAddress h); n = unat (dp_uncompressedLength h)
      in if dp_compressedLength h = 0 then map_option (Pair 0) (copy_to new (replicate n 0) dst)
         else if dp_compressedLength h = 1 then map_option (Pair 0) (memcpy_within new old n dst)
         else do { target \<leftarrow> bytes_at dst new n; window \<leftarrow> bytes_at dst old n;
                   (result, target) \<leftarrow> lzxDecompress lzx patchData target windowSize (Some window);
                   dst \<leftarrow> copy_to new target dst;
                   Some (result, dst) })"

definition patch_data :: "Xex2DeltaPatch \<Rightarrow> nat" where
  "patch_data h = (if dp_compressedLength h = 0 \<or> dp_compressedLength h = 1 then 0 else unat (dp_compressedLength h))"

text \<open>
  The loop; \<open>p\<close> is the current patch, \<open>patch_end\<close> the pointer behind them. A header is 16 bytes
  with its padding, and the step back of 4 leaves 12.
\<close>

function delta_loop :: "lzx_library \<Rightarrow> u32 \<Rightarrow> bytes \<Rightarrow> nat \<Rightarrow> nat \<Rightarrow> bytes \<Rightarrow> (int \<times> bytes) option" where
  "delta_loop lzx windowSize src p patch_end dst =
     (if \<not> patch_end > p then Some (0, dst)
      else
        case read_delta src p of
          None \<Rightarrow> None
        | Some h \<Rightarrow>
            if end_of_patch h then Some (0, dst)
            else
              case bytes_at src (p + 12) (patch_data h) of
                None \<Rightarrow> None
              | Some patchData \<Rightarrow>
                  case apply_delta lzx windowSize h patchData dst of
                    None \<Rightarrow> None
                  | Some (result, dst') \<Rightarrow>
                      if result \<noteq> 0 then Some (result, dst')
                      else delta_loop lzx windowSize src (p + 12 + patch_data h) patch_end dst')"
  by pat_completeness auto

termination delta_loop
  by (relation "measure (\<lambda>(lzx, windowSize, src, p, patch_end, dst). patch_end - p)") auto

declare delta_loop.simps [simp del]

definition lzxDeltaApplyPatch :: "lzx_library \<Rightarrow> bytes \<Rightarrow> nat \<Rightarrow> u32 \<Rightarrow> u32 \<Rightarrow> bytes \<Rightarrow> (int \<times> bytes) option" where
  "lzxDeltaApplyPatch lzx src deltaPatch patchLength windowSize dstData =
     delta_loop lzx windowSize src deltaPatch (deltaPatch + unat patchLength) dstData"

lemma copy_to_length: "copy_to off new buf = Some buf' \<Longrightarrow> length buf' = length buf"
  by (auto simp: copy_to_def split: if_splits)

lemma apply_delta_length: "apply_delta lzx windowSize h d dst = Some (r, dst') \<Longrightarrow> length dst' = length dst"
  by (auto simp: apply_delta_def Let_def memcpy_within_def dest: copy_to_length split: if_splits bind_splits)

lemma delta_loop_length: "delta_loop lzx windowSize src p e dst = Some (r, dst') \<Longrightarrow> length dst' = length dst"
proof (induction lzx windowSize src p e dst rule: delta_loop.induct)
  case (1 lzx windowSize src p e dst)
  then show ?case
    by (simp add: delta_loop.simps [of _ _ src p] split: if_splits option.splits prod.splits)
      (auto dest!: apply_delta_length)
qed

subsection \<open>What a patch does\<close>

lemma unat_less_word: "unat (w :: 'a::len word) < 2 ^ LENGTH('a)"
  by (rule unsigned_less)

text \<open>The bytes of a big-endian field, and of a list of patches with their data.\<close>

definition be16_bytes :: "u16 \<Rightarrow> bytes" where
  "be16_bytes w = [ucast (drop_bit 8 w), ucast w]"

definition be32_bytes :: "u32 \<Rightarrow> bytes" where
  "be32_bytes w = [ucast (drop_bit 24 w), ucast (drop_bit 16 w), ucast (drop_bit 8 w), ucast w]"

definition delta_bytes :: "Xex2DeltaPatch \<times> bytes \<Rightarrow> bytes" where
  "delta_bytes e = (let (h, d) = e in be32_bytes (dp_oldAddress h) @ be32_bytes (dp_newAddress h)
     @ be16_bytes (dp_uncompressedLength h) @ be16_bytes (dp_compressedLength h) @ d)"

text \<open>The reference: the patches one after the other, until one of them fails.\<close>

fun apply_deltas :: "lzx_library \<Rightarrow> u32 \<Rightarrow> (Xex2DeltaPatch \<times> bytes) list \<Rightarrow> bytes \<Rightarrow> (int \<times> bytes) option" where
  "apply_deltas lzx windowSize [] dst = Some (0, dst)"
| "apply_deltas lzx windowSize ((h, d) # es) dst =
     do { (result, dst') \<leftarrow> apply_delta lzx windowSize h d dst;
          if result \<noteq> 0 then Some (result, dst') else apply_deltas lzx windowSize es dst' }"

definition delta_ok :: "Xex2DeltaPatch \<times> bytes \<Rightarrow> bool" where
  "delta_ok e = (let (h, d) = e in \<not> end_of_patch h \<and> length d = patch_data h)"

lemma byte_of_word:
  fixes w :: "'a::len word"
  shows "unat (ucast (drop_bit n w) :: u8) = unat w div 2 ^ n mod 256" "unat (ucast w :: u8) = unat w mod 256"
proof -
  show "unat (ucast (drop_bit n w) :: u8) = unat w div 2 ^ n mod 256"
    by (simp only: unsigned_ucast_eq unat_drop_bit_eq) (simp add: take_bit_eq_mod drop_bit_eq_div)
  show "unat (ucast w :: u8) = unat w mod 256" by (simp add: unsigned_ucast_eq take_bit_eq_mod)
qed

lemma be_bytes_value:
  "be_value (be16_bytes w) = unat w" "be_value (be32_bytes v) = unat v"
proof -
  have "unat w < 65536" "unat v < 4294967296"
    using unat_less_word [of w] unat_less_word [of v] by simp_all
  then have top: "unat w div 256 mod 256 = unat w div 256" "unat v div 16777216 mod 256 = unat v div 16777216"
    by (simp_all add: less_mult_imp_div_less)
  have step: "unat v div 16777216 = unat v div 65536 div 256" "unat v div 65536 = unat v div 256 div 256"
    by (simp_all add: div_mult2_eq [symmetric])
  have mul: "x div 256 * 256 + x mod 256 = x" for x :: nat by simp
  show "be_value (be16_bytes w) = unat w"
    unfolding be_value_def be16_bytes_def foldl.simps byte_of_word(1) using top by (simp add: byte_of_word(2))
  have "be_value (be32_bytes v) =
      ((unat v div 16777216 mod 256 * 256 + unat v div 65536 mod 256) * 256 + unat v div 256 mod 256) * 256 + unat v mod 256"
    unfolding be_value_def be32_bytes_def foldl.simps byte_of_word(1) by (simp add: byte_of_word(2))
  also have "\<dots> = unat v" by (simp only: step top(2) [unfolded step] mul)
  finally show "be_value (be32_bytes v) = unat v" .
qed

lemma read_be_bytes:
  "be32 (pre @ be32_bytes v @ rest) (length pre) = Some v"
  "be16 (pre @ be16_bytes w @ rest) (length pre) = Some w"
proof -
  have "length (be32_bytes v) = 4" "length (be16_bytes w) = 2" by (simp_all add: be32_bytes_def be16_bytes_def)
  then show "be32 (pre @ be32_bytes v @ rest) (length pre) = Some v" "be16 (pre @ be16_bytes w @ rest) (length pre) = Some w"
    by (simp_all add: be32_def be16_def bytes_at_def be_bytes_value)
qed

lemma length_be_bytes [simp]: "length (be32_bytes v) = 4" "length (be16_bytes w) = 2"
  by (simp_all add: be32_bytes_def be16_bytes_def)

lemma bytes_at_middle: "bytes_at (pre @ bs @ rest) (length pre) (length bs) = Some bs"
  by (simp add: bytes_at_def)

lemma read_delta_bytes: "read_delta (pre @ delta_bytes (h, d) @ rest) (length pre) = Some h"
proof -
  let ?o = "be32_bytes (dp_oldAddress h)" and ?n = "be32_bytes (dp_newAddress h)"
    and ?u = "be16_bytes (dp_uncompressedLength h)" and ?c = "be16_bytes (dp_compressedLength h)"
  have "be32 (pre @ ?o @ ?n @ ?u @ ?c @ d @ rest) (length pre) = Some (dp_oldAddress h)" by (rule read_be_bytes)
  moreover have "be32 ((pre @ ?o) @ ?n @ ?u @ ?c @ d @ rest) (length (pre @ ?o)) = Some (dp_newAddress h)"
    by (rule read_be_bytes)
  moreover have "be16 ((pre @ ?o @ ?n) @ ?u @ ?c @ d @ rest) (length (pre @ ?o @ ?n)) = Some (dp_uncompressedLength h)"
    by (rule read_be_bytes)
  moreover have "be16 ((pre @ ?o @ ?n @ ?u) @ ?c @ d @ rest) (length (pre @ ?o @ ?n @ ?u)) = Some (dp_compressedLength h)"
    by (rule read_be_bytes)
  ultimately show ?thesis by (simp add: read_delta_def delta_bytes_def)
qed

lemma length_delta_bytes: "length (delta_bytes (h, d)) = 12 + length d"
  by (simp add: delta_bytes_def)

lemma delta_loop_bytes:
  assumes "\<forall>e \<in> set es. delta_ok e" "patch_end > length pre + length (concat (map delta_bytes es))"
  shows "delta_loop lzx windowSize (pre @ concat (map delta_bytes es) @ replicate 12 0 @ rest) (length pre) patch_end dst =
     apply_deltas lzx windowSize es dst"
  using assms
proof (induction es arbitrary: pre dst)
  case Nil
  have "be32 (pre @ replicate 12 0 @ rest) (length pre) = Some 0" "be32 (pre @ replicate 12 0 @ rest) (length pre + 4) = Some 0"
    "be16 (pre @ replicate 12 0 @ rest) (length pre + 8) = Some 0" "be16 (pre @ replicate 12 0 @ rest) (length pre + 10) = Some 0"
    by (simp_all add: be32_def be16_def bytes_at_def be_value_def numeral_eq_Suc)
  then show ?case using Nil by (simp add: delta_loop.simps read_delta_def end_of_patch_def)
next
  case (Cons e es)
  obtain h d where e: "e = (h, d)" by (cases e)
  then have ok: "\<not> end_of_patch h" "length d = patch_data h" using Cons.prems(1) by (simp_all add: delta_ok_def)
  let ?tail = "concat (map delta_bytes es) @ replicate 12 0 @ rest"
  let ?src = "pre @ delta_bytes (h, d) @ ?tail"
  let ?front = "pre @ be32_bytes (dp_oldAddress h) @ be32_bytes (dp_newAddress h)
    @ be16_bytes (dp_uncompressedLength h) @ be16_bytes (dp_compressedLength h)"
  have data: "bytes_at ?src (length pre + 12) (patch_data h) = Some d"
    using bytes_at_middle [of ?front d ?tail] ok(2) by (simp add: delta_bytes_def add.commute)
  have IH: "delta_loop lzx windowSize ?src (length pre + 12 + patch_data h) patch_end dst' = apply_deltas lzx windowSize es dst'" for dst'
    using Cons.IH [of "pre @ delta_bytes (h, d)" dst'] Cons.prems e ok(2) by (simp add: length_delta_bytes add.assoc)
  show ?case
    using Cons.prems(2) e ok(1) data IH read_delta_bytes [of pre h d ?tail]
    by (simp add: delta_loop.simps [of _ _ _ "length pre"] length_delta_bytes split: option.split prod.split)
qed

text \<open>
  C21. A delta patch stream is applied as it is written: for the bytes of any list of patches,
  ended by twelve zero bytes inside the given length, the loop applies exactly these patches, in
  their order, and stops at the first failure of the decompressor.
\<close>

theorem delta_stream_applied:
  assumes "\<forall>e \<in> set es. delta_ok e" "length (concat (map delta_bytes es)) < unat patchLength"
  shows "lzxDeltaApplyPatch lzx (pre @ concat (map delta_bytes es) @ replicate 12 0 @ rest) (length pre) patchLength windowSize dst =
     apply_deltas lzx windowSize es dst"
  unfolding lzxDeltaApplyPatch_def using assms by (intro delta_loop_bytes) simp_all

definition ex_lzx :: lzx_library where
  "ex_lzx = \<lparr>lx_init = (\<lambda>bits n. bits = 3), lx_decompress = (\<lambda>bits n ref input. (0, [take n input]))\<rparr>"

definition ex_deltas :: "(Xex2DeltaPatch \<times> bytes) list" where
  "ex_deltas =
     [(\<lparr>dp_oldAddress = 0, dp_newAddress = 1, dp_uncompressedLength = 1, dp_compressedLength = 0\<rparr>, []),
      (\<lparr>dp_oldAddress = 0, dp_newAddress = 2, dp_uncompressedLength = 2, dp_compressedLength = 1\<rparr>, []),
      (\<lparr>dp_oldAddress = 4, dp_newAddress = 0, dp_uncompressedLength = 1, dp_compressedLength = 3\<rparr>, [7, 8, 9])]"

lemma delta_stream_applied_witness:
  "lzxDeltaApplyPatch ex_lzx ([5, 6] @ concat (map delta_bytes ex_deltas) @ replicate 12 0 @ []) 2 100 8 [1, 2, 3, 4, 5] =
     apply_deltas ex_lzx 8 ex_deltas [1, 2, 3, 4, 5]"
proof -
  have "\<forall>e \<in> set ex_deltas. delta_ok e" "length (concat (map delta_bytes ex_deltas)) < unat (100 :: u32)"
    by (simp_all add: ex_deltas_def delta_ok_def end_of_patch_def patch_data_def length_delta_bytes)
  then have "lzxDeltaApplyPatch ex_lzx ([5, 6] @ concat (map delta_bytes ex_deltas) @ replicate 12 0 @ []) (length [5, 6 :: u8])
      100 8 [1, 2, 3, 4, 5] = apply_deltas ex_lzx 8 ex_deltas [1, 2, 3, 4, 5]"
    by (rule delta_stream_applied)
  then show ?thesis by (simp add: numeral_2_eq_2)
qed

text \<open>The three kinds of patches on the example: zeros, a move of two bytes, an expanded byte.\<close>

lemma ex_deltas_result: "apply_deltas ex_lzx 8 ex_deltas [1, 2, 3, 4, 5] = Some (0, [7, 0, 1, 0, 5])"
  by (simp add: ex_deltas_def ex_lzx_def apply_delta_def copy_to_def memcpy_within_def bytes_at_def lzxDecompress_def
      bitScanForward_def window_reference_def mspack_memory_open_def mspack_memory_write_def transfer_size_def upt_rec)

end
