(* ===== verification/XexImage.thy ===== *)
theory XexImage
  imports XexBlocks Lzx
begin

text \<open>
  \<open>Xex2LoadImage\<close> of \<open>XenonUtils/xex.cpp\<close>: the payload of a container is decrypted and expanded
  to the image, the sections of the image are mapped, and the import thunks are replaced and named.
  \<open>None\<close> is undefined behaviour: a read or write outside of the file or of the image. The cipher,
  the digest, the decompressor and the two tables of export names are arguments.
\<close>

unbundle bit_operations_syntax

subsection \<open>What the loader gets from outside\<close>

type_synonym exports = "u16 \<Rightarrow> string option"

text \<open>\<open>aes_cbc key iv data\<close> is the decryption of a buffer.\<close>

record load_env =
  aes_cbc :: "bytes \<Rightarrow> bytes \<Rightarrow> bytes \<Rightarrow> bytes"
  sha1 :: "bytes \<Rightarrow> bytes"
  lzx :: lzx_library
  XamExports :: exports
  XboxKernelExports :: exports

definition Xex2RetailKey :: bytes where
  "Xex2RetailKey = [0x20, 0xB1, 0x85, 0xA5, 0x9D, 0x28, 0xFD, 0xC3, 0x40, 0x58, 0x3F, 0xBB, 0x08, 0x96, 0xBF, 0x91]"

definition AESBlankIV :: bytes where
  "AESBlankIV = replicate 16 0"

subsection \<open>Expanding the payload\<close>

definition payload :: "load_env \<Rightarrow> bytes \<Rightarrow> Xex2Header \<Rightarrow> Xex2SecurityInfo \<Rightarrow> Xex2OptFileFormatInfo \<Rightarrow> bytes option" where
  "payload env xex header security info =
     (let src = drop (unat (xh_headerSize header)) xex
      in if unat (xh_headerSize header) > length xex then None
         else if ff_encryptionType info = XEX_ENCRYPTION_NORMAL
         then Some (aes_cbc env (aes_cbc env Xex2RetailKey AESBlankIV (xs_aesKey security)) AESBlankIV src)
         else Some src)"

text \<open>
  The expanded image; \<open>Some None\<close> is the empty image of a failed check. \<open>p\<close> is the offset of the
  file format header. A null pointer, that the code goes on to read from, is \<open>None\<close>.
\<close>

definition expand_payload ::
  "load_env \<Rightarrow> bytes \<Rightarrow> nat \<Rightarrow> Xex2Header \<Rightarrow> Xex2SecurityInfo \<Rightarrow> Xex2OptFileFormatInfo \<Rightarrow> bytes \<Rightarrow> bytes option option" where
  "expand_payload env xex p header security info src =
     (if ff_compressionType info = XEX_COMPRESSION_NONE
      then map_option Some (bytes_at src 0 (unat (xs_imageSize security)))
      else if ff_compressionType info = XEX_COMPRESSION_BASIC
      then do { blocks \<leftarrow> read_blocks xex (p + 8) (unat (numBlocks info));
                image \<leftarrow> expand_basic blocks src;
                Some (Some image) }
      else if ff_compressionType info = XEX_COMPRESSION_NORMAL
      then (let exeLength = (of_nat (length xex - unat (xh_headerSize header)) :: u32)
            in do { stream \<leftarrow> compressed_stream (sha1 env) xex (p + 8) src (unat exeLength);
                    case stream of
                      None \<Rightarrow> Some None
                    | Some compressBuffer \<Rightarrow>
                        do { windowSize \<leftarrow> be32 xex (p + 8);
                             (resultCode, image) \<leftarrow> lzxDecompress (lzx env) compressBuffer
                                (replicate (unat (xs_imageSize security)) 0) windowSize None;
                             Some (if resultCode \<noteq> 0 then None else Some image) } })
      else None)"

subsection \<open>Mapping the sections\<close>

text \<open>
  The layouts of the headers of the image: the fields of each structure with their sizes. Every
  field is aligned by itself, so there is no padding.
\<close>

type_synonym layout = "(string \<times> nat) list"

definition size_of :: "layout \<Rightarrow> nat" where
  "size_of l = sum_list (map snd l)"

definition offset_of :: "string \<Rightarrow> layout \<Rightarrow> nat" where
  "offset_of name l = size_of (takeWhile (\<lambda>f. fst f \<noteq> name) l)"

definition IMAGE_DOS_HEADER :: layout where
  "IMAGE_DOS_HEADER =
     [(''e_magic'', 2), (''e_cblp'', 2), (''e_cp'', 2), (''e_crlc'', 2), (''e_cparhdr'', 2), (''e_minalloc'', 2),
      (''e_maxalloc'', 2), (''e_ss'', 2), (''e_sp'', 2), (''e_csum'', 2), (''e_ip'', 2), (''e_cs'', 2), (''e_lfarlc'', 2),
      (''e_ovno'', 2), (''e_res'', 2 * 4), (''e_oemid'', 2), (''e_oeminfo'', 2), (''e_res2'', 2 * 10), (''e_lfanew'', 4)]"

definition IMAGE_FILE_HEADER :: layout where
  "IMAGE_FILE_HEADER =
     [(''Machine'', 2), (''NumberOfSections'', 2), (''TimeDateStamp'', 4), (''PointerToSymbolTable'', 4),
      (''NumberOfSymbols'', 4), (''SizeOfOptionalHeader'', 2), (''Characteristics'', 2)]"

definition IMAGE_DATA_DIRECTORY :: layout where
  "IMAGE_DATA_DIRECTORY = [(''VirtualAddress'', 4), (''Size'', 4)]"

definition IMAGE_NUMBEROF_DIRECTORY_ENTRIES :: nat where
  "IMAGE_NUMBEROF_DIRECTORY_ENTRIES = 16"

definition IMAGE_OPTIONAL_HEADER32 :: layout where
  "IMAGE_OPTIONAL_HEADER32 =
     [(''Magic'', 2), (''MajorLinkerVersion'', 1), (''MinorLinkerVersion'', 1), (''SizeOfCode'', 4),
      (''SizeOfInitializedData'', 4), (''SizeOfUninitializedData'', 4), (''AddressOfEntryPoint'', 4), (''BaseOfCode'', 4),
      (''BaseOfData'', 4), (''ImageBase'', 4), (''SectionAlignment'', 4), (''FileAlignment'', 4),
      (''MajorOperatingSystemVersion'', 2), (''MinorOperatingSystemVersion'', 2), (''MajorImageVersion'', 2),
      (''MinorImageVersion'', 2), (''MajorSubsystemVersion'', 2), (''MinorSubsystemVersion'', 2), (''Win32VersionValue'', 4),
      (''SizeOfImage'', 4), (''SizeOfHeaders'', 4), (''CheckSum'', 4), (''Subsystem'', 2), (''DllCharacteristics'', 2),
      (''SizeOfStackReserve'', 4), (''SizeOfStackCommit'', 4), (''SizeOfHeapReserve'', 4), (''SizeOfHeapCommit'', 4),
      (''LoaderFlags'', 4), (''NumberOfRvaAndSizes'', 4),
      (''DataDirectory'', size_of IMAGE_DATA_DIRECTORY * IMAGE_NUMBEROF_DIRECTORY_ENTRIES)]"

definition IMAGE_NT_HEADERS32 :: layout where
  "IMAGE_NT_HEADERS32 =
     [(''Signature'', 4), (''FileHeader'', size_of IMAGE_FILE_HEADER), (''OptionalHeader'', size_of IMAGE_OPTIONAL_HEADER32)]"

definition IMAGE_SIZEOF_SHORT_NAME :: nat where
  "IMAGE_SIZEOF_SHORT_NAME = 8"

definition IMAGE_SECTION_HEADER :: layout where
  "IMAGE_SECTION_HEADER =
     [(''Name'', IMAGE_SIZEOF_SHORT_NAME), (''VirtualSize'', 4), (''VirtualAddress'', 4), (''SizeOfRawData'', 4),
      (''PointerToRawData'', 4), (''PointerToRelocations'', 4), (''PointerToLinenumbers'', 4),
      (''NumberOfRelocations'', 2), (''NumberOfLinenumbers'', 2), (''Characteristics'', 4)]"

lemma layouts [simp]:
  "offset_of ''e_lfanew'' IMAGE_DOS_HEADER = 60" "offset_of ''NumberOfSections'' IMAGE_FILE_HEADER = 2"
  "offset_of ''FileHeader'' IMAGE_NT_HEADERS32 = 4" "size_of IMAGE_NT_HEADERS32 = 248" "size_of IMAGE_SECTION_HEADER = 40"
  "offset_of ''VirtualSize'' IMAGE_SECTION_HEADER = 8" "offset_of ''VirtualAddress'' IMAGE_SECTION_HEADER = 12"
  "offset_of ''Characteristics'' IMAGE_SECTION_HEADER = 36"
  by (simp_all add: offset_of_def size_of_def IMAGE_DOS_HEADER_def IMAGE_FILE_HEADER_def IMAGE_NT_HEADERS32_def
      IMAGE_OPTIONAL_HEADER32_def IMAGE_DATA_DIRECTORY_def IMAGE_NUMBEROF_DIRECTORY_ENTRIES_def IMAGE_SECTION_HEADER_def
      IMAGE_SIZEOF_SHORT_NAME_def)

definition c_string :: "bytes \<Rightarrow> nat \<Rightarrow> string option" where
  "c_string bs off =
     (let run = takeWhile (\<lambda>b. b \<noteq> 0) (drop off bs)
      in if off + length run < length bs then Some (map (\<lambda>b. char_of (unat b)) run) else None)"

definition IMAGE_SCN_CNT_CODE :: u32 where "IMAGE_SCN_CNT_CODE = 0x20"

text \<open>The headers of \<open>n\<close> sections from \<open>off\<close> on.\<close>

fun map_sections :: "bytes \<Rightarrow> nat \<Rightarrow> nat \<Rightarrow> Image \<Rightarrow> Image option" where
  "map_sections buf off 0 img = Some img"
| "map_sections buf off (Suc n) img =
     do { name \<leftarrow> c_string buf off;
          VirtualSize \<leftarrow> le32 buf (off + offset_of ''VirtualSize'' IMAGE_SECTION_HEADER);
          VirtualAddress \<leftarrow> le32 buf (off + offset_of ''VirtualAddress'' IMAGE_SECTION_HEADER);
          Characteristics \<leftarrow> le32 buf (off + offset_of ''Characteristics'' IMAGE_SECTION_HEADER);
          map_sections buf (off + size_of IMAGE_SECTION_HEADER) n
            (Image_Map name (ucast VirtualAddress) VirtualSize (Characteristics AND IMAGE_SCN_CNT_CODE \<noteq> 0)
               (drop (unat VirtualAddress) buf) img) }"

text \<open>An optional value of the header that replaces a default.\<close>

definition opt_value :: "bytes \<Rightarrow> u32 \<Rightarrow> u32 \<Rightarrow> u32 option" where
  "opt_value xex key default_value =
     do { p \<leftarrow> getOptHeaderPtr xex key;
          case p of None \<Rightarrow> Some default_value | Some p \<Rightarrow> be32 xex p }"

definition map_image :: "bytes \<Rightarrow> Xex2SecurityInfo \<Rightarrow> bytes \<Rightarrow> Image option" where
  "map_image xex security buf =
     do { e_lfanew \<leftarrow> le32 buf (offset_of ''e_lfanew'' IMAGE_DOS_HEADER);
          base \<leftarrow> opt_value xex XEX_HEADER_IMAGE_BASE_ADDRESS (xs_loadAddress security);
          entry_point \<leftarrow> opt_value xex XEX_HEADER_ENTRY_POINT 0;
          numSections \<leftarrow> le16 buf (unat e_lfanew + offset_of ''FileHeader'' IMAGE_NT_HEADERS32
                                        + offset_of ''NumberOfSections'' IMAGE_FILE_HEADER);
          map_sections buf (unat e_lfanew + size_of IMAGE_NT_HEADERS32) (unat numSections)
            \<lparr>img_base = ucast base, img_size = xs_imageSize security, img_entry_point = ucast entry_point,
             img_sections = [], img_symbols = []\<rparr> }"

subsection \<open>Imports\<close>

text \<open>Three times \<open>nop\<close> and a \<open>blr\<close>.\<close>

definition thunk :: bytes where
  "thunk = [0x60, 0, 0, 0, 0x60, 0, 0, 0, 0x60, 0, 0, 0, 0x4E, 0x80, 0, 0x20]"

text \<open>
  The place of an address in the image. \<open>Image::Find\<close> gives the data of a section at the distance
  of the address to the base of the section, and the data of a section are at its distance to the
  base of the image.
\<close>

definition image_offset :: "u64 \<Rightarrow> u32 \<Rightarrow> nat" where
  "image_offset base address = unat (ucast address - base)"

text \<open>
  One descriptor. The word of the thunk is swapped in place; its upper byte is the type, its lower
  half the ordinal.
\<close>

definition import_thunk :: "exports \<Rightarrow> u32 \<Rightarrow> Image \<times> bytes \<Rightarrow> (Image \<times> bytes) option" where
  "import_thunk names firstThunk = (\<lambda>(img, buf).
     do { _ \<leftarrow> Image_Find (ucast firstThunk) img;
          let p = image_offset (img_base img) firstThunk;
          raw \<leftarrow> bytes_at buf p 4;
          word \<leftarrow> be32 buf p;
          buf \<leftarrow> copy_to p (rev raw) buf;
          if drop_bit 24 word \<noteq> 0 then
            do { let img = (case names (ucast word) of
                              Some name \<Rightarrow> img\<lparr>img_symbols := emplace \<lparr>sym_name = name, sym_address = ucast firstThunk,
                                              sym_size = 16, sym_type = Symbol_Function\<rparr> (img_symbols img)\<rparr>
                            | None \<Rightarrow> img);
                 buf \<leftarrow> copy_to p thunk buf;
                 Some (img, buf) }
          else Some (img, buf) })"

fun import_descriptors :: "exports \<Rightarrow> bytes \<Rightarrow> nat \<Rightarrow> nat \<Rightarrow> Image \<times> bytes \<Rightarrow> (Image \<times> bytes) option" where
  "import_descriptors names xex off 0 st = Some st"
| "import_descriptors names xex off (Suc n) st =
     do { firstThunk \<leftarrow> be32 xex off;
          st \<leftarrow> import_thunk names firstThunk st;
          import_descriptors names xex (off + 4) n st }"

definition names_of :: "load_env \<Rightarrow> string \<Rightarrow> exports" where
  "names_of env library =
     (if library = ''xam.xex'' then XamExports env
      else if library = ''xboxkrnl.exe'' then XboxKernelExports env
      else (\<lambda>_. None))"

text \<open>The names of the libraries: zero-terminated, each padded to a multiple of four bytes.\<close>

fun string_table :: "bytes \<Rightarrow> nat \<Rightarrow> nat \<Rightarrow> string list option" where
  "string_table xex off 0 = Some []"
| "string_table xex off (Suc n) =
     do { name \<leftarrow> c_string xex off;
          names \<leftarrow> string_table xex (off + (length name + 1 + 3) div 4 * 4) n;
          Some (name # names) }"

text \<open>One library after the other: 40 bytes of header, then its descriptors.\<close>

fun import_libraries :: "load_env \<Rightarrow> bytes \<Rightarrow> nat \<Rightarrow> string list \<Rightarrow> Image \<times> bytes \<Rightarrow> (Image \<times> bytes) option" where
  "import_libraries env xex library [] st = Some st"
| "import_libraries env xex library (name # rest) st =
     do { numberOfImports \<leftarrow> be16 xex (library + 38);
          st \<leftarrow> import_descriptors (names_of env name) xex (library + 40) (unat numberOfImports) st;
          import_libraries env xex (library + 40 + 4 * unat numberOfImports) rest st }"

definition link_imports :: "load_env \<Rightarrow> bytes \<Rightarrow> Image \<times> bytes \<Rightarrow> (Image \<times> bytes) option" where
  "link_imports env xex st =
     do { imports \<leftarrow> getOptHeaderPtr xex XEX_HEADER_IMPORT_LIBRARIES;
          case imports of
            None \<Rightarrow> Some st
          | Some off \<Rightarrow>
              do { sizeOfStringTable \<leftarrow> be32 xex (off + 4);
                   numImports \<leftarrow> be32 xex (off + 8);
                   stringTable \<leftarrow> string_table xex (off + 12) (unat numImports);
                   import_libraries env xex (off + 12 + unat sizeOfStringTable) stringTable st } }"

subsection \<open>The loader\<close>

text \<open>The sections point into the image, so they show the replaced thunks as well.\<close>

definition view_sections :: "bytes \<Rightarrow> Image \<Rightarrow> Image" where
  "view_sections buf img =
     img\<lparr>img_sections := map (\<lambda>s. s\<lparr>sec_data := drop (unat (sec_base s - img_base img)) buf\<rparr>) (img_sections img)\<rparr>"

definition empty_image :: Image where
  "empty_image = \<lparr>img_base = 0, img_size = 0, img_entry_point = 0, img_sections = [], img_symbols = []\<rparr>"

definition Xex2LoadImage :: "load_env \<Rightarrow> bytes \<Rightarrow> (Image \<times> bytes) option" where
  "Xex2LoadImage env xex =
     do { header \<leftarrow> read_header xex;
          security \<leftarrow> read_security xex (unat (xh_securityOffset header));
          format \<leftarrow> getOptHeaderPtr xex XEX_HEADER_FILE_FORMAT_INFO;
          p \<leftarrow> format;
          info \<leftarrow> read_format xex p;
          src \<leftarrow> payload env xex header security info;
          image \<leftarrow> expand_payload env xex p header security info src;
          case image of
            None \<Rightarrow> Some (empty_image, [])
          | Some buf \<Rightarrow>
              do { img \<leftarrow> map_image xex security buf;
                   (img, buf) \<leftarrow> link_imports env xex (img, buf);
                   Some (view_sections buf img, buf) } }"

subsection \<open>What the linking does\<close>

text \<open>The imports of a file, with the export table of their library, in the order of the file.\<close>

fun descriptor_list :: "exports \<Rightarrow> bytes \<Rightarrow> nat \<Rightarrow> nat \<Rightarrow> (exports \<times> u32) list option" where
  "descriptor_list names xex off 0 = Some []"
| "descriptor_list names xex off (Suc n) =
     do { firstThunk \<leftarrow> be32 xex off; rest \<leftarrow> descriptor_list names xex (off + 4) n; Some ((names, firstThunk) # rest) }"

fun library_list :: "load_env \<Rightarrow> bytes \<Rightarrow> nat \<Rightarrow> string list \<Rightarrow> (exports \<times> u32) list option" where
  "library_list env xex library [] = Some []"
| "library_list env xex library (name # rest) =
     do { n \<leftarrow> be16 xex (library + 38);
          ds \<leftarrow> descriptor_list (names_of env name) xex (library + 40) (unat n);
          more \<leftarrow> library_list env xex (library + 40 + 4 * unat n) rest;
          Some (ds @ more) }"

definition import_list :: "load_env \<Rightarrow> bytes \<Rightarrow> (exports \<times> u32) list option" where
  "import_list env xex =
     do { imports \<leftarrow> getOptHeaderPtr xex XEX_HEADER_IMPORT_LIBRARIES;
          case imports of
            None \<Rightarrow> Some []
          | Some off \<Rightarrow>
              do { sizeOfStringTable \<leftarrow> be32 xex (off + 4);
                   numImports \<leftarrow> be32 xex (off + 8);
                   names \<leftarrow> string_table xex (off + 12) (unat numImports);
                   library_list env xex (off + 12 + unat sizeOfStringTable) names } }"

fun import_all :: "(exports \<times> u32) list \<Rightarrow> Image \<times> bytes \<Rightarrow> (Image \<times> bytes) option" where
  "import_all [] st = Some st"
| "import_all ((names, a) # ims) st = do { st \<leftarrow> import_thunk names a st; import_all ims st }"

lemma import_all_append: "import_all (xs @ ys) st = do { st \<leftarrow> import_all xs st; import_all ys st }"
  by (induction xs st rule: import_all.induct) (simp_all split: bind_split)

lemma import_descriptors_all:
  "import_descriptors names xex off n st = Some st' \<Longrightarrow>
   \<exists>ims. descriptor_list names xex off n = Some ims \<and> import_all ims st = Some st'"
proof (induction names xex off n st rule: import_descriptors.induct)
  case (2 names xex off n st)
  then obtain a st1 where a: "be32 xex off = Some a" "import_thunk names a st = Some st1"
      "import_descriptors names xex (off + 4) n st1 = Some st'"
    by (auto split: bind_splits)
  then show ?case using "2.IH" [OF a] by auto
qed simp

lemma import_libraries_all:
  "import_libraries env xex library names st = Some st' \<Longrightarrow>
   \<exists>ims. library_list env xex library names = Some ims \<and> import_all ims st = Some st'"
proof (induction env xex library names st rule: import_libraries.induct)
  case (2 env xex library name rest st)
  then obtain n st1 where n: "be16 xex (library + 38) = Some n"
      "import_descriptors (names_of env name) xex (library + 40) (unat n) st = Some st1"
      "import_libraries env xex (library + 40 + 4 * unat n) rest st1 = Some st'"
    by (auto split: bind_splits)
  then show ?case using "2.IH" [OF n] import_descriptors_all [OF n(2)] by (auto simp: import_all_append)
qed simp

lemma link_imports_all:
  "link_imports env xex st = Some st' \<Longrightarrow>
   \<exists>ims. import_list env xex = Some ims \<and> import_all ims st = Some st'"
  by (auto simp: link_imports_def import_list_def dest!: import_libraries_all split: bind_splits option.splits)

text \<open>One import: what it writes and the symbol it adds, as a function of the image before.\<close>

definition new_bytes :: "u64 \<Rightarrow> bytes \<Rightarrow> u32 \<Rightarrow> bytes" where
  "new_bytes base buf a =
     (let p = image_offset base a
      in case (be32 buf p, bytes_at buf p 4) of
           (Some word, Some raw) \<Rightarrow> (if drop_bit 24 word \<noteq> 0 then thunk else rev raw)
         | _ \<Rightarrow> [])"

definition import_symbol :: "u64 \<Rightarrow> bytes \<Rightarrow> exports \<times> u32 \<Rightarrow> Symbol option" where
  "import_symbol base buf im =
     (case im of (names, a) \<Rightarrow>
        case be32 buf (image_offset base a) of
          None \<Rightarrow> None
        | Some word \<Rightarrow>
            if drop_bit 24 word \<noteq> 0
            then map_option (\<lambda>name. \<lparr>sym_name = name, sym_address = ucast a, sym_size = 16, sym_type = Symbol_Function\<rparr>)
                   (names (ucast word))
            else None)"

definition import_symbols :: "u64 \<Rightarrow> bytes \<Rightarrow> (exports \<times> u32) list \<Rightarrow> Symbol list" where
  "import_symbols base buf ims = List.map_filter (import_symbol base buf) ims"

text \<open>The ranges that two imports write do not overlap.\<close>

definition apart :: "u64 \<Rightarrow> bytes \<Rightarrow> u32 \<Rightarrow> u32 \<Rightarrow> bool" where
  "apart base buf a b =
     (image_offset base a + length (new_bytes base buf a) \<le> image_offset base b
      \<or> image_offset base b + length (new_bytes base buf b) \<le> image_offset base a)"

definition separate :: "u64 \<Rightarrow> bytes \<Rightarrow> (exports \<times> u32) list \<Rightarrow> bool" where
  "separate base buf ims = sorted_wrt (apart base buf) (map snd ims)"

lemma copy_to_same: "copy_to off new buf = Some buf' \<Longrightarrow> bytes_at buf' off (length new) = Some new"
  by (auto simp: copy_to_def bytes_at_def split: if_splits)

lemma copy_to_other:
  assumes "copy_to off new buf = Some buf'" "p + n \<le> off \<or> off + length new \<le> p"
  shows "bytes_at buf' p n = bytes_at buf p n"
proof -
  have b: "buf' = take off buf @ new @ drop (off + length new) buf" "off + length new \<le> length buf"
    using assms(1) by (auto simp: copy_to_def split: if_splits)
  then have "take n (drop p buf') = take n (drop p buf)" if "p + n \<le> length buf"
    using assms(2) that by (auto simp: drop_take min_def)
  then show ?thesis using b by (simp add: bytes_at_def)
qed

lemma length_thunk [simp]: "length thunk = 16"
  by (simp add: thunk_def)

lemma copy_to_twice:
  "copy_to p xs buf = Some buf1 \<Longrightarrow> length xs \<le> length ys \<Longrightarrow> copy_to p ys buf1 = copy_to p ys buf"
  by (auto simp: copy_to_def add.commute split: if_splits)

lemma import_thunk_effect:
  assumes "import_thunk names a (img, buf) = Some (img', buf')"
  shows "copy_to (image_offset (img_base img) a) (new_bytes (img_base img) buf a) buf = Some buf'"
    and "img' = img\<lparr>img_symbols := fold emplace (import_symbols (img_base img) buf [(names, a)]) (img_symbols img)\<rparr>"
    and "4 \<le> length (new_bytes (img_base img) buf a)"
proof -
  let ?p = "image_offset (img_base img) a"
  obtain raw word where r: "bytes_at buf ?p 4 = Some raw" "be32 buf ?p = Some word"
    using assms by (auto simp: import_thunk_def simp: Let_def split: bind_splits)
  then have l: "length raw = 4" using bytes_at_bound by blast
  show "4 \<le> length (new_bytes (img_base img) buf a)" using r l by (simp add: new_bytes_def)
  show "copy_to ?p (new_bytes (img_base img) buf a) buf = Some buf'"
    using assms r l copy_to_twice [of ?p "rev raw" buf _ thunk]
    by (auto simp: import_thunk_def new_bytes_def Let_def split: bind_splits if_splits)
  show "img' = img\<lparr>img_symbols := fold emplace (import_symbols (img_base img) buf [(names, a)]) (img_symbols img)\<rparr>"
    using assms r
    by (auto simp: import_thunk_def import_symbols_def import_symbol_def map_filter_simps Let_def
        split: bind_splits if_splits option.splits)
qed

lemma map_filter_cong: "(\<And>x. x \<in> set xs \<Longrightarrow> f x = g x) \<Longrightarrow> List.map_filter f xs = List.map_filter g xs"
  by (induction xs) (simp_all add: map_filter_simps split: option.split)

text \<open>An import does not change what the other ones read.\<close>

lemma apart_frame:
  assumes "copy_to (image_offset base a) (new_bytes base buf a) buf = Some buf'" "apart base buf a b"
    "4 \<le> length (new_bytes base buf b)"
  shows "bytes_at buf' (image_offset base b) 4 = bytes_at buf (image_offset base b) 4"
    and "be32 buf' (image_offset base b) = be32 buf (image_offset base b)"
    and "new_bytes base buf' b = new_bytes base buf b"
    and "import_symbol base buf' (names, b) = import_symbol base buf (names, b)"
proof -
  show b: "bytes_at buf' (image_offset base b) 4 = bytes_at buf (image_offset base b) 4"
    using assms(2,3) by (intro copy_to_other [OF assms(1)]) (auto simp: apart_def)
  then show "be32 buf' (image_offset base b) = be32 buf (image_offset base b)" by (simp add: be32_def)
  with b show "new_bytes base buf' b = new_bytes base buf b"
    "import_symbol base buf' (names, b) = import_symbol base buf (names, b)"
    unfolding new_bytes_def import_symbol_def Let_def by (simp_all only: prod.case)
qed

lemma import_all_effect:
  "import_all ims (img, buf) = Some (img', buf') \<Longrightarrow> separate (img_base img) buf ims \<Longrightarrow>
   (\<forall>im \<in> set ims. 4 \<le> length (new_bytes (img_base img) buf (snd im))) \<Longrightarrow>
   img' = img\<lparr>img_symbols := fold emplace (import_symbols (img_base img) buf ims) (img_symbols img)\<rparr>
   \<and> (\<forall>im \<in> set ims. bytes_at buf' (image_offset (img_base img) (snd im)) (length (new_bytes (img_base img) buf (snd im)))
         = Some (new_bytes (img_base img) buf (snd im)))
   \<and> (\<forall>p n. (\<forall>im \<in> set ims. p + n \<le> image_offset (img_base img) (snd im)
              \<or> image_offset (img_base img) (snd im) + length (new_bytes (img_base img) buf (snd im)) \<le> p)
         \<longrightarrow> bytes_at buf' p n = bytes_at buf p n)"
proof (induction ims arbitrary: img buf)
  case Nil
  then show ?case by (simp add: import_symbols_def map_filter_simps)
next
  case (Cons im ims)
  obtain names a where im: "im = (names, a)" by (cases im)
  obtain img1 buf1 where step: "import_thunk names a (img, buf) = Some (img1, buf1)"
      "import_all ims (img1, buf1) = Some (img', buf')"
    using Cons.prems(1) im by (auto split: bind_splits)
  note eff = import_thunk_effect [OF step(1)]
  have base: "img_base img1 = img_base img" using eff(2) by simp
  let ?b = "img_base img"
  have ap: "apart ?b buf a (snd im')" "4 \<le> length (new_bytes ?b buf (snd im'))" if "im' \<in> set ims" for im'
    using Cons.prems(2,3) that im by (auto simp: separate_def)
  note fr = apart_frame [OF eff(1) ap]
  have new: "new_bytes ?b buf1 (snd im') = new_bytes ?b buf (snd im')" if "im' \<in> set ims" for im'
    using fr(3) that by blast
  have sym: "import_symbols ?b buf1 ims = import_symbols ?b buf ims"
    unfolding import_symbols_def by (rule map_filter_cong) (metis fr(4) prod.collapse)
  have "apart ?b buf1 (snd x) (snd y) = apart ?b buf (snd x) (snd y)" if "x \<in> set ims" "y \<in> set ims" for x y
    using new that by (simp add: apart_def)
  then have "separate ?b buf1 ims"
    using Cons.prems(2) im by (auto simp: separate_def sorted_wrt_map intro: sorted_wrt_mono_rel [rotated])
  moreover have "\<forall>im \<in> set ims. 4 \<le> length (new_bytes ?b buf1 (snd im))" using new ap(2) by simp
  ultimately have IH: "img' = img1\<lparr>img_symbols := fold emplace (import_symbols ?b buf ims) (img_symbols img1)\<rparr>"
    "\<forall>im \<in> set ims. bytes_at buf' (image_offset ?b (snd im)) (length (new_bytes ?b buf (snd im))) = Some (new_bytes ?b buf (snd im))"
    "\<And>p n. \<forall>im \<in> set ims. p + n \<le> image_offset ?b (snd im) \<or> image_offset ?b (snd im) + length (new_bytes ?b buf (snd im)) \<le> p
       \<Longrightarrow> bytes_at buf' p n = bytes_at buf1 p n"
    using Cons.IH [OF step(2)] sym new base by simp_all
  have split: "import_symbols ?b buf (im # ims) = import_symbols ?b buf [(names, a)] @ import_symbols ?b buf ims"
    by (simp add: import_symbols_def map_filter_simps im split: option.split)
  have head: "bytes_at buf' (image_offset ?b a) (length (new_bytes ?b buf a)) = Some (new_bytes ?b buf a)"
    using IH(3) [of "image_offset ?b a"] ap(1) copy_to_same [OF eff(1)] by (auto simp: apart_def)
  show ?case
    using IH eff(2) split head im copy_to_other [OF eff(1)] by auto
qed

lemma set_map_filter: "set (List.map_filter f xs) = {y. \<exists>x \<in> set xs. f x = Some y}"
  by (induction xs) (auto simp: map_filter_simps split: option.split)

lemma import_symbols_addresses:
  assumes "s \<in> set (import_symbols base buf ims)"
  obtains names a where "(names, a) \<in> set ims" "import_symbol base buf (names, a) = Some s" "sym_address s = ucast a"
    "sym_size s = 16"
proof -
  obtain names a where i: "(names, a) \<in> set ims" "import_symbol base buf (names, a) = Some s"
    using assms by (auto simp: import_symbols_def set_map_filter)
  then have "sym_address s = ucast a" "sym_size s = 16"
    by (auto simp: import_symbol_def split: option.splits if_splits)
  with i show thesis by (rule that)
qed

lemma import_symbols_covers: "s \<in> set (import_symbols base buf ims) \<Longrightarrow> covers_base s"
proof (erule import_symbols_addresses)
  fix names a assume s: "sym_address s = (ucast (a :: u32) :: u64)" "sym_size s = 16"
  have "unat (ucast a :: u64) < 4294967296"
    using unat_less_word [of a] by (simp add: unsigned_ucast_eq take_bit_nat_eq_self)
  then show "covers_base s" by (simp add: covers_base_def s word_less_nat_alt unat_word_ariths)
qed

lemma import_symbols_distinct:
  "separate base buf ims \<Longrightarrow> \<forall>im \<in> set ims. 4 \<le> length (new_bytes base buf (snd im)) \<Longrightarrow>
   distinct (map sym_address (import_symbols base buf ims))"
proof (induction ims)
  case Nil
  then show ?case by (simp add: import_symbols_def map_filter_simps)
next
  case (Cons im ims)
  have IH: "distinct (map sym_address (import_symbols base buf ims))"
    using Cons by (simp add: separate_def)
  show ?case
  proof (cases "import_symbol base buf im")
    case None
    then show ?thesis using IH by (simp add: import_symbols_def map_filter_simps)
  next
    case (Some s)
    obtain names a where im: "im = (names, a)" by (cases im)
    have sa: "sym_address s = ucast a"
      using Some im by (auto simp: import_symbol_def split: option.splits if_splits)
    have "sym_address s \<noteq> sym_address t" if t: "t \<in> set (import_symbols base buf ims)" for t
    proof -
      obtain names' b where b: "(names', b) \<in> set ims" "sym_address t = ucast b"
        using t by (elim import_symbols_addresses)
      then have "apart base buf a b" "4 \<le> length (new_bytes base buf a)" "4 \<le> length (new_bytes base buf b)"
        using Cons.prems im by (force simp: separate_def)+
      then have "image_offset base a \<noteq> image_offset base b" by (auto simp: apart_def)
      then show ?thesis by (auto simp: sa b(2) image_offset_def)
    qed
    then show ?thesis using IH Some by (auto simp: import_symbols_def map_filter_simps)
  qed
qed

text \<open>
  C22. The imports of an executable are linked: after the imports are processed, every function
  import that is in the export table of its library has the thunk \<open>nop nop nop blr\<close> at its address
  and the symbol of its exported name, with the size of the thunk, is what the symbol table finds
  there. The imports must not overlap each other.
\<close>

theorem imports_linked:
  assumes "link_imports env xex (img, buf) = Some (img', buf')" "import_list env xex = Some ims"
    and "separate (img_base img) buf ims" "\<forall>im \<in> set ims. 4 \<le> length (new_bytes (img_base img) buf (snd im))"
    and "img_symbols img = []"
    and "(names, a) \<in> set ims" "be32 buf (image_offset (img_base img) a) = Some word" "drop_bit 24 word \<noteq> 0"
    and "names (ucast word) = Some name"
  shows "bytes_at buf' (image_offset (img_base img) a) 16 = Some thunk
     \<and> find_symbol (ucast a) (img_symbols img')
        = Some \<lparr>sym_name = name, sym_address = ucast a, sym_size = 16, sym_type = Symbol_Function\<rparr>"
proof -
  let ?b = "img_base img" and ?s = "\<lparr>sym_name = name, sym_address = ucast a, sym_size = 16, sym_type = Symbol_Function\<rparr>"
  have all: "import_all ims (img, buf) = Some (img', buf')" using link_imports_all [OF assms(1)] assms(2) by simp
  note eff = import_all_effect [OF all assms(3,4)]
  have w: "4 \<le> length (new_bytes ?b buf a)" using assms(4,6) by force
  have "new_bytes ?b buf a = thunk"
    using w assms(7,8) by (auto simp: new_bytes_def Let_def split: option.splits)
  then have "bytes_at buf' (image_offset ?b a) 16 = Some thunk" using eff assms(6) by force
  moreover have "import_symbol ?b buf (names, a) = Some ?s" using assms(7,8,9) by (simp add: import_symbol_def)
  then have "?s \<in> set (import_symbols ?b buf ims)"
    using assms(6) by (force simp: import_symbols_def set_map_filter)
  then have "find_symbol (sym_address ?s) (fold emplace (import_symbols ?b buf ims) []) = Some ?s"
    using import_symbols_covers import_symbols_distinct [OF assms(3,4)]
    by (intro symtab.look_fold) (auto simp: table_sorted_def)
  ultimately show ?thesis using eff assms(5) by simp
qed

definition ex_file :: bytes where
  "ex_file = replicate 23 0 @ [1] @ [0, 1, 3, 0xFF, 0, 0, 0, 32] @ [0, 0, 0, 0, 0, 0, 0, 8, 0, 0, 0, 1]
     @ [0x78, 0x61, 0x6D, 0x2E, 0x78, 0x65, 0x78, 0] @ replicate 39 0 @ [1] @ [0x82, 0, 0, 4]"

definition ex_image :: Image where
  "ex_image = \<lparr>img_base = 0x82000000, img_size = 32, img_entry_point = 0,
     img_sections = [\<lparr>sec_name = ''.text'', sec_base = 0x82000000, sec_size = 32, sec_code = True, sec_data = []\<rparr>],
     img_symbols = []\<rparr>"

definition ex_buffer :: bytes where
  "ex_buffer = replicate 4 9 @ [1, 0, 0, 5] @ replicate 24 9"

definition ex_exports :: exports where
  "ex_exports ordinal = (if ordinal = 5 then Some ''XamLoaderLaunchTitle'' else None)"

definition ex_env :: load_env where
  "ex_env = \<lparr>aes_cbc = (\<lambda>_ _ d. d), sha1 = (\<lambda>_. replicate 20 0), lzx = ex_lzx,
     XamExports = ex_exports, XboxKernelExports = (\<lambda>_. None)\<rparr>"

lemma ex_file_bytes:
  "bytes_at ex_file 4 4 = Some [0, 0, 0, 0]" "bytes_at ex_file 8 4 = Some [0, 0, 0, 0]" "bytes_at ex_file 16 4 = Some [0, 0, 0, 0]"
  "bytes_at ex_file 20 4 = Some [0, 0, 0, 1]" "bytes_at ex_file 24 4 = Some [0, 1, 3, 0xFF]"
  "bytes_at ex_file 28 4 = Some [0, 0, 0, 32]" "bytes_at ex_file 36 4 = Some [0, 0, 0, 8]"
  "bytes_at ex_file 40 4 = Some [0, 0, 0, 1]" "bytes_at ex_file 90 2 = Some [0, 1]"
  "bytes_at ex_file 92 4 = Some [0x82, 0, 0, 4]"
  by (simp_all add: ex_file_def bytes_at_def) (simp_all add: numeral_eq_Suc)

lemma ex_file_reads:
  "getOptHeaderPtr ex_file XEX_HEADER_IMPORT_LIBRARIES = Some (Some 32)"
  "be32 ex_file 36 = Some 8" "be32 ex_file 40 = Some 1" "be16 ex_file 90 = Some 1" "be32 ex_file 92 = Some 0x82000004"
  by (simp_all add: ex_file_bytes getOptHeaderPtr_def read_header_def be32_def be16_def XEX_HEADER_IMPORT_LIBRARIES_def)

lemma ex_file_name: "c_string ex_file 44 = Some ''xam.xex''"
  by (simp add: ex_file_def c_string_def char_of_def bit_0)

lemma ex_import_list: "import_list ex_env ex_file = Some [(ex_exports, 0x82000004)]"
  by (simp add: import_list_def ex_file_reads ex_file_name names_of_def ex_env_def)

lemma ex_buffer_reads:
  "bytes_at ex_buffer 4 4 = Some [1, 0, 0, 5]" "be32 ex_buffer 4 = Some 0x01000005"
  by (simp_all add: ex_buffer_def bytes_at_def be32_def)

lemma ex_link:
  "link_imports ex_env ex_file (ex_image, ex_buffer) = Some
     (ex_image\<lparr>img_symbols := [\<lparr>sym_name = ''XamLoaderLaunchTitle'', sym_address = 0x82000004, sym_size = 16, sym_type = Symbol_Function\<rparr>]\<rparr>,
      replicate 4 9 @ thunk @ replicate 12 9)"
proof -
  have "copy_to 4 (rev [1, 0, 0, 5]) ex_buffer = Some (replicate 4 9 @ [5, 0, 0, 1] @ replicate 24 9)"
    "copy_to 4 thunk (replicate 4 9 @ [5, 0, 0, 1] @ replicate 24 9) = Some (replicate 4 9 @ thunk @ replicate 12 9)"
    by (simp_all add: copy_to_def ex_buffer_def)
  moreover have "image_offset 0x82000000 0x82000004 = 4" by (simp add: image_offset_def)
  ultimately show ?thesis
    by (simp add: link_imports_def ex_file_reads ex_file_name names_of_def ex_env_def import_thunk_def ex_image_def
        Image_Find_def ex_buffer_reads ex_exports_def Let_def)
qed

lemma imports_linked_witness:
  "bytes_at (replicate 4 9 @ thunk @ replicate 12 9) 4 16 = Some thunk
   \<and> find_symbol 0x82000004 [\<lparr>sym_name = ''XamLoaderLaunchTitle'', sym_address = 0x82000004, sym_size = 16, sym_type = Symbol_Function\<rparr>]
     = Some \<lparr>sym_name = ''XamLoaderLaunchTitle'', sym_address = 0x82000004, sym_size = 16, sym_type = Symbol_Function\<rparr>"
proof -
  have o: "image_offset (img_base ex_image) 0x82000004 = 4" by (simp add: image_offset_def ex_image_def)
  have "separate (img_base ex_image) ex_buffer [(ex_exports, 0x82000004)]" by (simp add: separate_def)
  moreover have "\<forall>im \<in> set [(ex_exports, 0x82000004)]. 4 \<le> length (new_bytes (img_base ex_image) ex_buffer (snd im))"
    using o by (simp add: new_bytes_def ex_buffer_reads)
  ultimately show ?thesis
    using imports_linked [OF ex_link ex_import_list, of ex_exports "0x82000004" "0x01000005" "''XamLoaderLaunchTitle''"] o
    by (simp add: ex_buffer_reads ex_exports_def ex_image_def)
qed

subsection \<open>What a loaded image looks like\<close>

lemma map_sections_ok:
  "map_sections buf off n img = Some img' \<Longrightarrow> sections_sorted (img_sections img) \<Longrightarrow>
   sections_sorted (img_sections img') \<and> img_base img' = img_base img \<and> img_size img' = img_size img
   \<and> img_entry_point img' = img_entry_point img \<and> img_symbols img' = img_symbols img"
proof (induction buf off n img rule: map_sections.induct)
  case (2 buf off n img)
  then show ?case by (fastforce simp: Image_Map_sorted Image_Map_def insert_section_sorted split: bind_splits)
qed simp

text \<open>Linking only adds symbols of imports, and keeps the rest of the image.\<close>

definition links :: "Image \<times> bytes \<Rightarrow> Image \<times> bytes \<Rightarrow> bool" where
  "links st st' =
     ((\<exists>syms. fst st' = (fst st)\<lparr>img_symbols := fold emplace syms (img_symbols (fst st))\<rparr>
        \<and> (\<forall>s \<in> set syms. sym_type s = Symbol_Function \<and> sym_size s = 16))
      \<and> length (snd st') = length (snd st))"

lemma links_refl: "links st st"
  by (auto simp: links_def intro!: exI [of _ "[]"])

lemma links_trans: "links st st1 \<Longrightarrow> links st1 st2 \<Longrightarrow> links st st2"
proof -
  assume a: "links st st1" "links st1 st2"
  obtain xs where x: "fst st1 = (fst st)\<lparr>img_symbols := fold emplace xs (img_symbols (fst st))\<rparr>"
    "\<forall>s \<in> set xs. sym_type s = Symbol_Function \<and> sym_size s = 16"
    using a(1) unfolding links_def by blast
  obtain ys where y: "fst st2 = (fst st1)\<lparr>img_symbols := fold emplace ys (img_symbols (fst st1))\<rparr>"
    "\<forall>s \<in> set ys. sym_type s = Symbol_Function \<and> sym_size s = 16"
    using a(2) unfolding links_def by blast
  have "length (snd st2) = length (snd st)" using a by (simp add: links_def)
  then show ?thesis using x y unfolding links_def by (intro conjI exI [of _ "xs @ ys"]) auto
qed

lemma import_all_links: "import_all ims st = Some st' \<Longrightarrow> links st st'"
proof (induction ims st rule: import_all.induct)
  case (2 names a ims st)
  then obtain st1 where st1: "import_thunk names a st = Some st1" "import_all ims st1 = Some st'"
    by (auto split: bind_splits)
  obtain img buf img1 buf1 where st: "st = (img, buf)" "st1 = (img1, buf1)" by (cases st, cases st1)
  note eff = import_thunk_effect [OF st1(1) [unfolded st]]
  have "\<forall>s \<in> set (import_symbols (img_base img) buf [(names, a)]). sym_type s = Symbol_Function \<and> sym_size s = 16"
    by (auto simp: import_symbols_def set_map_filter import_symbol_def split: option.splits if_splits)
  then have "links st st1" using eff(2) copy_to_length [OF eff(1)] st unfolding links_def by auto
  then show ?case using "2.IH" [OF st1] by (rule links_trans)
qed (simp add: links_refl)

lemma fold_emplace_sorted: "table_sorted tab \<Longrightarrow> table_sorted (fold emplace ss tab)"
  by (rule symtab.inv_fold)

lemma fold_emplace_set: "set (fold emplace ss tab) = set ss \<union> set tab"
  by (induction ss arbitrary: tab) auto

lemma loaded_image_ok:
  assumes "Xex2LoadImage env xex = Some (img, buf)"
  shows "sections_sorted (img_sections img) \<and> table_sorted (img_symbols img)
     \<and> (\<forall>s \<in> set (img_sections img). sec_data s = drop (unat (sec_base s - img_base img)) buf)
     \<and> (\<forall>s \<in> set (img_symbols img). sym_type s = Symbol_Function \<and> sym_size s = 16)"
proof (cases "(img, buf) = (empty_image, [])")
  case True
  then show ?thesis by (simp add: empty_image_def sections_sorted_def table_sorted_def)
next
  case False
  then obtain security buf0 img0 img1 where
    l: "map_image xex security buf0 = Some img0" "link_imports env xex (img0, buf0) = Some (img1, buf)" "img = view_sections buf img1"
    using assms by (auto simp: Xex2LoadImage_def split: bind_splits option.splits)
  have i0: "sections_sorted (img_sections img0)" "img_symbols img0 = []"
    using l(1) by (auto simp: map_image_def sections_sorted_def dest!: map_sections_ok split: bind_splits)
  obtain syms where "img1 = img0\<lparr>img_symbols := fold emplace syms []\<rparr>"
      "\<forall>s \<in> set syms. sym_type s = Symbol_Function \<and> sym_size s = 16"
    using link_imports_all [OF l(2)] import_all_links i0(2) by (fastforce simp: links_def)
  then show ?thesis
    using i0 l(3) fold_emplace_sorted [of "[]" syms]
    by (auto simp: view_sections_def sections_sorted_def sorted_wrt_map fold_emplace_set table_sorted_def)
qed


definition ex_payload_image :: bytes where
  "ex_payload_image = replicate 6 0 @ [1, 0] @ replicate 240 0 @ [0x2E, 0x74, 0x65, 0x78, 0x74, 0, 0, 0]
     @ [32, 0, 0, 0, 0, 0, 0, 0] @ replicate 20 0 @ [0x20, 0, 0, 0]"

definition ex_xex :: bytes where
  "ex_xex = [0x58, 0x45, 0x58, 0x32, 0, 0, 1, 0x20, 0, 0, 1, 0x60, 0, 0, 0, 0] @ [0, 0, 0, 0, 0, 0, 0, 1]
     @ [0, 0, 3, 0xFF, 0, 0, 0, 32] @ replicate 240 0 @ [0x82, 0, 0, 0] @ replicate 76 0 @ ex_payload_image"

definition ex_loaded :: Image where
  "ex_loaded = \<lparr>img_base = 0x82000000, img_size = 0x120, img_entry_point = 0,
     img_sections = [\<lparr>sec_name = ''.text'', sec_base = 0x82000000, sec_size = 32, sec_code = True, sec_data = ex_payload_image\<rparr>],
     img_symbols = []\<rparr>"

lemma length_ex_payload_image: "length ex_payload_image = 288"
  by (simp add: ex_payload_image_def)

lemma ex_xex_bytes:
  "bytes_at ex_xex 4 4 = Some [0, 0, 1, 0x20]" "bytes_at ex_xex 8 4 = Some [0, 0, 1, 0x60]" "bytes_at ex_xex 16 4 = Some [0, 0, 0, 0]"
  "bytes_at ex_xex 20 4 = Some [0, 0, 0, 1]" "bytes_at ex_xex 24 4 = Some [0, 0, 3, 0xFF]" "bytes_at ex_xex 28 4 = Some [0, 0, 0, 32]"
  "bytes_at ex_xex 32 4 = Some [0, 0, 0, 0]" "bytes_at ex_xex 36 2 = Some [0, 0]" "bytes_at ex_xex 38 2 = Some [0, 0]"
  "bytes_at ex_xex 272 4 = Some [0x82, 0, 0, 0]" "bytes_at ex_xex 336 16 = Some (replicate 16 0)"
  by (simp_all add: ex_xex_def bytes_at_def length_ex_payload_image) (simp_all add: numeral_eq_Suc)

lemma ex_image_bytes:
  "bytes_at ex_payload_image 60 4 = Some [0, 0, 0, 0]" "bytes_at ex_payload_image 6 2 = Some [1, 0]"
  "bytes_at ex_payload_image 256 4 = Some [32, 0, 0, 0]" "bytes_at ex_payload_image 260 4 = Some [0, 0, 0, 0]"
  "bytes_at ex_payload_image 284 4 = Some [0x20, 0, 0, 0]" "c_string ex_payload_image 248 = Some ''.text''"
  by (simp_all add: ex_payload_image_def bytes_at_def c_string_def char_of_def bit_0) (simp_all add: numeral_eq_Suc)

lemma ex_xex_loads: "Xex2LoadImage ex_env ex_xex = Some (ex_loaded, ex_payload_image)"
proof -
  have h: "read_header ex_xex = Some \<lparr>xh_moduleFlags = 0x120, xh_headerSize = 0x160, xh_securityOffset = 0, xh_headerCount = 1\<rparr>"
    "read_security ex_xex 0 = Some \<lparr>xs_imageSize = 0x120, xs_loadAddress = 0x82000000, xs_aesKey = replicate 16 0\<rparr>"
    "read_format ex_xex 32 = Some \<lparr>ff_infoSize = 0, ff_encryptionType = 0, ff_compressionType = 0\<rparr>"
    by (simp_all add: read_header_def read_security_def read_format_def be32_def be16_def ex_xex_bytes)
  have k: "be32 ex_xex 24 = Some 0x3FF" "be32 ex_xex 28 = Some 32" by (simp_all add: be32_def ex_xex_bytes)
  have o: "getOptHeaderPtr ex_xex 0x3FF = Some (Some 32)" "getOptHeaderPtr ex_xex 0x10201 = Some None"
    "getOptHeaderPtr ex_xex 0x10100 = Some None" "getOptHeaderPtr ex_xex 0x103FF = Some None"
    by (simp_all add: getOptHeaderPtr_def h k)
  have "drop 352 ex_xex = ex_payload_image" "length ex_xex = 640" by (simp_all add: ex_xex_def length_ex_payload_image)
  then have p: "payload ex_env ex_xex \<lparr>xh_moduleFlags = 0x120, xh_headerSize = 0x160, xh_securityOffset = 0, xh_headerCount = 1\<rparr> s
      \<lparr>ff_infoSize = 0, ff_encryptionType = 0, ff_compressionType = 0\<rparr> = Some ex_payload_image" for s
    by (simp add: payload_def XEX_ENCRYPTION_NORMAL_def Let_def)
  have m: "map_image ex_xex \<lparr>xs_imageSize = 0x120, xs_loadAddress = 0x82000000, xs_aesKey = replicate 16 0\<rparr> ex_payload_image
      = Some ex_loaded"
    by (simp add: map_image_def le32_def le16_def ex_image_bytes opt_value_def o XEX_HEADER_IMAGE_BASE_ADDRESS_def
        XEX_HEADER_ENTRY_POINT_def Image_Map_def IMAGE_SCN_CNT_CODE_def ex_loaded_def)
  have "view_sections ex_payload_image ex_loaded = ex_loaded" by (simp add: view_sections_def ex_loaded_def)
  then show ?thesis
    using m by (simp add: Xex2LoadImage_def h o p XEX_HEADER_FILE_FORMAT_INFO_def expand_payload_def XEX_COMPRESSION_NONE_def
        bytes_at_def length_ex_payload_image link_imports_def XEX_HEADER_IMPORT_LIBRARIES_def)
qed


end
