(* ===== verification/XexPatch.thy ===== *)
theory XexPatch
  imports XexImage
begin

text \<open>
  \<open>XexPatcher::apply\<close> of \<open>XenonUtils/xex_patcher.cpp\<close>: a delta patch turns one executable into
  another. The output is a vector that also exists when the patch is refused, so every result
  comes with it. \<open>None\<close> is undefined behaviour.
\<close>

unbundle bit_operations_syntax

subsection \<open>Results\<close>

datatype Result =
  Success | FileOpenFailed | FileWriteFailed | XexFileUnsupported | XexFileInvalid | PatchFileInvalid
  | PatchIncompatible | PatchFailed | PatchUnsupported

text \<open>A stage ends the function with a result and the output so far, or goes on with a value.\<close>

type_synonym outcome = "(Result \<times> bytes) option"

type_synonym 'a stage = "(Result \<times> bytes + 'a) option"

definition go_on :: "'a stage \<Rightarrow> ('a \<Rightarrow> outcome) \<Rightarrow> outcome" where
  "go_on s f = (case s of None \<Rightarrow> None | Some (Inl r) \<Rightarrow> Some r | Some (Inr x) \<Rightarrow> f x)"

subsection \<open>Validation\<close>

definition Xex2Magic :: bytes where
  "Xex2Magic = [0x58, 0x45, 0x58, 0x32]"

definition XEX_MODULE_MODULE_PATCH :: u32 where "XEX_MODULE_MODULE_PATCH = 0x10"
definition XEX_MODULE_PATCH_FULL :: u32 where "XEX_MODULE_PATCH_FULL = 0x20"
definition XEX_MODULE_PATCH_DELTA :: u32 where "XEX_MODULE_PATCH_DELTA = 0x40"

record Xex2OptDeltaPatchDescriptor =
  pd_size :: u32
  pd_imageKeySource :: bytes
  pd_sizeOfTargetHeaders :: u32
  pd_deltaHeadersSourceOffset :: u32
  pd_deltaHeadersSourceSize :: u32
  pd_deltaHeadersTargetOffset :: u32
  pd_deltaImageSourceOffset :: u32
  pd_deltaImageSourceSize :: u32
  pd_deltaImageTargetOffset :: u32

text \<open>The patches for the headers follow at offset 76 of the descriptor.\<close>

definition read_descriptor :: "bytes \<Rightarrow> nat \<Rightarrow> Xex2OptDeltaPatchDescriptor option" where
  "read_descriptor bs off = do {
     size \<leftarrow> be32 bs off; imageKeySource \<leftarrow> bytes_at bs (off + 32) 16; sizeOfTargetHeaders \<leftarrow> be32 bs (off + 48);
     headersSourceOffset \<leftarrow> be32 bs (off + 52); headersSourceSize \<leftarrow> be32 bs (off + 56); headersTargetOffset \<leftarrow> be32 bs (off + 60);
     imageSourceOffset \<leftarrow> be32 bs (off + 64); imageSourceSize \<leftarrow> be32 bs (off + 68); imageTargetOffset \<leftarrow> be32 bs (off + 72);
     Some \<lparr>pd_size = size, pd_imageKeySource = imageKeySource, pd_sizeOfTargetHeaders = sizeOfTargetHeaders,
           pd_deltaHeadersSourceOffset = headersSourceOffset, pd_deltaHeadersSourceSize = headersSourceSize,
           pd_deltaHeadersTargetOffset = headersTargetOffset, pd_deltaImageSourceOffset = imageSourceOffset,
           pd_deltaImageSourceSize = imageSourceSize, pd_deltaImageTargetOffset = imageTargetOffset\<rparr> }"

text \<open>The offsets of the descriptor and of the file format header of the patch.\<close>

definition validate :: "bytes \<Rightarrow> bytes \<Rightarrow> (Result + nat \<times> nat) option" where
  "validate xex patch = do {
     magic \<leftarrow> bytes_at xex 0 4;
     if magic \<noteq> Xex2Magic then Some (Inl XexFileInvalid)
     else do {
       magic \<leftarrow> bytes_at patch 0 4;
       if magic \<noteq> Xex2Magic then Some (Inl PatchFileInvalid)
       else do {
         moduleFlags \<leftarrow> be32 patch 4;
         if moduleFlags AND (XEX_MODULE_MODULE_PATCH OR XEX_MODULE_PATCH_DELTA OR XEX_MODULE_PATCH_FULL) = 0
         then Some (Inl PatchFileInvalid)
         else do {
           patchDescriptor \<leftarrow> getOptHeaderPtr patch XEX_HEADER_DELTA_PATCH_DESCRIPTOR;
           case patchDescriptor of
             None \<Rightarrow> Some (Inl PatchFileInvalid)
           | Some d \<Rightarrow>
               do { patchFileFormatInfo \<leftarrow> getOptHeaderPtr patch XEX_HEADER_FILE_FORMAT_INFO;
                    case patchFileFormatInfo of
                      None \<Rightarrow> Some (Inl PatchFileInvalid)
                    | Some pf \<Rightarrow>
                        do { compressionType \<leftarrow> be16 patch (pf + 6);
                             Some (if compressionType \<noteq> XEX_COMPRESSION_DELTA then Inl PatchFileInvalid
                                   else Inr (d, pf)) } } } } } }"

definition headers_compatible :: "u32 \<Rightarrow> Xex2OptDeltaPatchDescriptor \<Rightarrow> bool" where
  "headers_compatible headerSize d =
     (\<not> pd_deltaHeadersSourceOffset d > headerSize
      \<and> \<not> pd_deltaHeadersSourceSize d > headerSize - pd_deltaHeadersSourceOffset d
      \<and> \<not> pd_deltaHeadersTargetOffset d > pd_sizeOfTargetHeaders d
      \<and> \<not> pd_deltaHeadersSourceSize d > pd_sizeOfTargetHeaders d - pd_deltaHeadersTargetOffset d)"

definition headerTargetSize :: "Xex2OptDeltaPatchDescriptor \<Rightarrow> u32" where
  "headerTargetSize d =
     (if pd_sizeOfTargetHeaders d = 0 then pd_deltaHeadersTargetOffset d + pd_deltaHeadersSourceSize d
      else pd_sizeOfTargetHeaders d)"

subsection \<open>The new headers\<close>

text \<open>The headers of the base file, patched; then room for the image, with the payload of the base file.\<close>

definition new_headers ::
  "load_env \<Rightarrow> bytes \<Rightarrow> bytes \<Rightarrow> u32 \<Rightarrow> nat \<Rightarrow> Xex2OptDeltaPatchDescriptor \<Rightarrow> u32 \<Rightarrow> bytes stage" where
  "new_headers env xex patch headerSize d desc windowSize =
     (let target = unat (headerTargetSize desc); newXexHeaderSize = unat (max (headerTargetSize desc) headerSize)
      in do { old \<leftarrow> bytes_at xex 0 target;
              out \<leftarrow> copy_to 0 old (replicate newXexHeaderSize 0);
              out \<leftarrow> (if pd_deltaHeadersSourceOffset desc > 0
                      then memcpy_within (unat (pd_deltaHeadersTargetOffset desc)) (unat (pd_deltaHeadersSourceOffset desc))
                             (unat (pd_deltaHeadersSourceSize desc)) out
                      else Some out);
              (resultCode, out) \<leftarrow> lzxDeltaApplyPatch (lzx env) patch (d + 76) (pd_size desc) windowSize out;
              Some (if resultCode \<noteq> 0 then Inl (PatchFailed, out) else Inr (take target out)) })"

definition copy_payload :: "bytes \<Rightarrow> u32 \<Rightarrow> bytes \<Rightarrow> bytes option" where
  "copy_payload xex headerSize out = do {
     securityOffset \<leftarrow> be32 out 16;
     imageSize \<leftarrow> be32 out (unat securityOffset + 4);
     if unat headerSize > length xex then None
     else copy_to (length out) (drop (unat headerSize) xex) (out @ replicate (unat imageSize) 0) }"

subsection \<open>Keys\<close>

definition security_key :: "bytes \<Rightarrow> bytes option" where
  "security_key bs = do { securityOffset \<leftarrow> be32 bs 16; bytes_at bs (unat securityOffset + 0x150) 16 }"

text \<open>The decrypted keys of the base file and of the patch, when the patch is made for the base file.\<close>

definition check_keys ::
  "load_env \<Rightarrow> bytes \<Rightarrow> bytes \<Rightarrow> Xex2OptDeltaPatchDescriptor \<Rightarrow> bytes \<Rightarrow> (bytes \<times> bytes) stage" where
  "check_keys env xex patch desc out = do {
     originalKey \<leftarrow> security_key xex; newKey \<leftarrow> security_key out; patchKey \<leftarrow> security_key patch;
     let decryptedOriginalKey = aes_cbc env Xex2RetailKey AESBlankIV originalKey;
         decryptedNewKey = aes_cbc env Xex2RetailKey AESBlankIV newKey;
         decryptedPatchKey = aes_cbc env decryptedNewKey AESBlankIV patchKey;
         decrpytedImageKeySource = aes_cbc env decryptedNewKey AESBlankIV (pd_imageKeySource desc)
     in Some (if decrpytedImageKeySource \<noteq> decryptedOriginalKey then Inl (PatchIncompatible, out)
              else Inr (decryptedOriginalKey, decryptedPatchKey)) }"

subsection \<open>The base image\<close>

text \<open>Decryption of the payload in the output, of \<open>n\<close> bytes at \<open>off\<close>.\<close>

definition decrypt_base :: "load_env \<Rightarrow> bytes \<Rightarrow> u16 \<Rightarrow> nat \<Rightarrow> nat \<Rightarrow> bytes \<Rightarrow> bytes stage" where
  "decrypt_base env key encryptionType off n out =
     (if encryptionType = XEX_ENCRYPTION_NORMAL
      then do { encrypted \<leftarrow> bytes_at out off n; out \<leftarrow> copy_to off (aes_cbc env key AESBlankIV encrypted) out; Some (Inr out) }
      else if encryptionType \<noteq> XEX_ENCRYPTION_NONE then Some (Inl (XexFileInvalid, out))
      else Some (Inr out))"

definition decompress_base ::
  "load_env \<Rightarrow> bytes \<Rightarrow> u32 \<Rightarrow> nat \<Rightarrow> Xex2OptFileFormatInfo \<Rightarrow> nat \<Rightarrow> nat \<Rightarrow> bytes \<Rightarrow> bytes stage" where
  "decompress_base env xex headerSize p info target newXexHeaderSize out =
     (if ff_compressionType info = XEX_COMPRESSION_BASIC
      then do { blocks \<leftarrow> read_blocks xex (p + 8) (unat (ff_infoSize info) div 8 - 1);
                expanded \<leftarrow> expand_in_place blocks target out;
                case expanded of None \<Rightarrow> Some (Inl (XexFileInvalid, out)) | Some out \<Rightarrow> Some (Inr out) }
      else if ff_compressionType info = XEX_COMPRESSION_NORMAL
      then (let exeLength = (of_nat (length xex - unat headerSize) :: u32)
            in do { stream \<leftarrow> compressed_stream (sha1 env) xex (p + 8) (drop target out) (unat exeLength);
                    case stream of
                      None \<Rightarrow> Some (Inl (PatchFailed, out))
                    | Some compressBuffer \<Rightarrow>
                        do { securityOffset \<leftarrow> be32 xex 16;
                             uncompressedSize \<leftarrow> be32 xex (unat securityOffset + 4);
                             windowSize \<leftarrow> be32 xex (p + 8);
                             buffer \<leftarrow> bytes_at out newXexHeaderSize (unat uncompressedSize);
                             (resultCode, buffer) \<leftarrow> lzxDecompress (lzx env) compressBuffer buffer windowSize None;
                             out \<leftarrow> copy_to newXexHeaderSize buffer out;
                             Some (if resultCode \<noteq> 0 then Inl (PatchFailed, out) else Inr out) } })
      else if ff_compressionType info = XEX_COMPRESSION_DELTA then Some (Inl (XexFileUnsupported, out))
      else if ff_compressionType info \<noteq> XEX_COMPRESSION_NONE then Some (Inl (XexFileInvalid, out))
      else Some (Inr out))"

text \<open>The header of the output says that it is neither encrypted nor compressed.\<close>

definition mark_plain :: "bytes \<Rightarrow> bytes stage" where
  "mark_plain out = do {
     newFileFormatInfo \<leftarrow> getOptHeaderPtr out XEX_HEADER_FILE_FORMAT_INFO;
     case newFileFormatInfo of
       None \<Rightarrow> Some (Inl (PatchFailed, out))
     | Some p \<Rightarrow> do { out \<leftarrow> copy_to (p + 4) (be16_bytes XEX_ENCRYPTION_NONE) out;
                      out \<leftarrow> copy_to (p + 6) (be16_bytes XEX_COMPRESSION_NONE) out;
                      Some (Inr out) } }"

subsection \<open>The patches of the image\<close>

definition patch_payload :: "load_env \<Rightarrow> bytes \<Rightarrow> bytes \<Rightarrow> u16 \<Rightarrow> bytes \<Rightarrow> bytes stage" where
  "patch_payload env key patch encryptionType out = do {
     headerSize \<leftarrow> be32 patch 8;
     if unat headerSize > length patch then None
     else if encryptionType = XEX_ENCRYPTION_NORMAL
     then Some (Inr (aes_cbc env key AESBlankIV (drop (unat headerSize) patch)))
     else if encryptionType \<noteq> XEX_ENCRYPTION_NONE then Some (Inl (PatchFileInvalid, out))
     else Some (Inr (drop (unat headerSize) patch)) }"

text \<open>
  The blocks of the patch, each checked against its digest; \<open>front\<close> are the headers of the output,
  \<open>outExe\<close> what follows. The size of the data of a block is computed in 32 bits.
\<close>

function delta_blocks ::
  "load_env \<Rightarrow> u32 \<Rightarrow> bytes \<Rightarrow> nat \<Rightarrow> u32 \<Rightarrow> bytes option \<Rightarrow> bytes \<Rightarrow> bytes \<Rightarrow> outcome" where
  "delta_blocks env windowSize patchData p blockSize hash front outExe =
     (if \<not> blockSize > 0 then Some (Success, front @ outExe)
      else
        case bytes_at patchData p (unat blockSize) of
          None \<Rightarrow> None
        | Some block \<Rightarrow>
            case hash of
              None \<Rightarrow> None
            | Some blockHash \<Rightarrow>
                if sha1 env block \<noteq> blockHash then Some (PatchFailed, front @ outExe)
                else
                  case lzxDeltaApplyPatch (lzx env) patchData (p + 24) (blockSize - 24) windowSize outExe of
                    None \<Rightarrow> None
                  | Some (result, outExe') \<Rightarrow>
                      if result \<noteq> 0 then Some (PatchFailed, front @ outExe')
                      else
                        case be32 patchData p of
                          None \<Rightarrow> None
                        | Some nextSize \<Rightarrow>
                            delta_blocks env windowSize patchData (p + 24 + unat (blockSize - 24)) nextSize
                              (bytes_at patchData (p + 4) 20) front outExe')"
  by pat_completeness auto

lemma advance_block: "0 < x \<Longrightarrow> p + unat (x :: u32) \<le> n \<Longrightarrow> n - (p + 24 + unat (x - 24)) < n - p"
proof -
  assume "0 < x" "p + unat x \<le> n"
  moreover from this have "unat x \<noteq> 0" by (simp add: unat_eq_0)
  ultimately show ?thesis by linarith
qed

termination delta_blocks
  by (relation "measure (\<lambda>(env, windowSize, patchData, p, blockSize, hash, front, outExe). length patchData - p)")
     (auto dest!: bytes_at_bound intro!: advance_block)

declare delta_blocks.simps [simp del]

definition apply_blocks ::
  "load_env \<Rightarrow> bytes \<Rightarrow> nat \<Rightarrow> Xex2OptDeltaPatchDescriptor \<Rightarrow> u32 \<Rightarrow> bytes \<Rightarrow> bytes \<Rightarrow> outcome" where
  "apply_blocks env patch pf desc windowSize patchData out = do {
     headerSize \<leftarrow> be32 out 8;
     if unat headerSize > length out then None
     else
       let front = take (unat headerSize) out; outExe = drop (unat headerSize) out
       in do { outExe \<leftarrow> (if pd_deltaImageSourceOffset desc > 0
                          then memcpy_within (unat (pd_deltaImageTargetOffset desc)) (unat (pd_deltaImageSourceOffset desc))
                                 (unat (pd_deltaImageSourceSize desc)) outExe
                          else Some outExe);
               blockSize \<leftarrow> be32 patch (pf + 12);
               delta_blocks env windowSize patchData 0 blockSize (bytes_at patch (pf + 16) 20) front outExe } }"

subsection \<open>Application\<close>

text \<open>Everything after the check of the keys.\<close>

definition apply_data ::
  "load_env \<Rightarrow> bytes \<Rightarrow> bytes \<Rightarrow> u32 \<Rightarrow> nat \<Rightarrow> Xex2OptDeltaPatchDescriptor \<Rightarrow> u32 \<Rightarrow> bytes \<times> bytes \<Rightarrow> bytes \<Rightarrow> outcome" where
  "apply_data env xex patch headerSize pf desc windowSize keys out =
     (let target = unat (headerTargetSize desc); newXexHeaderSize = unat (max (headerTargetSize desc) headerSize)
      in do { format \<leftarrow> getOptHeaderPtr xex XEX_HEADER_FILE_FORMAT_INFO;
              case format of
                None \<Rightarrow> Some (XexFileInvalid, out)
              | Some p \<Rightarrow>
                  do { info \<leftarrow> read_format xex p;
                       patchEncryption \<leftarrow> be16 patch (pf + 4);
                       go_on (decrypt_base env (fst keys) (ff_encryptionType info) target (length xex - unat headerSize) out) (\<lambda>out.
                       go_on (decompress_base env xex headerSize p info target newXexHeaderSize out) (\<lambda>out.
                       go_on (mark_plain out) (\<lambda>out.
                       go_on (patch_payload env (snd keys) patch patchEncryption out) (\<lambda>patchData.
                       apply_blocks env patch pf desc windowSize patchData out)))) } })"

definition apply_patch :: "load_env \<Rightarrow> bytes \<Rightarrow> bytes \<Rightarrow> bytes \<Rightarrow> bool \<Rightarrow> outcome" where
  "apply_patch env xex patch outBytes skipData = do {
     validation \<leftarrow> validate xex patch;
     case validation of
       Inl r \<Rightarrow> Some (r, outBytes)
     | Inr (d, pf) \<Rightarrow>
         do { desc \<leftarrow> read_descriptor patch d;
              headerSize \<leftarrow> be32 xex 8;
              if \<not> headers_compatible headerSize desc then Some (PatchIncompatible, outBytes)
              else do {
                windowSize \<leftarrow> be32 patch (pf + 8);
                go_on (new_headers env xex patch headerSize d desc windowSize) (\<lambda>out.
                do { out \<leftarrow> copy_payload xex headerSize out;
                     go_on (check_keys env xex patch desc out) (\<lambda>keys.
                       if skipData then Some (Success, out)
                       else apply_data env xex patch headerSize pf desc windowSize keys out) }) } } }"

text \<open>The version on files: what happens to the file of the new executable.\<close>

datatype file_effect = Untouched | Written bytes | Removed

definition apply_files :: "load_env \<Rightarrow> bytes option \<Rightarrow> bytes option \<Rightarrow> bool \<Rightarrow> bool \<Rightarrow> (Result \<times> file_effect) option" where
  "apply_files env baseXex patch is_open bad =
     (case (baseXex, patch) of
        (Some xex, Some patch) \<Rightarrow>
          do { (result, newXexBytes) \<leftarrow> apply_patch env xex patch [] False;
               Some (if result \<noteq> Success then (result, Untouched)
                     else if \<not> is_open then (FileOpenFailed, Untouched)
                     else if bad then (FileWriteFailed, Removed)
                     else (Success, Written newXexBytes)) }
      | _ \<Rightarrow> Some (FileOpenFailed, Untouched))"

subsection \<open>Checking and patching agree\<close>

lemma go_on_Some: "go_on s f = Some r \<Longrightarrow> (s = Some (Inl r)) \<or> (\<exists>x. s = Some (Inr x) \<and> f x = Some r)"
  by (auto simp: go_on_def split: option.splits sum.splits)

text \<open>What a successful application went through.\<close>

lemma new_headers_result:
  "new_headers env xex patch hs d desc ws = Some (Inl (r, out)) \<Longrightarrow> r = PatchFailed"
  by (auto simp: new_headers_def Let_def split: bind_splits if_splits)

lemma check_keys_result:
  "check_keys env xex patch desc out = Some (Inl (r, out')) \<Longrightarrow> r = PatchIncompatible"
  by (auto simp: check_keys_def Let_def split: bind_splits if_splits)

lemma validate_result: "validate xex patch = Some (Inl r) \<Longrightarrow> r = XexFileInvalid \<or> r = PatchFileInvalid"
  by (auto simp: validate_def split: bind_splits if_splits option.splits)

lemma apply_success_cases:
  assumes "apply_patch env xex patch outBytes skip = Some (Success, out')"
  obtains d pf desc hs ws out1 out keys where
    "validate xex patch = Some (Inr (d, pf))" "read_descriptor patch d = Some desc" "be32 xex 8 = Some hs"
    "headers_compatible hs desc" "be32 patch (pf + 8) = Some ws"
    "new_headers env xex patch hs d desc ws = Some (Inr out1)" "copy_payload xex hs out1 = Some out"
    "check_keys env xex patch desc out = Some (Inr keys)"
    "if skip then out' = out else apply_data env xex patch hs pf desc ws keys out = Some (Success, out')"
proof -
  obtain v where v: "validate xex patch = Some v" using assms by (auto simp: apply_patch_def split: bind_splits)
  then obtain d pf where v: "validate xex patch = Some (Inr (d, pf))"
    using assms by (cases v) (auto simp: apply_patch_def dest: validate_result)
  then obtain desc hs where h: "read_descriptor patch d = Some desc" "be32 xex 8 = Some hs" "headers_compatible hs desc"
    using assms by (auto simp: apply_patch_def split: bind_splits if_splits)
  then obtain ws where w: "be32 patch (pf + 8) = Some ws"
    using assms v by (auto simp: apply_patch_def split: bind_splits)
  have n: "go_on (new_headers env xex patch hs d desc ws) (\<lambda>out.
      do { out \<leftarrow> copy_payload xex hs out;
           go_on (check_keys env xex patch desc out) (\<lambda>keys.
             if skip then Some (Success, out)
             else apply_data env xex patch hs pf desc ws keys out) }) = Some (Success, out')"
    using assms v h w by (simp add: apply_patch_def)
  then obtain out1 out where o: "new_headers env xex patch hs d desc ws = Some (Inr out1)" "copy_payload xex hs out1 = Some out"
    "go_on (check_keys env xex patch desc out) (\<lambda>keys.
        if skip then Some (Success, out) else apply_data env xex patch hs pf desc ws keys out) = Some (Success, out')"
    using go_on_Some [OF n] new_headers_result [of env xex patch hs d desc ws Success out'] by (auto split: bind_splits)
  then obtain keys where "check_keys env xex patch desc out = Some (Inr keys)"
    "if skip then out' = out else apply_data env xex patch hs pf desc ws keys out = Some (Success, out')"
    using go_on_Some [OF o(3)] check_keys_result [of env xex patch desc out Success out'] by (auto split: if_splits)
  then show thesis using that v h w o by blast
qed

text \<open>
  The check alone decides like the application: a patch that is refused when it is only checked
  is refused with the same result and the same output when it is applied.
\<close>

lemma check_only_agrees:
  assumes "apply_patch env xex patch outBytes True = Some (r, out)"
  shows "r = Success \<or> apply_patch env xex patch outBytes False = Some (r, out)"
  using assms by (auto simp: apply_patch_def go_on_def split: bind_splits sum.splits option.splits if_splits)

lemma check_only_agrees_witness:
  "XexFileInvalid = Success \<or> apply_patch ex_env [1, 2, 3, 4, 5] [] [9] False = Some (XexFileInvalid, [9])"
  by (rule check_only_agrees) (simp add: apply_patch_def validate_def bytes_at_def Xex2Magic_def)

subsection \<open>The headers of a patched executable\<close>

text \<open>Two buffers with the same bytes in front.\<close>

definition same_front :: "nat \<Rightarrow> bytes \<Rightarrow> bytes \<Rightarrow> bool" where
  "same_front k a b = (k \<le> length a \<and> k \<le> length b \<and> take k a = take k b)"

lemma same_front_bytes: "same_front k a b \<Longrightarrow> q + n \<le> k \<Longrightarrow> bytes_at a q n = bytes_at b q n"
  using agree_bytes_at [of a b 0 k q n] by (simp add: same_front_def agree_def)

lemma same_front_be:
  "same_front k a b \<Longrightarrow> q + 4 \<le> k \<Longrightarrow> be32 a q = be32 b q"
  "same_front k a b \<Longrightarrow> q + 2 \<le> k \<Longrightarrow> be16 a q = be16 b q"
  by (simp_all add: be32_def be16_def same_front_bytes)

lemma same_front_refl: "k \<le> length a \<Longrightarrow> same_front k a a"
  by (simp add: same_front_def)

lemma same_front_trans: "same_front k a b \<Longrightarrow> same_front k b c \<Longrightarrow> same_front k a c"
  by (simp add: same_front_def)

lemma same_front_less: "same_front k a b \<Longrightarrow> j \<le> k \<Longrightarrow> same_front j a b"
  unfolding same_front_def by (metis min.absorb1 order_trans take_take)

lemma same_front_copy: "copy_to off new a = Some b \<Longrightarrow> k \<le> off \<Longrightarrow> same_front k a b"
  by (auto simp: copy_to_def same_front_def split: if_splits)

lemma opt_header_front:
  "same_front k a b \<Longrightarrow> 24 + 8 * (i + n) \<le> k \<Longrightarrow> opt_header a key i n = opt_header b key i n"
proof (induction n arbitrary: i)
  case (Suc n)
  have "be32 a (24 + 8 * i) = be32 b (24 + 8 * i)" "be32 a (24 + 8 * i + 4) = be32 b (24 + 8 * i + 4)"
    using same_front_be(1) [OF Suc.prems(1)] Suc.prems(2) by simp_all
  moreover have "opt_header a key (i + 1) n = opt_header b key (i + 1) n"
    using Suc.IH [OF Suc.prems(1), of "i + 1"] Suc.prems(2) by simp
  ultimately show ?case by (simp only: opt_header.simps)
qed simp

lemma getOptHeaderPtr_front:
  assumes "same_front k a b" "be32 a 20 = Some n" "24 + 8 * unat n \<le> k"
  shows "getOptHeaderPtr a key = getOptHeaderPtr b key"
proof -
  have "be32 b q = be32 a q" if "q + 4 \<le> 24" for q using same_front_be(1) [OF assms(1)] assms(3) that by simp
  then have "read_header b = read_header a" by (simp add: read_header_def)
  moreover have "xh_headerCount h = n" if "read_header a = Some h" for h
    using that assms(2) by (auto simp: read_header_def split: bind_splits)
  moreover have "opt_header a key 0 (unat n) = opt_header b key 0 (unat n)"
    using opt_header_front [OF assms(1), of 0 "unat n"] assms(3) by simp
  ultimately show ?thesis by (cases "read_header a") (simp_all add: getOptHeaderPtr_def)
qed

lemma shrink_loop_front:
  "shrink_loop blocks s d out = Some out' \<Longrightarrow> k + full_size blocks \<le> d \<Longrightarrow> k \<le> length out \<Longrightarrow> same_front k out out'"
proof (induction blocks arbitrary: s d out)
  case Nil
  then show ?case by (simp add: same_front_def)
next
  case (Cons b blocks)
  let ?z = "unat (bb_zeroSize b)" and ?n = "unat (bb_dataSize b)"
  obtain out1 run out2 where step: "copy_to (d - ?z) (replicate ?z 0) out = Some out1" "bytes_at out1 (s - ?n) ?n = Some run"
      "copy_to (d - ?z - ?n) run out1 = Some out2" "shrink_loop blocks (s - ?n) (d - ?z - ?n) out2 = Some out'"
    using Cons.prems(1) by (auto split: bind_splits if_splits)
  have "same_front k out2 out'" using Cons.IH [OF step(4)] Cons.prems(2,3) copy_to_length [OF step(1)] copy_to_length [OF step(3)] by simp
  moreover have "same_front k out out1" "same_front k out1 out2"
    using same_front_copy [OF step(1)] same_front_copy [OF step(3)] Cons.prems(2) by simp_all
  ultimately show ?case by (blast intro: same_front_trans)
qed

lemma decrypt_base_front:
  "decrypt_base env key e off n out = Some (Inr out') \<Longrightarrow> k \<le> off \<Longrightarrow> k \<le> length out \<Longrightarrow> same_front k out out'"
  by (auto simp: decrypt_base_def same_front_refl intro: same_front_copy split: bind_splits if_splits)

lemma expand_in_place_front:
  assumes "expand_in_place blocks target out = Some (Some out')" "sizes_fit blocks" "k \<le> target" "k \<le> length out"
  shows "same_front k out out'"
proof -
  have w: "unat (image_sum blocks) = full_size blocks" "full_size blocks < 2 ^ 31"
    using sum_words assms(2) by (simp_all add: sizes_fit_def)
  obtain s where "shrink_loop (rev blocks) s (target + full_size blocks) out = Some out'"
    using assms(1) cursor_small [of "image_sum blocks" target] w
    by (auto simp: expand_in_place_def split: if_splits bind_splits)
  moreover have "full_size (rev blocks) = full_size blocks"
    by (simp add: full_size_def rev_map [symmetric])
  ultimately show ?thesis using shrink_loop_front [of "rev blocks" s "target + full_size blocks" out out' k] assms(3,4) by simp
qed

lemma decompress_base_front:
  assumes "decompress_base env xex hs p info target new_size out = Some (Inr out')" "k \<le> target" "k \<le> new_size" "k \<le> length out"
    and "\<And>blocks. read_blocks xex (p + 8) (unat (ff_infoSize info) div 8 - 1) = Some blocks \<Longrightarrow> sizes_fit blocks"
  shows "same_front k out out'"
proof (cases "ff_compressionType info = XEX_COMPRESSION_BASIC")
  case True
  then obtain blocks where "read_blocks xex (p + 8) (unat (ff_infoSize info) div 8 - 1) = Some blocks"
      "expand_in_place blocks target out = Some (Some out')"
    using assms(1) by (auto simp: decompress_base_def split: bind_splits option.splits)
  then show ?thesis using assms(2,4,5) by (blast intro: expand_in_place_front)
next
  case False
  then show ?thesis
    using assms(1,3,4)
    by (auto simp: decompress_base_def Let_def same_front_refl intro: same_front_copy split: bind_splits option.splits if_splits)
qed

lemma mark_plain_front:
  assumes "mark_plain out = Some (Inr out')" "getOptHeaderPtr out XEX_HEADER_FILE_FORMAT_INFO = Some (Some p)"
  shows "k \<le> p + 4 \<Longrightarrow> same_front k out out'" and "be16 out' (p + 4) = Some 0" and "be16 out' (p + 6) = Some 0"
proof -
  obtain out1 where c: "copy_to (p + 4) (be16_bytes XEX_ENCRYPTION_NONE) out = Some out1"
      "copy_to (p + 6) (be16_bytes XEX_COMPRESSION_NONE) out1 = Some out'"
    using assms by (auto simp: mark_plain_def split: bind_splits)
  show "k \<le> p + 4 \<Longrightarrow> same_front k out out'"
    using same_front_copy [OF c(1), of k] same_front_copy [OF c(2), of k] by (auto intro: same_front_trans)
  have "bytes_at out' (p + 4) 2 = bytes_at out1 (p + 4) 2"
    using copy_to_other [OF c(2), of "p + 4" 2] by simp
  then have "bytes_at out' (p + 4) 2 = Some [0, 0]" "bytes_at out' (p + 6) 2 = Some [0, 0]"
    using copy_to_same [OF c(1)] copy_to_same [OF c(2)]
    by (simp_all add: be16_bytes_def XEX_ENCRYPTION_NONE_def XEX_COMPRESSION_NONE_def numeral_2_eq_2)
  then show "be16 out' (p + 4) = Some 0" "be16 out' (p + 6) = Some 0" by (simp_all add: be16_def)
qed

lemma delta_blocks_front:
  "delta_blocks env ws d p n hash front exe = Some (r, out') \<Longrightarrow> \<exists>exe'. out' = front @ exe' \<and> length exe' = length exe"
proof (induction env ws d p n hash front exe rule: delta_blocks.induct)
  case (1 env ws d p n hash front exe)
  then show ?case
    by (simp add: delta_blocks.simps [of _ _ d p] split: if_splits option.splits prod.splits)
      (auto simp: lzxDeltaApplyPatch_def dest!: delta_loop_length)
qed

lemma apply_blocks_front:
  assumes "apply_blocks env patch pf desc ws d out = Some (r, out')" "be32 out 8 = Some hs" "k \<le> unat hs"
  shows "same_front k out out'"
proof -
  obtain exe where "delta_blocks env ws d 0 (the (be32 patch (pf + 12))) (bytes_at patch (pf + 16) 20)
      (take (unat hs) out) exe = Some (r, out')" "unat hs \<le> length out"
    using assms(1,2) by (auto simp: apply_blocks_def Let_def split: bind_splits if_splits)
  then obtain exe' where "out' = take (unat hs) out @ exe'" using delta_blocks_front by blast
  then show ?thesis using assms(3) \<open>unat hs \<le> length out\<close> by (simp add: same_front_def min_absorb1)
qed

lemma new_headers_length:
  "new_headers env xex patch hs d desc ws = Some (Inr out) \<Longrightarrow> length out = unat (headerTargetSize desc)"
proof -
  assume n: "new_headers env xex patch hs d desc ws = Some (Inr out)"
  have "unat (headerTargetSize desc) \<le> unat (max (headerTargetSize desc) hs)" by (simp add: max_def word_le_nat_alt)
  then show ?thesis
    using n by (auto simp: new_headers_def memcpy_within_def lzxDeltaApplyPatch_def Let_def
        dest!: copy_to_length delta_loop_length split: bind_splits if_splits)
qed

lemma copy_payload_length: "copy_payload xex hs out1 = Some out \<Longrightarrow> length out1 \<le> length out"
  by (auto simp: copy_payload_def dest!: copy_to_length split: bind_splits if_splits)

text \<open>What a successful application of the image part went through.\<close>

lemma apply_data_cases:
  assumes "apply_data env xex patch hs pf desc ws keys out = Some (Success, out')"
    "getOptHeaderPtr xex XEX_HEADER_FILE_FORMAT_INFO = Some (Some b)" "read_format xex b = Some info"
  obtains out1 out2 out3 d where
    "decrypt_base env (fst keys) (ff_encryptionType info) (unat (headerTargetSize desc)) (length xex - unat hs) out = Some (Inr out1)"
    "decompress_base env xex hs b info (unat (headerTargetSize desc)) (unat (max (headerTargetSize desc) hs)) out1 = Some (Inr out2)"
    "mark_plain out2 = Some (Inr out3)" "apply_blocks env patch pf desc ws d out3 = Some (Success, out')"
proof -
  obtain e where e: "be16 patch (pf + 4) = Some e" "go_on (decrypt_base env (fst keys) (ff_encryptionType info)
      (unat (headerTargetSize desc)) (length xex - unat hs) out) (\<lambda>out.
        go_on (decompress_base env xex hs b info (unat (headerTargetSize desc)) (unat (max (headerTargetSize desc) hs)) out) (\<lambda>out.
        go_on (mark_plain out) (\<lambda>out. go_on (patch_payload env (snd keys) patch e out) (\<lambda>patchData.
        apply_blocks env patch pf desc ws patchData out)))) = Some (Success, out')"
    using assms by (auto simp: apply_data_def Let_def split: bind_splits)
  have "decrypt_base env k en t n o1 \<noteq> Some (Inl (Success, o'))" "decompress_base env xex hs b info t ns o1 \<noteq> Some (Inl (Success, o'))"
    "mark_plain o1 \<noteq> Some (Inl (Success, o'))" "patch_payload env k patch en o1 \<noteq> Some (Inl (Success, o'))" for k en t n o1 o' ns
    by (auto simp: decrypt_base_def decompress_base_def mark_plain_def patch_payload_def Let_def
        split: bind_splits if_splits option.splits)
  then show thesis using e(2) that by (auto dest!: go_on_Some)
qed

text \<open>
  A successfully patched executable is one the loader takes as it is: its file format header
  is where the checked headers have it, and says that the file is neither encrypted nor compressed.
  Neither the expansion of the base image nor the patches of the image reach the headers. The
  header table, the file format header and the rest of the headers must not overlap, and the sizes
  of the base image must not overflow.
\<close>

lemma patched_header_plain:
  assumes "apply_patch env xex patch outBytes True = Some (Success, out)"
    and "apply_patch env xex patch outBytes False = Some (Success, out')"
    and "validate xex patch = Some (Inr (d, pf))" "read_descriptor patch d = Some desc"
    and "getOptHeaderPtr xex XEX_HEADER_FILE_FORMAT_INFO = Some (Some b)" "read_format xex b = Some info"
    and "\<And>blocks. read_blocks xex (b + 8) (unat (ff_infoSize info) div 8 - 1) = Some blocks \<Longrightarrow> sizes_fit blocks"
    and "getOptHeaderPtr out XEX_HEADER_FILE_FORMAT_INFO = Some (Some p)" "be32 out 20 = Some n" "be32 out 8 = Some hs"
    and "24 + 8 * unat n \<le> p" "p + 8 \<le> unat hs" "p + 8 \<le> unat (headerTargetSize desc)"
  shows "getOptHeaderPtr out' XEX_HEADER_FILE_FORMAT_INFO = Some (Some p) \<and> be32 out' 8 = Some hs
     \<and> be16 out' (p + 4) = Some XEX_ENCRYPTION_NONE \<and> be16 out' (p + 6) = Some XEX_COMPRESSION_NONE"
proof -
  obtain hx ws out1 keys where s: "be32 xex 8 = Some hx" "be32 patch (pf + 8) = Some ws"
      "new_headers env xex patch hx d desc ws = Some (Inr out1)" "copy_payload xex hx out1 = Some out"
      "check_keys env xex patch desc out = Some (Inr keys)"
    using assms(1,3,4) by (elim apply_success_cases) auto
  then have data: "apply_data env xex patch hx pf desc ws keys out = Some (Success, out')"
    using assms(2,3,4) by (elim apply_success_cases) auto
  obtain o1 o2 o3 pd where a:
      "decrypt_base env (fst keys) (ff_encryptionType info) (unat (headerTargetSize desc)) (length xex - unat hx) out = Some (Inr o1)"
      "decompress_base env xex hx b info (unat (headerTargetSize desc)) (unat (max (headerTargetSize desc) hx)) o1 = Some (Inr o2)"
      "mark_plain o2 = Some (Inr o3)" "apply_blocks env patch pf desc ws pd o3 = Some (Success, out')"
    using apply_data_cases [OF data assms(5,6)] by blast
  have len: "p + 8 \<le> length out" using new_headers_length [OF s(3)] copy_payload_length [OF s(4)] assms(13) by simp
  have f1: "same_front (p + 8) out o1" using decrypt_base_front [OF a(1)] assms(13) len by simp
  then have "p + 8 \<le> length o1" by (simp add: same_front_def)
  moreover have "unat (headerTargetSize desc) \<le> unat (max (headerTargetSize desc) hx)" by (simp add: max_def word_le_nat_alt)
  ultimately have "same_front (p + 8) o1 o2" using decompress_base_front [OF a(2), of "p + 8"] assms(7,13) by simp
  then have f2: "same_front (p + 8) out o2" using f1 by (blast intro: same_front_trans)
  have table: "24 + 8 * unat n \<le> p + 4" "24 + 8 * unat n \<le> p + 8" using assms(11) by simp_all
  have g2: "getOptHeaderPtr o2 XEX_HEADER_FILE_FORMAT_INFO = Some (Some p)"
    using getOptHeaderPtr_front [OF f2 assms(9) table(2)] assms(8) by simp
  note m = mark_plain_front [OF a(3) g2]
  have f3: "same_front (p + 4) out o3"
    using m(1) [OF order_refl] same_front_less [OF f2, of "p + 4"] by (auto intro: same_front_trans)
  have h3: "be32 o3 8 = Some hs" using same_front_be(1) [OF f3, of 8] assms(10,11) by simp
  have f4: "same_front (p + 8) o3 out'" using apply_blocks_front [OF a(4) h3] assms(12) by simp
  then have f5: "same_front (p + 4) out out'"
    using f3 same_front_less [OF f4, of "p + 4"] by (auto intro: same_front_trans)
  have "getOptHeaderPtr out' XEX_HEADER_FILE_FORMAT_INFO = Some (Some p)"
    using getOptHeaderPtr_front [OF f5 assms(9) table(1)] assms(8) by simp
  moreover have "be32 out' 8 = Some hs" using same_front_be(1) [OF f5, of 8] assms(10,11) by simp
  moreover have "be16 out' (p + 4) = Some 0" "be16 out' (p + 6) = Some 0"
    using same_front_be(2) [OF f4, of "p + 4"] same_front_be(2) [OF f4, of "p + 6"] m(2,3) by simp_all
  ultimately show ?thesis by (simp add: XEX_ENCRYPTION_NONE_def XEX_COMPRESSION_NONE_def)
qed

text \<open>An example: an encrypted base file of 392 bytes of headers and 4 bytes of image, and a patch without blocks.\<close>

definition ex_front :: "u8 \<Rightarrow> bytes" where
  "ex_front e = [0x58, 0x45, 0x58, 0x32, 0, 0, 0, 0, 0, 0, 1, 0x88, 0, 0, 0, 0] @ [0, 0, 0, 40, 0, 0, 0, 1]
     @ [0, 0, 3, 0xFF, 0, 0, 0, 32] @ [0, 0, 0, 0, 0, e, 0, 0] @ [0, 0, 0, 0, 0, 0, 0, 4] @ replicate 344 0"

definition ex_base :: "u8 \<Rightarrow> bytes" where
  "ex_base e = ex_front e @ [1, 2, 3, 4]"

definition ex_patch :: bytes where
  "ex_patch = [0x58, 0x45, 0x58, 0x32, 0, 0, 0, 0x10, 0, 0, 1, 0x60, 0, 0, 0, 0] @ [0, 0, 0, 0, 0, 0, 0, 2]
     @ [0, 0, 5, 0xFF, 0, 0, 0, 76] @ [0, 0, 3, 0xFF, 0, 0, 0, 40] @ [0, 0, 0, 0, 0, 0, 0, 3]
     @ replicate 76 0 @ [0, 0, 1, 0x88] @ replicate 224 0"

lemma length_ex_front: "length (ex_front e) = 392" and length_ex_base: "length (ex_base e) = 396"
  and length_ex_patch: "length ex_patch = 352"
  by (simp_all add: ex_base_def ex_front_def ex_patch_def)

lemma ex_base_bytes:
  "bytes_at (ex_base e) 0 4 = Some [0x58, 0x45, 0x58, 0x32]" "bytes_at (ex_base e) 4 4 = Some [0, 0, 0, 0]"
  "bytes_at (ex_base e) 8 4 = Some [0, 0, 1, 0x88]" "bytes_at (ex_base e) 16 4 = Some [0, 0, 0, 40]"
  "bytes_at (ex_base e) 20 4 = Some [0, 0, 0, 1]" "bytes_at (ex_base e) 24 4 = Some [0, 0, 3, 0xFF]"
  "bytes_at (ex_base e) 28 4 = Some [0, 0, 0, 32]" "bytes_at (ex_base e) 32 4 = Some [0, 0, 0, 0]"
  "bytes_at (ex_base e) 36 2 = Some [0, e]" "bytes_at (ex_base e) 38 2 = Some [0, 0]"
  "bytes_at (ex_base e) 44 4 = Some [0, 0, 0, 4]" "bytes_at (ex_base e) 376 16 = Some (replicate 16 0)"
  by (simp_all add: ex_base_def ex_front_def bytes_at_def)

lemma ex_patch_bytes:
  "bytes_at ex_patch 0 4 = Some [0x58, 0x45, 0x58, 0x32]" "bytes_at ex_patch 4 4 = Some [0, 0, 0, 0x10]"
  "bytes_at ex_patch 8 4 = Some [0, 0, 1, 0x60]" "bytes_at ex_patch 16 4 = Some [0, 0, 0, 0]"
  "bytes_at ex_patch 20 4 = Some [0, 0, 0, 2]" "bytes_at ex_patch 24 4 = Some [0, 0, 5, 0xFF]"
  "bytes_at ex_patch 28 4 = Some [0, 0, 0, 76]" "bytes_at ex_patch 32 4 = Some [0, 0, 3, 0xFF]"
  "bytes_at ex_patch 36 4 = Some [0, 0, 0, 40]" "bytes_at ex_patch 44 2 = Some [0, 0]" "bytes_at ex_patch 46 2 = Some [0, 3]"
  "bytes_at ex_patch 48 4 = Some [0, 0, 0, 0]" "bytes_at ex_patch 52 4 = Some [0, 0, 0, 0]"
  "bytes_at ex_patch 76 4 = Some [0, 0, 0, 0]" "bytes_at ex_patch 108 16 = Some (replicate 16 0)"
  "bytes_at ex_patch 124 4 = Some [0, 0, 1, 0x88]" "bytes_at ex_patch 128 4 = Some [0, 0, 0, 0]"
  "bytes_at ex_patch 132 4 = Some [0, 0, 0, 0]" "bytes_at ex_patch 136 4 = Some [0, 0, 0, 0]"
  "bytes_at ex_patch 140 4 = Some [0, 0, 0, 0]" "bytes_at ex_patch 144 4 = Some [0, 0, 0, 0]"
  "bytes_at ex_patch 148 4 = Some [0, 0, 0, 0]" "bytes_at ex_patch 336 16 = Some (replicate 16 0)"
  by (simp_all add: ex_patch_def bytes_at_def) (simp_all add: numeral_eq_Suc)

lemma ex_base_reads:
  "be32 (ex_base e) 8 = Some 0x188" "be32 (ex_base e) 16 = Some 40" "be32 (ex_base e) 20 = Some 1" "be32 (ex_base e) 44 = Some 4"
  "getOptHeaderPtr (ex_base e) 0x3FF = Some (Some 32)"
  "read_format (ex_base e) 32 = Some \<lparr>ff_infoSize = 0, ff_encryptionType = of_nat (unat e), ff_compressionType = 0\<rparr>"
  by (simp_all add: be32_def be16_def ex_base_bytes getOptHeaderPtr_def read_header_def read_format_def)

definition ex_descriptor :: Xex2OptDeltaPatchDescriptor where
  "ex_descriptor = \<lparr>pd_size = 0, pd_imageKeySource = replicate 16 0, pd_sizeOfTargetHeaders = 0x188,
     pd_deltaHeadersSourceOffset = 0, pd_deltaHeadersSourceSize = 0, pd_deltaHeadersTargetOffset = 0,
     pd_deltaImageSourceOffset = 0, pd_deltaImageSourceSize = 0, pd_deltaImageTargetOffset = 0\<rparr>"

lemma opt_header_two: "opt_header bs key 0 2 = opt_header bs key 0 (Suc (Suc 0))"
  by (simp only: numeral_2_eq_2)

lemma ex_patch_reads:
  "be32 ex_patch 4 = Some 0x10" "be32 ex_patch 8 = Some 0x160" "be32 ex_patch 16 = Some 0" "be32 ex_patch 48 = Some 0" "be32 ex_patch 52 = Some 0"
  "be16 ex_patch 44 = Some 0" "be16 ex_patch 46 = Some 3"
  "getOptHeaderPtr ex_patch 0x3FF = Some (Some 40)" "getOptHeaderPtr ex_patch 0x5FF = Some (Some 76)"
  "read_descriptor ex_patch 76 = Some ex_descriptor"
  by (simp_all add: be32_def be16_def ex_patch_bytes getOptHeaderPtr_def read_header_def read_descriptor_def ex_descriptor_def opt_header_two)

lemma ex_validate: "validate (ex_base e) ex_patch = Some (Inr (76, 40))"
  by (simp add: validate_def ex_base_bytes ex_patch_bytes ex_patch_reads Xex2Magic_def XEX_MODULE_MODULE_PATCH_def
      XEX_MODULE_PATCH_FULL_def XEX_MODULE_PATCH_DELTA_def XEX_HEADER_DELTA_PATCH_DESCRIPTOR_def XEX_HEADER_FILE_FORMAT_INFO_def
      XEX_COMPRESSION_DELTA_def)

lemma no_deltas: "delta_loop l ws src p p dst = Some (0, dst)"
  by (simp add: delta_loop.simps)

lemma ex_headers:
  "headerTargetSize ex_descriptor = 0x188" "headers_compatible 0x188 ex_descriptor"
  "new_headers ex_env (ex_base e) ex_patch 0x188 76 ex_descriptor 0 = Some (Inr (ex_front e))"
  "copy_payload (ex_base e) 0x188 (ex_front e) = Some (ex_base e)"
proof -
  show t: "headerTargetSize ex_descriptor = 0x188" "headers_compatible 0x188 ex_descriptor"
    by (simp_all add: headerTargetSize_def ex_descriptor_def headers_compatible_def)
  have "bytes_at (ex_base e) 0 392 = Some (ex_front e)"
    using length_ex_front [of e] by (simp add: bytes_at_def ex_base_def)
  moreover have "copy_to 0 (ex_front e) (replicate 392 0) = Some (ex_front e)" by (simp add: copy_to_def length_ex_front)
  ultimately show "new_headers ex_env (ex_base e) ex_patch 0x188 76 ex_descriptor 0 = Some (Inr (ex_front e))"
    by (simp add: new_headers_def t length_ex_front)
      (simp add: ex_descriptor_def lzxDeltaApplyPatch_def no_deltas length_ex_front)
  have f: "same_front 392 (ex_base e) (ex_front e)"
    by (simp add: same_front_def length_ex_base length_ex_front ex_base_def)
  then have "be32 (ex_front e) 16 = Some 40" "be32 (ex_front e) 44 = Some 4"
    using same_front_be(1) [OF f, of 16] same_front_be(1) [OF f, of 44] ex_base_reads by simp_all
  then show "copy_payload (ex_base e) 0x188 (ex_front e) = Some (ex_base e)"
    by (simp add: copy_payload_def length_ex_base copy_to_def length_ex_front) (simp add: ex_base_def length_ex_front)
qed

lemma ex_check: "check_keys ex_env (ex_base e) ex_patch ex_descriptor (ex_base e) = Some (Inr (replicate 16 0, replicate 16 0))"
  by (simp add: check_keys_def security_key_def ex_base_reads ex_base_bytes ex_patch_reads ex_patch_bytes ex_env_def ex_descriptor_def)

lemma ex_checked: "apply_patch ex_env (ex_base e) ex_patch [] True = Some (Success, ex_base e)"
  by (simp add: apply_patch_def ex_validate ex_patch_reads ex_base_reads ex_headers ex_check go_on_def)

lemma ex_applied: "apply_patch ex_env (ex_base 1) ex_patch [] False = Some (Success, ex_base 0)"
proof -
  have "bytes_at (ex_base 1) 392 4 = Some [1, 2, 3, 4]" "copy_to 392 [1, 2, 3, 4] (ex_base 1) = Some (ex_base 1)"
    by (simp_all add: ex_base_def bytes_at_def copy_to_def length_ex_front)
  then have dec: "decrypt_base ex_env k 1 392 4 (ex_base 1) = Some (Inr (ex_base 1))" for k
    by (simp add: decrypt_base_def XEX_ENCRYPTION_NORMAL_def ex_env_def)
  have com: "decompress_base ex_env (ex_base 1) 0x188 32 \<lparr>ff_infoSize = 0, ff_encryptionType = 1, ff_compressionType = 0\<rparr>
      392 392 (ex_base 1) = Some (Inr (ex_base 1))"
    by (simp add: decompress_base_def XEX_COMPRESSION_BASIC_def XEX_COMPRESSION_NORMAL_def XEX_COMPRESSION_DELTA_def
        XEX_COMPRESSION_NONE_def)
  have "copy_to 36 [0, 0] (ex_base 1) = Some (ex_base 0)" "copy_to 38 [0, 0] (ex_base 0) = Some (ex_base 0)"
    by (simp_all add: copy_to_def ex_base_def ex_front_def)
  then have plain: "mark_plain (ex_base 1) = Some (Inr (ex_base 0))"
    by (simp add: mark_plain_def XEX_HEADER_FILE_FORMAT_INFO_def ex_base_reads be16_bytes_def XEX_ENCRYPTION_NONE_def
        XEX_COMPRESSION_NONE_def)
  have pay: "patch_payload ex_env k ex_patch 0 out = Some (Inr [])" for k out
    by (simp add: patch_payload_def ex_patch_reads length_ex_patch XEX_ENCRYPTION_NORMAL_def XEX_ENCRYPTION_NONE_def)
  have "apply_blocks ex_env ex_patch 40 ex_descriptor 0 [] (ex_base 0) = Some (Success, ex_base 0)"
    by (simp add: apply_blocks_def ex_base_reads length_ex_base ex_patch_reads delta_blocks.simps [of _ _ "[]"])
      (simp add: ex_descriptor_def)
  then show ?thesis
    by (simp add: apply_patch_def ex_validate ex_patch_reads ex_base_reads ex_headers ex_check go_on_def apply_data_def
        XEX_HEADER_FILE_FORMAT_INFO_def length_ex_base dec com plain pay)
qed

lemma patched_header_plain_witness:
  "getOptHeaderPtr (ex_base 0) XEX_HEADER_FILE_FORMAT_INFO = Some (Some 32) \<and> be32 (ex_base 0) 8 = Some 0x188
   \<and> be16 (ex_base 0) 36 = Some XEX_ENCRYPTION_NONE \<and> be16 (ex_base 0) 38 = Some XEX_COMPRESSION_NONE"
proof -
  have s: "sizes_fit blocks" if "read_blocks (ex_base 1) (32 + 8) (unat (ff_infoSize \<lparr>ff_infoSize = 0, ff_encryptionType = 1,
      ff_compressionType = 0\<rparr>) div 8 - 1) = Some blocks" for blocks
    using that by (auto simp: sizes_fit_def)
  have f: "read_format (ex_base 1) 32 = Some \<lparr>ff_infoSize = 0, ff_encryptionType = 1, ff_compressionType = 0\<rparr>"
    by (simp add: ex_base_reads)
  have g: "getOptHeaderPtr (ex_base 1) XEX_HEADER_FILE_FORMAT_INFO = Some (Some 32)"
    by (simp add: XEX_HEADER_FILE_FORMAT_INFO_def ex_base_reads)
  show ?thesis
    using patched_header_plain [OF ex_checked ex_applied ex_validate ex_patch_reads(10) g f s g ex_base_reads(3) ex_base_reads(1)]
    by (simp add: ex_headers)
qed

text \<open>
  On files: a new executable is written exactly when every step succeeds, and it holds the
  output of the patch; a failed write leaves no file behind, every other failure no change.
\<close>

lemma apply_files_all_or_nothing:
  assumes "apply_files env baseXex patch is_open bad = Some (result, effect)"
  shows "(case effect of
            Written new \<Rightarrow> result = Success \<and> apply_patch env (the baseXex) (the patch) [] False = Some (Success, new)
          | Removed \<Rightarrow> result = FileWriteFailed
          | Untouched \<Rightarrow> result \<noteq> Success)"
  using assms by (auto simp: apply_files_def split: option.splits bind_splits if_splits prod.splits)

lemma apply_files_all_or_nothing_witness:
  "Success = Success \<and> apply_patch ex_env (ex_base 1) ex_patch [] False = Some (Success, ex_base 0)"
proof -
  have "apply_files ex_env (Some (ex_base 1)) (Some ex_patch) True False = Some (Success, Written (ex_base 0))"
    by (simp add: apply_files_def ex_applied)
  from apply_files_all_or_nothing [OF this] show ?thesis by simp
qed

end
