(* ===== verification/ElfImage.thy ===== *)
theory ElfImage
  imports XexImage
begin

text \<open>
  \<open>ElfLoadImage\<close> and \<open>Image::ParseImage\<close> (\<open>XenonUtils/image.cpp\<close>) with the layouts of
  \<open>XenonUtils/elf.h\<close>: the sections of a big-endian ELF file become the sections of the image. \<open>None\<close>
  is a read outside of the file, or a null pointer taken for a string. The assertion of debug builds
  that the file is big-endian is left out.
\<close>

unbundle bit_operations_syntax

subsection \<open>Layouts\<close>

definition EI_NIDENT :: nat where "EI_NIDENT = 16"
definition PT_LOAD :: u32 where "PT_LOAD = 1"
definition SHF_EXECINSTR :: u32 where "SHF_EXECINSTR = 0x4"

definition elf32_hdr :: layout where
  "elf32_hdr =
     [(''e_ident'', EI_NIDENT), (''e_type'', 2), (''e_machine'', 2), (''e_version'', 4), (''e_entry'', 4), (''e_phoff'', 4),
      (''e_shoff'', 4), (''e_flags'', 4), (''e_ehsize'', 2), (''e_phentsize'', 2), (''e_phnum'', 2), (''e_shentsize'', 2),
      (''e_shnum'', 2), (''e_shstrndx'', 2)]"

definition elf32_phdr :: layout where
  "elf32_phdr =
     [(''p_type'', 4), (''p_offset'', 4), (''p_vaddr'', 4), (''p_paddr'', 4), (''p_filesz'', 4), (''p_memsz'', 4),
      (''p_flags'', 4), (''p_align'', 4)]"

definition elf32_shdr :: layout where
  "elf32_shdr =
     [(''sh_name'', 4), (''sh_type'', 4), (''sh_flags'', 4), (''sh_addr'', 4), (''sh_offset'', 4), (''sh_size'', 4),
      (''sh_link'', 4), (''sh_info'', 4), (''sh_addralign'', 4), (''sh_entsize'', 4)]"

lemma elf_layouts [simp]:
  "offset_of ''e_entry'' elf32_hdr = 24" "offset_of ''e_phoff'' elf32_hdr = 28" "offset_of ''e_shoff'' elf32_hdr = 32"
  "offset_of ''e_phnum'' elf32_hdr = 44" "offset_of ''e_shnum'' elf32_hdr = 48" "offset_of ''e_shstrndx'' elf32_hdr = 50"
  "offset_of ''p_type'' elf32_phdr = 0" "offset_of ''p_vaddr'' elf32_phdr = 8" "size_of elf32_phdr = 32"
  "offset_of ''sh_name'' elf32_shdr = 0" "offset_of ''sh_type'' elf32_shdr = 4" "offset_of ''sh_flags'' elf32_shdr = 8"
  "offset_of ''sh_addr'' elf32_shdr = 12" "offset_of ''sh_offset'' elf32_shdr = 16" "offset_of ''sh_size'' elf32_shdr = 20"
  "size_of elf32_shdr = 40"
  by (simp_all add: offset_of_def size_of_def elf32_hdr_def elf32_phdr_def elf32_shdr_def EI_NIDENT_def)

subsection \<open>The loader\<close>

text \<open>The address of the first loaded segment among \<open>n\<close> at \<open>off\<close>.\<close>

fun load_base :: "bytes \<Rightarrow> nat \<Rightarrow> nat \<Rightarrow> u32 option" where
  "load_base bs off 0 = Some 0"
| "load_base bs off (Suc n) =
     do { p_type \<leftarrow> be32 bs (off + offset_of ''p_type'' elf32_phdr);
          if p_type = PT_LOAD then be32 bs (off + offset_of ''p_vaddr'' elf32_phdr)
          else load_base bs (off + size_of elf32_phdr) n }"

text \<open>
  One section header: the section it maps, with its address as base of the image plus the distance
  to it, or nothing for a header without a type.
\<close>

definition map_elf_section :: "bytes \<Rightarrow> nat \<Rightarrow> nat \<Rightarrow> Image \<Rightarrow> Image option" where
  "map_elf_section bs stringTable off img =
     do { sh_type \<leftarrow> be32 bs (off + offset_of ''sh_type'' elf32_shdr);
          if sh_type = 0 then Some img
          else do {
            sh_flags \<leftarrow> be32 bs (off + offset_of ''sh_flags'' elf32_shdr);
            sh_name \<leftarrow> be32 bs (off + offset_of ''sh_name'' elf32_shdr);
            name \<leftarrow> (if sh_name \<noteq> 0 then c_string bs (stringTable + unat sh_name) else None);
            sh_addr \<leftarrow> be32 bs (off + offset_of ''sh_addr'' elf32_shdr);
            sh_size \<leftarrow> be32 bs (off + offset_of ''sh_size'' elf32_shdr);
            sh_offset \<leftarrow> be32 bs (off + offset_of ''sh_offset'' elf32_shdr);
            Some (Image_Map name (ucast sh_addr - img_base img) sh_size (sh_flags AND SHF_EXECINSTR \<noteq> 0)
                    (drop (unat sh_offset) bs) img) } }"

fun map_elf_sections :: "bytes \<Rightarrow> nat \<Rightarrow> nat \<Rightarrow> nat \<Rightarrow> Image \<Rightarrow> Image option" where
  "map_elf_sections bs stringTable off 0 img = Some img"
| "map_elf_sections bs stringTable off (Suc n) img =
     do { img \<leftarrow> map_elf_section bs stringTable off img;
          map_elf_sections bs stringTable (off + size_of elf32_shdr) n img }"

definition ElfLoadImage :: "bytes \<Rightarrow> (Image \<times> bytes) option" where
  "ElfLoadImage bs =
     do { e_entry \<leftarrow> be32 bs (offset_of ''e_entry'' elf32_hdr);
          stringTableIndex \<leftarrow> be16 bs (offset_of ''e_shstrndx'' elf32_hdr);
          numSections \<leftarrow> be16 bs (offset_of ''e_shnum'' elf32_hdr);
          numpSections \<leftarrow> be16 bs (offset_of ''e_phnum'' elf32_hdr);
          e_shoff \<leftarrow> be32 bs (offset_of ''e_shoff'' elf32_hdr);
          e_phoff \<leftarrow> be32 bs (offset_of ''e_phoff'' elf32_hdr);
          base \<leftarrow> load_base bs (unat e_phoff) (unat numpSections);
          stringTable \<leftarrow> be32 bs (unat e_shoff + unat stringTableIndex * size_of elf32_shdr
                                  + offset_of ''sh_offset'' elf32_shdr);
          img \<leftarrow> map_elf_sections bs (unat stringTable) (unat e_shoff) (unat numSections)
             \<lparr>img_base = ucast base, img_size = of_nat (length bs), img_entry_point = ucast e_entry,
              img_sections = [], img_symbols = []\<rparr>;
          Some (img, bs) }"

text \<open>
  The kind of a file is told by its first bytes, which are compared one after the other, without a
  check of the size.
\<close>

fun magic_is :: "bytes \<Rightarrow> bytes \<Rightarrow> bool option" where
  "magic_is [] bs = Some True"
| "magic_is (m # ms) [] = None"
| "magic_is (m # ms) (b # bs) = (if b = m then magic_is ms bs else Some False)"

definition ParseImage :: "load_env \<Rightarrow> bytes \<Rightarrow> (Image \<times> bytes) option" where
  "ParseImage env bs =
     do { is_elf \<leftarrow> magic_is [0x7F, 0x45, 0x4C, 0x46] bs;
          if is_elf then ElfLoadImage bs
          else do { is_xex \<leftarrow> magic_is [0x58, 0x45, 0x58, 0x32] bs;
                    if is_xex then Xex2LoadImage env bs else Some (empty_image, []) } }"

subsection \<open>The sections of a loaded file\<close>

text \<open>The section of header \<open>i\<close> as the format defines it, at its own address.\<close>

definition elf_section :: "bytes \<Rightarrow> nat \<Rightarrow> nat \<Rightarrow> Section option" where
  "elf_section bs stringTable off =
     do { sh_name \<leftarrow> be32 bs off; sh_flags \<leftarrow> be32 bs (off + 8); sh_addr \<leftarrow> be32 bs (off + 12);
          sh_offset \<leftarrow> be32 bs (off + 16); sh_size \<leftarrow> be32 bs (off + 20);
          name \<leftarrow> c_string bs (stringTable + unat sh_name);
          Some \<lparr>sec_name = name, sec_base = ucast sh_addr, sec_size = sh_size, sec_code = (sh_flags AND 4 \<noteq> 0),
                sec_data = drop (unat sh_offset) bs\<rparr> }"

lemma map_elf_section_cases:
  assumes "map_elf_section bs st off img = Some img'"
  obtains "be32 bs (off + 4) = Some 0" "img' = img"
  | t s where "be32 bs (off + 4) = Some t" "t \<noteq> 0" "elf_section bs st off = Some s"
      "img' = img\<lparr>img_sections := insert_section s (img_sections img)\<rparr>"
proof -
  obtain t where t: "be32 bs (off + 4) = Some t" using assms by (auto simp: map_elf_section_def split: bind_splits)
  show thesis
  proof (cases "t = 0")
    case True
    then show thesis using assms t that(1) by (simp add: map_elf_section_def)
  next
    case False
    then obtain s where "elf_section bs st off = Some s" "img' = img\<lparr>img_sections := insert_section s (img_sections img)\<rparr>"
      using assms t
      by (auto simp: map_elf_section_def elf_section_def Image_Map_def SHF_EXECINSTR_def split: bind_splits if_splits)
    then show thesis using t False that(2) by blast
  qed
qed

lemma insert_section_bases: "sec_base ` set (insert_section s ss) = insert (sec_base s) (sec_base ` set ss)"
proof (induction ss)
  case (Cons t ts)
  show ?case
  proof (cases "sec_base s = sec_base t")
    case False
    then show ?thesis using Cons by (auto simp: insert_commute)
  qed auto
qed simp

lemma map_elf_sections_ok:
  "map_elf_sections bs st off n img = Some img' \<Longrightarrow>
   (sections_sorted (img_sections img) \<longrightarrow> sections_sorted (img_sections img'))
   \<and> (\<forall>s \<in> set (img_sections img'). s \<in> set (img_sections img) \<or> (\<exists>i<n. elf_section bs st (off + 40 * i) = Some s))
   \<and> sec_base ` set (img_sections img') = sec_base ` set (img_sections img)
      \<union> {a. \<exists>i<n. \<exists>t. be32 bs (off + 40 * i + 4) = Some t \<and> t \<noteq> 0 \<and> map_option sec_base (elf_section bs st (off + 40 * i)) = Some a}
   \<and> img_base img' = img_base img \<and> img_symbols img' = img_symbols img"
proof (induction n arbitrary: off img)
  case 0
  then show ?case by simp
next
  case (Suc n)
  obtain img1 where s: "map_elf_section bs st off img = Some img1" "map_elf_sections bs st (off + 40) n img1 = Some img'"
    using Suc.prems by (auto split: bind_splits)
  have shift: "off + 40 * Suc i = off + 40 + 40 * i" for i by simp
  note IH = Suc.IH [OF s(2)]
  from s(1) show ?case
  proof (cases rule: map_elf_section_cases)
    case 1
    then show ?thesis using IH unfolding Ex_less_Suc2 shift by simp blast
  next
    case (2 t s)
    then have "sections_sorted (img_sections img) \<longrightarrow> sections_sorted (img_sections img1)"
      "sec_base ` set (img_sections img1) = insert (sec_base s) (sec_base ` set (img_sections img))"
      "\<forall>u \<in> set (img_sections img1). u \<in> set (img_sections img) \<or> u = s"
      using set_insert_section [of s "img_sections img"] by (auto simp: insert_section_sorted insert_section_bases)
    then show ?thesis using IH 2 unfolding Ex_less_Suc2 shift by auto
  qed
qed

text \<open>
  C24. An ELF file is mapped as its section headers say: every section of the image is the one of a
  header, at the very address of the header whatever the base of the image is, and every header
  with a type has a section at its address. The sections are in the order of their addresses.
\<close>

theorem elf_sections_mapped:
  assumes "ElfLoadImage bs = Some (img, buf)"
    and "be32 bs 32 = Some shoff" "be16 bs 48 = Some n" "be16 bs 50 = Some index"
    and "be32 bs (unat shoff + unat index * 40 + 16) = Some st"
  shows "buf = bs \<and> sections_sorted (img_sections img)
     \<and> (\<forall>s \<in> set (img_sections img). \<exists>i<unat n. elf_section bs (unat st) (unat shoff + 40 * i) = Some s)
     \<and> sec_base ` set (img_sections img) =
         {a. \<exists>i<unat n. \<exists>t. be32 bs (unat shoff + 40 * i + 4) = Some t \<and> t \<noteq> 0
               \<and> map_option sec_base (elf_section bs (unat st) (unat shoff + 40 * i)) = Some a}"
proof -
  obtain img0 where "map_elf_sections bs (unat st) (unat shoff) (unat n) img0 = Some img" "img_sections img0 = []" "buf = bs"
    using assms by (auto simp: ElfLoadImage_def Option.bind_eq_Some_conv)
  then show ?thesis using map_elf_sections_ok [of bs "unat st" "unat shoff" "unat n" img0 img]
    by (simp add: sections_sorted_def)
qed

definition ex_elf :: bytes where
  "ex_elf = [0x7F, 0x45, 0x4C, 0x46] @ replicate 20 0 @ [0x82, 0, 1, 0, 0, 0, 0, 52, 0, 0, 0, 84] @ replicate 8 0
     @ [0, 1, 0, 0, 0, 2, 0, 1] @ [0, 0, 0, 1, 0, 0, 0, 0, 0x82, 0, 0, 0] @ replicate 20 0 @ replicate 40 0
     @ [0, 0, 0, 1, 0, 0, 0, 1, 0, 0, 0, 4, 0x82, 0, 1, 0, 0, 0, 0, 164, 0, 0, 0, 4] @ replicate 16 0 @ [0, 0x61, 0, 9]"

definition ex_elf_image :: Image where
  "ex_elf_image = \<lparr>img_base = 0x82000000, img_size = 168, img_entry_point = 0x82000100,
     img_sections = [\<lparr>sec_name = ''a'', sec_base = 0x82000100, sec_size = 4, sec_code = True, sec_data = [0, 0x61, 0, 9]\<rparr>],
     img_symbols = []\<rparr>"

lemma ex_elf_bytes:
  "bytes_at ex_elf 24 4 = Some [0x82, 0, 1, 0]" "bytes_at ex_elf 28 4 = Some [0, 0, 0, 52]" "bytes_at ex_elf 32 4 = Some [0, 0, 0, 84]"
  "bytes_at ex_elf 44 2 = Some [0, 1]" "bytes_at ex_elf 48 2 = Some [0, 2]" "bytes_at ex_elf 50 2 = Some [0, 1]"
  "bytes_at ex_elf 52 4 = Some [0, 0, 0, 1]" "bytes_at ex_elf 60 4 = Some [0x82, 0, 0, 0]" "bytes_at ex_elf 88 4 = Some [0, 0, 0, 0]"
  "bytes_at ex_elf 124 4 = Some [0, 0, 0, 1]" "bytes_at ex_elf 128 4 = Some [0, 0, 0, 1]" "bytes_at ex_elf 132 4 = Some [0, 0, 0, 4]"
  "bytes_at ex_elf 136 4 = Some [0x82, 0, 1, 0]" "bytes_at ex_elf 140 4 = Some [0, 0, 0, 164]" "bytes_at ex_elf 144 4 = Some [0, 0, 0, 4]"
  "c_string ex_elf 165 = Some ''a''" "drop 164 ex_elf = [0, 0x61, 0, 9]" "length ex_elf = 168"
  by (simp_all add: ex_elf_def bytes_at_def c_string_def char_of_def bit_0) (simp add: numeral_eq_Suc)

lemma ex_elf_loads: "ElfLoadImage ex_elf = Some (ex_elf_image, ex_elf)"
proof -
  have two: "map_elf_sections bs st off 2 img = map_elf_sections bs st off (Suc (Suc 0)) img" for bs st off img
    by (simp only: numeral_2_eq_2)
  show ?thesis
    by (simp add: ElfLoadImage_def be32_def be16_def ex_elf_bytes two map_elf_section_def PT_LOAD_def SHF_EXECINSTR_def
        Image_Map_def ex_elf_image_def)
qed

lemma elf_sections_mapped_witness:
  "sections_sorted (img_sections ex_elf_image) \<and> sec_base ` set (img_sections ex_elf_image) = {0x82000100}"
proof -
  have r: "be32 ex_elf 32 = Some 84" "be16 ex_elf 48 = Some 2" "be16 ex_elf 50 = Some 1"
    "be32 ex_elf (unat (84 :: u32) + unat (1 :: u16) * 40 + 16) = Some 164"
    by (simp_all add: be32_def be16_def ex_elf_bytes)
  have "sections_sorted (img_sections ex_elf_image)" by (rule conjunct1 [OF conjunct2 [OF elf_sections_mapped [OF ex_elf_loads r]]])
  then show ?thesis by (simp add: ex_elf_image_def)
qed

end
