(* ===== verification/Config.thy ===== *)
theory Config
  imports XexPatch ElfImage Emit
begin

text \<open>
  The configuration file (\<open>XenonRecomp/recompiler_config.cpp\<close>) and \<open>Recompiler::LoadConfig\<close>
  (\<open>XenonRecomp/recompiler.cpp\<close>), which loads, patches, parses and exports the image. The TOML
  library is a record of its accessors over an abstract type of nodes, the file system a function
  from paths to contents. \<open>None\<close> is an exception of the parser, or the use of a value that is missing.
\<close>

subsection \<open>Accessors\<close>

record 'n toml_api =
  tm_parse_file :: "string \<Rightarrow> 'n option"
  tm_field :: "'n \<Rightarrow> string \<Rightarrow> 'n option"
  tm_is_table :: "'n \<Rightarrow> bool"
  tm_array :: "'n \<Rightarrow> 'n list option"
  tm_string :: "'n \<Rightarrow> string option"
  tm_bool :: "'n \<Rightarrow> bool option"
  tm_u32 :: "'n \<Rightarrow> u32 option"
  tm_order :: "(u32 \<times> u32) list \<Rightarrow> (u32 \<times> u32) list"  \<comment> \<open>the iteration order of a hash map\<close>

text \<open>\<open>table[key].value_or(d)\<close>, \<open>*table[key].value()\<close>, \<open>table[key].as_array()\<close>, \<open>*node.as_table()\<close>.\<close>

definition value_or :: "'n toml_api \<Rightarrow> ('n \<Rightarrow> 'v option) \<Rightarrow> 'n \<Rightarrow> string \<Rightarrow> 'v \<Rightarrow> 'v" where
  "value_or api read t key d =
     (case tm_field api t key of None \<Rightarrow> d | Some v \<Rightarrow> (case read v of None \<Rightarrow> d | Some x \<Rightarrow> x))"

definition required :: "'n toml_api \<Rightarrow> ('n \<Rightarrow> 'v option) \<Rightarrow> 'n \<Rightarrow> string \<Rightarrow> 'v option" where
  "required api read t key = Option.bind (tm_field api t key) read"

definition array_at :: "'n toml_api \<Rightarrow> 'n \<Rightarrow> string \<Rightarrow> 'n list option" where
  "array_at api t key = Option.bind (tm_field api t key) (tm_array api)"

definition as_table :: "'n toml_api \<Rightarrow> 'n \<Rightarrow> 'n option" where
  "as_table api n = (if tm_is_table api n then Some n else None)"

fun each :: "('n \<Rightarrow> 'v option) \<Rightarrow> 'n list \<Rightarrow> 'v list option" where
  "each f [] = Some []"
| "each f (n # ns) = do { x \<leftarrow> f n; xs \<leftarrow> each f ns; Some (x # xs) }"

text \<open>\<open>std::unordered_map::emplace\<close>: a key that is there keeps its value.\<close>

definition emplace_map :: "'k \<times> 'v \<Rightarrow> ('k \<rightharpoonup> 'v) \<Rightarrow> ('k \<rightharpoonup> 'v)" where
  "emplace_map e m = (case e of (k, v) \<Rightarrow> if m k = None then m(k \<mapsto> v) else m)"

definition emplace_list :: "'k \<times> 'v \<Rightarrow> ('k \<times> 'v) list \<Rightarrow> ('k \<times> 'v) list" where
  "emplace_list e xs = (if map_of xs (fst e) = None then xs @ [e] else xs)"

subsection \<open>The sections of the file\<close>

definition main_options :: "'n toml_api \<Rightarrow> 'n \<Rightarrow> RecompilerConfig \<Rightarrow> RecompilerConfig" where
  "main_options api t c =
     (let str = (\<lambda>k. value_or api (tm_string api) t k ''''); flag = (\<lambda>k. value_or api (tm_bool api) t k False);
          addr = (\<lambda>k. value_or api (tm_u32 api) t k 0)
      in c\<lparr>filePath := str ''file_path'',
           patchFilePath := str ''patch_file_path'',
           patchedFilePath := str ''patched_file_path'',
           outDirectoryPath := str ''out_directory_path'',
           switchTableFilePath := str ''switch_table_file_path'',
           skipLr := flag ''skip_lr'',
           skipMsr := flag ''skip_msr'',
           ctrAsLocalVariable := flag ''ctr_as_local'',
           xerAsLocalVariable := flag ''xer_as_local'',
           reservedRegisterAsLocalVariable := flag ''reserved_as_local'',
           crRegistersAsLocalVariables := flag ''cr_as_local'',
           nonArgumentRegistersAsLocalVariables := flag ''non_argument_as_local'',
           nonVolatileRegistersAsLocalVariables := flag ''non_volatile_as_local'',
           restGpr14Address := addr ''restgprlr_14_address'',
           saveGpr14Address := addr ''savegprlr_14_address'',
           restFpr14Address := addr ''restfpr_14_address'',
           saveFpr14Address := addr ''savefpr_14_address'',
           restVmx14Address := addr ''restvmx_14_address'',
           saveVmx14Address := addr ''savevmx_14_address'',
           restVmx64Address := addr ''restvmx_64_address'',
           saveVmx64Address := addr ''savevmx_64_address'',
           longJmpAddress := addr ''longjmp_address'',
           setJmpAddress := addr ''setjmp_address''\<rparr>)"

definition missing_helpers :: "RecompilerConfig \<Rightarrow> string list" where
  "missing_helpers c =
     map (\<lambda>(n, _). ''ERROR: '' @ n @ '' address is unspecified'')
       (filter (\<lambda>(_, a). a = 0)
         [(''__restgprlr_14'', restGpr14Address c), (''__savegprlr_14'', saveGpr14Address c),
          (''__restfpr_14'', restFpr14Address c), (''__savefpr_14'', saveFpr14Address c),
          (''__restvmx_14'', restVmx14Address c), (''__savevmx_14'', saveVmx14Address c),
          (''__restvmx_64'', restVmx64Address c), (''__savevmx_64'', saveVmx64Address c)])"

text \<open>An optional array of tables, each read as an element.\<close>

definition table_array :: "'n toml_api \<Rightarrow> 'n \<Rightarrow> string \<Rightarrow> ('n \<Rightarrow> 'v option) \<Rightarrow> 'v list option" where
  "table_array api t key f =
     (case array_at api t key of
        None \<Rightarrow> Some []
      | Some ns \<Rightarrow> each (\<lambda>n. do { t \<leftarrow> as_table api n; f t }) ns)"

definition pair_entry :: "'n toml_api \<Rightarrow> string \<Rightarrow> string \<Rightarrow> 'n \<Rightarrow> (u32 \<times> u32) option" where
  "pair_entry api k1 k2 t = do { a \<leftarrow> required api (tm_u32 api) t k1; b \<leftarrow> required api (tm_u32 api) t k2; Some (a, b) }"

definition switch_entry :: "'n toml_api \<Rightarrow> 'n \<Rightarrow> (u32 \<times> RecompilerSwitchTable) option" where
  "switch_entry api t =
     do { r \<leftarrow> required api (tm_u32 api) t ''r'';
          labels \<leftarrow> array_at api t ''labels'';
          ls \<leftarrow> each (tm_u32 api) labels;
          base \<leftarrow> required api (tm_u32 api) t ''base'';
          Some (base, \<lparr>st_r = r, st_labels = ls\<rparr>) }"

definition load_switches :: "'n toml_api \<Rightarrow> RecompilerConfig \<Rightarrow> (u32 \<times> RecompilerSwitchTable) list option" where
  "load_switches api c =
     (if switchTableFilePath c = [] then Some []
      else do { toml \<leftarrow> tm_parse_file api (directoryPath c @ switchTableFilePath c);
                table_array api toml ''switch'' (switch_entry api) })"

definition load_main :: "'n toml_api \<Rightarrow> 'n \<Rightarrow> RecompilerConfig \<Rightarrow> (RecompilerConfig \<times> string list) option" where
  "load_main api t c =
     do { let c = main_options api t c;
          fns \<leftarrow> table_array api t ''functions'' (pair_entry api ''address'' ''size'');
          invalid \<leftarrow> table_array api t ''invalid_instructions'' (pair_entry api ''data'' ''size'');
          switches \<leftarrow> load_switches api c;
          Some (c\<lparr>cfgFunctions := tm_order api (fold emplace_list fns (cfgFunctions c)),
                  invalidInstructions := fold emplace_map invalid (invalidInstructions c),
                  switchTables := fold emplace_map switches (switchTables c)\<rparr>, missing_helpers c) }"

definition hook_entry :: "'n toml_api \<Rightarrow> 'n \<Rightarrow> (u32 \<times> RecompilerMidAsmHook) option" where
  "hook_entry api t =
     do { name \<leftarrow> required api (tm_string api) t ''name'';
          regs \<leftarrow> (case array_at api t ''registers'' of None \<Rightarrow> Some [] | Some rs \<Rightarrow> each (tm_string api) rs);
          address \<leftarrow> required api (tm_u32 api) t ''address'';
          Some (address,
            \<lparr>mh_name = name, mh_registers = regs,
             mh_ret = value_or api (tm_bool api) t ''return'' False,
             mh_returnOnTrue = value_or api (tm_bool api) t ''return_on_true'' False,
             mh_returnOnFalse = value_or api (tm_bool api) t ''return_on_false'' False,
             mh_jumpAddress = value_or api (tm_u32 api) t ''jump_address'' 0,
             mh_jumpAddressOnTrue = value_or api (tm_u32 api) t ''jump_address_on_true'' 0,
             mh_jumpAddressOnFalse = value_or api (tm_u32 api) t ''jump_address_on_false'' 0,
             mh_afterInstruction = value_or api (tm_bool api) t ''after_instruction'' False\<rparr>) }"

definition hook_warnings :: "RecompilerMidAsmHook \<Rightarrow> string list" where
  "hook_warnings h =
     (if mh_ret h \<and> mh_jumpAddress h \<noteq> 0 \<or> mh_returnOnTrue h \<and> mh_jumpAddressOnTrue h \<noteq> 0
         \<or> mh_returnOnFalse h \<and> mh_jumpAddressOnFalse h \<noteq> 0
      then [mh_name h @ '': can'' @ [CHR 0x27] @ ''t return and jump at the same time''] else [])
     @ (if (mh_ret h \<or> mh_jumpAddress h \<noteq> 0)
           \<and> (mh_returnOnFalse h \<or> mh_returnOnTrue h \<or> mh_jumpAddressOnFalse h \<noteq> 0 \<or> mh_jumpAddressOnTrue h \<noteq> 0)
        then [mh_name h @ '': can'' @ [CHR 0x27] @ ''t mix direct and conditional return/jump''] else [])"

text \<open>The directory of a path: up to the last slash or backslash.\<close>

definition directory_of :: "string \<Rightarrow> string" where
  "directory_of path = rev (dropWhile (\<lambda>c. c \<noteq> CHR 0x5C \<and> c \<noteq> CHR ''/'') (rev path))"

definition Load :: "'n toml_api \<Rightarrow> string \<Rightarrow> RecompilerConfig \<Rightarrow> (RecompilerConfig \<times> string list) option" where
  "Load api configFilePath c =
     do { let c = c\<lparr>directoryPath := directory_of configFilePath\<rparr>;
          toml \<leftarrow> tm_parse_file api configFilePath;
          (c, acc) \<leftarrow> (case Option.bind (tm_field api toml ''main'') (as_table api) of
                        None \<Rightarrow> Some (c, [])
                      | Some t \<Rightarrow> load_main api t c);
          hooks \<leftarrow> table_array api toml ''midasm_hook'' (hook_entry api);
          Some (c\<lparr>midAsmHooks := fold emplace_map hooks (midAsmHooks c)\<rparr>, acc @ concat (map (hook_warnings \<circ> snd) hooks)) }"

subsection \<open>Loading the image\<close>

definition failure_reason :: "Result \<Rightarrow> string" where
  "failure_reason r =
     (case r of
        XexFileUnsupported \<Rightarrow> ''XEX file unsupported''
      | XexFileInvalid \<Rightarrow> ''XEX file invalid''
      | PatchFileInvalid \<Rightarrow> ''patch file invalid''
      | PatchIncompatible \<Rightarrow> ''patch file incompatible''
      | PatchFailed \<Rightarrow> ''patch failed''
      | PatchUnsupported \<Rightarrow> ''patch unsupported''
      | _ \<Rightarrow> ''reason unknown'')"

text \<open>
  The file system: the content of a file, empty when it cannot be read, the paths that can be
  written, and the normalised path of the exported image.
\<close>

record file_system =
  LoadFile :: "string \<Rightarrow> bytes"
  can_write :: "string \<Rightarrow> bool"
  image_path :: "string \<Rightarrow> string \<Rightarrow> string"

text \<open>The executable to load, or the message of a failure, with the files that are written.\<close>

definition executable_file ::
  "load_env \<Rightarrow> file_system \<Rightarrow> RecompilerConfig \<Rightarrow> ((string + bytes) \<times> (string \<times> bytes) list) option" where
  "executable_file env fs c =
     (let patched = directoryPath c @ patchedFilePath c;
          ready = (if patchedFilePath c = [] then [] else LoadFile fs patched)
      in if ready \<noteq> [] then Some (Inr ready, [])
         else
           let xex = LoadFile fs (directoryPath c @ filePath c)
           in if patchFilePath c = [] then Some (Inr xex, [])
              else
                let patch = LoadFile fs (directoryPath c @ patchFilePath c)
                in if patch = [] then Some (Inl ''ERROR: Unable to load the patch file'', [])
                   else do { (result, outBytes) \<leftarrow> apply_patch env xex patch [] False;
                             Some (if result = Success
                                   then (Inr outBytes,
                                         if patchedFilePath c \<noteq> [] \<and> can_write fs patched then [(patched, outBytes)] else [])
                                   else (Inl (''ERROR: Unable to apply the patch file, '' @ failure_reason result), [])) })"

text \<open>The exported image: the sections that lie inside the image, over zeros.\<close>

definition section_offset :: "Image \<Rightarrow> Section \<Rightarrow> u64" where
  "section_offset img s = sec_base s - img_base img"

definition exported_section :: "Image \<Rightarrow> Section \<Rightarrow> bool" where
  "exported_section img s =
     (\<not> (section_offset img s \<ge> ucast (img_size img) \<or> ucast (sec_size s) > ucast (img_size img) - section_offset img s))"

fun export_sections :: "Image \<Rightarrow> Section list \<Rightarrow> bytes \<Rightarrow> bytes option" where
  "export_sections img [] acc = Some acc"
| "export_sections img (s # ss) acc =
     (if exported_section img s
      then do { run \<leftarrow> bytes_at (sec_data s) 0 (unat (sec_size s));
                acc \<leftarrow> copy_to (unat (section_offset img s)) run acc;
                export_sections img ss acc }
      else export_sections img ss acc)"

definition exported_image :: "Image \<Rightarrow> bytes option" where
  "exported_image img = export_sections img (img_sections img) (replicate (unat (img_size img)) 0)"

text \<open>What \<open>LoadConfig\<close> returns, the image, the printed lines and the written files.\<close>

definition LoadConfig ::
  "load_env \<Rightarrow> file_system \<Rightarrow> 'n toml_api \<Rightarrow> string \<Rightarrow> RecompilerConfig
     \<Rightarrow> (bool \<times> RecompilerConfig \<times> (Image \<times> bytes) option \<times> string list \<times> (string \<times> bytes) list) option" where
  "LoadConfig env fs api configFilePath c =
     do { (c, acc) \<leftarrow> Load api configFilePath c;
          (f, files) \<leftarrow> executable_file env fs c;
          case f of
            Inl msg \<Rightarrow> Some (False, c, None, acc @ [msg], files)
          | Inr bs \<Rightarrow>
              do { (img, buf) \<leftarrow> ParseImage env bs;
                   exported \<leftarrow> exported_image img;
                   let path = image_path fs (directoryPath c) (outDirectoryPath c);
                   Some (if can_write fs path
                         then (True, c, Some (img, buf), acc, files @ [(path, exported)])
                         else (False, c, Some (img, buf), acc @ [''ERROR: Unable to export '' @ path], files)) } }"

subsection \<open>The first entry of a key counts\<close>

lemma fold_emplace_map: "fold emplace_map xs m k = (case m k of Some v \<Rightarrow> Some v | None \<Rightarrow> map_of xs k)"
  by (induction xs arbitrary: m) (auto simp: emplace_map_def split: option.split prod.split)

lemma load_main_hooks: "load_main api t c = Some (c', acc) \<Longrightarrow> midAsmHooks c' = midAsmHooks c"
  by (auto simp: load_main_def main_options_def Let_def split: bind_splits)

subsection \<open>The exported image shows the loaded one\<close>

definition exported_at :: "Image \<Rightarrow> Section list \<Rightarrow> nat \<Rightarrow> bool" where
  "exported_at img ss i =
     (\<exists>s \<in> set ss. exported_section img s \<and> unat (section_offset img s) \<le> i
        \<and> i < unat (section_offset img s) + unat (sec_size s))"

lemma export_sections_bytes:
  "export_sections img ss acc = Some e \<Longrightarrow> \<forall>s \<in> set ss. sec_data s = drop (unat (section_offset img s)) buf \<Longrightarrow>
   length e = length acc \<and> (\<forall>i < length e. (exported_at img ss i \<longrightarrow> i < length buf \<and> e ! i = buf ! i)
     \<and> (\<not> exported_at img ss i \<longrightarrow> e ! i = acc ! i))"
proof (induction ss arbitrary: acc)
  case Nil
  then show ?case by (simp add: exported_at_def)
next
  case (Cons s ss)
  show ?case
  proof (cases "exported_section img s")
    case False
    then show ?thesis using Cons by (auto simp: exported_at_def)
  next
    case True
    let ?o = "unat (section_offset img s)" and ?n = "unat (sec_size s)"
    obtain run out1 where r: "bytes_at (sec_data s) 0 ?n = Some run" "copy_to ?o run acc = Some out1"
        "export_sections img ss out1 = Some e"
      using Cons.prems(1) True by (auto split: bind_splits)
    have d: "sec_data s = drop ?o buf" using Cons.prems(2) by simp
    have run: "?o + length run \<le> length acc" "length run = ?n" "run = take ?n (drop ?o buf)" "?n \<le> length buf - ?o"
      using r(1,2) d by (auto simp: bytes_at_def copy_to_def split: if_splits)
    have out1: "length out1 = length acc" "out1 ! i = (if ?o \<le> i \<and> i < ?o + ?n then buf ! i else acc ! i)" if "i < length acc" for i
      using r(2) run that by (auto simp: copy_to_def nth_append min_def split: if_splits)
    have IH: "length e = length out1" "\<forall>i < length e. (exported_at img ss i \<longrightarrow> i < length buf \<and> e ! i = buf ! i)
       \<and> (\<not> exported_at img ss i \<longrightarrow> e ! i = out1 ! i)"
      using Cons.IH [OF r(3)] Cons.prems(2) by simp_all
    have len: "length out1 = length acc" using r(2) by (rule copy_to_length)
    have at: "exported_at img (s # ss) i = (?o \<le> i \<and> i < ?o + ?n \<or> exported_at img ss i)" for i
      using True by (auto simp: exported_at_def)
    show ?thesis
    proof (intro conjI allI impI)
      show "length e = length acc" using IH(1) len by simp
      fix i assume i: "i < length e"
      then have io: "i < length acc" using IH(1) len by simp
      show "i < length buf" "e ! i = buf ! i" if "exported_at img (s # ss) i"
        using that IH(2) i out1(2) [OF io] run(4) unfolding at by auto
      show "e ! i = acc ! i" if "\<not> exported_at img (s # ss) i"
        using that IH(2) i out1(2) [OF io] unfolding at by auto
    qed
  qed
qed

text \<open>
  C25. The exported image is the loaded one: when \<open>LoadConfig\<close> succeeds on a console executable, the
  last file it writes has the size of the image, holds the bytes of the loaded image, with its
  decompression and its import thunks, at every place that belongs to a section inside the image,
  and zeros elsewhere.
\<close>

theorem exported_image_shows_loaded:
  assumes "LoadConfig env fs api path c0 = Some (True, c, Some (img, buf), acc, files)"
    and "Xex2LoadImage env bs = Some (img, buf)"
  shows "files \<noteq> [] \<and> length (snd (last files)) = unat (img_size img)
     \<and> (\<forall>i < unat (img_size img).
          (exported_at img (img_sections img) i \<longrightarrow> i < length buf \<and> snd (last files) ! i = buf ! i)
          \<and> (\<not> exported_at img (img_sections img) i \<longrightarrow> snd (last files) ! i = 0))"
proof -
  obtain e where e: "exported_image img = Some e" "files \<noteq> []" "snd (last files) = e"
    using assms(1) by (auto simp: LoadConfig_def Let_def split: bind_splits sum.splits if_splits)
  have "\<forall>s \<in> set (img_sections img). sec_data s = drop (unat (section_offset img s)) buf"
    using loaded_image_ok [OF assms(2)] by (simp add: section_offset_def)
  then show ?thesis
    using export_sections_bytes [of img "img_sections img" "replicate (unat (img_size img)) 0" e buf] e
    by (simp add: exported_image_def)
qed

definition ex_toml :: "unit toml_api" where
  "ex_toml = \<lparr>tm_parse_file = (\<lambda>_. Some ()), tm_field = (\<lambda>_ _. None), tm_is_table = (\<lambda>_. False), tm_array = (\<lambda>_. None),
     tm_string = (\<lambda>_. None), tm_bool = (\<lambda>_. None), tm_u32 = (\<lambda>_. None), tm_order = (\<lambda>xs. xs)\<rparr>"

definition ex_fs :: file_system where
  "ex_fs = \<lparr>LoadFile = (\<lambda>p. if p = ''d/game.xex'' then ex_xex else []), can_write = (\<lambda>_. True),
     image_path = (\<lambda>d o1. d @ o1 @ ''ppc_image.bin'')\<rparr>"

definition ex_load_cfg :: RecompilerConfig where
  "ex_load_cfg = \<lparr>directoryPath = [], filePath = ''game.xex'', patchFilePath = [], patchedFilePath = [], outDirectoryPath = [],
      switchTableFilePath = [], switchTables = Map.empty, skipLr = False, ctrAsLocalVariable = False, xerAsLocalVariable = False,
      reservedRegisterAsLocalVariable = False, skipMsr = False, crRegistersAsLocalVariables = False,
      nonArgumentRegistersAsLocalVariables = False, nonVolatileRegistersAsLocalVariables = False,
      restGpr14Address = 0, saveGpr14Address = 0, restFpr14Address = 0, saveFpr14Address = 0, restVmx14Address = 0,
      saveVmx14Address = 0, restVmx64Address = 0, saveVmx64Address = 0,
      longJmpAddress = 0, setJmpAddress = 0, cfgFunctions = [],
      invalidInstructions = Map.empty, midAsmHooks = Map.empty\<rparr>"

lemma ex_load_config:
  "LoadConfig ex_env ex_fs ex_toml ''d/c.toml'' ex_load_cfg =
     Some (True, ex_load_cfg\<lparr>directoryPath := ''d/''\<rparr>, Some (ex_loaded, ex_payload_image), [],
       [(''d/ppc_image.bin'', take 32 ex_payload_image @ replicate 256 0)])"
proof -
  have l: "Load ex_toml ''d/c.toml'' ex_load_cfg = Some (ex_load_cfg\<lparr>directoryPath := ''d/''\<rparr>, [])"
    by (simp add: Load_def ex_toml_def ex_load_cfg_def directory_of_def table_array_def array_at_def)
  have f: "executable_file ex_env ex_fs (ex_load_cfg\<lparr>directoryPath := ''d/''\<rparr>) = Some (Inr ex_xex, [])"
    by (simp add: executable_file_def ex_load_cfg_def ex_fs_def)
  have "magic_is [0x7F, 0x45, 0x4C, 0x46] ex_xex = Some False" "magic_is [0x58, 0x45, 0x58, 0x32] ex_xex = Some True"
    by (simp_all add: ex_xex_def)
  then have p: "ParseImage ex_env ex_xex = Some (ex_loaded, ex_payload_image)"
    using ex_xex_loads by (simp add: ParseImage_def)
  have e: "exported_image ex_loaded = Some (take 32 ex_payload_image @ replicate 256 0)"
    by (simp add: exported_image_def ex_loaded_def exported_section_def section_offset_def bytes_at_def copy_to_def
        length_ex_payload_image)
  show ?thesis by (simp add: LoadConfig_def l f p e) (simp add: ex_fs_def ex_load_cfg_def)
qed

lemma exported_image_shows_loaded_witness:
  "(take 32 ex_payload_image @ replicate 256 0) ! 6 = 1"
proof -
  have "exported_at ex_loaded (img_sections ex_loaded) 6"
    by (simp add: exported_at_def ex_loaded_def exported_section_def section_offset_def)
  moreover have "unat (img_size ex_loaded) = 288" by (simp add: ex_loaded_def)
  ultimately have "(take 32 ex_payload_image @ replicate 256 0) ! 6 = ex_payload_image ! 6"
    using exported_image_shows_loaded [OF ex_load_config ex_xex_loads] by simp
  then show ?thesis by (simp add: ex_payload_image_def nth_append)
qed

lemma no_warning:
  assumes "hook_warnings h = []"
  shows "\<not> (mh_ret h \<and> mh_jumpAddress h \<noteq> 0)" "\<not> (mh_returnOnTrue h \<and> mh_jumpAddressOnTrue h \<noteq> 0)"
    "\<not> (mh_returnOnFalse h \<and> mh_jumpAddressOnFalse h \<noteq> 0)"
    "mh_ret h \<or> mh_jumpAddress h \<noteq> 0 \<longrightarrow>
       \<not> mh_returnOnTrue h \<and> \<not> mh_returnOnFalse h \<and> mh_jumpAddressOnTrue h = 0 \<and> mh_jumpAddressOnFalse h = 0"
  using assms by (auto simp: hook_warnings_def split: if_splits)

text \<open>
  C26. A configuration that loads without a message is consistent: no hook both returns and jumps or
  mixes direct and conditional exits, and all eight helper addresses are given.
\<close>

theorem silent_config_consistent:
  assumes "Load api path c0 = Some (c, [])" "midAsmHooks c0 = Map.empty"
    and "tm_parse_file api path = Some toml" "tm_field api toml ''main'' = Some t" "tm_is_table api t"
  shows "(\<forall>a h. midAsmHooks c a = Some h \<longrightarrow>
            \<not> (mh_ret h \<and> mh_jumpAddress h \<noteq> 0) \<and> \<not> (mh_returnOnTrue h \<and> mh_jumpAddressOnTrue h \<noteq> 0)
            \<and> \<not> (mh_returnOnFalse h \<and> mh_jumpAddressOnFalse h \<noteq> 0)
            \<and> (mh_ret h \<or> mh_jumpAddress h \<noteq> 0 \<longrightarrow>
                 \<not> mh_returnOnTrue h \<and> \<not> mh_returnOnFalse h \<and> mh_jumpAddressOnTrue h = 0 \<and> mh_jumpAddressOnFalse h = 0))
     \<and> 0 \<notin> {restGpr14Address c, saveGpr14Address c, restFpr14Address c, saveFpr14Address c,
            restVmx14Address c, saveVmx14Address c, restVmx64Address c, saveVmx64Address c}"
proof -
  obtain c1 hooks where l: "load_main api t (c0\<lparr>directoryPath := directory_of path\<rparr>) = Some (c1, [])"
      "c = c1\<lparr>midAsmHooks := fold emplace_map hooks (midAsmHooks c1)\<rparr>" "\<forall>h \<in> set hooks. hook_warnings (snd h) = []"
    using assms by (auto simp: Load_def as_table_def split: bind_splits)
  have "hook_warnings h = []" if "midAsmHooks c a = Some h" for a h
    using that l(2,3) load_main_hooks [OF l(1)] assms(2) by (fastforce simp: fold_emplace_map dest: map_of_SomeD)
  moreover have "0 \<notin> {restGpr14Address c1, saveGpr14Address c1, restFpr14Address c1, saveFpr14Address c1,
            restVmx14Address c1, saveVmx14Address c1, restVmx64Address c1, saveVmx64Address c1}"
    using l(1) by (auto simp: load_main_def missing_helpers_def Let_def split: bind_splits if_splits)
  ultimately show ?thesis using l(2) no_warning by simp
qed

definition ex_hook :: RecompilerMidAsmHook where
  "ex_hook = \<lparr>mh_name = ''Hook'', mh_registers = [], mh_ret = True, mh_returnOnTrue = False, mh_returnOnFalse = False,
     mh_jumpAddress = 0, mh_jumpAddressOnTrue = 0, mh_jumpAddressOnFalse = 0, mh_afterInstruction = False\<rparr>"

definition ex_hook_toml :: "string toml_api" where
  "ex_hook_toml = \<lparr>tm_parse_file = (\<lambda>_. Some ''root''), tm_field = (\<lambda>_ k. Some k), tm_is_table = (\<lambda>_. True),
     tm_array = (\<lambda>n. if n = ''midasm_hook'' then Some [''hook''] else None),
     tm_string = (\<lambda>n. if n = ''name'' then Some ''Hook'' else None),
     tm_bool = (\<lambda>n. if n = ''return'' then Some True else None),
     tm_u32 = (\<lambda>n. if take 4 n = ''jump'' then None else Some 5), tm_order = (\<lambda>xs. xs)\<rparr>"

lemma silent_config_consistent_witness:
  "mh_jumpAddress ex_hook = 0 \<and> \<not> mh_returnOnTrue ex_hook \<and> 0 \<notin> {5 :: u32}"
proof -
  obtain c where c: "Load ex_hook_toml ''c.toml'' ex_load_cfg = Some (c, [])" "midAsmHooks c = [5 \<mapsto> ex_hook]"
      "restGpr14Address c = 5"
    by (simp add: Load_def load_main_def main_options_def ex_hook_toml_def ex_load_cfg_def table_array_def array_at_def as_table_def
        hook_entry_def required_def value_or_def missing_helpers_def load_switches_def hook_warnings_def emplace_map_def ex_hook_def)
  have "midAsmHooks c 5 = Some ex_hook" by (simp add: c)
  moreover have "mh_ret ex_hook" by (simp add: ex_hook_def)
  ultimately show ?thesis
    using silent_config_consistent [OF c(1), of "''root''" "''main''"] c
    by (simp add: ex_load_cfg_def ex_hook_toml_def)
qed

end
