(* ===== verification/Imports.thy ===== *)
theory Imports
  imports Runtime
begin

text \<open>
  The import symbols of the runtime: the handlers with an implementation (the files of \<open>imports\<close>)
  and the generated stubs (\<open>imports/generated_stubs.cpp\<close>), each a function whose body reports
  one name to the fallback. A stub is the pair of its symbol and the name it reports.
\<close>

definition implemented_imports :: "string list" where
  "implemented_imports =
     [''__imp__XamGetSystemVersion'', ''__imp__XGetLanguage'', ''__imp__XamLoaderTerminateTitle'',
      ''__imp__KeQueryPerformanceFrequency'', ''__imp__KeQuerySystemTime'', ''__imp__KeTlsAlloc'',
      ''__imp__KeTlsSetValue'', ''__imp__KeTlsGetValue'', ''__imp__KeTlsFree'', ''__imp__KeGetCurrentProcessType'',
      ''__imp__NtAllocateVirtualMemory'', ''__imp__RtlInitializeCriticalSection'',
      ''__imp__RtlInitializeCriticalSectionAndSpinCount'', ''__imp__RtlEnterCriticalSection'',
      ''__imp__RtlTryEnterCriticalSection'', ''__imp__RtlLeaveCriticalSection'', ''__imp__ExAllocatePoolTypeWithTag'',
      ''__imp__ExFreePool'', ''__imp__DbgPrint'']"

subsection \<open>Generated stubs\<close>

type_synonym stub = "string \<times> string"

definition stubs_1 :: "stub list" where
  "stubs_1 =
     [(''__imp____C_specific_handler'', ''__imp____C_specific_handler''), (''__imp___snprintf'', ''__imp___snprintf''),
      (''__imp___vsnprintf'', ''__imp___vsnprintf''), (''__imp__DbgBreakPoint'', ''__imp__DbgBreakPoint''),
      (''__imp__ExCreateThread'', ''__imp__ExCreateThread''),
      (''__imp__ExGetXConfigSetting'', ''__imp__ExGetXConfigSetting''),
      (''__imp__ExRegisterTitleTerminateNotification'', ''__imp__ExRegisterTitleTerminateNotification''),
      (''__imp__ExTerminateThread'', ''__imp__ExTerminateThread''),
      (''__imp__FscSetCacheElementCount'', ''__imp__FscSetCacheElementCount''),
      (''__imp__HalReturnToFirmware'', ''__imp__HalReturnToFirmware''),
      (''__imp__IoCheckShareAccess'', ''__imp__IoCheckShareAccess''),
      (''__imp__IoCompleteRequest'', ''__imp__IoCompleteRequest''),
      (''__imp__IoCreateDevice'', ''__imp__IoCreateDevice''), (''__imp__IoDeleteDevice'', ''__imp__IoDeleteDevice''),
      (''__imp__IoDismountVolume'', ''__imp__IoDismountVolume''),
      (''__imp__IoDismountVolumeByFileHandle'', ''__imp__IoDismountVolumeByFileHandle''),
      (''__imp__IoInvalidDeviceRequest'', ''__imp__IoInvalidDeviceRequest''),
      (''__imp__IoRemoveShareAccess'', ''__imp__IoRemoveShareAccess''),
      (''__imp__IoSetShareAccess'', ''__imp__IoSetShareAccess''),
      (''__imp__KeAcquireSpinLockAtRaisedIrql'', ''__imp__KeAcquireSpinLockAtRaisedIrql''),
      (''__imp__KeBugCheck'', ''__imp__KeBugCheck''), (''__imp__KeBugCheckEx'', ''__imp__KeBugCheckEx''),
      (''__imp__KeDelayExecutionThread'', ''__imp__KeDelayExecutionThread''),
      (''__imp__KeEnterCriticalRegion'', ''__imp__KeEnterCriticalRegion''),
      (''__imp__KeInitializeDpc'', ''__imp__KeInitializeDpc''),
      (''__imp__KeInsertQueueDpc'', ''__imp__KeInsertQueueDpc''),
      (''__imp__KeLeaveCriticalRegion'', ''__imp__KeLeaveCriticalRegion''), (''__imp__KeLockL2'', ''__imp__KeLockL2''),
      (''__imp__KeQueryBasePriorityThread'', ''__imp__KeQueryBasePriorityThread'')]"

definition stubs_2 :: "stub list" where
  "stubs_2 =
     [(''__imp__KeReleaseSpinLockFromRaisedIrql'', ''__imp__KeReleaseSpinLockFromRaisedIrql''),
      (''__imp__KeResetEvent'', ''__imp__KeResetEvent''),
      (''__imp__KeSetAffinityThread'', ''__imp__KeSetAffinityThread''),
      (''__imp__KeSetBasePriorityThread'', ''__imp__KeSetBasePriorityThread''),
      (''__imp__KeSetCurrentProcessType'', ''__imp__KeSetCurrentProcessType''),
      (''__imp__KeSetEvent'', ''__imp__KeSetEvent''), (''__imp__KeUnlockL2'', ''__imp__KeUnlockL2''),
      (''__imp__KeWaitForMultipleObjects'', ''__imp__KeWaitForMultipleObjects''),
      (''__imp__KeWaitForSingleObject'', ''__imp__KeWaitForSingleObject''),
      (''__imp__KfAcquireSpinLock'', ''__imp__KfAcquireSpinLock''),
      (''__imp__KfReleaseSpinLock'', ''__imp__KfReleaseSpinLock''),
      (''__imp__KiApcNormalRoutineNop'', ''__imp__KiApcNormalRoutineNop''),
      (''__imp__MmAllocatePhysicalMemoryEx'', ''__imp__MmAllocatePhysicalMemoryEx''),
      (''__imp__MmFreePhysicalMemory'', ''__imp__MmFreePhysicalMemory''),
      (''__imp__MmGetPhysicalAddress'', ''__imp__MmGetPhysicalAddress''),
      (''__imp__MmMapIoSpace'', ''__imp__MmMapIoSpace''),
      (''__imp__MmQueryAddressProtect'', ''__imp__MmQueryAddressProtect''),
      (''__imp__MmQueryAllocationSize'', ''__imp__MmQueryAllocationSize''),
      (''__imp__NetDll___WSAFDIsSet'', ''__imp__NetDll___WSAFDIsSet''),
      (''__imp__NetDll_accept'', ''__imp__NetDll_accept''), (''__imp__NetDll_bind'', ''__imp__NetDll_bind''),
      (''__imp__NetDll_closesocket'', ''__imp__NetDll_closesocket''),
      (''__imp__NetDll_connect'', ''__imp__NetDll_connect''), (''__imp__NetDll_inet_addr'', ''__imp__NetDll_inet_addr''),
      (''__imp__NetDll_ioctlsocket'', ''__imp__NetDll_ioctlsocket''),
      (''__imp__NetDll_listen'', ''__imp__NetDll_listen''), (''__imp__NetDll_recv'', ''__imp__NetDll_recv''),
      (''__imp__NetDll_recvfrom'', ''__imp__NetDll_recvfrom''), (''__imp__NetDll_select'', ''__imp__NetDll_select'')]"

definition stubs_3 :: "stub list" where
  "stubs_3 =
     [(''__imp__NetDll_send'', ''__imp__NetDll_send''), (''__imp__NetDll_sendto'', ''__imp__NetDll_sendto''),
      (''__imp__NetDll_setsockopt'', ''__imp__NetDll_setsockopt''),
      (''__imp__NetDll_shutdown'', ''__imp__NetDll_shutdown''), (''__imp__NetDll_socket'', ''__imp__NetDll_socket''),
      (''__imp__NetDll_WSACleanup'', ''__imp__NetDll_WSACleanup''),
      (''__imp__NetDll_WSAGetLastError'', ''__imp__NetDll_WSAGetLastError''),
      (''__imp__NetDll_WSAStartup'', ''__imp__NetDll_WSAStartup''),
      (''__imp__NetDll_XNetCleanup'', ''__imp__NetDll_XNetCleanup''),
      (''__imp__NetDll_XNetConnect'', ''__imp__NetDll_XNetConnect''),
      (''__imp__NetDll_XNetCreateKey'', ''__imp__NetDll_XNetCreateKey''),
      (''__imp__NetDll_XNetGetConnectStatus'', ''__imp__NetDll_XNetGetConnectStatus''),
      (''__imp__NetDll_XNetGetEthernetLinkStatus'', ''__imp__NetDll_XNetGetEthernetLinkStatus''),
      (''__imp__NetDll_XNetGetTitleXnAddr'', ''__imp__NetDll_XNetGetTitleXnAddr''),
      (''__imp__NetDll_XNetInAddrToString'', ''__imp__NetDll_XNetInAddrToString''),
      (''__imp__NetDll_XNetInAddrToXnAddr'', ''__imp__NetDll_XNetInAddrToXnAddr''),
      (''__imp__NetDll_XNetQosListen'', ''__imp__NetDll_XNetQosListen''),
      (''__imp__NetDll_XNetQosLookup'', ''__imp__NetDll_XNetQosLookup''),
      (''__imp__NetDll_XNetQosRelease'', ''__imp__NetDll_XNetQosRelease''),
      (''__imp__NetDll_XNetQosServiceLookup'', ''__imp__NetDll_XNetQosServiceLookup''),
      (''__imp__NetDll_XNetServerToInAddr'', ''__imp__NetDll_XNetServerToInAddr''),
      (''__imp__NetDll_XNetStartup'', ''__imp__NetDll_XNetStartup''),
      (''__imp__NetDll_XNetUnregisterInAddr'', ''__imp__NetDll_XNetUnregisterInAddr''),
      (''__imp__NetDll_XNetXnAddrToInAddr'', ''__imp__NetDll_XNetXnAddrToInAddr''),
      (''__imp__NtCancelIoFile'', ''__imp__NtCancelIoFile''), (''__imp__NtCancelTimer'', ''__imp__NtCancelTimer''),
      (''__imp__NtClearEvent'', ''__imp__NtClearEvent''), (''__imp__NtClose'', ''__imp__NtClose''),
      (''__imp__NtCreateEvent'', ''__imp__NtCreateEvent'')]"

definition stubs_4 :: "stub list" where
  "stubs_4 =
     [(''__imp__NtCreateFile'', ''__imp__NtCreateFile''), (''__imp__NtCreateMutant'', ''__imp__NtCreateMutant''),
      (''__imp__NtCreateSemaphore'', ''__imp__NtCreateSemaphore''), (''__imp__NtCreateTimer'', ''__imp__NtCreateTimer''),
      (''__imp__NtDeviceIoControlFile'', ''__imp__NtDeviceIoControlFile''),
      (''__imp__NtDuplicateObject'', ''__imp__NtDuplicateObject''),
      (''__imp__NtFlushBuffersFile'', ''__imp__NtFlushBuffersFile''),
      (''__imp__NtFreeVirtualMemory'', ''__imp__NtFreeVirtualMemory''), (''__imp__NtOpenFile'', ''__imp__NtOpenFile''),
      (''__imp__NtQueryDirectoryFile'', ''__imp__NtQueryDirectoryFile''),
      (''__imp__NtQueryFullAttributesFile'', ''__imp__NtQueryFullAttributesFile''),
      (''__imp__NtQueryInformationFile'', ''__imp__NtQueryInformationFile''),
      (''__imp__NtQueryVirtualMemory'', ''__imp__NtQueryVirtualMemory''),
      (''__imp__NtQueryVolumeInformationFile'', ''__imp__NtQueryVolumeInformationFile''),
      (''__imp__NtReadFile'', ''__imp__NtReadFile''), (''__imp__NtReadFileScatter'', ''__imp__NtReadFileScatter''),
      (''__imp__NtReleaseMutant'', ''__imp__NtReleaseMutant''),
      (''__imp__NtReleaseSemaphore'', ''__imp__NtReleaseSemaphore''),
      (''__imp__NtResumeThread'', ''__imp__NtResumeThread''), (''__imp__NtSetEvent'', ''__imp__NtSetEvent''),
      (''__imp__NtSetInformationFile'', ''__imp__NtSetInformationFile''),
      (''__imp__NtSetTimerEx'', ''__imp__NtSetTimerEx''), (''__imp__NtSuspendThread'', ''__imp__NtSuspendThread''),
      (''__imp__NtWaitForMultipleObjectsEx'', ''__imp__NtWaitForMultipleObjectsEx''),
      (''__imp__NtWaitForSingleObjectEx'', ''__imp__NtWaitForSingleObjectEx''),
      (''__imp__NtWriteFile'', ''__imp__NtWriteFile''), (''__imp__NtWriteFileGather'', ''__imp__NtWriteFileGather''),
      (''__imp__ObCreateSymbolicLink'', ''__imp__ObCreateSymbolicLink''),
      (''__imp__ObDeleteSymbolicLink'', ''__imp__ObDeleteSymbolicLink'')]"

definition stubs_5 :: "stub list" where
  "stubs_5 =
     [(''__imp__ObDereferenceObject'', ''__imp__ObDereferenceObject''),
      (''__imp__ObIsTitleObject'', ''__imp__ObIsTitleObject''),
      (''__imp__ObLookupThreadByThreadId'', ''__imp__ObLookupThreadByThreadId''),
      (''__imp__ObOpenObjectByPointer'', ''__imp__ObOpenObjectByPointer''),
      (''__imp__ObReferenceObject'', ''__imp__ObReferenceObject''),
      (''__imp__ObReferenceObjectByHandle'', ''__imp__ObReferenceObjectByHandle''),
      (''__imp__RtlCompareMemoryUlong'', ''__imp__RtlCompareMemoryUlong''),
      (''__imp__RtlCompareStringN'', ''__imp__RtlCompareStringN''),
      (''__imp__RtlFillMemoryUlong'', ''__imp__RtlFillMemoryUlong''),
      (''__imp__RtlFreeAnsiString'', ''__imp__RtlFreeAnsiString''),
      (''__imp__RtlImageXexHeaderField'', ''__imp__RtlImageXexHeaderField''),
      (''__imp__RtlInitAnsiString'', ''__imp__RtlInitAnsiString''),
      (''__imp__RtlInitUnicodeString'', ''__imp__RtlInitUnicodeString''),
      (''__imp__RtlMultiByteToUnicodeN'', ''__imp__RtlMultiByteToUnicodeN''),
      (''__imp__RtlNtStatusToDosError'', ''__imp__RtlNtStatusToDosError''),
      (''__imp__RtlRaiseException'', ''__imp__RtlRaiseException''),
      (''__imp__RtlTimeFieldsToTime'', ''__imp__RtlTimeFieldsToTime''),
      (''__imp__RtlTimeToTimeFields'', ''__imp__RtlTimeToTimeFields''),
      (''__imp__RtlUnicodeStringToAnsiString'', ''__imp__RtlUnicodeStringToAnsiString''),
      (''__imp__RtlUnicodeToMultiByteN'', ''__imp__RtlUnicodeToMultiByteN''),
      (''__imp__RtlUnwind'', ''__imp__RtlUnwind''), (''__imp__RtlUpcaseUnicodeChar'', ''__imp__RtlUpcaseUnicodeChar''),
      (''__imp__sprintf'', ''__imp__sprintf''), (''__imp__StfsControlDevice'', ''__imp__StfsControlDevice''),
      (''__imp__StfsCreateDevice'', ''__imp__StfsCreateDevice''),
      (''__imp__VdCallGraphicsNotificationRoutines'', ''__imp__VdCallGraphicsNotificationRoutines''),
      (''__imp__VdEnableDisableClockGating'', ''__imp__VdEnableDisableClockGating''),
      (''__imp__VdEnableRingBufferRPtrWriteBack'', ''__imp__VdEnableRingBufferRPtrWriteBack''),
      (''__imp__VdGetCurrentDisplayGamma'', ''__imp__VdGetCurrentDisplayGamma'')]"

definition stubs_6 :: "stub list" where
  "stubs_6 =
     [(''__imp__VdGetCurrentDisplayInformation'', ''__imp__VdGetCurrentDisplayInformation''),
      (''__imp__VdGetSystemCommandBuffer'', ''__imp__VdGetSystemCommandBuffer''),
      (''__imp__VdInitializeEngines'', ''__imp__VdInitializeEngines''),
      (''__imp__VdInitializeRingBuffer'', ''__imp__VdInitializeRingBuffer''),
      (''__imp__VdInitializeScalerCommandBuffer'', ''__imp__VdInitializeScalerCommandBuffer''),
      (''__imp__VdIsHSIOTrainingSucceeded'', ''__imp__VdIsHSIOTrainingSucceeded''),
      (''__imp__VdPersistDisplay'', ''__imp__VdPersistDisplay''),
      (''__imp__VdQueryVideoFlags'', ''__imp__VdQueryVideoFlags''),
      (''__imp__VdQueryVideoMode'', ''__imp__VdQueryVideoMode''), (''__imp__VdRetrainEDRAM'', ''__imp__VdRetrainEDRAM''),
      (''__imp__VdRetrainEDRAMWorker'', ''__imp__VdRetrainEDRAMWorker''),
      (''__imp__VdSetDisplayMode'', ''__imp__VdSetDisplayMode''),
      (''__imp__VdSetDisplayModeOverride'', ''__imp__VdSetDisplayModeOverride''),
      (''__imp__VdSetGraphicsInterruptCallback'', ''__imp__VdSetGraphicsInterruptCallback''),
      (''__imp__VdSetSystemCommandBufferGpuIdentifierAddress'', ''__imp__VdSetSystemCommandBufferGpuIdentifierAddress''),
      (''__imp__VdShutdownEngines'', ''__imp__VdShutdownEngines''), (''__imp__VdSwap'', ''__imp__VdSwap''),
      (''__imp__XamAlloc'', ''__imp__XamAlloc''),
      (''__imp__XamBackgroundDownloadItemGetHistoryStatus'', ''__imp__XamBackgroundDownloadItemGetHistoryStatus''),
      (''__imp__XamBackgroundDownloadItemGetStatus'', ''__imp__XamBackgroundDownloadItemGetStatus''),
      (''__imp__XamContentClose'', ''__imp__XamContentClose''),
      (''__imp__XamContentCreateEnumerator'', ''__imp__XamContentCreateEnumerator''),
      (''__imp__XamContentCreateEx'', ''__imp__XamContentCreateEx''),
      (''__imp__XamContentDelete'', ''__imp__XamContentDelete''),
      (''__imp__XamContentFlush'', ''__imp__XamContentFlush''),
      (''__imp__XamContentGetCreator'', ''__imp__XamContentGetCreator''),
      (''__imp__XamContentGetDeviceData'', ''__imp__XamContentGetDeviceData''),
      (''__imp__XamContentGetDeviceState'', ''__imp__XamContentGetDeviceState''),
      (''__imp__XamContentGetLicenseMask'', ''__imp__XamContentGetLicenseMask'')]"

definition stubs_7 :: "stub list" where
  "stubs_7 =
     [(''__imp__XamCreateEnumeratorHandle'', ''__imp__XamCreateEnumeratorHandle''),
      (''__imp__XamEnumerate'', ''__imp__XamEnumerate''), (''__imp__XamFree'', ''__imp__XamFree''),
      (''__imp__XamGetExecutionId'', ''__imp__XamGetExecutionId''),
      (''__imp__XamGetPrivateEnumStructureFromHandle'', ''__imp__XamGetPrivateEnumStructureFromHandle''),
      (''__imp__XamInputGetCapabilities'', ''__imp__XamInputGetCapabilities''),
      (''__imp__XamInputGetKeystrokeEx'', ''__imp__XamInputGetKeystrokeEx''),
      (''__imp__XamInputGetState'', ''__imp__XamInputGetState''),
      (''__imp__XamInputSetState'', ''__imp__XamInputSetState''),
      (''__imp__XamNotifyCreateListener'', ''__imp__XamNotifyCreateListener''),
      (''__imp__XamSessionCreateHandle'', ''__imp__XamSessionCreateHandle''),
      (''__imp__XamSessionRefObjByHandle'', ''__imp__XamSessionRefObjByHandle''),
      (''__imp__XamShowDeviceSelectorUI'', ''__imp__XamShowDeviceSelectorUI''),
      (''__imp__XamShowFriendsUI'', ''__imp__XamShowFriendsUI''),
      (''__imp__XamShowGamerCardUIForXUID'', ''__imp__XamShowGamerCardUIForXUID''),
      (''__imp__XamShowMarketplaceDownloadItemsUI'', ''__imp__XamShowMarketplaceDownloadItemsUI''),
      (''__imp__XamShowMarketplaceUI'', ''__imp__XamShowMarketplaceUI''),
      (''__imp__XamShowMessageBoxUI'', ''__imp__XamShowMessageBoxUI''),
      (''__imp__XamShowMessageBoxUIEx'', ''__imp__XamShowMessageBoxUIEx''),
      (''__imp__XamShowSigninUI'', ''__imp__XamShowSigninUI''),
      (''__imp__XamTaskCloseHandle'', ''__imp__XamTaskCloseHandle''),
      (''__imp__XamTaskSchedule'', ''__imp__XamTaskSchedule''),
      (''__imp__XamTaskShouldExit'', ''__imp__XamTaskShouldExit''),
      (''__imp__XamUserAreUsersFriends'', ''__imp__XamUserAreUsersFriends''),
      (''__imp__XamUserCheckPrivilege'', ''__imp__XamUserCheckPrivilege''),
      (''__imp__XamUserCreateAchievementEnumerator'', ''__imp__XamUserCreateAchievementEnumerator''),
      (''__imp__XamUserCreateStatsEnumerator'', ''__imp__XamUserCreateStatsEnumerator''),
      (''__imp__XamUserGetDeviceContext'', ''__imp__XamUserGetDeviceContext''),
      (''__imp__XamUserGetMembershipTierFromXUID'', ''__imp__XamUserGetMembershipTierFromXUID'')]"

definition stubs_8 :: "stub list" where
  "stubs_8 =
     [(''__imp__XamUserGetName'', ''__imp__XamUserGetName''),
      (''__imp__XamUserGetOnlineCountryFromXUID'', ''__imp__XamUserGetOnlineCountryFromXUID''),
      (''__imp__XamUserGetSigninInfo'', ''__imp__XamUserGetSigninInfo''),
      (''__imp__XamUserGetSigninState'', ''__imp__XamUserGetSigninState''),
      (''__imp__XamUserGetXUID'', ''__imp__XamUserGetXUID''),
      (''__imp__XamUserReadProfileSettings'', ''__imp__XamUserReadProfileSettings''),
      (''__imp__XamUserWriteProfileSettings'', ''__imp__XamUserWriteProfileSettings''),
      (''__imp__XamVoiceClose'', ''__imp__XamVoiceClose''), (''__imp__XamVoiceCreate'', ''__imp__XamVoiceCreate''),
      (''__imp__XamVoiceHeadsetPresent'', ''__imp__XamVoiceHeadsetPresent''),
      (''__imp__XamVoiceIsActiveProcess'', ''__imp__XamVoiceIsActiveProcess''),
      (''__imp__XamVoiceSubmitPacket'', ''__imp__XamVoiceSubmitPacket''),
      (''__imp__XAudioGetDuckerLevel'', ''__imp__XAudioGetDuckerLevel''),
      (''__imp__XAudioGetSpeakerConfig'', ''__imp__XAudioGetSpeakerConfig''),
      (''__imp__XAudioGetVoiceCategoryVolume'', ''__imp__XAudioGetVoiceCategoryVolume''),
      (''__imp__XAudioRegisterRenderDriverClient'', ''__imp__XAudioRegisterRenderDriverClient''),
      (''__imp__XAudioSubmitRenderDriverFrame'', ''__imp__XAudioSubmitRenderDriverFrame''),
      (''__imp__XAudioUnregisterRenderDriverClient'', ''__imp__XAudioUnregisterRenderDriverClient''),
      (''__imp__XeCryptSha'', ''__imp__XeCryptSha''), (''__imp__XeCryptSha256Final'', ''__imp__XeCryptSha256Final''),
      (''__imp__XeCryptSha256Init'', ''__imp__XeCryptSha256Init''),
      (''__imp__XeCryptSha256Update'', ''__imp__XeCryptSha256Update''),
      (''__imp__XeCryptSha384Final'', ''__imp__XeCryptSha384Final''),
      (''__imp__XeCryptSha384Init'', ''__imp__XeCryptSha384Init''),
      (''__imp__XeCryptSha384Update'', ''__imp__XeCryptSha384Update''),
      (''__imp__XeCryptSha512Final'', ''__imp__XeCryptSha512Final''),
      (''__imp__XeCryptSha512Init'', ''__imp__XeCryptSha512Init''),
      (''__imp__XeCryptSha512Update'', ''__imp__XeCryptSha512Update''),
      (''__imp__XeCryptShaFinal'', ''__imp__XeCryptShaFinal'')]"

definition stubs_9 :: "stub list" where
  "stubs_9 =
     [(''__imp__XeCryptShaInit'', ''__imp__XeCryptShaInit''), (''__imp__XeCryptShaUpdate'', ''__imp__XeCryptShaUpdate''),
      (''__imp__XeKeysConsolePrivateKeySign'', ''__imp__XeKeysConsolePrivateKeySign''),
      (''__imp__XeKeysConsoleSignatureVerification'', ''__imp__XeKeysConsoleSignatureVerification''),
      (''__imp__XexCheckExecutablePrivilege'', ''__imp__XexCheckExecutablePrivilege''),
      (''__imp__XexGetModuleHandle'', ''__imp__XexGetModuleHandle''),
      (''__imp__XexGetProcedureAddress'', ''__imp__XexGetProcedureAddress''),
      (''__imp__XexLoadImage'', ''__imp__XexLoadImage''), (''__imp__XexUnloadImage'', ''__imp__XexUnloadImage''),
      (''__imp__XGetAVPack'', ''__imp__XGetAVPack''), (''__imp__XGetGameRegion'', ''__imp__XGetGameRegion''),
      (''__imp__XGetVideoMode'', ''__imp__XGetVideoMode''), (''__imp__XMACreateContext'', ''__imp__XMACreateContext''),
      (''__imp__XMAReleaseContext'', ''__imp__XMAReleaseContext''),
      (''__imp__XMsgCancelIORequest'', ''__imp__XMsgCancelIORequest''),
      (''__imp__XMsgInProcessCall'', ''__imp__XMsgInProcessCall''),
      (''__imp__XMsgStartIORequest'', ''__imp__XMsgStartIORequest''),
      (''__imp__XMsgStartIORequestEx'', ''__imp__XMsgStartIORequestEx''),
      (''__imp__XNetLogonGetMachineID'', ''__imp__XNetLogonGetMachineID''),
      (''__imp__XNetLogonGetTitleID'', ''__imp__XNetLogonGetTitleID''),
      (''__imp__XNotifyGetNext'', ''__imp__XNotifyGetNext'')]"

definition generated_stubs :: "stub list" where
  "generated_stubs =
     stubs_1 @ stubs_2 @ stubs_3 @ stubs_4 @ stubs_5 @ stubs_6 @ stubs_7 @ stubs_8 @ stubs_9"

lemmas stub_defs = stubs_1_def stubs_2_def stubs_3_def stubs_4_def stubs_5_def stubs_6_def stubs_7_def stubs_8_def stubs_9_def

lemma stub_names: "map snd generated_stubs = map fst generated_stubs"
  by (simp add: generated_stubs_def stub_defs)

text \<open>A number for each symbol; it tells the symbols apart.\<close>

definition symbol_key :: "string \<Rightarrow> nat" where
  "symbol_key s = foldl (\<lambda>a c. a * 3 + of_char c) 0 (drop 7 s)"

lemma distinct_keys: "distinct (map symbol_key (implemented_imports @ map fst generated_stubs))"
  by (simp add: generated_stubs_def stub_defs implemented_imports_def symbol_key_def)

text \<open>
  Every import of the program is defined exactly once: no generated stub has the symbol of
  another one or of an implemented import, and each of them reports its own symbol, so that calling
  all of them leaves one line for each.
\<close>

lemma imports_defined_once:
  "distinct (implemented_imports @ map fst generated_stubs)
   \<and> map snd generated_stubs = map fst generated_stubs
   \<and> snd (fallback_calls (map snd generated_stubs))
      = map (append ''Native import fallback: '') (map fst generated_stubs)"
proof -
  have d: "distinct (implemented_imports @ map fst generated_stubs)"
    using distinct_keys by (rule distinct_map [THEN iffD1, THEN conjunct1])
  then have r: "remdups (rev (map fst generated_stubs)) = rev (map fst generated_stubs)"
    by (intro distinct_remdups_id) simp
  have "snd (fallback_calls (map snd generated_stubs))
      = map (append ''Native import fallback: '') (map fst generated_stubs)"
    using fallback_fold [of "map snd generated_stubs" "[]"]
    by (simp add: fallback_calls_def stub_names r del: map_map)
  then show ?thesis using d stub_names by blast
qed

end
