(* ===== verification/Vector.thy ===== *)
theory Vector
  imports Prelude
begin

text \<open>
  The vector helpers and tables of \<open>XenonUtils/ppc_context.h\<close> that the generated code is compiled
  against. A vector register is 128 bits with its bytes in the reverse of the order of the guest:
  byte \<open>j\<close> of the host is byte \<open>15 - j\<close> of the guest. The intrinsics of SIMDe are a record of
  functions, with their documented meaning as a predicate.
\<close>

unbundle bit_operations_syntax

type_synonym vec = "128 word"

subsection \<open>Lanes\<close>

definition lane :: "vec \<Rightarrow> nat \<Rightarrow> 'a::len word" where
  "lane v j = ucast (drop_bit (LENGTH('a) * j) v)"

lemma bit_lane: "bit (lane v j :: 'a::len word) i = (i < LENGTH('a) \<and> bit v (LENGTH('a) * j + i))"
  by (auto simp: lane_def bit_ucast_iff bit_drop_bit_eq add.commute)

lemma lane_bitwise:
  "lane (a XOR b) j = (lane a j XOR lane b j :: 'a::len word)" "lane (a AND b) j = (lane a j AND lane b j :: 'a word)"
  "lane (a OR b) j = (lane a j OR lane b j :: 'a word)"
  by (rule bit_word_eqI, auto simp: bit_lane bit_simps)+

lemma vec_eq_lanes:
  assumes "\<And>j. j < 16 \<Longrightarrow> (lane a j :: u8) = lane b j"
  shows "a = b"
proof (rule bit_word_eqI)
  fix n assume "n < LENGTH(128)"
  then have n: "n div 8 < 16" by simp
  have "bit (lane v (n div 8) :: u8) (n mod 8) = bit v n" for v by (simp add: bit_lane)
  then show "bit a n = bit b n" using assms [OF n] by metis
qed

text \<open>A vector from its lanes.\<close>

definition vec_of :: "(nat \<Rightarrow> 'a::len word) \<Rightarrow> vec" where
  "vec_of f = foldr (\<lambda>j v. push_bit (LENGTH('a) * j) (ucast (f j)) OR v) [0..<128 div LENGTH('a)] 0"

lemma bit_one_lane:
  fixes x :: "'a::len word"
  shows "bit (push_bit (LENGTH('a) * j) (ucast x) :: vec) n = (n < 128 \<and> n div LENGTH('a) = j \<and> bit x (n mod LENGTH('a)))"
proof (cases "LENGTH('a) * j \<le> n \<and> n < LENGTH('a) * j + LENGTH('a)")
  case True
  then have d: "n div LENGTH('a) = j" by (intro div_nat_eqI) simp_all
  then have "n mod LENGTH('a) = n - LENGTH('a) * j" using minus_mult_div_eq_mod [of n "LENGTH('a)"] by simp
  with d show ?thesis using True by (auto simp: bit_push_bit_iff bit_ucast_iff)
next
  case False
  have "n div LENGTH('a) \<noteq> j"
  proof
    assume "n div LENGTH('a) = j"
    then have "LENGTH('a) * j \<le> n" "n < LENGTH('a) * j + LENGTH('a)"
      using times_div_less_eq_dividend [of "LENGTH('a)" n] dividend_less_times_div [of "LENGTH('a)" n] by simp_all
    then show False using False by simp
  qed
  moreover have "\<not> bit x (n - LENGTH('a) * j)" if "LENGTH('a) * j \<le> n"
    using False that bit_imp_le_length [of x "n - LENGTH('a) * j"] by auto
  ultimately show ?thesis by (auto simp: bit_push_bit_iff bit_ucast_iff)
qed

lemma bit_foldr_lanes:
  "bit (foldr (\<lambda>j v. push_bit (LENGTH('a) * j) (ucast (f j)) OR v) js (0 :: vec)) n =
     (n < 128 \<and> n div LENGTH('a) \<in> set js \<and> bit (f (n div LENGTH('a)) :: 'a::len word) (n mod LENGTH('a)))"
  by (induction js) (auto simp: bit_or_iff bit_one_lane)

lemma lane_vec_of:
  fixes f :: "nat \<Rightarrow> 'a::len word"
  assumes "j < 128 div LENGTH('a)"
  shows "lane (vec_of f) j = f j"
proof (rule bit_word_eqI)
  fix n assume n: "n < LENGTH('a)"
  have "Suc j * LENGTH('a) \<le> 128"
    using assms by (metis Suc_leI div_times_less_eq_dividend mult_le_mono1 order_trans)
  then have "LENGTH('a) * j + n < 128" using n by (simp add: algebra_simps)
  moreover have "(LENGTH('a) * j + n) div LENGTH('a) = j" "(LENGTH('a) * j + n) mod LENGTH('a) = n" using n by simp_all
  ultimately show "bit (lane (vec_of f) j :: 'a word) n = bit (f j) n"
    using n assms by (simp add: bit_lane vec_of_def bit_foldr_lanes)
qed

subsection \<open>Intrinsics\<close>

record simde =
  mm_set1_epi8 :: "u8 \<Rightarrow> vec"
  mm_set1_epi16 :: "16 word \<Rightarrow> vec"
  mm_and_si128 :: "vec \<Rightarrow> vec \<Rightarrow> vec"
  mm_xor_si128 :: "vec \<Rightarrow> vec \<Rightarrow> vec"
  mm_add_epi32 :: "vec \<Rightarrow> vec \<Rightarrow> vec"
  mm_sub_epi8 :: "vec \<Rightarrow> vec \<Rightarrow> vec"
  mm_min_epu32 :: "vec \<Rightarrow> vec \<Rightarrow> vec"
  mm_avg_epu8 :: "vec \<Rightarrow> vec \<Rightarrow> vec"
  mm_avg_epu16 :: "vec \<Rightarrow> vec \<Rightarrow> vec"
  mm_cmpeq_epi32 :: "vec \<Rightarrow> vec \<Rightarrow> vec"
  mm_cmpgt_epi8 :: "vec \<Rightarrow> vec \<Rightarrow> vec"
  mm_cmpgt_epi16 :: "vec \<Rightarrow> vec \<Rightarrow> vec"
  mm_shuffle_epi8 :: "vec \<Rightarrow> vec \<Rightarrow> vec"
  mm_blendv_epi8 :: "vec \<Rightarrow> vec \<Rightarrow> vec \<Rightarrow> vec"
  mm_slli_epi32 :: "vec \<Rightarrow> nat \<Rightarrow> vec"
  mm_slli_epi64 :: "vec \<Rightarrow> nat \<Rightarrow> vec"
  mm_srli_epi64 :: "vec \<Rightarrow> nat \<Rightarrow> vec"
  mm_srl_epi64 :: "vec \<Rightarrow> vec \<Rightarrow> vec"
  mm_srli_si128 :: "vec \<Rightarrow> nat \<Rightarrow> vec"
  mm_insert_ps :: "vec \<Rightarrow> vec \<Rightarrow> nat \<Rightarrow> vec"

text \<open>
  What the intrinsics compute, lane by lane, as their documentation states it. \<open>insert_ps\<close> with the
  control \<open>0x10\<close> puts the lowest lane of the second vector in the place of lane 1 of the first.
\<close>

definition simde_lanes8 :: "simde \<Rightarrow> bool" where
  "simde_lanes8 S =
     (\<forall>j<16. (\<forall>x. lane (mm_set1_epi8 S x) j = x)
        \<and> (\<forall>a b. (lane (mm_sub_epi8 S a b) j :: u8) = lane a j - lane b j
           \<and> uint (lane (mm_avg_epu8 S a b) j :: u8) = (uint (lane a j :: u8) + uint (lane b j :: u8) + 1) div 2
           \<and> (lane (mm_cmpgt_epi8 S a b) j :: u8) = (if sint (lane b j :: u8) < sint (lane a j :: u8) then - 1 else 0)
           \<and> (lane (mm_shuffle_epi8 S a b) j :: u8) =
                (if bit (lane b j :: u8) 7 then 0 else lane a (unat (lane b j AND 15 :: u8)))
           \<and> (\<forall>c. (lane (mm_blendv_epi8 S a b c) j :: u8) = (if bit (lane c j :: u8) 7 then lane b j else lane a j))))"

definition simde_lanes16 :: "simde \<Rightarrow> bool" where
  "simde_lanes16 S =
     (\<forall>j<8. (\<forall>x. lane (mm_set1_epi16 S x) j = x)
        \<and> (\<forall>a b. uint (lane (mm_avg_epu16 S a b) j :: 16 word) = (uint (lane a j :: 16 word) + uint (lane b j :: 16 word) + 1) div 2
           \<and> (lane (mm_cmpgt_epi16 S a b) j :: 16 word) =
                (if sint (lane b j :: 16 word) < sint (lane a j :: 16 word) then - 1 else 0)))"

definition simde_lanes32 :: "simde \<Rightarrow> bool" where
  "simde_lanes32 S =
     (\<forall>j<4. \<forall>a b. (lane (mm_add_epi32 S a b) j :: u32) = lane a j + lane b j
        \<and> (lane (mm_min_epu32 S a b) j :: u32) = min (lane a j) (lane b j)
        \<and> (lane (mm_cmpeq_epi32 S a b) j :: u32) = (if (lane a j :: u32) = lane b j then - 1 else 0)
        \<and> (\<forall>n. (lane (mm_slli_epi32 S a n) j :: u32) = push_bit n (lane a j))
        \<and> (lane (mm_insert_ps S a b 0x10) j :: u32) = (if j = 1 then lane b 0 else lane a j))"

definition simde_wide :: "simde \<Rightarrow> bool" where
  "simde_wide S =
     ((\<forall>j<2. \<forall>a b n. (lane (mm_slli_epi64 S a n) j :: u64) = push_bit n (lane a j)
         \<and> (lane (mm_srli_epi64 S a n) j :: u64) = drop_bit n (lane a j)
         \<and> (lane (mm_srl_epi64 S a b) j :: u64) = drop_bit (unat (lane b 0 :: u64)) (lane a j))
      \<and> (\<forall>a n. mm_srli_si128 S a n = drop_bit (8 * n) a)
      \<and> (\<forall>a b. mm_and_si128 S a b = a AND b \<and> mm_xor_si128 S a b = a XOR b))"

definition simde_ok :: "simde \<Rightarrow> bool" where
  "simde_ok S = (simde_lanes8 S \<and> simde_lanes16 S \<and> simde_lanes32 S \<and> simde_wide S)"

subsection \<open>The helpers\<close>

definition simde_mm_adds_epu32 :: "simde \<Rightarrow> vec \<Rightarrow> vec \<Rightarrow> vec" where
  "simde_mm_adds_epu32 S a b = mm_add_epi32 S a (mm_min_epu32 S (mm_xor_si128 S a (mm_cmpeq_epi32 S a a)) b)"

definition simde_mm_avg_epi8 :: "simde \<Rightarrow> vec \<Rightarrow> vec \<Rightarrow> vec" where
  "simde_mm_avg_epi8 S a b =
     (let c = mm_set1_epi8 S 128 in mm_xor_si128 S c (mm_avg_epu8 S (mm_xor_si128 S c a) (mm_xor_si128 S c b)))"

definition simde_mm_avg_epi16 :: "simde \<Rightarrow> vec \<Rightarrow> vec \<Rightarrow> vec" where
  "simde_mm_avg_epi16 S a b =
     (let c = mm_set1_epi16 S 32768 in mm_xor_si128 S c (mm_avg_epu16 S (mm_xor_si128 S c a) (mm_xor_si128 S c b)))"

definition simde_mm_perm_epi8 :: "simde \<Rightarrow> vec \<Rightarrow> vec \<Rightarrow> vec \<Rightarrow> vec" where
  "simde_mm_perm_epi8 S a b c =
     (let d = mm_set1_epi8 S 0xF; e = mm_sub_epi8 S d (mm_and_si128 S c d)
      in mm_blendv_epi8 S (mm_shuffle_epi8 S a e) (mm_shuffle_epi8 S b e) (mm_slli_epi32 S c 3))"

definition simde_mm_cmpgt_epu8 :: "simde \<Rightarrow> vec \<Rightarrow> vec \<Rightarrow> vec" where
  "simde_mm_cmpgt_epu8 S a b =
     (let c = mm_set1_epi8 S 128 in mm_cmpgt_epi8 S (mm_xor_si128 S a c) (mm_xor_si128 S b c))"

definition simde_mm_cmpgt_epu16 :: "simde \<Rightarrow> vec \<Rightarrow> vec \<Rightarrow> vec" where
  "simde_mm_cmpgt_epu16 S a b =
     (let c = mm_set1_epi16 S 32768 in mm_cmpgt_epi16 S (mm_xor_si128 S a c) (mm_xor_si128 S b c))"

definition simde_mm_vsr :: "simde \<Rightarrow> vec \<Rightarrow> vec \<Rightarrow> vec" where
  "simde_mm_vsr S a b =
     (let b = mm_srli_epi64 S (mm_slli_epi64 S b 61) 61
      in mm_insert_ps S (mm_srl_epi64 S a b) (mm_srl_epi64 S (mm_srli_si128 S a 4) b) 0x10)"

text \<open>\<open>simde_mm_vsl\<close> works on the bytes; the shifts are on \<open>int\<close> and cut off to a byte.\<close>

definition simde_mm_vsl :: "vec \<Rightarrow> vec \<Rightarrow> vec" where
  "simde_mm_vsl a b =
     (let src = (\<lambda>i. lane a i :: u8); shift = unat (lane b 0 AND 0x7 :: u8)
      in if shift = 0 then a
         else vec_of (\<lambda>i. push_bit shift (src i) OR (if i = 0 then 0 else drop_bit (8 - shift) (src (i - 1)))))"

subsection \<open>The helpers compute what the guest instructions do\<close>

text \<open>Flipping the sign bit moves between the signed and the unsigned reading.\<close>

lemma flip_sign: "(w :: 'a::len word) XOR 2 ^ (LENGTH('a) - 1) = w + 2 ^ (LENGTH('a) - 1)"
proof -
  let ?n = "LENGTH('a) - 1"
  have "(2 :: 'a word) ^ LENGTH('a) = 0" by simp
  then have "(2 :: 'a word) ^ ?n + 2 ^ ?n = 0"
    by (metis One_nat_def Suc_pred len_gt_0 mult_2 power_Suc)
  then have "- ((2 :: 'a word) ^ ?n) = 2 ^ ?n" by (rule minus_unique)
  then have "w - 2 ^ ?n = w + 2 ^ ?n" by (simp only: diff_conv_add_uminus)
  moreover have "w XOR 2 ^ ?n = flip_bit ?n w" by (simp add: flip_bit_eq_xor push_bit_eq_mult)
  ultimately show ?thesis
    by (simp add: flip_bit_eq_if set_bit_eq unset_bit_eq)
qed

lemma uint_flip_sign: "uint ((w :: 'a::len word) XOR 2 ^ (LENGTH('a) - 1)) = sint w + 2 ^ (LENGTH('a) - 1)"
proof -
  let ?n = "LENGTH('a) - 1"
  have n: "Suc ?n = LENGTH('a)" by simp
  have "sint w = signed_take_bit ?n (uint w)" by (simp add: sint_uint)
  also have "\<dots> = take_bit LENGTH('a) (uint w + 2 ^ ?n) - 2 ^ ?n"
    using signed_take_bit_eq_take_bit_shift [of ?n "uint w"] n by simp
  also have "take_bit LENGTH('a) (uint w + 2 ^ ?n) = uint (word_of_int (uint w + 2 ^ ?n) :: 'a word)"
    by (simp only: uint_word_of_int_eq)
  also have "(word_of_int (uint w + 2 ^ ?n) :: 'a word) = w + 2 ^ ?n" by simp
  finally show ?thesis unfolding flip_sign by simp
qed

lemma sint_flip_sign: "sint ((w :: 'a::len word) XOR 2 ^ (LENGTH('a) - 1)) = uint w - 2 ^ (LENGTH('a) - 1)"
  using uint_flip_sign [of "w XOR 2 ^ (LENGTH('a) - 1)"] by (simp add: xor.assoc)

lemma flip_sign_8:
  "uint ((128 :: u8) XOR w) = sint w + 128" "uint (w XOR (128 :: u8)) = sint w + 128"
  "sint ((128 :: u8) XOR w) = uint w - 128" "sint (w XOR (128 :: u8)) = uint w - 128"
  using uint_flip_sign [of w] sint_flip_sign [of w] by (simp_all add: xor.commute)

lemma flip_sign_16:
  "uint ((32768 :: u16) XOR v) = sint v + 32768" "uint (v XOR (32768 :: u16)) = sint v + 32768"
  "sint ((32768 :: u16) XOR v) = uint v - 32768" "sint (v XOR (32768 :: u16)) = uint v - 32768"
  using uint_flip_sign [of v] sint_flip_sign [of v] by (simp_all add: xor.commute)

lemma unat_less_word_u32: "unat (w :: u32) \<le> 4294967295"
proof -
  have "unat w < 2 ^ LENGTH(32)" by (rule unsigned_less)
  then show ?thesis by simp
qed

lemma saturated_sum:
  fixes x y :: u32
  shows "unat (x + min (x XOR - 1) y) = min (unat x + unat y) 4294967295"
proof -
  have n: "x XOR - 1 = - 1 - x" by (simp add: not_eq_complement)
  have u: "unat (- 1 - x) = 4294967295 - unat x" "unat x \<le> 4294967295"
    using unat_sub [of x "- 1"] unat_less_word_u32 [of x] by (simp_all add: unsigned_minus_1_eq_mask mask_eq_exp_minus_1)
  show ?thesis
  proof (cases "y \<le> - 1 - x")
    case True
    then have "unat x + unat y \<le> 4294967295" using u by (simp add: word_le_nat_alt)
    then show ?thesis using True n by (simp add: min_def unat_word_ariths)
  next
    case False
    then have "unat x + unat y > 4294967295" using u by (simp add: word_le_nat_alt)
    moreover have "min (- 1 - x) y = - 1 - x" using False linear min_absorb1 by blast
    ultimately show ?thesis unfolding n by (simp add: unsigned_minus_1_eq_mask mask_eq_exp_minus_1)
  qed
qed

lemma adds_lane:
  assumes "simde_ok S" "j < 4"
  shows "unat (lane (simde_mm_adds_epu32 S a b) j :: u32) = min (unat (lane a j :: u32) + unat (lane b j :: u32)) 4294967295"
proof -
  have "lane (simde_mm_adds_epu32 S a b) j = (lane a j :: u32) + min (lane a j XOR - 1) (lane b j)"
    using assms by (simp add: simde_mm_adds_epu32_def simde_ok_def simde_lanes32_def simde_wide_def lane_bitwise)
  then show ?thesis by (simp only: saturated_sum)
qed

lemma avg_lane8:
  assumes "simde_ok S" "j < 16"
  shows "sint (lane (simde_mm_avg_epi8 S a b) j :: u8) = (sint (lane a j :: u8) + sint (lane b j :: u8) + 1) div 2"
proof -
  have w: "mm_xor_si128 S u v = u XOR v" for u v using assms(1) by (simp add: simde_ok_def simde_wide_def)
  have l: "lane (mm_set1_epi8 S 128) j = (128 :: u8)"
    "uint (lane (mm_avg_epu8 S u v) j :: u8) = (uint (lane u j :: u8) + uint (lane v j :: u8) + 1) div 2" for u v
    using assms by (simp_all add: simde_ok_def simde_lanes8_def)
  show ?thesis by (simp add: simde_mm_avg_epi8_def Let_def w lane_bitwise l flip_sign_8)
qed

lemma avg_lane16:
  assumes "simde_ok S" "j < 8"
  shows "sint (lane (simde_mm_avg_epi16 S a b) j :: u16) = (sint (lane a j :: u16) + sint (lane b j :: u16) + 1) div 2"
proof -
  have w: "mm_xor_si128 S u v = u XOR v" for u v using assms(1) by (simp add: simde_ok_def simde_wide_def)
  have l: "lane (mm_set1_epi16 S 32768) j = (32768 :: u16)"
    "uint (lane (mm_avg_epu16 S u v) j :: u16) = (uint (lane u j :: u16) + uint (lane v j :: u16) + 1) div 2" for u v
    using assms by (simp_all add: simde_ok_def simde_lanes16_def)
  show ?thesis by (simp add: simde_mm_avg_epi16_def Let_def w lane_bitwise l flip_sign_16)
qed

lemma cmpgt_lane8:
  assumes "simde_ok S" "j < 16"
  shows "(lane (simde_mm_cmpgt_epu8 S a b) j :: u8) = (if (lane b j :: u8) < lane a j then - 1 else 0)"
proof -
  have w: "mm_xor_si128 S u v = u XOR v" for u v using assms(1) by (simp add: simde_ok_def simde_wide_def)
  have l: "lane (mm_set1_epi8 S 128) j = (128 :: u8)"
    "(lane (mm_cmpgt_epi8 S u v) j :: u8) = (if sint (lane v j :: u8) < sint (lane u j :: u8) then - 1 else 0)" for u v
    using assms by (simp_all add: simde_ok_def simde_lanes8_def)
  show ?thesis by (simp add: simde_mm_cmpgt_epu8_def Let_def w lane_bitwise l flip_sign_8 word_less_def)
qed

lemma cmpgt_lane16:
  assumes "simde_ok S" "j < 8"
  shows "(lane (simde_mm_cmpgt_epu16 S a b) j :: u16) = (if (lane b j :: u16) < lane a j then - 1 else 0)"
proof -
  have w: "mm_xor_si128 S u v = u XOR v" for u v using assms(1) by (simp add: simde_ok_def simde_wide_def)
  have l: "lane (mm_set1_epi16 S 32768) j = (32768 :: u16)"
    "(lane (mm_cmpgt_epi16 S u v) j :: u16) = (if sint (lane v j :: u16) < sint (lane u j :: u16) then - 1 else 0)" for u v
    using assms by (simp_all add: simde_ok_def simde_lanes16_def)
  show ?thesis by (simp add: simde_mm_cmpgt_epu16_def Let_def w lane_bitwise l flip_sign_16 word_less_def)
qed

lemma small_bit: "unat (v :: u8) \<le> 15 \<Longrightarrow> \<not> bit v 7"
proof -
  assume "unat v \<le> 15"
  then have "\<not> bit (unat v) 7" by (simp add: bit_iff_odd)
  then show ?thesis by (simp add: bit_unsigned_iff)
qed

lemma and_15_unat: "unat (v AND 15 :: u8) = unat v mod 16"
proof -
  have "(15 :: u8) = mask 4" by (simp add: mask_eq_exp_minus_1)
  then show ?thesis using word_and_mask_unat [of v 4] by simp
qed

lemma small_and: "unat (v :: u8) \<le> 15 \<Longrightarrow> v AND 15 = v"
  by (simp add: word_unat_eq_iff and_15_unat)

text \<open>The permutation picks, for each byte, one of the 32 bytes of both vectors in guest order.\<close>

lemma perm_lane:
  assumes "simde_ok S" "j < 16"
  shows "(lane (simde_mm_perm_epi8 S a b c) j :: u8) =
     (let i = unat (lane c j AND 15 :: u8) in if bit (lane c j :: u8) 4 then lane b (15 - i) else lane a (15 - i))"
proof -
  let ?c = "lane c j :: u8" and ?e = "mm_sub_epi8 S (mm_set1_epi8 S 0xF) (mm_and_si128 S c (mm_set1_epi8 S 0xF))"
  have w: "mm_and_si128 S u v = u AND v" for u v using assms(1) by (simp add: simde_ok_def simde_wide_def)
  have e: "lane ?e j = 15 - (?c AND 15)"
    using assms by (simp add: simde_ok_def simde_lanes8_def w lane_bitwise)
  have le: "?c AND 15 \<le> 15" by (rule word_and_le1)
  then have ue: "unat (lane ?e j :: u8) = 15 - unat (?c AND 15)"
    unfolding e by (simp add: unat_sub)
  have b7: "\<not> bit (lane ?e j :: u8) 7"
    using ue by (intro small_bit) simp
  have a15: "lane ?e j AND 15 = (lane ?e j :: u8)"
    using ue by (intro small_and) simp
  have s: "bit (lane (mm_slli_epi32 S c 3) j :: u8) 7 = bit ?c 4"
  proof -
    have k: "j div 4 < 4" "8 * j + 7 = 32 * (j div 4) + (8 * (j mod 4) + 7)" "8 * j + 4 = 32 * (j div 4) + (8 * (j mod 4) + 4)"
      using assms(2) div_mult_mod_eq [of j 4] by (simp, linarith+)
    have r: "8 * (j mod 4) + 7 < 32" "8 * (j mod 4) + 7 - 3 = 8 * (j mod 4) + 4" using mod_less_divisor [of 4 j] by (linarith, simp)
    have "bit (lane (mm_slli_epi32 S c 3) j :: u8) 7 = bit (lane (mm_slli_epi32 S c 3) (j div 4) :: u32) (8 * (j mod 4) + 7)"
      using k(2) r(1) by (simp add: bit_lane add.assoc)
    also have "lane (mm_slli_epi32 S c 3) (j div 4) = push_bit 3 (lane c (j div 4) :: u32)"
      using assms(1) k(1) by (simp add: simde_ok_def simde_lanes32_def)
    also have "bit (push_bit 3 (lane c (j div 4) :: u32)) (8 * (j mod 4) + 7) = bit ?c 4"
      using k(3) r by (simp add: bit_push_bit_iff bit_lane ac_simps)
    finally show ?thesis .
  qed
  show ?thesis
    using assms s b7 ue a15 unfolding simde_mm_perm_epi8_def Let_def
    by (simp add: simde_ok_def simde_lanes8_def)
qed

subsection \<open>Shifts of the whole register\<close>

lemma vsl_shifts: "simde_mm_vsl a b = push_bit (unat (lane b 0 AND 7 :: u8)) a"
proof -
  let ?s = "unat (lane b 0 AND 7 :: u8)"
  have s: "?s < 8"
  proof -
    have "lane b 0 AND 7 \<le> (7 :: u8)" by (rule word_and_le1)
    then show ?thesis by (simp add: word_le_nat_alt)
  qed
  show ?thesis
  proof (cases "?s = 0")
    case True
    then show ?thesis by (simp add: simde_mm_vsl_def Let_def)
  next
    case False
    have "(lane (simde_mm_vsl a b) j :: u8) = lane (push_bit ?s a) j" if j: "j < 16" for j
    proof (rule bit_word_eqI)
      fix i assume i: "i < LENGTH(8)"
      have "lane (simde_mm_vsl a b) j = push_bit ?s (lane a j :: u8) OR (if j = 0 then 0 else drop_bit (8 - ?s) (lane a (j - 1)))"
        using False j by (simp add: simde_mm_vsl_def Let_def lane_vec_of)
      then have l: "bit (lane (simde_mm_vsl a b) j :: u8) i =
          (?s \<le> i \<and> bit a (8 * j + (i - ?s)) \<or> j \<noteq> 0 \<and> 8 - ?s + i < 8 \<and> bit a (8 * (j - 1) + (8 - ?s + i)))"
        using i less_imp_diff_less [of i 8 ?s] by (auto simp: bit_or_iff bit_push_bit_iff bit_drop_bit_eq bit_lane)
      have r: "bit (lane (push_bit ?s a) j :: u8) i = (?s \<le> 8 * j + i \<and> bit a (8 * j + i - ?s))"
        using i j by (simp add: bit_push_bit_iff bit_lane)
      show "bit (lane (simde_mm_vsl a b) j :: u8) i = bit (lane (push_bit ?s a) j :: u8) i"
      proof (cases "?s \<le> i")
        case True
        then have "8 * j + (i - ?s) = 8 * j + i - ?s" "\<not> 8 - ?s + i < 8" using s by linarith+
        then show ?thesis using l r True by simp
      next
        case below: False
        show ?thesis
        proof (cases j)
          case 0
          then show ?thesis using l r below by simp
        next
          case (Suc k)
          then have "8 * (j - 1) + (8 - ?s + i) = 8 * j + i - ?s" "8 - ?s + i < 8" "?s \<le> 8 * j + i" using s below by linarith+
          then show ?thesis using l r below Suc by (simp add: ac_simps)
        qed
      qed
    qed
    then show ?thesis by (rule vec_eq_lanes)
  qed
qed

lemma vec_eq_lanes32:
  assumes "\<And>j. j < 4 \<Longrightarrow> (lane a j :: u32) = lane b j"
  shows "a = b"
proof (rule bit_word_eqI)
  fix n assume "n < LENGTH(128)"
  then have n: "n div 32 < 4" by simp
  have "bit (lane v (n div 32) :: u32) (n mod 32) = bit v n" for v by (simp add: bit_lane)
  then show "bit a n = bit b n" using assms [OF n] by metis
qed

lemma unat_lane_0: "unat (lane v 0 :: 'a::len word) = unat v mod 2 ^ LENGTH('a)"
  by (simp add: lane_def unsigned_ucast_eq take_bit_eq_mod)

lemma and_7_unat: "unat (v AND 7 :: 'a::len word) = unat v mod 8"
proof -
  have "(7 :: 'a word) = mask 3" by (simp add: mask_eq_exp_minus_1)
  then show ?thesis using word_and_mask_unat [of v 3] by simp
qed

lemma vsr_shifts:
  assumes "simde_ok S"
  shows "simde_mm_vsr S a b = drop_bit (unat (lane b 0 AND 7 :: u8)) a"
proof -
  let ?s = "unat (lane b 0 AND 7 :: u8)" and ?b = "mm_srli_epi64 S (mm_slli_epi64 S b 61) 61"
  have s: "?s = unat b mod 8" by (simp add: and_7_unat unat_lane_0 mod_mod_cancel)
  then have s8: "?s < 8" by simp
  have "lane ?b 0 = (drop_bit 61 (push_bit 61 (lane b 0)) :: u64)"
    using assms by (simp add: simde_ok_def simde_wide_def)
  also have "\<dots> = lane b 0 AND 7"
  proof -
    have "drop_bit 61 (push_bit 61 (lane b 0)) = (take_bit 3 (lane b 0) :: u64)"
      by (rule bit_word_eqI) (auto simp: bit_simps)
    then show ?thesis by (simp add: take_bit_eq_mask mask_eq_exp_minus_1)
  qed
  finally have b: "unat (lane ?b 0 :: u64) = ?s" unfolding s by (simp add: and_7_unat unat_lane_0 mod_mod_cancel)
  have srl: "bit (lane (mm_srl_epi64 S v ?b) k :: u32) i =
      (?s + (32 * (k mod 2) + i) < 64 \<and> bit v (64 * (k div 2) + (?s + (32 * (k mod 2) + i))))" if "i < 32" "k < 4" for v k i
  proof -
    have k: "k div 2 < 2" "32 * k + i = 64 * (k div 2) + (32 * (k mod 2) + i)" "32 * (k mod 2) + i < 64"
      using that div_mult_mod_eq [of k 2] mod_less_divisor [of 2 k] by (simp, linarith+)
    have "bit (lane (mm_srl_epi64 S v ?b) k :: u32) i = bit (lane (mm_srl_epi64 S v ?b) (k div 2) :: u64) (32 * (k mod 2) + i)"
      using k(3) that(1) by (simp add: bit_lane k(2))
    also have "lane (mm_srl_epi64 S v ?b) (k div 2) = (drop_bit ?s (lane v (k div 2)) :: u64)"
      using assms k(1) b by (simp add: simde_ok_def simde_wide_def)
    finally show ?thesis by (simp add: bit_drop_bit_eq bit_lane)
  qed
  have "(lane (simde_mm_vsr S a b) j :: u32) = lane (drop_bit ?s a) j" if j: "j < 4" for j
  proof (rule bit_word_eqI)
    fix i assume "i < LENGTH(32)"
    then have i: "i < 32" by simp
    have v: "lane (simde_mm_vsr S a b) j = (if j = 1 then lane (mm_srl_epi64 S (drop_bit 32 a) ?b) 0
        else lane (mm_srl_epi64 S a ?b) j :: u32)"
      using assms j by (simp add: simde_mm_vsr_def Let_def simde_ok_def simde_wide_def simde_lanes32_def)
    have top: "\<not> bit a (?s + (96 + i))" if "\<not> ?s + (32 + i) < 64"
      using that bit_imp_le_length [of a "?s + (96 + i)"] by auto
    have shift: "64 + (?s + i) = ?s + (64 + i)" "64 + (?s + (32 + i)) = ?s + (96 + i)" "32 + (?s + i) = ?s + (32 + i)" by simp_all
    consider "j = 0" | "j = 1" | "j = 2" | "j = 3" using j by linarith
    then show "bit (lane (simde_mm_vsr S a b) j :: u32) i = bit (lane (drop_bit ?s a) j :: u32) i"
    proof cases
      case 4
      then show ?thesis using v srl [OF i, of 3 a] i top shift by (auto simp: bit_lane bit_drop_bit_eq)
    qed (use v srl [OF i, of 0 a] srl [OF i, of 0 "drop_bit 32 a"] srl [OF i, of 2 a] i s8 shift in \<open>simp_all add: bit_lane bit_drop_bit_eq\<close>)
  qed
  then show ?thesis by (rule vec_eq_lanes32)
qed

subsection \<open>A model of the intrinsics\<close>

definition ex_simde :: simde where
  "ex_simde = \<lparr>
     mm_set1_epi8 = (\<lambda>x. vec_of (\<lambda>_. x)), mm_set1_epi16 = (\<lambda>x. vec_of (\<lambda>_. x)),
     mm_and_si128 = (AND), mm_xor_si128 = (XOR),
     mm_add_epi32 = (\<lambda>a b. vec_of (\<lambda>j. lane a j + lane b j :: u32)),
     mm_sub_epi8 = (\<lambda>a b. vec_of (\<lambda>j. lane a j - lane b j :: u8)),
     mm_min_epu32 = (\<lambda>a b. vec_of (\<lambda>j. min (lane a j) (lane b j) :: u32)),
     mm_avg_epu8 = (\<lambda>a b. vec_of (\<lambda>j. word_of_int ((uint (lane a j :: u8) + uint (lane b j :: u8) + 1) div 2) :: u8)),
     mm_avg_epu16 = (\<lambda>a b. vec_of (\<lambda>j. word_of_int ((uint (lane a j :: u16) + uint (lane b j :: u16) + 1) div 2) :: u16)),
     mm_cmpeq_epi32 = (\<lambda>a b. vec_of (\<lambda>j. if (lane a j :: u32) = lane b j then - 1 else (0 :: u32))),
     mm_cmpgt_epi8 = (\<lambda>a b. vec_of (\<lambda>j. if sint (lane b j :: u8) < sint (lane a j :: u8) then - 1 else (0 :: u8))),
     mm_cmpgt_epi16 = (\<lambda>a b. vec_of (\<lambda>j. if sint (lane b j :: u16) < sint (lane a j :: u16) then - 1 else (0 :: u16))),
     mm_shuffle_epi8 = (\<lambda>a b. vec_of (\<lambda>j. if bit (lane b j :: u8) 7 then 0 else lane a (unat (lane b j AND 15 :: u8)) :: u8)),
     mm_blendv_epi8 = (\<lambda>a b c. vec_of (\<lambda>j. if bit (lane c j :: u8) 7 then lane b j else lane a j :: u8)),
     mm_slli_epi32 = (\<lambda>a n. vec_of (\<lambda>j. push_bit n (lane a j) :: u32)),
     mm_slli_epi64 = (\<lambda>a n. vec_of (\<lambda>j. push_bit n (lane a j) :: u64)),
     mm_srli_epi64 = (\<lambda>a n. vec_of (\<lambda>j. drop_bit n (lane a j) :: u64)),
     mm_srl_epi64 = (\<lambda>a b. vec_of (\<lambda>j. drop_bit (unat (lane b 0 :: u64)) (lane a j) :: u64)),
     mm_srli_si128 = (\<lambda>a n. drop_bit (8 * n) a),
     mm_insert_ps = (\<lambda>a b n. vec_of (\<lambda>j. if j = 1 then lane b 0 else lane a j :: u32))\<rparr>"

lemma uint_average:
  fixes x y :: "'a::len word"
  shows "uint (word_of_int ((uint x + uint y + 1) div 2) :: 'a word) = (uint x + uint y + 1) div 2"
proof -
  have "uint x < 2 ^ LENGTH('a)" "uint y < 2 ^ LENGTH('a)" by (rule unsigned_less)+
  then have "(uint x + uint y + 1) div 2 < 2 ^ LENGTH('a)" by linarith
  moreover have "0 \<le> uint x" "0 \<le> uint y" by (rule unsigned_greater_eq)+
  ultimately show ?thesis by (simp add: uint_word_of_int_eq take_bit_int_eq_self)
qed

lemma ex_simde_ok: "simde_ok ex_simde"
  unfolding simde_ok_def
proof (intro conjI)
  show "simde_lanes8 ex_simde" by (simp add: simde_lanes8_def ex_simde_def lane_vec_of uint_average)
  show "simde_lanes16 ex_simde" by (simp add: simde_lanes16_def ex_simde_def lane_vec_of uint_average)
  show "simde_lanes32 ex_simde" by (simp add: simde_lanes32_def ex_simde_def lane_vec_of)
  show "simde_wide ex_simde" by (simp add: simde_wide_def ex_simde_def lane_vec_of)
qed

text \<open>
  C27. The vector helpers that have no counterpart on the host compute, in every lane, what the guest
  instruction does: the saturating sum of unsigned words, the rounded averages of signed bytes and
  halfwords, the unsigned comparisons, and the permutation of the 32 bytes of two registers in
  guest order.
\<close>

theorem vector_helpers_correct:
  assumes "simde_ok S"
  shows "(\<forall>j<4. unat (lane (simde_mm_adds_epu32 S a b) j :: u32) = min (unat (lane a j :: u32) + unat (lane b j :: u32)) 4294967295)
     \<and> (\<forall>j<16. sint (lane (simde_mm_avg_epi8 S a b) j :: u8) = (sint (lane a j :: u8) + sint (lane b j :: u8) + 1) div 2
         \<and> (lane (simde_mm_cmpgt_epu8 S a b) j :: u8) = (if (lane b j :: u8) < lane a j then - 1 else 0)
         \<and> (lane (simde_mm_perm_epi8 S a b c) j :: u8) =
             (let i = unat (lane c j AND 15 :: u8) in if bit (lane c j :: u8) 4 then lane b (15 - i) else lane a (15 - i)))
     \<and> (\<forall>j<8. sint (lane (simde_mm_avg_epi16 S a b) j :: u16) = (sint (lane a j :: u16) + sint (lane b j :: u16) + 1) div 2
         \<and> (lane (simde_mm_cmpgt_epu16 S a b) j :: u16) = (if (lane b j :: u16) < lane a j then - 1 else 0))"
  using adds_lane [OF assms] avg_lane8 [OF assms] avg_lane16 [OF assms] cmpgt_lane8 [OF assms] cmpgt_lane16 [OF assms]
    perm_lane [OF assms]
  by blast

lemma vector_helpers_correct_witness:
  "unat (lane (simde_mm_adds_epu32 ex_simde (vec_of (\<lambda>_. - 1 :: u32)) (vec_of (\<lambda>_. 5 :: u32))) 3 :: u32) = 4294967295"
  using conjunct1 [OF vector_helpers_correct [OF ex_simde_ok, of "vec_of (\<lambda>_. - 1 :: u32)" "vec_of (\<lambda>_. 5 :: u32)"],
      rule_format, of 3]
  by (simp add: lane_vec_of unsigned_minus_1_eq_mask mask_eq_exp_minus_1)

text \<open>
  The shifts of a whole register by up to seven bits are shifts of the 128-bit value: the left
  one works byte by byte with the carry of the byte below, the right one on the two halves with one
  word put back in between.
\<close>

lemma vector_shifts_correct:
  assumes "simde_ok S"
  shows "simde_mm_vsl a b = push_bit (unat (lane b 0 AND 7 :: u8)) a
     \<and> simde_mm_vsr S a b = drop_bit (unat (lane b 0 AND 7 :: u8)) a"
  using vsl_shifts vsr_shifts [OF assms] by blast

lemma vector_shifts_correct_witness:
  "simde_mm_vsl 0x80 3 = 0x400 \<and> simde_mm_vsr ex_simde 0x10000000000000000 3 = 0x2000000000000000"
proof -
  have "lane (3 :: vec) 0 = (3 :: u8)" by (simp add: lane_def)
  then show ?thesis
    using vector_shifts_correct [OF ex_simde_ok, of "0x80" 3] vector_shifts_correct [OF ex_simde_ok, of "0x10000000000000000" 3]
    by simp
qed

end
