(* ===== verification/VectorLoad.thy ===== *)
theory VectorLoad
  imports Vector
begin

text \<open>
  The tables of \<open>XenonUtils/ppc_context.h\<close> and the vector loads the recompiler emits with them:
  an unaligned load of the guest is two aligned loads of the host whose bytes are shuffled into
  place.
\<close>

unbundle bit_operations_syntax

subsection \<open>Tables\<close>

definition VectorMaskL :: "u8 list" where
  "VectorMaskL =
     [0x0F, 0x0E, 0x0D, 0x0C, 0x0B, 0x0A, 0x09, 0x08, 0x07, 0x06, 0x05, 0x04, 0x03, 0x02, 0x01, 0x00,
      0xFF, 0x0F, 0x0E, 0x0D, 0x0C, 0x0B, 0x0A, 0x09, 0x08, 0x07, 0x06, 0x05, 0x04, 0x03, 0x02, 0x01,
      0xFF, 0xFF, 0x0F, 0x0E, 0x0D, 0x0C, 0x0B, 0x0A, 0x09, 0x08, 0x07, 0x06, 0x05, 0x04, 0x03, 0x02,
      0xFF, 0xFF, 0xFF, 0x0F, 0x0E, 0x0D, 0x0C, 0x0B, 0x0A, 0x09, 0x08, 0x07, 0x06, 0x05, 0x04, 0x03,
      0xFF, 0xFF, 0xFF, 0xFF, 0x0F, 0x0E, 0x0D, 0x0C, 0x0B, 0x0A, 0x09, 0x08, 0x07, 0x06, 0x05, 0x04,
      0xFF, 0xFF, 0xFF, 0xFF, 0xFF, 0x0F, 0x0E, 0x0D, 0x0C, 0x0B, 0x0A, 0x09, 0x08, 0x07, 0x06, 0x05,
      0xFF, 0xFF, 0xFF, 0xFF, 0xFF, 0xFF, 0x0F, 0x0E, 0x0D, 0x0C, 0x0B, 0x0A, 0x09, 0x08, 0x07, 0x06,
      0xFF, 0xFF, 0xFF, 0xFF, 0xFF, 0xFF, 0xFF, 0x0F, 0x0E, 0x0D, 0x0C, 0x0B, 0x0A, 0x09, 0x08, 0x07,
      0xFF, 0xFF, 0xFF, 0xFF, 0xFF, 0xFF, 0xFF, 0xFF, 0x0F, 0x0E, 0x0D, 0x0C, 0x0B, 0x0A, 0x09, 0x08,
      0xFF, 0xFF, 0xFF, 0xFF, 0xFF, 0xFF, 0xFF, 0xFF, 0xFF, 0x0F, 0x0E, 0x0D, 0x0C, 0x0B, 0x0A, 0x09,
      0xFF, 0xFF, 0xFF, 0xFF, 0xFF, 0xFF, 0xFF, 0xFF, 0xFF, 0xFF, 0x0F, 0x0E, 0x0D, 0x0C, 0x0B, 0x0A,
      0xFF, 0xFF, 0xFF, 0xFF, 0xFF, 0xFF, 0xFF, 0xFF, 0xFF, 0xFF, 0xFF, 0x0F, 0x0E, 0x0D, 0x0C, 0x0B,
      0xFF, 0xFF, 0xFF, 0xFF, 0xFF, 0xFF, 0xFF, 0xFF, 0xFF, 0xFF, 0xFF, 0xFF, 0x0F, 0x0E, 0x0D, 0x0C,
      0xFF, 0xFF, 0xFF, 0xFF, 0xFF, 0xFF, 0xFF, 0xFF, 0xFF, 0xFF, 0xFF, 0xFF, 0xFF, 0x0F, 0x0E, 0x0D,
      0xFF, 0xFF, 0xFF, 0xFF, 0xFF, 0xFF, 0xFF, 0xFF, 0xFF, 0xFF, 0xFF, 0xFF, 0xFF, 0xFF, 0x0F, 0x0E,
      0xFF, 0xFF, 0xFF, 0xFF, 0xFF, 0xFF, 0xFF, 0xFF, 0xFF, 0xFF, 0xFF, 0xFF, 0xFF, 0xFF, 0xFF, 0x0F]"

definition VectorMaskR :: "u8 list" where
  "VectorMaskR =
     [0xFF, 0xFF, 0xFF, 0xFF, 0xFF, 0xFF, 0xFF, 0xFF, 0xFF, 0xFF, 0xFF, 0xFF, 0xFF, 0xFF, 0xFF, 0xFF,
      0x00, 0xFF, 0xFF, 0xFF, 0xFF, 0xFF, 0xFF, 0xFF, 0xFF, 0xFF, 0xFF, 0xFF, 0xFF, 0xFF, 0xFF, 0xFF,
      0x01, 0x00, 0xFF, 0xFF, 0xFF, 0xFF, 0xFF, 0xFF, 0xFF, 0xFF, 0xFF, 0xFF, 0xFF, 0xFF, 0xFF, 0xFF,
      0x02, 0x01, 0x00, 0xFF, 0xFF, 0xFF, 0xFF, 0xFF, 0xFF, 0xFF, 0xFF, 0xFF, 0xFF, 0xFF, 0xFF, 0xFF,
      0x03, 0x02, 0x01, 0x00, 0xFF, 0xFF, 0xFF, 0xFF, 0xFF, 0xFF, 0xFF, 0xFF, 0xFF, 0xFF, 0xFF, 0xFF,
      0x04, 0x03, 0x02, 0x01, 0x00, 0xFF, 0xFF, 0xFF, 0xFF, 0xFF, 0xFF, 0xFF, 0xFF, 0xFF, 0xFF, 0xFF,
      0x05, 0x04, 0x03, 0x02, 0x01, 0x00, 0xFF, 0xFF, 0xFF, 0xFF, 0xFF, 0xFF, 0xFF, 0xFF, 0xFF, 0xFF,
      0x06, 0x05, 0x04, 0x03, 0x02, 0x01, 0x00, 0xFF, 0xFF, 0xFF, 0xFF, 0xFF, 0xFF, 0xFF, 0xFF, 0xFF,
      0x07, 0x06, 0x05, 0x04, 0x03, 0x02, 0x01, 0x00, 0xFF, 0xFF, 0xFF, 0xFF, 0xFF, 0xFF, 0xFF, 0xFF,
      0x08, 0x07, 0x06, 0x05, 0x04, 0x03, 0x02, 0x01, 0x00, 0xFF, 0xFF, 0xFF, 0xFF, 0xFF, 0xFF, 0xFF,
      0x09, 0x08, 0x07, 0x06, 0x05, 0x04, 0x03, 0x02, 0x01, 0x00, 0xFF, 0xFF, 0xFF, 0xFF, 0xFF, 0xFF,
      0x0A, 0x09, 0x08, 0x07, 0x06, 0x05, 0x04, 0x03, 0x02, 0x01, 0x00, 0xFF, 0xFF, 0xFF, 0xFF, 0xFF,
      0x0B, 0x0A, 0x09, 0x08, 0x07, 0x06, 0x05, 0x04, 0x03, 0x02, 0x01, 0x00, 0xFF, 0xFF, 0xFF, 0xFF,
      0x0C, 0x0B, 0x0A, 0x09, 0x08, 0x07, 0x06, 0x05, 0x04, 0x03, 0x02, 0x01, 0x00, 0xFF, 0xFF, 0xFF,
      0x0D, 0x0C, 0x0B, 0x0A, 0x09, 0x08, 0x07, 0x06, 0x05, 0x04, 0x03, 0x02, 0x01, 0x00, 0xFF, 0xFF,
      0x0E, 0x0D, 0x0C, 0x0B, 0x0A, 0x09, 0x08, 0x07, 0x06, 0x05, 0x04, 0x03, 0x02, 0x01, 0x00, 0xFF]"

definition VectorShiftTableL :: "u8 list" where
  "VectorShiftTableL =
     [0x0F, 0x0E, 0x0D, 0x0C, 0x0B, 0x0A, 0x09, 0x08, 0x07, 0x06, 0x05, 0x04, 0x03, 0x02, 0x01, 0x00,
      0x10, 0x0F, 0x0E, 0x0D, 0x0C, 0x0B, 0x0A, 0x09, 0x08, 0x07, 0x06, 0x05, 0x04, 0x03, 0x02, 0x01,
      0x11, 0x10, 0x0F, 0x0E, 0x0D, 0x0C, 0x0B, 0x0A, 0x09, 0x08, 0x07, 0x06, 0x05, 0x04, 0x03, 0x02,
      0x12, 0x11, 0x10, 0x0F, 0x0E, 0x0D, 0x0C, 0x0B, 0x0A, 0x09, 0x08, 0x07, 0x06, 0x05, 0x04, 0x03,
      0x13, 0x12, 0x11, 0x10, 0x0F, 0x0E, 0x0D, 0x0C, 0x0B, 0x0A, 0x09, 0x08, 0x07, 0x06, 0x05, 0x04,
      0x14, 0x13, 0x12, 0x11, 0x10, 0x0F, 0x0E, 0x0D, 0x0C, 0x0B, 0x0A, 0x09, 0x08, 0x07, 0x06, 0x05,
      0x15, 0x14, 0x13, 0x12, 0x11, 0x10, 0x0F, 0x0E, 0x0D, 0x0C, 0x0B, 0x0A, 0x09, 0x08, 0x07, 0x06,
      0x16, 0x15, 0x14, 0x13, 0x12, 0x11, 0x10, 0x0F, 0x0E, 0x0D, 0x0C, 0x0B, 0x0A, 0x09, 0x08, 0x07,
      0x17, 0x16, 0x15, 0x14, 0x13, 0x12, 0x11, 0x10, 0x0F, 0x0E, 0x0D, 0x0C, 0x0B, 0x0A, 0x09, 0x08,
      0x18, 0x17, 0x16, 0x15, 0x14, 0x13, 0x12, 0x11, 0x10, 0x0F, 0x0E, 0x0D, 0x0C, 0x0B, 0x0A, 0x09,
      0x19, 0x18, 0x17, 0x16, 0x15, 0x14, 0x13, 0x12, 0x11, 0x10, 0x0F, 0x0E, 0x0D, 0x0C, 0x0B, 0x0A,
      0x1A, 0x19, 0x18, 0x17, 0x16, 0x15, 0x14, 0x13, 0x12, 0x11, 0x10, 0x0F, 0x0E, 0x0D, 0x0C, 0x0B,
      0x1B, 0x1A, 0x19, 0x18, 0x17, 0x16, 0x15, 0x14, 0x13, 0x12, 0x11, 0x10, 0x0F, 0x0E, 0x0D, 0x0C,
      0x1C, 0x1B, 0x1A, 0x19, 0x18, 0x17, 0x16, 0x15, 0x14, 0x13, 0x12, 0x11, 0x10, 0x0F, 0x0E, 0x0D,
      0x1D, 0x1C, 0x1B, 0x1A, 0x19, 0x18, 0x17, 0x16, 0x15, 0x14, 0x13, 0x12, 0x11, 0x10, 0x0F, 0x0E,
      0x1E, 0x1D, 0x1C, 0x1B, 0x1A, 0x19, 0x18, 0x17, 0x16, 0x15, 0x14, 0x13, 0x12, 0x11, 0x10, 0x0F]"

definition VectorShiftTableR :: "u8 list" where
  "VectorShiftTableR =
     [0x1F, 0x1E, 0x1D, 0x1C, 0x1B, 0x1A, 0x19, 0x18, 0x17, 0x16, 0x15, 0x14, 0x13, 0x12, 0x11, 0x10,
      0x1E, 0x1D, 0x1C, 0x1B, 0x1A, 0x19, 0x18, 0x17, 0x16, 0x15, 0x14, 0x13, 0x12, 0x11, 0x10, 0x0F,
      0x1D, 0x1C, 0x1B, 0x1A, 0x19, 0x18, 0x17, 0x16, 0x15, 0x14, 0x13, 0x12, 0x11, 0x10, 0x0F, 0x0E,
      0x1C, 0x1B, 0x1A, 0x19, 0x18, 0x17, 0x16, 0x15, 0x14, 0x13, 0x12, 0x11, 0x10, 0x0F, 0x0E, 0x0D,
      0x1B, 0x1A, 0x19, 0x18, 0x17, 0x16, 0x15, 0x14, 0x13, 0x12, 0x11, 0x10, 0x0F, 0x0E, 0x0D, 0x0C,
      0x1A, 0x19, 0x18, 0x17, 0x16, 0x15, 0x14, 0x13, 0x12, 0x11, 0x10, 0x0F, 0x0E, 0x0D, 0x0C, 0x0B,
      0x19, 0x18, 0x17, 0x16, 0x15, 0x14, 0x13, 0x12, 0x11, 0x10, 0x0F, 0x0E, 0x0D, 0x0C, 0x0B, 0x0A,
      0x18, 0x17, 0x16, 0x15, 0x14, 0x13, 0x12, 0x11, 0x10, 0x0F, 0x0E, 0x0D, 0x0C, 0x0B, 0x0A, 0x09,
      0x17, 0x16, 0x15, 0x14, 0x13, 0x12, 0x11, 0x10, 0x0F, 0x0E, 0x0D, 0x0C, 0x0B, 0x0A, 0x09, 0x08,
      0x16, 0x15, 0x14, 0x13, 0x12, 0x11, 0x10, 0x0F, 0x0E, 0x0D, 0x0C, 0x0B, 0x0A, 0x09, 0x08, 0x07,
      0x15, 0x14, 0x13, 0x12, 0x11, 0x10, 0x0F, 0x0E, 0x0D, 0x0C, 0x0B, 0x0A, 0x09, 0x08, 0x07, 0x06,
      0x14, 0x13, 0x12, 0x11, 0x10, 0x0F, 0x0E, 0x0D, 0x0C, 0x0B, 0x0A, 0x09, 0x08, 0x07, 0x06, 0x05,
      0x13, 0x12, 0x11, 0x10, 0x0F, 0x0E, 0x0D, 0x0C, 0x0B, 0x0A, 0x09, 0x08, 0x07, 0x06, 0x05, 0x04,
      0x12, 0x11, 0x10, 0x0F, 0x0E, 0x0D, 0x0C, 0x0B, 0x0A, 0x09, 0x08, 0x07, 0x06, 0x05, 0x04, 0x03,
      0x11, 0x10, 0x0F, 0x0E, 0x0D, 0x0C, 0x0B, 0x0A, 0x09, 0x08, 0x07, 0x06, 0x05, 0x04, 0x03, 0x02,
      0x10, 0x0F, 0x0E, 0x0D, 0x0C, 0x0B, 0x0A, 0x09, 0x08, 0x07, 0x06, 0x05, 0x04, 0x03, 0x02, 0x01]"

text \<open>Row \<open>s\<close> of a table, as a function of the byte.\<close>

definition mask_l :: "nat \<Rightarrow> nat \<Rightarrow> u8" where "mask_l s j = (if s \<le> j then of_nat (s + 15 - j) else 0xFF)"
definition mask_r :: "nat \<Rightarrow> nat \<Rightarrow> u8" where "mask_r s j = (if j < s then of_nat (s - 1 - j) else 0xFF)"
definition shift_l :: "nat \<Rightarrow> nat \<Rightarrow> u8" where "shift_l s j = of_nat (s + 15 - j)"
definition shift_r :: "nat \<Rightarrow> nat \<Rightarrow> u8" where "shift_r s j = of_nat (31 - s - j)"

definition rows :: "(nat \<Rightarrow> nat \<Rightarrow> u8) \<Rightarrow> u8 list" where
  "rows f = concat (map (\<lambda>s. map (f s) [0..<16]) [0..<16])"

lemma upt_16: "[0..<16] = [0, 1, 2, 3, 4, 5, 6, 7, 8, 9, 10, 11, 12, 13, 14, 15 :: nat]"
  by (simp add: upt_rec)

lemma VectorMaskL_rows: "VectorMaskL = rows mask_l"
  by (simp add: VectorMaskL_def rows_def upt_16 mask_l_def)

lemma VectorMaskR_rows: "VectorMaskR = rows mask_r"
  by (simp add: VectorMaskR_def rows_def upt_16 mask_r_def)

lemma VectorShiftTableL_rows: "VectorShiftTableL = rows shift_l"
  by (simp add: VectorShiftTableL_def rows_def upt_16 shift_l_def)

lemma VectorShiftTableR_rows: "VectorShiftTableR = rows shift_r"
  by (simp add: VectorShiftTableR_def rows_def upt_16 shift_r_def)

lemma rows_nth: "s < 16 \<Longrightarrow> j < 16 \<Longrightarrow> rows f ! (s * 16 + j) = f s j"
proof -
  have len: "length (concat (map (\<lambda>s. map (f s) [0..<16]) [0..<n])) = n * 16" for n
    by (induction n) simp_all
  have "concat (map (\<lambda>s. map (f s) [0..<16]) [0..<n]) ! (s * 16 + j) = f s j" if "s < n" "j < 16" for n
    using that
  proof (induction n)
    case (Suc n)
    show ?case
    proof (cases "s = n")
      case True
      then show ?thesis using Suc.prems len [of n] by (simp add: nth_append)
    next
      case False
      then have "s < n" using Suc.prems by simp
      moreover have "s * 16 + j < n * 16" using \<open>s < n\<close> Suc.prems(2) by linarith
      ultimately show ?thesis using Suc len [of n] by (simp add: nth_append)
    qed
  qed simp
  then show "s < 16 \<Longrightarrow> j < 16 \<Longrightarrow> rows f ! (s * 16 + j) = f s j" by (simp add: rows_def)
qed

subsection \<open>The emitted loads\<close>

text \<open>
  \<open>m\<close> is the memory of the guest, byte by byte. The emitted line of each load, on the effective
  address: an aligned host load through the row of a table, \<open>(ea & 0xF) * 16\<close> bytes into it.
\<close>

definition load_si128 :: "(nat \<Rightarrow> u8) \<Rightarrow> nat \<Rightarrow> vec" where
  "load_si128 m p = vec_of (\<lambda>j. m (p + j))"

definition table_row :: "u8 list \<Rightarrow> nat \<Rightarrow> vec" where
  "table_row t ea = vec_of (\<lambda>j. t ! (ea mod 16 * 16 + j))"

definition emitted_lvx :: "simde \<Rightarrow> (nat \<Rightarrow> u8) \<Rightarrow> nat \<Rightarrow> vec" where
  "emitted_lvx S m ea = mm_shuffle_epi8 S (load_si128 m (ea - ea mod 16)) (table_row VectorMaskL 0)"

definition emitted_lvlx :: "simde \<Rightarrow> (nat \<Rightarrow> u8) \<Rightarrow> nat \<Rightarrow> vec" where
  "emitted_lvlx S m ea = mm_shuffle_epi8 S (load_si128 m (ea - ea mod 16)) (table_row VectorMaskL ea)"

definition emitted_lvrx :: "simde \<Rightarrow> (nat \<Rightarrow> u8) \<Rightarrow> nat \<Rightarrow> vec" where
  "emitted_lvrx S m ea =
     (if ea mod 16 \<noteq> 0 then mm_shuffle_epi8 S (load_si128 m (ea - ea mod 16)) (table_row VectorMaskR ea) else 0)"

definition emitted_lvsl :: "nat \<Rightarrow> vec" where
  "emitted_lvsl ea = table_row VectorShiftTableL ea"

definition emitted_lvsr :: "nat \<Rightarrow> vec" where
  "emitted_lvsr ea = table_row VectorShiftTableR ea"

text \<open>Sixteen bytes of the guest from an address on, in a host register.\<close>

definition guest_vector :: "(nat \<Rightarrow> u8) \<Rightarrow> nat \<Rightarrow> vec" where
  "guest_vector m ea = vec_of (\<lambda>j. m (ea + (15 - j)))"

lemma lane_row: "j < 16 \<Longrightarrow> lane (table_row (rows f) ea) j = f (ea mod 16) j"
  by (simp add: table_row_def lane_vec_of rows_nth)

lemma small_byte:
  assumes "n \<le> 15"
  shows "\<not> bit (of_nat n :: u8) 7" "unat (of_nat n AND 15 :: u8) = n"
proof -
  have u: "unat (of_nat n :: u8) = n" using assms by (simp add: unat_of_nat)
  then show "\<not> bit (of_nat n :: u8) 7" using assms by (intro small_bit) simp
  show "unat (of_nat n AND 15 :: u8) = n" using u assms by (simp add: and_15_unat)
qed

lemma shuffle_lane:
  assumes "simde_ok S" "j < 16"
  shows "(lane (mm_shuffle_epi8 S a b) j :: u8) =
     (if bit (lane b j :: u8) 7 then 0 else lane a (unat (lane b j AND 15 :: u8)))"
  using assms by (simp add: simde_ok_def simde_lanes8_def)

text \<open>Where the bytes lie, \<open>s\<close> bytes into a block.\<close>

lemma block_arith:
  fixes s ea j :: nat
  shows "s \<le> ea \<Longrightarrow> j < 16 \<Longrightarrow> ea - s + (s + 15 - j) = ea + (15 - j)"
    and "s \<le> ea \<Longrightarrow> j < s \<Longrightarrow> ea - s + (s - 1 - j) = ea - 1 - j"
    and "s < 16 \<Longrightarrow> s - 1 - j \<le> 15"
    and "s \<le> ea \<Longrightarrow> s \<le> j \<Longrightarrow> j < 16 \<Longrightarrow> ea - s + (15 - (j - s)) = ea + (15 - j)"
    and "s \<le> ea \<Longrightarrow> s < 16 \<Longrightarrow> j < s \<Longrightarrow> ea + 15 - (s - 1) + (15 - (j + 16 - s)) = ea + (15 - j)"
    and "s < 16 \<Longrightarrow> j < 16 \<Longrightarrow> s + 15 - j < 32"
    and "s \<le> j \<Longrightarrow> j < 16 \<Longrightarrow> s + 15 - j < 16"
    and "s \<le> j \<Longrightarrow> j < 16 \<Longrightarrow> 15 - (s + 15 - j) = j - s"
  by linarith+

lemma block_start: "(ea :: nat) mod 16 < 16" "ea mod 16 \<le> ea"
  by simp_all

text \<open>A shuffle of an aligned load through a row of a table: zero, or the byte the row names.\<close>

lemma shuffle_row:
  assumes "simde_ok S" "j < 16"
  shows "f (ea mod 16) j = 0xFF \<Longrightarrow> (lane (mm_shuffle_epi8 S a (table_row (rows f) ea)) j :: u8) = 0"
    and "f (ea mod 16) j = of_nat n \<Longrightarrow> n \<le> 15 \<Longrightarrow>
      (lane (mm_shuffle_epi8 S (load_si128 m p) (table_row (rows f) ea)) j :: u8) = m (p + n)"
proof -
  have r: "lane (table_row (rows f) ea) j = f (ea mod 16) j" using assms(2) by (rule lane_row)
  show "f (ea mod 16) j = 0xFF \<Longrightarrow> (lane (mm_shuffle_epi8 S a (table_row (rows f) ea)) j :: u8) = 0"
    by (simp add: shuffle_lane [OF assms] r bit_simps)
  assume n: "f (ea mod 16) j = of_nat n" "n \<le> 15"
  have "lane (mm_shuffle_epi8 S (load_si128 m p) (table_row (rows f) ea)) j = (lane (load_si128 m p) n :: u8)"
    unfolding shuffle_lane [OF assms] r n(1) small_byte(2) [OF n(2)] using small_byte(1) [OF n(2)] by (rule if_not_P)
  then show "(lane (mm_shuffle_epi8 S (load_si128 m p) (table_row (rows f) ea)) j :: u8) = m (p + n)"
    using n(2) by (simp add: load_si128_def lane_vec_of)
qed

lemma lvlx_lane:
  assumes "simde_ok S" "j < 16"
  shows "(lane (emitted_lvlx S m ea) j :: u8) = (if ea mod 16 \<le> j then m (ea + (15 - j)) else 0)"
proof (cases "ea mod 16 \<le> j")
  case True
  have "ea - ea mod 16 + (ea mod 16 + 15 - j) = ea + (15 - j)"
    using block_start(2) assms(2) by (rule block_arith(1))
  then show ?thesis
    using shuffle_row(2) [OF assms, of mask_l ea "ea mod 16 + 15 - j" m "ea - ea mod 16"] True
    by (simp add: emitted_lvlx_def VectorMaskL_rows mask_l_def)
next
  case False
  then show ?thesis
    using shuffle_row(1) [OF assms, of mask_l ea] by (simp add: emitted_lvlx_def VectorMaskL_rows mask_l_def)
qed

lemma lvrx_lane:
  assumes "simde_ok S" "j < 16"
  shows "(lane (emitted_lvrx S m ea) j :: u8) = (if j < ea mod 16 then m (ea - 1 - j) else 0)"
proof (cases "j < ea mod 16")
  case True
  have "ea - ea mod 16 + (ea mod 16 - 1 - j) = ea - 1 - j"
    using block_start(2) True by (rule block_arith(2))
  moreover have "ea mod 16 - 1 - j \<le> 15" using block_start(1) by (rule block_arith(3))
  ultimately show ?thesis
    using shuffle_row(2) [OF assms, of mask_r ea "ea mod 16 - 1 - j" m "ea - ea mod 16"] True
    by (simp add: emitted_lvrx_def VectorMaskR_rows mask_r_def)
next
  case False
  have "lane 0 j = (0 :: u8)" by (simp add: lane_def)
  then show ?thesis
    using shuffle_row(1) [OF assms, of mask_r ea] False by (simp add: emitted_lvrx_def VectorMaskR_rows mask_r_def)
qed

lemma lvx_lane:
  assumes "simde_ok S" "j < 16"
  shows "(lane (emitted_lvx S m ea) j :: u8) = m (ea - ea mod 16 + (15 - j))"
  using shuffle_row(2) [OF assms, of mask_l 0 "15 - j" m "ea - ea mod 16"]
  by (simp add: emitted_lvx_def VectorMaskL_rows mask_l_def)

lemma odd_div_16: "(n :: nat) < 32 \<Longrightarrow> odd (n div 16) = (16 \<le> n)"
proof (cases "16 \<le> n")
  case True
  assume "n < 32"
  then have "n div 16 = 1" using True by (intro div_nat_eqI) simp_all
  then show ?thesis using True by simp
qed simp

lemma mod_16_up: "16 \<le> n \<Longrightarrow> (n :: nat) < 32 \<Longrightarrow> n mod 16 = n - 16"
  by (simp add: le_mod_geq)

lemma bit_4_unat: "bit (v :: u8) 4 = odd (unat v div 16)"
proof -
  have "bit (unat v) 4 = bit v 4" by (simp add: bit_unsigned_iff)
  then show ?thesis by (simp add: bit_iff_odd)
qed

text \<open>The permutation through the row of \<open>lvsl\<close> crosses from the first block to the second.\<close>

lemma perm_shift_lane:
  assumes "simde_ok S" "j < 16"
  shows "(lane (simde_mm_perm_epi8 S a b (emitted_lvsl ea)) j :: u8) =
     (if ea mod 16 \<le> j then lane a (j - ea mod 16) else lane b (j + 16 - ea mod 16))"
proof -
  let ?n = "ea mod 16 + 15 - j"
  have c: "lane (emitted_lvsl ea) j = (of_nat ?n :: u8)"
    using assms(2) by (simp only: emitted_lvsl_def VectorShiftTableL_rows lane_row shift_l_def)
  have n: "?n < 32" "ea mod 16 < 16" using block_arith(6) [OF block_start(1) assms(2)] by simp_all
  then have u: "unat (of_nat ?n :: u8) = ?n" by (simp add: unat_of_nat del: of_nat_add of_nat_diff)
  have i: "unat (of_nat ?n AND 15 :: u8) = ?n mod 16" unfolding and_15_unat u ..
  have b4: "bit (of_nat ?n :: u8) 4 = (16 \<le> ?n)"
  proof -
    have "bit (of_nat ?n :: u8) 4 = odd (?n div 16)" unfolding bit_4_unat u ..
    also have "\<dots> = (16 \<le> ?n)" using n(1) by (rule odd_div_16)
    finally show ?thesis .
  qed
  show ?thesis
  proof (cases "ea mod 16 \<le> j")
    case True
    then have "?n < 16" "15 - ?n mod 16 = j - ea mod 16" using block_arith(7,8) [OF True assms(2)] by simp_all
    then show ?thesis using True unfolding perm_lane [OF assms] c Let_def i b4 by simp
  next
    case False
    then have "16 \<le> ?n" by simp
    moreover from this have "?n mod 16 = ?n - 16" using n(1) by (rule mod_16_up)
    then have "15 - ?n mod 16 = j + 16 - ea mod 16" using n assms(2) False by (simp add: add.commute)
    ultimately show ?thesis using False unfolding perm_lane [OF assms] c Let_def i b4 by simp
  qed
qed

subsection \<open>Unaligned loads\<close>

text \<open>
  C28. The two idioms of the guest for a vector load from any address give the sixteen bytes at this
  address: joining \<open>lvlx\<close> at the address with \<open>lvrx\<close> sixteen bytes on, and permuting the two
  aligned blocks with the row of \<open>lvsl\<close>.
\<close>

theorem unaligned_load_correct:
  assumes "simde_ok S"
  shows "emitted_lvlx S m ea OR emitted_lvrx S m (ea + 16) = guest_vector m ea
     \<and> simde_mm_perm_epi8 S (emitted_lvx S m ea) (emitted_lvx S m (ea + 15)) (emitted_lvsl ea) = guest_vector m ea"
proof (intro conjI vec_eq_lanes)
  fix j :: nat assume j: "j < 16"
  have g: "lane (guest_vector m ea) j = m (ea + (15 - j))" using j by (simp add: guest_vector_def lane_vec_of)
  show "lane (emitted_lvlx S m ea OR emitted_lvrx S m (ea + 16)) j = (lane (guest_vector m ea) j :: u8)"
  proof -
    have "ea + 16 - 1 - j = ea + (15 - j)" using j by simp
    then show ?thesis using j by (simp only: lane_bitwise g lvlx_lane [OF assms] lvrx_lane [OF assms]) simp
  qed
  let ?s = "ea mod 16"
  have s: "?s < 16" "?s \<le> ea" by (simp_all add: mod_less_eq_dividend)
  show "lane (simde_mm_perm_epi8 S (emitted_lvx S m ea) (emitted_lvx S m (ea + 15)) (emitted_lvsl ea)) j
      = (lane (guest_vector m ea) j :: u8)"
  proof (cases "?s \<le> j")
    case True
    then have "ea - ?s + (15 - (j - ?s)) = ea + (15 - j)" "j - ?s < 16" using block_arith(4) [OF s(2) True j] j by simp_all
    then show ?thesis using True j by (simp add: perm_shift_lane [OF assms] lvx_lane [OF assms] g)
  next
    case False
    have "(ea + 15) mod 16 = ?s - 1"
    proof -
      have "(ea + 15) mod 16 = (?s + 15) mod 16" by (simp add: mod_add_left_eq)
      also have "\<dots> = ?s - 1" using False s(1) mod_16_up [of "?s + 15"] by simp
      finally show ?thesis .
    qed
    then have "ea + 15 - (ea + 15) mod 16 + (15 - (j + 16 - ?s)) = ea + (15 - j)" "j + 16 - ?s < 16"
      using block_arith(5) [OF s(2,1)] False by simp_all
    then show ?thesis using False j by (simp add: perm_shift_lane [OF assms] lvx_lane [OF assms] g)
  qed
qed

lemma unaligned_load_correct_witness:
  "emitted_lvlx ex_simde (\<lambda>p. of_nat p) 3 OR emitted_lvrx ex_simde (\<lambda>p. of_nat p) 19 = guest_vector (\<lambda>p. of_nat p) 3"
  using unaligned_load_correct [OF ex_simde_ok, of "\<lambda>p. of_nat p" 3] by simp

end
