(* ===== verification/VectorFloat.thy ===== *)
theory VectorFloat
  imports Vector
begin

text \<open>
  The conversions between vectors of integers and of single-precision numbers of
  \<open>XenonUtils/ppc_context.h\<close>: unsigned words to floats, which the host has no instruction for, and
  floats to signed words with the saturation of the guest. The intrinsics that treat a word as a float
  are a second record of functions.
\<close>

unbundle bit_operations_syntax

subsection \<open>Single-precision numbers\<close>

text \<open>Biased exponent and fraction of the bits of a number.\<close>

definition fl_exponent :: "u32 \<Rightarrow> nat" where "fl_exponent x = unat x div 2 ^ 23 mod 2 ^ 8"
definition fl_fraction :: "u32 \<Rightarrow> nat" where "fl_fraction x = unat x mod 2 ^ 23"

definition fl_nan :: "u32 \<Rightarrow> bool" where
  "fl_nan x = (fl_exponent x = 255 \<and> fl_fraction x \<noteq> 0)"

text \<open>
  The number rounded towards zero; an infinity counts as the number its bits would be. Numbers
  below one have no integer part.
\<close>

definition fl_magnitude :: "u32 \<Rightarrow> nat" where
  "fl_magnitude x =
     (if fl_exponent x < 127 then 0
      else if 150 \<le> fl_exponent x then (2 ^ 23 + fl_fraction x) * 2 ^ (fl_exponent x - 150)
      else (2 ^ 23 + fl_fraction x) div 2 ^ (150 - fl_exponent x))"

definition fl_trunc :: "u32 \<Rightarrow> int" where
  "fl_trunc x = (if bit x 31 then - int (fl_magnitude x) else int (fl_magnitude x))"

subsection \<open>Intrinsics\<close>

record simde_fp =
  mm_set1_epi32 :: "u32 \<Rightarrow> vec"
  mm_srli_epi32 :: "vec \<Rightarrow> nat \<Rightarrow> vec"
  mm_srai_epi32 :: "vec \<Rightarrow> nat \<Rightarrow> vec"
  mm_andnot_si128 :: "vec \<Rightarrow> vec \<Rightarrow> vec"
  mm_cvtepi32_ps :: "vec \<Rightarrow> vec"
  mm_cvttps_epi32 :: "vec \<Rightarrow> vec"
  mm_cmpunord_ps :: "vec \<Rightarrow> vec \<Rightarrow> vec"
  mm_blendv_ps :: "vec \<Rightarrow> vec \<Rightarrow> vec \<Rightarrow> vec"

text \<open>
  \<open>cvttps_epi32\<close> answers \<open>0x80000000\<close> for what it cannot represent. Nothing is asked of the host's
  conversion of signed words to floats.
\<close>

definition simde_fp_ok :: "simde_fp \<Rightarrow> bool" where
  "simde_fp_ok F =
     (\<forall>j<4. (\<forall>x. (lane (mm_set1_epi32 F x) j :: u32) = x)
        \<and> (\<forall>a n. (lane (mm_srli_epi32 F a n) j :: u32) = drop_bit n (lane a j)
           \<and> (lane (mm_srai_epi32 F a n) j :: u32) = signed_drop_bit n (lane a j))
        \<and> (\<forall>a b. (lane (mm_andnot_si128 F a b) j :: u32) = NOT (lane a j) AND lane b j
           \<and> (lane (mm_cmpunord_ps F a b) j :: u32) = (if fl_nan (lane a j) \<or> fl_nan (lane b j) then - 1 else 0)
           \<and> (\<forall>c. (lane (mm_blendv_ps F a b c) j :: u32) = (if bit (lane c j :: u32) 31 then lane b j else lane a j)))
        \<and> (\<forall>a. (lane (mm_cvttps_epi32 F a) j :: u32) =
             (let x = lane a j in if fl_nan x \<or> fl_trunc x < - (2 ^ 31) \<or> 2 ^ 31 \<le> fl_trunc x then 0x80000000 else of_int (fl_trunc x))))"

subsection \<open>The helpers\<close>

definition simde_mm_cvtepu32_ps :: "simde \<Rightarrow> simde_fp \<Rightarrow> vec \<Rightarrow> vec" where
  "simde_mm_cvtepu32_ps S F src1 =
     (let xmm1 = mm_add_epi32 S src1 (mm_set1_epi32 F 127);
          xmm0 = mm_slli_epi32 S src1 (31 - 8);
          xmm0 = mm_srli_epi32 F xmm0 31;
          xmm0 = mm_add_epi32 S xmm0 xmm1;
          xmm0 = mm_srai_epi32 F xmm0 8;
          xmm0 = mm_add_epi32 S xmm0 (mm_set1_epi32 F 0x4F800000);
          xmm2 = mm_cvtepi32_ps F src1
      in mm_blendv_ps F xmm2 xmm0 src1)"

definition simde_mm_vctsxs :: "simde \<Rightarrow> simde_fp \<Rightarrow> vec \<Rightarrow> vec" where
  "simde_mm_vctsxs S F src1 =
     (let xmm2 = mm_cmpunord_ps F src1 src1;
          xmm0 = mm_cvttps_epi32 F src1;
          xmm1 = mm_cmpeq_epi32 S xmm0 (mm_set1_epi32 F 0x80000000);
          xmm1 = mm_andnot_si128 F src1 xmm1;
          dest = mm_blendv_ps F xmm0 (mm_set1_epi32 F 0x7FFFFFFF) xmm1
      in mm_andnot_si128 F xmm2 dest)"

subsection \<open>Floats to words\<close>

definition saturate32 :: "int \<Rightarrow> int" where
  "saturate32 i = max (- (2 ^ 31)) (min (2 ^ 31 - 1) i)"

lemma of_int_int_min: "- (2 ^ 31) \<le> i \<Longrightarrow> i < 2 ^ 31 \<Longrightarrow> (of_int i :: u32) = 0x80000000 \<longleftrightarrow> i = - (2 ^ 31)"
proof
  assume b: "- (2 ^ 31) \<le> i" "i < 2 ^ 31" and e: "(of_int i :: u32) = 0x80000000"
  have "sint (of_int i :: u32) = i"
    using b by (simp add: sint_sbintrunc' signed_take_bit_int_eq_self)
  moreover have "sint (0x80000000 :: u32) = - (2 ^ 31)" by simp
  ultimately show "i = - (2 ^ 31)" using e by simp
qed simp

lemma vctsxs_lane:
  assumes "simde_ok S" "simde_fp_ok F" "j < 4"
  shows "(lane (simde_mm_vctsxs S F a) j :: u32) = (let x = lane a j in if fl_nan x then 0 else of_int (saturate32 (fl_trunc x)))"
proof -
  let ?x = "lane a j :: u32"
  let ?t = "if fl_nan ?x \<or> fl_trunc ?x < - (2 ^ 31) \<or> 2 ^ 31 \<le> fl_trunc ?x then 0x80000000 else of_int (fl_trunc ?x) :: u32"
  have l: "(lane (simde_mm_vctsxs S F a) j :: u32) =
      NOT (if fl_nan ?x then - 1 else 0) AND
        (if bit (NOT ?x AND (if ?t = 0x80000000 then - 1 else 0)) 31 then 0x7FFFFFFF else ?t)"
    using assms by (simp add: simde_mm_vctsxs_def simde_fp_ok_def simde_ok_def simde_lanes32_def Let_def)
  have neg: "fl_trunc ?x < 0 \<Longrightarrow> bit ?x 31" "0 < fl_trunc ?x \<Longrightarrow> \<not> bit ?x 31"
    by (auto simp: fl_trunc_def split: if_splits)
  consider "fl_nan ?x" | "\<not> fl_nan ?x" "fl_trunc ?x < - (2 ^ 31)" | "\<not> fl_nan ?x" "2 ^ 31 \<le> fl_trunc ?x"
    | "\<not> fl_nan ?x" "- (2 ^ 31) \<le> fl_trunc ?x" "fl_trunc ?x < 2 ^ 31" by linarith
  then show ?thesis
  proof cases
    case 1
    then show ?thesis unfolding l by (simp add: Let_def)
  next
    case 2
    then have "saturate32 (fl_trunc ?x) = - (2 ^ 31)" "bit ?x 31" using neg(1) by (simp_all add: saturate32_def)
    then show ?thesis unfolding l using 2 by (simp add: Let_def bit_simps)
  next
    case 3
    then have "saturate32 (fl_trunc ?x) = 2 ^ 31 - 1" "\<not> bit ?x 31" using neg(2) by (simp_all add: saturate32_def)
    then show ?thesis unfolding l using 3 by (simp add: Let_def bit_simps)
  next
    case 4
    then have s: "saturate32 (fl_trunc ?x) = fl_trunc ?x" "?t = of_int (fl_trunc ?x)" by (simp_all add: saturate32_def)
    show ?thesis
    proof (cases "fl_trunc ?x = - (2 ^ 31)")
      case True
      then have "bit ?x 31" using neg(1) by simp
      then show ?thesis unfolding l s(2) using 4 s(1) by (simp add: Let_def bit_simps)
    next
      case False
      then have "(of_int (fl_trunc ?x) :: u32) \<noteq> 0x80000000" using of_int_int_min [OF 4(2,3)] by simp
      then show ?thesis unfolding l s(2) using 4 s(1) by (simp add: Let_def)
    qed
  qed
qed

subsection \<open>Words to floats\<close>

text \<open>A number over 256, rounded to the nearest integer and to the even one of two.\<close>

definition nearest_even :: "nat \<Rightarrow> nat" where
  "nearest_even n =
     (let q = n div 256; r = n mod 256 in if 128 < r \<or> r = 128 \<and> odd q then q + 1 else q)"

lemma nearest_even_shift: "(n + 127 + of_bool (odd (n div 256))) div 256 = nearest_even n"
proof -
  obtain q r where n: "n = 256 * q + r" "r < 256" by (metis mod_less_divisor mult_div_mod_eq zero_less_numeral)
  then have "n div 256 = q" "n mod 256 = r" by simp_all
  moreover have "(n + 127 + of_bool (odd q)) div 256 = q + (r + 127 + of_bool (odd q)) div 256"
    using n(1) by (simp add: add.assoc)
  moreover have "(r + 127 + of_bool (odd q)) div 256 = (if 128 < r \<or> r = 128 \<and> odd q then 1 else 0)"
    using n(2) by (cases "odd q") (auto simp: div_nat_eqI)
  ultimately show ?thesis by (simp add: nearest_even_def Let_def)
qed

lemma bit_at_unat: "bit (x :: u32) n = odd (unat x div 2 ^ n)"
proof -
  have "bit (unat x) n = bit x n" using bit_imp_le_length [of x n] by (auto simp: bit_unsigned_iff)
  then show ?thesis by (simp add: bit_iff_odd [of "unat x"])
qed

lemma bit_8_shifted: "drop_bit 31 (push_bit 23 x) = (of_bool (odd (unat x div 256)) :: u32)"
proof -
  have "bit x 8 = odd (unat x div 256)" using bit_at_unat [of x 8] by simp
  moreover have "drop_bit 31 (push_bit 23 x) = (of_bool (bit x 8) :: u32)"
    by (rule bit_word_eqI) (auto simp: bit_simps)
  ultimately show ?thesis by simp
qed

lemma sint_negative:
  fixes x :: u32
  assumes "bit x 31"
  shows "sint x = uint x - 2 ^ 32"
proof -
  have "odd (unat x div 2 ^ 31)" using assms bit_at_unat [of x 31] by simp
  then have "unat x div 2 ^ 31 \<noteq> 0" by (metis even_zero)
  then have "2 ^ 31 \<le> unat x" by (simp add: div_eq_0_iff)
  then have l: "2 ^ 31 \<le> uint x" using of_nat_le_iff [of "2 ^ 31" "unat x", where 'a = int] by simp
  have u: "uint x < 2 ^ 32" using unsigned_less [of x] by simp
  have "signed_take_bit 31 (uint x) = uint x - 2 ^ 32"
  proof -
    have "signed_take_bit 31 (uint x) = take_bit 32 (uint x + 2 ^ 31) - 2 ^ 31"
      using signed_take_bit_eq_take_bit_shift [of 31 "uint x"] by simp
    also have "take_bit 32 (uint x + 2 ^ 31) = uint x + 2 ^ 31 - 2 ^ 32"
    proof -
      have "(uint x + 2 ^ 31) mod 2 ^ 32 = (uint x + 2 ^ 31 - 2 ^ 32) mod 2 ^ 32" by (metis minus_mod_self2)
      also have "\<dots> = uint x + 2 ^ 31 - 2 ^ 32" using l u by (intro mod_pos_pos_trivial) simp_all
      finally show ?thesis by (simp only: take_bit_eq_mod)
    qed
    finally show ?thesis by simp
  qed
  then show ?thesis by (simp only: signed_take_bit_take_bit sint_uint) simp
qed

lemma nearest_even_range:
  fixes x :: u32
  assumes "bit x 31"
  shows "2 ^ 23 \<le> nearest_even (unat x)" "nearest_even (unat x) \<le> 2 ^ 24"
proof -
  let ?c = "odd (unat x div 256)"
  have "odd (unat x div 2 ^ 31)" using assms bit_at_unat [of x 31] by simp
  then have "unat x div 2 ^ 31 \<noteq> 0" by (metis even_zero)
  then have "2 ^ 31 \<le> unat x" by (simp add: div_eq_0_iff)
  then have "2 ^ 23 * 256 div 256 \<le> (unat x + 127 + of_bool ?c) div 256" by (intro div_le_mono) simp
  then show "2 ^ 23 \<le> nearest_even (unat x)" unfolding nearest_even_shift by simp
  have "unat x < 2 ^ 32" using unsigned_less [of x] by simp
  then have "unat x + 127 + of_bool ?c \<le> 2 ^ 24 * 256 + 127" by simp
  then have "(unat x + 127 + of_bool ?c) div 256 \<le> (2 ^ 24 * 256 + 127) div 256" by (rule div_le_mono)
  then show "nearest_even (unat x) \<le> 2 ^ 24" unfolding nearest_even_shift by simp
qed

lemma shifted_bits:
  fixes x :: u32
  assumes "bit x 31"
  shows "unat (signed_drop_bit 8 (drop_bit 31 (push_bit 23 x) + (x + 127)) + 0x4F800000) = nearest_even (unat x) + 157 * 2 ^ 23"
proof -
  let ?c = "odd (unat x div 256)" and ?y = "drop_bit 31 (push_bit 23 x) + (x + 127)"
  have lt: "uint x < 2 ^ 32" using unsigned_less [of x] by simp
  note sx = sint_negative [OF assms]
  have neg: "- (2 ^ 31) \<le> sint x" using sint_ge [of x] by simp
  obtain i where i: "i = sint x + 127 + of_bool ?c" by blast
  have y: "?y = of_int i" by (simp add: bit_8_shifted i add.commute add.left_commute)
  have r: "- (2 ^ 31) \<le> i" "i < 2 ^ 31" using neg sx lt i by auto
  have s: "sint (of_int i :: u32) = i" using r by (simp add: sint_sbintrunc' signed_take_bit_int_eq_self)
  have d: "i div 256 = int (nearest_even (unat x)) - 2 ^ 24"
  proof -
    have "i = int (unat x + 127 + of_bool ?c) + (- (2 ^ 24)) * 256" by (simp add: i sx)
    then have "i div 256 = int (unat x + 127 + of_bool ?c) div 256 + (- (2 ^ 24))" by (metis div_mult_self1 add.commute zero_neq_numeral)
    also have "int (unat x + 127 + of_bool ?c) div 256 = int (nearest_even (unat x))"
      unfolding nearest_even_shift [symmetric] by (simp only: zdiv_int of_nat_numeral)
    finally show ?thesis by simp
  qed
  have "signed_drop_bit 8 (of_int i :: u32) = of_int (sint (signed_drop_bit 8 (of_int i :: u32)))" by simp
  also have "sint (signed_drop_bit 8 (of_int i :: u32)) = i div 256"
    by (simp only: sint_signed_drop_bit_eq s drop_bit_eq_div) simp
  finally have "signed_drop_bit 8 ?y + 0x4F800000 = of_int (int (nearest_even (unat x)) - 2 ^ 24) + 0x4F800000"
    unfolding y d by (simp only:)
  also have "\<dots> = of_nat (nearest_even (unat x) + 157 * 2 ^ 23)" by simp
  finally have e: "signed_drop_bit 8 ?y + 0x4F800000 = of_nat (nearest_even (unat x) + 157 * 2 ^ 23)" .
  have "nearest_even (unat x) + 157 * 2 ^ 23 < 2 ^ LENGTH(32)" using nearest_even_range(2) [OF assms] by simp
  then have "unat (of_nat (nearest_even (unat x) + 157 * 2 ^ 23) :: u32) = nearest_even (unat x) + 157 * 2 ^ 23"
    by (simp only: unat_of_nat mod_less)
  then show ?thesis unfolding e .
qed

lemma float_of_significand:
  fixes r :: u32
  assumes "unat r = k + 157 * 2 ^ 23" "2 ^ 23 \<le> k" "k \<le> 2 ^ 24"
  shows "\<not> fl_nan r" "fl_trunc r = int (256 * k)"
proof -
  obtain f where k: "k = 2 ^ 23 + f" using assms(2) le_Suc_ex by blast
  have r: "unat r = f + 158 * 2 ^ 23" using assms(1) k by simp
  have "unat r div 2 ^ 31 = 0" using assms(1,3) by simp
  then have b: "\<not> bit r 31" by (simp add: bit_at_unat)
  have "fl_exponent r = 158 \<and> fl_fraction r = f \<or> f = 2 ^ 23 \<and> fl_exponent r = 159 \<and> fl_fraction r = 0"
  proof (cases "f < 2 ^ 23")
    case True
    then have "unat r div 2 ^ 23 = 158" "unat r mod 2 ^ 23 = f" unfolding r by (simp, simp only: mod_mult_self1 mod_less)
    then show ?thesis by (simp add: fl_exponent_def fl_fraction_def)
  next
    case False
    then have "f = 2 ^ 23" using assms(3) k by simp
    moreover from this have "unat r = 159 * 2 ^ 23" using r by simp
    ultimately show ?thesis by (simp add: fl_exponent_def fl_fraction_def)
  qed
  then show "\<not> fl_nan r" "fl_trunc r = int (256 * k)"
    using b k by (auto simp: fl_nan_def fl_trunc_def fl_magnitude_def)
qed

lemma cvtepu32_lane:
  assumes "simde_ok S" "simde_fp_ok F" "j < 4"
  shows "(lane (simde_mm_cvtepu32_ps S F a) j :: u32) =
     (let x = lane a j in if bit x 31 then signed_drop_bit 8 (drop_bit 31 (push_bit 23 x) + (x + 127)) + 0x4F800000
      else lane (mm_cvtepi32_ps F a) j)"
  using assms by (simp add: simde_mm_cvtepu32_ps_def simde_fp_ok_def simde_ok_def simde_lanes32_def Let_def)

lemma cvtepu32_large:
  assumes "simde_ok S" "simde_fp_ok F" "j < 4" "bit (lane a j :: u32) 31"
  shows "\<not> fl_nan (lane (simde_mm_cvtepu32_ps S F a) j)"
    "fl_trunc (lane (simde_mm_cvtepu32_ps S F a) j) = int (256 * nearest_even (unat (lane a j :: u32)))"
  using float_of_significand [OF shifted_bits [OF assms(4)] nearest_even_range [OF assms(4)]]
    cvtepu32_lane [OF assms(1-3), of a] assms(4) by (simp_all add: Let_def)

subsection \<open>A model of the intrinsics\<close>

text \<open>
  The laws leave the conversion of signed words open; the model gives zero for zero and one for every other word.
\<close>

definition ex_simde_fp :: simde_fp where
  "ex_simde_fp = \<lparr>
     mm_set1_epi32 = (\<lambda>x. vec_of (\<lambda>_. x)),
     mm_srli_epi32 = (\<lambda>a n. vec_of (\<lambda>j. drop_bit n (lane a j :: u32))),
     mm_srai_epi32 = (\<lambda>a n. vec_of (\<lambda>j. signed_drop_bit n (lane a j :: u32))),
     mm_andnot_si128 = (\<lambda>a b. vec_of (\<lambda>j. NOT (lane a j :: u32) AND lane b j)),
     mm_cvtepi32_ps = (\<lambda>a. vec_of (\<lambda>j. if (lane a j :: u32) = 0 then 0 else 0x3F800000 :: u32)),
     mm_cvttps_epi32 = (\<lambda>a. vec_of (\<lambda>j. let x = lane a j in
        if fl_nan x \<or> fl_trunc x < - (2 ^ 31) \<or> 2 ^ 31 \<le> fl_trunc x then 0x80000000 else of_int (fl_trunc x) :: u32)),
     mm_cmpunord_ps = (\<lambda>a b. vec_of (\<lambda>j. if fl_nan (lane a j) \<or> fl_nan (lane b j) then - 1 else 0 :: u32)),
     mm_blendv_ps = (\<lambda>a b c. vec_of (\<lambda>j. if bit (lane c j :: u32) 31 then lane b j else lane a j :: u32))\<rparr>"

lemma ex_simde_fp_ok: "simde_fp_ok ex_simde_fp"
  by (simp add: simde_fp_ok_def ex_simde_fp_def lane_vec_of)

text \<open>
  C38. The conversions between floats and words that the host has no instruction for do in every lane
  what the guest's do: a float becomes the signed word of its integer part, saturated at both ends, and
  a NaN becomes zero; an unsigned word of at least \<open>2 ^ 31\<close> becomes the float of its value rounded to
  the nearest multiple of 256, ties to even, while smaller words keep what the host's conversion gives.
\<close>

theorem float_conversions_correct:
  assumes "simde_ok S" "simde_fp_ok F" "j < 4"
  shows "(lane (simde_mm_vctsxs S F a) j :: u32) =
       (if fl_nan (lane a j) then 0 else of_int (saturate32 (fl_trunc (lane a j))))
     \<and> (if bit (lane a j :: u32) 31
        then \<not> fl_nan (lane (simde_mm_cvtepu32_ps S F a) j)
          \<and> fl_trunc (lane (simde_mm_cvtepu32_ps S F a) j) = int (256 * nearest_even (unat (lane a j :: u32)))
        else (lane (simde_mm_cvtepu32_ps S F a) j :: u32) = lane (mm_cvtepi32_ps F a) j)"
  using vctsxs_lane [OF assms, of a] cvtepu32_large [OF assms, of a] cvtepu32_lane [OF assms, of a]
  by (simp add: Let_def)

lemma float_conversions_correct_witness:
  "(lane (simde_mm_vctsxs ex_simde ex_simde_fp (vec_of (\<lambda>_. 0xC1200000 :: u32))) 2 :: u32) = - 10
   \<and> fl_trunc (lane (simde_mm_cvtepu32_ps ex_simde ex_simde_fp (vec_of (\<lambda>_. 0xFFFFFFFF :: u32))) 2) = 2 ^ 32"
proof -
  have t: "fl_trunc 0xC1200000 = - 10" "\<not> fl_nan 0xC1200000"
    by (simp_all add: fl_trunc_def fl_magnitude_def fl_exponent_def fl_fraction_def fl_nan_def bit_at_unat)
  have b: "bit (0xFFFFFFFF :: u32) 31" by (simp add: bit_at_unat)
  show ?thesis
    using float_conversions_correct [OF ex_simde_ok ex_simde_fp_ok, of 2 "vec_of (\<lambda>_. 0xC1200000 :: u32)"]
      float_conversions_correct [OF ex_simde_ok ex_simde_fp_ok, of 2 "vec_of (\<lambda>_. 0xFFFFFFFF :: u32)"] t b
    by (simp add: lane_vec_of saturate32_def nearest_even_def Let_def)
qed

end
