(* ===== verification/Fpscr.thy ===== *)
theory Fpscr
  imports Prelude
begin

text \<open>
  \<open>PPCFPSCRRegister\<close> of \<open>XenonUtils/ppc_context.h\<close>: the cached control register of the host
  floating-point unit, the translation of rounding modes and the flush mode for denormals. The two
  host architectures of the source are two values of a record.
\<close>

unbundle bit_operations_syntax

subsection \<open>Architectures\<close>

definition PPC_ROUND_NEAREST :: u64 where "PPC_ROUND_NEAREST = 0x00"
definition PPC_ROUND_TOWARD_ZERO :: u64 where "PPC_ROUND_TOWARD_ZERO = 0x01"
definition PPC_ROUND_UP :: u64 where "PPC_ROUND_UP = 0x02"
definition PPC_ROUND_DOWN :: u64 where "PPC_ROUND_DOWN = 0x03"
definition PPC_ROUND_MASK :: u32 where "PPC_ROUND_MASK = 0x03"

record fp_arch =
  RoundShift :: nat
  RoundMask :: u64
  FlushMask :: u64
  GuestToHost :: "u64 list"

definition HostToGuest :: "u64 list" where
  "HostToGuest = [PPC_ROUND_NEAREST, PPC_ROUND_DOWN, PPC_ROUND_UP, PPC_ROUND_TOWARD_ZERO]"

text \<open>The masks and modes of the MXCSR register.\<close>

definition x86_64 :: fp_arch where
  "x86_64 = \<lparr>RoundShift = 13, RoundMask = 0x6000, FlushMask = 0x8000 OR 0x0040,
     GuestToHost = [0x0000, 0x6000, 0x4000, 0x2000]\<rparr>"

definition aarch64 :: fp_arch where
  "aarch64 = \<lparr>RoundShift = 22, RoundMask = push_bit 22 3, FlushMask = push_bit 19 1 OR push_bit 24 1,
     GuestToHost = [push_bit 22 0, push_bit 22 3, push_bit 22 1, push_bit 22 2]\<rparr>"

subsection \<open>Operations\<close>

text \<open>The field of the structure and the control register; the masks are wider than both.\<close>

record fpscr =
  csr_field :: u32
  csr_host :: u32

definition setcsr :: "u32 \<Rightarrow> fpscr \<Rightarrow> fpscr" where
  "setcsr v s = s\<lparr>csr_host := v\<rparr>"

definition loadFromHost :: "fp_arch \<Rightarrow> fpscr \<Rightarrow> u32 \<times> fpscr" where
  "loadFromHost arch s =
     (let c = csr_host s
      in (ucast (HostToGuest ! unat (drop_bit (RoundShift arch) (ucast c AND RoundMask arch))), s\<lparr>csr_field := c\<rparr>))"

definition storeFromGuest :: "fp_arch \<Rightarrow> u32 \<Rightarrow> fpscr \<Rightarrow> fpscr" where
  "storeFromGuest arch v s =
     (let c = ucast (ucast (csr_field s) AND NOT (RoundMask arch)) :: u32;
          c = ucast (ucast c OR GuestToHost arch ! unat (v AND PPC_ROUND_MASK)) :: u32
      in setcsr c (s\<lparr>csr_field := c\<rparr>))"

definition enableFlushModeUnconditional :: "fp_arch \<Rightarrow> fpscr \<Rightarrow> fpscr" where
  "enableFlushModeUnconditional arch s =
     (let c = ucast (ucast (csr_field s) OR FlushMask arch) :: u32 in setcsr c (s\<lparr>csr_field := c\<rparr>))"

definition disableFlushModeUnconditional :: "fp_arch \<Rightarrow> fpscr \<Rightarrow> fpscr" where
  "disableFlushModeUnconditional arch s =
     (let c = ucast (ucast (csr_field s) AND NOT (FlushMask arch)) :: u32 in setcsr c (s\<lparr>csr_field := c\<rparr>))"

definition enableFlushMode :: "fp_arch \<Rightarrow> fpscr \<Rightarrow> fpscr" where
  "enableFlushMode arch s =
     (if ucast (csr_field s) AND FlushMask arch \<noteq> FlushMask arch then enableFlushModeUnconditional arch s else s)"

definition disableFlushMode :: "fp_arch \<Rightarrow> fpscr \<Rightarrow> fpscr" where
  "disableFlushMode arch s =
     (if ucast (csr_field s) AND FlushMask arch \<noteq> 0 then disableFlushModeUnconditional arch s else s)"

subsection \<open>Rounding and flushing are independent\<close>

text \<open>The cached value is the one of the host.\<close>

definition in_step :: "fpscr \<Rightarrow> bool" where
  "in_step s = (csr_field s = csr_host s)"

definition rounding :: "fp_arch \<Rightarrow> u32 \<Rightarrow> u64" where
  "rounding arch c = ucast c AND RoundMask arch"

definition flushing :: "fp_arch \<Rightarrow> u32 \<Rightarrow> u64" where
  "flushing arch c = ucast c AND FlushMask arch"

text \<open>What both architectures have in common: masks of 32 bits that do not overlap, and modes inside theirs.\<close>

definition arch_ok :: "fp_arch \<Rightarrow> bool" where
  "arch_ok arch = (RoundMask arch AND FlushMask arch = 0 \<and> RoundMask arch AND 0xFFFFFFFF = RoundMask arch
     \<and> FlushMask arch AND 0xFFFFFFFF = FlushMask arch \<and> length (GuestToHost arch) = 4
     \<and> list_all (\<lambda>g. g AND RoundMask arch = g) (GuestToHost arch))"

lemma archs_ok: "arch_ok x86_64" "arch_ok aarch64"
  by (simp_all add: arch_ok_def x86_64_def aarch64_def)

lemma ucast_ucast_bits: "ucast (ucast (x :: u64) :: u32) = x AND 0xFFFFFFFF"
proof -
  have "(0xFFFFFFFF :: u64) = mask 32" by (simp add: mask_eq_exp_minus_1)
  then show ?thesis by (simp only: take_bit_eq_mask [symmetric]) (rule bit_word_eqI, auto simp: bit_simps)
qed

lemma low_two_bits: "v AND (3 :: u32) = 0 \<or> v AND 3 = 1 \<or> v AND 3 = 2 \<or> v AND 3 = 3"
proof -
  have "v AND 3 = take_bit 2 v" by (simp add: take_bit_eq_mask mask_eq_exp_minus_1)
  then have "unat (v AND 3) = unat v mod 4" by (simp add: unsigned_take_bit_eq take_bit_eq_mod unat_mod)
  moreover have "unat v mod 4 = 0 \<or> unat v mod 4 = 1 \<or> unat v mod 4 = 2 \<or> unat v mod 4 = 3" by arith
  ultimately have "unat (v AND 3) = unat (0 :: u32) \<or> unat (v AND 3) = unat (1 :: u32)
      \<or> unat (v AND 3) = unat (2 :: u32) \<or> unat (v AND 3) = unat (3 :: u32)" by simp
  then show ?thesis by (simp only: word_unat_eq_iff)
qed

text \<open>Replacing the bits of a mask by bits inside it.\<close>

lemma bits_replaced:
  fixes c g m f :: u64
  assumes "g AND m = g" "m AND 0xFFFFFFFF = m"
  shows "((c AND NOT m OR g) AND 0xFFFFFFFF) AND m = g"
proof (rule bit_word_eqI)
  fix n
  assume "n < LENGTH(64)"
  have "bit g n \<Longrightarrow> bit m n" using assms(1) by (metis bit_and_iff)
  moreover have "bit m n \<Longrightarrow> bit (0xFFFFFFFF :: u64) n" using assms(2) by (metis bit_and_iff)
  ultimately show "bit (((c AND NOT m OR g) AND 0xFFFFFFFF) AND m) n = bit g n"
    by (auto simp: bit_and_iff bit_or_iff bit_not_iff)
qed

lemma bits_outside:
  fixes c g m f :: u64
  assumes "g AND m = g" "m AND f = 0" "f AND 0xFFFFFFFF = f"
  shows "((c AND NOT m OR g) AND 0xFFFFFFFF) AND f = c AND f"
proof (rule bit_word_eqI)
  fix n
  assume "n < LENGTH(64)"
  then have inside: "n < 64" by simp
  have "bit g n \<Longrightarrow> bit m n" using assms(1) by (metis bit_and_iff)
  moreover have "\<not> (bit m n \<and> bit f n)" using assms(2) by (metis bit_and_iff bit_0_eq bot_apply bot_bool_def)
  moreover have "bit f n \<Longrightarrow> bit (0xFFFFFFFF :: u64) n" using assms(3) by (metis bit_and_iff)
  ultimately show "bit (((c AND NOT m OR g) AND 0xFFFFFFFF) AND f) n = bit (c AND f) n"
    using inside by (auto simp: bit_and_iff bit_or_iff bit_not_iff)
qed

subsection \<open>What the operations do to the two fields\<close>

lemma mode_inside:
  assumes "arch_ok arch"
  shows "GuestToHost arch ! unat (v AND PPC_ROUND_MASK) AND RoundMask arch = GuestToHost arch ! unat (v AND PPC_ROUND_MASK)"
proof -
  have "unat (v AND PPC_ROUND_MASK) < length (GuestToHost arch)"
    using low_two_bits [of v] assms by (auto simp: PPC_ROUND_MASK_def arch_ok_def)
  then show ?thesis using assms by (auto simp: arch_ok_def list_all_length)
qed

lemma store_in_step: "in_step (storeFromGuest arch v s)"
  by (simp add: storeFromGuest_def in_step_def setcsr_def Let_def)

lemma flush_in_step:
  "in_step (enableFlushModeUnconditional arch s)" "in_step (disableFlushModeUnconditional arch s)"
  by (simp_all add: enableFlushModeUnconditional_def disableFlushModeUnconditional_def in_step_def setcsr_def Let_def)

lemma store_field:
  "csr_field (storeFromGuest arch v s)
     = ucast (((ucast (csr_field s) AND NOT (RoundMask arch)) AND 0xFFFFFFFF) OR GuestToHost arch ! unat (v AND PPC_ROUND_MASK))"
  by (simp only: storeFromGuest_def setcsr_def Let_def ucast_ucast_bits) (simp add: and.assoc)

lemma store_bits:
  assumes "arch_ok arch"
  shows "ucast (csr_field (storeFromGuest arch v s))
     = (ucast (csr_field s) AND NOT (RoundMask arch) OR GuestToHost arch ! unat (v AND PPC_ROUND_MASK)) AND (0xFFFFFFFF :: u64)"
    (is "_ = (?c AND NOT ?m OR ?g) AND _")
proof -
  have "((?c AND NOT ?m) AND 0xFFFFFFFF OR ?g) AND 0xFFFFFFFF = (?c AND NOT ?m OR ?g) AND 0xFFFFFFFF"
    by (rule bit_word_eqI) (auto simp: bit_and_iff bit_or_iff)
  then show ?thesis by (simp only: store_field ucast_ucast_bits)
qed

lemma store_rounding:
  assumes "arch_ok arch"
  shows "rounding arch (csr_field (storeFromGuest arch v s)) = GuestToHost arch ! unat (v AND PPC_ROUND_MASK)"
  unfolding rounding_def store_bits [OF assms]
  by (rule bits_replaced [OF mode_inside [OF assms]]) (use assms in \<open>simp add: arch_ok_def\<close>)

lemma store_flushing:
  assumes "arch_ok arch"
  shows "flushing arch (csr_field (storeFromGuest arch v s)) = flushing arch (csr_field s)"
  unfolding flushing_def store_bits [OF assms]
  by (rule bits_outside [OF mode_inside [OF assms]]) (use assms in \<open>simp_all add: arch_ok_def\<close>)

lemma enable_bits:
  "ucast (csr_field (enableFlushModeUnconditional arch s))
     = (ucast (csr_field s) AND NOT (FlushMask arch) OR FlushMask arch) AND (0xFFFFFFFF :: u64)"
proof -
  have "ucast (csr_field s) OR FlushMask arch = ucast (csr_field s) AND NOT (FlushMask arch) OR FlushMask arch"
    by (rule bit_word_eqI) (auto simp: bit_and_iff bit_or_iff bit_not_iff)
  then show ?thesis by (simp add: enableFlushModeUnconditional_def setcsr_def Let_def ucast_ucast_bits)
qed

lemma disable_bits:
  "ucast (csr_field (disableFlushModeUnconditional arch s))
     = (ucast (csr_field s) AND NOT (FlushMask arch) OR 0) AND (0xFFFFFFFF :: u64)"
  by (simp add: disableFlushModeUnconditional_def setcsr_def Let_def ucast_ucast_bits)

lemma flush_flushing:
  assumes "arch_ok arch"
  shows "flushing arch (csr_field (enableFlushModeUnconditional arch s)) = FlushMask arch"
    and "flushing arch (csr_field (disableFlushModeUnconditional arch s)) = 0"
proof -
  have inside: "FlushMask arch AND 0xFFFFFFFF = FlushMask arch" using assms by (simp add: arch_ok_def)
  show "flushing arch (csr_field (enableFlushModeUnconditional arch s)) = FlushMask arch"
    unfolding flushing_def enable_bits by (rule bits_replaced) (simp_all add: inside)
  show "flushing arch (csr_field (disableFlushModeUnconditional arch s)) = 0"
    unfolding flushing_def disable_bits by (rule bits_replaced) (simp_all add: inside)
qed

lemma flush_rounding:
  assumes "arch_ok arch"
  shows "rounding arch (csr_field (enableFlushModeUnconditional arch s)) = rounding arch (csr_field s)"
    and "rounding arch (csr_field (disableFlushModeUnconditional arch s)) = rounding arch (csr_field s)"
proof -
  have apart: "FlushMask arch AND RoundMask arch = 0" "RoundMask arch AND 0xFFFFFFFF = RoundMask arch"
    using assms by (simp_all add: arch_ok_def and.commute)
  show "rounding arch (csr_field (enableFlushModeUnconditional arch s)) = rounding arch (csr_field s)"
    unfolding rounding_def enable_bits by (rule bits_outside) (simp_all add: apart)
  show "rounding arch (csr_field (disableFlushModeUnconditional arch s)) = rounding arch (csr_field s)"
    unfolding rounding_def disable_bits by (rule bits_outside) (simp_all add: apart)
qed

text \<open>The guarded operations save the write of the register and nothing else.\<close>

lemma cast_there_and_back: "ucast (ucast (x :: u32) :: u64) = x"
  by (rule bit_word_eqI) (auto simp: bit_simps)

lemma same_fields:
  assumes "in_step s"
  shows "s\<lparr>csr_host := csr_field s\<rparr> = s"
  using assms by (cases s) (simp add: in_step_def)

lemma guarded_enable:
  assumes "in_step s"
  shows "enableFlushMode arch s = enableFlushModeUnconditional arch s"
proof (cases "ucast (csr_field s) AND FlushMask arch = FlushMask arch")
  case True
  then have "ucast (csr_field s) OR FlushMask arch = ucast (csr_field s)" by (intro bit_word_eqI) (metis bit_and_iff bit_or_iff)
  with True show ?thesis
    by (simp add: enableFlushMode_def enableFlushModeUnconditional_def setcsr_def Let_def same_fields [OF assms] cast_there_and_back)
qed (simp add: enableFlushMode_def)

lemma guarded_disable:
  assumes "in_step s"
  shows "disableFlushMode arch s = disableFlushModeUnconditional arch s"
proof (cases "ucast (csr_field s) AND FlushMask arch = 0")
  case True
  have "ucast (csr_field s) AND NOT (FlushMask arch) = (ucast (csr_field s) :: u64)"
  proof (rule bit_word_eqI)
    fix n
    have "\<not> bit (ucast (csr_field s) AND FlushMask arch) n" using True by simp
    then show "n < LENGTH(64) \<Longrightarrow> bit (ucast (csr_field s) AND NOT (FlushMask arch)) n = bit (ucast (csr_field s) :: u64) n"
      by (auto simp: bit_and_iff bit_not_iff)
  qed
  with True show ?thesis
    by (simp add: disableFlushMode_def disableFlushModeUnconditional_def setcsr_def Let_def same_fields [OF assms] cast_there_and_back)
qed (simp add: disableFlushMode_def)

subsection \<open>Reading a mode back\<close>

lemma load_mode: "fst (loadFromHost arch t) = ucast (HostToGuest ! unat (drop_bit (RoundShift arch) (rounding arch (csr_host t))))"
  by (simp add: loadFromHost_def rounding_def Let_def)

lemma store_then_load:
  assumes "arch_ok arch"
  shows "fst (loadFromHost arch (storeFromGuest arch v s))
     = ucast (HostToGuest ! unat (drop_bit (RoundShift arch) (GuestToHost arch ! unat (v AND PPC_ROUND_MASK))))"
  using store_in_step [of arch v s] store_rounding [OF assms, of v s] by (simp add: load_mode in_step_def)

lemma x86_modes:
  "ucast (HostToGuest ! unat (drop_bit (RoundShift x86_64) (GuestToHost x86_64 ! unat (v AND PPC_ROUND_MASK)))) = v AND PPC_ROUND_MASK"
proof -
  have "ucast (HostToGuest ! unat (drop_bit (RoundShift x86_64) (GuestToHost x86_64 ! unat m))) = m"
    if "m = 0 \<or> m = 1 \<or> m = 2 \<or> m = 3" for m :: u32
    using that by (elim disjE) (simp_all add: x86_64_def HostToGuest_def PPC_ROUND_NEAREST_def PPC_ROUND_DOWN_def
      PPC_ROUND_UP_def PPC_ROUND_TOWARD_ZERO_def)
  with low_two_bits [of v] show ?thesis by (simp only: PPC_ROUND_MASK_def)
qed

text \<open>
  The table from host to guest is the one of the x86 control register. On the other architecture the
  codes 1 and 2 mean the opposite, so a guest that has selected rounding up reads back rounding down.
\<close>

lemma aarch64_reads_the_opposite:
  "fst (loadFromHost aarch64 (storeFromGuest aarch64 (ucast PPC_ROUND_UP) s)) = ucast PPC_ROUND_DOWN"
  "fst (loadFromHost aarch64 (storeFromGuest aarch64 (ucast PPC_ROUND_DOWN) s)) = ucast PPC_ROUND_UP"
  unfolding store_then_load [OF archs_ok(2)]
  by (simp_all add: PPC_ROUND_MASK_def PPC_ROUND_NEAREST_def PPC_ROUND_UP_def PPC_ROUND_DOWN_def
      PPC_ROUND_TOWARD_ZERO_def aarch64_def HostToGuest_def)

text \<open>
  C29. On an x86 host, for every value a guest stores and whatever the register held: the cached control
  word is the one of the host, reading the mode back gives the two bits stored, and the flush bits are
  untouched; switching the flush mode on sets exactly its two bits, off clears them, neither disturbs the rounding mode,
  and the guarded versions have the same effect as the unconditional ones.
\<close>

theorem control_register_correct:
  fixes s :: fpscr
  shows "let t = storeFromGuest x86_64 v s;
             on = enableFlushMode x86_64 t;
             off = disableFlushMode x86_64 t
    in in_step t \<and> fst (loadFromHost x86_64 t) = v AND PPC_ROUND_MASK
      \<and> flushing x86_64 (csr_field t) = flushing x86_64 (csr_field s)
      \<and> on = enableFlushModeUnconditional x86_64 t \<and> off = disableFlushModeUnconditional x86_64 t
      \<and> in_step on \<and> in_step off
      \<and> flushing x86_64 (csr_field on) = FlushMask x86_64 \<and> flushing x86_64 (csr_field off) = 0
      \<and> fst (loadFromHost x86_64 on) = v AND PPC_ROUND_MASK \<and> fst (loadFromHost x86_64 off) = v AND PPC_ROUND_MASK"
proof -
  let ?t = "storeFromGuest x86_64 v s"
  have step: "in_step ?t" by (rule store_in_step)
  have read: "fst (loadFromHost x86_64 ?t) = v AND PPC_ROUND_MASK"
    by (simp only: store_then_load [OF archs_ok(1)] x86_modes)
  have keep: "fst (loadFromHost x86_64 u) = v AND PPC_ROUND_MASK"
    if "in_step u" "rounding x86_64 (csr_field u) = rounding x86_64 (csr_field ?t)" for u
    using that read step by (simp add: load_mode in_step_def)
  show ?thesis
    by (simp only: Let_def guarded_enable [OF step] guarded_disable [OF step] step read flush_in_step
        store_flushing [OF archs_ok(1)] flush_flushing [OF archs_ok(1)]
        keep [OF flush_in_step(1) flush_rounding(1) [OF archs_ok(1)]]
        keep [OF flush_in_step(2) flush_rounding(2) [OF archs_ok(1)]] simp_thms)
qed

end
