(* ===== verification/SwitchScan.thy ===== *)
theory SwitchScan
  imports ElfImage Lzx RecompInsn
begin

text \<open>
  \<open>XenonAnalyse/main.cpp\<close>: the search of the code sections for the four shapes of a compiled
  \<open>switch\<close>, the range check in front of each, the jump table behind it, and the file of tables the
  recompiler is configured with. The disassembler is an argument, as is the question whether an
  opcode has a second operand. \<open>None\<close> is a read outside of the buffer of the image, or a shift
  that C++17 leaves undefined. Assertions of debug builds are left out.
\<close>

unbundle bit_operations_syntax

subsection \<open>Reading code\<close>

record scan_env =
  sc_dis :: "u32 \<Rightarrow> u64 \<Rightarrow> ppc_insn"
  sc_second :: "ppc_inst \<Rightarrow> bool"   \<comment> \<open>\<open>opcode->operands[1] != 0\<close>\<close>

definition Disassemble :: "scan_env \<Rightarrow> bytes \<Rightarrow> nat \<Rightarrow> u64 \<Rightarrow> ppc_insn option" where
  "Disassemble env bs p address = map_option (\<lambda>w. sc_dis env w address) (be32 bs p)"

definition has_id :: "ppc_inst \<Rightarrow> ppc_insn \<Rightarrow> bool" where
  "has_id i insn = (case pi_opcode insn of None \<Rightarrow> False | Some (_, j) \<Rightarrow> i = j)"

text \<open>The place in the buffer of an address of the image, by \<open>Image::Find\<close>.\<close>

definition image_place :: "Image \<Rightarrow> bytes \<Rightarrow> u64 \<Rightarrow> nat option" where
  "image_place img bs address =
     map_option (\<lambda>(s, off). length bs - length (sec_data s) + unat off) (Image_Find address img)"

subsection \<open>Tables\<close>

definition SWITCH_ABSOLUTE :: u32 where "SWITCH_ABSOLUTE = 0"
definition SWITCH_COMPUTED :: u32 where "SWITCH_COMPUTED = 1"
definition SWITCH_BYTEOFFSET :: u32 where "SWITCH_BYTEOFFSET = 2"
definition SWITCH_SHORTOFFSET :: u32 where "SWITCH_SHORTOFFSET = 3"

record SwitchTable =
  tab_labels :: "u64 list"
  tab_base :: u64
  tab_default :: u64
  tab_r :: u32
  tab_type :: u32

definition empty_table :: "u32 \<Rightarrow> SwitchTable" where
  "empty_table type = \<lparr>tab_labels = [], tab_base = 0, tab_default = 0, tab_r = 0, tab_type = type\<rparr>"

definition byte_at :: "bytes \<Rightarrow> nat \<Rightarrow> u8 option" where
  "byte_at bs p = (if p < length bs then Some (bs ! p) else None)"

text \<open>The constant that a pair of \<open>lis\<close> and \<open>addi\<close> builds, \<open>k\<close> instructions after the first.\<close>

definition lis_addi :: "scan_env \<Rightarrow> bytes \<Rightarrow> nat \<Rightarrow> u64 \<Rightarrow> nat \<Rightarrow> u32 option" where
  "lis_addi env bs p address k =
     do { hi \<leftarrow> Disassemble env bs (p + 4 * k) (address + of_nat (4 * k));
          lo \<leftarrow> Disassemble env bs (p + 4 * (k + 1)) (address + of_nat (4 * (k + 1)));
          Some (push_bit 16 (pi_operands hi 1) + pi_operands lo 2) }"

definition read_labels :: "(nat \<Rightarrow> u32 option) \<Rightarrow> SwitchTable \<Rightarrow> SwitchTable option" where
  "read_labels f t =
     map_option (\<lambda>ls. t\<lparr>tab_labels := map ucast ls\<rparr>) (those (map f [0..<length (tab_labels t)]))"

definition ReadTable :: "scan_env \<Rightarrow> Image \<Rightarrow> bytes \<Rightarrow> SwitchTable \<Rightarrow> SwitchTable option" where
  "ReadTable env img bs t =
     do { code \<leftarrow> image_place img bs (tab_base t);
          pOffset \<leftarrow> lis_addi env bs code (tab_base t) 0;
          if tab_type t = SWITCH_ABSOLUTE then do {
            offsets \<leftarrow> image_place img bs (ucast pOffset);
            read_labels (\<lambda>i. be32 bs (offsets + 4 * i)) t }
          else if tab_type t = SWITCH_COMPUTED then do {
            offsets \<leftarrow> image_place img bs (ucast pOffset);
            base \<leftarrow> lis_addi env bs code (tab_base t) 4;
            insn \<leftarrow> Disassemble env bs (code + 4 * 3) (tab_base t + 0x0C);
            let shift = pi_operands insn 2;
            read_labels (\<lambda>i. do { off \<leftarrow> byte_at bs (offsets + i);
                                   if shift < 32 \<and> unat off * 2 ^ unat shift < 2 ^ 32 then Some (base + push_bit (unat shift) (ucast off)) else None }) t }
          else if tab_type t = SWITCH_BYTEOFFSET then do {
            offsets \<leftarrow> image_place img bs (ucast pOffset);
            base \<leftarrow> lis_addi env bs code (tab_base t) 3;
            read_labels (\<lambda>i. map_option (\<lambda>off. base + ucast off) (byte_at bs (offsets + i))) t }
          else if tab_type t = SWITCH_SHORTOFFSET then do {
            offsets \<leftarrow> image_place img bs (ucast pOffset);
            base \<leftarrow> lis_addi env bs code (tab_base t) 4;
            read_labels (\<lambda>i. map_option (\<lambda>off. base + ucast off) (be16 bs (offsets + 2 * i))) t }
          else Some t }"

subsection \<open>The range check\<close>

definition range_branches :: "ppc_inst list" where
  "range_branches = [Inst_cond PPC_INST_BGT, Inst_cond PPC_INST_BGTLR, Inst_cond PPC_INST_BLE, Inst_cond PPC_INST_BLELR]"

text \<open>The loop over at most 32 instructions, backwards from \<open>code\<close>; \<open>i\<close> is its counter, \<open>n\<close> the turns left.\<close>

fun scan_back :: "scan_env \<Rightarrow> bytes \<Rightarrow> nat \<Rightarrow> u64 \<Rightarrow> nat \<Rightarrow> nat \<Rightarrow> u32 \<Rightarrow> SwitchTable \<Rightarrow> SwitchTable option" where
  "scan_back env bs code base i 0 cr t = Some t"
| "scan_back env bs code base i (Suc n) cr t =
     do { insn \<leftarrow> (if 4 * i \<le> code then Disassemble env bs (code - 4 * i) (base - of_nat (4 * i)) else None);
          case pi_opcode insn of
            None \<Rightarrow> scan_back env bs code base (Suc i) n cr t
          | Some (_, opid) \<Rightarrow>
              (if cr = - 1 \<and> opid \<in> set range_branches
               then scan_back env bs code base (Suc i) n (pi_operands insn 0)
                      (if sc_second env opid then t\<lparr>tab_default := ucast (pi_operands insn 1)\<rparr> else t)
               else if cr \<noteq> - 1 \<and> opid = Inst_cmp PPC_INST_CMPLWI \<and> pi_operands insn 0 = cr
               then Some (let sz = unat (pi_operands insn 2 + 1)
                          in t\<lparr>tab_r := pi_operands insn 1,
                               tab_labels := take sz (tab_labels t) @ replicate (sz - length (tab_labels t)) 0,
                               tab_base := base\<rparr>)
               else scan_back env bs code base (Suc i) n cr t) }"

definition ScanTable :: "scan_env \<Rightarrow> bytes \<Rightarrow> nat \<Rightarrow> u64 \<Rightarrow> SwitchTable \<Rightarrow> SwitchTable option" where
  "ScanTable env bs code base t = scan_back env bs code base 0 32 (- 1) t"

subsection \<open>The search\<close>

text \<open>The inner loop stops at the first instruction that differs; it does not know the end of the section.\<close>

fun pattern_at :: "scan_env \<Rightarrow> bytes \<Rightarrow> nat \<Rightarrow> ppc_inst list \<Rightarrow> bool option" where
  "pattern_at env bs p [] = Some True"
| "pattern_at env bs p (i # is) =
     do { insn \<leftarrow> Disassemble env bs p 0;
          if has_id i insn then pattern_at env bs (p + 4) is else Some False }"

fun search_words :: "scan_env \<Rightarrow> bytes \<Rightarrow> ppc_inst list \<Rightarrow> nat \<Rightarrow> nat \<Rightarrow> nat option option" where
  "search_words env bs compare p 0 = Some None"
| "search_words env bs compare p (Suc n) =
     do { found \<leftarrow> pattern_at env bs p compare;
          if found then Some (Some p) else search_words env bs compare (p + 4) n }"

definition SearchMask :: "scan_env \<Rightarrow> bytes \<Rightarrow> ppc_inst list \<Rightarrow> nat \<Rightarrow> nat \<Rightarrow> nat option option" where
  "SearchMask env bs compare p sz = search_words env bs compare p (sz div 4)"

lemma search_words_range: "search_words env bs compare p n = Some (Some q) \<Longrightarrow> p \<le> q \<and> q + 4 \<le> p + 4 * n"
  by (induction n arbitrary: p) (force split: bind_splits if_splits)+

lemma search_words_index: "search_words env bs compare p n = Some (Some q) \<Longrightarrow> \<exists>i<n. q = p + 4 * i"
proof (induction n arbitrary: p)
  case (Suc n)
  then obtain found where f: "pattern_at env bs p compare = Some found" by (auto simp: Option.bind_eq_Some_conv)
  show ?case
  proof (cases found)
    case True
    then show ?thesis using Suc.prems f by auto
  next
    case False
    then obtain i where "i < n" "q = p + 4 + 4 * i" using Suc f by fastforce
    then show ?thesis by (intro exI [of _ "Suc i"]) simp
  qed
qed simp

lemma SearchMask_range: "SearchMask env bs compare p (e - p) = Some (Some q) \<Longrightarrow> p \<le> q \<and> q + 4 \<le> e"
  unfolding SearchMask_def by (drule search_words_range) auto

text \<open>What is done at one occurrence of a pattern: the tables it adds.\<close>

definition visit :: "scan_env \<Rightarrow> Image \<Rightarrow> bytes \<Rightarrow> u32 \<Rightarrow> u64 \<Rightarrow> nat \<Rightarrow> SwitchTable list option" where
  "visit env img bs type address data =
     do { t \<leftarrow> ScanTable env bs data address (empty_table type);
          if tab_base t \<noteq> 0 then map_option (\<lambda>t. [t]) (ReadTable env img bs t) else Some [] }"

function scan_loop ::
  "scan_env \<Rightarrow> Image \<Rightarrow> bytes \<Rightarrow> ppc_inst list \<Rightarrow> u32 \<Rightarrow> u64 \<Rightarrow> nat \<Rightarrow> nat \<Rightarrow> nat \<Rightarrow> SwitchTable list \<Rightarrow> SwitchTable list option" where
  "scan_loop env img bs pattern type base dataStart dataEnd data ts =
     (if data < dataEnd then
        (case SearchMask env bs pattern data (dataEnd - data) of
           None \<Rightarrow> None
         | Some None \<Rightarrow> Some ts
         | Some (Some q) \<Rightarrow>
             Option.bind (visit env img bs type (base + of_nat (q - dataStart)) q)
               (\<lambda>new. scan_loop env img bs pattern type base dataStart dataEnd (q + 4) (ts @ new)))
      else Some ts)"
  by pat_completeness auto
termination
  by (relation "measure (\<lambda>(_, _, _, _, _, _, _, e, p, _). e - p)") (auto dest!: SearchMask_range)

declare scan_loop.simps [simp del]

definition scan_section :: "scan_env \<Rightarrow> Image \<Rightarrow> bytes \<Rightarrow> ppc_inst list \<Rightarrow> u32 \<Rightarrow> Section \<Rightarrow> SwitchTable list \<Rightarrow> SwitchTable list option" where
  "scan_section env img bs pattern type s ts =
     (if sec_code s
      then (let start = length bs - length (sec_data s)
            in scan_loop env img bs pattern type (sec_base s) start (start + unat (sec_size s)) start ts)
      else Some ts)"

fun scan_sections :: "scan_env \<Rightarrow> Image \<Rightarrow> bytes \<Rightarrow> ppc_inst list \<Rightarrow> u32 \<Rightarrow> Section list \<Rightarrow> SwitchTable list \<Rightarrow> SwitchTable list option" where
  "scan_sections env img bs pattern type [] ts = Some ts"
| "scan_sections env img bs pattern type (s # ss) ts =
     Option.bind (scan_section env img bs pattern type s ts) (scan_sections env img bs pattern type ss)"

definition scanPattern :: "scan_env \<Rightarrow> Image \<Rightarrow> bytes \<Rightarrow> ppc_inst list \<Rightarrow> u32 \<Rightarrow> SwitchTable list option" where
  "scanPattern env img bs pattern type = scan_sections env img bs pattern type (img_sections img) []"

subsection \<open>The program\<close>

definition absoluteSwitch :: "ppc_inst list" where
  "absoluteSwitch = [Inst_load2 PPC_INST_LIS, Inst_add PPC_INST_ADDI, Inst_logic PPC_INST_RLWINM, Inst_load3 PPC_INST_LWZX,
     Inst_move PPC_INST_MTCTR, Inst_jump PPC_INST_BCTR]"

definition computedSwitch :: "ppc_inst list" where
  "computedSwitch = [Inst_load2 PPC_INST_LIS, Inst_add PPC_INST_ADDI, Inst_load PPC_INST_LBZX, Inst_logic PPC_INST_RLWINM,
     Inst_load2 PPC_INST_LIS, Inst_add PPC_INST_ADDI, Inst_add PPC_INST_ADD, Inst_move PPC_INST_MTCTR]"

definition offsetSwitch :: "ppc_inst list" where
  "offsetSwitch = [Inst_load2 PPC_INST_LIS, Inst_add PPC_INST_ADDI, Inst_load PPC_INST_LBZX, Inst_load2 PPC_INST_LIS,
     Inst_add PPC_INST_ADDI, Inst_add PPC_INST_ADD, Inst_move PPC_INST_MTCTR]"

definition wordOffsetSwitch :: "ppc_inst list" where
  "wordOffsetSwitch = [Inst_load2 PPC_INST_LIS, Inst_add PPC_INST_ADDI, Inst_logic PPC_INST_RLWINM, Inst_load2 PPC_INST_LHZX,
     Inst_load2 PPC_INST_LIS, Inst_add PPC_INST_ADDI, Inst_add PPC_INST_ADD, Inst_move PPC_INST_MTCTR]"

definition line :: "string \<Rightarrow> string" where
  "line s = s @ [CHR 10]"

definition hex_u64 :: "u64 \<Rightarrow> string" where
  "hex_u64 w = ''0x'' @ hex_string (uint w)"

definition printTable :: "SwitchTable \<Rightarrow> string" where
  "printTable t =
     line ''[[switch]]'' @ line (''base = '' @ hex_u64 (tab_base t)) @ line (''r = '' @ dec_string (uint (tab_r t)))
     @ line (''default = '' @ hex_u64 (tab_default t)) @ line ''labels = [''
     @ concat (map (\<lambda>l. line (''    '' @ hex_u64 l @ '','')) (tab_labels t)) @ line '']'' @ line ''''"

definition analysis_text :: "scan_env \<Rightarrow> Image \<Rightarrow> bytes \<Rightarrow> string option" where
  "analysis_text env img bs =
     do { t0 \<leftarrow> scanPattern env img bs absoluteSwitch SWITCH_ABSOLUTE;
          t1 \<leftarrow> scanPattern env img bs computedSwitch SWITCH_COMPUTED;
          t2 \<leftarrow> scanPattern env img bs offsetSwitch SWITCH_BYTEOFFSET;
          t3 \<leftarrow> scanPattern env img bs wordOffsetSwitch SWITCH_SHORTOFFSET;
          Some (line ''# Generated by XenonAnalyse''
            @ line ''# ---- ABSOLUTE JUMPTABLE ----'' @ concat (map printTable t0)
            @ line ''# ---- COMPUTED JUMPTABLE ----'' @ concat (map printTable t1)
            @ line ''# ---- OFFSETED JUMPTABLE ----'' @ concat (map printTable t2) @ concat (map printTable t3)) }"

text \<open>
  The file written, if any: \<open>argv\<close> without the name of the program; a file that cannot be opened has
  no bytes.
\<close>

definition XenonAnalyse :: "load_env \<Rightarrow> scan_env \<Rightarrow> (string \<Rightarrow> bytes option) \<Rightarrow> string list \<Rightarrow> (string \<times> string) option option" where
  "XenonAnalyse lenv env files argv =
     (case argv of
        input # output # _ \<Rightarrow>
          do { (img, bs) \<leftarrow> ParseImage lenv (case files input of None \<Rightarrow> [] | Some f \<Rightarrow> f);
               text \<leftarrow> analysis_text env img bs;
               Some (Some (output, text)) }
      | _ \<Rightarrow> Some None)"

subsection \<open>Every occurrence is visited once\<close>

definition occurrences :: "scan_env \<Rightarrow> bytes \<Rightarrow> ppc_inst list \<Rightarrow> nat \<Rightarrow> nat \<Rightarrow> nat list" where
  "occurrences env bs pattern data sz =
     filter (\<lambda>p. pattern_at env bs p pattern = Some True) (map (\<lambda>k. data + 4 * k) [0..<sz div 4])"

lemma word_places_Suc: "map (\<lambda>k. data + 4 * k) [0..<Suc n] = data # map (\<lambda>k. data + 4 + 4 * k) [0..<n]"
  by (simp only: upt_conv_Cons [OF zero_less_Suc] map_Suc_upt [symmetric] list.map map_map o_def) simp

lemma search_words_places:
  assumes "search_words env bs pattern data n = Some r"
  shows "filter (\<lambda>p. pattern_at env bs p pattern = Some True) (map (\<lambda>k. data + 4 * k) [0..<n]) =
     (case r of None \<Rightarrow> []
      | Some q \<Rightarrow> q # filter (\<lambda>p. pattern_at env bs p pattern = Some True)
                       (map (\<lambda>k. q + 4 + 4 * k) [0..<(data + 4 * n - (q + 4)) div 4]))"
  using assms
proof (induction n arbitrary: data)
  case 0
  then show ?case by auto
next
  case (Suc n)
  then obtain found where f: "pattern_at env bs data pattern = Some found" by (auto simp: Option.bind_eq_Some_conv)
  show ?case
  proof (cases found)
    case True
    then have "r = Some data" using Suc.prems f by simp
    then show ?thesis using f True by (simp only: word_places_Suc) simp
  next
    case False
    then have "search_words env bs pattern (data + 4) n = Some r" using Suc.prems f by simp
    from Suc.IH [OF this] show ?thesis using f False by (simp only: word_places_Suc) (auto split: option.splits)
  qed
qed

lemma words_left:
  assumes "i < m div (4 :: nat)"
  shows "(data + 4 * (m div 4) - (data + 4 * i + 4)) div 4 = (data + m - (data + 4 * i + 4)) div 4"
proof -
  obtain k where k: "m div 4 = i + 1 + k" using assms by (metis add.commute less_iff_Suc_add plus_1_eq_Suc add_Suc_right add_Suc)
  then have "m = 4 * (i + 1 + k) + m mod 4" by (metis mult_div_mod_eq)
  then have "data + m - (data + 4 * i + 4) = 4 * k + m mod 4" by simp
  moreover have "data + 4 * (m div 4) - (data + 4 * i + 4) = 4 * k" using k by simp
  moreover have "m mod 4 < 4" by simp
  ultimately show ?thesis by simp
qed

lemma occurrences_search:
  assumes "SearchMask env bs pattern data sz = Some r"
  shows "occurrences env bs pattern data sz =
     (case r of None \<Rightarrow> [] | Some q \<Rightarrow> q # occurrences env bs pattern (q + 4) (data + sz - (q + 4)))"
proof (cases r)
  case None
  then show ?thesis using search_words_places [of env bs pattern data "sz div 4" r] assms
    by (simp add: SearchMask_def occurrences_def)
next
  case (Some q)
  then obtain i where i: "i < sz div 4" "q = data + 4 * i"
    using assms search_words_index [of env bs pattern data "sz div 4" q] by (auto simp: SearchMask_def)
  have "(data + 4 * (sz div 4) - (q + 4)) div 4 = (data + sz - (q + 4)) div 4"
    unfolding i(2) by (rule words_left [OF i(1)])
  then show ?thesis using search_words_places [of env bs pattern data "sz div 4" r] assms Some
    by (simp add: SearchMask_def occurrences_def)
qed

lemma those_Cons_bind: "those (x # xs) = Option.bind x (\<lambda>v. Option.bind (those xs) (\<lambda>vs. Some (v # vs)))"
  by (cases x; cases "those xs") auto

lemma scan_loop_visits:
  assumes "scan_loop env img bs pattern type base dataStart dataEnd data ts = Some ts'"
  shows "\<exists>new. those (map (\<lambda>q. visit env img bs type (base + of_nat (q - dataStart)) q)
                 (occurrences env bs pattern data (dataEnd - data))) = Some new \<and> ts' = ts @ concat new"
  using assms
proof (induction env img bs pattern type base dataStart dataEnd data ts rule: scan_loop.induct)
  case (1 env img bs pattern type base dataStart dataEnd data ts)
  show ?case
  proof (cases "data < dataEnd")
    case False
    then show ?thesis using "1.prems" by (simp add: occurrences_def scan_loop.simps [of _ _ _ _ _ _ _ _ data])
  next
    case True
    then obtain r where r: "SearchMask env bs pattern data (dataEnd - data) = Some r"
      using "1.prems" by (auto simp: scan_loop.simps [of _ _ _ _ _ _ _ _ data] split: option.splits)
    show ?thesis
    proof (cases r)
      case None
      then have "ts' = ts" using "1.prems" True r by (simp add: scan_loop.simps [of _ _ _ _ _ _ _ _ data])
      then show ?thesis using occurrences_search [OF r] None by simp
    next
      case (Some q)
      then obtain new where new: "visit env img bs type (base + of_nat (q - dataStart)) q = Some new"
        "scan_loop env img bs pattern type base dataStart dataEnd (q + 4) (ts @ new) = Some ts'"
        using "1.prems" True r
        by (auto simp: scan_loop.simps [of _ _ _ _ _ _ _ _ data] Option.bind_eq_Some_conv)
      have "data + (dataEnd - data) - (q + 4) = dataEnd - (q + 4)" using True by simp
      moreover obtain more where "those (map (\<lambda>q. visit env img bs type (base + of_nat (q - dataStart)) q)
                 (occurrences env bs pattern (q + 4) (dataEnd - (q + 4)))) = Some more" "ts' = ts @ new @ concat more"
        using "1.IH" [OF True r Some new] by auto
      ultimately show ?thesis using occurrences_search [OF r] Some new(1) by (auto simp: those_Cons_bind simp del: those.simps)
    qed
  qed
qed

lemma scan_section_visits:
  assumes "scan_section env img bs pattern type s ts = Some ts'"
  shows "\<exists>new. those (map (\<lambda>q. visit env img bs type (sec_base s + of_nat (q - (length bs - length (sec_data s)))) q)
      (if sec_code s then occurrences env bs pattern (length bs - length (sec_data s)) (unat (sec_size s)) else []))
    = Some new \<and> ts' = ts @ concat new"
  using assms scan_loop_visits [of env img bs pattern type "sec_base s" "length bs - length (sec_data s)"]
  by (fastforce simp: scan_section_def Let_def split: if_splits)

text \<open>The places of a pattern in the code of an image: the section with the place in the buffer.\<close>

definition places :: "scan_env \<Rightarrow> bytes \<Rightarrow> ppc_inst list \<Rightarrow> Section list \<Rightarrow> (u64 \<times> nat) list" where
  "places env bs pattern ss =
     concat (map (\<lambda>s. let start = length bs - length (sec_data s)
                      in map (\<lambda>q. (sec_base s + of_nat (q - start), q)) (occurrences env bs pattern start (unat (sec_size s))))
       (filter sec_code ss))"

lemma those_append: "those (xs @ ys) = Option.bind (those xs) (\<lambda>a. Option.bind (those ys) (\<lambda>b. Some (a @ b)))"
  by (induction xs) (auto simp: those_Cons_bind Option.bind_eq_Some_conv simp del: those.simps(2) split: option.splits bind_splits)

lemma scan_sections_visits:
  assumes "scan_sections env img bs pattern type ss ts = Some ts'"
  shows "\<exists>new. those (map (\<lambda>(a, q). visit env img bs type a q) (places env bs pattern ss)) = Some new \<and> ts' = ts @ concat new"
  using assms
proof (induction ss arbitrary: ts)
  case Nil
  then show ?case by (simp add: places_def)
next
  case (Cons s ss)
  then obtain t1 where t1: "scan_section env img bs pattern type s ts = Some t1"
    "scan_sections env img bs pattern type ss t1 = Some ts'" by (auto simp: Option.bind_eq_Some_conv)
  obtain new where new: "those (map (\<lambda>q. visit env img bs type (sec_base s + of_nat (q - (length bs - length (sec_data s)))) q)
      (if sec_code s then occurrences env bs pattern (length bs - length (sec_data s)) (unat (sec_size s)) else []))
    = Some new" "t1 = ts @ concat new" using scan_section_visits [OF t1(1)] by blast
  obtain more where more: "those (map (\<lambda>(a, q). visit env img bs type a q) (places env bs pattern ss)) = Some more"
    "ts' = t1 @ concat more" using Cons.IH [OF t1(2)] by blast
  have "places env bs pattern (s # ss) = map (\<lambda>q. (sec_base s + of_nat (q - (length bs - length (sec_data s))), q))
      (if sec_code s then occurrences env bs pattern (length bs - length (sec_data s)) (unat (sec_size s)) else [])
      @ places env bs pattern ss" by (simp add: places_def Let_def)
  then show ?case using new more by (simp add: those_append o_def)
qed

subsection \<open>A compiled switch is recovered\<close>

text \<open>The instruction \<open>i\<close> places in front of \<open>code\<close>.\<close>

definition before :: "scan_env \<Rightarrow> bytes \<Rightarrow> nat \<Rightarrow> u64 \<Rightarrow> nat \<Rightarrow> ppc_insn option" where
  "before env bs code base i = (if 4 * i \<le> code then Disassemble env bs (code - 4 * i) (base - of_nat (4 * i)) else None)"

text \<open>
  The range check in front of a switch: \<open>j\<close> instructions back is the branch \<open>b\<close> to the default label,
  \<open>i\<close> instructions back the comparison \<open>c\<close> of the index with the largest case, in the same condition
  register, and nothing in between looks like either.
\<close>

definition range_check :: "scan_env \<Rightarrow> bytes \<Rightarrow> nat \<Rightarrow> u64 \<Rightarrow> nat \<Rightarrow> nat \<Rightarrow> ppc_insn \<Rightarrow> ppc_insn \<Rightarrow> bool" where
  "range_check env bs code base j i b c =
     (j < i \<and> i < 32
      \<and> list_all (\<lambda>k. case before env bs code base k of None \<Rightarrow> False
                      | Some insn \<Rightarrow> list_all (\<lambda>d. \<not> has_id d insn) range_branches) [0..<j]
      \<and> before env bs code base j = Some b
      \<and> list_ex (\<lambda>d. has_id d b \<and> sc_second env d) range_branches \<and> pi_operands b 0 \<noteq> - 1
      \<and> list_all (\<lambda>k. case before env bs code base k of None \<Rightarrow> False
                      | Some insn \<Rightarrow> \<not> (has_id (Inst_cmp PPC_INST_CMPLWI) insn \<and> pi_operands insn 0 = pi_operands b 0)) [Suc j..<i]
      \<and> before env bs code base i = Some c
      \<and> has_id (Inst_cmp PPC_INST_CMPLWI) c \<and> pi_operands c 0 = pi_operands b 0)"

lemma scan_back_before:
  "scan_back env bs code base i (Suc n) cr t =
     Option.bind (before env bs code base i) (\<lambda>insn.
       case pi_opcode insn of
         None \<Rightarrow> scan_back env bs code base (Suc i) n cr t
       | Some (_, opid) \<Rightarrow>
           if cr = - 1 \<and> opid \<in> set range_branches
           then scan_back env bs code base (Suc i) n (pi_operands insn 0)
                  (if sc_second env opid then t\<lparr>tab_default := ucast (pi_operands insn 1)\<rparr> else t)
           else if cr \<noteq> - 1 \<and> opid = Inst_cmp PPC_INST_CMPLWI \<and> pi_operands insn 0 = cr
           then Some (let sz = unat (pi_operands insn 2 + 1)
                      in t\<lparr>tab_r := pi_operands insn 1,
                           tab_labels := take sz (tab_labels t) @ replicate (sz - length (tab_labels t)) 0,
                           tab_base := base\<rparr>)
           else scan_back env bs code base (Suc i) n cr t)"
  by (simp add: before_def)

text \<open>Instructions that match neither half are skipped.\<close>

lemma scan_back_skip:
  assumes "\<forall>k. a \<le> k \<and> k < b \<longrightarrow> (\<exists>insn. before env bs code base k = Some insn
      \<and> (if cr = - 1 then list_all (\<lambda>d. \<not> has_id d insn) range_branches
         else \<not> (has_id (Inst_cmp PPC_INST_CMPLWI) insn \<and> pi_operands insn 0 = cr)))"
    "a \<le> b" "b \<le> a + n"
  shows "scan_back env bs code base a n cr t = scan_back env bs code base b (a + n - b) cr t"
  using assms
proof (induction n arbitrary: a)
  case 0
  then show ?case by simp
next
  case (Suc n)
  show ?case
  proof (cases "a = b")
    case False
    then obtain insn where insn: "before env bs code base a = Some insn"
      "if cr = - 1 then list_all (\<lambda>d. \<not> has_id d insn) range_branches
         else \<not> (has_id (Inst_cmp PPC_INST_CMPLWI) insn \<and> pi_operands insn 0 = cr)"
      using Suc.prems(1,2) by (metis le_neq_implies_less order_refl)
    have "scan_back env bs code base a (Suc n) cr t = scan_back env bs code base (Suc a) n cr t"
      using insn by (auto simp del: scan_back.simps simp: scan_back_before has_id_def list_all_iff split: option.splits if_splits)
    also have "\<dots> = scan_back env bs code base b (Suc a + n - b) cr t" by (rule Suc.IH) (use Suc.prems False in auto)
    finally show ?thesis by simp
  qed simp
qed

lemma list_all_upt_case:
  assumes "list_all (\<lambda>k. case f k of None \<Rightarrow> False | Some x \<Rightarrow> P x) [a..<b]" "a \<le> k" "k < b"
  shows "\<exists>x. f k = Some x \<and> P x"
proof -
  have "k \<in> set [a..<b]" using assms(2,3) by simp
  then have "case f k of None \<Rightarrow> False | Some x \<Rightarrow> P x" by (rule bspec [OF assms(1) [unfolded list_all_iff]])
  then show ?thesis by (simp split: option.splits)
qed

lemma range_checkD:
  assumes "range_check env bs code base j i b c"
  shows "k < j \<Longrightarrow> \<exists>insn. before env bs code base k = Some insn \<and> list_all (\<lambda>d. \<not> has_id d insn) range_branches"
    and "j < k \<Longrightarrow> k < i \<Longrightarrow> \<exists>insn. before env bs code base k = Some insn
           \<and> \<not> (has_id (Inst_cmp PPC_INST_CMPLWI) insn \<and> pi_operands insn 0 = pi_operands b 0)"
proof -
  have p: "list_all (\<lambda>k. case before env bs code base k of None \<Rightarrow> False
                      | Some insn \<Rightarrow> list_all (\<lambda>d. \<not> has_id d insn) range_branches) [0..<j]"
    "list_all (\<lambda>k. case before env bs code base k of None \<Rightarrow> False
                      | Some insn \<Rightarrow> \<not> (has_id (Inst_cmp PPC_INST_CMPLWI) insn \<and> pi_operands insn 0 = pi_operands b 0)) [Suc j..<i]"
    using assms by (simp_all only: range_check_def)
  show "k < j \<Longrightarrow> \<exists>insn. before env bs code base k = Some insn \<and> list_all (\<lambda>d. \<not> has_id d insn) range_branches"
    by (rule list_all_upt_case [OF p(1) le0])
  show "j < k \<Longrightarrow> k < i \<Longrightarrow> \<exists>insn. before env bs code base k = Some insn
           \<and> \<not> (has_id (Inst_cmp PPC_INST_CMPLWI) insn \<and> pi_operands insn 0 = pi_operands b 0)"
    by (rule list_all_upt_case [OF p(2) Suc_leI])
qed

lemma ScanTable_range_check:
  assumes "range_check env bs code base j i b c"
  shows "ScanTable env bs code base (empty_table type) = Some
     \<lparr>tab_labels = replicate (unat (pi_operands c 2 + 1)) 0, tab_base = base, tab_default = ucast (pi_operands b 1),
      tab_r = pi_operands c 1, tab_type = type\<rparr>"
proof -
  obtain ji: "j < i" "i < 32" and b: "before env bs code base j = Some b" "pi_operands b 0 \<noteq> - 1"
    and c: "before env bs code base i = Some c" "has_id (Inst_cmp PPC_INST_CMPLWI) c" "pi_operands c 0 = pi_operands b 0"
    using assms by (auto simp: range_check_def)
  obtain d nm where d: "d \<in> set range_branches" "sc_second env d" "pi_opcode b = Some (nm, d)"
    using assms by (auto simp: range_check_def list_ex_iff has_id_def split: option.splits)
  obtain nm' where c': "pi_opcode c = Some (nm', Inst_cmp PPC_INST_CMPLWI)"
    using c(2) by (auto simp: has_id_def split: option.splits)
  let ?t = "(empty_table type)\<lparr>tab_default := ucast (pi_operands b 1)\<rparr>"
  have "scan_back env bs code base 0 32 (- 1) (empty_table type) = scan_back env bs code base j (0 + 32 - j) (- 1) (empty_table type)"
    by (rule scan_back_skip) (use range_checkD(1) [OF assms] ji in simp_all)
  also have "\<dots> = scan_back env bs code base j (Suc (31 - j)) (- 1) (empty_table type)"
    by (rule arg_cong [of _ _ "\<lambda>n. scan_back env bs code base j n (- 1) (empty_table type)"]) (use ji in simp)
  also have "\<dots> = scan_back env bs code base (Suc j) (31 - j) (pi_operands b 0) ?t"
    using b d by (simp add: scan_back_before del: scan_back.simps)
  also have "\<dots> = scan_back env bs code base i (Suc j + (31 - j) - i) (pi_operands b 0) ?t"
    by (rule scan_back_skip) (use range_checkD(2) [OF assms] ji b in simp_all)
  also have "\<dots> = scan_back env bs code base i (Suc (31 - i)) (pi_operands b 0) ?t"
    by (rule arg_cong [of _ _ "\<lambda>n. scan_back env bs code base i n (pi_operands b 0) ?t"]) (use ji in simp)
  also have "\<dots> = Some \<lparr>tab_labels = replicate (unat (pi_operands c 2 + 1)) 0, tab_base = base, tab_default = ucast (pi_operands b 1),
      tab_r = pi_operands c 1, tab_type = type\<rparr>"
    using b c c' by (simp add: scan_back_before empty_table_def Let_def range_branches_def del: scan_back.simps)
  finally show ?thesis by (simp add: ScanTable_def)
qed

text \<open>What a compiler puts into the table of a switch for one label, and which labels it can express.\<close>

definition jump_entry :: "u32 \<Rightarrow> u32 \<Rightarrow> nat \<Rightarrow> u32 \<Rightarrow> bytes" where
  "jump_entry type base shift label =
     (if type = SWITCH_ABSOLUTE then be32_bytes label
      else if type = SWITCH_COMPUTED then [ucast (drop_bit shift (label - base))]
      else if type = SWITCH_BYTEOFFSET then [ucast (label - base)]
      else be16_bytes (ucast (label - base)))"

definition expressible :: "u32 \<Rightarrow> u32 \<Rightarrow> nat \<Rightarrow> u32 \<Rightarrow> bool" where
  "expressible type base shift label =
     (if type = SWITCH_ABSOLUTE then True
      else if type = SWITCH_COMPUTED then shift < 32 \<and> unat (label - base) < 256 * 2 ^ shift \<and> unat (label - base) mod 2 ^ shift = 0
      else if type = SWITCH_BYTEOFFSET then unat (label - base) < 256
      else unat (label - base) < 65536)"

text \<open>The constants of the code of a switch at \<open>code\<close>, and its table at the address \<open>ptr\<close>.\<close>

definition jump_table :: "scan_env \<Rightarrow> Image \<Rightarrow> bytes \<Rightarrow> u32 \<Rightarrow> nat \<Rightarrow> u64 \<Rightarrow> u32 \<Rightarrow> nat \<Rightarrow> u32 list \<Rightarrow> bool" where
  "jump_table env img bs type code address base shift labels =
     (type \<in> {SWITCH_ABSOLUTE, SWITCH_COMPUTED, SWITCH_BYTEOFFSET, SWITCH_SHORTOFFSET}
      \<and> image_place img bs address = Some code
      \<and> (case Option.bind (lis_addi env bs code address 0) (\<lambda>ptr. image_place img bs (ucast ptr)) of
           None \<Rightarrow> False
         | Some offsets \<Rightarrow>
             (let entries = concat (map (jump_entry type base shift) labels)
              in bytes_at bs offsets (length entries) = Some entries))
      \<and> (type = SWITCH_ABSOLUTE \<or> lis_addi env bs code address (if type = SWITCH_BYTEOFFSET then 3 else 4) = Some base)
      \<and> (type \<noteq> SWITCH_COMPUTED
         \<or> map_option (\<lambda>insn. pi_operands insn 2) (Disassemble env bs (code + 12) (address + 12)) = Some (of_nat shift))
      \<and> list_all (expressible type base shift) labels)"

definition entry_size :: "u32 \<Rightarrow> nat" where
  "entry_size type = (if type = SWITCH_ABSOLUTE then 4 else if type = SWITCH_SHORTOFFSET then 2 else 1)"

lemma those_map_Some:
  assumes "\<forall>i<n. f i = Some (g i)"
  shows "those (map f [0..<n]) = Some (map g [0..<n])"
  using assms
proof (induction n)
  case (Suc n)
  then have "those (map f [0..<n]) = Some (map g [0..<n])" "those [f n] = Some [g n]" by simp_all
  then show ?case by (simp only: upt_Suc_append le0 map_append list.map those_append Option.bind.bind_lunit)
qed simp

lemma map_nth_upt: "n = length xs \<Longrightarrow> map (\<lambda>i. h (xs ! i)) [0..<n] = map h xs"
  by (rule nth_equalityI) simp_all

lemma bytes_at_part:
  assumes "bytes_at bs p n = Some v" "off + k \<le> n"
  shows "bytes_at bs (p + off) k = Some (take k (drop off v))"
  using assms by (auto simp: bytes_at_def drop_take add.commute split: if_splits)

lemma entry_in_concat:
  assumes "i < length xs" "\<forall>x \<in> set xs. length (f x) = k"
  shows "k * i + k \<le> length (concat (map f xs)) \<and> take k (drop (k * i) (concat (map f xs))) = f (xs ! i)"
  using assms
proof (induction xs arbitrary: i)
  case (Cons x xs)
  show ?case
  proof (cases i)
    case (Suc m)
    then have "k * m + k \<le> length (concat (map f xs)) \<and> take k (drop (k * m) (concat (map f xs))) = f (xs ! m)"
      using Cons by auto
    then show ?thesis using Cons.prems Suc by (simp add: algebra_simps)
  qed (use Cons.prems in simp)
qed simp

lemma entry_bytes:
  assumes "bytes_at bs p (length (concat (map f xs))) = Some (concat (map f xs))"
    "i < length xs" "\<forall>x \<in> set xs. length (f x) = k"
  shows "bytes_at bs (p + k * i) k = Some (f (xs ! i))"
proof -
  note e = entry_in_concat [OF assms(2,3)]
  show ?thesis using bytes_at_part [OF assms(1) conjunct1 [OF e]] e by simp
qed

lemma byte_at_bytes: "bytes_at bs p 1 = Some [b] \<Longrightarrow> byte_at bs p = Some b"
  by (cases "p < length bs") (auto simp: bytes_at_def byte_at_def Cons_nth_drop_Suc [symmetric] simp del: Cons_nth_drop_Suc)

lemma word_plus_difference: "(a :: 'a::len word) + (b - a) = b"
  by simp

lemma small_round:
  fixes d :: u32
  shows "unat d < 256 \<Longrightarrow> ucast (ucast d :: u8) = d" "unat d < 65536 \<Longrightarrow> ucast (ucast d :: u16) = d"
  by (simp_all add: word_unat_eq_iff unsigned_ucast_eq take_bit_eq_mod unat_mod)

lemma shifted_round:
  fixes d :: u32
  assumes "shift < 32" "unat d < 256 * 2 ^ shift" "unat d mod 2 ^ shift = 0"
  shows "unat (ucast (drop_bit shift d) :: u8) * 2 ^ shift = unat d" "push_bit shift (ucast (ucast (drop_bit shift d) :: u8)) = d"
proof -
  have lt: "unat d div 2 ^ shift < 256" using assms(2) by (simp add: less_mult_imp_div_less mult.commute)
  then have u: "unat (ucast (drop_bit shift d) :: u8) = unat d div 2 ^ shift" unfolding byte_of_word(1) by (rule mod_less)
  show m: "unat (ucast (drop_bit shift d) :: u8) * 2 ^ shift = unat d"
    unfolding u using assms(3) by (simp add: mod_0_imp_dvd)
  have up: "unat (ucast x :: u32) = unat x" for x :: u8
    using unat_less_word [of x] by (simp add: unsigned_ucast_eq take_bit_eq_mod)
  have "unat (push_bit shift (ucast x :: u32)) = unat x * 2 ^ shift mod 2 ^ 32" for x :: u8
    unfolding unsigned_push_bit_eq up push_bit_eq_mult [of shift "unat x"] take_bit_eq_mod by simp
  then have "unat (push_bit shift (ucast (ucast (drop_bit shift d) :: u8)) :: u32) = unat d mod 2 ^ 32" by (simp only: m)
  moreover have "unat d < 2 ^ 32" using unat_less_word [of d] by simp
  ultimately show "push_bit shift (ucast (ucast (drop_bit shift d) :: u8)) = d"
    by (simp only: word_unat_eq_iff mod_less)
qed

lemma read_labels_entries:
  assumes "bytes_at bs p (length (concat (map (jump_entry type base shift) labels))) = Some (concat (map (jump_entry type base shift) labels))"
    "length (tab_labels t) = length labels" "k = entry_size type"
    "\<forall>x \<in> set labels. length (jump_entry type base shift x) = k"
    "\<And>i x. x \<in> set labels \<Longrightarrow> bytes_at bs (p + k * i) k = Some (jump_entry type base shift x) \<Longrightarrow> f i = Some x"
  shows "read_labels f t = Some (t\<lparr>tab_labels := map ucast labels\<rparr>)"
proof -
  have "\<forall>i<length labels. f i = Some (labels ! i)"
    using entry_bytes [OF assms(1) _ assms(4)] assms(5) by simp
  from those_map_Some [OF this] show ?thesis
    by (simp add: read_labels_def assms(2) map_nth)
qed

lemma ReadTable_jump_table:
  assumes "jump_table env img bs type code address base shift labels"
    "tab_base t = address" "tab_type t = type" "length (tab_labels t) = length labels"
  shows "ReadTable env img bs t = Some (t\<lparr>tab_labels := map ucast labels\<rparr>)"
proof -
  let ?E = "concat (map (jump_entry type base shift) labels)"
  obtain ptr offsets where ptr: "lis_addi env bs code address 0 = Some ptr" "image_place img bs (ucast ptr) = Some offsets"
    "bytes_at bs offsets (length ?E) = Some ?E"
    using assms(1) by (auto simp: jump_table_def Let_def split: option.splits bind_splits)
  have code: "image_place img bs address = Some code" and ok: "list_all (expressible type base shift) labels"
    using assms(1) by (auto simp: jump_table_def)
  note entries = read_labels_entries [OF ptr(3) assms(4) refl]
  consider "type = SWITCH_ABSOLUTE" | "type = SWITCH_COMPUTED" | "type = SWITCH_BYTEOFFSET" | "type = SWITCH_SHORTOFFSET"
    using assms(1) by (auto simp: jump_table_def)
  then show ?thesis
  proof cases
    case 1
    have "read_labels (\<lambda>i. be32 bs (offsets + 4 * i)) t = Some (t\<lparr>tab_labels := map ucast labels\<rparr>)"
      by (rule entries) (simp_all add: 1 entry_size_def jump_entry_def be32_def be_bytes_value)
    then show ?thesis using code ptr assms(2,3) 1 by (simp add: ReadTable_def)
  next
    case 2
    obtain insn where insn: "Disassemble env bs (code + 12) (address + 12) = Some insn" "pi_operands insn 2 = of_nat shift"
      and b: "lis_addi env bs code address 4 = Some base"
      using assms(1) 2 by (auto simp: jump_table_def SWITCH_ABSOLUTE_def SWITCH_COMPUTED_def SWITCH_BYTEOFFSET_def)
    have "read_labels (\<lambda>i. do { off \<leftarrow> byte_at bs (offsets + i);
             if (of_nat shift :: u32) < 32 \<and> unat off * 2 ^ unat (of_nat shift :: u32) < 2 ^ 32
             then Some (base + push_bit (unat (of_nat shift :: u32)) (ucast off)) else None }) t = Some (t\<lparr>tab_labels := map ucast labels\<rparr>)"
    proof (rule entries)
      fix i x
      assume x: "x \<in> set labels" "bytes_at bs (offsets + entry_size type * i) (entry_size type) = Some (jump_entry type base shift x)"
      have e: "shift < 32" "unat (x - base) < 256 * 2 ^ shift" "unat (x - base) mod 2 ^ shift = 0"
        using ok x(1) 2 by (auto simp: list_all_iff expressible_def SWITCH_ABSOLUTE_def SWITCH_COMPUTED_def)
      then have sh: "unat (of_nat shift :: u32) = shift" "(of_nat shift :: u32) < 32"
        by (simp_all add: unat_of_nat take_bit_eq_mod word_less_nat_alt)
      have "byte_at bs (offsets + i) = Some (ucast (drop_bit shift (x - base)))"
        using x(2) 2 by (intro byte_at_bytes) (simp add: entry_size_def jump_entry_def SWITCH_ABSOLUTE_def SWITCH_COMPUTED_def SWITCH_SHORTOFFSET_def)
      moreover have "unat (x - base) < 2 ^ 32" using unat_less_word [of "x - base"] by simp
      ultimately show "do { off \<leftarrow> byte_at bs (offsets + i);
             if (of_nat shift :: u32) < 32 \<and> unat off * 2 ^ unat (of_nat shift :: u32) < 2 ^ 32
             then Some (base + push_bit (unat (of_nat shift :: u32)) (ucast off)) else None } = Some x"
        by (simp only: Option.bind.bind_lunit sh shifted_round [OF e] simp_thms if_True word_plus_difference)
    qed (simp add: 2 entry_size_def jump_entry_def SWITCH_ABSOLUTE_def SWITCH_COMPUTED_def SWITCH_SHORTOFFSET_def)
    then show ?thesis using code ptr assms(2,3) 2 b insn
      by (simp add: ReadTable_def Let_def SWITCH_ABSOLUTE_def SWITCH_COMPUTED_def cong del: if_weak_cong)
  next
    case 3
    then have b: "lis_addi env bs code address 3 = Some base"
      using assms(1) by (auto simp: jump_table_def SWITCH_ABSOLUTE_def SWITCH_BYTEOFFSET_def)
    have "read_labels (\<lambda>i. map_option (\<lambda>off. base + ucast off) (byte_at bs (offsets + i))) t = Some (t\<lparr>tab_labels := map ucast labels\<rparr>)"
    proof (rule entries)
      fix i x
      assume x: "x \<in> set labels" "bytes_at bs (offsets + entry_size type * i) (entry_size type) = Some (jump_entry type base shift x)"
      have "unat (x - base) < 256"
        using ok x(1) 3 by (auto simp: list_all_iff expressible_def SWITCH_ABSOLUTE_def SWITCH_COMPUTED_def SWITCH_BYTEOFFSET_def)
      moreover have "byte_at bs (offsets + i) = Some (ucast (x - base))"
        using x(2) 3 by (intro byte_at_bytes) (simp add: entry_size_def jump_entry_def SWITCH_ABSOLUTE_def SWITCH_COMPUTED_def SWITCH_BYTEOFFSET_def SWITCH_SHORTOFFSET_def)
      ultimately show "map_option (\<lambda>off. base + ucast off) (byte_at bs (offsets + i)) = Some x"
        by (simp only: option.map small_round word_plus_difference)
    qed (simp add: 3 entry_size_def jump_entry_def SWITCH_ABSOLUTE_def SWITCH_COMPUTED_def SWITCH_BYTEOFFSET_def SWITCH_SHORTOFFSET_def)
    then show ?thesis using code ptr assms(2,3) 3 b
      by (simp add: ReadTable_def SWITCH_ABSOLUTE_def SWITCH_COMPUTED_def SWITCH_BYTEOFFSET_def)
  next
    case 4
    then have b: "lis_addi env bs code address 4 = Some base"
      using assms(1) by (auto simp: jump_table_def SWITCH_ABSOLUTE_def SWITCH_BYTEOFFSET_def SWITCH_SHORTOFFSET_def)
    have "read_labels (\<lambda>i. map_option (\<lambda>off. base + ucast off) (be16 bs (offsets + 2 * i))) t = Some (t\<lparr>tab_labels := map ucast labels\<rparr>)"
    proof (rule entries)
      fix i x
      assume x: "x \<in> set labels" "bytes_at bs (offsets + entry_size type * i) (entry_size type) = Some (jump_entry type base shift x)"
      have "unat (x - base) < 65536"
        using ok x(1) 4 by (auto simp: list_all_iff expressible_def SWITCH_ABSOLUTE_def SWITCH_COMPUTED_def SWITCH_BYTEOFFSET_def SWITCH_SHORTOFFSET_def)
      moreover have "be16 bs (offsets + 2 * i) = Some (ucast (x - base))"
        using x(2) 4 by (simp add: entry_size_def jump_entry_def SWITCH_ABSOLUTE_def SWITCH_COMPUTED_def SWITCH_BYTEOFFSET_def SWITCH_SHORTOFFSET_def be16_def be_bytes_value)
      ultimately show "map_option (\<lambda>off. base + ucast off) (be16 bs (offsets + 2 * i)) = Some x"
        by (simp only: option.map small_round word_plus_difference)
    qed (simp add: 4 entry_size_def jump_entry_def SWITCH_ABSOLUTE_def SWITCH_COMPUTED_def SWITCH_BYTEOFFSET_def SWITCH_SHORTOFFSET_def)
    then show ?thesis using code ptr assms(2,3) 4 b
      by (simp add: ReadTable_def SWITCH_ABSOLUTE_def SWITCH_COMPUTED_def SWITCH_BYTEOFFSET_def SWITCH_SHORTOFFSET_def)
  qed
qed

subsection \<open>A small image\<close>

text \<open>
  Code at \<open>0x82000000\<close>: the comparison of the index with one, the branch to the
  default label, the eight instructions of a computed switch, and its table of two bytes. The
  disassembler of the example knows the words 1 to 9.
\<close>

definition ex_insn :: "string \<Rightarrow> ppc_inst \<Rightarrow> u32 list \<Rightarrow> ppc_insn" where
  "ex_insn nm i ops = \<lparr>pi_opcode = Some (nm, i), pi_operands = (\<lambda>k. if k < length ops then ops ! k else 0), pi_op_str = []\<rparr>"

definition ex_dis :: "u32 \<Rightarrow> u64 \<Rightarrow> ppc_insn" where
  "ex_dis w a =
     (if w = 1 then ex_insn ''lis'' (Inst_load2 PPC_INST_LIS) [9, 0x8200]
      else if w = 2 then ex_insn ''addi'' (Inst_add PPC_INST_ADDI) [9, 9, 0x28]
      else if w = 3 then ex_insn ''lbzx'' (Inst_load PPC_INST_LBZX) [10, 9, 11]
      else if w = 4 then ex_insn ''rlwinm'' (Inst_logic PPC_INST_RLWINM) [10, 10, 2, 0, 29]
      else if w = 5 then ex_insn ''addi'' (Inst_add PPC_INST_ADDI) [12, 12, 0]
      else if w = 6 then ex_insn ''add'' (Inst_add PPC_INST_ADD) [12, 12, 10]
      else if w = 7 then ex_insn ''mtctr'' (Inst_move PPC_INST_MTCTR) [12]
      else if w = 8 then ex_insn ''bgt'' (Inst_cond PPC_INST_BGT) [6, 0x82000040]
      else if w = 9 then ex_insn ''cmplwi'' (Inst_cmp PPC_INST_CMPLWI) [6, 11, 1]
      else \<lparr>pi_opcode = None, pi_operands = (\<lambda>_. 0), pi_op_str = []\<rparr>)"

definition ex_scan :: scan_env where
  "ex_scan = \<lparr>sc_dis = ex_dis, sc_second = (\<lambda>i. i = Inst_cond PPC_INST_BGT)\<rparr>"

definition ex_code :: bytes where
  "ex_code = [0, 0, 0, 9, 0, 0, 0, 8, 0, 0, 0, 1, 0, 0, 0, 2, 0, 0, 0, 3, 0, 0, 0, 4, 0, 0, 0, 1, 0, 0, 0, 5,
              0, 0, 0, 6, 0, 0, 0, 7, 3, 8, 0, 0]"

definition ex_switch_image :: Image where
  "ex_switch_image = \<lparr>img_base = 0x82000000, img_size = 44, img_entry_point = 0x82000000,
     img_sections = [\<lparr>sec_name = ''.text'', sec_base = 0x82000000, sec_size = 40, sec_code = True, sec_data = ex_code\<rparr>],
     img_symbols = []\<rparr>"

lemma ex_scan_words:
  "be32 ex_code 0 = Some 9" "be32 ex_code 4 = Some 8" "be32 ex_code 8 = Some 1" "be32 ex_code 12 = Some 2" "be32 ex_code 16 = Some 3"
  "be32 ex_code 20 = Some 4" "be32 ex_code 24 = Some 1" "be32 ex_code 28 = Some 5" "be32 ex_code 32 = Some 6" "be32 ex_code 36 = Some 7"
  "be32 ex_code 40 = Some 0x3080000"
  by (simp_all add: be32_def bytes_at_def ex_code_def)

lemma ex_ids:
  "Disassemble ex_scan ex_code 0 a = Some (ex_insn ''cmplwi'' (Inst_cmp PPC_INST_CMPLWI) [6, 11, 1])"
  "Disassemble ex_scan ex_code 4 a = Some (ex_insn ''bgt'' (Inst_cond PPC_INST_BGT) [6, 0x82000040])"
  "Disassemble ex_scan ex_code 8 a = Some (ex_insn ''lis'' (Inst_load2 PPC_INST_LIS) [9, 0x8200])"
  "Disassemble ex_scan ex_code 12 a = Some (ex_insn ''addi'' (Inst_add PPC_INST_ADDI) [9, 9, 0x28])"
  "Disassemble ex_scan ex_code 16 a = Some (ex_insn ''lbzx'' (Inst_load PPC_INST_LBZX) [10, 9, 11])"
  "Disassemble ex_scan ex_code 20 a = Some (ex_insn ''rlwinm'' (Inst_logic PPC_INST_RLWINM) [10, 10, 2, 0, 29])"
  "Disassemble ex_scan ex_code 24 a = Some (ex_insn ''lis'' (Inst_load2 PPC_INST_LIS) [9, 0x8200])"
  "Disassemble ex_scan ex_code 28 a = Some (ex_insn ''addi'' (Inst_add PPC_INST_ADDI) [12, 12, 0])"
  "Disassemble ex_scan ex_code 32 a = Some (ex_insn ''add'' (Inst_add PPC_INST_ADD) [12, 12, 10])"
  "Disassemble ex_scan ex_code 36 a = Some (ex_insn ''mtctr'' (Inst_move PPC_INST_MTCTR) [12])"
  by (simp_all add: Disassemble_def ex_scan_words ex_scan_def ex_dis_def)

lemma has_id_ex [simp]: "has_id i (ex_insn nm j ops) = (i = j)"
  by (simp add: has_id_def ex_insn_def)

lemma operands_ex [simp]: "k < length ops \<Longrightarrow> pi_operands (ex_insn nm j ops) k = ops ! k"
  by (simp add: ex_insn_def)

subsection \<open>Properties\<close>

text \<open>
  C31. The tables found for a pattern are those of exactly the places in the code sections where all
  its instructions match, each place visited once, in the order of the sections and addresses.
\<close>

theorem scanPattern_visits_all:
  assumes "scanPattern env img bs pattern type = Some ts"
  shows "map_option concat (those (map (\<lambda>(a, q). visit env img bs type a q) (places env bs pattern (img_sections img)))) = Some ts"
  using scan_sections_visits [of env img bs pattern type "img_sections img" "[]" ts] assms
  by (auto simp: scanPattern_def)

lemma visit_compiled:
  assumes "range_check env bs code address j i b c"
    "jump_table env img bs type code address base shift labels"
    "address \<noteq> 0" "length labels = unat (pi_operands c 2 + 1)"
  shows "visit env img bs type address code = Some
     [\<lparr>tab_labels = map ucast labels, tab_base = address, tab_default = ucast (pi_operands b 1),
       tab_r = pi_operands c 1, tab_type = type\<rparr>]"
  unfolding visit_def ScanTable_range_check [OF assms(1)]
  by (simp add: assms(3) ReadTable_jump_table [OF assms(2)] assms(4))

text \<open>
  C30. A switch compiled with one of the four shapes is recovered: from a range check before the code
  and a table that holds its labels in the encoding of its shape, the analysis reads back the default
  label, the register of the index and all labels.
\<close>

theorem switch_recovered:
  assumes "range_check env bs code address j i b c"
    "jump_table env img bs type code address base shift labels"
    "address \<noteq> 0" "length labels = unat (pi_operands c 2 + 1)"
  shows "visit env img bs type address code = Some
     [\<lparr>tab_labels = map ucast labels, tab_base = address, tab_default = ucast (pi_operands b 1),
       tab_r = pi_operands c 1, tab_type = type\<rparr>]"
  by (rule visit_compiled [OF assms])

lemma ex_second: "sc_second ex_scan i = (i = Inst_cond PPC_INST_BGT)"
  by (simp add: ex_scan_def)

lemma ex_places:
  "image_place ex_switch_image ex_code 0x82000008 = Some 8" "image_place ex_switch_image ex_code 0x82000028 = Some 40"
  by (simp_all add: image_place_def Image_Find_def ex_switch_image_def ex_code_def Let_def)

lemma ex_constants:
  "lis_addi ex_scan ex_code 8 0x82000008 0 = Some 0x82000028" "lis_addi ex_scan ex_code 8 0x82000008 4 = Some 0x82000000"
  by (simp_all add: lis_addi_def ex_ids)

lemma ex_range_check:
  "range_check ex_scan ex_code 8 0x82000008 1 2 (ex_insn ''bgt'' (Inst_cond PPC_INST_BGT) [6, 0x82000040])
     (ex_insn ''cmplwi'' (Inst_cmp PPC_INST_CMPLWI) [6, 11, 1])"
  by (simp add: range_check_def before_def ex_ids range_branches_def ex_second upt_rec)

lemma ex_table: "bytes_at ex_code 40 (Suc (Suc 0)) = Some [3, 8]"
  by (simp add: bytes_at_def ex_code_def)

lemma ex_jump_table:
  "jump_table ex_scan ex_switch_image ex_code SWITCH_COMPUTED 8 0x82000008 0x82000000 2 [0x8200000C, 0x82000020]"
  by (simp add: jump_table_def ex_places ex_constants ex_ids SWITCH_ABSOLUTE_def SWITCH_COMPUTED_def SWITCH_BYTEOFFSET_def
      jump_entry_def expressible_def ex_table Let_def)

lemma switch_recovered_witness:
  "visit ex_scan ex_switch_image ex_code SWITCH_COMPUTED 0x82000008 8 = Some
     [\<lparr>tab_labels = [0x8200000C, 0x82000020], tab_base = 0x82000008, tab_default = 0x82000040, tab_r = 11, tab_type = SWITCH_COMPUTED\<rparr>]"
  using switch_recovered [OF ex_range_check ex_jump_table] by simp

lemma ex_pattern: "pattern_at ex_scan ex_code p computedSwitch = (if p = 8 then Some True else Some False)"
  if "p \<in> {0, 4, 8, 12, 16, 20, 24, 28, 32, 36}"
  using that by (elim insertE emptyE) (simp_all add: computedSwitch_def ex_ids)

lemma search_words_numeral:
  "search_words env bs compare p (numeral k) = Option.bind (pattern_at env bs p compare)
     (\<lambda>found. if found then Some (Some p) else search_words env bs compare (p + 4) (pred_numeral k))"
  by (simp add: numeral_eq_Suc)

lemma ex_scan_computed:
  "scanPattern ex_scan ex_switch_image ex_code computedSwitch SWITCH_COMPUTED = Some
     [\<lparr>tab_labels = [0x8200000C, 0x82000020], tab_base = 0x82000008, tab_default = 0x82000040, tab_r = 11, tab_type = SWITCH_COMPUTED\<rparr>]"
proof -
  have v: "visit ex_scan ex_switch_image ex_code SWITCH_COMPUTED 0x82000008 8 = Some
     [\<lparr>tab_labels = [0x8200000C, 0x82000020], tab_base = 0x82000008, tab_default = 0x82000040, tab_r = 11, tab_type = SWITCH_COMPUTED\<rparr>]"
    using visit_compiled [OF ex_range_check ex_jump_table] by simp
  have s: "SearchMask ex_scan ex_code computedSwitch 0 40 = Some (Some 8)"
    "SearchMask ex_scan ex_code computedSwitch 12 28 = Some None"
    by (simp_all add: SearchMask_def ex_pattern search_words_numeral)
  have loop: "scan_loop ex_scan ex_switch_image ex_code computedSwitch SWITCH_COMPUTED 0x82000000 0 40 0 [] = Some
     [\<lparr>tab_labels = [0x8200000C, 0x82000020], tab_base = 0x82000008, tab_default = 0x82000040, tab_r = 11, tab_type = SWITCH_COMPUTED\<rparr>]"
    by (simp add: scan_loop.simps [of _ _ _ _ _ _ _ _ 0] scan_loop.simps [of _ _ _ _ _ _ _ _ 12] s v)
  have sections: "img_sections ex_switch_image =
      [\<lparr>sec_name = ''.text'', sec_base = 0x82000000, sec_size = 40, sec_code = True, sec_data = ex_code\<rparr>]"
    by (simp add: ex_switch_image_def)
  show ?thesis by (simp add: scanPattern_def sections scan_section_def Let_def loop)
qed

lemma scanPattern_visits_all_witness:
  "map_option concat (those (map (\<lambda>(a, q). visit ex_scan ex_switch_image ex_code SWITCH_COMPUTED a q)
      (places ex_scan ex_code computedSwitch (img_sections ex_switch_image))))
   = Some [\<lparr>tab_labels = [0x8200000C, 0x82000020], tab_base = 0x82000008, tab_default = 0x82000040, tab_r = 11, tab_type = SWITCH_COMPUTED\<rparr>]"
  by (rule scanPattern_visits_all [OF ex_scan_computed])

subsection \<open>What is read outside of the code\<close>

text \<open>
  The search compares a whole pattern at each of the last words of a section too, and the scan for the
  range check takes 32 steps back from any place: both leave the buffer.
\<close>

lemma search_leaves_section:
  "SearchMask ex_scan (take 40 ex_code @ [0, 0, 0, 1]) absoluteSwitch 40 4 = None"
  by (simp add: SearchMask_def ex_code_def absoluteSwitch_def Disassemble_def ex_scan_def ex_dis_def be32_def bytes_at_def
      search_words_numeral)

lemma scan_leaves_section:
  "ScanTable ex_scan (drop 4 ex_code) 4 0x82000008 (empty_table SWITCH_COMPUTED) = None"
proof -
  have w: "be32 (drop 4 ex_code) 4 = Some 1" "be32 (drop 4 ex_code) 0 = Some 8"
    by (simp_all add: be32_def bytes_at_def ex_code_def)
  have n: "(32 :: nat) = Suc (Suc (Suc 29))" by simp
  show ?thesis
    unfolding ScanTable_def n by (simp add: w Disassemble_def ex_scan_def ex_dis_def ex_insn_def range_branches_def del: Suc_numeral)
qed

end
