(* ===== verification/StartupTrace.thy ===== *)
theory StartupTrace
  imports GuestMem
begin

text \<open>
  \<open>rexglue/startup_trace.cpp\<close>: wrappers around functions of the recompiled program that report calls
  on the standard error stream, sampled per thread and function. The functions themselves are generated
  code: \<open>orig\<close> is what \<open>__imp__\<close>\<open>name\<close> does to the whole state, the calls of other wrappers
  included. \<open>tid\<close> is the identifier of the thread that runs the wrapper.
\<close>

subsection \<open>State\<close>

text \<open>The registers and memory of the guest, the counts of the sampler, and the lines printed so far.\<close>

record tworld =
  w_r :: "nat \<Rightarrow> u64"
  w_lr :: u64
  w_mem :: hmem
  w_counts :: "string \<Rightarrow> u64"
  w_log :: "string list"

type_synonym code = "string \<Rightarrow> tworld \<Rightarrow> tworld"

definition r32 :: "tworld \<Rightarrow> nat \<Rightarrow> u32" where "r32 w n = ucast (w_r w n)"
definition lr32 :: "tworld \<Rightarrow> u32" where "lr32 w = ucast (w_lr w)"

definition load8 :: "tworld \<Rightarrow> u32 \<Rightarrow> u8" where "load8 w x = w_mem w (unat x)"
definition load16 :: "tworld \<Rightarrow> u32 \<Rightarrow> u16" where "load16 w x = of_nat (read_be 2 (w_mem w) (unat x))"
definition load32 :: "tworld \<Rightarrow> u32 \<Rightarrow> u32" where "load32 w x = PPC_LOAD_U32 (w_mem w) x"
definition load64 :: "tworld \<Rightarrow> u32 \<Rightarrow> u64" where "load64 w x = PPC_LOAD_U64 (w_mem w) x"

definition print :: "string \<Rightarrow> tworld \<Rightarrow> tworld" where
  "print l w = w\<lparr>w_log := w_log w @ [l]\<rparr>"

text \<open>\<open>%02X\<close>, \<open>%04X\<close>, \<open>%08X\<close>, \<open>%016llX\<close> of \<open>printf\<close>, and a list of fields.\<close>

definition padded_hex :: "nat \<Rightarrow> nat \<Rightarrow> string" where
  "padded_hex n v = (let s = radix_string 16 v in replicate (n - length s) (CHR ''0'') @ s)"

definition hex8 :: "u32 \<Rightarrow> string" where "hex8 w = padded_hex 8 (unat w)"
definition dec :: "u64 \<Rightarrow> string" where "dec w = radix_string 10 (unat w)"

definition fields :: "(string \<times> string) list \<Rightarrow> string" where
  "fields fs = concat (map (\<lambda>(k, v). '' '' @ k @ ''='' @ v) fs)"

subsection \<open>The sampler\<close>

definition IsRepeatTrackedFunction :: "string \<Rightarrow> bool" where
  "IsRepeatTrackedFunction f =
     (f \<in> set [''sub_823C3010'', ''sub_823C9090'', ''sub_823CA8A0'', ''sub_828D5820'', ''sub_82F27128'', ''sub_82F282C8'',
        ''sub_83022458'', ''sub_830224B8'', ''sub_82FF67D8'', ''sub_82F9B4D0'', ''sub_82F5FB68'', ''sub_82F5FC08'',
        ''sub_82F972F8'', ''sub_82F97FA8'', ''sub_82F97CF0'', ''sub_82F9B618'', ''sub_82F9B678'', ''sub_82F9B7A8'',
        ''sub_82F9B810'', ''sub_82F9B878'', ''sub_82F28470'', ''sub_82F28538'', ''sub_82F34CE8'', ''sub_82F3F348'',
        ''sub_82F1C100'', ''sub_82F33D40'', ''sub_82F37368'', ''sub_82F37CA0'', ''sub_82F350B0'', ''sub_82F36620''])"

definition count_key :: "u32 \<Rightarrow> string \<Rightarrow> string" where
  "count_key tid f = radix_string 10 (unat tid) @ '':'' @ f"

text \<open>Whether to report, and the count (zero for a function that is not tracked).\<close>

definition ShouldTraceRepeatedCall :: "u32 \<Rightarrow> string \<Rightarrow> (string \<Rightarrow> u64) \<Rightarrow> bool \<times> u64 \<times> (string \<Rightarrow> u64)" where
  "ShouldTraceRepeatedCall tid f counts =
     (if \<not> IsRepeatTrackedFunction f then (True, 0, counts)
      else let key = count_key tid f; count = counts key + 1
           in (count \<le> 10 \<or> count mod 1000 = 0, count, counts(key := count)))"

text \<open>The result, the value left in \<open>*traced_count\<close> (which callers initialise with zero), and the state.\<close>

definition Trace :: "u32 \<Rightarrow> string \<Rightarrow> string \<Rightarrow> tworld \<Rightarrow> bool \<times> u64 \<times> tworld" where
  "Trace tid phase f w =
     (let (ok, call_count, counts) = (if phase = ''enter'' then ShouldTraceRepeatedCall tid f (w_counts w) else (True, 0, w_counts w));
          w = w\<lparr>w_counts := counts\<rparr>
      in if \<not> ok then (False, 0, w)
         else (True, call_count,
           print (''[startup] tid='' @ hex8 tid @ '' '' @ phase @ '' '' @ f
                  @ (if call_count \<noteq> 0 then fields [(''count'', dec call_count)] else [])) w))"

definition leave :: "u32 \<Rightarrow> string \<Rightarrow> bool \<Rightarrow> tworld \<Rightarrow> tworld" where
  "leave tid f trace_leave w = (if trace_leave then snd (snd (Trace tid ''leave'' f w)) else w)"

definition UFC_TRACE_WRAPPER :: "u32 \<Rightarrow> code \<Rightarrow> string \<Rightarrow> tworld \<Rightarrow> tworld" where
  "UFC_TRACE_WRAPPER tid orig f w =
     (let (trace_leave, _, w) = Trace tid ''enter'' f w in leave tid f trace_leave (orig f w))"

subsection \<open>Reports of guest state\<close>

text \<open>An address in the heap of the guest.\<close>

definition in_heap :: "u32 \<Rightarrow> bool" where
  "in_heap a = (\<not> (a < 0x40000000 \<or> a \<ge> 0xC0000000))"

definition state_fields :: "string \<Rightarrow> u32 \<Rightarrow> tworld \<Rightarrow> (string \<times> string) list option" where
  "state_fields f r3 w =
     (let x = (\<lambda>k. hex8 (load32 w (r3 + k))); b = (\<lambda>k. padded_hex 2 (unat (load8 w (r3 + k))))
      in if f = ''sub_82F27128'' then
           Some [(''obj'', hex8 r3), (''flag40'', b 40), (''flag64'', b 64), (''read'', x 140), (''write'', x 144), (''signal'', x 164)]
         else if f = ''sub_82F282C8'' then
           Some [(''obj'', hex8 r3), (''frame'', x 136), (''signal'', x 164), (''queue_read'', x 140), (''queue_write'', x 144)]
         else if f = ''sub_83022458'' then
           Some [(''obj'', hex8 r3), (''event40'', x 40), (''field16'', x 16), (''field20'', x 20), (''field24'', x 24), (''field60'', x 60)]
         else if f = ''sub_830224B8'' then
           Some [(''obj'', hex8 r3), (''event40'', x 40), (''wait44'', x 44), (''wait48'', x 48),
                 (''frames56'', padded_hex 16 (unat (load64 w (r3 + 56))))]
         else None)"

definition TraceProducerState :: "u32 \<Rightarrow> string \<Rightarrow> u64 \<Rightarrow> tworld \<Rightarrow> tworld" where
  "TraceProducerState tid f count w =
     (let r3 = r32 w 3
      in if count = 0 \<or> r3 = 0 then w
         else case state_fields f r3 w of
                None \<Rightarrow> w
              | Some fs \<Rightarrow> print (''[startup-state] tid='' @ hex8 tid @ '' '' @ f @ fields ((''count'', dec count) # fs)) w)"

definition UFC_TRACE_STATE_WRAPPER :: "u32 \<Rightarrow> code \<Rightarrow> string \<Rightarrow> tworld \<Rightarrow> tworld" where
  "UFC_TRACE_STATE_WRAPPER tid orig f w =
     (let (trace_leave, traced_count, w) = Trace tid ''enter'' f w;
          w = TraceProducerState tid f traced_count w
      in leave tid f trace_leave (orig f w))"

definition before_after :: "bool \<Rightarrow> string" where
  "before_after before_call = (if before_call then ''before'' else ''after'')"

definition report :: "string \<Rightarrow> u32 \<Rightarrow> bool \<Rightarrow> string \<Rightarrow> (string \<times> string) list \<Rightarrow> tworld \<Rightarrow> tworld" where
  "report tag tid before_call f fs w =
     print (''['' @ tag @ ''] tid='' @ hex8 tid @ '' '' @ before_after before_call @ '' '' @ f @ fields fs) w"

definition TraceQueueCounterFunction :: "u32 \<Rightarrow> string \<Rightarrow> u64 \<Rightarrow> u32 \<Rightarrow> bool \<Rightarrow> tworld \<Rightarrow> tworld" where
  "TraceQueueCounterFunction tid f count owner before_call w =
     (if count = 0 \<or> \<not> in_heap owner then w
      else let x = (\<lambda>k. hex8 (load32 w (owner + k)))
           in report ''startup-queue-counter'' tid before_call f
                [(''count'', dec count), (''owner'', hex8 owner), (''vtbl'', x 0), (''field4'', x 4), (''field48'', x 48),
                 (''field56'', x 56), (''field68'', x 68)] w)"

definition UFC_TRACE_QUEUE_COUNTER_WRAPPER :: "u32 \<Rightarrow> code \<Rightarrow> string \<Rightarrow> tworld \<Rightarrow> tworld" where
  "UFC_TRACE_QUEUE_COUNTER_WRAPPER tid orig f w =
     (let (trace_leave, traced_count, w) = Trace tid ''enter'' f w;
          owner = r32 w 3;
          w = TraceQueueCounterFunction tid f traced_count owner True w;
          w = orig f w;
          w = TraceQueueCounterFunction tid f traced_count owner False w
      in leave tid f trace_leave w)"

definition TraceSchedulerSource :: "u32 \<Rightarrow> string \<Rightarrow> u64 \<Rightarrow> u32 \<Rightarrow> u32 \<Rightarrow> u32 \<Rightarrow> u32 \<Rightarrow> bool \<Rightarrow> tworld \<Rightarrow> tworld" where
  "TraceSchedulerSource tid f count lr owner arg4 ret before_call w =
     (if count = 0 \<or> \<not> in_heap owner then w
      else let x = (\<lambda>k. hex8 (load32 w (owner + k)))
           in report ''startup-scheduler-source'' tid before_call f
                [(''count'', dec count), (''lr'', hex8 lr), (''owner'', hex8 owner), (''vtbl'', x 0),
                 (''flag64'', padded_hex 2 (unat (load8 w (owner + 64)))), (''list80'', x 80), (''field136'', x 136),
                 (''field140'', x 140), (''field144'', x 144), (''field164'', x 164), (''ret'', hex8 ret), (''arg4'', hex8 arg4)] w)"

definition UFC_TRACE_SCHEDULER_SOURCE_WRAPPER :: "u32 \<Rightarrow> code \<Rightarrow> string \<Rightarrow> tworld \<Rightarrow> tworld" where
  "UFC_TRACE_SCHEDULER_SOURCE_WRAPPER tid orig f w =
     (let (trace_leave, traced_count, w) = Trace tid ''enter'' f w;
          owner = r32 w 3; arg4 = r32 w 4; lr = lr32 w;
          w = TraceSchedulerSource tid f traced_count lr owner arg4 0 True w;
          w = orig f w;
          w = TraceSchedulerSource tid f traced_count lr owner arg4 (r32 w 3) False w
      in leave tid f trace_leave w)"

definition TraceFramePop :: "u32 \<Rightarrow> string \<Rightarrow> u64 \<Rightarrow> u32 \<Rightarrow> u32 \<Rightarrow> u32 \<Rightarrow> tworld \<Rightarrow> tworld" where
  "TraceFramePop tid phase count lr queue item w =
     (if count = 0 \<or> \<not> in_heap queue then w
      else let owner = queue - 28
           in if \<not> in_heap owner then w
              else let x = (\<lambda>k. hex8 (if in_heap item then load32 w (item + k) else 0))
                   in print (''[startup-frame-pop] tid='' @ hex8 tid @ '' '' @ phase @ fields
                        [(''count'', dec count), (''lr'', hex8 lr), (''owner'', hex8 owner), (''queue'', hex8 queue), (''item'', hex8 item),
                         (''item0'', x 0), (''type2'', padded_hex 4 (if in_heap item then unat (load16 w (item + 2)) else 0)),
                         (''item4'', x 4), (''item8'', x 8), (''itemC'', x 12), (''item10'', x 16),
                         (''producer140'', hex8 (load32 w (owner + 140))), (''consumer144'', hex8 (load32 w (owner + 144)))]) w)"

definition sub_82F1C100 :: "u32 \<Rightarrow> code \<Rightarrow> string \<Rightarrow> tworld \<Rightarrow> tworld" where
  "sub_82F1C100 tid orig f w =
     (let (trace_leave, traced_count, w) = Trace tid ''enter'' f w;
          queue = r32 w 3; lr = lr32 w;
          w = orig f w;
          w = TraceFramePop tid ''after'' traced_count lr queue (r32 w 3) w
      in leave tid f trace_leave w)"

definition TraceFrameQueueFunction :: "u32 \<Rightarrow> string \<Rightarrow> u64 \<Rightarrow> u32 \<Rightarrow> u32 \<Rightarrow> u32 \<Rightarrow> u32 \<Rightarrow> u32 \<Rightarrow> bool \<Rightarrow> tworld \<Rightarrow> tworld" where
  "TraceFrameQueueFunction tid f count lr object item item_type ret before_call w =
     (if count = 0 \<or> \<not> in_heap object then w
      else let x = (\<lambda>k. hex8 (load32 w (object + k))); b = (\<lambda>k. padded_hex 2 (unat (load8 w (object + k))))
           in report ''startup-frame-queue'' tid before_call f
                [(''count'', dec count), (''lr'', hex8 lr), (''obj'', hex8 object), (''flag40'', b 40), (''flag64'', b 64),
                 (''frame136'', x 136), (''producer140'', x 140), (''consumer144'', x 144), (''event164'', x 164),
                 (''item'', hex8 item), (''itemType'', hex8 item_type), (''ret'', hex8 ret)] w)"

definition sub_82F28470 :: "u32 \<Rightarrow> code \<Rightarrow> string \<Rightarrow> tworld \<Rightarrow> tworld" where
  "sub_82F28470 tid orig f w =
     (let (trace_leave, traced_count, w) = Trace tid ''enter'' f w;
          object = r32 w 3; lr = lr32 w;
          w = TraceFrameQueueFunction tid f traced_count lr object 0 8 0 True w;
          w = orig f w;
          w = TraceFrameQueueFunction tid f traced_count lr object 0 8 (r32 w 3) False w
      in leave tid f trace_leave w)"

definition sub_82F28538 :: "u32 \<Rightarrow> code \<Rightarrow> string \<Rightarrow> tworld \<Rightarrow> tworld" where
  "sub_82F28538 tid orig f w =
     (let (trace_leave, traced_count, w) = Trace tid ''enter'' f w;
          object = r32 w 3; item = r32 w 4;
          item_type = (if in_heap item then ucast (load16 w (item + 0)) else 0);
          lr = lr32 w;
          w = TraceFrameQueueFunction tid f traced_count lr object item item_type 0 True w;
          w = orig f w;
          w = TraceFrameQueueFunction tid f traced_count lr object item item_type (r32 w 3) False w
      in leave tid f trace_leave w)"

definition TraceFrameDispatchFunction :: "u32 \<Rightarrow> string \<Rightarrow> u64 \<Rightarrow> u32 \<Rightarrow> bool \<Rightarrow> tworld \<Rightarrow> tworld" where
  "TraceFrameDispatchFunction tid f count lr before_call w =
     (if count = 0 then w
      else report ''startup-frame-dispatch'' tid before_call f
             [(''count'', dec count), (''lr'', hex8 lr), (''r3'', hex8 (r32 w 3)), (''r4'', hex8 (r32 w 4)), (''r5'', hex8 (r32 w 5)),
              (''r6'', hex8 (r32 w 6)), (''r7'', hex8 (r32 w 7)), (''r8'', hex8 (r32 w 8)),
              (''ret'', hex8 (if before_call then 0 else r32 w 3))] w)"

definition UFC_TRACE_FRAME_DISPATCH_WRAPPER :: "u32 \<Rightarrow> code \<Rightarrow> string \<Rightarrow> tworld \<Rightarrow> tworld" where
  "UFC_TRACE_FRAME_DISPATCH_WRAPPER tid orig f w =
     (let (trace_leave, traced_count, w) = Trace tid ''enter'' f w;
          lr = lr32 w;
          w = TraceFrameDispatchFunction tid f traced_count lr True w;
          w = orig f w;
          w = TraceFrameDispatchFunction tid f traced_count lr False w
      in leave tid f trace_leave w)"

definition TraceNotifyLoopBlock :: "u32 \<Rightarrow> string \<Rightarrow> u64 \<Rightarrow> u32 \<Rightarrow> bool \<Rightarrow> tworld \<Rightarrow> tworld" where
  "TraceNotifyLoopBlock tid f count block before_call w =
     (if count = 0 \<or> \<not> in_heap block then w
      else report ''startup-notify-loop'' tid before_call f
             [(''count'', dec count), (''block'', hex8 block), (''h0'', hex8 (load32 w (block + 0))),
              (''h1'', hex8 (load32 w (block + 4))), (''h2'', hex8 (load32 w (block + 8))),
              (''stop12'', padded_hex 2 (unat (load8 w (block + 12))))] w)"

definition UFC_TRACE_NOTIFY_LOOP_WRAPPER :: "u32 \<Rightarrow> code \<Rightarrow> string \<Rightarrow> tworld \<Rightarrow> tworld" where
  "UFC_TRACE_NOTIFY_LOOP_WRAPPER tid orig f w =
     (let (trace_leave, traced_count, w) = Trace tid ''enter'' f w;
          block = r32 w 3;
          w = TraceNotifyLoopBlock tid f traced_count block True w;
          w = orig f w;
          w = TraceNotifyLoopBlock tid f traced_count block False w
      in leave tid f trace_leave w)"

definition wait_call :: "u32 \<Rightarrow> tworld \<Rightarrow> tworld" where
  "wait_call tid w =
     (let count = r32 w 3; handles = r32 w 4; h = (\<lambda>n k. hex8 (if count > n then load32 w (handles + k) else 0))
      in print (''[startup-waitmulti-call] tid='' @ hex8 tid @ fields
           [(''count'', radix_string 10 (unat count)), (''handles'', hex8 handles), (''waitAll'', radix_string 10 (unat (r32 w 5))),
            (''timeout'', hex8 (r32 w 6)), (''alertable'', radix_string 10 (unat (r32 w 7))), (''callerLR'', hex8 (lr32 w)),
            (''r30'', hex8 (r32 w 30)), (''r31'', hex8 (r32 w 31)), (''h0'', h 0 0), (''h1'', h 1 4), (''h2'', h 2 8), (''h3'', h 3 12)]) w)"

definition wait_return :: "u32 \<Rightarrow> u32 \<Rightarrow> u32 \<Rightarrow> tworld \<Rightarrow> tworld" where
  "wait_return tid owner handles w =
     (let result = hex8 (r32 w 3);
          w = print (''[startup-waitmulti-return] tid='' @ hex8 tid @ fields [(''result'', result)]) w
      in if in_heap owner
         then let x = (\<lambda>k. hex8 (load32 w (owner + k)))
              in print (''[startup-waitmulti-owner] tid='' @ hex8 tid @ fields
                   [(''result'', result), (''owner'', hex8 owner), (''vtbl'', x 0), (''field4'', x 4), (''field40'', x 40),
                    (''field44'', x 44), (''field48'', x 48), (''field52'', x 52), (''field56'', x 56), (''field68'', x 68),
                    (''handles'', hex8 handles)]) w
         else w)"

definition sub_82FF67D8 :: "u32 \<Rightarrow> code \<Rightarrow> string \<Rightarrow> tworld \<Rightarrow> tworld" where
  "sub_82FF67D8 tid orig f w =
     (let (trace_leave, traced_count, w) = Trace tid ''enter'' f w;
          handles = r32 w 4; call_owner = r32 w 30;
          w = (if traced_count \<noteq> 0 then wait_call tid w else w);
          w = orig f w;
          w = (if traced_count \<noteq> 0 then wait_return tid call_owner handles w else w)
      in leave tid f trace_leave w)"

subsection \<open>The wrapped functions\<close>

definition plain_wrapped :: "string list" where
  "plain_wrapped =
     [''sub_823C96D8'', ''sub_823C92B8'', ''sub_823C7C80'', ''sub_82F01B28'', ''sub_823C9588'', ''sub_823C94A8'', ''sub_823C9498'',
      ''sub_8236B020'', ''sub_82F01858'', ''sub_827A7198'', ''sub_828D5820'', ''sub_827A6258'', ''sub_823C37D0'', ''sub_823C3870'',
      ''sub_8236AF58'', ''sub_823C3018'', ''sub_823C3F70'', ''sub_823C3BA8'', ''sub_823C3010'', ''sub_823C2BD0'', ''sub_823C9090'',
      ''sub_823CA8A0'', ''sub_823C8DC0'']"

definition state_wrapped :: "string list" where
  "state_wrapped = [''sub_82F27128'', ''sub_82F282C8'', ''sub_83022458'', ''sub_830224B8'']"

definition queue_wrapped :: "string list" where
  "queue_wrapped = [''sub_82F9B618'', ''sub_82F9B678'', ''sub_82F9B7A8'', ''sub_82F9B810'', ''sub_82F9B4D0'', ''sub_82F9B878'']"

definition scheduler_wrapped :: "string list" where
  "scheduler_wrapped = [''sub_82F972F8'', ''sub_82F97FA8'', ''sub_82F97CF0'']"

definition dispatch_wrapped :: "string list" where
  "dispatch_wrapped = [''sub_82F34CE8'', ''sub_82F3F348'', ''sub_82F33D40'', ''sub_82F37368'', ''sub_82F37CA0'', ''sub_82F350B0'',
     ''sub_82F36620'']"

definition notify_wrapped :: "string list" where
  "notify_wrapped = [''sub_82F5FB68'', ''sub_82F5FC08'']"

type_synonym wrapper = "u32 \<Rightarrow> code \<Rightarrow> string \<Rightarrow> tworld \<Rightarrow> tworld"

definition wrappers :: "(string \<times> wrapper) list" where
  "wrappers =
     map (\<lambda>f. (f, UFC_TRACE_WRAPPER)) plain_wrapped @ map (\<lambda>f. (f, UFC_TRACE_STATE_WRAPPER)) state_wrapped
     @ map (\<lambda>f. (f, UFC_TRACE_QUEUE_COUNTER_WRAPPER)) queue_wrapped
     @ map (\<lambda>f. (f, UFC_TRACE_SCHEDULER_SOURCE_WRAPPER)) scheduler_wrapped
     @ [(''sub_82F1C100'', sub_82F1C100), (''sub_82F28470'', sub_82F28470), (''sub_82F28538'', sub_82F28538)]
     @ map (\<lambda>f. (f, UFC_TRACE_FRAME_DISPATCH_WRAPPER)) dispatch_wrapped
     @ map (\<lambda>f. (f, UFC_TRACE_NOTIFY_LOOP_WRAPPER)) notify_wrapped @ [(''sub_82FF67D8'', sub_82FF67D8)]"

subsection \<open>Tracing changes nothing for the guest\<close>

definition guest :: "tworld \<Rightarrow> (nat \<Rightarrow> u64) \<times> u64 \<times> hmem" where
  "guest w = (w_r w, w_lr w, w_mem w)"

lemma guest_print [simp]: "guest (print l w) = guest w"
  by (simp add: guest_def print_def)

lemma guest_counts [simp]: "guest (w\<lparr>w_counts := c\<rparr>) = guest w"
  by (simp add: guest_def)

lemma guest_Trace: "Trace tid phase f w = (ok, count, w') \<Longrightarrow> guest w' = guest w"
  by (auto simp: Trace_def Let_def split: prod.splits if_splits)

lemma guest_leave [simp]: "guest (leave tid f b w) = guest w"
  unfolding leave_def by (cases "Trace tid ''leave'' f w") (simp add: guest_Trace)

lemma guest_reports [simp]:
  "guest (report tag tid b f fs w) = guest w"
  "guest (TraceProducerState tid f count w) = guest w"
  "guest (TraceQueueCounterFunction tid f count owner b w) = guest w"
  "guest (TraceSchedulerSource tid f count lr owner arg4 ret b w) = guest w"
  "guest (TraceFramePop tid phase count lr queue item w) = guest w"
  "guest (TraceFrameQueueFunction tid f count lr object item item_type ret b w) = guest w"
  "guest (TraceFrameDispatchFunction tid f count lr b w) = guest w"
  "guest (TraceNotifyLoopBlock tid f count block b w) = guest w"
  "guest (wait_call tid w) = guest w"
  "guest (wait_return tid owner handles w) = guest w"
  by (simp_all add: report_def TraceProducerState_def TraceQueueCounterFunction_def TraceSchedulerSource_def TraceFramePop_def
      TraceFrameQueueFunction_def TraceFrameDispatchFunction_def TraceNotifyLoopBlock_def wait_call_def wait_return_def Let_def
      split: option.splits)

lemmas wrapper_defs =
  UFC_TRACE_WRAPPER_def UFC_TRACE_STATE_WRAPPER_def UFC_TRACE_QUEUE_COUNTER_WRAPPER_def UFC_TRACE_SCHEDULER_SOURCE_WRAPPER_def
  sub_82F1C100_def sub_82F28470_def sub_82F28538_def UFC_TRACE_FRAME_DISPATCH_WRAPPER_def UFC_TRACE_NOTIFY_LOOP_WRAPPER_def
  sub_82FF67D8_def

lemma wrapper_cases:
  assumes "(f, wr) \<in> set wrappers"
  shows "wr \<in> {UFC_TRACE_WRAPPER, UFC_TRACE_STATE_WRAPPER, UFC_TRACE_QUEUE_COUNTER_WRAPPER, UFC_TRACE_SCHEDULER_SOURCE_WRAPPER,
     sub_82F1C100, sub_82F28470, sub_82F28538, UFC_TRACE_FRAME_DISPATCH_WRAPPER, UFC_TRACE_NOTIFY_LOOP_WRAPPER, sub_82FF67D8}"
  using assms by (auto simp: wrappers_def)

text \<open>Code whose effect on the guest depends on the guest alone, not on the counts or the lines printed.\<close>

definition guest_only :: "(tworld \<Rightarrow> tworld) \<Rightarrow> bool" where
  "guest_only g = (\<forall>w w'. guest w = guest w' \<longrightarrow> guest (g w) = guest (g w'))"

text \<open>
  C32. Every wrapper has exactly the effect of the function it wraps on the registers and the memory of
  the guest, whatever is sampled and printed around the call.
\<close>

theorem tracing_transparent:
  assumes "(f, wr) \<in> set wrappers" "guest_only (orig f)"
  shows "guest (wr tid orig f w) = guest (orig f w)"
proof -
  obtain ok count w1 where t: "Trace tid ''enter'' f w = (ok, count, w1)" by (metis prod_cases3)
  obtain g where g: "guest (orig f w) = g" by blast
  have same: "guest (orig f w2) = g" if "guest w2 = guest w" for w2
    using assms(2) that unfolding guest_only_def g [symmetric] by blast
  from wrapper_cases [OF assms(1)] show ?thesis
    unfolding g by (elim insertE emptyE) (simp_all add: wrapper_defs t Let_def same guest_Trace [OF t])
qed

lemma unreported_silent:
  assumes "(f, wr) \<in> set wrappers" "ShouldTraceRepeatedCall tid f (w_counts w) = (False, count, counts)"
  shows "wr tid orig f w = orig f (w\<lparr>w_counts := counts\<rparr>)"
proof -
  have "Trace tid ''enter'' f w = (False, 0, w\<lparr>w_counts := counts\<rparr>)" using assms(2) by (simp add: Trace_def)
  with wrapper_cases [OF assms(1)] show ?thesis
    by (elim insertE emptyE)
       (simp_all add: wrapper_defs leave_def Let_def TraceProducerState_def TraceQueueCounterFunction_def TraceSchedulerSource_def
         TraceFramePop_def TraceFrameQueueFunction_def TraceFrameDispatchFunction_def TraceNotifyLoopBlock_def)
qed

text \<open>Every wrapper that reports state is around a tracked function: the count it needs is not zero.\<close>

lemma detailed_tracked:
  assumes "(f, wr) \<in> set wrappers" "wr \<noteq> UFC_TRACE_WRAPPER"
  shows "IsRepeatTrackedFunction f"
  using assms by (auto simp: wrappers_def state_wrapped_def queue_wrapped_def scheduler_wrapped_def dispatch_wrapped_def
      notify_wrapped_def IsRepeatTrackedFunction_def)

subsection \<open>The sampler over interleaved calls\<close>

lemma radix_digits: "c \<in> set (radix_string 10 n) \<Longrightarrow> c \<noteq> CHR '':''"
proof (induction n rule: less_induct)
  case (less n)
  have "digit_char k \<noteq> CHR '':''" if "k < 10" for k :: nat
  proof
    assume "digit_char k = CHR '':''"
    then have "of_char (digit_char k) = (58 :: nat)" by simp
    then show False using that by (simp add: digit_char_def)
  qed
  note d = this [of n] this [of "n mod 10"]
  show ?case
  proof (cases "n < 10")
    case False
    then have "c \<in> set (radix_string 10 (n div 10)) \<or> c = digit_char (n mod 10)"
      using less.prems by (simp add: radix_string.simps [of 10 n] disj_commute)
    then show ?thesis using less.IH [of "n div 10"] d(2) False by auto
  qed (use less.prems d(1) in \<open>simp add: radix_string.simps [of 10 n]\<close>)
qed

lemma count_key_inject: "count_key t f = count_key t' f' \<longleftrightarrow> t = t' \<and> f = f'"
proof
  assume eq: "count_key t f = count_key t' f'"
  have w: "takeWhile (\<lambda>c. c \<noteq> CHR '':'') (count_key t f) = radix_string 10 (unat t)" for t f
    using radix_digits by (simp add: count_key_def takeWhile_append2)
  have "radix_string 10 (unat t) = radix_string 10 (unat t')" using w [of t f] w [of t' f'] eq by simp
  moreover from this have "unat t = unat t'" by (metis digits_value_radix)
  ultimately show "t = t' \<and> f = f'" using eq by (simp add: count_key_def word_unat_eq_iff)
qed simp

text \<open>A sequence of calls, each of a function on a thread, in the order in which they take the lock.\<close>

fun reported :: "(u32 \<times> string) list \<Rightarrow> (string \<Rightarrow> u64) \<Rightarrow> (u32 \<times> string \<times> u64) list" where
  "reported [] counts = []"
| "reported ((tid, f) # es) counts =
     (let (ok, count, counts') = ShouldTraceRepeatedCall tid f counts
      in (if ok then [(tid, f, count)] else []) @ reported es counts')"

definition is_sampled :: "u64 \<Rightarrow> bool" where
  "is_sampled count = (count \<le> 10 \<or> count mod 1000 = 0)"

lemma reported_of:
  assumes "IsRepeatTrackedFunction f"
  shows "filter (\<lambda>(t, g, _). (t, g) = (tid, f)) (reported es counts)
     = map (\<lambda>k. (tid, f, counts (count_key tid f) + of_nat k))
         (filter (\<lambda>k. is_sampled (counts (count_key tid f) + of_nat k)) [1..<Suc (count_list es (tid, f))])"
proof (induction es arbitrary: counts)
  case Nil
  then show ?case by simp
next
  case (Cons e es)
  obtain t g where e: "e = (t, g)" by (cases e)
  let ?c = "counts (count_key tid f)"
  show ?case
  proof (cases "(t, g) = (tid, f)")
    case False
    then have "snd (snd (ShouldTraceRepeatedCall t g counts)) (count_key tid f) = ?c"
      by (auto simp: ShouldTraceRepeatedCall_def Let_def count_key_inject)
    with Cons.IH show ?thesis using False e by (auto simp: Let_def split: prod.splits)
  next
    case True
    let ?n = "count_list es (tid, f)"
    have up: "[1..<Suc (Suc ?n)] = 1 # map Suc [1..<Suc ?n]"
      by (simp add: map_Suc_upt upt_conv_Cons del: upt_Suc)
    have s: "ShouldTraceRepeatedCall t g counts = (is_sampled (?c + 1), ?c + 1, counts(count_key tid f := ?c + 1))"
      using True assms by (simp add: ShouldTraceRepeatedCall_def Let_def is_sampled_def)
    have "filter (\<lambda>(t, g, _). (t, g) = (tid, f)) (reported (e # es) counts)
        = (if is_sampled (?c + 1) then [(tid, f, ?c + 1)] else [])
          @ filter (\<lambda>(t, g, _). (t, g) = (tid, f)) (reported es (counts(count_key tid f := ?c + 1)))"
      using True e s by simp
    also have "\<dots> = (if is_sampled (?c + 1) then [(tid, f, ?c + 1)] else [])
          @ map (\<lambda>k. (tid, f, ?c + 1 + of_nat k)) (filter (\<lambda>k. is_sampled (?c + 1 + of_nat k)) [1..<Suc ?n])"
      by (simp only: Cons.IH fun_upd_same)
    also have "\<dots> = map (\<lambda>k. (tid, f, ?c + of_nat k)) (filter (\<lambda>k. is_sampled (?c + of_nat k)) [1..<Suc (Suc ?n)])"
      by (simp only: up filter.simps filter_map list.map map_map o_def of_nat_Suc of_nat_1) (simp add: add.assoc add.left_commute)
    finally show ?thesis using True e by simp
  qed
qed

lemma unat_of_small: "k < 2 ^ 64 \<Longrightarrow> unat (of_nat k :: u64) = k"
  by (simp add: unat_of_nat take_bit_eq_mod)

lemma length_sampled:
  "n < 2 ^ 64 \<Longrightarrow> length (filter (\<lambda>k. is_sampled (of_nat k)) [1..<Suc n]) = min n 10 + n div 1000"
proof (induction n)
  case (Suc n)
  have u: "unat (of_nat (Suc n) :: u64) = Suc n"
    using Suc.prems by (rule unat_of_small)
  have "is_sampled (of_nat (Suc n)) \<longleftrightarrow> Suc n \<le> 10 \<or> Suc n mod 1000 = 0"
    unfolding is_sampled_def word_le_nat_alt word_unat_eq_iff unat_mod u by simp
  moreover have "Suc n div 1000 = n div 1000 + (if Suc n mod 1000 = 0 then 1 else 0)"
    by (simp add: div_Suc)
  moreover have "[1..<Suc (Suc n)] = [1..<Suc n] @ [Suc n]" by simp
  ultimately show ?case using Suc by (auto simp del: upt_Suc)
qed simp

text \<open>
  C33. However the calls of several threads interleave, of \<open>n\<close> calls of a tracked function on one
  thread exactly the first ten and every thousandth are reported, each with its own number, and calls of other
  functions or on other threads do not count.
\<close>

theorem sampled_exactly:
  assumes "IsRepeatTrackedFunction f" "count_list es (tid, f) < 2 ^ 64"
  shows "filter (\<lambda>(t, g, _). (t, g) = (tid, f)) (reported es (\<lambda>_. 0))
       = map (\<lambda>k. (tid, f, of_nat k)) (filter (\<lambda>k. is_sampled (of_nat k)) [1..<Suc (count_list es (tid, f))])
     \<and> length (filter (\<lambda>(t, g, _). (t, g) = (tid, f)) (reported es (\<lambda>_. 0)))
       = min (count_list es (tid, f)) 10 + count_list es (tid, f) div 1000"
  using reported_of [OF assms(1), of tid es "\<lambda>_. 0"] length_sampled [OF assms(2)] by (simp del: upt_Suc)

lemma sampled_exactly_witness:
  "length (filter (\<lambda>(t, g, _). (t, g) = (7, ''sub_823C3010'')) (reported (replicate 12 (7, ''sub_823C3010'') @ [(8, ''sub_823C3010'')]) (\<lambda>_. 0))) = 10"
proof -
  have rep: "count_list (replicate n x @ [y]) x = n" if "x \<noteq> y" for n and x y :: "u32 \<times> string"
    using that by (induction n) simp_all
  have c: "count_list (replicate 12 (7, ''sub_823C3010'') @ [(8 :: u32, ''sub_823C3010'')]) (7, ''sub_823C3010'') = 12"
    by (rule rep) simp
  have tr: "IsRepeatTrackedFunction ''sub_823C3010''" by (simp add: IsRepeatTrackedFunction_def)
  show ?thesis using conjunct2 [OF sampled_exactly [OF tr, of "replicate 12 (7, ''sub_823C3010'') @ [(8, ''sub_823C3010'')]" 7]]
    unfolding c by simp
qed

lemma unat_plus_small:
  assumes "unat c + k < 2 ^ 64"
  shows "unat (c + of_nat k :: u64) = unat c + k"
proof -
  have "c + of_nat k = of_nat (unat c + k)" by simp
  then show ?thesis by (simp only: unat_of_small [OF assms])
qed

lemma round_up: "1000 * q + r = c \<Longrightarrow> r < 1000 \<Longrightarrow> c + (1000 - r) = 1000 * (q + 1)" for c :: nat
  by arith

lemma next_sample: "\<exists>k. 1 \<le> k \<and> k \<le> 1000 \<and> is_sampled (c + of_nat k)"
proof (cases "unat c + 1000 < 2 ^ 64")
  case True
  obtain k where k: "unat c + k = 1000 * (unat c div 1000 + 1)" "1 \<le> k" "k \<le> 1000"
  proof
    show "unat c + (1000 - unat c mod 1000) = 1000 * (unat c div 1000 + 1)"
      by (rule round_up) simp_all
  qed (simp_all add: Suc_le_eq)
  have "unat (c + of_nat k) = 1000 * (unat c div 1000 + 1)"
    using unat_plus_small [of c k] True k by linarith
  then have "is_sampled (c + of_nat k)" by (simp add: is_sampled_def word_unat_eq_iff unat_mod)
  with k show ?thesis by blast
next
  case False
  let ?k = "2 ^ 64 - unat c"
  have lt: "unat c < 2 ^ 64" using unsigned_less [of c] by simp
  have "of_nat (unat c + ?k) = (0 :: u64)" using lt by simp
  then have "of_nat (unat c) + of_nat ?k = (0 :: u64)" by (simp only: of_nat_add)
  then have "c + of_nat ?k = 0" by (simp only: of_nat_unat ucast_id)
  then have "is_sampled (c + of_nat ?k)" by (simp add: is_sampled_def)
  moreover have "1 \<le> ?k" "?k \<le> 1000" using lt False by linarith+
  ultimately show ?thesis by blast
qed

text \<open>
  C34. No tracked function falls silent: whatever the counts were, also when a count wraps around, among
  a thousand further calls on a thread at least one is reported.
\<close>

theorem never_silent:
  assumes "IsRepeatTrackedFunction f" "1000 \<le> count_list es (tid, f)"
  shows "\<exists>count. (tid, f, count) \<in> set (reported es counts)"
proof -
  let ?c = "counts (count_key tid f)"
  obtain k where k: "1 \<le> k" "k \<le> 1000" "is_sampled (?c + of_nat k)" using next_sample by blast
  then have "k \<in> set (filter (\<lambda>k. is_sampled (?c + of_nat k)) [1..<Suc (count_list es (tid, f))])" using assms(2) by (simp del: upt_Suc)
  then have "(tid, f, ?c + of_nat k) \<in> set (filter (\<lambda>(t, g, _). (t, g) = (tid, f)) (reported es counts))"
    unfolding reported_of [OF assms(1)] by (simp del: upt_Suc)
  then show ?thesis by auto
qed

lemma never_silent_witness:
  "\<exists>count. (7, ''sub_823C3010'', count) \<in> set (reported (replicate 1000 (7, ''sub_823C3010'')) (\<lambda>_. - 3))"
proof (rule never_silent)
  have "count_list (replicate n x) x = n" for n and x :: "u32 \<times> string" by (induction n) simp_all
  then show "1000 \<le> count_list (replicate 1000 (7, ''sub_823C3010'')) (7 :: u32, ''sub_823C3010'')" by simp
qed (simp add: IsRepeatTrackedFunction_def)

definition ex_wrapped :: code where
  "ex_wrapped f w = w\<lparr>w_r := (w_r w)(3 := w_r w 3 + 1), w_log := w_log w @ [f]\<rparr>"

lemma tracing_transparent_witness:
  "guest (UFC_TRACE_QUEUE_COUNTER_WRAPPER 7 ex_wrapped ''sub_82F9B618'' \<lparr>w_r = (\<lambda>_. 0x40000000), w_lr = 0, w_mem = (\<lambda>_. 0), w_counts = (\<lambda>_. 0), w_log = []\<rparr>)
     = ((\<lambda>_. 0x40000000)(3 := 0x40000001), 0, \<lambda>_. 0)"
proof -
  have only: "guest_only (ex_wrapped ''sub_82F9B618'')"
    unfolding guest_only_def
  proof (intro allI impI)
    fix w w' :: tworld
    assume "guest w = guest w'"
    then have "w_r w = w_r w'" "w_lr w = w_lr w'" "w_mem w = w_mem w'" by (simp_all add: guest_def)
    then show "guest (ex_wrapped ''sub_82F9B618'' w) = guest (ex_wrapped ''sub_82F9B618'' w')" by (simp add: guest_def ex_wrapped_def)
  qed
  have mem: "(''sub_82F9B618'', UFC_TRACE_QUEUE_COUNTER_WRAPPER) \<in> set wrappers" by (simp add: wrappers_def queue_wrapped_def)
  show ?thesis unfolding tracing_transparent [OF mem, of ex_wrapped, OF only] by (simp add: ex_wrapped_def guest_def)
qed

end
