(* ===== verification/Xdbf.thy ===== *)
theory Xdbf
  imports Lzx
begin

text \<open>
  \<open>XDBFWrapper\<close> (\<open>XenonUtils/xdbf_wrapper.cpp\<close>) over the layouts of \<open>XenonUtils/xdbf.h\<close>: resources of a
  title by namespace and identifier, the strings of a language, and the achievements. Pointers are
  places in the buffer; \<open>None\<close> is a read outside of it, or the use of a wrapper whose
  construction failed and left its pointers unset.
\<close>

subsection \<open>Layouts\<close>

definition XDBF_SIGNATURE :: u32 where "XDBF_SIGNATURE = 0x58444246"
definition XACH_SIGNATURE :: u32 where "XACH_SIGNATURE = 0x58414348"
definition XDBF_SPA_NAMESPACE_METADATA :: u16 where "XDBF_SPA_NAMESPACE_METADATA = 1"
definition XDBF_SPA_NAMESPACE_IMAGE :: u16 where "XDBF_SPA_NAMESPACE_IMAGE = 2"
definition XDBF_SPA_NAMESPACE_STRING_TABLE :: u16 where "XDBF_SPA_NAMESPACE_STRING_TABLE = 3"

definition be64 :: "bytes \<Rightarrow> nat \<Rightarrow> u64 option" where
  "be64 bs off = map_option (\<lambda>v. of_nat (be_value v)) (bytes_at bs off 8)"

record XDBFHeader =
  dbh_Signature :: u32
  dbh_Version :: u32
  dbh_EntryTableLength :: u32
  dbh_EntryCount :: u32
  dbh_FreeSpaceTableLength :: u32
  dbh_FreeSpaceTableEntryCount :: u32

definition read_xdbf_header :: "bytes \<Rightarrow> XDBFHeader option" where
  "read_xdbf_header bs =
     do { a \<leftarrow> be32 bs 0; b \<leftarrow> be32 bs 4; c \<leftarrow> be32 bs 8; d \<leftarrow> be32 bs 12; e \<leftarrow> be32 bs 16; f \<leftarrow> be32 bs 20;
          Some \<lparr>dbh_Signature = a, dbh_Version = b, dbh_EntryTableLength = c, dbh_EntryCount = d,
                dbh_FreeSpaceTableLength = e, dbh_FreeSpaceTableEntryCount = f\<rparr> }"

definition sizeof_XDBFHeader :: nat where "sizeof_XDBFHeader = 24"
definition sizeof_XDBFFreeSpaceEntry :: nat where "sizeof_XDBFFreeSpaceEntry = 8"

text \<open>Packed: a namespace of 16 bits, an identifier of 64 bits, offset and length.\<close>

record XDBFEntry =
  xe_NamespaceID :: u16
  xe_ResourceID :: u64
  xe_Offset :: u32
  xe_Length :: u32

definition sizeof_XDBFEntry :: nat where "sizeof_XDBFEntry = 18"

definition read_xdbf_entry :: "bytes \<Rightarrow> nat \<Rightarrow> XDBFEntry option" where
  "read_xdbf_entry bs p =
     do { n \<leftarrow> be16 bs p; r \<leftarrow> be64 bs (p + 2); off \<leftarrow> be32 bs (p + 10); len \<leftarrow> be32 bs (p + 14);
          Some \<lparr>xe_NamespaceID = n, xe_ResourceID = r, xe_Offset = off, xe_Length = len\<rparr> }"

text \<open>\<open>XSTRHeader\<close> and \<open>XACHHeader\<close>, packed: signature, version, size and a count of 16 bits.\<close>

definition sizeof_XSTRHeader :: nat where "sizeof_XSTRHeader = 14"
definition sizeof_XACHHeader :: nat where "sizeof_XACHHeader = 14"

definition table_count :: "bytes \<Rightarrow> nat \<Rightarrow> u16 option" where
  "table_count bs p = be16 bs (p + 12)"

record XSTREntry =
  str_ID :: u16
  str_Length :: u16

definition sizeof_XSTREntry :: nat where "sizeof_XSTREntry = 4"

definition read_xstr_entry :: "bytes \<Rightarrow> nat \<Rightarrow> XSTREntry option" where
  "read_xstr_entry bs p = do { i \<leftarrow> be16 bs p; n \<leftarrow> be16 bs (p + 2); Some \<lparr>str_ID = i, str_Length = n\<rparr> }"

record XACHEntry =
  xa_AchievementID :: u16
  xa_NameID :: u16
  xa_UnlockedDescID :: u16
  xa_LockedDescID :: u16
  xa_ImageID :: u32
  xa_Gamerscore :: u16

definition sizeof_XACHEntry :: nat where "sizeof_XACHEntry = 36"

definition read_xach_entry :: "bytes \<Rightarrow> nat \<Rightarrow> XACHEntry option" where
  "read_xach_entry bs p =
     do { i \<leftarrow> be16 bs p; n \<leftarrow> be16 bs (p + 2); u \<leftarrow> be16 bs (p + 4); l \<leftarrow> be16 bs (p + 6);
          im \<leftarrow> be32 bs (p + 8); g \<leftarrow> be16 bs (p + 12);
          Some \<lparr>xa_AchievementID = i, xa_NameID = n, xa_UnlockedDescID = u, xa_LockedDescID = l, xa_ImageID = im, xa_Gamerscore = g\<rparr> }"

subsection \<open>The wrapper\<close>

record XDBFWrapper =
  xw_valid :: bool
  xw_buffer :: bytes
  xw_entry_count :: u32
  xw_entries :: nat
  xw_files :: nat
  xw_content :: nat

text \<open>\<open>buffer\<close> is \<open>None\<close> for a null pointer; the pointers of a wrapper that is not valid are not set.\<close>

definition make_XDBFWrapper :: "bytes option \<Rightarrow> XDBFWrapper" where
  "make_XDBFWrapper buffer =
     (let bad = \<lparr>xw_valid = False, xw_buffer = [], xw_entry_count = 0, xw_entries = 0, xw_files = 0, xw_content = 0\<rparr>
      in case buffer of
           None \<Rightarrow> bad
         | Some bs \<Rightarrow>
             if length bs \<le> sizeof_XDBFHeader then bad
             else (case read_xdbf_header bs of
                     None \<Rightarrow> bad
                   | Some h \<Rightarrow>
                       if dbh_Signature h \<noteq> XDBF_SIGNATURE then bad
                       else let entries = sizeof_XDBFHeader;
                                files = entries + sizeof_XDBFEntry * unat (dbh_EntryCount h);
                                content = files + sizeof_XDBFFreeSpaceEntry * unat (dbh_FreeSpaceTableLength h)
                            in \<lparr>xw_valid = True, xw_buffer = bs, xw_entry_count = dbh_EntryCount h,
                                xw_entries = entries, xw_files = files, xw_content = content\<rparr>))"

text \<open>The place and length of a resource; the inner \<open>None\<close> is the block without a buffer.\<close>

fun find_entry :: "XDBFWrapper \<Rightarrow> u16 \<Rightarrow> u64 \<Rightarrow> nat \<Rightarrow> nat \<Rightarrow> (nat \<times> u32) option option" where
  "find_entry w ns i p 0 = Some None"
| "find_entry w ns i p (Suc n) =
     do { e \<leftarrow> read_xdbf_entry (xw_buffer w) p;
          if xe_NamespaceID e = ns \<and> xe_ResourceID e = i then Some (Some (xw_content w + unat (xe_Offset e), xe_Length e))
          else find_entry w ns i (p + sizeof_XDBFEntry) n }"

definition GetResource :: "XDBFWrapper \<Rightarrow> u16 \<Rightarrow> u64 \<Rightarrow> (nat \<times> u32) option option" where
  "GetResource w ns i = (if xw_valid w then find_entry w ns i (xw_entries w) (unat (xw_entry_count w)) else None)"

fun find_string :: "bytes \<Rightarrow> u16 \<Rightarrow> nat \<Rightarrow> nat \<Rightarrow> bytes option" where
  "find_string bs i p 0 = Some []"
| "find_string bs i p (Suc n) =
     do { e \<leftarrow> read_xstr_entry bs p;
          if str_ID e = i then bytes_at bs (p + sizeof_XSTREntry) (unat (str_Length e))
          else find_string bs i (p + sizeof_XSTREntry + unat (str_Length e)) n }"

definition GetString :: "XDBFWrapper \<Rightarrow> u32 \<Rightarrow> u16 \<Rightarrow> bytes option" where
  "GetString w language i =
     do { block \<leftarrow> GetResource w XDBF_SPA_NAMESPACE_STRING_TABLE (ucast language);
          case block of
            None \<Rightarrow> Some []
          | Some (p, _) \<Rightarrow>
              do { n \<leftarrow> table_count (xw_buffer w) p;
                   find_string (xw_buffer w) i (p + sizeof_XSTRHeader) (unat n) } }"

subsection \<open>Achievements\<close>

record Achievement =
  ach_ID :: u16
  ach_Name :: bytes
  ach_UnlockedDesc :: bytes
  ach_LockedDesc :: bytes
  ach_image :: "(nat \<times> u32) option"
  ach_Score :: u16

definition no_achievement :: Achievement where
  "no_achievement = \<lparr>ach_ID = 0, ach_Name = [], ach_UnlockedDesc = [], ach_LockedDesc = [], ach_image = None, ach_Score = 0\<rparr>"

definition read_achievement :: "XDBFWrapper \<Rightarrow> u32 \<Rightarrow> XACHEntry \<Rightarrow> Achievement option" where
  "read_achievement w language e =
     do { name \<leftarrow> GetString w language (xa_NameID e);
          unlocked \<leftarrow> GetString w language (xa_UnlockedDescID e);
          locked \<leftarrow> GetString w language (xa_LockedDescID e);
          image \<leftarrow> GetResource w XDBF_SPA_NAMESPACE_IMAGE (ucast (xa_ImageID e));
          Some \<lparr>ach_ID = xa_AchievementID e, ach_Name = name, ach_UnlockedDesc = unlocked, ach_LockedDesc = locked,
                ach_image = image, ach_Score = xa_Gamerscore e\<rparr> }"

fun all_achievements :: "XDBFWrapper \<Rightarrow> u32 \<Rightarrow> nat \<Rightarrow> nat \<Rightarrow> Achievement list option" where
  "all_achievements w language p 0 = Some []"
| "all_achievements w language p (Suc n) =
     do { e \<leftarrow> read_xach_entry (xw_buffer w) p;
          a \<leftarrow> read_achievement w language e;
          as \<leftarrow> all_achievements w language (p + sizeof_XACHEntry) n;
          Some (a # as) }"

definition GetAchievements :: "XDBFWrapper \<Rightarrow> u32 \<Rightarrow> Achievement list option" where
  "GetAchievements w language =
     do { block \<leftarrow> GetResource w XDBF_SPA_NAMESPACE_METADATA (ucast XACH_SIGNATURE);
          case block of
            None \<Rightarrow> Some []
          | Some (p, _) \<Rightarrow>
              do { n \<leftarrow> table_count (xw_buffer w) p;
                   all_achievements w language (p + sizeof_XACHHeader) (unat n) } }"

fun find_achievement :: "XDBFWrapper \<Rightarrow> u32 \<Rightarrow> u16 \<Rightarrow> nat \<Rightarrow> nat \<Rightarrow> Achievement option" where
  "find_achievement w language i p 0 = Some no_achievement"
| "find_achievement w language i p (Suc n) =
     do { e \<leftarrow> read_xach_entry (xw_buffer w) p;
          if xa_AchievementID e = i then read_achievement w language e
          else find_achievement w language i (p + sizeof_XACHEntry) n }"

definition GetAchievement :: "XDBFWrapper \<Rightarrow> u32 \<Rightarrow> u16 \<Rightarrow> Achievement option" where
  "GetAchievement w language i =
     do { block \<leftarrow> GetResource w XDBF_SPA_NAMESPACE_METADATA 0x58414348;
          case block of
            None \<Rightarrow> Some no_achievement
          | Some (p, _) \<Rightarrow>
              do { n \<leftarrow> table_count (xw_buffer w) p;
                   find_achievement w language i (p + sizeof_XACHHeader) (unat n) } }"

subsection \<open>One achievement is the first of all\<close>

lemma read_achievement_ID: "read_achievement w language e = Some a \<Longrightarrow> ach_ID a = xa_AchievementID e"
  by (auto simp: read_achievement_def Option.bind_eq_Some_conv)

lemma find_achievement_all:
  assumes "all_achievements w language p n = Some as"
  shows "find_achievement w language i p n = Some (case find (\<lambda>a. ach_ID a = i) as of None \<Rightarrow> no_achievement | Some a \<Rightarrow> a)"
  using assms
proof (induction n arbitrary: p as)
  case 0
  then show ?case by simp
next
  case (Suc n)
  then obtain e a rest where r: "read_xach_entry (xw_buffer w) p = Some e" "read_achievement w language e = Some a"
    "all_achievements w language (p + sizeof_XACHEntry) n = Some rest" "as = a # rest"
    by (auto simp: Option.bind_eq_Some_conv)
  show ?case using Suc.IH [OF r(3)] read_achievement_ID [OF r(2)] r by simp
qed

text \<open>
  C36. Asking for one achievement gives the first one with that identifier in the list of all, and the
  empty record when the list has none.
\<close>

theorem achievement_is_first:
  assumes "GetAchievements w language = Some as"
  shows "GetAchievement w language i = Some (case find (\<lambda>a. ach_ID a = i) as of None \<Rightarrow> no_achievement | Some a \<Rightarrow> a)"
proof -
  obtain block where b: "GetResource w XDBF_SPA_NAMESPACE_METADATA (ucast XACH_SIGNATURE) = Some block"
    using assms by (auto simp: GetAchievements_def Option.bind_eq_Some_conv)
  show ?thesis
  proof (cases block)
    case None
    then show ?thesis using assms b by (simp add: GetAchievements_def GetAchievement_def XACH_SIGNATURE_def)
  next
    case (Some x)
    obtain p l where x: "x = (p, l)" by (cases x)
    obtain n where n: "table_count (xw_buffer w) p = Some n" "all_achievements w language (p + sizeof_XACHHeader) (unat n) = Some as"
      using assms b Some x by (auto simp: GetAchievements_def Option.bind_eq_Some_conv)
    show ?thesis using find_achievement_all [OF n(2), of i] b Some x n(1)
      by (simp add: GetAchievement_def XACH_SIGNATURE_def)
  qed
qed

subsection \<open>Reading back what was written\<close>

definition be64_bytes :: "u64 \<Rightarrow> bytes" where
  "be64_bytes w = be32_bytes (ucast (drop_bit 32 w)) @ be32_bytes (ucast w)"

definition string_entry :: "u16 \<times> bytes \<Rightarrow> bytes" where
  "string_entry e = be16_bytes (fst e) @ be16_bytes (of_nat (length (snd e))) @ snd e"

text \<open>A table of strings, and a file of resources with \<open>m\<close> unused entries for free space.\<close>

definition string_table_bytes :: "(u16 \<times> bytes) list \<Rightarrow> bytes" where
  "string_table_bytes strs = replicate 12 0 @ be16_bytes (of_nat (length strs)) @ concat (map string_entry strs)"

fun resource_entries :: "nat \<Rightarrow> ((u16 \<times> u64) \<times> bytes) list \<Rightarrow> bytes" where
  "resource_entries off [] = []"
| "resource_entries off (((ns, i), b) # rs) =
     be16_bytes ns @ be64_bytes i @ be32_bytes (of_nat off) @ be32_bytes (of_nat (length b)) @ resource_entries (off + length b) rs"

definition xdbf_file :: "nat \<Rightarrow> ((u16 \<times> u64) \<times> bytes) list \<Rightarrow> bytes" where
  "xdbf_file m rs =
     (be32_bytes XDBF_SIGNATURE @ be32_bytes 0x10000 @ be32_bytes (of_nat (length rs)) @ be32_bytes (of_nat (length rs))
      @ be32_bytes (of_nat m) @ be32_bytes 0) @ resource_entries 0 rs @ replicate (8 * m) 0 @ concat (map snd rs)"

lemma be_value_append: "be_value (xs @ ys) = be_value xs * 256 ^ length ys + be_value ys"
proof (induction ys rule: rev_induct)
  case (snoc y ys)
  have "be_value (zs @ [y]) = be_value zs * 256 + unat y" for zs by (simp add: be_value_def)
  then show ?case using snoc by (simp only: append_assoc [symmetric]) (simp add: algebra_simps)
qed (simp add: be_value_def)

lemma be64_value: "be_value (be64_bytes w) = unat w"
proof -
  have "unat (ucast (drop_bit 32 w) :: u32) = unat w div 2 ^ 32"
  proof -
    have "unat w div 2 ^ 32 < 2 ^ 32" using unat_less_word [of w] by (simp add: less_mult_imp_div_less)
    then show ?thesis by (simp only: unsigned_ucast_eq unat_drop_bit_eq) (simp add: take_bit_eq_mod drop_bit_eq_div)
  qed
  moreover have "unat (ucast w :: u32) = unat w mod 2 ^ 32"
    by (simp only: unsigned_ucast_eq take_bit_eq_mod) simp
  ultimately show ?thesis
    by (simp only: be64_bytes_def be_value_append be_bytes_value length_be_bytes) (simp add: div_mult_mod_eq)
qed

lemma length_be64 [simp]: "length (be64_bytes w) = 8"
  by (simp add: be64_bytes_def)

lemma read_at:
  "p = length pre \<Longrightarrow> be16 (pre @ be16_bytes w @ rest) p = Some w"
  "p = length pre \<Longrightarrow> be32 (pre @ be32_bytes v @ rest) p = Some v"
  "p = length pre \<Longrightarrow> be64 (pre @ be64_bytes u @ rest) p = Some u"
  "p = length pre \<Longrightarrow> n = length b \<Longrightarrow> bytes_at (pre @ b @ rest) p n = Some b"
  by (simp_all add: read_be_bytes bytes_at_middle)
     (simp add: be64_def bytes_at_def be64_value)

lemma read_string_entry:
  assumes "length s < 2 ^ 16"
  shows "read_xstr_entry (pre @ string_entry (i, s) @ rest) (length pre) = Some \<lparr>str_ID = i, str_Length = of_nat (length s)\<rparr>"
    "bytes_at (pre @ string_entry (i, s) @ rest) (length pre + sizeof_XSTREntry) (length s) = Some s"
proof -
  have "be16 (pre @ be16_bytes i @ (be16_bytes (of_nat (length s)) @ s @ rest)) (length pre) = Some i" by (rule read_at(1)) simp
  moreover have "be16 ((pre @ be16_bytes i) @ be16_bytes (of_nat (length s)) @ (s @ rest)) (length pre + 2) = Some (of_nat (length s))"
    by (rule read_at(1)) simp
  ultimately show "read_xstr_entry (pre @ string_entry (i, s) @ rest) (length pre) = Some \<lparr>str_ID = i, str_Length = of_nat (length s)\<rparr>"
    by (simp add: read_xstr_entry_def string_entry_def)
  have "bytes_at ((pre @ be16_bytes i @ be16_bytes (of_nat (length s))) @ s @ rest) (length pre + sizeof_XSTREntry) (length s) = Some s"
    by (rule read_at(4)) (simp_all add: sizeof_XSTREntry_def)
  then show "bytes_at (pre @ string_entry (i, s) @ rest) (length pre + sizeof_XSTREntry) (length s) = Some s"
    by (simp add: string_entry_def)
qed

lemma find_string_table:
  assumes "list_all (\<lambda>(_, s). length s < 2 ^ 16) strs"
  shows "find_string (pre @ concat (map string_entry strs) @ rest) i (length pre) (length strs)
     = Some (case map_of strs i of None \<Rightarrow> [] | Some s \<Rightarrow> s)"
  using assms
proof (induction strs arbitrary: pre)
  case Nil
  then show ?case by simp
next
  case (Cons e strs)
  obtain j s where e: "e = (j, s)" by (cases e)
  have small: "length s < 2 ^ 16" "unat (of_nat (length s) :: u16) = length s"
    using Cons.prems e by (simp_all add: unat_of_nat take_bit_eq_mod)
  note r = read_string_entry [OF small(1), of pre j "concat (map string_entry strs) @ rest"]
  have "find_string ((pre @ string_entry (j, s)) @ concat (map string_entry strs) @ rest) i (length (pre @ string_entry (j, s))) (length strs)
      = Some (case map_of strs i of None \<Rightarrow> [] | Some s \<Rightarrow> s)"
    by (rule Cons.IH) (use Cons.prems in simp)
  moreover have "length (string_entry (j, s)) = sizeof_XSTREntry + length s"
    by (simp add: string_entry_def sizeof_XSTREntry_def)
  ultimately show ?case using r small e by (cases "j = i") (simp_all add: add.assoc)
qed

text \<open>Where a resource lies in the content, and how long it is.\<close>

fun locate :: "nat \<Rightarrow> u16 \<times> u64 \<Rightarrow> ((u16 \<times> u64) \<times> bytes) list \<Rightarrow> (nat \<times> nat) option" where
  "locate off k [] = None"
| "locate off k ((k', b) # rs) = (if k' = k then Some (off, length b) else locate (off + length b) k rs)"

lemma locate_map_of:
  "locate off k rs = None \<longleftrightarrow> map_of rs k = None"
  "locate off k rs = Some (o', n) \<Longrightarrow>
     \<exists>pre b rest. concat (map snd rs) = pre @ b @ rest \<and> o' = off + length pre \<and> n = length b \<and> map_of rs k = Some b"
proof -
  show "locate off k rs = None \<longleftrightarrow> map_of rs k = None"
    by (induction off k rs rule: locate.induct) auto
  show "locate off k rs = Some (o', n) \<Longrightarrow>
     \<exists>pre b rest. concat (map snd rs) = pre @ b @ rest \<and> o' = off + length pre \<and> n = length b \<and> map_of rs k = Some b"
  proof (induction off k rs rule: locate.induct)
    case (2 off k k' b rs)
    show ?case
    proof (cases "k' = k")
      case True
      then show ?thesis using 2 by (intro exI [of _ "[]"] exI [of _ b] exI [of _ "concat (map snd rs)"]) simp
    next
      case False
      then obtain pre c rest where c: "concat (map snd rs) = pre @ c @ rest" "o' = off + length b + length pre" "n = length c" "map_of rs k = Some c"
        using 2 by auto
      then show ?thesis using False by (intro exI [of _ "b @ pre"] exI [of _ c] exI [of _ rest]) simp
    qed
  qed simp
qed

lemma read_resource_entry:
  "read_xdbf_entry (pre @ be16_bytes ns @ be64_bytes i @ be32_bytes off @ be32_bytes len @ rest) (length pre)
   = Some \<lparr>xe_NamespaceID = ns, xe_ResourceID = i, xe_Offset = off, xe_Length = len\<rparr>"
proof -
  let ?bs = "pre @ be16_bytes ns @ be64_bytes i @ be32_bytes off @ be32_bytes len @ rest"
  have "be16 ?bs (length pre) = Some ns" by (rule read_at(1)) simp
  moreover have "be64 ((pre @ be16_bytes ns) @ be64_bytes i @ be32_bytes off @ be32_bytes len @ rest) (length pre + 2) = Some i"
    by (rule read_at(3)) simp
  moreover have "be32 ((pre @ be16_bytes ns @ be64_bytes i) @ be32_bytes off @ be32_bytes len @ rest) (length pre + 10) = Some off"
    by (rule read_at(2)) simp
  moreover have "be32 ((pre @ be16_bytes ns @ be64_bytes i @ be32_bytes off) @ be32_bytes len @ rest) (length pre + 14) = Some len"
    by (rule read_at(2)) simp
  ultimately show ?thesis by (simp add: read_xdbf_entry_def)
qed

lemma find_entry_resources:
  assumes "xw_buffer w = pre @ resource_entries off rs @ rest" "off + length (concat (map snd rs)) < 2 ^ 32"
  shows "find_entry w ns i (length pre) (length rs)
     = Some (map_option (\<lambda>(o', n). (xw_content w + o', of_nat n)) (locate off (ns, i) rs))"
  using assms
proof (induction rs arbitrary: pre off)
  case Nil
  then show ?case by simp
next
  case (Cons r rs)
  obtain ns' i' b where r: "r = ((ns', i'), b)" by (cases r) auto
  let ?e = "be16_bytes ns' @ be64_bytes i' @ be32_bytes (of_nat off) @ be32_bytes (of_nat (length b))"
  have small: "unat (of_nat off :: u32) = off" using Cons.prems(2) by (simp add: unat_of_nat take_bit_eq_mod)
  have e: "read_xdbf_entry (xw_buffer w) (length pre)
      = Some \<lparr>xe_NamespaceID = ns', xe_ResourceID = i', xe_Offset = of_nat off, xe_Length = of_nat (length b)\<rparr>"
    using read_resource_entry [of pre ns' i' "of_nat off" "of_nat (length b)" "resource_entries (off + length b) rs @ rest"] Cons.prems(1) r
    by simp
  have "find_entry w ns i (length (pre @ ?e)) (length rs)
      = Some (map_option (\<lambda>(o', n). (xw_content w + o', of_nat n)) (locate (off + length b) (ns, i) rs))"
    by (rule Cons.IH) (use Cons.prems r in simp_all)
  moreover have "length (pre @ ?e) = length pre + sizeof_XDBFEntry" by (simp add: sizeof_XDBFEntry_def)
  ultimately have "find_entry w ns i (length pre + sizeof_XDBFEntry) (length rs)
      = Some (map_option (\<lambda>(o', n). (xw_content w + o', of_nat n)) (locate (off + length b) (ns, i) rs))" by simp
  then show ?case using e small r by auto
qed

lemma length_resource_entries: "length (resource_entries off rs) = sizeof_XDBFEntry * length rs"
  by (induction off rs rule: resource_entries.induct) (simp_all add: sizeof_XDBFEntry_def)

text \<open>A file whose sizes fit their fields.\<close>

definition fits :: "nat \<Rightarrow> ((u16 \<times> u64) \<times> bytes) list \<Rightarrow> bool" where
  "fits m rs = (m < 2 ^ 32 \<and> length rs < 2 ^ 32 \<and> length (concat (map snd rs)) < 2 ^ 32 \<and> rs \<noteq> [])"

lemma xdbf_wrapper_of:
  assumes "fits m rs"
  shows "make_XDBFWrapper (Some (xdbf_file m rs)) =
     \<lparr>xw_valid = True, xw_buffer = xdbf_file m rs, xw_entry_count = of_nat (length rs), xw_entries = 24,
      xw_files = 24 + sizeof_XDBFEntry * length rs, xw_content = 24 + sizeof_XDBFEntry * length rs + 8 * m\<rparr>"
proof -
  let ?rest = "resource_entries 0 rs @ replicate (8 * m) 0 @ concat (map snd rs)"
  let ?a = "be32_bytes XDBF_SIGNATURE" and ?b = "be32_bytes 0x10000" and ?c = "be32_bytes (of_nat (length rs))" and ?m = "be32_bytes (of_nat m)"
  have "be32 ([] @ ?a @ ?b @ ?c @ ?c @ ?m @ be32_bytes 0 @ ?rest) 0 = Some XDBF_SIGNATURE" by (rule read_at(2)) simp
  moreover have "be32 (?a @ ?b @ ?c @ ?c @ ?m @ be32_bytes 0 @ ?rest) 4 = Some 0x10000" by (rule read_at(2)) simp
  moreover have "be32 ((?a @ ?b) @ ?c @ ?c @ ?m @ be32_bytes 0 @ ?rest) 8 = Some (of_nat (length rs))" by (rule read_at(2)) simp
  moreover have "be32 ((?a @ ?b @ ?c) @ ?c @ ?m @ be32_bytes 0 @ ?rest) 12 = Some (of_nat (length rs))" by (rule read_at(2)) simp
  moreover have "be32 ((?a @ ?b @ ?c @ ?c) @ ?m @ be32_bytes 0 @ ?rest) 16 = Some (of_nat m)" by (rule read_at(2)) simp
  moreover have "be32 ((?a @ ?b @ ?c @ ?c @ ?m) @ be32_bytes 0 @ ?rest) 20 = Some 0" by (rule read_at(2)) simp
  ultimately have h: "read_xdbf_header (xdbf_file m rs) = Some \<lparr>dbh_Signature = XDBF_SIGNATURE, dbh_Version = 0x10000,
      dbh_EntryTableLength = of_nat (length rs), dbh_EntryCount = of_nat (length rs), dbh_FreeSpaceTableLength = of_nat m,
      dbh_FreeSpaceTableEntryCount = 0\<rparr>"
    by (simp add: read_xdbf_header_def xdbf_file_def)
  have "length (resource_entries 0 rs) > 0" using assms by (simp add: length_resource_entries sizeof_XDBFEntry_def fits_def)
  then have long: "\<not> length (xdbf_file m rs) \<le> sizeof_XDBFHeader" by (simp add: xdbf_file_def sizeof_XDBFHeader_def)
  have u: "unat (of_nat (length rs) :: u32) = length rs" "unat (of_nat m :: u32) = m"
    using assms by (simp_all add: fits_def unat_of_nat take_bit_eq_mod)
  show ?thesis using h long u by (simp add: make_XDBFWrapper_def Let_def sizeof_XDBFHeader_def sizeof_XDBFFreeSpaceEntry_def)
qed

lemma resource_of_file:
  assumes "fits m rs"
  shows "GetResource (make_XDBFWrapper (Some (xdbf_file m rs))) ns i
     = Some (map_option (\<lambda>(o', n). (24 + sizeof_XDBFEntry * length rs + 8 * m + o', of_nat n)) (locate 0 (ns, i) rs))"
proof -
  let ?w = "make_XDBFWrapper (Some (xdbf_file m rs))"
  let ?h = "be32_bytes XDBF_SIGNATURE @ be32_bytes 0x10000 @ be32_bytes (of_nat (length rs)) @ be32_bytes (of_nat (length rs))
      @ be32_bytes (of_nat m) @ be32_bytes 0"
  have u: "unat (of_nat (length rs) :: u32) = length rs" using assms by (simp add: fits_def unat_of_nat take_bit_eq_mod)
  have "find_entry ?w ns i (length ?h) (length rs)
     = Some (map_option (\<lambda>(o', n). (xw_content ?w + o', of_nat n)) (locate 0 (ns, i) rs))"
  proof (rule find_entry_resources)
    show "xw_buffer ?w = ?h @ resource_entries 0 rs @ (replicate (8 * m) 0 @ concat (map snd rs))"
      by (simp add: xdbf_wrapper_of [OF assms]) (simp add: xdbf_file_def)
    show "0 + length (concat (map snd rs)) < 2 ^ 32" using assms by (simp add: fits_def)
  qed
  then show ?thesis by (simp add: GetResource_def xdbf_wrapper_of [OF assms] u)
qed

text \<open>
  C35. Reading back: in a file of resources whose sizes fit their fields, every string of the table of
  a language is found by its identifier, and an identifier that is not in the table gives the empty string.
\<close>

theorem strings_read_back:
  assumes "fits m rs" "map_of rs (XDBF_SPA_NAMESPACE_STRING_TABLE, ucast language) = Some (string_table_bytes strs)"
    "list_all (\<lambda>(_, s). length s < 2 ^ 16) strs" "length strs < 2 ^ 16"
  shows "GetString (make_XDBFWrapper (Some (xdbf_file m rs))) language i = Some (case map_of strs i of None \<Rightarrow> [] | Some s \<Rightarrow> s)"
proof -
  let ?k = "(XDBF_SPA_NAMESPACE_STRING_TABLE, ucast language)" and ?w = "make_XDBFWrapper (Some (xdbf_file m rs))"
  obtain o' n where "locate 0 ?k rs = Some (o', n)"
    using locate_map_of(1) [of 0 ?k rs] assms(2) by (cases "locate 0 ?k rs") auto
  note l = this
  obtain pre rest where c: "concat (map snd rs) = pre @ string_table_bytes strs @ rest" "o' = length pre"
    using locate_map_of(2) [OF l] assms(2) by auto
  let ?p = "24 + sizeof_XDBFEntry * length rs + 8 * m + o'"
  let ?front = "(be32_bytes XDBF_SIGNATURE @ be32_bytes 0x10000 @ be32_bytes (of_nat (length rs)) @ be32_bytes (of_nat (length rs))
      @ be32_bytes (of_nat m) @ be32_bytes 0) @ resource_entries 0 rs @ replicate (8 * m) 0 @ pre"
  obtain front where front: "front = ?front" by blast
  have len: "length front = ?p" by (simp add: front length_resource_entries c(2))
  have file1: "xdbf_file m rs = (front @ replicate 12 0) @ be16_bytes (of_nat (length strs)) @ (concat (map string_entry strs) @ rest)"
    by (simp add: front xdbf_file_def c(1) string_table_bytes_def)
  have file2: "xdbf_file m rs = (front @ replicate 12 0 @ be16_bytes (of_nat (length strs))) @ concat (map string_entry strs) @ rest"
    by (simp add: file1)
  have "table_count (xdbf_file m rs) ?p = Some (of_nat (length strs))"
    unfolding table_count_def file1 by (rule read_at(1)) (simp add: len)
  moreover have "find_string (xdbf_file m rs) i (?p + sizeof_XSTRHeader) (length strs) = Some (case map_of strs i of None \<Rightarrow> [] | Some s \<Rightarrow> s)"
  proof -
    have "?p + sizeof_XSTRHeader = length (front @ replicate 12 0 @ be16_bytes (of_nat (length strs)))"
      by (simp add: len sizeof_XSTRHeader_def)
    then show ?thesis unfolding file2 by (simp only: find_string_table [OF assms(3)])
  qed
  moreover have "unat (of_nat (length strs) :: u16) = length strs" using assms(4) by (simp add: unat_of_nat take_bit_eq_mod)
  moreover have "xw_buffer ?w = xdbf_file m rs" by (simp add: xdbf_wrapper_of [OF assms(1)])
  ultimately show ?thesis by (simp add: GetString_def resource_of_file [OF assms(1)] l)
qed

definition ex_strings :: "(u16 \<times> bytes) list" where
  "ex_strings = [(1, [65, 66]), (2, [67])]"

definition ex_resources :: "((u16 \<times> u64) \<times> bytes) list" where
  "ex_resources = [((XDBF_SPA_NAMESPACE_IMAGE, 1), [9, 9]), ((XDBF_SPA_NAMESPACE_STRING_TABLE, 1), string_table_bytes ex_strings)]"

lemma strings_read_back_witness:
  "GetString (make_XDBFWrapper (Some (xdbf_file 1 ex_resources))) 1 2 = Some [67]"
proof -
  have "fits 1 ex_resources" by (simp add: fits_def ex_resources_def ex_strings_def string_table_bytes_def string_entry_def)
  moreover have "map_of ex_resources (XDBF_SPA_NAMESPACE_STRING_TABLE, ucast (1 :: u32)) = Some (string_table_bytes ex_strings)"
    by (simp add: ex_resources_def XDBF_SPA_NAMESPACE_IMAGE_def XDBF_SPA_NAMESPACE_STRING_TABLE_def)
  moreover have "list_all (\<lambda>(_, s). length s < 2 ^ 16) ex_strings" "length ex_strings < 2 ^ 16" by (simp_all add: ex_strings_def)
  ultimately show ?thesis using strings_read_back [of 1 ex_resources 1 ex_strings 2] by (simp add: ex_strings_def)
qed

definition ex_title :: XDBFWrapper where
  "ex_title = make_XDBFWrapper (Some (xdbf_file 0
     [((XDBF_SPA_NAMESPACE_METADATA, ucast XACH_SIGNATURE),
        replicate 12 0 @ [0, 1] @ [0, 7, 0, 1, 0, 2, 0, 3, 0, 0, 0, 4, 0, 50] @ replicate 22 0)]))"

lemma bytes_at_after: "p = length front + k \<Longrightarrow> bytes_at (front @ b) p n = bytes_at b k n"
  by (simp add: bytes_at_def)

lemma one_resource: "bytes_at (xdbf_file 0 [(r, b)]) (42 + k) n = bytes_at b k n"
proof -
  obtain front where f: "front = (be32_bytes XDBF_SIGNATURE @ be32_bytes 0x10000 @ be32_bytes 1 @ be32_bytes 1 @ be32_bytes 0 @ be32_bytes 0)
      @ resource_entries 0 [(r, b)]" by blast
  have "length front = 42" by (simp add: f length_resource_entries sizeof_XDBFEntry_def)
  moreover have "xdbf_file 0 [(r, b)] = front @ b" by (simp add: xdbf_file_def f)
  ultimately show ?thesis by (simp add: bytes_at_after)
qed

lemma ex_achievements:
  "GetAchievements ex_title 1 = Some [\<lparr>ach_ID = 7, ach_Name = [], ach_UnlockedDesc = [], ach_LockedDesc = [], ach_image = None, ach_Score = 50\<rparr>]"
proof -
  let ?rs = "[((XDBF_SPA_NAMESPACE_METADATA, ucast XACH_SIGNATURE),
        replicate 12 0 @ [0, 1] @ [0, 7, 0, 1, 0, 2, 0, 3, 0, 0, 0, 4, 0, 50] @ replicate 22 (0 :: u8))]"
  have f: "fits 0 ?rs" by (simp add: fits_def)
  have g: "GetResource ex_title ns i = Some (map_option (\<lambda>(o', n). (42 + o', of_nat n)) (locate 0 (ns, i) ?rs))" for ns i
    unfolding ex_title_def resource_of_file [OF f] by (simp add: sizeof_XDBFEntry_def)
  have b: "xw_buffer ex_title = xdbf_file 0 ?rs" unfolding ex_title_def xdbf_wrapper_of [OF f] by simp
  note at = one_resource [of "(XDBF_SPA_NAMESPACE_METADATA, ucast XACH_SIGNATURE)"]
  have "table_count (xdbf_file 0 ?rs) 42 = Some 1"
    by (simp add: table_count_def be16_def at [of _ 12 2, simplified]) (simp add: bytes_at_def be_value_def)
  moreover have "read_xach_entry (xdbf_file 0 ?rs) 56 = Some \<lparr>xa_AchievementID = 7, xa_NameID = 1, xa_UnlockedDescID = 2,
      xa_LockedDescID = 3, xa_ImageID = 4, xa_Gamerscore = 50\<rparr>"
    by (simp add: read_xach_entry_def be16_def be32_def at [of _ 14 2, simplified] at [of _ 16 2, simplified]
        at [of _ 18 2, simplified] at [of _ 20 2, simplified] at [of _ 22 4, simplified] at [of _ 26 2, simplified])
      (simp add: bytes_at_def be_value_def)
  ultimately show ?thesis
    by (simp add: GetAchievements_def g b sizeof_XACHHeader_def read_achievement_def GetString_def XACH_SIGNATURE_def
        XDBF_SPA_NAMESPACE_METADATA_def XDBF_SPA_NAMESPACE_IMAGE_def XDBF_SPA_NAMESPACE_STRING_TABLE_def)
qed

lemma achievement_is_first_witness:
  "GetAchievement ex_title 1 7 = Some \<lparr>ach_ID = 7, ach_Name = [], ach_UnlockedDesc = [], ach_LockedDesc = [], ach_image = None, ach_Score = 50\<rparr>"
  using achievement_is_first [OF ex_achievements, of 7] by simp

end
