(* ===== verification/MappedFile.thy ===== *)
theory MappedFile
  imports Prelude
begin

text \<open>
  \<open>MemoryMappedFile\<close> (\<open>XenonUtils/memory_mapped_file.cpp\<close>) on both systems it is compiled for. What the
  system answers is an argument; its side of the state is the set of descriptors, mappings and views that
  are open. Giving back one that is not open is \<open>None\<close>.
\<close>

definition release :: "'x \<Rightarrow> 'x set \<Rightarrow> 'x set option" where
  "release x live = (if x \<in> live then Some (live - {x}) else None)"

text \<open>An operation of an object, and the client's view of a class of such objects.\<close>

record ('m, 'r, 'x) file_ops =
  f_new :: 'm
  f_open :: "'r \<Rightarrow> 'm \<Rightarrow> 'x set \<Rightarrow> (bool \<times> 'm \<times> 'x set) option"
  f_close :: "'m \<Rightarrow> 'x set \<Rightarrow> 'x set option"
  f_move :: "'m \<Rightarrow> 'm \<times> 'm"
  f_isOpen :: "'m \<Rightarrow> bool"
  f_fresh :: "'r \<Rightarrow> 'x set \<Rightarrow> bool"

subsection \<open>POSIX\<close>

datatype posix_resource = Descriptor int | View nat

text \<open>\<open>MAP_FAILED\<close> is \<open>None\<close>.\<close>

record posix_file =
  px_fileHandle :: int
  px_fileView :: "nat option"
  px_fileSize :: int

text \<open>The answers of \<open>open\<close>, \<open>lseek\<close> and \<open>mmap\<close>.\<close>

record posix_answers =
  an_open :: int
  an_lseek :: int
  an_mmap :: "nat option"

definition posix_new :: posix_file where
  "posix_new = \<lparr>px_fileHandle = - 1, px_fileView = None, px_fileSize = 0\<rparr>"

definition posix_open :: "posix_answers \<Rightarrow> posix_file \<Rightarrow> posix_resource set \<Rightarrow> (bool \<times> posix_file \<times> posix_resource set) option" where
  "posix_open r m live =
     (let m = m\<lparr>px_fileHandle := an_open r\<rparr>
      in if an_open r = - 1 then Some (False, m, live)
         else let live = insert (Descriptor (an_open r)) live;
                  m = m\<lparr>px_fileSize := an_lseek r\<rparr>
              in if an_lseek r = - 1 then
                   map_option (\<lambda>live. (False, m\<lparr>px_fileHandle := - 1\<rparr>, live)) (release (Descriptor (an_open r)) live)
                 else let m = m\<lparr>px_fileView := an_mmap r\<rparr>
                      in case an_mmap r of
                           None \<Rightarrow> map_option (\<lambda>live. (False, m\<lparr>px_fileHandle := - 1\<rparr>, live)) (release (Descriptor (an_open r)) live)
                         | Some v \<Rightarrow> Some (True, m, insert (View v) live))"

definition posix_close :: "posix_file \<Rightarrow> posix_resource set \<Rightarrow> posix_resource set option" where
  "posix_close m live =
     Option.bind (case px_fileView m of None \<Rightarrow> Some live | Some v \<Rightarrow> release (View v) live)
       (\<lambda>live. if px_fileHandle m \<noteq> - 1 then release (Descriptor (px_fileHandle m)) live else Some live)"

text \<open>The new object and what is left of the old one.\<close>

definition posix_move :: "posix_file \<Rightarrow> posix_file \<times> posix_file" where
  "posix_move other =
     (\<lparr>px_fileHandle = px_fileHandle other, px_fileView = px_fileView other, px_fileSize = px_fileSize other\<rparr>,
      other\<lparr>px_fileHandle := - 1, px_fileView := None, px_fileSize := 0\<rparr>)"

definition posix_isOpen :: "posix_file \<Rightarrow> bool" where
  "posix_isOpen m = (px_fileView m \<noteq> None)"

definition posix_data :: "posix_file \<Rightarrow> nat option" where "posix_data m = px_fileView m"
definition posix_size :: "posix_file \<Rightarrow> u64" where "posix_size m = of_int (px_fileSize m)"

text \<open>The system hands out what is not in use.\<close>

definition posix_fresh :: "posix_answers \<Rightarrow> posix_resource set \<Rightarrow> bool" where
  "posix_fresh r live = (Descriptor (an_open r) \<notin> live \<and> (case an_mmap r of None \<Rightarrow> True | Some v \<Rightarrow> View v \<notin> live))"

definition posix_files :: "(posix_file, posix_answers, posix_resource) file_ops" where
  "posix_files = \<lparr>f_new = posix_new, f_open = posix_open, f_close = posix_close, f_move = posix_move,
     f_isOpen = posix_isOpen, f_fresh = posix_fresh\<rparr>"

subsection \<open>Windows\<close>

datatype win_resource = FileHandle nat | MappingHandle nat | ViewHandle nat

text \<open>\<open>nullptr\<close> is \<open>None\<close>.\<close>

record win_file =
  wn_fileHandle :: "nat option"
  wn_fileMappingHandle :: "nat option"
  wn_fileView :: "nat option"
  wn_fileSize :: int

text \<open>
  The answers of \<open>CreateFileW\<close> (\<open>INVALID_HANDLE_VALUE\<close> is \<open>None\<close>), \<open>GetFileSizeEx\<close>, \<open>CreateFileMappingW\<close> and
  \<open>MapViewOfFile\<close>.
\<close>

record win_answers =
  an_CreateFile :: "nat option"
  an_GetFileSize :: "int option"
  an_CreateFileMapping :: "nat option"
  an_MapView :: "nat option"

definition win_new :: win_file where
  "win_new = \<lparr>wn_fileHandle = None, wn_fileMappingHandle = None, wn_fileView = None, wn_fileSize = 0\<rparr>"

definition win_open :: "win_answers \<Rightarrow> win_file \<Rightarrow> win_resource set \<Rightarrow> (bool \<times> win_file \<times> win_resource set) option" where
  "win_open r m live =
     (case an_CreateFile r of
        None \<Rightarrow> Some (False, m\<lparr>wn_fileHandle := None\<rparr>, live)
      | Some h \<Rightarrow>
          (let m = m\<lparr>wn_fileHandle := Some h\<rparr>; live = insert (FileHandle h) live
           in case an_GetFileSize r of
                None \<Rightarrow> map_option (\<lambda>live. (False, m\<lparr>wn_fileHandle := None\<rparr>, live)) (release (FileHandle h) live)
              | Some n \<Rightarrow>
                  (let m = m\<lparr>wn_fileSize := n, wn_fileMappingHandle := an_CreateFileMapping r\<rparr>
                   in case an_CreateFileMapping r of
                        None \<Rightarrow> map_option (\<lambda>live. (False, m\<lparr>wn_fileHandle := None\<rparr>, live)) (release (FileHandle h) live)
                      | Some g \<Rightarrow>
                          (let live = insert (MappingHandle g) live; m = m\<lparr>wn_fileView := an_MapView r\<rparr>
                           in case an_MapView r of
                                None \<Rightarrow>
                                  Option.bind (release (MappingHandle g) live) (\<lambda>live.
                                    map_option (\<lambda>live. (False, m\<lparr>wn_fileMappingHandle := None, wn_fileHandle := None\<rparr>, live))
                                      (release (FileHandle h) live))
                              | Some v \<Rightarrow> Some (True, m, insert (ViewHandle v) live)))))"

definition release_opt :: "('h \<Rightarrow> 'x) \<Rightarrow> 'h option \<Rightarrow> 'x set \<Rightarrow> 'x set option" where
  "release_opt c h live = (case h of None \<Rightarrow> Some live | Some x \<Rightarrow> release (c x) live)"

definition win_close :: "win_file \<Rightarrow> win_resource set \<Rightarrow> win_resource set option" where
  "win_close m live =
     Option.bind (release_opt ViewHandle (wn_fileView m) live)
       (\<lambda>live. Option.bind (release_opt MappingHandle (wn_fileMappingHandle m) live)
         (release_opt FileHandle (wn_fileHandle m)))"

definition win_move :: "win_file \<Rightarrow> win_file \<times> win_file" where
  "win_move other =
     (\<lparr>wn_fileHandle = wn_fileHandle other, wn_fileMappingHandle = wn_fileMappingHandle other, wn_fileView = wn_fileView other,
       wn_fileSize = wn_fileSize other\<rparr>,
      other\<lparr>wn_fileHandle := None, wn_fileMappingHandle := None, wn_fileView := None, wn_fileSize := 0\<rparr>)"

definition win_isOpen :: "win_file \<Rightarrow> bool" where
  "win_isOpen m = (wn_fileView m \<noteq> None)"

definition win_data :: "win_file \<Rightarrow> nat option" where "win_data m = wn_fileView m"
definition win_size :: "win_file \<Rightarrow> u64" where "win_size m = of_int (wn_fileSize m)"

definition fresh_opt :: "('h \<Rightarrow> 'x) \<Rightarrow> 'h option \<Rightarrow> 'x set \<Rightarrow> bool" where
  "fresh_opt c h live = (case h of None \<Rightarrow> True | Some x \<Rightarrow> c x \<notin> live)"

definition win_fresh :: "win_answers \<Rightarrow> win_resource set \<Rightarrow> bool" where
  "win_fresh r live = (fresh_opt FileHandle (an_CreateFile r) live \<and> fresh_opt MappingHandle (an_CreateFileMapping r) live
     \<and> fresh_opt ViewHandle (an_MapView r) live)"

definition win_files :: "(win_file, win_answers, win_resource) file_ops" where
  "win_files = \<lparr>f_new = win_new, f_open = win_open, f_close = win_close, f_move = win_move,
     f_isOpen = win_isOpen, f_fresh = win_fresh\<rparr>"

subsection \<open>Lives of objects\<close>

text \<open>
  A program with any number of objects, each constructed, opened while it is not open, moved from and to,
  and destroyed, in any order.
\<close>

inductive lives :: "('m, 'r, 'x) file_ops \<Rightarrow> (nat \<Rightarrow> 'm option) \<Rightarrow> 'x set \<Rightarrow> bool" for ops where
  start_it: "lives ops (\<lambda>_. None) {}"
| construct_it: "lives ops objs live \<Longrightarrow> objs i = None \<Longrightarrow> lives ops (objs(i := Some (f_new ops))) live"
| open_it: "lives ops objs live \<Longrightarrow> objs i = Some m \<Longrightarrow> \<not> f_isOpen ops m \<Longrightarrow> f_fresh ops r live \<Longrightarrow>
    f_open ops r m live = Some (b, m', live') \<Longrightarrow> lives ops (objs(i := Some m')) live'"
| move_it: "lives ops objs live \<Longrightarrow> objs i = Some m \<Longrightarrow> objs j = None \<Longrightarrow> f_move ops m = (m', left) \<Longrightarrow>
    lives ops (objs(i := Some left, j := Some m')) live"
| destroy_it: "lives ops objs live \<Longrightarrow> objs i = Some m \<Longrightarrow> f_close ops m live = Some live' \<Longrightarrow> lives ops (objs(i := None)) live'"

subsection \<open>The contract of a class that owns its resources\<close>

locale resource_class =
  fixes ops :: "('m, 'r, 'x) file_ops" and owned :: "'m \<Rightarrow> 'x set" and wf :: "'m \<Rightarrow> bool"
  assumes new: "wf (f_new ops)" "owned (f_new ops) = {}"
    and closed: "wf m \<Longrightarrow> \<not> f_isOpen ops m \<Longrightarrow> owned m = {}"
    and opens: "wf m \<Longrightarrow> \<not> f_isOpen ops m \<Longrightarrow> f_fresh ops r live \<Longrightarrow>
        (case f_open ops r m live of None \<Rightarrow> False
         | Some (b, m', live') \<Rightarrow> wf m' \<and> live' = live \<union> owned m' \<and> owned m' \<inter> live = {} \<and> f_isOpen ops m' = b)"
    and closes: "wf m \<Longrightarrow> owned m \<subseteq> live \<Longrightarrow> f_close ops m live = Some (live - owned m)"
    and moves: "wf m \<Longrightarrow> f_move ops m = (m', left) \<Longrightarrow> wf m' \<and> wf left \<and> owned m' = owned m \<and> owned left = {}"
begin

text \<open>Every object is well formed, what is open is what the objects own, and no two own the same.\<close>

definition consistent :: "(nat \<Rightarrow> 'm option) \<Rightarrow> 'x set \<Rightarrow> bool" where
  "consistent objs live \<longleftrightarrow> (\<forall>i m. objs i = Some m \<longrightarrow> wf m) \<and> live = (\<Union>i. case objs i of None \<Rightarrow> {} | Some m \<Rightarrow> owned m)
     \<and> (\<forall>i j m n. i \<noteq> j \<longrightarrow> objs i = Some m \<longrightarrow> objs j = Some n \<longrightarrow> owned m \<inter> owned n = {})"

lemma owned_live: "consistent objs live \<Longrightarrow> objs i = Some m \<Longrightarrow> wf m \<and> owned m \<subseteq> live"
  unfolding consistent_def by (force split: option.splits)

lemma all_updated:
  "(\<Union>k. case (objs(i := x)) k of None \<Rightarrow> {} | Some m \<Rightarrow> owned m)
     = (case x of None \<Rightarrow> {} | Some m \<Rightarrow> owned m) \<union> (\<Union>k\<in>- {i}. case objs k of None \<Rightarrow> {} | Some m \<Rightarrow> owned m)"
  by (auto split: if_splits)

lemma all_split:
  "(\<Union>k. case objs k of None \<Rightarrow> {} | Some m \<Rightarrow> owned m)
     = (case objs i of None \<Rightarrow> {} | Some m \<Rightarrow> owned m) \<union> (\<Union>k\<in>- {i}. case objs k of None \<Rightarrow> {} | Some m \<Rightarrow> owned m)"
  using all_updated [of objs i "objs i"] by simp

lemma lives_consistent: "lives ops objs live \<Longrightarrow> consistent objs live"
proof (induction rule: lives.induct)
  case start_it
  then show ?case by (simp add: consistent_def)
next
  case (construct_it objs live i)
  then have "live = (\<Union>k. case objs k of None \<Rightarrow> {} | Some m \<Rightarrow> owned m)" by (simp add: consistent_def)
  then have "live = (\<Union>k. case (objs(i := Some (f_new ops))) k of None \<Rightarrow> {} | Some m \<Rightarrow> owned m)"
    unfolding all_updated all_split [of objs i] using construct_it.hyps new by simp
  then show ?case using construct_it.IH new unfolding consistent_def by (auto split: if_splits)
next
  case (open_it objs live i m r b m' live')
  have wf: "wf m" using open_it owned_live by blast
  have o: "wf m'" "live' = live \<union> owned m'" "owned m' \<inter> live = {}" "owned m = {}"
    using opens [OF wf open_it.hyps(3,4)] open_it.hyps(5) closed [OF wf open_it.hyps(3)] by auto
  have "live = (\<Union>k. case objs k of None \<Rightarrow> {} | Some m \<Rightarrow> owned m)" using open_it.IH by (simp add: consistent_def)
  then have "live' = (\<Union>k. case (objs(i := Some m')) k of None \<Rightarrow> {} | Some m \<Rightarrow> owned m)"
    unfolding all_updated all_split [of objs i] using open_it.hyps(2) o by auto
  moreover have "owned m' \<inter> owned n = {}" if "objs j = Some n" for j n using owned_live [OF open_it.IH that] o(3) by blast
  ultimately show ?case using open_it.IH o(1) unfolding consistent_def by (auto split: if_splits)
next
  case (move_it objs live i m j m' left)
  have wf: "wf m" using move_it owned_live by blast
  note mv = moves [OF wf move_it.hyps(4)]
  have ij: "i \<noteq> j" using move_it.hyps by auto
  have "live = (\<Union>k. case objs k of None \<Rightarrow> {} | Some m \<Rightarrow> owned m)" using move_it.IH by (simp add: consistent_def)
  then have "live = (\<Union>k. case (objs(i := Some left, j := Some m')) k of None \<Rightarrow> {} | Some m \<Rightarrow> owned m)"
    unfolding all_updated all_split [of objs i] using move_it.hyps(2,3) mv ij
    by (auto split: if_splits option.splits) (metis ComplI option.distinct(1) singletonD)
  moreover have "owned m' \<inter> owned n = {}" "owned n \<inter> owned m' = {}" if "objs k = Some n" "k \<noteq> i" for k n
    using move_it.IH move_it.hyps(2) mv that unfolding consistent_def by blast+
  ultimately show ?case using move_it.IH mv ij unfolding consistent_def by (simp split: if_splits)
next
  case (destroy_it objs live i m live')
  have m: "wf m" "owned m \<subseteq> live" using destroy_it owned_live by blast+
  then have l: "live' = live - owned m" using closes destroy_it.hyps(3) by simp
  have apart: "owned m \<inter> owned n = {}" if "objs j = Some n" "j \<noteq> i" for j n
    using destroy_it.IH destroy_it.hyps(2) that unfolding consistent_def by blast
  have "live = (\<Union>k. case objs k of None \<Rightarrow> {} | Some m \<Rightarrow> owned m)" using destroy_it.IH by (simp add: consistent_def)
  then have "live' = (\<Union>k. case (objs(i := None)) k of None \<Rightarrow> {} | Some m \<Rightarrow> owned m)"
    unfolding all_updated all_split [of objs i] l using destroy_it.hyps(2) apart by (fastforce split: option.splits)
  then show ?case using destroy_it.IH unfolding consistent_def by (auto split: if_splits)
qed

lemma nothing_leaks:
  assumes "lives ops objs live"
  shows "(objs i = Some m \<longrightarrow> f_close ops m live \<noteq> None \<and> (f_isOpen ops m \<or> f_fresh ops r live \<longrightarrow> f_isOpen ops m \<or> f_open ops r m live \<noteq> None))
     \<and> ((\<forall>i. objs i = None) \<longrightarrow> live = {})"
  using lives_consistent [OF assms] owned_live [OF lives_consistent [OF assms]] closes opens
  by (fastforce simp: consistent_def split: option.splits)

end

subsection \<open>Both implementations keep it\<close>

definition posix_owned :: "posix_file \<Rightarrow> posix_resource set" where
  "posix_owned m = (case px_fileView m of None \<Rightarrow> {} | Some v \<Rightarrow> {View v}) \<union> (if px_fileHandle m = - 1 then {} else {Descriptor (px_fileHandle m)})"

definition posix_wf :: "posix_file \<Rightarrow> bool" where
  "posix_wf m = ((px_fileHandle m = - 1) = (px_fileView m = None))"

interpretation posix: resource_class posix_files posix_owned posix_wf
proof unfold_locales
  fix m r live
  assume "posix_wf m" "\<not> f_isOpen posix_files m" "f_fresh posix_files r live"
  then show "case f_open posix_files r m live of None \<Rightarrow> False
      | Some (b, m', live') \<Rightarrow> posix_wf m' \<and> live' = live \<union> posix_owned m' \<and> posix_owned m' \<inter> live = {} \<and> f_isOpen posix_files m' = b"
    by (auto simp: posix_files_def posix_open_def posix_wf_def posix_owned_def posix_isOpen_def posix_fresh_def release_def Let_def
        split: option.splits)
qed (auto simp: posix_files_def posix_new_def posix_wf_def posix_owned_def posix_isOpen_def posix_close_def posix_move_def release_def
    split: option.splits if_splits)

definition win_owned :: "win_file \<Rightarrow> win_resource set" where
  "win_owned m = FileHandle ` set_option (wn_fileHandle m) \<union> MappingHandle ` set_option (wn_fileMappingHandle m)
     \<union> ViewHandle ` set_option (wn_fileView m)"

definition win_wf :: "win_file \<Rightarrow> bool" where
  "win_wf m = ((wn_fileHandle m = None) = (wn_fileView m = None) \<and> (wn_fileMappingHandle m = None) = (wn_fileView m = None))"

interpretation windows: resource_class win_files win_owned win_wf
proof unfold_locales
  fix m r live
  assume "win_wf m" "\<not> f_isOpen win_files m" "f_fresh win_files r live"
  then show "case f_open win_files r m live of None \<Rightarrow> False
      | Some (b, m', live') \<Rightarrow> win_wf m' \<and> live' = live \<union> win_owned m' \<and> win_owned m' \<inter> live = {} \<and> f_isOpen win_files m' = b"
    by (auto simp: win_files_def win_open_def win_wf_def win_owned_def win_isOpen_def win_fresh_def fresh_opt_def release_def Let_def
        split: option.splits)
qed (auto simp: win_files_def win_new_def win_wf_def win_owned_def win_isOpen_def win_close_def win_move_def release_def release_opt_def
    split: option.splits if_splits)

text \<open>
  C37. On both systems, however objects are constructed, opened while they are not open, moved and
  destroyed: closing an object never gives back a resource that is not open, opening it gives up
  whatever it took when a step fails, and nothing is left open when all objects are gone.
\<close>

theorem mapped_files_safe:
  assumes "lives posix_files objs live" "lives win_files objs' live'"
  shows "(objs i = Some m \<longrightarrow> posix_close m live \<noteq> None \<and> (posix_isOpen m \<or> posix_fresh r live \<longrightarrow> posix_isOpen m \<or> posix_open r m live \<noteq> None))
     \<and> ((\<forall>i. objs i = None) \<longrightarrow> live = {})
     \<and> (objs' i = Some m' \<longrightarrow> win_close m' live' \<noteq> None \<and> (win_isOpen m' \<or> win_fresh r' live' \<longrightarrow> win_isOpen m' \<or> win_open r' m' live' \<noteq> None))
     \<and> ((\<forall>i. objs' i = None) \<longrightarrow> live' = {})"
  using posix.nothing_leaks [OF assms(1), of i m r] windows.nothing_leaks [OF assms(2), of i m' r']
  by (simp add: posix_files_def win_files_def)

lemma mapped_files_safe_witness:
  "posix_close \<lparr>px_fileHandle = 3, px_fileView = Some 0, px_fileSize = 16\<rparr> {Descriptor 3, View 0} \<noteq> None"
proof -
  let ?r = "\<lparr>an_open = 3, an_lseek = 16, an_mmap = Some 0\<rparr>"
  let ?m = "\<lparr>px_fileHandle = 3, px_fileView = Some 0, px_fileSize = 16\<rparr>"
  have "lives posix_files ((\<lambda>_. None)(0 := Some posix_new)) {}"
    using construct_it [OF start_it, of posix_files 0] by (simp add: posix_files_def)
  then have "lives posix_files (((\<lambda>_. None)(0 := Some posix_new))(0 := Some ?m)) {Descriptor 3, View 0}"
    by (rule open_it [where r = ?r and b = True and m = posix_new])
       (simp_all add: posix_files_def posix_new_def posix_isOpen_def posix_fresh_def posix_open_def insert_commute)
  then show ?thesis using mapped_files_safe [OF _ start_it, of _ _ 0 ?m] by simp
qed

text \<open>
  What the class does not guard against: \<open>close\<close> leaves the pointers as they are, so the destructor that
  follows gives everything back a second time; and opening an object that is open loses what it held.
\<close>

lemma close_then_destroy:
  "Option.bind (posix_close \<lparr>px_fileHandle = 3, px_fileView = Some 0, px_fileSize = 16\<rparr> {Descriptor 3, View 0})
     (posix_close \<lparr>px_fileHandle = 3, px_fileView = Some 0, px_fileSize = 16\<rparr>) = None"
  by (simp add: posix_close_def release_def)

lemma open_twice_leaks:
  "Option.bind (posix_open \<lparr>an_open = 4, an_lseek = 8, an_mmap = Some 1\<rparr> \<lparr>px_fileHandle = 3, px_fileView = Some 0, px_fileSize = 16\<rparr>
       {Descriptor 3, View 0})
     (\<lambda>(_, m, live). posix_close m live) = Some {Descriptor 3, View 0}"
  by (auto simp: posix_open_def posix_close_def release_def Let_def)

end
