(* ===== verification/TestHarness.thy ===== *)
theory TestHarness
  imports Prelude "HOL-Library.Monad_Syntax"
begin

text \<open>
  The second half of \<open>TestRecompiler::RecompileTests\<close> (\<open>XenonRecomp/test_recompiler.cpp\<close>): assembly
  files annotated with the registers and the memory before and after each test become one C++ program
  that runs the recompiled tests. The strings are those of \<open>std::string\<close>: positions are \<open>int\<close>, \<open>- 1\<close> is
  \<open>npos\<close>, and \<open>None\<close> is the exception of \<open>substr\<close>. Lines are shorter than \<open>2 ^ 31\<close>.
\<close>

unbundle bit_operations_syntax

subsection \<open>Strings\<close>

fun find_at :: "(string \<Rightarrow> bool) \<Rightarrow> string \<Rightarrow> nat \<Rightarrow> int" where
  "find_at p [] n = (if p [] then int n else - 1)"
| "find_at p (c # cs) n = (if p (c # cs) then int n else find_at p cs (Suc n))"

definition begins :: "char \<Rightarrow> string \<Rightarrow> bool" where
  "begins c s = (case s of [] \<Rightarrow> False | d # _ \<Rightarrow> d = c)"

definition find_char :: "char \<Rightarrow> string \<Rightarrow> int \<Rightarrow> int" where
  "find_char c s pos = (if pos < 0 \<or> int (length s) < pos then - 1 else find_at (begins c) (drop (nat pos) s) (nat pos))"

definition find_word :: "string \<Rightarrow> string \<Rightarrow> int" where
  "find_word t s = find_at (\<lambda>r. take (length t) r = t) s 0"

definition substr :: "string \<Rightarrow> int \<Rightarrow> int \<Rightarrow> string option" where
  "substr s pos n =
     (if pos < 0 \<or> int (length s) < pos then None
      else Some (if n < 0 then drop (nat pos) s else take (nat n) (drop (nat pos) s)))"

definition trim :: "string \<Rightarrow> string" where
  "trim s = dropWhile (\<lambda>c. c = CHR '' '') (rev (dropWhile (\<lambda>c. c = CHR '' '') (rev s)))"

definition newline :: char where "newline = CHR 10"

definition text_line :: "string \<Rightarrow> string" where
  "text_line s = s @ [newline]"

subsection \<open>Lines of a file\<close>

text \<open>
  A stream that is being read: what is left, whether the end was not yet met, and the string the lines
  are read into, which a read after the end leaves as it was.
\<close>

record stream =
  st_rest :: string
  st_good :: bool
  st_str :: string

definition open_stream :: "string \<Rightarrow> stream" where
  "open_stream text = \<lparr>st_rest = text, st_good = True, st_str = []\<rparr>"

definition getline :: "stream \<Rightarrow> bool \<times> stream" where
  "getline s =
     (if \<not> st_good s then (False, s)
      else let l = takeWhile (\<lambda>c. c \<noteq> newline) (st_rest s)
           in case dropWhile (\<lambda>c. c \<noteq> newline) (st_rest s) of
                _ # r \<Rightarrow> (True, s\<lparr>st_rest := r, st_str := l\<rparr>)
              | [] \<Rightarrow> (l \<noteq> [], \<lparr>st_rest = [], st_good = False, st_str = l\<rparr>))"

text \<open>The lambda of the source, which trims the blanks.\<close>

definition getline_trim :: "stream \<Rightarrow> bool \<times> stream" where
  "getline_trim s = (let (ok, s) = getline s in (ok, if ok then s\<lparr>st_str := trim (st_str s)\<rparr> else s))"

definition left :: "stream \<Rightarrow> nat" where
  "left s = length (st_rest s) + of_bool (st_good s)"

lemma getline_left:
  "getline s = (True, s') \<Longrightarrow> left s' < left s" "getline s = (b, s') \<Longrightarrow> left s' \<le> left s"
proof -
  have "length (takeWhile p xs) + length (dropWhile p xs) = length xs" for p and xs :: string
    by (metis length_append takeWhile_dropWhile_id)
  from this [of "\<lambda>c. c \<noteq> newline" "st_rest s"]
  show "getline s = (True, s') \<Longrightarrow> left s' < left s" "getline s = (b, s') \<Longrightarrow> left s' \<le> left s"
    by (auto simp: getline_def left_def Let_def split: if_splits list.splits)
qed

lemma getline_trim_left:
  "getline_trim s = (True, s') \<Longrightarrow> left s' < left s" "getline_trim s = (b, s') \<Longrightarrow> left s' \<le> left s"
  using getline_left [of s] by (cases "getline s"; force simp: getline_trim_def left_def split: if_splits)+

subsection \<open>Annotations\<close>

definition comment :: "string \<Rightarrow> bool" where
  "comment s = begins (CHR ''#'') s"

text \<open>Whether a comment is an annotation, the second character being an underscore.\<close>

definition annotated :: "string \<Rightarrow> bool" where
  "annotated s = (1 < length s \<and> s ! 1 = CHR ''_'')"

text \<open>The word after a keyword, and the blank behind it.\<close>

definition word_after :: "string \<Rightarrow> int \<Rightarrow> (string \<times> int) option" where
  "word_after s at =
     (let space = find_char (CHR '' '') s at; space2 = find_char (CHR '' '') s (space + 1)
      in map_option (\<lambda>w. (w, space2)) (substr s (space + 1) (space2 - space - 1)))"

text \<open>The four words of a vector, the highest one first.\<close>

definition vector_words :: "string \<Rightarrow> int \<Rightarrow> (string \<times> string \<times> string \<times> string) option" where
  "vector_words s space2 =
     (let ob = find_char (CHR ''['') s (space2 + 1);
          c0 = find_char (CHR '','') s (ob + 1);
          c1 = find_char (CHR '','') s (c0 + 1);
          c2 = find_char (CHR '','') s (c1 + 1);
          cb = find_char (CHR '']'') s (c2 + 1)
      in do { w3 \<leftarrow> substr s (ob + 1) (c0 - ob - 1);
              w2 \<leftarrow> substr s (c0 + 2) (c1 - c0 - 2);
              w1 \<leftarrow> substr s (c1 + 2) (c2 - c1 - 2);
              w0 \<leftarrow> substr s (c2 + 2) (cb - c2 - 2);
              Some (w3, w2, w1, w0) })"

text \<open>The digits of the bytes; the terminating zero stands for a missing second digit.\<close>

fun byte_digits :: "string \<Rightarrow> (char \<times> char) list" where
  "byte_digits [] = []"
| "byte_digits [c] = (if c = CHR '' '' then [] else [(c, CHR 0x00)])"
| "byte_digits (c # d # cs) = (if c = CHR '' '' then byte_digits (d # cs) else (c, d) # byte_digits cs)"

definition is_float :: "string \<Rightarrow> int \<Rightarrow> bool" where
  "is_float s space2 = (find_char (CHR ''.'') s space2 \<noteq> - 1)"

definition indexed :: "'a list \<Rightarrow> (nat \<times> 'a) list" where
  "indexed xs = zip [0..<length xs] xs"

text \<open>The statements that an annotation of the state before the test stands for.\<close>

definition input_lines :: "string \<Rightarrow> string option" where
  "input_lines s =
     (if \<not> annotated s then Some []
      else let at = find_word ''REGISTER_IN'' s
           in if at \<noteq> - 1 then do {
                (reg, space2) \<leftarrow> word_after s at;
                if begins (CHR ''v'') reg then do {
                  (w3, w2, w1, w0) \<leftarrow> vector_words s space2;
                  Some (concat (map (\<lambda>(i, w). text_line (CHR 9 # ''ctx.'' @ reg @ ''.u32['' @ i @ ''] = 0x'' @ w @ '';''))
                    [(''3'', w3), (''2'', w2), (''1'', w1), (''0'', w0)])) }
                else do {
                  v \<leftarrow> substr s (space2 + 1) (- 1);
                  Some (text_line (CHR 9 # ''ctx.'' @ reg @ ''.'' @ (if is_float s space2 then ''f'' else ''u'') @ ''64 = '' @ v @ '';'')) } }
              else let at = find_word ''MEMORY_IN'' s
                   in if at \<noteq> - 1 then do {
                        (address, space2) \<leftarrow> word_after s at;
                        bytes \<leftarrow> substr s (space2 + 1) (- 1);
                        Some (concat (map (\<lambda>(j, h, l). text_line (CHR 9 # ''base[0x'' @ address @ '' + 0x''
                          @ hex_string (int j) @ ''] = 0x'' @ [h, l] @ '';'')) (indexed (byte_digits bytes)))) }
                      else Some [])"

definition check_line :: "string \<Rightarrow> string \<Rightarrow> string \<Rightarrow> string \<Rightarrow> string" where
  "check_line k name lhs rhs = text_line (CHR 9 # ''PPC_CHECK_VALUE_'' @ k @ ''('' @ name @ '', '' @ lhs @ '', '' @ rhs @ '');'')"

text \<open>The checks that an annotation of the state after it stands for; condition registers are skipped.\<close>

definition expected_lines :: "string \<Rightarrow> string \<Rightarrow> string option" where
  "expected_lines name s =
     (if \<not> annotated s then Some []
      else let at = find_word ''REGISTER_OUT'' s
           in if at \<noteq> - 1 then do {
                (reg, space2) \<leftarrow> word_after s at;
                if begins (CHR ''c'') reg then Some []
                else if begins (CHR ''v'') reg then do {
                  (w3, w2, w1, w0) \<leftarrow> vector_words s space2;
                  Some (concat (map (\<lambda>(i, w). check_line ''U'' name (''ctx.'' @ reg @ ''.u32['' @ i @ '']'') (''0x'' @ w))
                    [(''3'', w3), (''2'', w2), (''1'', w1), (''0'', w0)])) }
                else do {
                  v \<leftarrow> substr s (space2 + 1) (- 1);
                  Some (check_line (if is_float s space2 then ''F'' else ''U'') name
                    (''ctx.'' @ reg @ ''.'' @ (if is_float s space2 then ''f'' else ''u'') @ ''64'') v) } }
              else let at = find_word ''MEMORY_OUT'' s
                   in if at \<noteq> - 1 then do {
                        (address, space2) \<leftarrow> word_after s at;
                        bytes \<leftarrow> substr s (space2 + 1) (- 1);
                        Some (concat (map (\<lambda>(j, h, l). check_line ''U'' name (''base[0x'' @ address @ '' + 0x''
                          @ hex_string (int j) @ '']'') (''0x'' @ [h, l])) (indexed (byte_digits bytes)))) }
                      else Some [])"

subsection \<open>A test\<close>

text \<open>The loop over the comments before the code: its text and the stream after the first other line.\<close>

function copy_inputs :: "stream \<Rightarrow> (string \<times> stream) option" where
  "copy_inputs s =
     (let (ok, s1) = getline_trim s
      in if ok \<and> comment (st_str s1)
         then do { t \<leftarrow> input_lines (st_str s1); (ts, s2) \<leftarrow> copy_inputs s1; Some (t @ ts, s2) }
         else Some ([], s1))"
  by pat_completeness auto
termination
  by (relation "measure left") (auto dest: getline_trim_left(1) [OF sym])

text \<open>The loop over the code: the stream after the next comment, or after the end.\<close>

function skip_code :: "stream \<Rightarrow> stream" where
  "skip_code s =
     (let (ok, s1) = getline_trim s in if ok \<and> \<not> comment (st_str s1) then skip_code s1 else s1)"
  by pat_completeness auto
termination
  by (relation "measure left") (auto dest: getline_trim_left(1) [OF sym])

text \<open>The loop over the comments after it, which begins with the string that was read last.\<close>

function copy_checks :: "string \<Rightarrow> stream \<Rightarrow> (string \<times> stream) option" where
  "copy_checks name s =
     do { t \<leftarrow> expected_lines name (st_str s);
          let (ok, s1) = getline_trim s
          in if ok \<and> comment (st_str s1)
             then do { (ts, s2) \<leftarrow> copy_checks name s1; Some (t @ ts, s2) }
             else Some (t, s1) }"
  by pat_completeness auto
termination
  by (relation "measure (left \<circ> snd)") (auto dest: getline_trim_left(1) [OF sym])

declare copy_inputs.simps [simp del] skip_code.simps [simp del] copy_checks.simps [simp del]

definition test_text :: "string \<Rightarrow> string \<Rightarrow> stream \<Rightarrow> (string \<times> stream) option" where
  "test_text name target s =
     do { (ins, s) \<leftarrow> copy_inputs s;
          (outs, s) \<leftarrow> copy_checks name (skip_code s);
          Some (text_line (text_line (''PPC_FUNC('' @ target @ '');''))
            @ text_line (''void '' @ name @ ''(uint8_t* base) {'')
            @ text_line (CHR 9 # ''PPCContext ctx{};'') @ text_line (CHR 9 # ''ctx.fpscr.loadFromHost();'')
            @ ins @ text_line (CHR 9 # target @ ''(ctx, base);'') @ outs @ text_line (text_line ''}''), s) }"

lemma copy_inputs_left: "copy_inputs s = Some (t, s') \<Longrightarrow> left s' \<le> left s"
proof (induction "left s" arbitrary: s t rule: less_induct)
  case less
  obtain ok s1 where g: "getline_trim s = (ok, s1)" by fastforce
  have le: "left s1 \<le> left s" "ok \<Longrightarrow> left s1 < left s" using getline_trim_left(1) [of s s1] getline_trim_left(2) [of s ok s1] g by auto
  show ?case
  proof (cases "ok \<and> comment (st_str s1)")
    case True
    then obtain ts where "copy_inputs s1 = Some (ts, s')"
      using less.prems g by (subst (asm) copy_inputs.simps) (auto simp: Option.bind_eq_Some_conv)
    then have "left s' \<le> left s1" using less.hyps [of s1] le(2) True by blast
    then show ?thesis using le(1) by simp
  next
    case False
    then show ?thesis using less.prems g le(1) by (subst (asm) copy_inputs.simps) (auto simp: Option.bind_eq_Some_conv)
  qed
qed

lemma skip_code_left: "left (skip_code s) \<le> left s"
proof (induction "left s" arbitrary: s rule: less_induct)
  case less
  obtain ok s1 where g: "getline_trim s = (ok, s1)" by fastforce
  have le: "left s1 \<le> left s" "ok \<Longrightarrow> left s1 < left s" using getline_trim_left(1) [of s s1] getline_trim_left(2) [of s ok s1] g by auto
  show ?case using less.hyps [of s1] le by (subst skip_code.simps) (auto simp: g)
qed

lemma copy_checks_left: "copy_checks name s = Some (t, s') \<Longrightarrow> left s' \<le> left s"
proof (induction "left s" arbitrary: s t rule: less_induct)
  case less
  obtain ok s1 where g: "getline_trim s = (ok, s1)" by fastforce
  have le: "left s1 \<le> left s" "ok \<Longrightarrow> left s1 < left s" using getline_trim_left(1) [of s s1] getline_trim_left(2) [of s ok s1] g by auto
  show ?case
  proof (cases "ok \<and> comment (st_str s1)")
    case True
    then obtain ts where "copy_checks name s1 = Some (ts, s')"
      using less.prems g by (subst (asm) copy_checks.simps) (auto simp: Option.bind_eq_Some_conv)
    then have "left s' \<le> left s1" using less.hyps [of s1] le(2) True by blast
    then show ?thesis using le(1) by simp
  next
    case False
    then show ?thesis using less.prems g le(1) by (subst (asm) copy_checks.simps) (auto simp: Option.bind_eq_Some_conv)
  qed
qed

lemma test_text_left: "test_text name target s = Some (t, s') \<Longrightarrow> left s' \<le> left s"
  by (auto simp: test_text_def Option.bind_eq_Some_conv
      dest!: copy_inputs_left copy_checks_left intro: order_trans [OF _ order_trans [OF skip_code_left]])


subsection \<open>A file of tests\<close>

text \<open>
  The text of the tests, the names of the functions made for them, and the lines on the console. A line
  that is no comment and holds a colon is the label of a test.
\<close>

function test_file :: "(string \<rightharpoonup> string) \<Rightarrow> stream \<Rightarrow> (string \<times> string list \<times> string list) option" where
  "test_file syms s =
     (let (ok, s1) = getline_trim s; colon = find_char (CHR '':'') (st_str s1) 0; name = take (nat colon) (st_str s1)
      in if \<not> ok then Some ([], [], [])
         else if st_str s1 = [] \<or> comment (st_str s1) \<or> colon = - 1 then test_file syms s1
         else case syms name of
                None \<Rightarrow> do { (t, names, msgs) \<leftarrow> test_file syms s1; Some (t, names, (''Found no symbol for '' @ name) # msgs) }
              | Some target \<Rightarrow>
                  do { (t0, s2) \<leftarrow> test_text name target s1;
                       (t, names, msgs) \<leftarrow> test_file syms s2;
                       Some (t0 @ t, name # names, msgs) })"
  by pat_completeness auto
termination
proof (relation "measure (left \<circ> snd)", goal_cases)
  case (2 syms s x ok s1 colon name)
  then show ?case by (auto dest: getline_trim_left(1) [OF sym])
next
  case (3 syms s x ok s1 colon name)
  then show ?case by (auto dest: getline_trim_left(1) [OF sym])
next
  case (4 syms s x ok s1 colon name target p t0 s2)
  then have "left s1 < left s" "left s2 \<le> left s1"
    using getline_trim_left(1) [of s s1] test_text_left [of name target s1 t0 s2] by simp_all
  then show ?case by simp
qed simp

declare test_file.simps [simp del]

subsection \<open>The symbols of a disassembly\<close>

definition hex_value :: "char \<Rightarrow> nat option" where
  "hex_value c =
     (let k = of_char c :: nat
      in if 48 \<le> k \<and> k \<le> 57 then Some (k - 48)
         else if 65 \<le> k \<and> k \<le> 70 then Some (k - 55)
         else if 97 \<le> k \<and> k \<le> 102 then Some (k - 87) else None)"

text \<open>\<open>std::from_chars\<close> with base 16 on a variable that was all ones; without digits, or when they do not fit, it keeps its value.\<close>

definition from_chars_16 :: "string \<Rightarrow> u64" where
  "from_chars_16 s =
     (let ds = takeWhile (\<lambda>c. hex_value c \<noteq> None) s; v = foldl (\<lambda>a c. 16 * a + the (hex_value c)) 0 ds
      in if ds = [] \<or> 2 ^ 64 \<le> v then - 1 else of_nat v)"

definition target_name :: "string \<Rightarrow> u64 \<Rightarrow> string" where
  "target_name stem address = stem @ ''_'' @ hex_string (uint address)"

definition dis_line :: "string \<Rightarrow> u64 set \<Rightarrow> string \<Rightarrow> (string \<rightharpoonup> string) \<Rightarrow> (string \<rightharpoonup> string) option" where
  "dis_line stem addresses line syms =
     (let space = find_char (CHR '' '') line 0; bracket = find_char (CHR ''>'') line 0
      in if space \<noteq> - 1 \<and> bracket \<noteq> - 1 then
           (let address = from_chars_16 (take (nat space) line) AND 0xFFFFF
            in if address \<in> addresses then
                 map_option (\<lambda>name. if syms name = None then syms(name \<mapsto> target_name stem address) else syms)
                   (substr line (space + 2) (bracket - space - 2))
               else Some syms)
         else Some syms)"

function dis_file :: "string \<Rightarrow> u64 set \<Rightarrow> stream \<Rightarrow> (string \<rightharpoonup> string) \<Rightarrow> (string \<rightharpoonup> string) option" where
  "dis_file stem addresses s syms =
     (let (ok, s1) = getline s
      in if ok then Option.bind (dis_line stem addresses (st_str s1) syms) (dis_file stem addresses s1) else Some syms)"
  by pat_completeness auto
termination
  by (relation "measure (\<lambda>(_, _, s, _). left s)") (auto dest: getline_left(1) [OF sym])

declare dis_file.simps [simp del]


subsection \<open>Searching\<close>


lemma find_at_char: "c \<notin> set xs \<Longrightarrow> find_at (begins c) (xs @ c # ys) n = int (n + length xs)"
  by (induction xs arbitrary: n) (auto simp: begins_def)

lemma find_at_no_char: "c \<notin> set xs \<Longrightarrow> find_at (begins c) xs n = - 1"
  by (induction xs arbitrary: n) (auto simp: begins_def)

lemma find_char_skip: "c \<notin> set xs \<Longrightarrow> find_char c (pre @ xs @ c # ys) (int (length pre)) = int (length pre + length xs)"
  by (simp add: find_char_def find_at_char)

lemma find_char_none: "c \<notin> set xs \<Longrightarrow> find_char c (pre @ xs) (int (length pre)) = - 1"
  by (simp add: find_char_def find_at_no_char)

lemma substr_middle: "substr (pre @ xs @ post) (int (length pre)) (int (length xs)) = Some xs"
  by (simp add: substr_def)

lemma substr_end: "substr (pre @ xs) (int (length pre)) (- 1) = Some xs"
  by (simp add: substr_def)

lemma word_after_eq:
  assumes "find_char (CHR '' '') (pre @ CHR '' '' # w @ CHR '' '' # rest) at = int (length pre)" "CHR '' '' \<notin> set w"
  shows "word_after (pre @ CHR '' '' # w @ CHR '' '' # rest) at = Some (w, int (length pre + 1 + length w))"
proof -
  let ?s = "pre @ CHR '' '' # w @ CHR '' '' # rest"
  have s: "?s = (pre @ [CHR '' '']) @ w @ CHR '' '' # rest" by simp
  have "find_char (CHR '' '') ?s (int (length pre) + 1) = int (length pre + 1 + length w)"
    using find_char_skip [OF assms(2), of "pre @ [CHR '' '']" rest] by (simp add: add.commute)
  moreover have "substr ?s (int (length pre) + 1) (int (length w)) = Some w"
    using substr_middle [of "pre @ [CHR '' '']" w] by (simp add: add.commute)
  ultimately show ?thesis by (simp add: word_after_def assms(1) Let_def)
qed

lemma find_char_at: "c \<notin> set xs \<Longrightarrow> s = pre @ xs @ c # ys \<Longrightarrow> k = int (length pre) \<Longrightarrow> find_char c s k = int (length pre + length xs)"
  using find_char_skip by simp

lemma substr_at: "s = pre @ xs @ post \<Longrightarrow> k = int (length pre) \<Longrightarrow> n = int (length xs) \<Longrightarrow> substr s k n = Some xs"
  using substr_middle by simp

lemma vector_words_eq:
  assumes "CHR '','' \<notin> set a" "CHR '','' \<notin> set b" "CHR '','' \<notin> set c" "CHR '']'' \<notin> set d"
  shows "vector_words (pre @ '' ['' @ a @ '', '' @ b @ '', '' @ c @ '', '' @ d @ '']'') (int (length pre)) = Some (a, b, c, d)"
proof -
  let ?s = "pre @ '' ['' @ a @ '', '' @ b @ '', '' @ c @ '', '' @ d @ '']''" and ?n = "int (length pre)"
  have ob: "find_char (CHR ''['') ?s (?n + 1) = ?n + 1"
    by (subst find_char_at [where pre = "pre @ '' ''" and xs = "[]"]) simp_all
  have c0: "find_char (CHR '','') ?s (?n + 2) = ?n + 2 + int (length a)"
    by (subst find_char_at [where pre = "pre @ '' [''" and xs = a, OF assms(1)]) simp_all
  have c1: "find_char (CHR '','') ?s (?n + 3 + int (length a)) = ?n + 4 + int (length a) + int (length b)"
    by (subst find_char_at [where pre = "pre @ '' ['' @ a @ '',''" and xs = "'' '' @ b"]) (use assms(2) in simp_all)
  have c2: "find_char (CHR '','') ?s (?n + 5 + int (length a) + int (length b)) = ?n + 6 + int (length a) + int (length b) + int (length c)"
    by (subst find_char_at [where pre = "pre @ '' ['' @ a @ '', '' @ b @ '',''" and xs = "'' '' @ c"]) (use assms(3) in simp_all)
  have cb: "find_char (CHR '']'') ?s (?n + 7 + int (length a) + int (length b) + int (length c))
      = ?n + 8 + int (length a) + int (length b) + int (length c) + int (length d)"
    by (subst find_char_at [where pre = "pre @ '' ['' @ a @ '', '' @ b @ '', '' @ c @ '',''" and xs = "'' '' @ d"]) (use assms(4) in simp_all)
  have "substr ?s (?n + 2) (int (length a)) = Some a" by (rule substr_at [where pre = "pre @ '' [''"]) simp_all
  moreover have "substr ?s (?n + 4 + int (length a)) (int (length b)) = Some b"
    by (rule substr_at [where pre = "pre @ '' ['' @ a @ '', ''"]) simp_all
  moreover have "substr ?s (?n + 6 + int (length a) + int (length b)) (int (length c)) = Some c"
    by (rule substr_at [where pre = "pre @ '' ['' @ a @ '', '' @ b @ '', ''"]) simp_all
  moreover have "substr ?s (?n + 8 + int (length a) + int (length b) + int (length c)) (int (length d)) = Some d"
    by (rule substr_at [where pre = "pre @ '' ['' @ a @ '', '' @ b @ '', '' @ c @ '', ''"]) simp_all
  moreover have "?n + 1 + 1 = ?n + 2" "?n + 2 + int (length a) + 1 = ?n + 3 + int (length a)"
    "?n + 4 + int (length a) + int (length b) + 1 = ?n + 5 + int (length a) + int (length b)"
    "?n + 6 + int (length a) + int (length b) + int (length c) + 1 = ?n + 7 + int (length a) + int (length b) + int (length c)"
    "?n + 2 + int (length a) + 2 = ?n + 4 + int (length a)"
    "?n + 4 + int (length a) + int (length b) + 2 = ?n + 6 + int (length a) + int (length b)"
    "?n + 6 + int (length a) + int (length b) + int (length c) + 2 = ?n + 8 + int (length a) + int (length b) + int (length c)"
    "?n + 2 + int (length a) - (?n + 1) - 1 = int (length a)"
    "?n + 4 + int (length a) + int (length b) - (?n + 2 + int (length a)) - 2 = int (length b)"
    "?n + 6 + int (length a) + int (length b) + int (length c) - (?n + 4 + int (length a) + int (length b)) - 2 = int (length c)"
    "?n + 8 + int (length a) + int (length b) + int (length c) + int (length d)
       - (?n + 6 + int (length a) + int (length b) + int (length c)) - 2 = int (length d)"
    by simp_all
  ultimately show ?thesis
    unfolding vector_words_def Let_def by (simp only: ob c0 c1 c2 cb bind.bind_lunit)
qed

lemma byte_digits_pairs:
  assumes "\<forall>(h, l) \<in> set bs. h \<noteq> CHR '' ''"
  shows "byte_digits (concat (map (\<lambda>(h, l). [CHR '' '', h, l]) bs)) = bs"
  using assms by (induction bs) auto

lemma byte_digits_first:
  assumes "\<forall>(h, l) \<in> set bs. h \<noteq> CHR '' ''" "bs \<noteq> []"
  shows "byte_digits (tl (concat (map (\<lambda>(h, l). [CHR '' '', h, l]) bs))) = bs"
  using assms byte_digits_pairs [of "tl bs"] by (cases bs) auto


subsection \<open>Tests as data\<close>

text \<open>An annotation: a register and its value, a vector register and its four words, bytes at an address.\<close>

datatype annotation =
    RegisterValue string string
  | VectorValue string string string string string
  | MemoryValue string "(char \<times> char) list"

fun annotation_line :: "string \<Rightarrow> annotation \<Rightarrow> string" where
  "annotation_line tag (RegisterValue r v) = ''#_ REGISTER_'' @ tag @ '' '' @ r @ '' '' @ v"
| "annotation_line tag (VectorValue r a b c d) =
     ''#_ REGISTER_'' @ tag @ '' '' @ r @ '' ['' @ a @ '', '' @ b @ '', '' @ c @ '', '' @ d @ '']''"
| "annotation_line tag (MemoryValue address bs) =
     ''#_ MEMORY_'' @ tag @ '' '' @ address @ concat (map (\<lambda>(h, l). [CHR '' '', h, l]) bs)"

definition word :: "string \<Rightarrow> bool" where
  "word s = (s \<noteq> [] \<and> CHR '' '' \<notin> set s \<and> newline \<notin> set s)"

fun annotation_ok :: "annotation \<Rightarrow> bool" where
  "annotation_ok (RegisterValue r v) = (word r \<and> word v \<and> \<not> begins (CHR ''v'') r \<and> \<not> begins (CHR ''c'') r)"
| "annotation_ok (VectorValue r a b c d) =
     (word r \<and> begins (CHR ''v'') r \<and> word a \<and> word b \<and> word c \<and> word d
      \<and> CHR '','' \<notin> set a \<and> CHR '','' \<notin> set b \<and> CHR '','' \<notin> set c \<and> CHR '']'' \<notin> set d)"
| "annotation_ok (MemoryValue address bs) =
     (word address \<and> CHR ''R'' \<notin> set address \<and> bs \<noteq> []
      \<and> list_all (\<lambda>(h, l). word [h, l] \<and> CHR ''R'' \<notin> {h, l}) bs)"

text \<open>What each of them must become, before and after the call of the test.\<close>

definition field_letter :: "string \<Rightarrow> string" where
  "field_letter v = (if CHR ''.'' \<in> set v then ''f'' else ''u'')"

fun assignments :: "annotation \<Rightarrow> (string \<times> string) list" where
  "assignments (RegisterValue r v) = [(''ctx.'' @ r @ ''.'' @ field_letter v @ ''64'', v)]"
| "assignments (VectorValue r a b c d) =
     map (\<lambda>(i, w). (''ctx.'' @ r @ ''.u32['' @ i @ '']'', ''0x'' @ w)) [(''3'', a), (''2'', b), (''1'', c), (''0'', d)]"
| "assignments (MemoryValue address bs) =
     map (\<lambda>(j, h, l). (''base[0x'' @ address @ '' + 0x'' @ hex_string (int j) @ '']'', ''0x'' @ [h, l])) (indexed bs)"

fun check_kind :: "annotation \<Rightarrow> string" where
  "check_kind (RegisterValue r v) = (if CHR ''.'' \<in> set v then ''F'' else ''U'')"
| "check_kind _ = ''U''"

definition set_text :: "annotation \<Rightarrow> string" where
  "set_text i = concat (map (\<lambda>(lhs, rhs). text_line (CHR 9 # lhs @ '' = '' @ rhs @ '';'')) (assignments i))"

definition check_text :: "string \<Rightarrow> annotation \<Rightarrow> string" where
  "check_text name i = concat (map (\<lambda>(lhs, rhs). check_line (check_kind i) name lhs rhs) (assignments i))"

lemma register_found:
  "find_word ''REGISTER_IN'' (''#_ REGISTER_IN '' @ x) = 3" "find_word ''REGISTER_OUT'' (''#_ REGISTER_OUT '' @ x) = 3"
  "find_word ''MEMORY_IN'' (''#_ MEMORY_IN '' @ x) = 3" "find_word ''MEMORY_OUT'' (''#_ MEMORY_OUT '' @ x) = 3"
  by (simp_all add: find_word_def)

lemma find_prefix_none: "CHR ''R'' \<notin> set x \<Longrightarrow> find_at (\<lambda>r. take (Suc k) r = CHR ''R'' # t) x n = - 1"
  by (induction x arbitrary: n) auto

lemma register_not_found:
  assumes "CHR ''R'' \<notin> set x"
  shows "find_word ''REGISTER_IN'' (''#_ MEMORY_IN '' @ x) = - 1" "find_word ''REGISTER_OUT'' (''#_ MEMORY_OUT '' @ x) = - 1"
  by (simp_all add: find_word_def find_prefix_none [OF assms])

lemma word_after_keyword:
  assumes "CHR '' '' \<notin> set k" "CHR '' '' \<notin> set w"
  shows "word_after (''#_ '' @ k @ '' '' @ w @ CHR '' '' # rest) 3 = Some (w, int (length k + 4 + length w))"
proof -
  have "find_char (CHR '' '') (''#_ '' @ k @ CHR '' '' # w @ CHR '' '' # rest) 3 = int (length (''#_ '' @ k))"
    by (subst find_char_at [OF assms(1), where pre = "''#_ ''"]) simp_all
  then show ?thesis using word_after_eq [of "''#_ '' @ k" w rest 3] assms(2) by (simp add: add.commute)
qed


lemma annotated_line: "annotated (annotation_line tag i)"
  by (cases i) (simp_all add: annotated_def)

lemma is_float_after:
  "is_float (pre @ CHR '' '' # v) (int (length pre)) = (CHR ''.'' \<in> set v)"
proof -
  have "is_float (pre @ CHR '' '' # v) (int (length pre)) = (find_at (begins (CHR ''.'')) (CHR '' '' # v) (length pre) \<noteq> - 1)"
    by (simp add: is_float_def find_char_def)
  also have "\<dots> = (CHR ''.'' \<in> set v)"
  proof (cases "CHR ''.'' \<in> set v")
    case True
    then obtain xs ys where "v = xs @ CHR ''.'' # ys" "CHR ''.'' \<notin> set xs" by (meson split_list_first)
    then show ?thesis using find_at_char [of "CHR ''.''" "CHR '' '' # xs" ys] True by simp
  next
    case False
    then show ?thesis using find_at_no_char [of "CHR ''.''" "CHR '' '' # v"] by simp
  qed
  finally show ?thesis .
qed

lemma input_register:
  assumes "annotation_ok (RegisterValue r v)"
  shows "input_lines (annotation_line ''IN'' (RegisterValue r v)) = Some (set_text (RegisterValue r v))"
proof -
  let ?s = "annotation_line ''IN'' (RegisterValue r v)" and ?pre = "''#_ REGISTER_IN '' @ r"
  have s: "?s = ?pre @ CHR '' '' # v" by simp
  have w: "word_after ?s 3 = Some (r, int (length ?pre))"
    using word_after_keyword [of "''REGISTER_IN''" r v] assms by (simp add: word_def add.commute)
  have f: "is_float ?s (int (length ?pre)) = (CHR ''.'' \<in> set v)" unfolding s by (rule is_float_after)
  have "substr ?s (int (length ?pre) + 1) (- 1) = Some v"
    using substr_end [of "?pre @ '' ''" v] unfolding s by (simp add: add.commute)
  then show ?thesis
    using register_found(1) [of "r @ CHR '' '' # v"] assms annotated_line [of "''IN''" "RegisterValue r v"]
    unfolding input_lines_def Let_def by (simp add: w [simplified] f [simplified] set_text_def field_letter_def)
qed


lemma input_vector:
  assumes "annotation_ok (VectorValue r a b c d)"
  shows "input_lines (annotation_line ''IN'' (VectorValue r a b c d)) = Some (set_text (VectorValue r a b c d))"
proof -
  let ?s = "annotation_line ''IN'' (VectorValue r a b c d)" and ?pre = "''#_ REGISTER_IN '' @ r"
  let ?rest = "''['' @ a @ '', '' @ b @ '', '' @ c @ '', '' @ d @ '']''"
  have w: "word_after ?s 3 = Some (r, int (length ?pre))"
    using word_after_keyword [of "''REGISTER_IN''" r ?rest] assms by (simp add: word_def add.commute)
  have "vector_words ?s (int (length ?pre)) = Some (a, b, c, d)"
    using vector_words_eq [of a b c d ?pre] assms by simp
  moreover have "\<not> begins (CHR ''c'') r" using assms by (auto simp: begins_def split: list.splits)
  ultimately show ?thesis
    using register_found(1) [of "r @ CHR '' '' # ?rest"] assms annotated_line [of "''IN''" "VectorValue r a b c d"]
    unfolding input_lines_def Let_def by (simp add: w [simplified] set_text_def)
qed

lemma input_memory:
  assumes "annotation_ok (MemoryValue address bs)"
  shows "input_lines (annotation_line ''IN'' (MemoryValue address bs)) = Some (set_text (MemoryValue address bs))"
proof -
  let ?digits = "concat (map (\<lambda>(h, l). [CHR '' '', h, l]) bs)"
  let ?s = "annotation_line ''IN'' (MemoryValue address bs)" and ?pre = "''#_ MEMORY_IN '' @ address"
  have h: "\<forall>(h, l) \<in> set bs. h \<noteq> CHR '' ''" "bs \<noteq> []" using assms by (auto simp: list_all_iff word_def)
  then obtain t where t: "?digits = CHR '' '' # t" by (cases bs) auto
  have d: "byte_digits t = bs" using byte_digits_first [OF h] by (simp only: t list.sel)
  have s: "?s = ?pre @ CHR '' '' # t" by (simp add: t [simplified])
  have w: "word_after ?s 3 = Some (address, int (length ?pre))"
    unfolding s using word_after_keyword [of "''MEMORY_IN''" address t] assms by (simp add: word_def add.commute)
  have r: "CHR ''R'' \<notin> set (address @ CHR '' '' # t)"
    using assms unfolding t [symmetric] set_append by (auto simp: list_all_iff)
  have "substr ?s (int (length ?pre) + 1) (- 1) = Some t"
    using substr_end [of "?pre @ '' ''" t] unfolding s by (simp add: add.commute)
  then show ?thesis
    using register_found(3) [of "address @ CHR '' '' # t"] register_not_found(1) [OF r]
      annotated_line [of "''IN''" "MemoryValue address bs"] w
    unfolding input_lines_def Let_def s by (simp add: d set_text_def comp_def split_def)
qed

lemma check_register:
  assumes "annotation_ok (RegisterValue r v)"
  shows "expected_lines name (annotation_line ''OUT'' (RegisterValue r v)) = Some (check_text name (RegisterValue r v))"
proof -
  let ?s = "annotation_line ''OUT'' (RegisterValue r v)" and ?pre = "''#_ REGISTER_OUT '' @ r"
  have s: "?s = ?pre @ CHR '' '' # v" by simp
  have w: "word_after ?s 3 = Some (r, int (length ?pre))"
    using word_after_keyword [of "''REGISTER_OUT''" r v] assms by (simp add: word_def add.commute)
  have f: "is_float ?s (int (length ?pre)) = (CHR ''.'' \<in> set v)" unfolding s by (rule is_float_after)
  have "substr ?s (int (length ?pre) + 1) (- 1) = Some v"
    using substr_end [of "?pre @ '' ''" v] unfolding s by (simp add: add.commute)
  then show ?thesis
    using register_found(2) [of "r @ CHR '' '' # v"] assms annotated_line [of "''OUT''" "RegisterValue r v"]
    unfolding expected_lines_def Let_def by (simp add: w [simplified] f [simplified] check_text_def field_letter_def)
qed

lemma check_vector:
  assumes "annotation_ok (VectorValue r a b c d)"
  shows "expected_lines name (annotation_line ''OUT'' (VectorValue r a b c d)) = Some (check_text name (VectorValue r a b c d))"
proof -
  let ?s = "annotation_line ''OUT'' (VectorValue r a b c d)" and ?pre = "''#_ REGISTER_OUT '' @ r"
  let ?rest = "''['' @ a @ '', '' @ b @ '', '' @ c @ '', '' @ d @ '']''"
  have w: "word_after ?s 3 = Some (r, int (length ?pre))"
    using word_after_keyword [of "''REGISTER_OUT''" r ?rest] assms by (simp add: word_def add.commute)
  have "vector_words ?s (int (length ?pre)) = Some (a, b, c, d)"
    using vector_words_eq [of a b c d ?pre] assms by simp
  moreover have "\<not> begins (CHR ''c'') r" using assms by (auto simp: begins_def split: list.splits)
  ultimately show ?thesis
    using register_found(2) [of "r @ CHR '' '' # ?rest"] assms annotated_line [of "''OUT''" "VectorValue r a b c d"]
    unfolding expected_lines_def Let_def by (simp add: w [simplified] check_text_def)
qed

lemma check_memory:
  assumes "annotation_ok (MemoryValue address bs)"
  shows "expected_lines name (annotation_line ''OUT'' (MemoryValue address bs)) = Some (check_text name (MemoryValue address bs))"
proof -
  let ?digits = "concat (map (\<lambda>(h, l). [CHR '' '', h, l]) bs)"
  let ?s = "annotation_line ''OUT'' (MemoryValue address bs)" and ?pre = "''#_ MEMORY_OUT '' @ address"
  have h: "\<forall>(h, l) \<in> set bs. h \<noteq> CHR '' ''" "bs \<noteq> []" using assms by (auto simp: list_all_iff word_def)
  then obtain t where t: "?digits = CHR '' '' # t" by (cases bs) auto
  have d: "byte_digits t = bs" using byte_digits_first [OF h] by (simp only: t list.sel)
  have s: "?s = ?pre @ CHR '' '' # t" by (simp add: t [simplified])
  have w: "word_after ?s 3 = Some (address, int (length ?pre))"
    unfolding s using word_after_keyword [of "''MEMORY_OUT''" address t] assms by (simp add: word_def add.commute)
  have r: "CHR ''R'' \<notin> set (address @ CHR '' '' # t)"
    using assms unfolding t [symmetric] set_append by (auto simp: list_all_iff)
  have "substr ?s (int (length ?pre) + 1) (- 1) = Some t"
    using substr_end [of "?pre @ '' ''" t] unfolding s by (simp add: add.commute)
  then show ?thesis
    using register_found(4) [of "address @ CHR '' '' # t"] register_not_found(2) [OF r]
      annotated_line [of "''OUT''" "MemoryValue address bs"] w
    unfolding expected_lines_def Let_def s by (simp add: d check_text_def comp_def split_def)
qed

lemmas annotation_texts = input_register input_vector input_memory check_register check_vector check_memory

lemma input_annotation: "annotation_ok i \<Longrightarrow> input_lines (annotation_line ''IN'' i) = Some (set_text i)"
  by (cases i) (simp_all only: annotation_texts)

lemma check_annotation: "annotation_ok i \<Longrightarrow> expected_lines name (annotation_line ''OUT'' i) = Some (check_text name i)"
  by (cases i) (simp_all only: annotation_texts)


subsection \<open>Reading the lines back\<close>

definition reading :: "string list \<Rightarrow> string \<Rightarrow> stream" where
  "reading ls x = \<lparr>st_rest = concat (map text_line ls), st_good = True, st_str = x\<rparr>"

lemma str_reading [simp]: "st_str (reading ls x) = x"
  by (simp add: reading_def)

lemma getline_reading:
  assumes "newline \<notin> set l"
  shows "getline (reading (l # ls) x) = (True, reading ls l)"
proof -
  have "takeWhile (\<lambda>c. c \<noteq> newline) (l @ newline # r) = l" "dropWhile (\<lambda>c. c \<noteq> newline) (l @ newline # r) = newline # r" for r
    using assms by (auto simp: takeWhile_append dropWhile_append)
  then show ?thesis by (simp add: getline_def reading_def text_line_def)
qed

lemma getline_trim_reading: "newline \<notin> set l \<Longrightarrow> getline_trim (reading (l # ls) x) = (True, reading ls (trim l))"
  by (simp add: getline_trim_def getline_reading) (simp add: reading_def)

lemma getline_trim_end: "getline_trim (reading [] x) = (False, \<lparr>st_rest = [], st_good = False, st_str = []\<rparr>)"
  by (simp add: getline_trim_def getline_def reading_def)

lemma trim_same: "s \<noteq> [] \<Longrightarrow> hd s \<noteq> CHR '' '' \<Longrightarrow> last s \<noteq> CHR '' '' \<Longrightarrow> trim s = s"
proof -
  assume s: "s \<noteq> []" "hd s \<noteq> CHR '' ''" "last s \<noteq> CHR '' ''"
  have "dropWhile (\<lambda>c. c = CHR '' '') (rev s) = rev s" using s by (cases s rule: rev_cases) simp_all
  then show "trim s = s" using s by (cases s) (simp_all add: trim_def)
qed

lemma word_last: "word w \<Longrightarrow> last w \<noteq> CHR '' ''"
  using last_in_set [of w] by (metis word_def)

lemma annotation_line_facts:
  assumes "annotation_ok i" "newline \<notin> set tag"
  shows "trim (annotation_line tag i) = annotation_line tag i" "newline \<notin> set (annotation_line tag i)"
    "comment (annotation_line tag i)"
proof -
  have "hd (annotation_line tag i) = CHR ''#'' \<and> annotation_line tag i \<noteq> []" by (cases i) simp_all
  moreover have "last (annotation_line tag i) \<noteq> CHR '' ''"
  proof (cases i)
    case (RegisterValue r v)
    then show ?thesis using assms word_last [of v] by (simp add: word_def)
  next
    case (MemoryValue address bs)
    then obtain cs h l where bs: "bs = cs @ [(h, l)]" using assms by (cases bs rule: rev_cases) auto
    then have "l \<noteq> CHR '' ''" using MemoryValue assms by (auto simp: word_def)
    then show ?thesis using MemoryValue bs by simp
  qed simp
  ultimately show "trim (annotation_line tag i) = annotation_line tag i" "comment (annotation_line tag i)"
    by (simp add: trim_same) (cases i, simp_all add: comment_def begins_def)
  show "newline \<notin> set (annotation_line tag i)"
    using assms by (cases i) (auto simp: word_def newline_def list_all_iff)
qed

lemma copy_inputs_reading:
  assumes "list_all annotation_ok ins" "newline \<notin> set l" "\<not> comment (trim l)"
  shows "copy_inputs (reading (map (annotation_line ''IN'') ins @ l # ls) x) = Some (concat (map set_text ins), reading ls (trim l))"
  using assms(1)
proof (induction ins arbitrary: x)
  case Nil
  then show ?case using assms by (subst copy_inputs.simps) (simp add: getline_trim_reading)
next
  case (Cons i ins)
  then have "annotation_ok i" by simp
  from annotation_line_facts [OF this, of "''IN''"] input_annotation [OF this] show ?case
    using Cons by (subst copy_inputs.simps) (simp add: getline_trim_reading newline_def)
qed

lemma skip_code_reading:
  assumes "list_all (\<lambda>l. newline \<notin> set l \<and> \<not> comment (trim l)) code" "annotation_ok i" "newline \<notin> set tag"
  shows "skip_code (reading (code @ annotation_line tag i # ls) x) = reading ls (annotation_line tag i)"
  using assms(1)
proof (induction code arbitrary: x)
  case Nil
  then show ?case using annotation_line_facts [OF assms(2,3)] by (subst skip_code.simps) (simp add: getline_trim_reading)
next
  case (Cons l code)
  then show ?case by (subst skip_code.simps) (simp add: getline_trim_reading)
qed

lemma copy_checks_reading:
  assumes "list_all annotation_ok (i # outs)" "newline \<notin> set l" "\<not> comment (trim l)"
  shows "copy_checks name (reading (map (annotation_line ''OUT'') outs @ l # ls) (annotation_line ''OUT'' i))
     = Some (concat (map (check_text name) (i # outs)), reading ls (trim l))"
  using assms(1)
proof (induction outs arbitrary: i)
  case Nil
  then show ?case using assms check_annotation [of i name] by (subst copy_checks.simps) (simp add: getline_trim_reading)
next
  case (Cons j outs)
  then have "annotation_ok j" "annotation_ok i" by simp_all
  from annotation_line_facts [OF this(1), of "''OUT''"] check_annotation [OF this(2), of name] show ?case
    using Cons by (subst copy_checks.simps) (simp add: getline_trim_reading newline_def)
qed

text \<open>
  A test: its label, the function of the recompiled program it runs, the state before, the code with
  at least one line, the state after with at least one annotation. An empty line ends it.
\<close>

record test =
  t_name :: string
  t_target :: string
  t_inputs :: "annotation list"
  t_code :: "string list"
  t_checks :: "annotation list"

definition test_lines :: "test \<Rightarrow> string list" where
  "test_lines t = (t_name t @ '':'') # map (annotation_line ''IN'') (t_inputs t) @ t_code t
     @ map (annotation_line ''OUT'') (t_checks t) @ [[]]"

definition test_ok :: "test \<Rightarrow> bool" where
  "test_ok t =
     (word (t_name t) \<and> CHR '':'' \<notin> set (t_name t) \<and> \<not> comment (t_name t)
      \<and> list_all annotation_ok (t_inputs t) \<and> list_all annotation_ok (t_checks t)
      \<and> t_code t \<noteq> [] \<and> list_all (\<lambda>l. newline \<notin> set l \<and> \<not> comment (trim l)) (t_code t) \<and> t_checks t \<noteq> [])"

definition test_program :: "test \<Rightarrow> string" where
  "test_program t =
     text_line (text_line (''PPC_FUNC('' @ t_target t @ '');''))
     @ text_line (''void '' @ t_name t @ ''(uint8_t* base) {'')
     @ text_line (CHR 9 # ''PPCContext ctx{};'') @ text_line (CHR 9 # ''ctx.fpscr.loadFromHost();'')
     @ concat (map set_text (t_inputs t))
     @ text_line (CHR 9 # t_target t @ ''(ctx, base);'')
     @ concat (map (check_text (t_name t)) (t_checks t)) @ text_line (text_line ''}'')"

lemma trim_empty [simp]: "trim [] = []"
  by (simp add: trim_def)

lemma test_text_reading:
  assumes "test_ok t"
  shows "test_text (t_name t) (t_target t) (reading (tl (test_lines t) @ ls) x) = Some (test_program t, reading ls [])"
proof -
  obtain l code where c: "t_code t = l # code" using assms by (cases "t_code t") (simp_all add: test_ok_def)
  obtain i outs where o: "t_checks t = i # outs" using assms by (cases "t_checks t") (simp_all add: test_ok_def)
  have "copy_inputs (reading (tl (test_lines t) @ ls) x) = Some (concat (map set_text (t_inputs t)),
      reading (code @ annotation_line ''OUT'' i # map (annotation_line ''OUT'') outs @ [] # ls) (trim l))"
    using copy_inputs_reading [of "t_inputs t" l "code @ annotation_line ''OUT'' i # map (annotation_line ''OUT'') outs @ [] # ls" x]
      assms by (simp add: test_lines_def c o test_ok_def)
  moreover have "skip_code (reading (code @ annotation_line ''OUT'' i # map (annotation_line ''OUT'') outs @ [] # ls) (trim l))
      = reading (map (annotation_line ''OUT'') outs @ [] # ls) (annotation_line ''OUT'' i)"
    using assms by (intro skip_code_reading) (simp_all add: test_ok_def c o newline_def)
  moreover have "copy_checks (t_name t) (reading (map (annotation_line ''OUT'') outs @ [] # ls) (annotation_line ''OUT'' i))
      = Some (concat (map (check_text (t_name t)) (i # outs)), reading ls [])"
    using copy_checks_reading [of i outs "[]" "t_name t" ls] assms by (simp add: test_ok_def o comment_def begins_def)
  ultimately show ?thesis by (simp add: test_text_def test_program_def o)
qed


lemma test_file_reading:
  assumes "list_all test_ok ts" "list_all (\<lambda>t. syms (t_name t) = Some (t_target t)) ts"
  shows "test_file syms (reading (concat (map test_lines ts)) x) = Some (concat (map test_program ts), map t_name ts, [])"
  using assms
proof (induction ts arbitrary: x)
  case Nil
  then show ?case by (subst test_file.simps) (simp add: getline_trim_end Let_def)
next
  case (Cons t ts)
  let ?ls = "concat (map test_lines ts)" and ?label = "t_name t @ '':''"
  have n: "t_name t \<noteq> []" "newline \<notin> set ?label" "CHR '':'' \<notin> set (t_name t)" "\<not> comment ?label"
    using Cons.prems by (auto simp: test_ok_def word_def newline_def comment_def begins_def split: list.splits)
  have "CHR '' '' \<notin> set (t_name t)" using Cons.prems by (simp add: test_ok_def word_def)
  then have "hd (t_name t) \<noteq> CHR '' ''" using hd_in_set [OF n(1)] by metis
  then have tr: "trim ?label = ?label" using n(1) by (intro trim_same) simp_all
  have colon: "find_char (CHR '':'') ?label 0 = int (length (t_name t))"
    using find_char_skip [OF n(3), of "[]" "[]"] by simp
  have rest: "concat (map test_lines (t # ts)) = ?label # tl (test_lines t) @ ?ls" by (simp add: test_lines_def)
  have g: "getline_trim (reading (concat (map test_lines (t # ts))) x) = (True, reading (tl (test_lines t) @ ?ls) ?label)"
    unfolding rest getline_trim_reading [OF n(2)] tr ..
  have "test_text (t_name t) (t_target t) (reading (tl (test_lines t) @ ?ls) ?label) = Some (test_program t, reading ?ls [])"
    using Cons.prems by (intro test_text_reading) simp
  then show ?case
    using Cons n(4) by (subst test_file.simps, subst g) (simp add: colon Let_def)
qed

text \<open>
  C39. Reading back: from a file of annotated tests whose labels are known, the program that runs the
  tests sets up every register, vector and memory byte of the annotations before the call, in order, calls
  the recompiled function of the label, and checks every annotation after it, and no test is lost.
\<close>

theorem harness_regenerated:
  assumes "list_all test_ok ts" "list_all (\<lambda>t. syms (t_name t) = Some (t_target t)) ts"
  shows "test_file syms (open_stream (concat (map text_line (concat (map test_lines ts)))))
     = Some (concat (map test_program ts), map t_name ts, [])"
  using test_file_reading [OF assms, of "[]"] by (simp add: reading_def open_stream_def)

definition ex_test :: test where
  "ex_test = \<lparr>t_name = ''test_add_1'', t_target = ''add_0'', t_inputs = [RegisterValue ''r4'' ''1'', MemoryValue ''1000'' [(CHR ''A'', CHR ''0'')]],
     t_code = [''  add r3, r4, r5'', ''  blr''], t_checks = [RegisterValue ''f1'' ''1.5'', VectorValue ''v3'' ''1'' ''2'' ''3'' ''4'']\<rparr>"

lemma harness_regenerated_witness:
  "test_file [''test_add_1'' \<mapsto> ''add_0''] (open_stream (concat (map text_line (concat (map test_lines [ex_test])))))
     = Some (test_program ex_test, [''test_add_1''], [])"
proof -
  have "test_ok ex_test" by (simp add: test_ok_def ex_test_def word_def newline_def comment_def begins_def trim_def)
  then show ?thesis
    using harness_regenerated [of "[ex_test]" "[''test_add_1'' \<mapsto> ''add_0'']"] by (simp add: ex_test_def)
qed


text \<open>
  The code of a test ends only at a comment: one without annotations after its code takes the next
  label for code, and the next test is lost.
\<close>

lemma next_test_lost:
  "map_option (fst \<circ> snd) (test_file Some (open_stream (concat (map text_line
     [''a:'', ''blr'', [], ''b:'', ''#_ REGISTER_IN r3 1'', ''blr'', ''#_ REGISTER_OUT r3 1''])))) = Some [''a'']"
  by code_simp

end
