(* ===== verification/TestRecompiler.thy ===== *)
theory TestRecompiler
  imports TestHarness Driver ElfImage "HOL-Library.List_Lexorder" "HOL-Library.Char_ord"
begin

text \<open>
  \<open>TestRecompiler\<close> (\<open>XenonRecomp/test_recompiler.cpp\<close>): every object file of a directory is recompiled
  to a file of its own, the labels of its disassembly are tied to the recompiled functions, and the
  program that runs the tests is written (theory \<open>TestHarness\<close>). The directory is a list of the stems
  and contents of its object files, in the order of the iterator; \<open>input\<close> are the text files that are
  read. \<open>None\<close> is an exception, a read outside of a file, an analysis that does not end, or a program file
  that cannot be opened. The messages of \<open>Recompile\<close> itself are left out of the console.
\<close>

subsection \<open>The environment of an object file\<close>

text \<open>What is not in the repository, and the words behind the end of a file.\<close>

record 'h test_env =
  te_load :: load_env
  te_dis :: "u32 \<Rightarrow> u64 \<Rightarrow> ppc_insn"
  te_alias :: bool
  te_sort :: "Block list \<Rightarrow> Block list"
  te_sort_fns :: "FunctionRange list \<Rightarrow> FunctionRange list"
  te_fuel :: nat
  te_hash :: "string \<Rightarrow> 'h"
  te_beyond :: "u64 \<Rightarrow> u32"

definition default_config :: "string \<Rightarrow> RecompilerConfig" where
  "default_config dst =
     \<lparr>directoryPath = [], filePath = [], patchFilePath = [], patchedFilePath = [], outDirectoryPath = dst,
      switchTableFilePath = [], switchTables = (\<lambda>_. None), skipLr = False, ctrAsLocalVariable = False,
      xerAsLocalVariable = False, reservedRegisterAsLocalVariable = False, skipMsr = False,
      crRegistersAsLocalVariables = False, nonArgumentRegistersAsLocalVariables = False,
      nonVolatileRegistersAsLocalVariables = False, restGpr14Address = 0, saveGpr14Address = 0,
      restFpr14Address = 0, saveFpr14Address = 0, restVmx14Address = 0, saveVmx14Address = 0,
      restVmx64Address = 0, saveVmx64Address = 0, longJmpAddress = 0, setJmpAddress = 0, cfgFunctions = [],
      invalidInstructions = (\<lambda>_. None), midAsmHooks = (\<lambda>_. None)\<rparr>"

text \<open>A host pointer is a place in the file; the host is little-endian.\<close>

definition host_word :: "'h test_env \<Rightarrow> bytes \<Rightarrow> u64 \<Rightarrow> u32" where
  "host_word te bs p = (case be32 bs (unat p) of Some w \<Rightarrow> ByteSwap32 w | None \<Rightarrow> te_beyond te p)"

definition object_env :: "'h test_env \<Rightarrow> bytes \<Rightarrow> string \<Rightarrow> analyse_env" where
  "object_env te bs dst =
     \<lparr>ae_config = default_config dst, ae_word = host_word te bs, ae_data = (\<lambda>s. of_nat (length bs - length (sec_data s))),
      ae_opcode = (\<lambda>w a. pi_opcode (te_dis te w a) \<noteq> None), ae_sort = te_sort te, ae_sort_fns = te_sort_fns te,
      ae_fuel = te_fuel te\<rparr>"

definition object_renv :: "'h test_env \<Rightarrow> Image \<Rightarrow> bytes \<Rightarrow> string \<Rightarrow> SymbolTable \<Rightarrow> renv" where
  "object_renv te img bs dst syms =
     \<lparr>re_cfg = default_config dst, re_symbols = syms,
      re_mem = (\<lambda>a. case Image_Find a img of
                      None \<Rightarrow> te_beyond te a
                    | Some (s, off) \<Rightarrow> host_word te bs (of_nat (length bs - length (sec_data s)) + off)),
      re_dis = te_dis te, re_alias = te_alias te\<rparr>"

subsection \<open>The functions of an object file\<close>

fun test_sweep :: "nat \<Rightarrow> analyse_env \<Rightarrow> string \<Rightarrow> u64 \<Rightarrow> u64 \<Rightarrow> u64 \<Rightarrow> analysed \<Rightarrow> analysed option" where
  "test_sweep fuel e testName dataEnd base ptr s =
     (if ptr < dataEnd then
        (case fuel of
           0 \<Rightarrow> None
         | Suc n \<Rightarrow>
             if ae_word e ptr = 0 then test_sweep n e testName dataEnd (base + 4) (ptr + 4) s
             else
               case analyze_at e ptr (dataEnd - ptr) base of
                 None \<Rightarrow> None
               | Some size1 \<Rightarrow>
                   test_sweep n e testName dataEnd (base + size1) (ptr + size1)
                     (add_function (target_name testName base) base size1 s))
      else Some s)"

declare test_sweep.simps [simp del]

fun test_sections :: "nat \<Rightarrow> analyse_env \<Rightarrow> string \<Rightarrow> Section list \<Rightarrow> analysed \<Rightarrow> analysed option" where
  "test_sections fuel e testName [] s = Some s"
| "test_sections fuel e testName (sec # secs) s =
     (if \<not> sec_code sec then test_sections fuel e testName secs s
      else Option.bind (test_sweep fuel e testName (ae_data e sec + ucast (sec_size sec)) (sec_base sec) (ae_data e sec) s)
             (test_sections fuel e testName secs))"

definition TestAnalyse :: "nat \<Rightarrow> analyse_env \<Rightarrow> string \<Rightarrow> Image \<Rightarrow> analysed option" where
  "TestAnalyse fuel e testName img =
     map_option (found_functions_update (ae_sort_fns e))
       (test_sections fuel e testName (img_sections img) \<lparr>found_functions = [], symbols = img_symbols img\<rparr>)"

subsection \<open>Recompiling an object file\<close>

text \<open>\<open>std::map\<close> from stems to the bases of the functions that were recompiled, in its order.\<close>

type_synonym recompiled = "(string \<times> u64 set) list"

fun add_base :: "string \<Rightarrow> u64 \<Rightarrow> recompiled \<Rightarrow> recompiled" where
  "add_base stem a [] = [(stem, {a})]"
| "add_base stem a ((k, A) # m) =
     (if stem = k then (k, insert a A) # m
      else if stem < k then (stem, {a}) # (k, A) # m
      else (k, A) # add_base stem a m)"

record tests =
  ts_files :: files
  ts_recompiled :: recompiled
  ts_console :: "string list"

definition object_head :: string where
  "object_head = println ''#define PPC_CONFIG_H_INCLUDED'' @ println (println ''#include <ppc_context.h>'')
     @ println (println ''#define __builtin_debugtrap()'')"

definition not_recompiled :: "string \<Rightarrow> FunctionRange \<Rightarrow> string" where
  "not_recompiled stem fn =
     ''Function '' @ hex_string (uint (fn_base fn)) @ '' in '' @ stem @ '' has unimplemented instructions''"

definition record_result :: "string \<Rightarrow> FunctionRange \<times> bool \<times> string \<Rightarrow> tests \<Rightarrow> tests" where
  "record_result stem r t =
     (if fst (snd r) then t\<lparr>ts_recompiled := add_base stem (fn_base (fst r)) (ts_recompiled t)\<rparr>
      else t\<lparr>ts_console := ts_console t @ [not_recompiled stem (fst r)]\<rparr>)"

definition object_results :: "renv \<Rightarrow> FunctionRange list \<Rightarrow> (FunctionRange \<times> bool \<times> string) list" where
  "object_results re fns = map (\<lambda>fn. (fn, recompile_function re fn)) fns"

definition object_text :: "(FunctionRange \<times> bool \<times> string) list \<Rightarrow> string" where
  "object_text rs = object_head @ concat (map (\<lambda>r. snd (snd r)) rs)"

definition test_object :: "'h test_env \<Rightarrow> nat \<Rightarrow> string \<Rightarrow> string \<times> bytes \<Rightarrow> tests \<Rightarrow> tests option" where
  "test_object te fuel dst obj t =
     (let stem = fst obj
      in do { (img, bs) \<leftarrow> ParseImage (te_load te) (snd obj);
              s \<leftarrow> TestAnalyse fuel (object_env te bs dst) stem img;
              let rs = object_results (object_renv te img bs dst (symbols s)) (found_functions s);
              let d = SaveCurrentOutData (te_hash te) (default_config dst) (stem @ ''.cpp'')
                        \<lparr>dr_out = object_text rs, dr_index = 0, dr_files = ts_files t\<rparr>;
              Some ((fold (record_result stem) rs t)\<lparr>ts_files := dr_files d\<rparr>) })"

fun test_objects :: "'h test_env \<Rightarrow> nat \<Rightarrow> string \<Rightarrow> (string \<times> bytes) list \<Rightarrow> tests \<Rightarrow> tests option" where
  "test_objects te fuel dst [] t = Some t"
| "test_objects te fuel dst (obj # objs) t = Option.bind (test_object te fuel dst obj t) (test_objects te fuel dst objs)"

subsection \<open>Labels and tests\<close>

fun test_symbols ::
  "(string \<rightharpoonup> string) \<Rightarrow> string \<Rightarrow> recompiled \<Rightarrow> (string \<rightharpoonup> string) \<times> string list \<Rightarrow> ((string \<rightharpoonup> string) \<times> string list) option" where
  "test_symbols input src [] (syms, console) = Some (syms, console)"
| "test_symbols input src ((fn, addr) # m) (syms, console) =
     (case input (src @ ''/'' @ fn @ ''.dis'') of
        None \<Rightarrow> test_symbols input src m (syms, console @ [''Unable to locate disassembly file for '' @ fn])
      | Some text \<Rightarrow>
          Option.bind (dis_file fn addr (open_stream text) syms) (\<lambda>syms. test_symbols input src m (syms, console)))"

fun test_bodies :: "(string \<rightharpoonup> string) \<Rightarrow> string \<Rightarrow> (string \<rightharpoonup> string) \<Rightarrow> recompiled \<Rightarrow> (string \<times> string list \<times> string list) option" where
  "test_bodies input src syms [] = Some ([], [], [])"
| "test_bodies input src syms ((fn, addr) # m) =
     do { (t, names, msgs) \<leftarrow>
            (case input (src @ ''/../'' @ fn @ ''.s'') of
               None \<Rightarrow> Some ([], [], [''Unable to locate source file for '' @ fn])
             | Some text \<Rightarrow> test_file syms (open_stream text));
          (ts, names', msgs') \<leftarrow> test_bodies input src syms m;
          Some (t @ ts, names @ names', msgs @ msgs') }"

definition check_macro :: "string \<Rightarrow> string \<Rightarrow> string" where
  "check_macro k spec =
     println (println (''#define PPC_CHECK_VALUE_'' @ k @ ''(f, lhs, rhs) if (lhs != rhs) fmt::println(#f '' @ quoted '' ''
       @ '' #lhs '' @ quoted '' EXPECTED '' @ '' #rhs '' @ quoted ('' ACTUAL '' @ spec) @ '', lhs)''))"

definition harness_head :: string where
  "harness_head =
     println ''#define PPC_CONFIG_H_INCLUDED'' @ println ''#include <ppc_context.h>'' @ println ''#ifdef _WIN32''
     @ println ''#include <Windows.h>'' @ println ''#else'' @ println ''#include <sys/mman.h>'' @ println ''#endif''
     @ println (println ''#include <fmt/core.h>'') @ check_macro ''U'' ''{:X}'' @ check_macro ''F'' ''{}''"

definition harness_main :: "string list \<Rightarrow> string" where
  "harness_main names =
     println ''int main() {'' @ println ''#ifdef _WIN32''
     @ println (tab @ ''uint8_t* base = reinterpret_cast<uint8_t*>(VirtualAlloc(nullptr, 0x100000000ull, MEM_RESERVE | MEM_COMMIT, PAGE_READWRITE));'')
     @ println ''#else''
     @ println (tab @ ''uint8_t* base = reinterpret_cast<uint8_t*>(mmap(NULL, 0x100000000ull, PROT_READ | PROT_WRITE, MAP_ANON | MAP_PRIVATE, -1, 0));'')
     @ println ''#endif'' @ concat (map (\<lambda>name. tab @ name @ ''(base);'' @ nl) names)
     @ println (tab @ ''return 0;'') @ println ''}''"

definition RecompileTests ::
  "'h test_env \<Rightarrow> nat \<Rightarrow> (string \<rightharpoonup> string) \<Rightarrow> bool \<Rightarrow> string \<Rightarrow> string \<Rightarrow> (string \<times> bytes) list \<Rightarrow> files \<Rightarrow> tests option" where
  "RecompileTests te fuel input can_open src dst objs fs =
     do { t \<leftarrow> test_objects te fuel dst objs \<lparr>ts_files = fs, ts_recompiled = [], ts_console = []\<rparr>;
          (syms, console) \<leftarrow> test_symbols input src (ts_recompiled t) (\<lambda>_. None, ts_console t);
          (text, names, msgs) \<leftarrow> (if can_open then test_bodies input src syms (ts_recompiled t) else None);
          Some (t\<lparr>ts_files := (ts_files t)(dst @ ''/main.cpp'' \<mapsto> harness_head @ text @ harness_main names),
                  ts_console := console @ msgs\<rparr>) }"


subsection \<open>Functions have the name of their test\<close>

text \<open>Every function of the list is found in the table under the name that its base gives it.\<close>

definition proper :: "FunctionRange \<Rightarrow> bool" where
  "proper fn = (fn_base fn < fn_base fn + fn_size fn)"

definition named_after :: "string \<Rightarrow> analysed \<Rightarrow> bool" where
  "named_after stem s =
     (table_sorted (symbols s)
      \<and> (\<forall>fn \<in> set (found_functions s). proper fn \<longrightarrow>
           map_option sym_name (find_symbol (fn_base fn) (symbols s)) = Some (target_name stem (fn_base fn))))"

lemma find_emplace_uncovered:
  assumes "table_sorted syms" "\<not> covers_base s"
  shows "find_symbol a (emplace s syms) = find_symbol a syms"
  using assms by (simp add: find_symbol_eq equal_range_emplace)

lemma named_after_add:
  assumes "named_after stem s"
  shows "named_after stem (add_function (target_name stem b) b n s)"
proof -
  let ?t = "\<lparr>sym_name = target_name stem b, sym_address = b, sym_size = n, sym_type = Symbol_Function\<rparr>"
  have sorted: "table_sorted (symbols s)" using assms by (simp add: named_after_def)
  have "map_option sym_name (find_symbol (fn_base fn) (emplace ?t (symbols s))) = Some (target_name stem (fn_base fn))"
    if fn: "fn \<in> set (found_functions s) \<or> fn = \<lparr>fn_base = b, fn_size = n\<rparr>" "proper fn" for fn
  proof (cases "fn_base fn = b \<and> covers_base ?t")
    case True
    then show ?thesis using find_emplace_same [OF sorted, of ?t] by simp
  next
    case False
    then have "fn \<in> set (found_functions s)" using fn by (auto simp: proper_def covers_base_def)
    then have old: "map_option sym_name (find_symbol (fn_base fn) (symbols s)) = Some (target_name stem (fn_base fn))"
      using assms fn(2) by (auto simp: named_after_def)
    show ?thesis
      using False old find_emplace_other [OF sorted, of ?t "fn_base fn"] find_emplace_uncovered [OF sorted, of ?t "fn_base fn"] by auto
  qed
  note new = this this [of "\<lparr>fn_base = b, fn_size = n\<rparr>"]
  show ?thesis
    using emplace_sorted [OF sorted, of ?t] new
    by (auto simp: named_after_def add_function_def simp del: map_option_eq_Some)
qed

lemma test_sweep_named:
  "test_sweep fuel e stem dataEnd base ptr s = Some s' \<Longrightarrow> named_after stem s \<Longrightarrow> named_after stem s'"
proof (induction fuel arbitrary: base ptr s)
  case 0
  then show ?case by (auto simp: test_sweep.simps split: if_splits)
next
  case (Suc n)
  then show ?case
    by (subst (asm) test_sweep.simps) (auto split: if_splits option.splits intro: named_after_add)
qed

lemma test_sections_named:
  "test_sections fuel e stem secs s = Some s' \<Longrightarrow> named_after stem s \<Longrightarrow> named_after stem s'"
  by (induction secs arbitrary: s) (auto simp: Option.bind_eq_Some_conv split: if_splits dest: test_sweep_named)

lemma ParseImage_sorted: "ParseImage env bs = Some (img, buf) \<Longrightarrow> table_sorted (img_symbols img)"
proof -
  have m: "map_elf_sections bs st off n i = Some j \<Longrightarrow> img_symbols j = img_symbols i" for bs st off n i j
    by (induction n arbitrary: off i)
       (auto simp: map_elf_section_def Image_Map_def Option.bind_eq_Some_conv Let_def split: if_splits)
  then have "ElfLoadImage bs = Some (img, buf) \<Longrightarrow> img_symbols img = []"
    by (auto simp: ElfLoadImage_def Option.bind_eq_Some_conv dest!: m)
  then show "ParseImage env bs = Some (img, buf) \<Longrightarrow> ?thesis"
    using loaded_image_ok [of env bs img buf]
    by (auto simp: ParseImage_def Option.bind_eq_Some_conv table_sorted_def empty_image_def split: if_splits)
qed

lemma TestAnalyse_named:
  assumes "TestAnalyse fuel e stem img = Some s" "table_sorted (img_symbols img)" "\<And>fs. set (ae_sort_fns e fs) = set fs"
  shows "named_after stem s"
proof -
  obtain s1 where s1: "test_sections fuel e stem (img_sections img) \<lparr>found_functions = [], symbols = img_symbols img\<rparr> = Some s1"
    "s = found_functions_update (ae_sort_fns e) s1"
    using assms(1) by (auto simp: TestAnalyse_def)
  have "named_after stem s1" by (rule test_sections_named [OF s1(1)]) (use assms(2) in \<open>simp add: named_after_def\<close>)
  then show ?thesis by (simp add: s1(2) named_after_def assms(3))
qed

subsection \<open>Targets are recompiled functions\<close>

definition has_base :: "recompiled \<Rightarrow> string \<Rightarrow> u64 \<Rightarrow> bool" where
  "has_base m k x = (\<exists>A. (k, A) \<in> set m \<and> x \<in> A)"

lemma has_base_simps [simp]:
  "\<not> has_base [] k x" "has_base ((j, A) # m) k x = (k = j \<and> x \<in> A \<or> has_base m k x)"
  by (auto simp: has_base_def)

lemma has_base_add: "has_base (add_base stem a m) k x = (k = stem \<and> x = a \<or> has_base m k x)"
proof (induction m)
  case (Cons p m)
  then show ?case by (cases p) auto
qed simp

lemma record_results_base:
  "has_base (ts_recompiled (fold (record_result stem) rs t)) k x \<Longrightarrow>
     has_base (ts_recompiled t) k x \<or> k = stem \<and> (\<exists>r \<in> set rs. fst (snd r) \<and> fn_base (fst r) = x)"
proof (induction rs arbitrary: t)
  case (Cons r rs)
  have "has_base (ts_recompiled (record_result stem r t)) k x \<Longrightarrow>
      has_base (ts_recompiled t) k x \<or> k = stem \<and> fst (snd r) \<and> fn_base (fst r) = x"
    by (auto simp: record_result_def has_base_add split: if_splits)
  then show ?case using Cons.IH [of "record_result stem r t"] Cons.prems by auto
qed simp

lemma dis_line_targets:
  assumes "dis_line stem addresses l syms = Some syms'" "syms' name = Some target"
  shows "syms name = Some target \<or> (\<exists>a \<in> addresses. target = target_name stem a)"
  using assms by (auto simp: dis_line_def Let_def split: if_splits)

lemma dis_file_targets:
  "dis_file stem addresses s syms = Some syms' \<Longrightarrow> syms' name = Some target \<Longrightarrow>
     syms name = Some target \<or> (\<exists>a \<in> addresses. target = target_name stem a)"
proof (induction "left s" arbitrary: s syms rule: less_induct)
  case less
  obtain ok s1 where g: "getline s = (ok, s1)" by fastforce
  show ?case
  proof (cases ok)
    case True
    then obtain syms1 where s1: "dis_line stem addresses (st_str s1) syms = Some syms1" "dis_file stem addresses s1 syms1 = Some syms'"
      using less.prems(1) g by (subst (asm) dis_file.simps) (auto simp: Option.bind_eq_Some_conv)
    have "left s1 < left s" using getline_left(1) g True by simp
    then show ?thesis using less.hyps [OF _ s1(2) less.prems(2)] dis_line_targets [OF s1(1)] by blast
  next
    case False
    then show ?thesis using less.prems g by (subst (asm) dis_file.simps) simp
  qed
qed

lemma test_symbols_targets:
  "test_symbols input src m (syms, console) = Some (syms', console') \<Longrightarrow> syms' name = Some target \<Longrightarrow>
     syms name = Some target \<or> (\<exists>k x. has_base m k x \<and> target = target_name k x)"
proof (induction m arbitrary: syms console)
  case (Cons p m)
  obtain fn addr where p: "p = (fn, addr)" by fastforce
  show ?case
  proof (cases "input (src @ ''/'' @ fn @ ''.dis'')")
    case None
    then have "test_symbols input src m (syms, console @ [''Unable to locate disassembly file for '' @ fn]) = Some (syms', console')"
      using Cons.prems(1) p by simp
    from Cons.IH [OF this Cons.prems(2)] show ?thesis by (auto simp: p)
  next
    case (Some content)
    then obtain syms1 where s1: "dis_file fn addr (open_stream content) syms = Some syms1"
      "test_symbols input src m (syms1, console) = Some (syms', console')"
      using Cons.prems(1) p by (auto simp: Option.bind_eq_Some_conv)
    then show ?thesis using Cons.IH [OF s1(2) Cons.prems(2)] dis_file_targets [OF s1(1)] by (auto simp: p)
  qed
qed simp


text \<open>
  Where a function with the name \<open>target\<close> comes from: an object file, one of the functions found in it
  that was recompiled, and its definition in the file written for the object, if the function does not wrap around
  the address space.
\<close>

definition recompiled_as :: "'h test_env \<Rightarrow> nat \<Rightarrow> string \<Rightarrow> (string \<times> bytes) list \<Rightarrow> files \<Rightarrow> string \<Rightarrow> u64 \<Rightarrow> bool" where
  "recompiled_as te fuel dst objs fs stem x =
     (\<exists>content img bs s fn.
        (stem, content) \<in> set objs \<and> ParseImage (te_load te) content = Some (img, bs)
        \<and> TestAnalyse fuel (object_env te bs dst) stem img = Some s
        \<and> fn \<in> set (found_functions s) \<and> fn_base fn = x
        \<and> fst (recompile_function (object_renv te img bs dst (symbols s)) fn)
        \<and> (proper fn \<longrightarrow> (\<exists>pre post. fs (dst @ ''/'' @ stem @ ''.cpp'')
              = Some (pre @ ''PPC_FUNC_IMPL(__imp__'' @ target_name stem x @ '') {'' @ post))))"

lemma function_text_names:
  "\<exists>pre post. snd (recompile_function e fn) = pre @ ''PPC_FUNC_IMPL(__imp__'' @ function_name e fn @ '') {'' @ post"
proof -
  obtain p where p: "function_head e (function_name e fn) = p @ ''PPC_FUNC_IMPL(__imp__'' @ function_name e fn @ '') {'' @ nl @ tab @ ''PPC_FUNC_PROLOGUE();'' @ nl"
    unfolding function_head_def by blast
  show ?thesis unfolding recompile_function_def Let_def snd_conv p
    by (rule exI [of _ "hook_externs e fn @ p"], rule exI [of _ "nl @ tab @ ''PPC_FUNC_PROLOGUE();'' @ nl
          @ decl_text (declared (locs (snd (recompile_body e fn)))) @ body_text (out (snd (recompile_body e fn)))
          @ function_tail e (function_name e fn)"]) (simp only: append_assoc)
qed

lemma object_text_part:
  assumes "r \<in> set rs"
  shows "\<exists>pre post. object_text rs = pre @ snd (snd r) @ post"
proof -
  obtain xs ys where rs: "rs = xs @ r # ys" using split_list [OF assms] by blast
  show ?thesis unfolding object_text_def rs map_append list.map concat_append concat.simps
    by (rule exI [of _ "object_head @ concat (map (\<lambda>r. snd (snd r)) xs)"], rule exI [of _ "concat (map (\<lambda>r. snd (snd r)) ys)"])
       (simp only: append_assoc)
qed

lemma files_record_results [simp]: "ts_files (fold (record_result stem) rs t) = ts_files t"
  by (induction rs arbitrary: t) (simp_all add: record_result_def)

lemma test_object_recompiled:
  assumes "test_object te fuel dst (stem, content) t = Some t'" "collision_free (te_hash te)" "\<And>fs. set (te_sort_fns te fs) = set fs"
    and "has_base (ts_recompiled t') k x" "\<not> has_base (ts_recompiled t) k x"
  shows "k = stem \<and> recompiled_as te fuel dst [(stem, content)] (ts_files t') k x"
proof -
  obtain img bs s where p: "ParseImage (te_load te) content = Some (img, bs)" "TestAnalyse fuel (object_env te bs dst) stem img = Some s"
    and t': "t' = (fold (record_result stem) (object_results (object_renv te img bs dst (symbols s)) (found_functions s)) t)
      \<lparr>ts_files := dr_files (SaveCurrentOutData (te_hash te) (default_config dst) (stem @ ''.cpp'')
         \<lparr>dr_out = object_text (object_results (object_renv te img bs dst (symbols s)) (found_functions s)), dr_index = 0,
          dr_files = ts_files t\<rparr>)\<rparr>"
    using assms(1) by (auto simp: test_object_def Option.bind_eq_Some_conv Let_def)
  let ?re = "object_renv te img bs dst (symbols s)"
  let ?rs = "object_results ?re (found_functions s)"
  have "has_base (ts_recompiled (fold (record_result stem) ?rs t)) k x" using assms(4) by (simp add: t')
  from record_results_base [OF this] assms(5) obtain r where r: "k = stem" "r \<in> set ?rs" "fst (snd r)" "fn_base (fst r) = x" by blast
  then obtain fn where fn: "fn \<in> set (found_functions s)" "r = (fn, recompile_function ?re fn)" by (auto simp: object_results_def)
  have named: "named_after stem s"
    by (rule TestAnalyse_named [OF p(2) ParseImage_sorted [OF p(1)]]) (simp add: object_env_def assms(3))
  have "function_name ?re fn = target_name stem x" if "proper fn"
    using named that fn r(4) by (auto simp: named_after_def function_name_def object_renv_def)
  moreover have "object_text ?rs \<noteq> []" by (simp add: object_text_def object_head_def println_def)
  then have "ts_files t' (dst @ ''/'' @ stem @ ''.cpp'') = Some (object_text ?rs)"
    by (simp add: t' save_eq [OF assms(2)] file_path_def default_config_def)
  moreover obtain pre post where "object_text ?rs = pre @ snd (recompile_function ?re fn) @ post"
    using object_text_part [OF r(2)] fn(2) by auto
  moreover obtain pre' post' where "snd (recompile_function ?re fn) = pre' @ ''PPC_FUNC_IMPL(__imp__'' @ function_name ?re fn @ '') {'' @ post'"
    using function_text_names by blast
  ultimately have "proper fn \<longrightarrow> (\<exists>pre post. ts_files t' (dst @ ''/'' @ stem @ ''.cpp'')
      = Some (pre @ ''PPC_FUNC_IMPL(__imp__'' @ target_name stem x @ '') {'' @ post))"
    by (metis append_assoc)
  then show ?thesis unfolding recompiled_as_def using p r fn by auto
qed


lemma recompiled_as_files:
  assumes "recompiled_as te fuel dst objs fs stem x" "fs' (dst @ ''/'' @ stem @ ''.cpp'') = fs (dst @ ''/'' @ stem @ ''.cpp'')" "set objs \<subseteq> set objs'"
  shows "recompiled_as te fuel dst objs' fs' stem x"
proof -
  from assms(1) obtain content img bs s fn where
    "(stem, content) \<in> set objs" "ParseImage (te_load te) content = Some (img, bs)"
    "TestAnalyse fuel (object_env te bs dst) stem img = Some s" "fn \<in> set (found_functions s)" "fn_base fn = x"
    "fst (recompile_function (object_renv te img bs dst (symbols s)) fn)"
    "proper fn \<longrightarrow> (\<exists>pre post. fs (dst @ ''/'' @ stem @ ''.cpp'')
       = Some (pre @ ''PPC_FUNC_IMPL(__imp__'' @ target_name stem x @ '') {'' @ post))"
    unfolding recompiled_as_def by (elim exE conjE)
  then show ?thesis unfolding recompiled_as_def assms(2) using assms(3) by (intro exI conjI) (rule subsetD)
qed

lemma test_object_files:
  assumes "test_object te fuel dst (stem, content) t = Some t'" "k \<noteq> stem"
  shows "ts_files t' (dst @ ''/'' @ k @ ''.cpp'') = ts_files t (dst @ ''/'' @ k @ ''.cpp'')"
  using assms by (auto simp: test_object_def Option.bind_eq_Some_conv Let_def SaveCurrentOutData_def file_path_def default_config_def)

lemma test_objects_files:
  "test_objects te fuel dst objs t = Some t' \<Longrightarrow> k \<notin> fst ` set objs \<Longrightarrow>
     ts_files t' (dst @ ''/'' @ k @ ''.cpp'') = ts_files t (dst @ ''/'' @ k @ ''.cpp'')"
proof (induction objs arbitrary: t)
  case (Cons obj objs)
  then obtain t1 where t1: "test_object te fuel dst (fst obj, snd obj) t = Some t1" "test_objects te fuel dst objs t1 = Some t'"
    by (auto simp: Option.bind_eq_Some_conv)
  have "ts_files t' (dst @ ''/'' @ k @ ''.cpp'') = ts_files t1 (dst @ ''/'' @ k @ ''.cpp'')"
    by (rule Cons.IH [OF t1(2)]) (use Cons.prems in simp)
  moreover have "ts_files t1 (dst @ ''/'' @ k @ ''.cpp'') = ts_files t (dst @ ''/'' @ k @ ''.cpp'')"
    by (rule test_object_files [OF t1(1)]) (use Cons.prems in simp)
  ultimately show ?case by (rule trans)
qed simp

lemma test_objects_recompiled:
  assumes "collision_free (te_hash te)" "\<And>fs. set (te_sort_fns te fs) = set fs"
  shows "test_objects te fuel dst objs t = Some t' \<Longrightarrow> distinct (map fst objs) \<Longrightarrow>
     has_base (ts_recompiled t') k x \<Longrightarrow> \<not> has_base (ts_recompiled t) k x \<Longrightarrow> recompiled_as te fuel dst objs (ts_files t') k x"
proof (induction objs arbitrary: t)
  case (Cons obj objs)
  then obtain t1 where t1: "test_object te fuel dst (fst obj, snd obj) t = Some t1" "test_objects te fuel dst objs t1 = Some t'"
    by (auto simp: Option.bind_eq_Some_conv)
  show ?case
  proof (cases "has_base (ts_recompiled t1) k x")
    case True
    note found = test_object_recompiled [OF t1(1) assms this Cons.prems(4)]
    have k: "k = fst obj" "recompiled_as te fuel dst [obj] (ts_files t1) k x"
      by (rule conjunct1 [OF found], rule conjunct2 [OF found, unfolded prod.collapse])
    have "ts_files t' (dst @ ''/'' @ k @ ''.cpp'') = ts_files t1 (dst @ ''/'' @ k @ ''.cpp'')"
      using test_objects_files [OF t1(2)] Cons.prems(2) k(1) by simp
    then show ?thesis by (rule recompiled_as_files [where fs = "ts_files t1" and objs = "[obj]", OF k(2)]) simp
  next
    case False
    have "recompiled_as te fuel dst objs (ts_files t') k x"
      using Cons.IH [OF t1(2) _ Cons.prems(3) False] Cons.prems(2) by simp
    then show ?thesis by (rule recompiled_as_files [where fs = "ts_files t'"]) auto
  qed
qed simp

subsection \<open>Property\<close>


subsection \<open>Example\<close>

text \<open>An object file of one section with one unknown instruction at the address \<open>0x100\<close>.\<close>

definition ex_object :: bytes where
  "ex_object = [0x7F, 0x45, 0x4C, 0x46] @ replicate 28 0 @ [0, 0, 0, 52] @ replicate 12 0 @ [0, 2, 0, 1] @ replicate 40 0
     @ [0, 0, 0, 1, 0, 0, 0, 1, 0, 0, 0, 4, 0, 0, 1, 0, 0, 0, 0, 132, 0, 0, 0, 4] @ replicate 16 0 @ [0, 0x61, 0, 9]"

definition ex_test_env :: "string test_env" where
  "ex_test_env = \<lparr>te_load = undefined, te_dis = (\<lambda>w a. \<lparr>pi_opcode = None, pi_operands = (\<lambda>_. 0), pi_op_str = ''''\<rparr>),
     te_alias = False, te_sort = sort_key blk_base, te_sort_fns = sort_key fn_base, te_fuel = 5, te_hash = (\<lambda>s. s), te_beyond = (\<lambda>_. 0)\<rparr>"

lemma ex_object_length: "length ex_object = 136" by (simp add: ex_object_def)

lemma ex_object_bytes:
  "bytes_at ex_object 24 4 = Some [0, 0, 0, 0]" "bytes_at ex_object 28 4 = Some [0, 0, 0, 0]" "bytes_at ex_object 32 4 = Some [0, 0, 0, 52]"
  "bytes_at ex_object 44 2 = Some [0, 0]" "bytes_at ex_object 48 2 = Some [0, 2]" "bytes_at ex_object 50 2 = Some [0, 1]"
  "bytes_at ex_object 56 4 = Some [0, 0, 0, 0]" "bytes_at ex_object 92 4 = Some [0, 0, 0, 1]" "bytes_at ex_object 96 4 = Some [0, 0, 0, 1]"
  "bytes_at ex_object 100 4 = Some [0, 0, 0, 4]" "bytes_at ex_object 104 4 = Some [0, 0, 1, 0]" "bytes_at ex_object 108 4 = Some [0, 0, 0, 132]"
  "bytes_at ex_object 112 4 = Some [0, 0, 0, 4]" "c_string ex_object 133 = Some ''a''" "drop 132 ex_object = [0, 0x61, 0, 9]"
  by (simp_all add: ex_object_def bytes_at_def c_string_def char_of_def bit_0) (simp_all add: numeral_eq_Suc)

definition ex_object_image :: Image where
  "ex_object_image = \<lparr>img_base = 0, img_size = 136, img_entry_point = 0,
     img_sections = [\<lparr>sec_name = ''a'', sec_base = 0x100, sec_size = 4, sec_code = True, sec_data = [0, 0x61, 0, 9]\<rparr>], img_symbols = []\<rparr>"

lemma ex_object_loads: "ElfLoadImage ex_object = Some (ex_object_image, ex_object)"
proof -
  have two: "map_elf_sections bs st off 2 img = map_elf_sections bs st off (Suc (Suc 0)) img" for bs st off img
    by (simp only: numeral_2_eq_2)
  show ?thesis
    by (simp add: ElfLoadImage_def be32_def be16_def ex_object_bytes two map_elf_section_def PT_LOAD_def SHF_EXECINSTR_def
        Image_Map_def ex_object_image_def ex_object_length)
qed

lemma ex_words: "host_word ex_test_env ex_object 132 = 0x09006100" "host_word ex_test_env ex_object 136 = 0"
proof -
  have "bytes_at ex_object 132 4 = Some [0, 0x61, 0, 9]" "bytes_at ex_object 136 4 = None"
    by (simp_all add: bytes_at_def ex_object_bytes ex_object_length)
  then have "be32 ex_object 132 = Some 0x00610009" "be32 ex_object 136 = None"
    by (simp_all add: be32_def)
  then show "host_word ex_test_env ex_object 132 = 0x09006100" "host_word ex_test_env ex_object 136 = 0"
    by (simp_all add: host_word_def ex_test_env_def ByteSwap32_def)
qed

lemma one_instruction:
  assumes "an_word a 132 = 0x09006100" "an_word a 136 = 0" "an_opcode a = (\<lambda>_ _. False)" "an_code a = 132" "an_size a = 4" "an_base a = 0x100"
  shows "Analyze (Suc (Suc n)) f a = Some (4, [\<lparr>blk_base = 0, blk_size = 4, projectedSize = no_projection\<rparr>])"
proof -
  have "analyze_block a (start_analysis a) = \<lparr>blocks = [\<lparr>blk_base = 0, blk_size = 4, projectedSize = no_projection\<rparr>], blockStack = [], data = 132\<rparr>"
    by (simp add: analyze_block_def start_analysis_def assms Let_def map_block_def ByteSwap32_def PPC_OP_def PPC_OP_BC_def PPC_OP_B_def
        PPC_OP_CTR_def RESTORE_DATA_def pop_block_def)
  then show ?thesis
    by (simp add: Analyze_def analyze_loop.simps assms start_analysis_def Let_def extent_def)
qed

lemma ex_analyze: "analyze_at (object_env ex_test_env ex_object ''d'') 132 4 0x100 = Some 4"
proof -
  let ?e = "object_env ex_test_env ex_object ''d''"
  let ?a = "\<lparr>an_code = 132, an_size = 4, an_base = 0x100, an_word = ae_word ?e, an_opcode = ae_opcode ?e\<rparr>"
  have "ae_word ?e = host_word ex_test_env ex_object" "ae_opcode ?e = (\<lambda>_ _. False)" "ae_fuel ?e = Suc (Suc 3)"
    by (simp_all add: object_env_def) (simp_all add: ex_test_env_def)
  then show ?thesis using one_instruction [of ?a 3 "ae_sort ?e"] ex_words by (simp add: analyze_at_def)
qed

lemma undecoded_recompiled:
  assumes "\<And>w a. pi_opcode (re_dis e w a) = None"
  shows "fst (recompile_function e fn)"
proof -
  have "fst (fold (recompile_at e fn labels) as s) = fst s" for labels "as" s
    by (induction "as" arbitrary: s) (simp_all add: recompile_at_def decoded_at_def assms Let_def)
  then show ?thesis by (simp add: recompile_function_def recompile_body_def Let_def)
qed

definition ex_found :: analysed where
  "ex_found = \<lparr>found_functions = [\<lparr>fn_base = 0x100, fn_size = 4\<rparr>],
     symbols = [\<lparr>sym_name = ''t_100'', sym_address = 0x100, sym_size = 4, sym_type = Symbol_Function\<rparr>]\<rparr>"

lemma ex_name: "target_name ''t'' 0x100 = ''t_100''"
  by (simp add: target_name_def hex_string_def radix_string.simps digit_char_def char_of_def bit_0)

lemma ex_found_functions: "TestAnalyse (Suc (Suc 0)) (object_env ex_test_env ex_object ''d'') ''t'' ex_object_image = Some ex_found"
proof -
  let ?e = "object_env ex_test_env ex_object ''d''"
  have "ae_word ?e = host_word ex_test_env ex_object" "ae_data ?e \<lparr>sec_name = ''a'', sec_base = 0x100, sec_size = 4, sec_code = True, sec_data = [0, 0x61, 0, 9]\<rparr> = 132"
    "ae_sort_fns ?e = sort_key fn_base"
    by (simp_all add: object_env_def ex_object_length) (simp add: ex_test_env_def)
  then show ?thesis
    by (simp add: TestAnalyse_def ex_object_image_def test_sweep.simps ex_words ex_analyze add_function_def ex_name ex_found_def)
qed

lemma ex_parse: "ParseImage env ex_object = Some (ex_object_image, ex_object)"
proof -
  have "magic_is [0x7F, 0x45, 0x4C, 0x46] ex_object = Some True" by (simp add: ex_object_def)
  then show ?thesis by (simp add: ParseImage_def ex_object_loads)
qed

lemma ex_objects:
  "\<exists>t. test_objects ex_test_env (Suc (Suc 0)) ''d'' [(''t'', ex_object)] \<lparr>ts_files = fs, ts_recompiled = [], ts_console = []\<rparr> = Some t
     \<and> ts_recompiled t = [(''t'', {0x100})]"
proof -
  let ?re = "object_renv ex_test_env ex_object_image ex_object ''d'' (symbols ex_found)"
  have "fst (recompile_function ?re fn)" for fn
    by (rule undecoded_recompiled) (simp add: object_renv_def ex_test_env_def)
  then show ?thesis
    by (simp add: test_object_def ex_parse ex_found_functions Let_def object_results_def record_result_def) (simp add: ex_found_def record_result_def)
qed

lemma ex_label: "dis_line ''t'' {0x100} ''00000100 <add>:'' (\<lambda>_. None) = Some [''add'' \<mapsto> ''t_100'']"
proof -
  let ?l = "''00000100 <add>:''"
  have "find_char (CHR '' '') ?l 0 = 8" "find_char (CHR ''>'') ?l 0 = 13" by (simp_all add: find_char_def begins_def)
  moreover have "substr ?l 10 3 = Some ''add''" by (simp add: substr_def)
  moreover have "from_chars_16 (take 8 ?l) AND 0xFFFFF = 0x100" by (simp add: from_chars_16_def hex_value_def Let_def)
  ultimately show ?thesis by (simp add: dis_line_def ex_name)
qed

lemma ex_symbols:
  "test_symbols [''s/t.dis'' \<mapsto> ''00000100 <add>:''] ''s'' [(''t'', {0x100})] (\<lambda>_. None, []) = Some ([''add'' \<mapsto> ''t_100''], [])"
proof -
  let ?l = "''00000100 <add>:''"
  have "getline (open_stream ?l) = (True, \<lparr>st_rest = [], st_good = False, st_str = ?l\<rparr>)"
    by (simp add: getline_def open_stream_def newline_def)
  then have "dis_file ''t'' {0x100} (open_stream ?l) (\<lambda>_. None) = Some [''add'' \<mapsto> ''t_100'']"
    by (simp add: dis_file.simps ex_label) (simp add: getline_def)
  then show ?thesis by simp
qed


end
