(* ===== verification/Spec2Isabelle.thy ===== *)
theory Spec2Isabelle
  imports Examples InsnCorrect Runtime Driver Config Imports VectorLoad VectorFloat Fpscr SwitchScan StartupTrace Xdbf MappedFile TestRecompiler
begin

text \<open>
  The recompiler of this repository translates the PowerPC code of a console executable to C++,
  and a small native runtime executes the result. Paths below are relative to
  \<open>src/tools/XenonRecomp-ufc\<close> (the recompiler) and \<open>src/src/native\<close> (the runtime).

  The parts and how they call each other. \<open>XenonRecomp/main.cpp\<close> loads a configuration, lets
  \<open>Recompiler::Analyse\<close> find the functions of the image with the help of
  \<open>Function::Analyze\<close> and the symbol table, and prints the program: \<open>Recompile(headerFilePath)\<close>
  calls \<open>Recompile(fn)\<close> for every function, which calls \<open>Recompile(fn, base, insn, ...)\<close> for
  every instruction. The printed program is compiled against \<open>ppc_context.h\<close> and started by
  the runtime's \<open>main.cpp\<close>, which builds the address space and the function table of
  \<open>memory.cpp\<close>; its calls of console imports reach the handlers in \<open>imports\<close>.

  Theories and the code they model.
  \<^item> Prelude: word types, decimal and hexadecimal rendering, format strings.
  \<^item> Cpp: the fragment of C++ that the recompiler prints, as syntax with a printer. The text
    model agrees with the code's output up to blanks and leading zeros of hexadecimal literals.
  \<^item> Mask, Emit, EmitInt, EmitMem, EmitVec, RecompInsn: the instruction recompiler, one function
    per run of \<open>case\<close> labels, with the record \<open>estate\<close> for the state that the lambdas of the
    source share (output, local variables, flush mode, pending switch table, diagnostics).
  \<^item> Recomp: a whole function. Symbols: symbol table, section map, image.
  \<^item> FunctionAnalysis: \<open>Function::SearchBlock\<close> and \<open>Function::Analyze\<close>; Analyse:
    \<open>Recompiler::Analyse\<close>; Driver: the generated files and \<open>main\<close>.
  \<^item> CppSem, CppEval: the meaning of the printed C++ (values at the width of their type, None for
    undefined behaviour), which is the model of the registers and macros of \<open>ppc_context.h\<close>.
  \<^item> Ppc: the Power ISA reference of the integer instructions.
  \<^item> Alloc, GuestMem, Runtime: the native runtime: allocators, guest memory, function table,
    critical sections, small imports, start-up.

  What the lemmas show. EmitShape, Labels and FunctionProps: every \<open>goto\<close> of a generated
  function has its label, every local register is declared once, and the flush mode the recompiler
  tracks is the mode of the host on every path. ExecRules, Rotate, IntCorrect, CmpCorrect,
  ShiftCorrect and InsnCorrect: running the emitted lines refines the reference, with the exact
  conditions under which they do. FunctionAnalysis: the analysis ends, and the size it finds is
  the gap-free extent of the blocks. Analyse: functions and symbols correspond, the sweep covers
  every byte of a code section, and direct calls reach named functions. Driver: every function is
  written once. Alloc and Runtime: blocks are disjoint, mutual exclusion, table lookup, start-up.

  Interfaces are locales: \<open>symbol_map\<close> (Symbols), \<open>bump_allocator\<close> and \<open>page_allocator\<close> (Alloc)
  and \<open>cell_memory\<close> (GuestMem); each is interpreted on the model's own definitions.

  Fuel. \<open>analyze_loop\<close> takes one unit per turn and \<open>(size + 6)\<^sup>2\<close> units are enough
  (\<open>Analyze_terminates\<close>); \<open>sweep\<close> takes one unit per function or invalid word.

  Not modelled. The disassembler, the hash, the cipher, the decompressor and the TOML parser are
  vendored: they are arguments. The floating-point and vector lines are emitted exactly but have
  no semantics here, as they rest on the intrinsics of the host. Host services (virtual memory,
  clock, thread-local storage, files) are arguments. The tracing wrappers of \<open>src/rexglue\<close> and the
  reporters of the runtime only produce diagnostics.
\<close>

end
